(* ===== verification/Prelude.thy ===== *)
theory Prelude
  imports Main "HOL-Library.Word" "HOL-Library.List_Lexorder" "HOL-Library.Product_Lexorder"
    "HOL-Library.Multiset"
begin

text \<open>
  The vocabulary shared by every component: the Python exception classes the engine raises,
  computations that may raise (\<open>'a res\<close>), Python strings as sequences of code points, the
  character classes the validators test, and the list lemmas the component proofs rest on.

  Only the class of an exception is kept, never its message: no handler of the modelled code
  reads a message.
\<close>

section \<open>Exceptions and computations that may raise\<close>

datatype exn =
    TypeError
  | ValueError
  | UnicodeEncodeError
  | OverflowError
  | AttributeError
  | KeyError
  | PackageBudgetExceeded
  | TokenizerUnavailable
  | UnsupportedCapability
  | PolicyEpochAuthorityUnavailable
  | PolicyEpochPortFailure
  | InvalidTrustedScopeSnapshot
  | RuntimeConfigurationError
  | MaterializedScopeUnavailable
  | MaterializedCandidateDiscoveryUnavailable
  | CandidateIndexUnavailable
  | ActiveReleaseUnavailable
  | FragmentWindowNotAvailable
  | CitationLocatorNotAvailable
  | CitationAuthorityUnavailable
  | ContextRunPersistenceUnavailable
  | DeliveryEvidenceNotAvailable
  | DeliveryEvidenceAuthorityUnavailable
  | EgressGrantNotAvailable
  | EgressGrantIssuanceUnavailable
  | EgressGrantAuthorityUnavailable
  | TicketNotAvailable
  | TransportAuthenticationFailed
  | TrustedAuthorityUnavailable
  | OtherException

text \<open>What an \<open>except ValueError\<close> clause catches: the class and its subclasses.\<close>

fun is_value_error :: "exn \<Rightarrow> bool" where
  "is_value_error ValueError = True"
| "is_value_error UnicodeEncodeError = True"
| "is_value_error InvalidTrustedScopeSnapshot = True"
| "is_value_error _ = False"

type_synonym 'a res = "exn + 'a"

text \<open>Sequencing: an exception of the first computation skips the rest.\<close>

definition bnd :: "'a res \<Rightarrow> ('a \<Rightarrow> 'b res) \<Rightarrow> 'b res" where
  "bnd m f = (case m of Inl e \<Rightarrow> Inl e | Inr x \<Rightarrow> f x)"

text \<open>A loop that runs a check on every element and stops at the first exception.\<close>

fun each :: "('a \<Rightarrow> 'b res) \<Rightarrow> 'a list \<Rightarrow> unit res" where
  "each f [] = Inr ()"
| "each f (x # xs) = bnd (f x) (\<lambda>_. each f xs)"

text \<open>A comprehension whose body may raise.\<close>

fun mapr :: "('a \<Rightarrow> 'b res) \<Rightarrow> 'a list \<Rightarrow> 'b list res" where
  "mapr f [] = Inr []"
| "mapr f (x # xs) = bnd (f x) (\<lambda>y. bnd (mapr f xs) (\<lambda>ys. Inr (y # ys)))"

definition returns :: "'a res \<Rightarrow> bool" where
  "returns m \<longleftrightarrow> (\<exists>x. m = Inr x)"

named_theorems validators
  \<open>characterisations of the validators: when a check returns, and what\<close>

lemma bnd_Inl [simp]: "bnd (Inl e) f = Inl e"
  and bnd_Inr [simp]: "bnd (Inr x) f = f x"
  by (simp_all add: bnd_def)

lemma bnd_eq_Inr [simp]: "bnd m f = Inr y \<longleftrightarrow> (\<exists>x. m = Inr x \<and> f x = Inr y)"
  by (cases m) simp_all

lemma bnd_eq_Inl: "bnd m f = Inl e \<longleftrightarrow> m = Inl e \<or> (\<exists>x. m = Inr x \<and> f x = Inl e)"
  by (cases m) simp_all

lemma bnd_assoc: "bnd (bnd m f) g = bnd m (\<lambda>x. bnd (f x) g)"
  by (cases m) simp_all

lemma bnd_cong [fundef_cong]:
  "m = m' \<Longrightarrow> (\<And>x. m' = Inr x \<Longrightarrow> f x = f' x) \<Longrightarrow> bnd m f = bnd m' f'"
  by (cases m') (simp_all add: bnd_def)

lemma if_raise_eq_Inr [simp]:
  "(if b then Inl e else m) = Inr y \<longleftrightarrow> \<not> b \<and> m = Inr y"
  by simp

lemma each_eq_Inr [simp]: "each f xs = Inr () \<longleftrightarrow> (\<forall>x \<in> set xs. \<exists>y. f x = Inr y)"
  by (induction xs) auto

lemma each_returns [simp]: "each f xs = Inr w \<longleftrightarrow> (\<forall>x \<in> set xs. \<exists>y. f x = Inr y)"
  using each_eq_Inr [of f xs] by simp

lemma mapr_eq_Inr:
  "mapr f xs = Inr ys \<longleftrightarrow> list_all2 (\<lambda>x y. f x = Inr y) xs ys"
  by (induction xs arbitrary: ys) (auto simp: list_all2_Cons1)

lemma mapr_length: "mapr f xs = Inr ys \<Longrightarrow> length ys = length xs"
  by (simp add: mapr_eq_Inr list_all2_lengthD)

lemma mapr_total: "(\<And>x. x \<in> set xs \<Longrightarrow> f x = Inr (g x)) \<Longrightarrow> mapr f xs = Inr (map g xs)"
  by (induction xs) simp_all

lemma mapr_mem:
  assumes "mapr f xs = Inr ys" and "y \<in> set ys"
  shows "\<exists>x \<in> set xs. f x = Inr y"
  using assms by (induction xs arbitrary: ys) auto

lemma returns_Inr [simp]: "returns (Inr x)"
  and returns_Inl [simp]: "\<not> returns (Inl e)"
  by (simp_all add: returns_def)

text \<open>The exceptions a computation may raise.\<close>

definition raises_only :: "(exn \<Rightarrow> bool) \<Rightarrow> 'a res \<Rightarrow> bool" where
  "raises_only P r \<longleftrightarrow> (\<forall>e. r = Inl e \<longrightarrow> P e)"

lemma raises_only_simps [simp]: "raises_only P (Inl e) = P e" "raises_only P (Inr x)"
  by (simp_all add: raises_only_def)

lemma raises_only_bnd: "raises_only P m \<Longrightarrow> (\<And>x. m = Inr x \<Longrightarrow> raises_only P (f x)) \<Longrightarrow> raises_only P (bnd m f)"
  by (cases m) (auto simp: raises_only_def)

lemma raises_only_if: "(b \<Longrightarrow> raises_only P x) \<Longrightarrow> (\<not> b \<Longrightarrow> raises_only P y) \<Longrightarrow> raises_only P (if b then x else y)"
  by simp

lemma raises_only_option: "(x = None \<Longrightarrow> raises_only P a) \<Longrightarrow> (\<And>y. x = Some y \<Longrightarrow> raises_only P (f y))
   \<Longrightarrow> raises_only P (case x of None \<Rightarrow> a | Some y \<Rightarrow> f y)"
  by (cases x) auto

lemmas raises = raises_only_bnd raises_only_if raises_only_option

section \<open>Strings as code points\<close>

text \<open>
  A Python \<open>str\<close> is a sequence of code points; \<open>len\<close>, slicing and comparison work on code
  points. \<open>u\<close> turns an ASCII literal into such a sequence.
\<close>

type_synonym str = "nat list"

definition u :: "string \<Rightarrow> str" where
  "u s = map of_char s"

text \<open>The code points for which \<open>str.isspace\<close> holds.\<close>

definition is_space :: "nat \<Rightarrow> bool" where
  "is_space c \<longleftrightarrow> (9 \<le> c \<and> c \<le> 13) \<or> (28 \<le> c \<and> c \<le> 32) \<or> c = 133 \<or> c = 160 \<or> c = 5760
     \<or> (8192 \<le> c \<and> c \<le> 8202) \<or> c = 8232 \<or> c = 8233 \<or> c = 8239 \<or> c = 8287 \<or> c = 12288"

definition str_isspace :: "str \<Rightarrow> bool" where
  "str_isspace s \<longleftrightarrow> s \<noteq> [] \<and> list_all is_space s"

text \<open>The guard \<open>not value or value.isspace()\<close> of the engine's validators.\<close>

definition blank :: "str \<Rightarrow> bool" where
  "blank s \<longleftrightarrow> s = [] \<or> str_isspace s"

lemma blank_iff: "blank s \<longleftrightarrow> list_all is_space s"
  by (auto simp: blank_def str_isspace_def)

definition is_lower :: "nat \<Rightarrow> bool" where
  "is_lower c \<longleftrightarrow> 97 \<le> c \<and> c \<le> 122"

definition is_digit :: "nat \<Rightarrow> bool" where
  "is_digit c \<longleftrightarrow> 48 \<le> c \<and> c \<le> 57"

definition is_hex :: "nat \<Rightarrow> bool" where
  "is_hex c \<longleftrightarrow> is_digit c \<or> (97 \<le> c \<and> c \<le> 102)"

text \<open>The recurring check for a lowercase hexadecimal SHA-256 digest.\<close>

definition is_sha256_hex :: "str \<Rightarrow> bool" where
  "is_sha256_hex s \<longleftrightarrow> length s = 64 \<and> list_all is_hex s"

definition str_startswith :: "str \<Rightarrow> str \<Rightarrow> bool" where
  "str_startswith s p \<longleftrightarrow> take (length p) s = p"

lemma str_startswith_append [simp]: "str_startswith (p @ s) p"
  by (simp add: str_startswith_def)

lemma u_append: "u (a @ b) = u a @ u b"
  by (simp add: u_def)

lemma length_u [simp]: "length (u s) = length s"
  by (simp add: u_def)

section \<open>Lists\<close>

text \<open>
  \<open>dict.fromkeys\<close> order: the first occurrence of every element, the insertion order of a
  Python dict that is filled by iterating over the list.
\<close>

fun first_occurrences :: "'a list \<Rightarrow> 'a list" where
  "first_occurrences [] = []"
| "first_occurrences (x # xs) = x # first_occurrences (filter (\<lambda>y. y \<noteq> x) xs)"

lemma delimited_inject:
  "\<lbrakk>d \<notin> set xs; d \<notin> set ys; xs @ d # r = ys @ d # s\<rbrakk> \<Longrightarrow> xs = ys \<and> r = s"
proof (induction xs arbitrary: ys)
  case Nil
  then show ?case by (cases ys) auto
next
  case (Cons x xs)
  then show ?case by (cases ys) auto
qed

lemma filter_first_occurrences:
  "filter P (first_occurrences xs) = first_occurrences (filter P xs)"
proof (induction xs rule: first_occurrences.induct)
  case (2 x xs)
  have "filter P (filter (\<lambda>y. y \<noteq> x) xs) = filter (\<lambda>y. y \<noteq> x) (filter P xs)"
    by (simp add: conj_commute)
  moreover have "filter (\<lambda>y. y \<noteq> x) (filter P xs) = filter P xs" if "\<not> P x"
    using that by (induction xs) auto
  ultimately show ?case
    using "2.IH" by (auto simp del: filter_filter)
qed simp

lemma set_first_occurrences [simp]: "set (first_occurrences xs) = set xs"
  by (induction xs rule: first_occurrences.induct) auto

lemma distinct_first_occurrences [simp]: "distinct (first_occurrences xs)"
  by (induction xs rule: first_occurrences.induct) auto

lemma length_first_occurrences: "length (first_occurrences xs) = length xs \<longleftrightarrow> distinct xs"
proof -
  have "length (first_occurrences xs) = card (set xs)"
    using distinct_card [OF distinct_first_occurrences, of xs] by simp
  then show ?thesis
    by (metis card_distinct distinct_card)
qed

text \<open>Sums over a list in which one element is replaced.\<close>

lemma sum_list_map_update:
  fixes f :: "'a \<Rightarrow> int"
  shows "i < length xs \<Longrightarrow>
    sum_list (map f (xs[i := x])) = sum_list (map f xs) - f (xs ! i) + f x"
proof (induction xs arbitrary: i)
  case (Cons a xs)
  then show ?case by (cases i) simp_all
qed simp

lemma sum_list_map_nonneg:
  fixes f :: "'a \<Rightarrow> int"
  shows "(\<And>x. x \<in> set xs \<Longrightarrow> 0 \<le> f x) \<Longrightarrow> 0 \<le> sum_list (map f xs)"
  by (induction xs) auto

lemma elem_le_sum_list_map:
  fixes f :: "'a \<Rightarrow> int"
  assumes "\<And>x. x \<in> set xs \<Longrightarrow> 0 \<le> f x" and "i < length xs"
  shows "f (xs ! i) \<le> sum_list (map f xs)"
  using assms
proof (induction xs arbitrary: i)
  case (Cons a xs)
  have "0 \<le> sum_list (map f xs)"
    using Cons.prems by (intro sum_list_map_nonneg) simp
  with Cons show ?case by (cases i) force+
qed simp

text \<open>
  A Python dict as the association list of its items in insertion order: assignment replaces
  the value of an existing key in place and appends a new key; a missing key raises.
\<close>

fun dict_put :: "'k \<Rightarrow> 'v \<Rightarrow> ('k \<times> 'v) list \<Rightarrow> ('k \<times> 'v) list" where
  "dict_put k v [] = [(k, v)]"
| "dict_put k v ((k', v') # d) = (if k' = k then (k, v) # d else (k', v') # dict_put k v d)"

definition dict_get :: "('k \<times> 'v) list \<Rightarrow> 'k \<Rightarrow> 'v \<Rightarrow> 'v" where
  "dict_get d k dflt = (case map_of d k of None \<Rightarrow> dflt | Some v \<Rightarrow> v)"

definition dict_index :: "('k \<times> 'v) list \<Rightarrow> 'k \<Rightarrow> 'v res" where
  "dict_index d k = (case map_of d k of None \<Rightarrow> Inl KeyError | Some v \<Rightarrow> Inr v)"

lemma map_of_dict_put [simp]: "map_of (dict_put k v d) = (map_of d)(k \<mapsto> v)"
  by (induction d) auto

lemma keys_dict_put:
  "map fst (dict_put k v d) = (if k \<in> set (map fst d) then map fst d else map fst d @ [k])"
  by (induction d rule: dict_put.induct) (simp_all split: if_splits)

lemma set_keys_dict_put [simp]: "fst ` set (dict_put k v d) = insert k (fst ` set d)"
proof -
  have "set (map fst (dict_put k v d)) = insert k (set (map fst d))"
    unfolding keys_dict_put by auto
  then show ?thesis by simp
qed

lemma distinct_keys_dict_put [simp]:
  "distinct (map fst d) \<Longrightarrow> distinct (map fst (dict_put k v d))"
  unfolding keys_dict_put by simp

text \<open>
  Sorting by a key that tells the elements apart: an element's place is the number of elements
  with a smaller key, so it depends neither on the order of the input nor on the keys
  themselves, only on how they compare.
\<close>

lemma sort_key_place:
  fixes k :: "'a \<Rightarrow> 'b :: linorder"
  assumes "distinct xs" "inj_on k (set xs)" "i < length xs"
  shows "card {y \<in> set xs. k y < k (sort_key k xs ! i)} = i"
proof -
  let ?s = "sort_key k xs"
  have s: "distinct ?s" "length ?s = length xs" "set ?s = set xs" "sorted (map k ?s)"
    using assms(1) by simp_all
  have less: "k (?s ! j) < k (?s ! i) \<longleftrightarrow> j < i" if "j < length xs" for j
  proof
    assume "j < i"
    then have "k (?s ! j) \<le> k (?s ! i)"
      using s(2,4) assms(3) by (simp add: sorted_iff_nth_mono)
    moreover have "?s ! j \<noteq> ?s ! i"
      using s(1,2) \<open>j < i\<close> assms(3) that by (simp add: nth_eq_iff_index_eq)
    then have "k (?s ! j) \<noteq> k (?s ! i)"
      using assms(2,3) that s(2,3) by (metis inj_onD nth_mem)
    ultimately show "k (?s ! j) < k (?s ! i)" by simp
  next
    assume lt: "k (?s ! j) < k (?s ! i)"
    show "j < i"
    proof (rule ccontr)
      assume "\<not> j < i"
      then have "k (?s ! i) \<le> k (?s ! j)"
        using s(2,4) that by (simp add: sorted_iff_nth_mono)
      with lt show False by simp
    qed
  qed
  have "{y \<in> set xs. k y < k (?s ! i)} = (\<lambda>j. ?s ! j) ` {..<i}"
  proof -
    have "set xs = (\<lambda>j. ?s ! j) ` {..<length xs}"
      using s(2,3) by (metis atLeast_upt list.set_map map_nth)
    then show ?thesis using less assms(3) by fastforce
  qed
  moreover have "inj_on (\<lambda>j. ?s ! j) {..<i}"
    using s(1,2) assms(3) by (auto simp: inj_on_def nth_eq_iff_index_eq)
  ultimately show ?thesis by (simp add: card_image)
qed

lemma sort_key_sorted_list:
  fixes k :: "'a \<Rightarrow> 'b :: linorder"
  assumes "inj_on k (set xs)" "mset xs = mset ys"
  shows "sort_key k xs = sort_key k ys"
  using assms by (intro sort_key_inj_key_eq) simp_all

section \<open>Invariants of operation sequences\<close>

text \<open>
  A component whose locked methods are atomic operations on one state. Whatever the threads
  interleave is a list of operations; a property of the state that every operation keeps
  holds after every such list.
\<close>

locale atomic_component =
  fixes step :: "'s \<Rightarrow> 'op \<Rightarrow> 's" and inv :: "'s \<Rightarrow> bool"
  assumes step_inv: "inv s \<Longrightarrow> inv (step s op)"
begin

lemma run_inv: "inv s \<Longrightarrow> inv (foldl step s ops)"
  by (induction ops arbitrary: s) (auto intro: step_inv)

text \<open>A quantity that no operation decreases is monotone along every run.\<close>

lemma run_mono:
  fixes m :: "'s \<Rightarrow> 'n :: preorder"
  assumes "\<And>s op. inv s \<Longrightarrow> m s \<le> m (step s op)"
  shows "inv s \<Longrightarrow> m s \<le> m (foldl step s ops)"
proof (induction ops arbitrary: s)
  case (Cons op ops)
  have "m s \<le> m (step s op)" using Cons.prems by (rule assms)
  also have "\<dots> \<le> m (foldl step (step s op) ops)"
    using Cons by (auto intro: step_inv)
  finally show ?case by simp
qed simp

end

end
