(* ===== verification/Encoding.thy ===== *)
theory Encoding
  imports Prelude
begin

text \<open>
  Bytes and the canonical encodings the engine digests: big-endian integers, UTF-8 with
  \<open>surrogatepass\<close>, length prefixes and hexadecimal text. The locale \<open>self_delimiting\<close>
  states what makes a sequence of encoded items decodable; UTF-8 characters and
  length-prefixed byte strings are its two instances.
\<close>

section \<open>Self-delimiting encodings\<close>

locale self_delimiting =
  fixes enc :: "'a \<Rightarrow> 'b list" and ok :: "'a \<Rightarrow> bool"
  assumes delim: "\<lbrakk>ok x; ok y; enc x @ r = enc y @ s\<rbrakk> \<Longrightarrow> x = y \<and> r = s"
    and nonempty: "ok x \<Longrightarrow> enc x \<noteq> []"
begin

lemma enc_inject: "\<lbrakk>ok x; ok y; enc x = enc y\<rbrakk> \<Longrightarrow> x = y"
  using delim [of x y "[]" "[]"] by simp

lemma concat_inject:
  "\<lbrakk>list_all ok xs; list_all ok ys; concat (map enc xs) = concat (map enc ys)\<rbrakk> \<Longrightarrow> xs = ys"
proof (induction xs arbitrary: ys)
  case Nil
  then show ?case by (cases ys) (auto dest: nonempty)
next
  case (Cons x xs)
  from Cons.prems nonempty obtain y ys' where ys: "ys = y # ys'"
    by (cases ys) auto
  from Cons.prems ys have "ok x" "ok y"
    and "enc x @ concat (map enc xs) = enc y @ concat (map enc ys')"
    by simp_all
  then have "x = y \<and> concat (map enc xs) = concat (map enc ys')"
    by (rule delim)
  with Cons.prems ys show ?case
    using Cons.IH [of ys'] by simp
qed

lemma concat_prefix_inject:
  "\<lbrakk>list_all ok xs; list_all ok ys; length xs = length ys;
    concat (map enc xs) @ r = concat (map enc ys) @ s\<rbrakk> \<Longrightarrow> xs = ys \<and> r = s"
proof (induction xs arbitrary: ys)
  case (Cons x xs)
  from Cons.prems obtain y ys' where ys: "ys = y # ys'"
    by (cases ys) auto
  from Cons.prems ys have "ok x" "ok y"
    and "enc x @ (concat (map enc xs) @ r) = enc y @ (concat (map enc ys') @ s)"
    by simp_all
  then have "x = y \<and> concat (map enc xs) @ r = concat (map enc ys') @ s"
    by (rule delim)
  with Cons.prems ys show ?case
    using Cons.IH [of ys'] by simp
qed simp

end

section \<open>Integers as bytes\<close>

type_synonym byte = "8 word"
type_synonym bytes = "byte list"

text \<open>\<open>int.to_bytes(n, byteorder="big")\<close>, for a value that fits.\<close>

primrec to_bytes :: "nat \<Rightarrow> nat \<Rightarrow> bytes" where
  "to_bytes 0 v = []"
| "to_bytes (Suc n) v = to_bytes n (v div 256) @ [word_of_nat (v mod 256)]"

definition from_bytes :: "bytes \<Rightarrow> nat" where
  "from_bytes bs = foldl (\<lambda>a b. a * 256 + unat b) 0 bs"

lemma length_to_bytes [simp]: "length (to_bytes n v) = n"
  by (induction n arbitrary: v) simp_all

lemma unat_byte_of_nat: "n < 256 \<Longrightarrow> unat (word_of_nat n :: byte) = n"
  by (simp add: unat_of_nat)

lemma byte_of_nat_inject:
  "\<lbrakk>m < 256; n < 256; (word_of_nat m :: byte) = word_of_nat n\<rbrakk> \<Longrightarrow> m = n"
  using unat_byte_of_nat by metis

lemma from_to_bytes: "v < 256 ^ n \<Longrightarrow> from_bytes (to_bytes n v) = v"
proof (induction n arbitrary: v)
  case (Suc n)
  then have "v div 256 < 256 ^ n"
    by (simp add: less_mult_imp_div_less mult.commute)
  with Suc.IH have "from_bytes (to_bytes n (v div 256)) = v div 256"
    by blast
  then show ?case
    by (simp add: from_bytes_def unat_byte_of_nat)
qed (simp add: from_bytes_def)

lemma to_bytes_inject: "\<lbrakk>v < 256 ^ n; w < 256 ^ n; to_bytes n v = to_bytes n w\<rbrakk> \<Longrightarrow> v = w"
  by (metis from_to_bytes)

section \<open>UTF-8\<close>

text \<open>
  \<open>str.encode("utf-8", "surrogatepass")\<close> encodes every code point; \<open>str.encode("utf-8")\<close>
  raises \<open>UnicodeEncodeError\<close> on a surrogate and agrees with it otherwise.
\<close>

definition code_point :: "nat \<Rightarrow> bool" where
  "code_point c \<longleftrightarrow> c < 1114112"

definition utf8_units :: "nat \<Rightarrow> nat list" where
  "utf8_units c =
     (if c < 128 then [c]
      else if c < 2048 then [192 + c div 64, 128 + c mod 64]
      else if c < 65536 then [224 + c div 4096, 128 + c div 64 mod 64, 128 + c mod 64]
      else [240 + c div 262144, 128 + c div 4096 mod 64, 128 + c div 64 mod 64, 128 + c mod 64])"

definition utf8_char :: "nat \<Rightarrow> bytes" where
  "utf8_char c = map word_of_nat (utf8_units c)"

definition utf8_surrogatepass :: "str \<Rightarrow> bytes" where
  "utf8_surrogatepass s = concat (map utf8_char s)"

definition is_surrogate :: "nat \<Rightarrow> bool" where
  "is_surrogate c \<longleftrightarrow> 55296 \<le> c \<and> c \<le> 57343"

definition utf8_encode :: "str \<Rightarrow> bytes res" where
  "utf8_encode s =
     (if list_ex is_surrogate s then Inl UnicodeEncodeError else Inr (utf8_surrogatepass s))"

lemma length_utf8_char:
  "length (utf8_char c) =
     (if c < 128 then 1 else if c < 2048 then 2 else if c < 65536 then 3 else 4)"
  by (simp add: utf8_char_def utf8_units_def)

lemma utf8_units_less: "code_point c \<Longrightarrow> list_all (\<lambda>n. n < 256) (utf8_units c)"
  by (simp add: utf8_units_def code_point_def) linarith

lemma utf8_char_units: "code_point c \<Longrightarrow> map unat (utf8_char c) = utf8_units c"
  using utf8_units_less [of c]
  by (auto simp: utf8_char_def list_all_iff unat_byte_of_nat intro!: map_idI)

text \<open>The length of an encoded character is read off its first byte.\<close>

fun utf8_value :: "nat list \<Rightarrow> nat" where
  "utf8_value (a # bs) =
     (if a < 128 then a
      else if a < 224 then (a - 192) * 64 + (bs ! 0 - 128)
      else if a < 240 then (a - 224) * 4096 + (bs ! 0 - 128) * 64 + (bs ! 1 - 128)
      else (a - 240) * 262144 + (bs ! 0 - 128) * 4096 + (bs ! 1 - 128) * 64 + (bs ! 2 - 128))"
| "utf8_value [] = 0"

lemma utf8_split2: "(c::nat) div 64 * 64 + c mod 64 = c"
  by (rule div_mult_mod_eq)

lemma utf8_split3: "(c::nat) div 4096 * 4096 + c div 64 mod 64 * 64 + c mod 64 = c"
proof -
  have "c div 4096 = c div 64 div 64"
    by (simp add: div_mult2_eq [symmetric])
  then show ?thesis
    using utf8_split2 [of c] utf8_split2 [of "c div 64"] by linarith
qed

lemma utf8_split4:
  "(c::nat) div 262144 * 262144 + c div 4096 mod 64 * 4096 + c div 64 mod 64 * 64 + c mod 64 = c"
proof -
  have "c div 262144 = c div 4096 div 64"
    by (simp add: div_mult2_eq [symmetric])
  then show ?thesis
    using utf8_split3 [of c] utf8_split2 [of "c div 4096"] by linarith
qed

lemma utf8_value_units: "code_point c \<Longrightarrow> utf8_value (utf8_units c @ r) = c"
  using utf8_split2 [of c] utf8_split3 [of c] utf8_split4 [of c]
  by (auto simp: utf8_units_def code_point_def less_mult_imp_div_less)

interpretation utf8: self_delimiting utf8_char code_point
proof
  show "utf8_char x \<noteq> []" for x
    by (simp add: utf8_char_def utf8_units_def)
next
  fix x y r s
  assume ok: "code_point x" "code_point y" and eq: "utf8_char x @ r = utf8_char y @ s"
  then have "utf8_units x @ map unat r = utf8_units y @ map unat s"
    by (metis map_append utf8_char_units)
  then have "x = y"
    using ok utf8_value_units by metis
  with eq show "x = y \<and> r = s" by simp
qed

lemma utf8_surrogatepass_inject:
  "\<lbrakk>list_all code_point s; list_all code_point t; utf8_surrogatepass s = utf8_surrogatepass t\<rbrakk>
    \<Longrightarrow> s = t"
  unfolding utf8_surrogatepass_def by (rule utf8.concat_inject)

lemma length_utf8_ge: "length s \<le> length (utf8_surrogatepass s)"
  by (induction s) (auto simp: utf8_surrogatepass_def length_utf8_char)

section \<open>Length prefixes\<close>

text \<open>
  \<open>len(value).to_bytes(8, byteorder="big") + value\<close>. A CPython object is shorter than
  \<open>2 ^ 63\<close> bytes, so the conversion never overflows; \<open>sized\<close> records that bound.
\<close>

definition sized :: "bytes \<Rightarrow> bool" where
  "sized b \<longleftrightarrow> length b < 2 ^ 63"

definition length_prefix :: "bytes \<Rightarrow> bytes" where
  "length_prefix v = to_bytes 8 (length v) @ v"

definition encode_text :: "str \<Rightarrow> bytes" where
  "encode_text s = length_prefix (utf8_surrogatepass s)"

lemma length_length_prefix [simp]: "length (length_prefix v) = 8 + length v"
  by (simp add: length_prefix_def)

interpretation lp: self_delimiting length_prefix sized
proof
  show "length_prefix x \<noteq> []" for x
    using length_length_prefix [of x] by (metis add_is_0 list.size(3) zero_neq_numeral)
next
  fix x y r s
  assume ok: "sized x" "sized y" and eq: "length_prefix x @ r = length_prefix y @ s"
  from eq have pre: "to_bytes 8 (length x) = to_bytes 8 (length y)" and rest: "x @ r = y @ s"
    by (simp_all add: length_prefix_def)
  from pre ok have "length x = length y"
    by (intro to_bytes_inject [of _ 8]) (simp_all add: sized_def)
  with rest show "x = y \<and> r = s" by simp
qed

text \<open>A text is encodable when it consists of code points and its UTF-8 form is sized.\<close>

definition encodable :: "str \<Rightarrow> bool" where
  "encodable s \<longleftrightarrow> list_all code_point s \<and> sized (utf8_surrogatepass s)"

interpretation etext: self_delimiting encode_text encodable
proof
  show "encode_text x \<noteq> []" for x
    using length_length_prefix [of "utf8_surrogatepass x"]
    by (metis add_is_0 encode_text_def list.size(3) zero_neq_numeral)
next
  fix x y r s
  assume ok: "encodable x" "encodable y" and eq: "encode_text x @ r = encode_text y @ s"
  then have "utf8_surrogatepass x = utf8_surrogatepass y \<and> r = s"
    unfolding encode_text_def encodable_def by (intro lp.delim) simp_all
  with ok show "x = y \<and> r = s"
    by (auto simp: encodable_def intro: utf8_surrogatepass_inject)
qed

section \<open>Hexadecimal text\<close>

definition hex_digit :: "nat \<Rightarrow> nat" where
  "hex_digit n = (if n < 10 then 48 + n else 87 + n)"

definition hex_byte :: "byte \<Rightarrow> str" where
  "hex_byte b = [hex_digit (unat b div 16), hex_digit (unat b mod 16)]"

definition hex_bytes :: "bytes \<Rightarrow> str" where
  "hex_bytes bs = concat (map hex_byte bs)"

lemma is_hex_hex_digit: "n < 16 \<Longrightarrow> is_hex (hex_digit n)"
  by (auto simp: is_hex_def is_digit_def hex_digit_def)

lemma byte_less: "unat (b :: byte) < 256"
  using unsigned_less [of b, where 'a = nat] by simp

lemma hex_bytes_hex: "list_all is_hex (hex_bytes bs)"
proof -
  have "list_all is_hex (hex_byte b)" for b
    using byte_less [of b] by (simp add: hex_byte_def is_hex_hex_digit less_mult_imp_div_less)
  then show ?thesis
    by (simp add: hex_bytes_def list_all_iff)
qed

lemma length_hex_bytes [simp]: "length (hex_bytes bs) = 2 * length bs"
  by (induction bs) (simp_all add: hex_bytes_def hex_byte_def)

lemma hex_digit_inject: "\<lbrakk>m < 16; n < 16; hex_digit m = hex_digit n\<rbrakk> \<Longrightarrow> m = n"
  by (auto simp: hex_digit_def split: if_splits)

interpretation hexb: self_delimiting hex_byte "\<lambda>_. True"
proof
  show "hex_byte x \<noteq> []" for x
    by (simp add: hex_byte_def)
next
  fix x y :: byte and r s
  assume eq: "hex_byte x @ r = hex_byte y @ s"
  then have d: "hex_digit (unat x div 16) = hex_digit (unat y div 16)"
    "hex_digit (unat x mod 16) = hex_digit (unat y mod 16)" and rs: "r = s"
    by (simp_all add: hex_byte_def)
  have "unat x div 16 = unat y div 16" and "unat x mod 16 = unat y mod 16"
    using d byte_less [of x] byte_less [of y]
    by (auto intro!: hex_digit_inject simp: less_mult_imp_div_less)
  then have "unat x = unat y"
    by (metis div_mult_mod_eq)
  with rs show "x = y \<and> r = s"
    by (simp add: unsigned_word_eqI)
qed

lemma hex_bytes_inject: "hex_bytes a = hex_bytes b \<Longrightarrow> a = b"
  unfolding hex_bytes_def by (rule hexb.concat_inject) (simp_all add: list_all_iff)

text \<open>\<open>bytes.fromhex\<close> on lowercase digits.\<close>

definition hex_value :: "nat \<Rightarrow> nat" where
  "hex_value c = (if is_digit c then c - 48 else c - 87)"

fun unhex :: "str \<Rightarrow> bytes" where
  "unhex (a # b # r) = word_of_nat (16 * hex_value a + hex_value b) # unhex r"
| "unhex _ = []"

lemma hex_value_digit: "n < 16 \<Longrightarrow> hex_value (hex_digit n) = n"
  by (auto simp: hex_value_def hex_digit_def is_digit_def)

lemma hex_digit_value: "is_hex c \<Longrightarrow> hex_value c < 16 \<and> hex_digit (hex_value c) = c"
  by (auto simp: hex_value_def hex_digit_def is_hex_def is_digit_def)

lemma hex_unhex: "list_all is_hex s \<Longrightarrow> even (length s) \<Longrightarrow> hex_bytes (unhex s) = s"
proof (induction s rule: unhex.induct)
  case (1 a b r)
  then have d: "hex_value a < 16" "hex_value b < 16" "hex_digit (hex_value a) = a" "hex_digit (hex_value b) = b"
    by (simp_all add: hex_digit_value)
  then have "unat (word_of_nat (16 * hex_value a + hex_value b) :: byte) = 16 * hex_value a + hex_value b"
    by (intro unat_byte_of_nat) simp
  with d 1 show ?case by (simp add: hex_bytes_def hex_byte_def)
qed (simp_all add: hex_bytes_def)

lemma unhex_inject:
  "\<lbrakk>is_sha256_hex s; is_sha256_hex t; unhex s = unhex t\<rbrakk> \<Longrightarrow> s = t"
  unfolding is_sha256_hex_def by (metis hex_unhex even_numeral)

lemma length_unhex: "even (length s) \<Longrightarrow> length (unhex s) = length s div 2"
  by (induction s rule: unhex.induct) simp_all

end
