(* ===== verification/Datetime.thy ===== *)
theory Datetime
  imports Encoding
begin

text \<open>
  Decimal text and the part of \<open>datetime\<close> the engine uses: aware and naive values, the UTC
  test, instants, and \<open>isoformat\<close>.
\<close>

section \<open>Decimal text\<close>

text \<open>\<open>f"{v:0nd}"\<close> for a value of at most \<open>n\<close> digits.\<close>

primrec dec_pad :: "nat \<Rightarrow> nat \<Rightarrow> str" where
  "dec_pad 0 v = []"
| "dec_pad (Suc n) v = dec_pad n (v div 10) @ [48 + v mod 10]"

text \<open>\<open>str(v)\<close>.\<close>

fun dec_nat :: "nat \<Rightarrow> str" where
  "dec_nat n = (if n < 10 then [48 + n] else dec_nat (n div 10) @ [48 + n mod 10])"

declare dec_nat.simps [simp del]

definition dec_int :: "int \<Rightarrow> str" where
  "dec_int i = (if i < 0 then 45 # dec_nat (nat (- i)) else dec_nat (nat i))"

definition dec_value :: "str \<Rightarrow> nat" where
  "dec_value s = foldl (\<lambda>a c. a * 10 + (c - 48)) 0 s"

lemma length_dec_pad [simp]: "length (dec_pad n v) = n"
  by (induction n arbitrary: v) simp_all

lemma dec_value_pad: "v < 10 ^ n \<Longrightarrow> dec_value (dec_pad n v) = v"
proof (induction n arbitrary: v)
  case (Suc n)
  then have "v div 10 < 10 ^ n"
    by (simp add: less_mult_imp_div_less mult.commute)
  with Suc.IH have "dec_value (dec_pad n (v div 10)) = v div 10"
    by blast
  then show ?case by (simp add: dec_value_def)
qed (simp add: dec_value_def)

lemma dec_pad_inject: "\<lbrakk>v < 10 ^ n; w < 10 ^ n; dec_pad n v = dec_pad n w\<rbrakk> \<Longrightarrow> v = w"
  by (metis dec_value_pad)

lemma dec_value_nat: "dec_value (dec_nat n) = n"
proof (induction n rule: dec_nat.induct)
  case (1 n)
  then show ?case
    by (cases "n < 10") (simp_all add: dec_nat.simps [of n] dec_value_def)
qed

lemma dec_nat_digits: "list_all is_digit (dec_nat n)"
proof (induction n rule: dec_nat.induct)
  case (1 n)
  have "n mod 10 < 10" by simp
  with 1 show ?case
    by (cases "n < 10") (auto simp: dec_nat.simps [of n] is_digit_def)
qed

lemma dec_nat_nonempty: "dec_nat n \<noteq> []"
  by (subst dec_nat.simps) simp

lemma dec_int_inject: "dec_int i = dec_int j \<Longrightarrow> i = j"
proof -
  assume eq: "dec_int i = dec_int j"
  have no_sign: "dec_nat n \<noteq> 45 # s" for n s
    using dec_nat_digits [of n] by (auto simp: is_digit_def)
  have "nat i = nat j" if "0 \<le> i" "0 \<le> j"
    using that eq by (metis dec_int_def dec_value_nat not_less)
  moreover have "nat (- i) = nat (- j)" if "i < 0" "j < 0"
    using that eq by (metis dec_int_def dec_value_nat list.inject)
  moreover have False if "i < 0" "\<not> j < 0"
    using that eq no_sign [of "nat j" "dec_nat (nat (- i))"] by (auto simp: dec_int_def)
  moreover have False if "\<not> i < 0" "j < 0"
    using that eq no_sign [of "nat i" "dec_nat (nat (- j))"] by (auto simp: dec_int_def)
  ultimately show ?thesis by (cases "i < 0"; cases "j < 0") auto
qed

section \<open>Date and time values\<close>

text \<open>
  \<open>utc_offset\<close> is what \<open>utcoffset()\<close> returns, in microseconds: \<open>None\<close> for a naive value.
\<close>

record datetime =
  year :: nat
  month :: nat
  day :: nat
  hour :: nat
  minute :: nat
  second :: nat
  microsecond :: nat
  utc_offset :: "int option"

text \<open>The bounds the \<open>datetime\<close> constructor enforces.\<close>

definition is_leap :: "nat \<Rightarrow> bool" where
  "is_leap y \<longleftrightarrow> y mod 4 = 0 \<and> (y mod 100 \<noteq> 0 \<or> y mod 400 = 0)"

definition days_in_month :: "nat \<Rightarrow> nat \<Rightarrow> nat" where
  "days_in_month y m =
     (if m = 2 then (if is_leap y then 29 else 28)
      else if m = 4 \<or> m = 6 \<or> m = 9 \<or> m = 11 then 30 else 31)"

definition valid_datetime :: "datetime \<Rightarrow> bool" where
  "valid_datetime d \<longleftrightarrow>
     1 \<le> year d \<and> year d \<le> 9999 \<and> 1 \<le> month d \<and> month d \<le> 12
     \<and> 1 \<le> day d \<and> day d \<le> days_in_month (year d) (month d)
     \<and> hour d < 24 \<and> minute d < 60 \<and> second d < 60 \<and> microsecond d < 1000000
     \<and> (\<forall>off. utc_offset d = Some off \<longrightarrow> \<bar>off\<bar> < 86400000000)"

text \<open>The guard \<open>tzinfo is not None and utcoffset() == timedelta(0)\<close>.\<close>

definition is_aware_utc :: "datetime \<Rightarrow> bool" where
  "is_aware_utc d \<longleftrightarrow> utc_offset d = Some 0"

definition is_aware :: "datetime \<Rightarrow> bool" where
  "is_aware d \<longleftrightarrow> utc_offset d \<noteq> None"

text \<open>The proleptic Gregorian ordinal (\<open>date.toordinal\<close>) and the local time in microseconds.\<close>

definition days_before_year :: "nat \<Rightarrow> int" where
  "days_before_year y = (let p = int y - 1 in p * 365 + p div 4 - p div 100 + p div 400)"

definition days_before_month :: "nat \<Rightarrow> nat \<Rightarrow> int" where
  "days_before_month y m = sum_list (map (\<lambda>i. int (days_in_month y i)) [1..<m])"

definition toordinal :: "datetime \<Rightarrow> int" where
  "toordinal d = days_before_year (year d) + days_before_month (year d) (month d) + int (day d)"

definition local_us :: "datetime \<Rightarrow> int" where
  "local_us d =
     ((toordinal d * 24 + int (hour d)) * 60 + int (minute d)) * 60000000
     + int (second d) * 1000000 + int (microsecond d)"

definition instant_us :: "datetime \<Rightarrow> int" where
  "instant_us d = local_us d - (case utc_offset d of None \<Rightarrow> 0 | Some off \<Rightarrow> off)"

text \<open>\<open>==\<close> on datetimes: aware values by instant, naive ones by local time, mixed never.\<close>

definition dt_eq :: "datetime \<Rightarrow> datetime \<Rightarrow> bool" where
  "dt_eq a b \<longleftrightarrow> (is_aware a \<longleftrightarrow> is_aware b) \<and> instant_us a = instant_us b"

lemma dt_eq_refl [simp]: "dt_eq d d"
  by (simp add: dt_eq_def)

section \<open>\<open>isoformat(timespec="microseconds")\<close>\<close>

definition iso_offset :: "int \<Rightarrow> str" where
  "iso_offset off =
     (let a = nat \<bar>off\<bar>; s = a div 1000000; us = a mod 1000000
      in (if off < 0 then u ''-'' else u ''+'') @ dec_pad 2 (s div 3600) @ u '':'' @ dec_pad 2 (s div 60 mod 60)
         @ (if s mod 60 = 0 \<and> us = 0 then []
            else u '':'' @ dec_pad 2 (s mod 60) @ (if us = 0 then [] else u ''.'' @ dec_pad 6 us)))"

definition isoformat_us :: "datetime \<Rightarrow> str" where
  "isoformat_us d =
     dec_pad 4 (year d) @ u ''-'' @ dec_pad 2 (month d) @ u ''-'' @ dec_pad 2 (day d) @ u ''T''
     @ dec_pad 2 (hour d) @ u '':'' @ dec_pad 2 (minute d) @ u '':'' @ dec_pad 2 (second d)
     @ u ''.'' @ dec_pad 6 (microsecond d)
     @ (case utc_offset d of None \<Rightarrow> [] | Some off \<Rightarrow> iso_offset off)"

text \<open>The text determines the value.\<close>

lemma iso_offset_inject:
  assumes "\<bar>a\<bar> < 86400000000" "\<bar>b\<bar> < 86400000000" and eq: "iso_offset a = iso_offset b"
  shows "a = b"
proof -
  let ?s = "\<lambda>x. nat \<bar>x\<bar> div 1000000" and ?us = "\<lambda>x. nat \<bar>x\<bar> mod 1000000"
  have bounds: "?s x div 3600 < 10 ^ 2" "?s x div 60 mod 60 < 10 ^ 2" "?s x mod 60 < 10 ^ 2" "?us x < 10 ^ 6"
    if "\<bar>x\<bar> < 86400000000" for x :: int
  proof -
    from that have "nat \<bar>x\<bar> < 86400000000" by simp
    then have "?s x < 86400" by (simp add: less_mult_imp_div_less)
    then have "?s x div 3600 < 24" by (simp add: less_mult_imp_div_less)
    then show "?s x div 3600 < 10 ^ 2" by simp
    have "?s x div 60 mod 60 < 60" by simp
    then show "?s x div 60 mod 60 < 10 ^ 2" by (rule less_trans) simp
    have "?s x mod 60 < 60" by simp
    then show "?s x mod 60 < 10 ^ 2" by (rule less_trans) simp
    show "?us x < 10 ^ 6" by simp
  qed
  note inj = dec_pad_inject [OF bounds(1) [OF assms(1)] bounds(1) [OF assms(2)]]
    dec_pad_inject [OF bounds(2) [OF assms(1)] bounds(2) [OF assms(2)]]
    dec_pad_inject [OF bounds(3) [OF assms(1)] bounds(3) [OF assms(2)]]
    dec_pad_inject [OF bounds(4) [OF assms(1)] bounds(4) [OF assms(2)]]
  have sign: "(a < 0) = (b < 0)"
    and h: "dec_pad 2 (?s a div 3600) = dec_pad 2 (?s b div 3600)"
    and m: "dec_pad 2 (?s a div 60 mod 60) = dec_pad 2 (?s b div 60 mod 60)"
    and rest: "(?s a mod 60 = 0 \<and> ?us a = 0) = (?s b mod 60 = 0 \<and> ?us b = 0)"
    "(?us a = 0) = (?us b = 0) \<or> ?s a mod 60 = 0 \<and> ?us a = 0"
    and sec: "\<not> (?s a mod 60 = 0 \<and> ?us a = 0) \<Longrightarrow> dec_pad 2 (?s a mod 60) = dec_pad 2 (?s b mod 60)"
    and us: "?us a \<noteq> 0 \<Longrightarrow> dec_pad 6 (?us a) = dec_pad 6 (?us b)"
    using eq by (auto simp del: dec_pad.simps simp: iso_offset_def Let_def u_def split: if_splits)
  from rest sec us inj(3,4) have "?s a mod 60 = ?s b mod 60" and u: "?us a = ?us b"
    by metis+
  moreover have "?s a div 60 = ?s b div 60"
  proof -
    have "?s x div 60 = ?s x div 3600 * 60 + ?s x div 60 mod 60" for x :: int
      using div_mult_mod_eq [of "?s x div 60" 60] by (simp add: div_mult2_eq [symmetric])
    with inj(1) [OF h] inj(2) [OF m] show ?thesis by metis
  qed
  ultimately have "?s a = ?s b"
    by (metis div_mult_mod_eq)
  with u have "nat \<bar>a\<bar> = nat \<bar>b\<bar>"
    by (metis div_mult_mod_eq)
  with sign show ?thesis by linarith
qed

lemma valid_datetime_digits:
  assumes "valid_datetime d"
  shows "year d < 10 ^ 4" "month d < 10 ^ 2" "day d < 10 ^ 2" "hour d < 10 ^ 2"
    "minute d < 10 ^ 2" "second d < 10 ^ 2" "microsecond d < 10 ^ 6"
proof -
  have "days_in_month (year d) (month d) \<le> 31" by (simp add: days_in_month_def)
  with assms show "year d < 10 ^ 4" "month d < 10 ^ 2" "day d < 10 ^ 2" "hour d < 10 ^ 2"
    "minute d < 10 ^ 2" "second d < 10 ^ 2" "microsecond d < 10 ^ 6"
    by (simp_all add: valid_datetime_def)
qed

lemma isoformat_us_inject:
  assumes "valid_datetime a" "valid_datetime b" and eq: "isoformat_us a = isoformat_us b"
  shows "a = b"
proof -
  note bound = valid_datetime_digits
  let ?off = "\<lambda>d. case utc_offset d of None \<Rightarrow> [] | Some off \<Rightarrow> iso_offset off"
  from eq have "dec_pad 4 (year a) = dec_pad 4 (year b)" "dec_pad 2 (month a) = dec_pad 2 (month b)"
    "dec_pad 2 (day a) = dec_pad 2 (day b)" "dec_pad 2 (hour a) = dec_pad 2 (hour b)"
    "dec_pad 2 (minute a) = dec_pad 2 (minute b)" "dec_pad 2 (second a) = dec_pad 2 (second b)"
    "dec_pad 6 (microsecond a) = dec_pad 6 (microsecond b)" and off: "?off a = ?off b"
    unfolding isoformat_us_def by (simp_all del: dec_pad.simps)
  with bound [OF assms(1)] bound [OF assms(2)]
  have "year a = year b" "month a = month b" "day a = day b" "hour a = hour b"
    "minute a = minute b" "second a = second b" "microsecond a = microsecond b"
    by (blast intro: dec_pad_inject)+
  moreover have "utc_offset a = utc_offset b"
  proof -
    have "iso_offset x \<noteq> []" "[] \<noteq> iso_offset x" for x
      by (simp_all add: iso_offset_def Let_def u_def)
    with off assms(1,2) show ?thesis
      by (auto simp: valid_datetime_def split: option.splits intro: iso_offset_inject)
  qed
  ultimately show ?thesis by (intro datetime.equality) simp_all
qed

end
