(* ===== verification/Binary64.thy ===== *)
theory Binary64
  imports Complex_Main Prelude
begin

text \<open>
  Python floats: IEEE 754 binary64 values and the operations the ranking code performs on
  them, with round-to-nearest-even. A finite value is the rational it denotes, so the two
  zeros are one value; no modelled code tells them apart. \<open>sum\<close> over floats is CPython's
  compensated (Neumaier) summation, the rule since Python 3.12.
\<close>

datatype pyfloat = Fin rat | PosInf | NegInf | NaN

section \<open>Rounding\<close>

function floor_log2 :: "int \<Rightarrow> int" where
  "floor_log2 n = (if n < 2 then 0 else 1 + floor_log2 (n div 2))"
  by pat_completeness auto
termination
  by (relation "measure nat") auto

declare floor_log2.simps [simp del]

text \<open>\<open>pow2 e\<close> is \<open>2 ^ e\<close> for an integer exponent.\<close>

definition pow2 :: "int \<Rightarrow> rat" where
  "pow2 e = (if 0 \<le> e then 2 ^ nat e else 1 / 2 ^ nat (- e))"

text \<open>The binary exponent of a positive rational: the largest \<open>e\<close> with \<open>2 ^ e \<le> r\<close>.\<close>

definition exponent2 :: "rat \<Rightarrow> int" where
  "exponent2 r =
     (let (p, q) = quotient_of r; e = floor_log2 p - floor_log2 q
      in if pow2 e \<le> r then e else e - 1)"

definition round_half_even :: "rat \<Rightarrow> int" where
  "round_half_even r =
     (let f = \<lfloor>r\<rfloor>; d = r - of_int f
      in if d < 1 / 2 then f else if 1 / 2 < d then f + 1 else if even f then f else f + 1)"

definition round64 :: "rat \<Rightarrow> pyfloat" where
  "round64 r =
     (if r = 0 then Fin 0
      else let a = \<bar>r\<bar>; q = max (exponent2 a - 52) (- 1074);
               v = of_int (round_half_even (a / pow2 q)) * pow2 q
           in if 2 ^ 1024 \<le> v then (if 0 < r then PosInf else NegInf)
              else Fin (if 0 < r then v else - v))"

section \<open>Operations\<close>

fun fneg :: "pyfloat \<Rightarrow> pyfloat" where
  "fneg (Fin a) = Fin (- a)"
| "fneg PosInf = NegInf"
| "fneg NegInf = PosInf"
| "fneg NaN = NaN"

fun fadd :: "pyfloat \<Rightarrow> pyfloat \<Rightarrow> pyfloat" where
  "fadd (Fin a) (Fin b) = round64 (a + b)"
| "fadd NaN _ = NaN"
| "fadd _ NaN = NaN"
| "fadd PosInf NegInf = NaN"
| "fadd NegInf PosInf = NaN"
| "fadd PosInf _ = PosInf"
| "fadd _ PosInf = PosInf"
| "fadd NegInf _ = NegInf"
| "fadd _ NegInf = NegInf"

definition fsub :: "pyfloat \<Rightarrow> pyfloat \<Rightarrow> pyfloat" where
  "fsub a b = fadd a (fneg b)"

text \<open>
  \<open>x / n\<close> for a float and a positive \<open>int\<close> that is converted to a float first; the divisors are
  places in a list, far below the range where the conversion raises.
\<close>

fun fdiv_pos :: "pyfloat \<Rightarrow> nat \<Rightarrow> pyfloat" where
  "fdiv_pos (Fin a) n = (case round64 (of_nat n) of Fin b \<Rightarrow> round64 (a / b) | _ \<Rightarrow> Fin 0)"
| "fdiv_pos x n = x"

text \<open>True division of two nonnegative ints is correctly rounded.\<close>

definition int_truediv :: "nat \<Rightarrow> nat \<Rightarrow> pyfloat" where
  "int_truediv m n = round64 (of_nat m / of_nat n)"

fun isfinite :: "pyfloat \<Rightarrow> bool" where
  "isfinite (Fin _) = True"
| "isfinite _ = False"

text \<open>The order of the values other than NaN, as a sort key.\<close>

fun fkey :: "pyfloat \<Rightarrow> int \<times> rat" where
  "fkey NegInf = (- 1, 0)"
| "fkey (Fin a) = (0, a)"
| "fkey PosInf = (1, 0)"
| "fkey NaN = (2, 0)"

definition fle :: "pyfloat \<Rightarrow> pyfloat \<Rightarrow> bool" where
  "fle a b \<longleftrightarrow> a \<noteq> NaN \<and> b \<noteq> NaN \<and> fkey a \<le> fkey b"

definition flt :: "pyfloat \<Rightarrow> pyfloat \<Rightarrow> bool" where
  "flt a b \<longleftrightarrow> a \<noteq> NaN \<and> b \<noteq> NaN \<and> fkey a < fkey b"

fun fabs :: "pyfloat \<Rightarrow> pyfloat" where
  "fabs (Fin a) = Fin \<bar>a\<bar>"
| "fabs NegInf = PosInf"
| "fabs x = x"

section \<open>Compensated summation\<close>

fun csum_loop :: "pyfloat \<Rightarrow> pyfloat \<Rightarrow> pyfloat list \<Rightarrow> pyfloat" where
  "csum_loop acc c [] =
     (if c \<noteq> Fin 0 \<and> isfinite c then fadd acc c else acc)"
| "csum_loop acc c (x # xs) =
     (let t = fadd acc x;
          c' = (if fle (fabs x) (fabs acc) then fadd c (fadd (fsub acc t) x)
                else fadd c (fadd (fsub x t) acc))
      in csum_loop t c' xs)"

text \<open>\<open>sum(xs)\<close>: the start value 0 is an \<open>int\<close>, added to the first float before the float loop.\<close>

definition float_sum :: "pyfloat list \<Rightarrow> pyfloat" where
  "float_sum xs = (case xs of [] \<Rightarrow> Fin 0 | x # ys \<Rightarrow> csum_loop (fadd (Fin 0) x) (Fin 0) ys)"

section \<open>No NaN, no sign change\<close>

definition fnonneg :: "pyfloat \<Rightarrow> bool" where
  "fnonneg x \<longleftrightarrow> x = PosInf \<or> (\<exists>a. x = Fin a \<and> 0 \<le> a)"

lemma fnonneg_Fin [simp]: "fnonneg (Fin a) \<longleftrightarrow> 0 \<le> a"
  and fnonneg_PosInf [simp]: "fnonneg PosInf"
  by (simp_all add: fnonneg_def)

lemma pow2_pos [simp]: "0 < pow2 e"
  by (simp add: pow2_def)

lemma round_half_even_nonneg: "0 \<le> r \<Longrightarrow> 0 \<le> round_half_even r"
  by (auto simp: round_half_even_def Let_def)

lemma round64_not_nan [simp]: "round64 r \<noteq> NaN"
  by (simp add: round64_def Let_def)

lemma round64_nonneg: "0 \<le> r \<Longrightarrow> fnonneg (round64 r)"
proof -
  assume r: "0 \<le> r"
  have "0 \<le> of_int (round_half_even (\<bar>r\<bar> / pow2 q)) * pow2 q" for q
    using round_half_even_nonneg [of "\<bar>r\<bar> / pow2 q"] pow2_pos [of q]
    by (simp add: less_imp_le)
  with r show ?thesis
    by (auto simp: round64_def fnonneg_def Let_def)
qed

lemma floor_log2_mono: "m \<le> n \<Longrightarrow> floor_log2 m \<le> floor_log2 n"
proof (induction n arbitrary: m rule: floor_log2.induct)
  case (1 n)
  have pos: "0 \<le> floor_log2 k" for k
    by (induction k rule: floor_log2.induct) (subst floor_log2.simps, simp)
  show ?case
  proof (cases "m < 2")
    case True
    then show ?thesis using pos [of n] by (simp add: floor_log2.simps [of m])
  next
    case False
    with 1 have "floor_log2 (m div 2) \<le> floor_log2 (n div 2)"
      by (simp add: zdiv_mono1)
    with False 1(2) show ?thesis by (simp add: floor_log2.simps [of m] floor_log2.simps [of n])
  qed
qed

text \<open>Rounding a value of the unit interval does not overflow.\<close>

lemma round64_unit_finite:
  assumes "0 \<le> r" "r \<le> 1"
  shows "isfinite (round64 r)"
proof (cases "r = 0")
  case False
  with assms have r: "0 < r" by simp
  obtain p n where pn: "quotient_of r = (p, n)" by fastforce
  then have n: "0 < n" "r = of_int p / of_int n"
    by (simp_all add: quotient_of_denom_pos quotient_of_div)
  with assms(2) have "p \<le> n" by (simp add: divide_le_eq)
  then have "exponent2 r \<le> 0"
    using floor_log2_mono [of p n] by (simp add: exponent2_def pn Let_def)
  define q where "q = max (exponent2 r - 52) (- 1074)"
  from \<open>exponent2 r \<le> 0\<close> have "pow2 q \<le> 1"
    by (auto simp: q_def pow2_def)
  have "of_int (round_half_even x) \<le> x + 1" for x :: rat
  proof -
    have "round_half_even x \<le> \<lfloor>x\<rfloor> + 1" by (simp add: round_half_even_def Let_def)
    then have "(of_int (round_half_even x) :: rat) \<le> of_int \<lfloor>x\<rfloor> + 1" by linarith
    then show ?thesis using of_int_floor_le [of x] by linarith
  qed
  then have "of_int (round_half_even (r / pow2 q)) * pow2 q \<le> (r / pow2 q + 1) * pow2 q"
    by (simp add: mult_right_mono less_imp_le)
  also have "\<dots> = r + pow2 q"
    using less_imp_neq [OF pow2_pos, of q, symmetric] by (simp add: distrib_right)
  finally have le: "of_int (round_half_even (r / pow2 q)) * pow2 q \<le> 2"
    using assms(2) \<open>pow2 q \<le> 1\<close> by linarith
  have "(2::rat) ^ 1 < 2 ^ 1024"
    by (rule power_strict_increasing) simp_all
  with le have "\<not> 2 ^ 1024 \<le> of_int (round_half_even (r / pow2 q)) * pow2 q"
    by (simp only: not_le power_one_right)
  with r show ?thesis
    by (simp add: round64_def Let_def q_def)
qed (simp add: round64_def)

lemma fnonneg_not_nan: "fnonneg x \<Longrightarrow> x \<noteq> NaN"
  by (auto simp: fnonneg_def)

lemma fadd_nonneg: "\<lbrakk>fnonneg x; fnonneg y\<rbrakk> \<Longrightarrow> fnonneg (fadd x y)"
  using round64_nonneg by (auto simp: fnonneg_def [of x] fnonneg_def [of y])

lemma fdiv_pos_nonneg: "fnonneg x \<Longrightarrow> fnonneg (fdiv_pos x n)"
proof (cases x)
  case (Fin a)
  assume "fnonneg x"
  with Fin have "0 \<le> a" by (simp add: fnonneg_def)
  have "fnonneg (round64 (of_nat n))"
    by (rule round64_nonneg) simp
  with Fin \<open>0 \<le> a\<close> show ?thesis
    by (cases "round64 (of_nat n)") (auto simp: fnonneg_def intro!: round64_nonneg [unfolded fnonneg_def])
qed (auto simp: fnonneg_def)

lemma fkey_inject: "fkey a = fkey b \<Longrightarrow> a = b"
  by (cases a; cases b) auto

text \<open>A compensated sum of nonnegative values is never NaN.\<close>

lemma fadd_Fin_not_nan: "x \<noteq> NaN \<Longrightarrow> fadd x (Fin c) \<noteq> NaN"
  by (cases x) auto

lemma csum_loop_not_nan:
  "\<lbrakk>fnonneg acc; list_all fnonneg xs\<rbrakk> \<Longrightarrow> csum_loop acc c xs \<noteq> NaN"
proof (induction xs arbitrary: acc c)
  case Nil
  then show ?case
    by (cases c) (auto simp: fnonneg_not_nan fadd_Fin_not_nan)
next
  case (Cons x xs)
  then have "fnonneg (fadd acc x)" by (simp add: fadd_nonneg)
  with Cons show ?case by (simp add: Let_def)
qed

lemma float_sum_not_nan: "list_all fnonneg xs \<Longrightarrow> float_sum xs \<noteq> NaN"
proof (cases xs)
  case (Cons x ys)
  assume "list_all fnonneg xs"
  with Cons have "fnonneg (fadd (Fin 0) x)" and "list_all fnonneg ys"
    by (simp_all add: fadd_nonneg)
  with Cons show ?thesis
    by (simp add: float_sum_def csum_loop_not_nan)
qed (simp add: float_sum_def)

end
