(* ===== verification/Pyval.thy ===== *)
theory Pyval
  imports Encoding Datetime Binary64
begin

text \<open>
  Dynamic values. The engine's constructors test the exact type of every scalar argument
  (\<open>type(value) is not int\<close> also rejects \<open>bool\<close>), so the arguments of a modelled constructor
  are of the sum type \<open>pyval\<close> and the validators return the payload or raise. Arguments whose
  nominal type is another record of the model are of that record type: for them the type test
  is discharged by typing. A value returned by a replaceable port is \<open>'a foreign\<close>: it may have
  the wrong nominal type.
\<close>

type_synonym uuid = "128 word"

datatype pyval =
    PNone
  | PBool bool
  | PInt int
  | PFloat pyfloat
  | PStr str
  | PUuid uuid
  | PDatetime datetime
  | PTuple "pyval list"
  | PObject

datatype 'a foreign = Exact 'a | WrongType

section \<open>UUIDs\<close>

definition uuid_bytes :: "uuid \<Rightarrow> bytes" where
  "uuid_bytes i = to_bytes 16 (unat i)"

text \<open>\<open>UUID.hex\<close> and the canonical text \<open>str(uuid)\<close> with its four hyphens.\<close>

definition uuid_hex :: "uuid \<Rightarrow> str" where
  "uuid_hex i = hex_bytes (uuid_bytes i)"

definition uuid_str :: "uuid \<Rightarrow> str" where
  "uuid_str i = (let h = uuid_hex i
     in take 8 h @ u ''-'' @ take 4 (drop 8 h) @ u ''-'' @ take 4 (drop 12 h) @ u ''-''
        @ take 4 (drop 16 h) @ u ''-'' @ drop 20 h)"

lemma length_uuid_bytes [simp]: "length (uuid_bytes i) = 16"
  by (simp add: uuid_bytes_def)

lemma uuid_bytes_inject: "uuid_bytes i = uuid_bytes j \<longleftrightarrow> i = j"
proof
  assume eq: "uuid_bytes i = uuid_bytes j"
  have "unat k < 256 ^ 16" for k :: uuid
    using unsigned_less [of k, where 'a = nat] by simp
  with eq have "unat i = unat j"
    unfolding uuid_bytes_def by (blast intro: to_bytes_inject)
  then show "i = j" by (rule unsigned_word_eqI)
qed simp

lemma uuid_hex_inject: "uuid_hex i = uuid_hex j \<Longrightarrow> i = j"
  by (simp add: uuid_hex_def uuid_bytes_inject [symmetric] hex_bytes_inject)

lemma uuid_str_inject: "uuid_str i = uuid_str j \<Longrightarrow> i = j"
proof -
  assume eq: "uuid_str i = uuid_str j"
  let ?h = "uuid_hex i" and ?k = "uuid_hex j"
  have len: "length ?h = 32" "length ?k = 32"
    by (simp_all add: uuid_hex_def)
  have split: "h = take 8 h @ take 4 (drop 8 h) @ take 4 (drop 12 h) @ take 4 (drop 16 h) @ drop 20 h"
    for h :: str
  proof -
    have "take 4 (drop n h) @ drop (4 + n) h = drop n h" for n
      by (metis append_take_drop_id drop_drop)
    from this [of 16] this [of 12] this [of 8] show ?thesis by simp
  qed
  from eq len have "take 8 ?h = take 8 ?k" "take 4 (drop 8 ?h) = take 4 (drop 8 ?k)"
    "take 4 (drop 12 ?h) = take 4 (drop 12 ?k)" "take 4 (drop 16 ?h) = take 4 (drop 16 ?k)"
    "drop 20 ?h = drop 20 ?k"
    by (simp_all add: uuid_str_def Let_def)
  then have "?h = ?k"
    using split [of ?h] split [of ?k] by simp
  then show ?thesis by (rule uuid_hex_inject)
qed

text \<open>
  \<open>UUID(value)\<close> accepts several spellings. The engine always compares \<open>str(UUID(value))\<close> with the
  value and answers a failed parse and a different spelling alike; what is left is the canonical
  spelling.
\<close>

definition hex_number :: "str \<Rightarrow> nat" where
  "hex_number s = foldl (\<lambda>a c. 16 * a + hex_value c) 0 s"

definition canonical_uuid :: "str \<Rightarrow> uuid option" where
  "canonical_uuid s =
     (let v = word_of_nat (hex_number (filter (\<lambda>c. c \<noteq> 45) s))
      in if uuid_str v = s then Some v else None)"

lemma hex_number_bytes: "foldl (\<lambda>a c. 16 * a + hex_value c) a (hex_bytes bs) = foldl (\<lambda>a b. a * 256 + unat b) a bs"
proof (induction bs arbitrary: a)
  case (Cons b bs)
  have "16 * (16 * a + hex_value (hex_digit (unat b div 16))) + hex_value (hex_digit (unat b mod 16)) = a * 256 + unat b"
    using byte_less [of b] div_mult_mod_eq [of "unat b" 16] by (simp add: hex_value_digit less_mult_imp_div_less)
  then show ?case
    unfolding hex_bytes_def list.map concat.simps hex_byte_def foldl_append foldl.simps
    by (simp only: Cons [unfolded hex_bytes_def hex_byte_def])
qed (simp add: hex_bytes_def)

lemma filter_uuid_str: "filter (\<lambda>c. c \<noteq> 45) (uuid_str i) = uuid_hex i"
proof -
  let ?h = "uuid_hex i"
  have "\<forall>c \<in> set ?h. c \<noteq> 45"
    using hex_bytes_hex [of "uuid_bytes i"] by (auto simp: uuid_hex_def list_all_iff is_hex_def is_digit_def)
  then have keep: "filter (\<lambda>c. c \<noteq> 45) (take n (drop m ?h)) = take n (drop m ?h)"
    "filter (\<lambda>c. c \<noteq> 45) (take n ?h) = take n ?h" "filter (\<lambda>c. c \<noteq> 45) (drop m ?h) = drop m ?h" for m n
    by (auto intro!: filter_True dest: in_set_takeD in_set_dropD)
  have glue: "take 4 (drop n ?h) @ drop (4 + n) ?h = drop n ?h" for n
    by (metis append_take_drop_id drop_drop)
  have "filter (\<lambda>c. c \<noteq> 45) (uuid_str i)
      = take 8 ?h @ take 4 (drop 8 ?h) @ take 4 (drop 12 ?h) @ take 4 (drop 16 ?h) @ drop 20 ?h"
    by (simp add: uuid_str_def Let_def keep u_def)
  also have "\<dots> = ?h"
    using glue [of 16] glue [of 12] glue [of 8] by simp
  finally show ?thesis .
qed

lemma canonical_uuid_eq [validators]: "canonical_uuid s = Some v \<longleftrightarrow> s = uuid_str v"
proof
  assume "s = uuid_str v"
  moreover have "hex_number (uuid_hex v) = unat v"
    using from_to_bytes [of "unat v" 16] unsigned_less [of v, where 'a = nat]
    by (simp add: hex_number_def uuid_hex_def hex_number_bytes uuid_bytes_def from_bytes_def)
  ultimately show "canonical_uuid s = Some v"
    by (simp add: canonical_uuid_def filter_uuid_str)
qed (auto simp: canonical_uuid_def Let_def split: if_splits)

section \<open>Validators shared by the components\<close>

text \<open>\<open>type(value) is not UUID\<close> raises \<open>TypeError\<close>.\<close>

fun require_uuid :: "pyval \<Rightarrow> uuid res" where
  "require_uuid (PUuid i) = Inr i"
| "require_uuid _ = Inl TypeError"

text \<open>\<open>type(value) is not str or not value or value.isspace()\<close> raises \<open>ValueError\<close>.\<close>

fun require_nonblank :: "pyval \<Rightarrow> str res" where
  "require_nonblank (PStr s) = (if blank s then Inl ValueError else Inr s)"
| "require_nonblank _ = Inl ValueError"

text \<open>An exact UTC datetime, else \<open>ValueError\<close>.\<close>

fun require_utc :: "pyval \<Rightarrow> datetime res" where
  "require_utc (PDatetime d) = (if is_aware_utc d then Inr d else Inl ValueError)"
| "require_utc _ = Inl ValueError"

text \<open>An exact integer in a closed range, else \<open>ValueError\<close>.\<close>

fun require_int_range :: "int \<Rightarrow> int \<Rightarrow> pyval \<Rightarrow> int res" where
  "require_int_range lo hi (PInt i) = (if lo \<le> i \<and> i \<le> hi then Inr i else Inl ValueError)"
| "require_int_range lo hi _ = Inl ValueError"

text \<open>A lowercase hexadecimal SHA-256 digest, else \<open>ValueError\<close>.\<close>

fun require_sha256_hex :: "pyval \<Rightarrow> str res" where
  "require_sha256_hex (PStr s) = (if is_sha256_hex s then Inr s else Inl ValueError)"
| "require_sha256_hex _ = Inl ValueError"

lemma require_uuid_eq [validators]: "require_uuid v = Inr i \<longleftrightarrow> v = PUuid i"
  by (cases v) auto

lemma require_nonblank_eq [validators]:
  "require_nonblank v = Inr s \<longleftrightarrow> v = PStr s \<and> \<not> blank s"
  by (cases v) auto

lemma require_utc_eq [validators]:
  "require_utc v = Inr d \<longleftrightarrow> v = PDatetime d \<and> is_aware_utc d"
  by (cases v) auto

lemma require_int_range_eq [validators]:
  "require_int_range lo hi v = Inr i \<longleftrightarrow> v = PInt i \<and> lo \<le> i \<and> i \<le> hi"
  by (cases v) auto

lemma require_sha256_hex_eq [validators]:
  "require_sha256_hex v = Inr s \<longleftrightarrow> v = PStr s \<and> is_sha256_hex s"
  by (cases v) auto

text \<open>The largest value of a positive signed 64-bit column.\<close>

definition max_signed64 :: int where
  "max_signed64 = 9223372036854775807"

lemma max_signed64_eq: "max_signed64 = 2 ^ 63 - 1"
  by (simp add: max_signed64_def)

end
