(* ===== verification/Sha256.thy ===== *)
theory Sha256
  imports Encoding
begin

text \<open>
  SHA-256 and HMAC-SHA-256 as \<open>hashlib\<close> and \<open>hmac\<close> compute them, on bytes, with 32-bit
  words. Nothing is assumed of the hash: a theorem that needs two digests to differ says
  which collision it would otherwise exhibit.
\<close>

unbundle bit_operations_syntax

type_synonym w32 = "32 word"

section \<open>Words\<close>

definition rotr32 :: "nat \<Rightarrow> w32 \<Rightarrow> w32" where
  "rotr32 n x = drop_bit n x OR push_bit (32 - n) x"

definition big_sigma0 :: "w32 \<Rightarrow> w32" where
  "big_sigma0 x = rotr32 2 x XOR rotr32 13 x XOR rotr32 22 x"

definition big_sigma1 :: "w32 \<Rightarrow> w32" where
  "big_sigma1 x = rotr32 6 x XOR rotr32 11 x XOR rotr32 25 x"

definition small_sigma0 :: "w32 \<Rightarrow> w32" where
  "small_sigma0 x = rotr32 7 x XOR rotr32 18 x XOR drop_bit 3 x"

definition small_sigma1 :: "w32 \<Rightarrow> w32" where
  "small_sigma1 x = rotr32 17 x XOR rotr32 19 x XOR drop_bit 10 x"

definition choose32 :: "w32 \<Rightarrow> w32 \<Rightarrow> w32 \<Rightarrow> w32" where
  "choose32 x y z = (x AND y) XOR (NOT x AND z)"

definition majority32 :: "w32 \<Rightarrow> w32 \<Rightarrow> w32 \<Rightarrow> w32" where
  "majority32 x y z = (x AND y) XOR (x AND z) XOR (y AND z)"

definition round_constants :: "w32 list" where
  "round_constants =
     [1116352408, 1899447441, 3049323471, 3921009573, 961987163, 1508970993, 2453635748,
      2870763221, 3624381080, 310598401, 607225278, 1426881987, 1925078388, 2162078206,
      2614888103, 3248222580, 3835390401, 4022224774, 264347078, 604807628, 770255983,
      1249150122, 1555081692, 1996064986, 2554220882, 2821834349, 2952996808, 3210313671,
      3336571891, 3584528711, 113926993, 338241895, 666307205, 773529912, 1294757372,
      1396182291, 1695183700, 1986661051, 2177026350, 2456956037, 2730485921, 2820302411,
      3259730800, 3345764771, 3516065817, 3600352804, 4094571909, 275423344, 430227734,
      506948616, 659060556, 883997877, 958139571, 1322822218, 1537002063, 1747873779,
      1955562222, 2024104815, 2227730452, 2361852424, 2428436474, 2756734187, 3204031479,
      3329325298]"

section \<open>Compression\<close>

type_synonym hash_state = "w32 \<times> w32 \<times> w32 \<times> w32 \<times> w32 \<times> w32 \<times> w32 \<times> w32"

definition initial_state :: hash_state where
  "initial_state = (1779033703, 3144134277, 1013904242, 2773480762, 1359893119, 2600822924, 528734635,
      1541459225)"

fun sha_round :: "w32 \<times> w32 \<Rightarrow> hash_state \<Rightarrow> hash_state" where
  "sha_round (k, w) (a, b, c, d, e, f, g, h) =
     (let t1 = h + big_sigma1 e + choose32 e f g + k + w;
          t2 = big_sigma0 a + majority32 a b c
      in (t1 + t2, a, b, c, d + t1, e, f, g))"

text \<open>The message schedule, latest word first.\<close>

primrec extend_schedule :: "nat \<Rightarrow> w32 list \<Rightarrow> w32 list" where
  "extend_schedule 0 ws = ws"
| "extend_schedule (Suc n) ws =
     extend_schedule n ((small_sigma1 (ws ! 1) + ws ! 6 + small_sigma0 (ws ! 14) + ws ! 15) # ws)"

definition schedule :: "w32 list \<Rightarrow> w32 list" where
  "schedule block = rev (extend_schedule 48 (rev block))"

fun add_state :: "hash_state \<Rightarrow> hash_state \<Rightarrow> hash_state" where
  "add_state (a, b, c, d, e, f, g, h) (a', b', c', d', e', f', g', h') =
     (a + a', b + b', c + c', d + d', e + e', f + f', g + g', h + h')"

definition compress :: "hash_state \<Rightarrow> w32 list \<Rightarrow> hash_state" where
  "compress st block = add_state st (fold sha_round (zip round_constants (schedule block)) st)"

section \<open>Padding and parsing\<close>

definition sha_pad :: "bytes \<Rightarrow> bytes" where
  "sha_pad m = m @ [128] @ replicate ((119 - length m mod 64) mod 64) 0 @ to_bytes 8 (8 * length m)"

fun words_of :: "bytes \<Rightarrow> w32 list" where
  "words_of (a # b # c # d # bs) =
     (push_bit 24 (ucast a) OR push_bit 16 (ucast b) OR push_bit 8 (ucast c) OR ucast d)
     # words_of bs"
| "words_of _ = []"

fun blocks_of :: "w32 list \<Rightarrow> w32 list list" where
  "blocks_of ws = (if length ws < 16 then [] else take 16 ws # blocks_of (drop 16 ws))"

declare blocks_of.simps [simp del]

definition word_bytes :: "w32 \<Rightarrow> bytes" where
  "word_bytes w = [ucast (drop_bit 24 w), ucast (drop_bit 16 w), ucast (drop_bit 8 w), ucast w]"

fun state_bytes :: "hash_state \<Rightarrow> bytes" where
  "state_bytes (a, b, c, d, e, f, g, h) = concat (map word_bytes [a, b, c, d, e, f, g, h])"

definition sha256 :: "bytes \<Rightarrow> bytes" where
  "sha256 m = state_bytes (fold (\<lambda>blk st. compress st blk) (blocks_of (words_of (sha_pad m))) initial_state)"

definition sha256_hexdigest :: "bytes \<Rightarrow> str" where
  "sha256_hexdigest m = hex_bytes (sha256 m)"

lemma length_state_bytes [simp]: "length (state_bytes st) = 32"
  by (cases st rule: state_bytes.cases) (simp add: word_bytes_def)

lemma length_sha256 [simp]: "length (sha256 m) = 32"
  by (simp add: sha256_def)

lemma sha256_hexdigest_shape [simp]: "is_sha256_hex (sha256_hexdigest m)"
  by (simp add: is_sha256_hex_def sha256_hexdigest_def hex_bytes_hex)

lemma length_sha256_hexdigest [simp]: "length (sha256_hexdigest m) = 64"
  by (simp add: sha256_hexdigest_def)

text \<open>
  A SHA-256 collision: two different messages with one digest. The integrity theorems
  conclude that a changed value is detected unless a collision is exhibited.
\<close>

definition sha256_collision :: "bytes \<Rightarrow> bytes \<Rightarrow> bool" where
  "sha256_collision a b \<longleftrightarrow> a \<noteq> b \<and> sha256 a = sha256 b"

lemma hexdigest_eq: "sha256_hexdigest a = sha256_hexdigest b \<Longrightarrow> a = b \<or> sha256_collision a b"
  unfolding sha256_hexdigest_def sha256_collision_def by (blast dest: hex_bytes_inject)

section \<open>HMAC\<close>

definition hmac_key_block :: "bytes \<Rightarrow> bytes" where
  "hmac_key_block key =
     (let k = (if length key > 64 then sha256 key else key)
      in k @ replicate (64 - length k) 0)"

definition hmac_sha256 :: "bytes \<Rightarrow> bytes \<Rightarrow> bytes" where
  "hmac_sha256 key msg =
     (let k = hmac_key_block key
      in sha256 (map (\<lambda>b. b XOR 0x5c) k @ sha256 (map (\<lambda>b. b XOR 0x36) k @ msg)))"

lemma length_hmac_sha256 [simp]: "length (hmac_sha256 key msg) = 32"
  by (simp add: hmac_sha256_def Let_def)

definition hmac_hexdigest :: "bytes \<Rightarrow> bytes \<Rightarrow> str" where
  "hmac_hexdigest key msg = hex_bytes (hmac_sha256 key msg)"

lemma length_hmac_hexdigest [simp]: "length (hmac_hexdigest key msg) = 64"
  by (simp add: hmac_hexdigest_def)

lemma hmac_hexdigest_hex: "list_all is_hex (hmac_hexdigest key msg)"
  by (simp add: hmac_hexdigest_def hex_bytes_hex)

end
