(* ===== verification/Budget.thy ===== *)
theory Budget
  imports Pyval Sha256
begin

text \<open>
  \<open>src/engine/runtime/budget.py\<close>: finite package budgets, the intersection of the server
  ceiling with a caller ceiling, and the per-resolve meter with its atomic reservations.

  A meter is a record; the reservations it hands out are objects in a store, so that a
  reservation of another meter, a stale one and a double commit can be expressed. Every
  locked method is one atomic operation on the pair of meter and store; an interleaving of
  threads is a list of operations.
\<close>

section \<open>Contracts\<close>

fun require_positive_exact_integer :: "pyval \<Rightarrow> int res" where
  "require_positive_exact_integer (PInt i) = (if i \<le> 0 then Inl ValueError else Inr i)"
| "require_positive_exact_integer _ = Inl ValueError"

record PackageBudget =
  max_tokens :: int
  max_provider_calls :: int
  max_cost_microunits :: int
  max_elapsed_ms :: int

definition PackageBudget_init :: "pyval \<Rightarrow> pyval \<Rightarrow> pyval \<Rightarrow> pyval \<Rightarrow> PackageBudget res" where
  "PackageBudget_init t p c e =
     bnd (require_positive_exact_integer t) (\<lambda>t'.
     bnd (require_positive_exact_integer p) (\<lambda>p'.
     bnd (require_positive_exact_integer c) (\<lambda>c'.
     bnd (require_positive_exact_integer e) (\<lambda>e'.
       Inr \<lparr>max_tokens = t', max_provider_calls = p', max_cost_microunits = c',
            max_elapsed_ms = e'\<rparr>))))"

record BudgetUsage =
  tokens :: int
  provider_calls :: int
  cost_microunits :: int
  elapsed_ms :: int

fun require_nonnegative_exact_integer :: "pyval \<Rightarrow> int res" where
  "require_nonnegative_exact_integer (PInt i) = (if i < 0 then Inl ValueError else Inr i)"
| "require_nonnegative_exact_integer _ = Inl ValueError"

definition BudgetUsage_init :: "pyval \<Rightarrow> pyval \<Rightarrow> pyval \<Rightarrow> pyval \<Rightarrow> BudgetUsage res" where
  "BudgetUsage_init t p c e =
     bnd (require_nonnegative_exact_integer t) (\<lambda>t'.
     bnd (require_nonnegative_exact_integer p) (\<lambda>p'.
     bnd (require_nonnegative_exact_integer c) (\<lambda>c'.
     bnd (require_nonnegative_exact_integer e) (\<lambda>e'.
       Inr \<lparr>tokens = t', provider_calls = p', cost_microunits = c', elapsed_ms = e'\<rparr>))))"

definition EMPTY_USAGE :: BudgetUsage where
  "EMPTY_USAGE = \<lparr>tokens = 0, provider_calls = 0, cost_microunits = 0, elapsed_ms = 0\<rparr>"

section \<open>The tokenizer a meter is bound to\<close>

text \<open>
  \<open>src/engine/tokenizer_accounting.py\<close>. Reading the artifact file is I/O and its JSON decoding
  a library call, so \<open>load\<close> takes the file contents (\<open>None\<close>: unreadable) and the decoder.
\<close>

record TokenizerProfile =
  profile_ref :: str
  profile_digest :: str
  artifact_digest :: str
  accounting_version :: str
  normalization_ref :: str
  vocabulary_ref :: str

text \<open>\<open>TokenizerProfile.load\<close>: the pinned artifact must hash and decode to the profile's identity.\<close>

definition TokenizerProfile_load ::
  "(bytes \<Rightarrow> (str \<times> str) list option) \<Rightarrow> bytes option \<Rightarrow> TokenizerProfile \<Rightarrow> TokenizerProfile res"
where
  "TokenizerProfile_load json_loads artifact p =
     (case artifact of None \<Rightarrow> Inl TokenizerUnavailable
      | Some a \<Rightarrow>
          if sha256_hexdigest a \<noteq> artifact_digest p then Inl TokenizerUnavailable
          else (case json_loads a of None \<Rightarrow> Inl TokenizerUnavailable
                | Some doc \<Rightarrow>
                    if \<not> (distinct (map fst doc)
                          \<and> set doc = {(u ''accountingVersion'', accounting_version p),
                                       (u ''normalization'', normalization_ref p),
                                       (u ''vocabulary'', vocabulary_ref p)})
                    then Inl TokenizerUnavailable else Inr p))"

text \<open>\<open>AccountingTokenizer.count\<close> on text: one token per Unicode scalar.\<close>

definition tokenizer_count :: "str \<Rightarrow> nat res" where
  "tokenizer_count s =
     (if list_ex is_surrogate s then Inl TokenizerUnavailable else Inr (length s))"

section \<open>The meter\<close>

record PackageBudgetMeter =
  meter_id :: nat
  m_budget :: PackageBudget
  m_reserved :: BudgetUsage
  m_usage :: BudgetUsage
  m_tokenizer_ref :: "str option"
  m_tokenizer_profile_digest :: "str option"
  m_release_generation :: "int option"
  m_tokenizer :: "TokenizerProfile option"

record PackageBudgetReservation =
  r_meter :: nat
  r_maximum :: BudgetUsage
  r_active :: bool

type_synonym reservations = "PackageBudgetReservation list"

definition fits :: "PackageBudget \<Rightarrow> BudgetUsage \<Rightarrow> bool" where
  "fits b x \<longleftrightarrow> tokens x \<le> max_tokens b \<and> provider_calls x \<le> max_provider_calls b
     \<and> cost_microunits x \<le> max_cost_microunits b \<and> elapsed_ms x \<le> max_elapsed_ms b"

definition usage_sum :: "BudgetUsage \<Rightarrow> BudgetUsage \<Rightarrow> BudgetUsage res" where
  "usage_sum l r = BudgetUsage_init
     (PInt (tokens l + tokens r)) (PInt (provider_calls l + provider_calls r))
     (PInt (cost_microunits l + cost_microunits r)) (PInt (elapsed_ms l + elapsed_ms r))"

definition usage_subtract :: "BudgetUsage \<Rightarrow> BudgetUsage \<Rightarrow> BudgetUsage res" where
  "usage_subtract l r = BudgetUsage_init
     (PInt (tokens l - tokens r)) (PInt (provider_calls l - provider_calls r))
     (PInt (cost_microunits l - cost_microunits r)) (PInt (elapsed_ms l - elapsed_ms r))"

definition PackageBudgetMeter_init ::
  "(TokenizerProfile \<Rightarrow> TokenizerProfile res) \<Rightarrow> nat \<Rightarrow> PackageBudget \<Rightarrow> BudgetUsage
    \<Rightarrow> TokenizerProfile option \<Rightarrow> pyval \<Rightarrow> PackageBudgetMeter res"
where
  "PackageBudgetMeter_init load mid budget initial_usage profile release_generation =
     (let m = \<lparr>meter_id = mid, m_budget = budget, m_reserved = EMPTY_USAGE, m_usage = initial_usage,
               m_tokenizer_ref = None, m_tokenizer_profile_digest = None,
               m_release_generation = None, m_tokenizer = None\<rparr>
      in bnd (if profile = None \<and> release_generation = PNone then Inr m
              else case profile of None \<Rightarrow> Inl TypeError
                | Some p \<Rightarrow>
                    (case release_generation of
                       PInt g \<Rightarrow>
                         if g < 1 then Inl ValueError
                         else bnd (load p) (\<lambda>t.
                           Inr (m\<lparr>m_tokenizer_ref := Some (profile_ref p),
                                  m_tokenizer_profile_digest := Some (profile_digest p),
                                  m_release_generation := Some g, m_tokenizer := Some t\<rparr>))
                     | _ \<Rightarrow> Inl ValueError))
           (\<lambda>m'. if \<not> fits budget initial_usage then Inl ValueError else Inr m'))"

definition require_tokenizer :: "PackageBudgetMeter \<Rightarrow> str \<Rightarrow> str \<Rightarrow> int \<Rightarrow> unit res" where
  "require_tokenizer m ref digest generation =
     (if Some ref \<noteq> m_tokenizer_ref m \<or> Some digest \<noteq> m_tokenizer_profile_digest m
         \<or> Some generation \<noteq> m_release_generation m
      then Inl TokenizerUnavailable else Inr ())"

definition require_carrier_tokenizer :: "PackageBudgetMeter \<Rightarrow> str \<Rightarrow> str \<Rightarrow> unit res" where
  "require_carrier_tokenizer m ref digest =
     (if m_tokenizer m = None then Inr ()
      else if Some ref \<noteq> m_tokenizer_ref m \<or> Some digest \<noteq> m_tokenizer_profile_digest m
      then Inl TokenizerUnavailable else Inr ())"

definition require_release_generation :: "PackageBudgetMeter \<Rightarrow> int \<Rightarrow> unit res" where
  "require_release_generation m generation =
     (if Some generation \<noteq> m_release_generation m then Inl TokenizerUnavailable else Inr ())"

definition count_tokens :: "PackageBudgetMeter \<Rightarrow> str \<Rightarrow> nat res" where
  "count_tokens m s = (case m_tokenizer m of None \<Rightarrow> Inr 0 | Some _ \<Rightarrow> tokenizer_count s)"

text \<open>\<open>_reserve\<close>: returns the new meter, the store with the reservation, and its reference.\<close>

definition meter_reserve ::
  "PackageBudgetMeter \<Rightarrow> reservations \<Rightarrow> BudgetUsage \<Rightarrow> (PackageBudgetMeter \<times> reservations \<times> nat) res"
where
  "meter_reserve m rs maximum =
     bnd (usage_sum (m_usage m) (m_reserved m)) (\<lambda>held.
     bnd (usage_sum held maximum) (\<lambda>proposed.
       if \<not> fits (m_budget m) proposed then Inl PackageBudgetExceeded
       else bnd (usage_sum (m_reserved m) maximum) (\<lambda>reserved.
         Inr (m\<lparr>m_reserved := reserved\<rparr>,
              rs @ [\<lparr>r_meter = meter_id m, r_maximum = maximum, r_active = True\<rparr>],
              length rs))))"

definition meter_owns :: "PackageBudgetMeter \<Rightarrow> reservations \<Rightarrow> nat \<Rightarrow> bool" where
  "meter_owns m rs rid \<longleftrightarrow> rid < length rs \<and> r_meter (rs ! rid) = meter_id m"

definition exceeds :: "BudgetUsage \<Rightarrow> BudgetUsage \<Rightarrow> bool" where
  "exceeds actual maximum \<longleftrightarrow> tokens actual > tokens maximum
     \<or> provider_calls actual > provider_calls maximum
     \<or> cost_microunits actual > cost_microunits maximum \<or> elapsed_ms actual > elapsed_ms maximum"

definition meter_commit ::
  "PackageBudgetMeter \<Rightarrow> reservations \<Rightarrow> nat \<Rightarrow> BudgetUsage \<Rightarrow> (PackageBudgetMeter \<times> reservations) res"
where
  "meter_commit m rs rid actual =
     (if \<not> meter_owns m rs rid then Inl ValueError
      else if exceeds actual (r_maximum (rs ! rid)) then Inl ValueError
      else if \<not> r_active (rs ! rid) then Inl ValueError
      else bnd (usage_subtract (m_reserved m) (r_maximum (rs ! rid))) (\<lambda>reserved.
           bnd (usage_sum (m_usage m) actual) (\<lambda>usage.
             Inr (m\<lparr>m_reserved := reserved, m_usage := usage\<rparr>,
                  rs[rid := (rs ! rid)\<lparr>r_active := False\<rparr>]))))"

definition meter_cancel ::
  "PackageBudgetMeter \<Rightarrow> reservations \<Rightarrow> nat \<Rightarrow> (PackageBudgetMeter \<times> reservations) res"
where
  "meter_cancel m rs rid =
     (if \<not> meter_owns m rs rid then Inl ValueError
      else if \<not> r_active (rs ! rid) then Inl ValueError
      else bnd (usage_subtract (m_reserved m) (r_maximum (rs ! rid))) (\<lambda>reserved.
             Inr (m\<lparr>m_reserved := reserved\<rparr>, rs[rid := (rs ! rid)\<lparr>r_active := False\<rparr>])))"

section \<open>Effective budgets\<close>

record PackageBudgetRequest =
  req_max_tokens :: "int option"
  req_max_provider_calls :: "int option"
  req_max_cost_microunits :: "int option"
  req_max_elapsed_ms :: "int option"

text \<open>One dimension of \<open>PackageBudgetRequest.__post_init__\<close>: absent, or a positive exact integer.\<close>

definition require_optional_positive :: "pyval \<Rightarrow> int option res" where
  "require_optional_positive v =
     (if v = PNone then Inr None
      else bnd (require_positive_exact_integer v) (\<lambda>i. Inr (Some i)))"

definition PackageBudgetRequest_init ::
  "pyval \<Rightarrow> pyval \<Rightarrow> pyval \<Rightarrow> pyval \<Rightarrow> PackageBudgetRequest res"
where
  "PackageBudgetRequest_init t p c e =
     bnd (require_optional_positive t) (\<lambda>t'.
     bnd (require_optional_positive p) (\<lambda>p'.
     bnd (require_optional_positive c) (\<lambda>c'.
     bnd (require_optional_positive e) (\<lambda>e'.
       if t' = None \<and> p' = None \<and> c' = None \<and> e' = None then Inl ValueError
       else Inr \<lparr>req_max_tokens = t', req_max_provider_calls = p',
                 req_max_cost_microunits = c', req_max_elapsed_ms = e'\<rparr>))))"

definition narrowed :: "int \<Rightarrow> int option \<Rightarrow> int" where
  "narrowed server_value requested =
     (case requested of None \<Rightarrow> server_value | Some r \<Rightarrow> min server_value r)"

definition effective_package_budget ::
  "PackageBudget \<Rightarrow> PackageBudgetRequest option \<Rightarrow> PackageBudget res"
where
  "effective_package_budget server requested =
     (case requested of None \<Rightarrow> Inr server
      | Some r \<Rightarrow> PackageBudget_init
          (PInt (narrowed (max_tokens server) (req_max_tokens r)))
          (PInt (narrowed (max_provider_calls server) (req_max_provider_calls r)))
          (PInt (narrowed (max_cost_microunits server) (req_max_cost_microunits r)))
          (PInt (narrowed (max_elapsed_ms server) (req_max_elapsed_ms r))))"

section \<open>Interleavings\<close>

text \<open>
  What the threads of one resolve do with the meter: construct a usage and reserve it, commit
  or cancel a reservation. \<open>Foreign\<close> is a reservation that another meter created. An
  operation that raises leaves the ledger as it was.
\<close>

datatype meter_op =
    Reserve pyval pyval pyval pyval
  | Commit nat pyval pyval pyval pyval
  | Cancel nat
  | Foreign nat BudgetUsage

type_synonym ledger = "PackageBudgetMeter \<times> reservations"

fun meter_try :: "ledger \<Rightarrow> meter_op \<Rightarrow> ledger res" where
  "meter_try (m, rs) (Reserve t p c e) =
     bnd (BudgetUsage_init t p c e) (\<lambda>maximum.
     bnd (meter_reserve m rs maximum) (\<lambda>(m', rs', rid). Inr (m', rs')))"
| "meter_try (m, rs) (Commit rid t p c e) =
     bnd (BudgetUsage_init t p c e) (\<lambda>actual. meter_commit m rs rid actual)"
| "meter_try (m, rs) (Cancel rid) = meter_cancel m rs rid"
| "meter_try (m, rs) (Foreign mid x) =
     (if mid = meter_id m then Inr (m, rs)
      else Inr (m, rs @ [\<lparr>r_meter = mid, r_maximum = x, r_active = True\<rparr>]))"

definition meter_step :: "ledger \<Rightarrow> meter_op \<Rightarrow> ledger" where
  "meter_step l op = (case meter_try l op of Inl _ \<Rightarrow> l | Inr l' \<Rightarrow> l')"

text \<open>The invariant: the running total \<open>_reserved\<close> is the sum of the active reservations of
  this meter, and usage plus reservations fit the budget.\<close>

definition valid_usage :: "BudgetUsage \<Rightarrow> bool" where
  "valid_usage x \<longleftrightarrow> 0 \<le> tokens x \<and> 0 \<le> provider_calls x \<and> 0 \<le> cost_microunits x \<and> 0 \<le> elapsed_ms x"

definition valid_budget :: "PackageBudget \<Rightarrow> bool" where
  "valid_budget b \<longleftrightarrow> 0 < max_tokens b \<and> 0 < max_provider_calls b \<and> 0 < max_cost_microunits b
     \<and> 0 < max_elapsed_ms b"

definition owned_active :: "PackageBudgetMeter \<Rightarrow> PackageBudgetReservation \<Rightarrow> bool" where
  "owned_active m r \<longleftrightarrow> r_meter r = meter_id m \<and> r_active r"

definition outstanding ::
  "(BudgetUsage \<Rightarrow> int) \<Rightarrow> PackageBudgetMeter \<Rightarrow> reservations \<Rightarrow> int"
where
  "outstanding sel m rs =
     sum_list (map (\<lambda>r. if owned_active m r then sel (r_maximum r) else 0) rs)"

definition total_outstanding :: "PackageBudgetMeter \<Rightarrow> reservations \<Rightarrow> BudgetUsage" where
  "total_outstanding m rs =
     \<lparr>tokens = outstanding tokens m rs, provider_calls = outstanding provider_calls m rs,
      cost_microunits = outstanding cost_microunits m rs,
      elapsed_ms = outstanding elapsed_ms m rs\<rparr>"

definition usage_plus :: "BudgetUsage \<Rightarrow> BudgetUsage \<Rightarrow> BudgetUsage" where
  "usage_plus l r = \<lparr>tokens = tokens l + tokens r, provider_calls = provider_calls l + provider_calls r,
     cost_microunits = cost_microunits l + cost_microunits r, elapsed_ms = elapsed_ms l + elapsed_ms r\<rparr>"

fun meter_inv :: "ledger \<Rightarrow> bool" where
  "meter_inv (m, rs) \<longleftrightarrow>
     valid_usage (m_usage m) \<and> (\<forall>r \<in> set rs. r_meter r = meter_id m \<longrightarrow> valid_usage (r_maximum r))
     \<and> m_reserved m = total_outstanding m rs
     \<and> fits (m_budget m) (usage_plus (m_usage m) (m_reserved m))"

declare meter_inv.simps [simp del]

section \<open>Lemmas\<close>

lemma require_positive_exact_integer_eq [validators]:
  "require_positive_exact_integer v = Inr i \<longleftrightarrow> v = PInt i \<and> 0 < i"
  by (cases v) auto

lemma require_nonnegative_exact_integer_eq [validators]:
  "require_nonnegative_exact_integer v = Inr i \<longleftrightarrow> v = PInt i \<and> 0 \<le> i"
  by (cases v) auto

lemma BudgetUsage_init_eq [validators]:
  "BudgetUsage_init t p c e = Inr x \<longleftrightarrow>
     t = PInt (tokens x) \<and> p = PInt (provider_calls x) \<and> c = PInt (cost_microunits x)
     \<and> e = PInt (elapsed_ms x) \<and> valid_usage x"
  by (cases x) (auto simp: BudgetUsage_init_def valid_usage_def validators)

lemma PackageBudget_init_eq [validators]:
  "PackageBudget_init t p c e = Inr b \<longleftrightarrow>
     t = PInt (max_tokens b) \<and> p = PInt (max_provider_calls b) \<and> c = PInt (max_cost_microunits b)
     \<and> e = PInt (max_elapsed_ms b) \<and> valid_budget b"
  by (cases b) (auto simp: PackageBudget_init_def valid_budget_def validators)

lemma usage_sum_eq:
  "\<lbrakk>valid_usage l; valid_usage r\<rbrakk> \<Longrightarrow> usage_sum l r = Inr (usage_plus l r)"
  by (simp add: usage_sum_def BudgetUsage_init_eq usage_plus_def valid_usage_def)

lemma valid_usage_plus: "\<lbrakk>valid_usage l; valid_usage r\<rbrakk> \<Longrightarrow> valid_usage (usage_plus l r)"
  by (simp add: valid_usage_def usage_plus_def)

lemma valid_EMPTY [simp]: "valid_usage EMPTY_USAGE"
  by (simp add: valid_usage_def EMPTY_USAGE_def)

lemma outstanding_nonneg:
  assumes "\<And>r. r \<in> set rs \<Longrightarrow> owned_active m r \<Longrightarrow> 0 \<le> sel (r_maximum r)"
  shows "0 \<le> outstanding sel m rs"
  unfolding outstanding_def using assms by (intro sum_list_map_nonneg) auto

lemma valid_total_outstanding:
  "\<forall>r \<in> set rs. r_meter r = meter_id m \<longrightarrow> valid_usage (r_maximum r)
    \<Longrightarrow> valid_usage (total_outstanding m rs)"
  by (auto simp: valid_usage_def total_outstanding_def owned_active_def intro!: outstanding_nonneg)

lemma outstanding_append:
  "outstanding sel m (rs @ [r]) =
     outstanding sel m rs + (if owned_active m r then sel (r_maximum r) else 0)"
  by (simp add: outstanding_def)

lemma outstanding_release:
  assumes "rid < length rs" and "owned_active m (rs ! rid)"
  shows "outstanding sel m (rs[rid := (rs ! rid)\<lparr>r_active := False\<rparr>]) =
    outstanding sel m rs - sel (r_maximum (rs ! rid))"
  unfolding outstanding_def
  by (subst sum_list_map_update) (use assms in \<open>simp_all add: owned_active_def\<close>)

text \<open>The meter's counters do not matter for what is outstanding, only its identity.\<close>

lemma outstanding_cong [simp]:
  "outstanding sel (m\<lparr>m_reserved := a\<rparr>) rs = outstanding sel m rs"
  "outstanding sel (m\<lparr>m_usage := b\<rparr>) rs = outstanding sel m rs"
  by (simp_all add: outstanding_def owned_active_def)

lemma total_outstanding_cong [simp]:
  "total_outstanding (m\<lparr>m_reserved := a\<rparr>) rs = total_outstanding m rs"
  "total_outstanding (m\<lparr>m_usage := b\<rparr>) rs = total_outstanding m rs"
  by (simp_all add: total_outstanding_def)

lemma total_outstanding_append:
  "total_outstanding m (rs @ [r]) =
     (if owned_active m r then usage_plus (total_outstanding m rs) (r_maximum r)
      else total_outstanding m rs)"
  by (simp add: total_outstanding_def outstanding_append usage_plus_def)

lemma outstanding_covers:
  assumes "meter_inv (m, rs)" and "rid < length rs" and "owned_active m (rs ! rid)"
  shows "tokens (r_maximum (rs ! rid)) \<le> tokens (m_reserved m)"
    and "provider_calls (r_maximum (rs ! rid)) \<le> provider_calls (m_reserved m)"
    and "cost_microunits (r_maximum (rs ! rid)) \<le> cost_microunits (m_reserved m)"
    and "elapsed_ms (r_maximum (rs ! rid)) \<le> elapsed_ms (m_reserved m)"
proof -
  have "sel (r_maximum (rs ! rid)) \<le> outstanding sel m rs"
    if "\<And>x. valid_usage x \<Longrightarrow> 0 \<le> sel x" for sel
  proof -
    let ?f = "\<lambda>r. if owned_active m r then sel (r_maximum r) else 0"
    have "?f (rs ! rid) \<le> sum_list (map ?f rs)"
      using assms that by (intro elem_le_sum_list_map) (auto simp: owned_active_def meter_inv.simps)
    with assms(3) show ?thesis by (simp add: outstanding_def)
  qed
  with assms(1) show "tokens (r_maximum (rs ! rid)) \<le> tokens (m_reserved m)"
    "provider_calls (r_maximum (rs ! rid)) \<le> provider_calls (m_reserved m)"
    "cost_microunits (r_maximum (rs ! rid)) \<le> cost_microunits (m_reserved m)"
    "elapsed_ms (r_maximum (rs ! rid)) \<le> elapsed_ms (m_reserved m)"
    by (simp_all add: total_outstanding_def valid_usage_def meter_inv.simps)
qed

text \<open>One reservation: it succeeds exactly when everything held so far plus the request fits.\<close>

lemma meter_reserve_cases:
  assumes "meter_inv (m, rs)" and "valid_usage x"
  shows "meter_reserve m rs x =
    (if fits (m_budget m) (usage_plus (usage_plus (m_usage m) (total_outstanding m rs)) x)
     then Inr (m\<lparr>m_reserved := usage_plus (total_outstanding m rs) x\<rparr>,
               rs @ [\<lparr>r_meter = meter_id m, r_maximum = x, r_active = True\<rparr>], length rs)
     else Inl PackageBudgetExceeded)"
  using assms valid_total_outstanding [of rs m]
  by (simp add: meter_reserve_def usage_sum_eq valid_usage_plus meter_inv.simps)

lemma meter_reserve_inv:
  assumes "meter_inv (m, rs)" and "valid_usage x" and "meter_reserve m rs x = Inr (m', rs', rid)"
  shows "meter_inv (m', rs')"
proof -
  from assms have m': "m' = m\<lparr>m_reserved := usage_plus (total_outstanding m rs) x\<rparr>"
    and rs': "rs' = rs @ [\<lparr>r_meter = meter_id m, r_maximum = x, r_active = True\<rparr>]"
    and fit: "fits (m_budget m) (usage_plus (usage_plus (m_usage m) (total_outstanding m rs)) x)"
    by (simp_all add: meter_reserve_cases split: if_splits)
  with assms(1,2) show ?thesis
    by (auto simp: meter_inv.simps total_outstanding_append owned_active_def fits_def usage_plus_def)
qed

text \<open>Releasing an active reservation of this meter never raises.\<close>

lemma usage_subtract_reserved:
  assumes "meter_inv (m, rs)" and "rid < length rs" and "owned_active m (rs ! rid)"
  shows "usage_subtract (m_reserved m) (r_maximum (rs ! rid)) =
    Inr (total_outstanding m (rs[rid := (rs ! rid)\<lparr>r_active := False\<rparr>]))"
  using outstanding_covers [OF assms] assms
  by (simp add: usage_subtract_def BudgetUsage_init_eq valid_usage_def total_outstanding_def
      outstanding_release meter_inv.simps)

lemma meter_owns_active:
  "meter_owns m rs rid \<Longrightarrow> r_active (rs ! rid) \<Longrightarrow> rid < length rs \<and> owned_active m (rs ! rid)"
  by (simp add: meter_owns_def owned_active_def)

lemma meter_commit_cases:
  assumes inv: "meter_inv (m, rs)" and "valid_usage actual"
  shows "meter_commit m rs rid actual =
    (if meter_owns m rs rid \<and> \<not> exceeds actual (r_maximum (rs ! rid)) \<and> r_active (rs ! rid)
     then let rs' = rs[rid := (rs ! rid)\<lparr>r_active := False\<rparr>]
          in Inr (m\<lparr>m_reserved := total_outstanding m rs', m_usage := usage_plus (m_usage m) actual\<rparr>, rs')
     else Inl ValueError)"
  using assms usage_subtract_reserved [OF inv] meter_owns_active [of m rs rid]
  by (auto simp: meter_commit_def usage_sum_eq Let_def meter_inv.simps)

lemma meter_cancel_cases:
  assumes inv: "meter_inv (m, rs)"
  shows "meter_cancel m rs rid =
    (if meter_owns m rs rid \<and> r_active (rs ! rid)
     then let rs' = rs[rid := (rs ! rid)\<lparr>r_active := False\<rparr>]
          in Inr (m\<lparr>m_reserved := total_outstanding m rs'\<rparr>, rs')
     else Inl ValueError)"
  using usage_subtract_reserved [OF inv] meter_owns_active [of m rs rid]
  by (auto simp: meter_cancel_def Let_def)

lemma release_valid:
  assumes "\<forall>r \<in> set rs. r_meter r = meter_id m \<longrightarrow> valid_usage (r_maximum r)"
    and "rid < length rs"
  shows "\<forall>r \<in> set (rs[rid := (rs ! rid)\<lparr>r_active := False\<rparr>]).
    r_meter r = meter_id m \<longrightarrow> valid_usage (r_maximum r)"
proof
  fix r
  assume "r \<in> set (rs[rid := (rs ! rid)\<lparr>r_active := False\<rparr>])"
  then have "r = (rs ! rid)\<lparr>r_active := False\<rparr> \<or> r \<in> set rs"
    using set_update_subset_insert by fastforce
  with assms show "r_meter r = meter_id m \<longrightarrow> valid_usage (r_maximum r)"
    by auto
qed

lemma release_fits:
  assumes inv: "meter_inv (m, rs)" and own: "meter_owns m rs rid" "r_active (rs ! rid)"
    and x: "valid_usage x" "\<not> exceeds x (r_maximum (rs ! rid))"
  shows "fits (m_budget m) (usage_plus (usage_plus (m_usage m) x)
    (total_outstanding m (rs[rid := (rs ! rid)\<lparr>r_active := False\<rparr>])))"
proof -
  let ?rs' = "rs[rid := (rs ! rid)\<lparr>r_active := False\<rparr>]"
  have "outstanding sel m ?rs' = outstanding sel m rs - sel (r_maximum (rs ! rid))" for sel
    using meter_owns_active [OF own] by (simp add: outstanding_release)
  moreover have "fits (m_budget m) (usage_plus (m_usage m) (total_outstanding m rs))"
    using inv by (metis meter_inv.simps)
  ultimately show ?thesis
    using x by (auto simp: fits_def usage_plus_def exceeds_def total_outstanding_def)
qed

lemma meter_commit_inv:
  assumes "meter_inv (m, rs)" and "valid_usage actual" and "meter_commit m rs rid actual = Inr (m', rs')"
  shows "meter_inv (m', rs')"
proof -
  from assms have own: "meter_owns m rs rid" "r_active (rs ! rid)"
    and le: "\<not> exceeds actual (r_maximum (rs ! rid))"
    and rs': "rs' = rs[rid := (rs ! rid)\<lparr>r_active := False\<rparr>]"
    and m': "m' = m\<lparr>m_reserved := total_outstanding m rs', m_usage := usage_plus (m_usage m) actual\<rparr>"
    by (auto simp: meter_commit_cases Let_def split: if_splits)
  have "\<forall>r \<in> set rs'. r_meter r = meter_id m \<longrightarrow> valid_usage (r_maximum r)"
    unfolding rs' using assms(1) own
    by (intro release_valid) (simp_all add: meter_owns_def meter_inv.simps)
  with release_fits [OF assms(1) own assms(2) le] assms(1,2) show ?thesis
    by (simp add: m' rs' valid_usage_plus meter_inv.simps)
qed

lemma meter_cancel_inv:
  assumes "meter_inv (m, rs)" and "meter_cancel m rs rid = Inr (m', rs')"
  shows "meter_inv (m', rs')"
proof -
  from assms have own: "meter_owns m rs rid" "r_active (rs ! rid)"
    and rs': "rs' = rs[rid := (rs ! rid)\<lparr>r_active := False\<rparr>]"
    and m': "m' = m\<lparr>m_reserved := total_outstanding m rs'\<rparr>"
    by (auto simp: meter_cancel_cases Let_def split: if_splits)
  have "\<forall>r \<in> set rs'. r_meter r = meter_id m \<longrightarrow> valid_usage (r_maximum r)"
    unfolding rs' using assms(1) own
    by (intro release_valid) (simp_all add: meter_owns_def meter_inv.simps)
  moreover have "valid_usage (r_maximum (rs ! rid))"
    using assms(1) own by (simp add: meter_owns_def meter_inv.simps)
  then have "\<not> exceeds EMPTY_USAGE (r_maximum (rs ! rid))"
    by (simp add: exceeds_def EMPTY_USAGE_def valid_usage_def)
  moreover have "usage_plus (m_usage m) EMPTY_USAGE = m_usage m"
    by (simp add: usage_plus_def EMPTY_USAGE_def)
  ultimately show ?thesis
    using release_fits [OF assms(1) own valid_EMPTY] assms(1)
    by (simp add: m' rs' meter_inv.simps)
qed

lemma meter_try_inv: "meter_inv l \<Longrightarrow> meter_try l op = Inr l' \<Longrightarrow> meter_inv l'"
proof (induction l op rule: meter_try.induct)
  case (1 m rs t p c e)
  then show ?case by (auto simp: BudgetUsage_init_eq intro: meter_reserve_inv)
next
  case (2 m rs rid t p c e)
  then show ?case by (cases l') (auto simp: BudgetUsage_init_eq intro: meter_commit_inv)
next
  case (3 m rs rid)
  then show ?case by (cases l') (auto intro: meter_cancel_inv)
next
  case (4 m rs mid x)
  then show ?case
    by (auto simp: meter_inv.simps total_outstanding_append owned_active_def split: if_splits)
qed

interpretation meter: atomic_component meter_step meter_inv
proof
  show "meter_inv (meter_step l op)" if "meter_inv l" for l op
    using that by (auto simp: meter_step_def split: sum.splits intro: meter_try_inv)
qed

lemma meter_init_inv:
  assumes "PackageBudgetMeter_init load mid b x profile g = Inr m" and "valid_usage x"
  shows "meter_inv (m, [])" and "m_budget m = b" and "m_usage m = x"
proof -
  have "m_budget m = b" "m_usage m = x" "m_reserved m = EMPTY_USAGE" "fits b x"
    using assms(1)
    by (auto simp: PackageBudgetMeter_init_def Let_def split: if_splits option.splits pyval.splits)
  moreover have "total_outstanding m [] = EMPTY_USAGE"
    by (simp add: total_outstanding_def outstanding_def EMPTY_USAGE_def)
  moreover have "usage_plus x EMPTY_USAGE = x"
    by (simp add: usage_plus_def EMPTY_USAGE_def)
  ultimately show "meter_inv (m, [])" "m_budget m = b" "m_usage m = x"
    using assms(2) by (simp_all add: meter_inv.simps)
qed

lemma meter_step_budget: "m_budget (fst (meter_step l op)) = m_budget (fst l)"
proof -
  have "m_budget (fst l') = m_budget (fst l)" if "meter_try l op = Inr l'" for l'
    using that
    by (induction l op rule: meter_try.induct)
      (auto simp: meter_reserve_def meter_commit_def meter_cancel_def split: if_splits)
  then show ?thesis by (auto simp: meter_step_def split: sum.splits)
qed

lemma meter_run_budget: "m_budget (fst (foldl meter_step l ops)) = m_budget (fst l)"
  by (induction ops arbitrary: l) (simp_all add: meter_step_budget)

lemma PackageBudgetMeter_init_unbound:
  "fits b x \<Longrightarrow> PackageBudgetMeter_init load mid b x None PNone =
     Inr \<lparr>meter_id = mid, m_budget = b, m_reserved = EMPTY_USAGE, m_usage = x, m_tokenizer_ref = None,
          m_tokenizer_profile_digest = None, m_release_generation = None, m_tokenizer = None\<rparr>"
  by (simp add: PackageBudgetMeter_init_def Let_def)

definition example_budget :: PackageBudget where
  "example_budget = \<lparr>max_tokens = 10, max_provider_calls = 2, max_cost_microunits = 5, max_elapsed_ms = 5\<rparr>"

lemma example_fits: "fits example_budget EMPTY_USAGE"
  by (simp add: fits_def example_budget_def EMPTY_USAGE_def)

definition example_ops :: "meter_op list" where
  "example_ops = [Reserve (PInt 6) (PInt 1) (PInt 0) (PInt 0), Reserve (PInt 5) (PInt 1) (PInt 0) (PInt 0),
     Commit 0 (PInt 4) (PInt 1) (PInt 0) (PInt 0), Cancel 0]"

lemmas meter_eval = meter_step_def meter_reserve_def meter_commit_def meter_cancel_def
  usage_sum_def usage_subtract_def BudgetUsage_init_def fits_def exceeds_def meter_owns_def
  PackageBudgetMeter_init_def example_budget_def EMPTY_USAGE_def

section \<open>Properties\<close>

text \<open>
  C7. Whatever the threads of a resolve interleave on a meter, the usage it reports, and the
  usage together with everything still reserved, stay within all four dimensions of the budget
  the meter was created with.
\<close>

theorem meter_never_exceeds_budget:
  assumes "PackageBudgetMeter_init load mid b initial profile g = Inr m" and "valid_usage initial"
    and "foldl meter_step (m, []) ops = (m', rs')"
  shows "fits b (m_usage m') \<and> fits b (usage_plus (m_usage m') (m_reserved m'))"
proof -
  have inv: "meter_inv (m', rs')"
    using meter.run_inv [OF meter_init_inv(1) [OF assms(1,2)], of ops] assms(3) by simp
  have "m_budget m' = b"
    using meter_run_budget [of "(m, [])" ops] meter_init_inv(2) [OF assms(1,2)] assms(3) by simp
  with inv have fit: "fits b (usage_plus (m_usage m') (m_reserved m'))"
    and "valid_usage (m_reserved m')"
    using valid_total_outstanding [of rs' m'] by (auto simp: meter_inv.simps)
  then show ?thesis
    by (auto simp: fits_def usage_plus_def valid_usage_def)
qed

theorem meter_never_exceeds_budget_witness:
  "\<exists>m m' rs'. PackageBudgetMeter_init Inr 0 example_budget EMPTY_USAGE None PNone = Inr m
     \<and> foldl meter_step (m, []) example_ops = (m', rs') \<and> tokens (m_usage m') = 4
     \<and> fits example_budget (m_usage m')"
proof -
  let ?m = "\<lparr>meter_id = 0, m_budget = example_budget, m_reserved = EMPTY_USAGE,
    m_usage = EMPTY_USAGE, m_tokenizer_ref = None, m_tokenizer_profile_digest = None,
    m_release_generation = None, m_tokenizer = None\<rparr>"
  have init: "PackageBudgetMeter_init Inr 0 example_budget EMPTY_USAGE None PNone = Inr ?m"
    by (rule PackageBudgetMeter_init_unbound [OF example_fits])
  obtain m' rs' where run: "foldl meter_step (?m, []) example_ops = (m', rs')"
    by fastforce
  have "tokens (m_usage m') = 4"
    using run by (auto simp: example_ops_def meter_eval)
  with init run meter_never_exceeds_budget [OF init valid_EMPTY run] show ?thesis by blast
qed

text \<open>
  The incrementally maintained \<open>_reserved\<close> is, after every interleaving, exactly the sum of
  the maxima of this meter's active reservations; a reservation is granted exactly when the
  recorded usage, that sum and the request together fit the budget.
\<close>

theorem meter_reserve_exact:
  assumes "PackageBudgetMeter_init load mid b initial profile g = Inr m" and "valid_usage initial"
    and "foldl meter_step (m, []) ops = (m', rs')" and "valid_usage x"
  shows "m_reserved m' = total_outstanding m' rs'
    \<and> (returns (meter_reserve m' rs' x) \<longleftrightarrow>
      fits b (usage_plus (usage_plus (m_usage m') (total_outstanding m' rs')) x))"
proof -
  have inv: "meter_inv (m', rs')"
    using meter.run_inv [OF meter_init_inv(1) [OF assms(1,2)], of ops] assms(3) by simp
  then have "m_reserved m' = total_outstanding m' rs'"
    by (simp add: meter_inv.simps)
  moreover have "m_budget m' = b"
    using meter_run_budget [of "(m, [])" ops] meter_init_inv(2) [OF assms(1,2)] assms(3) by simp
  ultimately show ?thesis
    using meter_reserve_cases [OF inv assms(4)] by simp
qed

theorem meter_reserve_exact_witness:
  "\<exists>m m' rs'. PackageBudgetMeter_init Inr 0 example_budget EMPTY_USAGE None PNone = Inr m
     \<and> foldl meter_step (m, []) [Reserve (PInt 6) (PInt 1) (PInt 0) (PInt 0)] = (m', rs')
     \<and> m_reserved m' = total_outstanding m' rs' \<and> tokens (m_reserved m') = 6"
proof -
  let ?m = "\<lparr>meter_id = 0, m_budget = example_budget, m_reserved = EMPTY_USAGE,
    m_usage = EMPTY_USAGE, m_tokenizer_ref = None, m_tokenizer_profile_digest = None,
    m_release_generation = None, m_tokenizer = None\<rparr>"
  let ?ops = "[Reserve (PInt 6) (PInt 1) (PInt 0) (PInt 0)]"
  have init: "PackageBudgetMeter_init Inr 0 example_budget EMPTY_USAGE None PNone = Inr ?m"
    by (rule PackageBudgetMeter_init_unbound [OF example_fits])
  obtain m' rs' where run: "foldl meter_step (?m, []) ?ops = (m', rs')"
    by fastforce
  have "tokens (m_reserved m') = 6"
    using run by (auto simp: meter_eval)
  with init run meter_reserve_exact [OF init valid_EMPTY run valid_EMPTY] show ?thesis by blast
qed

text \<open>
  Every reservation is settled exactly once: in any reachable ledger, committing an active
  reservation of this meter with a charge within its maximum returns, adds exactly that charge
  to the usage, and makes every later commit or cancel of the same reservation raise.
\<close>

theorem meter_commit_once:
  assumes "meter_inv (m, rs)" and "meter_owns m rs rid" and "r_active (rs ! rid)"
    and "valid_usage actual" and "\<not> exceeds actual (r_maximum (rs ! rid))"
  shows "\<exists>m' rs'. meter_commit m rs rid actual = Inr (m', rs')
    \<and> m_usage m' = usage_plus (m_usage m) actual
    \<and> (\<forall>charge. meter_commit m' rs' rid charge = Inl ValueError)
    \<and> meter_cancel m' rs' rid = Inl ValueError"
proof -
  let ?rs' = "rs[rid := (rs ! rid)\<lparr>r_active := False\<rparr>]"
  let ?m' = "m\<lparr>m_reserved := total_outstanding m ?rs', m_usage := usage_plus (m_usage m) actual\<rparr>"
  have "meter_commit m rs rid actual = Inr (?m', ?rs')"
    using assms by (simp add: meter_commit_cases Let_def)
  moreover have "\<not> r_active (?rs' ! rid)"
    using assms(2) by (simp add: meter_owns_def)
  then have "meter_commit ?m' ?rs' rid charge = Inl ValueError"
    and "meter_cancel ?m' ?rs' rid = Inl ValueError" for charge
    by (auto simp: meter_commit_def meter_cancel_def)
  ultimately show ?thesis by (intro exI [of _ ?m'] exI [of _ ?rs']) simp
qed

definition settled_example :: ledger where
  "settled_example =
     (\<lparr>meter_id = 0, m_budget = example_budget,
       m_reserved = \<lparr>tokens = 6, provider_calls = 1, cost_microunits = 0, elapsed_ms = 0\<rparr>,
       m_usage = EMPTY_USAGE, m_tokenizer_ref = None, m_tokenizer_profile_digest = None,
       m_release_generation = None, m_tokenizer = None\<rparr>,
      [\<lparr>r_meter = 0,
        r_maximum = \<lparr>tokens = 6, provider_calls = 1, cost_microunits = 0, elapsed_ms = 0\<rparr>,
        r_active = True\<rparr>])"

theorem meter_commit_once_witness:
  "\<exists>m' rs'. meter_commit (fst settled_example) (snd settled_example) 0
      \<lparr>tokens = 4, provider_calls = 1, cost_microunits = 0, elapsed_ms = 0\<rparr> = Inr (m', rs')
    \<and> meter_cancel m' rs' 0 = Inl ValueError"
proof -
  let ?x = "\<lparr>tokens = 4, provider_calls = 1, cost_microunits = 0, elapsed_ms = 0\<rparr> :: BudgetUsage"
  have "meter_inv (fst settled_example, snd settled_example)"
    by (simp add: meter_inv.simps settled_example_def total_outstanding_def outstanding_def
        owned_active_def valid_usage_def usage_plus_def meter_eval)
  moreover have "meter_owns (fst settled_example) (snd settled_example) 0"
    and "r_active (snd settled_example ! 0)" and "valid_usage ?x"
    and "\<not> exceeds ?x (r_maximum (snd settled_example ! 0))"
    by (simp_all add: settled_example_def meter_owns_def valid_usage_def exceeds_def)
  ultimately show ?thesis
    using meter_commit_once [of "fst settled_example" "snd settled_example" 0 ?x] by blast
qed

text \<open>
  The effective budget is the pointwise minimum of the server ceiling and the requested
  dimensions: it always exists for a valid server ceiling and a request the constructor
  accepted, a usage fits it exactly when it fits the server ceiling and every requested
  dimension, and intersecting a second time changes nothing.
\<close>

theorem effective_package_budget_meet:
  assumes "valid_budget server" and "PackageBudgetRequest_init t p c e = Inr r"
  shows "\<exists>b. effective_package_budget server (Some r) = Inr b \<and> valid_budget b
    \<and> (\<forall>x. fits b x \<longleftrightarrow> fits server x
         \<and> (\<forall>n. req_max_tokens r = Some n \<longrightarrow> tokens x \<le> n)
         \<and> (\<forall>n. req_max_provider_calls r = Some n \<longrightarrow> provider_calls x \<le> n)
         \<and> (\<forall>n. req_max_cost_microunits r = Some n \<longrightarrow> cost_microunits x \<le> n)
         \<and> (\<forall>n. req_max_elapsed_ms r = Some n \<longrightarrow> elapsed_ms x \<le> n))
    \<and> effective_package_budget b (Some r) = Inr b"
proof -
  have pos: "\<forall>n. req_max_tokens r = Some n \<longrightarrow> 0 < n" "\<forall>n. req_max_provider_calls r = Some n \<longrightarrow> 0 < n"
    "\<forall>n. req_max_cost_microunits r = Some n \<longrightarrow> 0 < n" "\<forall>n. req_max_elapsed_ms r = Some n \<longrightarrow> 0 < n"
    using assms(2)
    by (auto simp: PackageBudgetRequest_init_def require_optional_positive_def validators split: if_splits)
  let ?b = "\<lparr>max_tokens = narrowed (max_tokens server) (req_max_tokens r),
    max_provider_calls = narrowed (max_provider_calls server) (req_max_provider_calls r),
    max_cost_microunits = narrowed (max_cost_microunits server) (req_max_cost_microunits r),
    max_elapsed_ms = narrowed (max_elapsed_ms server) (req_max_elapsed_ms r)\<rparr>"
  have narrow_pos: "0 < narrowed v o'" if "0 < v" "\<forall>n. o' = Some n \<longrightarrow> 0 < n" for v o'
    using that by (auto simp: narrowed_def split: option.splits)
  have narrow_le: "a \<le> narrowed v o' \<longleftrightarrow> a \<le> v \<and> (\<forall>n. o' = Some n \<longrightarrow> a \<le> n)" for a v o'
    by (auto simp: narrowed_def split: option.splits)
  have twice: "narrowed (narrowed v o') o' = narrowed v o'" for v o'
    by (auto simp: narrowed_def split: option.splits)
  have valid: "valid_budget ?b"
    using assms(1) pos by (simp add: valid_budget_def narrow_pos)
  then have "effective_package_budget server (Some r) = Inr ?b"
    by (simp add: effective_package_budget_def PackageBudget_init_eq)
  moreover have "effective_package_budget ?b (Some r) = Inr ?b"
    using valid by (simp add: effective_package_budget_def PackageBudget_init_eq twice)
  ultimately show ?thesis
    using valid by (intro exI [of _ ?b]) (auto simp: fits_def narrow_le)
qed

theorem effective_package_budget_meet_witness:
  "\<exists>b. effective_package_budget example_budget
      (Some \<lparr>req_max_tokens = Some 3, req_max_provider_calls = None,
             req_max_cost_microunits = Some 99, req_max_elapsed_ms = None\<rparr>) = Inr b
    \<and> valid_budget b"
proof -
  have "valid_budget example_budget"
    by (simp add: valid_budget_def example_budget_def)
  moreover have "PackageBudgetRequest_init (PInt 3) PNone (PInt 99) PNone =
    Inr \<lparr>req_max_tokens = Some 3, req_max_provider_calls = None,
         req_max_cost_microunits = Some 99, req_max_elapsed_ms = None\<rparr>"
    by (simp add: PackageBudgetRequest_init_def require_optional_positive_def)
  ultimately show ?thesis
    using effective_package_budget_meet by blast
qed

end
