(* ===== verification/Requests.thy ===== *)
theory Requests
  imports Budget
begin

text \<open>
  The closed request union of the Runtime (\<open>src/engine/runtime/contracts.py\<close>) and the
  capability gate in front of it (\<open>src/engine/runtime/capabilities.py\<close>): every request maps to
  one server-owned capability, and only declared capabilities pass.
\<close>

section \<open>Reference validators\<close>

definition MAX_NARROWING_REFS :: nat where
  "MAX_NARROWING_REFS = 64"

definition MAX_NARROWING_REF_LENGTH :: nat where
  "MAX_NARROWING_REF_LENGTH = 256"

definition MAX_OPAQUE_CAPABILITY_LENGTH :: nat where
  "MAX_OPAQUE_CAPABILITY_LENGTH = 4096"

text \<open>\<open>prefix_\<close> followed by exactly 32 lowercase hexadecimal digits.\<close>

fun require_closed_opaque_ref :: "str \<Rightarrow> pyval \<Rightarrow> str res" where
  "require_closed_opaque_ref prefix (PStr s) =
     (if length s \<noteq> length prefix + 1 + 32 \<or> \<not> str_startswith s (prefix @ u ''_'')
      then Inl ValueError
      else if \<not> list_all is_hex (drop (length prefix + 1) s) then Inl ValueError
      else Inr s)"
| "require_closed_opaque_ref prefix _ = Inl ValueError"

text \<open>One ref of a narrowing tuple.\<close>

definition require_narrowing_ref :: "pyval \<Rightarrow> str res" where
  "require_narrowing_ref v =
     bnd (require_nonblank v) (\<lambda>s.
       if length s > MAX_NARROWING_REF_LENGTH then Inl ValueError else Inr s)"

fun require_optional_ref_tuple :: "pyval \<Rightarrow> str list option res" where
  "require_optional_ref_tuple PNone = Inr None"
| "require_optional_ref_tuple (PTuple vs) =
     (if vs = [] then Inl ValueError
      else if length vs > MAX_NARROWING_REFS then Inl ValueError
      else bnd (mapr require_narrowing_ref vs) (\<lambda>refs.
        if card (set refs) \<noteq> length refs then Inl ValueError else Inr (Some refs)))"
| "require_optional_ref_tuple _ = Inl ValueError"

section \<open>Requests\<close>

record ContextNeed =
  query :: str

definition ContextNeed_init :: "pyval \<Rightarrow> ContextNeed res" where
  "ContextNeed_init q = bnd (require_nonblank q) (\<lambda>s. Inr \<lparr>query = s\<rparr>)"

record RequestNarrowing =
  source_refs :: "str list option"
  resource_refs :: "str list option"

definition RequestNarrowing_init :: "pyval \<Rightarrow> pyval \<Rightarrow> RequestNarrowing res" where
  "RequestNarrowing_init srcs ress =
     bnd (require_optional_ref_tuple srcs) (\<lambda>s.
     bnd (require_optional_ref_tuple ress) (\<lambda>r.
       if s = None \<and> r = None then Inl ValueError
       else Inr \<lparr>source_refs = s, resource_refs = r\<rparr>))"

fun require_opaque_capability_value :: "pyval \<Rightarrow> str res" where
  "require_opaque_capability_value (PStr s) =
     (if s = [] \<or> length s > MAX_OPAQUE_CAPABILITY_LENGTH \<or> list_ex is_space s
      then Inl ValueError else Inr s)"
| "require_opaque_capability_value _ = Inl ValueError"

datatype ContinuationToken = ContinuationToken str

datatype CitationOpenRef = CitationOpenRef (citation_value: str)

definition ContinuationToken_init :: "pyval \<Rightarrow> ContinuationToken res" where
  "ContinuationToken_init v = bnd (require_opaque_capability_value v) (\<lambda>s. Inr (ContinuationToken s))"

definition CitationOpenRef_init :: "pyval \<Rightarrow> CitationOpenRef res" where
  "CitationOpenRef_init v = bnd (require_opaque_capability_value v) (\<lambda>s. Inr (CitationOpenRef s))"

datatype RuntimeRequest =
    Acquire (acquire_need: ContextNeed) (acquire_budget: "PackageBudgetRequest option")
      (acquire_narrowing: "RequestNarrowing option")
  | Continue ContinuationToken "PackageBudgetRequest option"
  | OpenCitation CitationOpenRef

section \<open>Capabilities\<close>

datatype RuntimeCapability =
    MATERIALIZED_ACQUIRE
  | CONTINUE
  | OPEN_CITATION
  | FEDERATED_DISCOVERY
  | SOURCE_NATIVE_AUTHORIZATION

definition M0_RUNTIME_CAPABILITY_DECLARATION :: "RuntimeCapability set" where
  "M0_RUNTIME_CAPABILITY_DECLARATION = {MATERIALIZED_ACQUIRE}"

definition require_available :: "RuntimeCapability \<Rightarrow> bool \<Rightarrow> unit res" where
  "require_available capability citation_open_active =
     (let available = M0_RUNTIME_CAPABILITY_DECLARATION
            \<union> (if citation_open_active then {OPEN_CITATION} else {})
      in if capability \<notin> available then Inl UnsupportedCapability else Inr ())"

fun required_capability_for_request :: "RuntimeRequest \<Rightarrow> RuntimeCapability \<Rightarrow> RuntimeCapability" where
  "required_capability_for_request (Acquire n b w) acquire_capability = acquire_capability"
| "required_capability_for_request (Continue t b) acquire_capability = CONTINUE"
| "required_capability_for_request (OpenCitation c) acquire_capability = OPEN_CITATION"

text \<open>\<open>PackageBudgetGate.preflight\<close> (\<open>construction.py\<close>): the caller ceiling of the request, if any.\<close>

fun request_budget :: "RuntimeRequest \<Rightarrow> PackageBudgetRequest option" where
  "request_budget (Acquire n b w) = b"
| "request_budget (Continue t b) = b"
| "request_budget (OpenCitation c) = None"

definition budget_gate_intersect :: "PackageBudget \<Rightarrow> RuntimeRequest \<Rightarrow> PackageBudget res" where
  "budget_gate_intersect server request = effective_package_budget server (request_budget request)"

section \<open>Lemmas\<close>

lemma require_narrowing_ref_eq [validators]:
  "require_narrowing_ref v = Inr s \<longleftrightarrow>
     v = PStr s \<and> \<not> blank s \<and> length s \<le> MAX_NARROWING_REF_LENGTH"
  by (auto simp: require_narrowing_ref_def validators)

lemma require_optional_ref_tuple_Some:
  assumes "require_optional_ref_tuple v = Inr (Some refs)"
  shows "refs \<noteq> [] \<and> length refs \<le> MAX_NARROWING_REFS \<and> distinct refs
    \<and> (\<forall>s \<in> set refs. \<not> blank s \<and> length s \<le> MAX_NARROWING_REF_LENGTH)"
proof (cases v)
  case (PTuple vs)
  with assms have "mapr require_narrowing_ref vs = Inr refs" "vs \<noteq> []"
    "length vs \<le> MAX_NARROWING_REFS" "card (set refs) = length refs"
    by (auto split: if_splits)
  moreover have "\<not> blank s \<and> length s \<le> MAX_NARROWING_REF_LENGTH" if "s \<in> set refs" for s
    using mapr_mem [OF \<open>mapr require_narrowing_ref vs = Inr refs\<close> that]
    by (auto simp: require_narrowing_ref_eq)
  ultimately show ?thesis
    by (auto simp: card_distinct dest: mapr_length)
qed (use assms in simp_all)

lemma required_capability_available:
  assumes "require_available (required_capability_for_request r a) c = Inr ()"
    and "a \<in> {MATERIALIZED_ACQUIRE, FEDERATED_DISCOVERY, SOURCE_NATIVE_AUTHORIZATION}"
  shows "(\<exists>n b w. r = Acquire n b w) \<and> a = MATERIALIZED_ACQUIRE \<or> (\<exists>k. r = OpenCitation k) \<and> c"
  using assms by (cases r)
    (auto simp: require_available_def M0_RUNTIME_CAPABILITY_DECLARATION_def split: if_splits)

end
