(* ===== verification/Scope.thy ===== *)
theory Scope
  imports Requests "HOL-Library.FSet" "HOL-Library.Multiset"
begin

text \<open>
  \<open>src/engine/runtime/scope.py\<close>: the finite-set authorization oracle. Seven trusted operands
  are intersected, a missing one closes the scope, and the caller's narrowing only filters.
  The scope carries a SHA-256 digest of a canonical encoding of its targets, re-derived at
  every security-sensitive use.
\<close>

section \<open>Targets and operands\<close>

record ScopeTarget =
  st_organization_id :: uuid
  st_source_ref :: str
  st_resource_ref :: "str option"

definition ScopeTarget_init :: "pyval \<Rightarrow> pyval \<Rightarrow> pyval \<Rightarrow> ScopeTarget res" where
  "ScopeTarget_init org src resource =
     bnd (require_uuid org) (\<lambda>o'.
     bnd (require_nonblank src) (\<lambda>s.
     bnd (if resource = PNone then Inr None
          else bnd (require_nonblank resource) (\<lambda>r. Inr (Some r))) (\<lambda>r.
       Inr \<lparr>st_organization_id = o', st_source_ref = s, st_resource_ref = r\<rparr>)))"

text \<open>A \<open>ScopeSet\<close>, or the fail-closed value for an operand that could not be established.\<close>

datatype TrustedScopeOperand = ScopeSet (scope_targets: "ScopeTarget fset") | MissingTrustedScope

record TrustedScopeOperands =
  organization_boundary :: TrustedScopeOperand
  membership_rights :: TrustedScopeOperand
  principal_grants :: TrustedScopeOperand
  agent_ceiling :: TrustedScopeOperand
  source_native_acl :: TrustedScopeOperand
  resource_acl :: TrustedScopeOperand
  purpose_policy :: TrustedScopeOperand

definition operand_list :: "TrustedScopeOperands \<Rightarrow> TrustedScopeOperand list" where
  "operand_list ops = [organization_boundary ops, membership_rights ops, principal_grants ops,
     agent_ceiling ops, source_native_acl ops, resource_acl ops, purpose_policy ops]"

section \<open>Canonical digest\<close>

definition canonical_target_bytes :: "ScopeTarget \<Rightarrow> bytes" where
  "canonical_target_bytes t =
     length_prefix (uuid_bytes (st_organization_id t)) @ encode_text (st_source_ref t)
     @ (case st_resource_ref t of None \<Rightarrow> [0] | Some r \<Rightarrow> 1 # encode_text r)"

text \<open>\<open>sorted(_canonical_target_bytes(t) for t in targets)\<close>: the iteration order of the set does
  not matter, so the generator is the multiset of the images.\<close>

definition encoded_targets :: "ScopeTarget fset \<Rightarrow> bytes list" where
  "encoded_targets ts = sorted_list_of_multiset (image_mset canonical_target_bytes (mset_set (fset ts)))"

definition scope_domain :: bytes where
  "scope_domain = utf8_surrogatepass (u ''context-engine:effective-scope:v1'')"

definition scope_canonical :: "ScopeTarget fset \<Rightarrow> bytes" where
  "scope_canonical ts = (let es = encoded_targets ts
     in scope_domain @ to_bytes 8 (length es) @ concat (map length_prefix es))"

definition effective_scope_digest :: "ScopeTarget fset \<Rightarrow> str" where
  "effective_scope_digest ts = sha256_hexdigest (scope_canonical ts)"

record EffectiveScope =
  es_targets :: "ScopeTarget fset"
  es_digest :: str

definition EffectiveScope_init :: "ScopeTarget fset \<Rightarrow> EffectiveScope" where
  "EffectiveScope_init ts = \<lparr>es_targets = ts, es_digest = effective_scope_digest ts\<rparr>"

definition require_effective_scope_integrity :: "EffectiveScope \<Rightarrow> unit res" where
  "require_effective_scope_integrity scope =
     (if es_digest scope \<noteq> effective_scope_digest (es_targets scope) then Inl ValueError else Inr ())"

section \<open>The discovery view\<close>

text \<open>\<open>CandidateDiscoveryScope\<close>: a digest handed across the replaceable discovery seam.\<close>

datatype CandidateDiscoveryScope = CandidateDiscoveryScope (discovery_digest: str)

definition CandidateDiscoveryScope_new :: "pyval \<Rightarrow> CandidateDiscoveryScope res" where
  "CandidateDiscoveryScope_new v = bnd (require_sha256_hex v) (\<lambda>s. Inr (CandidateDiscoveryScope s))"

definition candidate_discovery_scope :: "EffectiveScope \<Rightarrow> CandidateDiscoveryScope res" where
  "candidate_discovery_scope scope =
     bnd (require_effective_scope_integrity scope) (\<lambda>_. CandidateDiscoveryScope_new (PStr (es_digest scope)))"

definition require_candidate_discovery_scope_integrity :: "CandidateDiscoveryScope \<Rightarrow> unit res" where
  "require_candidate_discovery_scope_integrity scope =
     (if \<not> is_sha256_hex (discovery_digest scope) then Inl ValueError else Inr ())"

section \<open>The oracle\<close>

text \<open>\<open>None\<close> is \<open>OMITTED_REQUEST_NARROWING\<close>, the identity of the filter.\<close>

definition narrow_targets :: "RequestNarrowing option \<Rightarrow> ScopeTarget fset \<Rightarrow> ScopeTarget fset" where
  "narrow_targets request_narrowing ts =
     (case request_narrowing of None \<Rightarrow> ts
      | Some n \<Rightarrow>
          let by_source = (case source_refs n of None \<Rightarrow> ts
                | Some srcs \<Rightarrow> ffilter (\<lambda>t. st_source_ref t \<in> set srcs) ts)
          in (case resource_refs n of None \<Rightarrow> by_source
              | Some ress \<Rightarrow> ffilter (\<lambda>t. st_resource_ref t \<in> Some ` set ress) by_source))"

definition compute_effective_scope ::
  "TrustedScopeOperands \<Rightarrow> RequestNarrowing option \<Rightarrow> EffectiveScope"
where
  "compute_effective_scope trusted request_narrowing =
     (if MissingTrustedScope \<in> set (operand_list trusted) then EffectiveScope_init {||}
      else let scopes = map scope_targets (operand_list trusted)
           in EffectiveScope_init
                (narrow_targets request_narrowing (fold (\<lambda>s acc. acc |\<inter>| s) (tl scopes) (hd scopes))))"

section \<open>Lemmas\<close>

lemma ScopeTarget_init_eq [validators]:
  "ScopeTarget_init (PUuid i) (PStr s) (PStr r) = Inr t \<longleftrightarrow>
     \<not> blank s \<and> \<not> blank r \<and> t = \<lparr>st_organization_id = i, st_source_ref = s, st_resource_ref = Some r\<rparr>"
  by (auto simp: ScopeTarget_init_def)

lemma EffectiveScope_init_sel [simp]:
  "es_targets (EffectiveScope_init ts) = ts"
  "es_digest (EffectiveScope_init ts) = effective_scope_digest ts"
  by (simp_all add: EffectiveScope_init_def)

lemma EffectiveScope_init_integrity [simp]:
  "require_effective_scope_integrity (EffectiveScope_init ts) = Inr ()"
  by (simp add: require_effective_scope_integrity_def)

lemma narrow_targets_member:
  "t |\<in>| narrow_targets request_narrowing ts \<longleftrightarrow> t |\<in>| ts
     \<and> (\<forall>n srcs. request_narrowing = Some n \<longrightarrow> source_refs n = Some srcs \<longrightarrow> st_source_ref t \<in> set srcs)
     \<and> (\<forall>n ress. request_narrowing = Some n \<longrightarrow> resource_refs n = Some ress
          \<longrightarrow> (\<exists>r \<in> set ress. st_resource_ref t = Some r))"
  by (auto simp: narrow_targets_def Let_def split: option.splits)

lemma compute_effective_scope_integrity:
  "require_effective_scope_integrity (compute_effective_scope ops n) = Inr ()"
  by (simp add: compute_effective_scope_def Let_def)

lemma compute_effective_scope_member:
  "t |\<in>| es_targets (compute_effective_scope ops n) \<longleftrightarrow>
     (\<forall>op \<in> set (operand_list ops). \<exists>ts. op = ScopeSet ts \<and> t |\<in>| ts)
     \<and> (\<forall>m srcs. n = Some m \<longrightarrow> source_refs m = Some srcs \<longrightarrow> st_source_ref t \<in> set srcs)
     \<and> (\<forall>m ress. n = Some m \<longrightarrow> resource_refs m = Some ress
          \<longrightarrow> (\<exists>r \<in> set ress. st_resource_ref t = Some r))"
proof (cases "MissingTrustedScope \<in> set (operand_list ops)")
  case True
  then show ?thesis by (fastforce simp: compute_effective_scope_def)
next
  case False
  have present: "(\<exists>ts. op = ScopeSet ts \<and> t |\<in>| ts) \<longleftrightarrow> t |\<in>| scope_targets op"
    if "op \<in> set (operand_list ops)" for op
  proof -
    from that False have "op \<noteq> MissingTrustedScope" by metis
    then show ?thesis by (cases op) simp_all
  qed
  have "(\<forall>op \<in> set (operand_list ops). t |\<in>| scope_targets op) \<longleftrightarrow>
    t |\<in>| fold (\<lambda>s acc. acc |\<inter>| s) (tl (map scope_targets (operand_list ops)))
      (hd (map scope_targets (operand_list ops)))"
    by (auto simp: operand_list_def)
  with False present show ?thesis
    by (simp add: compute_effective_scope_def Let_def narrow_targets_member)
qed

text \<open>The canonical encoding determines the target.\<close>

definition encodable_target :: "ScopeTarget \<Rightarrow> bool" where
  "encodable_target t \<longleftrightarrow> list_all code_point (st_source_ref t)
     \<and> (\<forall>r. st_resource_ref t = Some r \<longrightarrow> list_all code_point r) \<and> sized (canonical_target_bytes t)"

lemma encodable_target_parts:
  assumes "encodable_target t"
  shows "encodable (st_source_ref t)" and "\<And>r. st_resource_ref t = Some r \<Longrightarrow> encodable r"
  using assms
  by (auto simp: encodable_target_def encodable_def sized_def canonical_target_bytes_def encode_text_def)

lemma canonical_target_bytes_inject:
  assumes ok: "encodable_target a" "encodable_target b"
    and eq: "canonical_target_bytes a = canonical_target_bytes b"
  shows "a = b"
proof -
  let ?res = "\<lambda>t. case st_resource_ref t of None \<Rightarrow> [0] | Some r \<Rightarrow> (1::byte) # encode_text r"
  have "sized (uuid_bytes i)" for i
    by (simp add: sized_def)
  with eq have org: "uuid_bytes (st_organization_id a) = uuid_bytes (st_organization_id b)"
    and rest: "encode_text (st_source_ref a) @ ?res a = encode_text (st_source_ref b) @ ?res b"
    unfolding canonical_target_bytes_def by (auto dest: lp.delim)
  from rest have src: "st_source_ref a = st_source_ref b" and res: "?res a = ?res b"
    using etext.delim [OF encodable_target_parts(1) [OF ok(1)] encodable_target_parts(1) [OF ok(2)]]
    by blast+
  have "st_resource_ref a = st_resource_ref b"
    using res encodable_target_parts(2) [OF ok(1)] encodable_target_parts(2) [OF ok(2)]
    by (auto split: option.splits intro: etext.enc_inject)
  with org src show ?thesis
    by (simp add: uuid_bytes_inject)
qed

lemma encoded_targets_inject:
  assumes ok: "\<And>t. t |\<in>| A |\<union>| B \<Longrightarrow> encodable_target t" and eq: "encoded_targets A = encoded_targets B"
  shows "A = B"
proof -
  let ?img = "\<lambda>S. image_mset canonical_target_bytes (mset_set (fset S))"
  have "mset (encoded_targets S) = ?img S" for S
    by (simp add: encoded_targets_def)
  with eq have "?img A = ?img B" by metis
  then have "canonical_target_bytes ` fset A = canonical_target_bytes ` fset B"
    by (metis finite_fset finite_set_mset_mset_set set_image_mset)
  moreover have "inj_on canonical_target_bytes (fset A \<union> fset B)"
    using ok canonical_target_bytes_inject by (auto intro!: inj_onI)
  ultimately have "fset A = fset B"
    by (simp add: inj_on_Un_image_eq_iff)
  then show ?thesis by (simp add: fset_inject)
qed

lemma scope_canonical_inject:
  assumes ok: "\<And>t. t |\<in>| A |\<union>| B \<Longrightarrow> encodable_target t" and eq: "scope_canonical A = scope_canonical B"
  shows "A = B"
proof -
  have sized: "list_all sized (encoded_targets S)" if "S |\<subseteq>| A |\<union>| B" for S
    using ok that
    by (auto simp: list_all_iff encoded_targets_def encodable_target_def)
  from eq have "concat (map length_prefix (encoded_targets A)) = concat (map length_prefix (encoded_targets B))"
    by (simp add: scope_canonical_def Let_def)
  then have "encoded_targets A = encoded_targets B"
    using sized by (intro lp.concat_inject) auto
  with ok show ?thesis by (rule encoded_targets_inject)
qed

section \<open>Properties\<close>

text \<open>
  C11. The effective scope holds exactly the targets that every one of the seven trusted operands
  grants and the request filters keep; one missing operand closes the whole scope, a resource
  filter drops source-wide targets, and no narrowing ever adds a target.
\<close>

theorem effective_scope_is_the_intersection:
  "(t |\<in>| es_targets (compute_effective_scope ops request_narrowing) \<longleftrightarrow>
      (\<forall>op \<in> set [organization_boundary ops, membership_rights ops, principal_grants ops,
                  agent_ceiling ops, source_native_acl ops, resource_acl ops, purpose_policy ops].
         \<exists>ts. op = ScopeSet ts \<and> t |\<in>| ts)
      \<and> (\<forall>m srcs. request_narrowing = Some m \<longrightarrow> source_refs m = Some srcs \<longrightarrow> st_source_ref t \<in> set srcs)
      \<and> (\<forall>m ress. request_narrowing = Some m \<longrightarrow> resource_refs m = Some ress
           \<longrightarrow> (\<exists>r \<in> set ress. st_resource_ref t = Some r)))
    \<and> es_targets (compute_effective_scope ops request_narrowing) |\<subseteq>| es_targets (compute_effective_scope ops None)
    \<and> (MissingTrustedScope \<in> set (operand_list ops)
         \<longrightarrow> es_targets (compute_effective_scope ops request_narrowing) = {||})"
  (is "?exact \<and> ?narrow \<and> ?closed")
proof (intro conjI)
  show ?exact
    unfolding compute_effective_scope_member by (simp add: operand_list_def)
  show ?narrow
    by (auto simp: compute_effective_scope_member)
  show ?closed
    by (simp add: compute_effective_scope_def)
qed

definition example_target :: ScopeTarget where
  "example_target = \<lparr>st_organization_id = 1, st_source_ref = u ''src'', st_resource_ref = Some (u ''r1'')\<rparr>"

definition example_operands :: TrustedScopeOperands where
  "example_operands = (let s = ScopeSet {|example_target|} in
     \<lparr>organization_boundary = s, membership_rights = s, principal_grants = s, agent_ceiling = s,
      source_native_acl = s, resource_acl = s, purpose_policy = s\<rparr>)"

theorem effective_scope_is_the_intersection_witness:
  "example_target |\<in>| es_targets (compute_effective_scope example_operands
      (Some \<lparr>source_refs = Some [u ''src''], resource_refs = None\<rparr>))
   \<and> es_targets (compute_effective_scope (example_operands\<lparr>agent_ceiling := MissingTrustedScope\<rparr>) None) = {||}"
  using effective_scope_is_the_intersection [of example_target example_operands
      "Some \<lparr>source_refs = Some [u ''src''], resource_refs = None\<rparr>"]
    effective_scope_is_the_intersection [of example_target
      "example_operands\<lparr>agent_ceiling := MissingTrustedScope\<rparr>" None]
  by (simp add: example_operands_def example_target_def Let_def operand_list_def)

text \<open>
  The scope digest commits to the targets: a scope whose targets were exchanged under an
  unchanged digest passes the integrity check only if the two canonical encodings are an
  explicit SHA-256 collision.
\<close>

theorem scope_integrity_detects_substitution:
  assumes "\<And>t. t |\<in>| original |\<union>| forged \<Longrightarrow> encodable_target t"
    and "require_effective_scope_integrity ((EffectiveScope_init original)\<lparr>es_targets := forged\<rparr>) = Inr ()"
  shows "forged = original \<or> sha256_collision (scope_canonical original) (scope_canonical forged)"
proof -
  from assms(2) have "sha256_hexdigest (scope_canonical original) = sha256_hexdigest (scope_canonical forged)"
    by (simp add: require_effective_scope_integrity_def effective_scope_digest_def)
  then have "scope_canonical original = scope_canonical forged
      \<or> sha256_collision (scope_canonical original) (scope_canonical forged)"
    by (rule hexdigest_eq)
  with assms(1) show ?thesis
    using scope_canonical_inject [of original forged] by blast
qed

lemma example_target_encodable: "encodable_target example_target"
proof -
  have "length (canonical_target_bytes example_target) < 2 ^ 63"
    by (simp add: example_target_def canonical_target_bytes_def encode_text_def utf8_surrogatepass_def
        u_def utf8_char_def utf8_units_def)
  then show ?thesis
    by (simp add: encodable_target_def sized_def) (simp add: example_target_def u_def code_point_def)
qed

theorem scope_integrity_detects_substitution_witness:
  "require_effective_scope_integrity
     ((EffectiveScope_init {|example_target|})\<lparr>es_targets := {|example_target|}\<rparr>) = Inr ()
   \<and> ({|example_target|} = {|example_target|}
      \<or> sha256_collision (scope_canonical {|example_target|}) (scope_canonical {|example_target|}))"
proof -
  have h: "require_effective_scope_integrity
     ((EffectiveScope_init {|example_target|})\<lparr>es_targets := {|example_target|}\<rparr>) = Inr ()"
    by (simp add: require_effective_scope_integrity_def)
  have "t |\<in>| {|example_target|} |\<union>| {|example_target|} \<Longrightarrow> encodable_target t" for t
    using example_target_encodable by auto
  from scope_integrity_detects_substitution [OF this h] h show ?thesis by blast
qed

end
