(* ===== verification/Lifetime.thy ===== *)
theory Lifetime
  imports Pyval
begin

text \<open>
  Authority scopes. Nine modules of the engine own the same kind of private lifetime token: an
  object that only the module's \<open>_open_...\<close> function creates with the module's seal, whose
  \<open>_active\<close> flag the module's \<open>_close_...\<close> function clears, and that every consumer tests. The
  flags are mutable shared state: they live in a heap, a token refers to its flag. A token
  that was created without the seal is \<open>tok_sealed = False\<close>.
\<close>

section \<open>Tokens and their heap\<close>

datatype scope_kind =
    AuthorizationKernelScope
  | PolicyEpochAuthorityScope
  | ScopeAuthorityScope
  | MembershipAuthorityScope
  | MaterializedProjectionScope
  | ContextRunPersistenceScope
  | DeliveryEvidenceRedemptionScope
  | EgressGrantIssuanceScope
  | CitationAuthorityScope

record scope_token =
  tok_kind :: scope_kind
  tok_sealed :: bool
  tok_id :: nat

type_synonym scope_heap = "bool list"

definition open_scope :: "scope_kind \<Rightarrow> scope_heap \<Rightarrow> scope_heap \<times> scope_token" where
  "open_scope k h = (h @ [True], \<lparr>tok_kind = k, tok_sealed = True, tok_id = length h\<rparr>)"

definition close_scope :: "scope_kind \<Rightarrow> scope_heap \<Rightarrow> scope_token \<Rightarrow> scope_heap res" where
  "close_scope k h t =
     (if tok_kind t \<noteq> k \<or> \<not> tok_sealed t then Inl TypeError else Inr (h[tok_id t := False]))"

definition scope_active :: "scope_kind \<Rightarrow> scope_heap \<Rightarrow> scope_token \<Rightarrow> bool" where
  "scope_active k h t \<longleftrightarrow> tok_kind t = k \<and> tok_sealed t \<and> tok_id t < length h \<and> h ! tok_id t"

text \<open>The nine modules.\<close>

definition open_authorization_kernel_scope :: "scope_heap \<Rightarrow> scope_heap \<times> scope_token" where
  "open_authorization_kernel_scope = open_scope AuthorizationKernelScope"

definition close_authorization_kernel_scope :: "scope_heap \<Rightarrow> scope_token \<Rightarrow> scope_heap res" where
  "close_authorization_kernel_scope = close_scope AuthorizationKernelScope"

definition open_policy_epoch_authority_scope :: "scope_heap \<Rightarrow> scope_heap \<times> scope_token" where
  "open_policy_epoch_authority_scope = open_scope PolicyEpochAuthorityScope"

definition close_policy_epoch_authority_scope :: "scope_heap \<Rightarrow> scope_token \<Rightarrow> scope_heap res" where
  "close_policy_epoch_authority_scope = close_scope PolicyEpochAuthorityScope"

definition open_scope_authority_scope :: "scope_heap \<Rightarrow> scope_heap \<times> scope_token" where
  "open_scope_authority_scope = open_scope ScopeAuthorityScope"

definition close_scope_authority_scope :: "scope_heap \<Rightarrow> scope_token \<Rightarrow> scope_heap res" where
  "close_scope_authority_scope = close_scope ScopeAuthorityScope"

definition open_membership_authority_scope :: "scope_heap \<Rightarrow> scope_heap \<times> scope_token" where
  "open_membership_authority_scope = open_scope MembershipAuthorityScope"

definition close_membership_authority_scope :: "scope_heap \<Rightarrow> scope_token \<Rightarrow> scope_heap res" where
  "close_membership_authority_scope = close_scope MembershipAuthorityScope"

definition open_materialized_projection_scope :: "scope_heap \<Rightarrow> scope_heap \<times> scope_token" where
  "open_materialized_projection_scope = open_scope MaterializedProjectionScope"

definition close_materialized_projection_scope :: "scope_heap \<Rightarrow> scope_token \<Rightarrow> scope_heap res" where
  "close_materialized_projection_scope = close_scope MaterializedProjectionScope"

definition open_context_run_persistence_scope :: "scope_heap \<Rightarrow> scope_heap \<times> scope_token" where
  "open_context_run_persistence_scope = open_scope ContextRunPersistenceScope"

definition close_context_run_persistence_scope :: "scope_heap \<Rightarrow> scope_token \<Rightarrow> scope_heap res" where
  "close_context_run_persistence_scope = close_scope ContextRunPersistenceScope"

definition open_delivery_evidence_redemption_scope :: "scope_heap \<Rightarrow> scope_heap \<times> scope_token" where
  "open_delivery_evidence_redemption_scope = open_scope DeliveryEvidenceRedemptionScope"

definition close_delivery_evidence_redemption_scope :: "scope_heap \<Rightarrow> scope_token \<Rightarrow> scope_heap res" where
  "close_delivery_evidence_redemption_scope = close_scope DeliveryEvidenceRedemptionScope"

definition open_egress_grant_issuance_scope :: "scope_heap \<Rightarrow> scope_heap \<times> scope_token" where
  "open_egress_grant_issuance_scope = open_scope EgressGrantIssuanceScope"

definition close_egress_grant_issuance_scope :: "scope_heap \<Rightarrow> scope_token \<Rightarrow> scope_heap res" where
  "close_egress_grant_issuance_scope = close_scope EgressGrantIssuanceScope"

definition open_citation_authority_scope :: "scope_heap \<Rightarrow> scope_heap \<times> scope_token" where
  "open_citation_authority_scope = open_scope CitationAuthorityScope"

definition close_citation_authority_scope :: "scope_heap \<Rightarrow> scope_token \<Rightarrow> scope_heap res" where
  "close_citation_authority_scope = close_scope CitationAuthorityScope"

section \<open>The contract of a lifetime\<close>

text \<open>What other modules may do to the heap afterwards: open and close scopes of any kind.\<close>

datatype heap_op = OpenScope scope_kind | CloseScope scope_kind scope_token

fun heap_step :: "scope_heap \<Rightarrow> heap_op \<Rightarrow> scope_heap" where
  "heap_step h (OpenScope k) = fst (open_scope k h)"
| "heap_step h (CloseScope k t) = (case close_scope k h t of Inl _ \<Rightarrow> h | Inr h' \<Rightarrow> h')"

definition heap_run :: "scope_heap \<Rightarrow> heap_op list \<Rightarrow> scope_heap" where
  "heap_run = foldl heap_step"

locale lifetime =
  fixes opn :: "scope_heap \<Rightarrow> scope_heap \<times> scope_token"
    and cls :: "scope_heap \<Rightarrow> scope_token \<Rightarrow> scope_heap res"
    and active :: "scope_heap \<Rightarrow> scope_token \<Rightarrow> bool"
  assumes open_active: "opn h = (h', t) \<Longrightarrow> active h' t"
    and open_fresh: "opn h = (h', t) \<Longrightarrow> \<not> active h t"
    and close_defined: "active h t \<Longrightarrow> \<exists>h'. cls h t = Inr h'"
    and close_inactive: "cls h t = Inr h' \<Longrightarrow> \<not> active h' t"
    and revive: "\<lbrakk>tok_id t < length h; \<not> active h t\<rbrakk> \<Longrightarrow> \<not> active (heap_step h op) t"
    and allocated: "active h t \<Longrightarrow> tok_id t < length h"
    and close_length: "cls h t = Inr h' \<Longrightarrow> length h' = length h"
begin

lemma heap_step_grows: "length h \<le> length (heap_step h op)"
  by (cases op) (auto simp: open_scope_def close_scope_def)

lemma never_revived:
  "\<lbrakk>tok_id t < length h; \<not> active h t\<rbrakk> \<Longrightarrow> \<not> active (heap_run h ops) t"
  unfolding heap_run_def
proof (induction ops arbitrary: h)
  case (Cons op ops)
  then show ?case
    using heap_step_grows [of h op] revive [of t h op] by simp
qed simp

lemma heap_run_grows: "length h \<le> length (heap_run h ops)"
  unfolding heap_run_def by (induction ops arbitrary: h) (auto intro: le_trans heap_step_grows)

text \<open>A closed scope stays closed, whatever is opened or closed before and after.\<close>

lemma closed_forever:
  assumes "active h t" and "cls (heap_run h before) t = Inr h'"
  shows "\<not> active (heap_run h' after) t"
proof -
  have "tok_id t < length h'"
    using allocated [OF assms(1)] heap_run_grows [of h before] close_length [OF assms(2)] by simp
  with close_inactive [OF assms(2)] show ?thesis by (intro never_revived)
qed

end

lemma cleared_flag: "i < length h \<Longrightarrow> h[j := False] ! i \<longleftrightarrow> j \<noteq> i \<and> h ! i"
  by (cases "j = i") simp_all

lemma scope_active_step:
  "\<lbrakk>tok_id t < length h; \<not> scope_active k h t\<rbrakk> \<Longrightarrow> \<not> scope_active k (heap_step h op) t"
  by (cases op) (auto simp: scope_active_def open_scope_def close_scope_def nth_append cleared_flag)

lemma lifetime_of_kind: "lifetime (open_scope k) (close_scope k) (scope_active k)"
proof
  show "\<lbrakk>tok_id t < length h; \<not> scope_active k h t\<rbrakk> \<Longrightarrow> \<not> scope_active k (heap_step h op) t"
    for t h op by (rule scope_active_step)
qed (auto simp: open_scope_def close_scope_def scope_active_def cleared_flag split: if_splits)

interpretation kernel_scope: lifetime open_authorization_kernel_scope close_authorization_kernel_scope
  "scope_active AuthorizationKernelScope"
  unfolding open_authorization_kernel_scope_def close_authorization_kernel_scope_def
  by (rule lifetime_of_kind)

interpretation policy_epoch_scope: lifetime open_policy_epoch_authority_scope
  close_policy_epoch_authority_scope "scope_active PolicyEpochAuthorityScope"
  unfolding open_policy_epoch_authority_scope_def close_policy_epoch_authority_scope_def
  by (rule lifetime_of_kind)

interpretation scope_authority_scope: lifetime open_scope_authority_scope close_scope_authority_scope
  "scope_active ScopeAuthorityScope"
  unfolding open_scope_authority_scope_def close_scope_authority_scope_def
  by (rule lifetime_of_kind)

interpretation membership_scope: lifetime open_membership_authority_scope
  close_membership_authority_scope "scope_active MembershipAuthorityScope"
  unfolding open_membership_authority_scope_def close_membership_authority_scope_def
  by (rule lifetime_of_kind)

interpretation projection_scope: lifetime open_materialized_projection_scope
  close_materialized_projection_scope "scope_active MaterializedProjectionScope"
  unfolding open_materialized_projection_scope_def close_materialized_projection_scope_def
  by (rule lifetime_of_kind)

interpretation context_run_scope: lifetime open_context_run_persistence_scope close_context_run_persistence_scope
  "scope_active ContextRunPersistenceScope"
  unfolding open_context_run_persistence_scope_def close_context_run_persistence_scope_def
  by (rule lifetime_of_kind)

interpretation delivery_evidence_scope: lifetime open_delivery_evidence_redemption_scope close_delivery_evidence_redemption_scope
  "scope_active DeliveryEvidenceRedemptionScope"
  unfolding open_delivery_evidence_redemption_scope_def close_delivery_evidence_redemption_scope_def
  by (rule lifetime_of_kind)

interpretation egress_scope: lifetime open_egress_grant_issuance_scope close_egress_grant_issuance_scope
  "scope_active EgressGrantIssuanceScope"
  unfolding open_egress_grant_issuance_scope_def close_egress_grant_issuance_scope_def
  by (rule lifetime_of_kind)

interpretation citation_scope: lifetime open_citation_authority_scope close_citation_authority_scope
  "scope_active CitationAuthorityScope"
  unfolding open_citation_authority_scope_def close_citation_authority_scope_def
  by (rule lifetime_of_kind)

section \<open>Sessions\<close>

text \<open>
  A session is a capability bound to one authority scope. Its port is code behind a protocol: the
  operations that call it take the port's answer as an argument, the session keeps its identity
  (Python compares sessions with \<open>is\<close>), its scope and whether the port has the methods a check
  looks up.
\<close>

record authority_session =
  ss_id :: nat
  ss_scope :: scope_token
  ss_port_complete :: bool

definition require_session_scope :: "scope_kind \<Rightarrow> scope_heap \<Rightarrow> authority_session \<Rightarrow> unit res" where
  "require_session_scope k h s = (if scope_active k h (ss_scope s) then Inr () else Inl ValueError)"

definition require_active_materialized_projection_session :: "scope_heap \<Rightarrow> authority_session \<Rightarrow> unit res" where
  "require_active_materialized_projection_session = require_session_scope MaterializedProjectionScope"

definition require_active_context_run_persistence_session :: "scope_heap \<Rightarrow> authority_session \<Rightarrow> unit res" where
  "require_active_context_run_persistence_session = require_session_scope ContextRunPersistenceScope"

definition require_active_citation_open_session :: "scope_heap \<Rightarrow> authority_session \<Rightarrow> unit res" where
  "require_active_citation_open_session = require_session_scope CitationAuthorityScope"

definition require_active_delivery_evidence_redemption_session ::
  "scope_heap \<Rightarrow> authority_session \<Rightarrow> unit res"
where
  "require_active_delivery_evidence_redemption_session h s =
     bnd (require_session_scope DeliveryEvidenceRedemptionScope h s) (\<lambda>_.
       if ss_port_complete s then Inr () else Inl TypeError)"

definition require_active_egress_grant_issuance_session ::
  "scope_heap \<Rightarrow> authority_session \<Rightarrow> unit res"
where
  "require_active_egress_grant_issuance_session h s =
     bnd (require_session_scope EgressGrantIssuanceScope h s) (\<lambda>_.
       if ss_port_complete s then Inr () else Inl TypeError)"

text \<open>The constructors check the scope first, then the methods of the port.\<close>

definition construct_session ::
  "scope_kind \<Rightarrow> scope_heap \<Rightarrow> nat \<Rightarrow> scope_token \<Rightarrow> bool \<Rightarrow> authority_session res"
where
  "construct_session k h i t port_complete =
     (let s = \<lparr>ss_id = i, ss_scope = t, ss_port_complete = port_complete\<rparr>
      in bnd (require_session_scope k h s) (\<lambda>_. if port_complete then Inr s else Inl TypeError))"

definition construct_materialized_projection_session ::
  "scope_heap \<Rightarrow> nat \<Rightarrow> scope_token \<Rightarrow> bool \<Rightarrow> authority_session res"
where
  "construct_materialized_projection_session = construct_session MaterializedProjectionScope"

definition construct_context_run_persistence_session ::
  "scope_heap \<Rightarrow> nat \<Rightarrow> scope_token \<Rightarrow> bool \<Rightarrow> authority_session res"
where
  "construct_context_run_persistence_session = construct_session ContextRunPersistenceScope"

definition construct_delivery_evidence_redemption_session ::
  "scope_heap \<Rightarrow> nat \<Rightarrow> scope_token \<Rightarrow> bool \<Rightarrow> authority_session res"
where
  "construct_delivery_evidence_redemption_session = construct_session DeliveryEvidenceRedemptionScope"

definition construct_egress_grant_issuance_session ::
  "scope_heap \<Rightarrow> nat \<Rightarrow> scope_token \<Rightarrow> bool \<Rightarrow> authority_session res"
where
  "construct_egress_grant_issuance_session = construct_session EgressGrantIssuanceScope"

definition construct_citation_open_session ::
  "scope_heap \<Rightarrow> nat \<Rightarrow> scope_token \<Rightarrow> bool \<Rightarrow> authority_session res"
where
  "construct_citation_open_session = construct_session CitationAuthorityScope"

lemma require_session_scope_eq [validators]:
  "require_session_scope k h s = Inr x \<longleftrightarrow> scope_active k h (ss_scope s)"
  by (simp add: require_session_scope_def)

lemma require_active_sessions_eq [validators]:
  "require_active_materialized_projection_session h s = Inr x \<longleftrightarrow>
     scope_active MaterializedProjectionScope h (ss_scope s)"
  "require_active_context_run_persistence_session h s = Inr x \<longleftrightarrow>
     scope_active ContextRunPersistenceScope h (ss_scope s)"
  "require_active_citation_open_session h s = Inr x \<longleftrightarrow> scope_active CitationAuthorityScope h (ss_scope s)"
  "require_active_delivery_evidence_redemption_session h s = Inr x \<longleftrightarrow>
     scope_active DeliveryEvidenceRedemptionScope h (ss_scope s) \<and> ss_port_complete s"
  "require_active_egress_grant_issuance_session h s = Inr x \<longleftrightarrow>
     scope_active EgressGrantIssuanceScope h (ss_scope s) \<and> ss_port_complete s"
  by (simp_all add: require_active_materialized_projection_session_def
      require_active_context_run_persistence_session_def require_active_citation_open_session_def
      require_active_delivery_evidence_redemption_session_def
      require_active_egress_grant_issuance_session_def validators)

end
