(* ===== verification/Scope_Authority.thy ===== *)
theory Scope_Authority
  imports Scope Lifetime
begin

text \<open>
  \<open>src/engine/runtime/scope_authority.py\<close>: the request-bound snapshot of the seven trusted scope
  operands. It can be built and read only inside an open authority scope and only with targets
  of its own Organization.
\<close>

section \<open>Definitions\<close>

datatype ScopeSnapshotProvenance = TRUSTED_SCOPE_AUTHORITY

record TrustedScopeSnapshot =
  ts_organization_id :: uuid
  ts_user_id :: uuid
  ts_membership_id :: uuid
  ts_membership_version :: int
  ts_policy_epoch :: int
  ts_principal_ref :: str
  ts_agent_version_ref :: str
  ts_purpose :: str
  ts_request_id :: str
  ts_authentication_binding_ref :: str
  ts_checked_at :: datetime
  ts_operands :: TrustedScopeOperands
  ts_construction_provenance :: "ScopeSnapshotProvenance option"
  ts_authority_scope :: scope_token

text \<open>The loop over the operands: a missing one is skipped, the others must stay in the Organization.\<close>

definition require_operand_organization :: "exn \<Rightarrow> uuid \<Rightarrow> TrustedScopeOperand \<Rightarrow> unit res" where
  "require_operand_organization e org operand =
     (case operand of MissingTrustedScope \<Rightarrow> Inr ()
      | ScopeSet ts \<Rightarrow> if fBex ts (\<lambda>t. st_organization_id t \<noteq> org) then Inl e else Inr ())"

definition construct_trusted_scope_snapshot ::
  "scope_heap \<Rightarrow> scope_token \<Rightarrow> pyval \<Rightarrow> pyval \<Rightarrow> pyval \<Rightarrow> pyval \<Rightarrow> pyval \<Rightarrow> pyval \<Rightarrow> pyval \<Rightarrow> pyval \<Rightarrow> pyval
    \<Rightarrow> pyval \<Rightarrow> pyval \<Rightarrow> TrustedScopeOperands \<Rightarrow> TrustedScopeSnapshot res"
where
  "construct_trusted_scope_snapshot h authority_scope organization_id user_id membership_id membership_version
      policy_epoch principal_ref agent_version_ref purpose' request_id authentication_binding_ref checked_at
      operands =
     (if \<not> scope_active ScopeAuthorityScope h authority_scope then Inl ValueError
      else
        bnd (require_uuid organization_id) (\<lambda>org.
        bnd (require_uuid user_id) (\<lambda>usr.
        bnd (require_uuid membership_id) (\<lambda>mem.
        bnd (require_int_range 1 max_signed64 membership_version) (\<lambda>ver.
        bnd (require_int_range 1 max_signed64 policy_epoch) (\<lambda>ep.
        bnd (require_nonblank principal_ref) (\<lambda>pr.
        bnd (require_nonblank agent_version_ref) (\<lambda>ag.
        bnd (require_nonblank purpose') (\<lambda>pu.
        bnd (require_nonblank request_id) (\<lambda>rq.
        bnd (require_nonblank authentication_binding_ref) (\<lambda>ab.
        bnd (require_utc checked_at) (\<lambda>ca.
        bnd (each (require_operand_organization ValueError org) (operand_list operands)) (\<lambda>_.
          Inr \<lparr>ts_organization_id = org, ts_user_id = usr, ts_membership_id = mem,
               ts_membership_version = ver, ts_policy_epoch = ep, ts_principal_ref = pr,
               ts_agent_version_ref = ag, ts_purpose = pu, ts_request_id = rq,
               ts_authentication_binding_ref = ab, ts_checked_at = ca, ts_operands = operands,
               ts_construction_provenance = Some TRUSTED_SCOPE_AUTHORITY,
               ts_authority_scope = authority_scope\<rparr>)))))))))))))"

definition require_active_trusted_scope_snapshot :: "scope_heap \<Rightarrow> TrustedScopeSnapshot \<Rightarrow> unit res" where
  "require_active_trusted_scope_snapshot h s =
     (if ts_construction_provenance s \<noteq> Some TRUSTED_SCOPE_AUTHORITY
         \<or> \<not> scope_active ScopeAuthorityScope h (ts_authority_scope s)
      then Inl InvalidTrustedScopeSnapshot
      else if \<not> (1 \<le> ts_policy_epoch s \<and> ts_policy_epoch s \<le> max_signed64)
      then Inl InvalidTrustedScopeSnapshot
      else Inr ())"

definition trusted_operands_from_snapshot :: "scope_heap \<Rightarrow> TrustedScopeSnapshot \<Rightarrow> TrustedScopeOperands res" where
  "trusted_operands_from_snapshot h s =
     bnd (require_active_trusted_scope_snapshot h s) (\<lambda>_.
     bnd (each (require_operand_organization InvalidTrustedScopeSnapshot (ts_organization_id s))
            (operand_list (ts_operands s))) (\<lambda>_.
       Inr (ts_operands s)))"

section \<open>Lemmas\<close>

lemma require_operand_organization_eq [validators]:
  "require_operand_organization e org operand = Inr x \<longleftrightarrow>
     (\<forall>ts t. operand = ScopeSet ts \<longrightarrow> t |\<in>| ts \<longrightarrow> st_organization_id t = org)"
  by (auto simp: require_operand_organization_def split: TrustedScopeOperand.splits)

lemma require_active_trusted_scope_snapshot_eq [validators]:
  "require_active_trusted_scope_snapshot h s = Inr x \<longleftrightarrow>
     ts_construction_provenance s = Some TRUSTED_SCOPE_AUTHORITY
     \<and> scope_active ScopeAuthorityScope h (ts_authority_scope s)
     \<and> 1 \<le> ts_policy_epoch s \<and> ts_policy_epoch s \<le> max_signed64"
  by (auto simp: require_active_trusted_scope_snapshot_def)

lemma constructed_snapshot:
  assumes "construct_trusted_scope_snapshot h t a b c d e f g i j k m ops = Inr s"
  shows "require_active_trusted_scope_snapshot h s = Inr ()" "ts_operands s = ops" "ts_authority_scope s = t"
    "trusted_operands_from_snapshot h s = Inr ops"
proof -
  from assms show "require_active_trusted_scope_snapshot h s = Inr ()" "ts_operands s = ops"
    "ts_authority_scope s = t"
    by (auto simp: construct_trusted_scope_snapshot_def validators)
  from assms show "trusted_operands_from_snapshot h s = Inr ops"
    by (auto simp: construct_trusted_scope_snapshot_def trusted_operands_from_snapshot_def validators)
qed

lemma snapshot_targets_in_organization:
  assumes "trusted_operands_from_snapshot h s = Inr ops"
    and "t |\<in>| es_targets (compute_effective_scope ops n)"
  shows "st_organization_id t = ts_organization_id s"
proof -
  from assms(2) obtain ts where "organization_boundary ops = ScopeSet ts" "t |\<in>| ts"
    by (auto simp: compute_effective_scope_member operand_list_def)
  moreover have "organization_boundary ops \<in> set (operand_list ops)" by (simp add: operand_list_def)
  ultimately show ?thesis
    using assms(1) by (fastforce simp: trusted_operands_from_snapshot_def validators)
qed

section \<open>Properties\<close>

text \<open>
  Tenant isolation of the scope: whatever operands a snapshot carries and whatever the request
  narrows to, an effective scope computed from it contains only targets of the snapshot's own
  Organization; and once the snapshot's authority scope is closed its operands can never be read
  again.
\<close>

theorem snapshot_scope_stays_in_organization:
  assumes "construct_trusted_scope_snapshot h t org usr mem ver ep pr ag pu rq ab ca ops = Inr s"
  shows "org = PUuid (ts_organization_id s)
    \<and> trusted_operands_from_snapshot h s = Inr ops
    \<and> (\<forall>n target. target |\<in>| es_targets (compute_effective_scope ops n)
          \<longrightarrow> st_organization_id target = ts_organization_id s)
    \<and> (close_scope_authority_scope (heap_run h before) t = Inr h'
          \<longrightarrow> trusted_operands_from_snapshot (heap_run h' after) s = Inl InvalidTrustedScopeSnapshot)"
proof (intro conjI allI impI)
  note c = constructed_snapshot [OF assms]
  show "org = PUuid (ts_organization_id s)"
    using assms by (auto simp: construct_trusted_scope_snapshot_def validators)
  show "trusted_operands_from_snapshot h s = Inr ops" by (rule c(4))
  show "st_organization_id target = ts_organization_id s"
    if "target |\<in>| es_targets (compute_effective_scope ops n)" for n target
    by (rule snapshot_targets_in_organization [OF c(4) that])
  assume "close_scope_authority_scope (heap_run h before) t = Inr h'"
  moreover have "scope_active ScopeAuthorityScope h t"
    using c(1,3) by (simp add: require_active_trusted_scope_snapshot_eq)
  ultimately have "\<not> scope_active ScopeAuthorityScope (heap_run h' after) t"
    by (intro scope_authority_scope.closed_forever)
  then show "trusted_operands_from_snapshot (heap_run h' after) s = Inl InvalidTrustedScopeSnapshot"
    by (simp add: trusted_operands_from_snapshot_def require_active_trusted_scope_snapshot_def c(3))
qed

definition example_snapshot :: TrustedScopeSnapshot where
  "example_snapshot = \<lparr>ts_organization_id = 1, ts_user_id = 2, ts_membership_id = 3,
     ts_membership_version = 1, ts_policy_epoch = 7, ts_principal_ref = u ''p'', ts_agent_version_ref = u ''a'',
     ts_purpose = u ''ask'', ts_request_id = u ''r'', ts_authentication_binding_ref = u ''b'',
     ts_checked_at = \<lparr>year = 2025, month = 6, day = 1, hour = 12, minute = 0, second = 0, microsecond = 0,
       utc_offset = Some 0\<rparr>,
     ts_operands = example_operands, ts_construction_provenance = Some TRUSTED_SCOPE_AUTHORITY,
     ts_authority_scope = \<lparr>tok_kind = ScopeAuthorityScope, tok_sealed = True, tok_id = 0\<rparr>\<rparr>"

lemma example_snapshot_constructed:
  "construct_trusted_scope_snapshot [True] \<lparr>tok_kind = ScopeAuthorityScope, tok_sealed = True, tok_id = 0\<rparr>
     (PUuid 1) (PUuid 2) (PUuid 3) (PInt 1) (PInt 7) (PStr (u ''p'')) (PStr (u ''a'')) (PStr (u ''ask''))
     (PStr (u ''r'')) (PStr (u ''b'')) (PDatetime (ts_checked_at example_snapshot)) example_operands
   = Inr example_snapshot"
  by (simp add: construct_trusted_scope_snapshot_def scope_active_def max_signed64_def u_def blank_iff is_space_def
      is_aware_utc_def operand_list_def example_operands_def Let_def require_operand_organization_def
      example_target_def example_snapshot_def)

theorem snapshot_scope_stays_in_organization_witness:
  "trusted_operands_from_snapshot [True] example_snapshot = Inr example_operands
   \<and> example_target |\<in>| es_targets (compute_effective_scope example_operands None)
   \<and> st_organization_id example_target = ts_organization_id example_snapshot
   \<and> trusted_operands_from_snapshot [False] example_snapshot = Inl InvalidTrustedScopeSnapshot"
proof -
  note T = snapshot_scope_stays_in_organization [OF example_snapshot_constructed]
  have mem: "example_target |\<in>| es_targets (compute_effective_scope example_operands None)"
    by (simp add: compute_effective_scope_member operand_list_def example_operands_def Let_def)
  have "close_scope_authority_scope (heap_run [True] [])
      \<lparr>tok_kind = ScopeAuthorityScope, tok_sealed = True, tok_id = 0\<rparr> = Inr [False]"
    by (simp add: heap_run_def close_scope_authority_scope_def close_scope_def)
  with T [of "[]" "[False]" "[]"] mem show ?thesis by (auto simp: heap_run_def)
qed

end
