(* ===== verification/Policy_Epoch.thy ===== *)
theory Policy_Epoch
  imports Lifetime
begin

text \<open>
  \<open>src/engine/runtime/policy_epoch.py\<close>: the observation of an Organization's policy epoch and the
  re-read that decides whether it is still current. The port's answer at the moment of a call is
  an argument: \<open>Inl\<close> for an exception it raises, otherwise any Python value.
\<close>

section \<open>Definitions\<close>

fun require_policy_epoch :: "pyval \<Rightarrow> int res" where
  "require_policy_epoch (PInt i) =
     (if 1 \<le> i \<and> i \<le> max_signed64 then Inr i else Inl PolicyEpochAuthorityUnavailable)"
| "require_policy_epoch _ = Inl PolicyEpochAuthorityUnavailable"

record PolicyEpochSession =
  ps_organization_id :: uuid
  ps_authority_scope :: scope_token
  ps_port_complete :: bool

definition require_active_policy_epoch_session :: "scope_heap \<Rightarrow> PolicyEpochSession \<Rightarrow> unit res" where
  "require_active_policy_epoch_session h s =
     (if \<not> scope_active PolicyEpochAuthorityScope h (ps_authority_scope s) then Inl ValueError
      else if \<not> ps_port_complete s then Inl TypeError else Inr ())"

definition construct_policy_epoch_session ::
  "scope_heap \<Rightarrow> scope_token \<Rightarrow> pyval \<Rightarrow> bool \<Rightarrow> PolicyEpochSession res"
where
  "construct_policy_epoch_session h authority_scope organization_id port_complete =
     bnd (require_uuid organization_id) (\<lambda>org.
       if \<not> port_complete then Inl TypeError
       else let s = \<lparr>ps_organization_id = org, ps_authority_scope = authority_scope,
                     ps_port_complete = port_complete\<rparr>
            in bnd (require_active_policy_epoch_session h s) (\<lambda>_. Inr s))"

datatype PolicyEpochVerificationProvenance = TRUSTED_POLICY_EPOCH_AUTHORITY

record PolicyEpochVerification =
  pv_organization_id :: uuid
  pv_policy_epoch :: int
  pv_validation_session :: PolicyEpochSession
  pv_construction_provenance :: "PolicyEpochVerificationProvenance option"

text \<open>Both failures a port may report become one.\<close>

fun epoch_read :: "pyval res \<Rightarrow> pyval res" where
  "epoch_read (Inl PolicyEpochPortFailure) = Inl PolicyEpochAuthorityUnavailable"
| "epoch_read r = r"

definition observe_current_policy_epoch ::
  "scope_heap \<Rightarrow> PolicyEpochSession \<Rightarrow> (uuid \<Rightarrow> pyval res) \<Rightarrow> PolicyEpochVerification res"
where
  "observe_current_policy_epoch h s read_current_epoch =
     bnd (require_active_policy_epoch_session h s) (\<lambda>_.
     bnd (epoch_read (read_current_epoch (ps_organization_id s))) (\<lambda>observed_value.
     bnd (require_policy_epoch observed_value) (\<lambda>epoch.
       Inr \<lparr>pv_organization_id = ps_organization_id s, pv_policy_epoch = epoch,
            pv_validation_session = s,
            pv_construction_provenance = Some TRUSTED_POLICY_EPOCH_AUTHORITY\<rparr>)))"

definition require_active_policy_epoch_verification ::
  "scope_heap \<Rightarrow> PolicyEpochVerification \<Rightarrow> unit res"
where
  "require_active_policy_epoch_verification h v =
     (if pv_construction_provenance v \<noteq> Some TRUSTED_POLICY_EPOCH_AUTHORITY then Inl ValueError
      else bnd (require_policy_epoch (PInt (pv_policy_epoch v))) (\<lambda>_.
           bnd (require_active_policy_epoch_session h (pv_validation_session v)) (\<lambda>_.
             if pv_organization_id v \<noteq> ps_organization_id (pv_validation_session v)
             then Inl ValueError else Inr ())))"

definition policy_epoch_is_current ::
  "scope_heap \<Rightarrow> PolicyEpochVerification \<Rightarrow> (uuid \<Rightarrow> pyval res) \<Rightarrow> bool res"
where
  "policy_epoch_is_current h v read_current_epoch =
     bnd (require_active_policy_epoch_verification h v) (\<lambda>_.
     bnd (epoch_read (read_current_epoch (pv_organization_id v))) (\<lambda>observed_value.
     bnd (require_policy_epoch observed_value) (\<lambda>observed.
       Inr (observed = pv_policy_epoch v))))"

section \<open>Lemmas\<close>

lemma require_policy_epoch_eq [validators]:
  "require_policy_epoch v = Inr i \<longleftrightarrow> v = PInt i \<and> 1 \<le> i \<and> i \<le> max_signed64"
  by (cases v) auto

lemma epoch_read_eq [validators]: "epoch_read r = Inr v \<longleftrightarrow> r = Inr v"
  by (cases r rule: epoch_read.cases) auto

lemma require_active_policy_epoch_session_eq [validators]:
  "require_active_policy_epoch_session h s = Inr x \<longleftrightarrow>
     scope_active PolicyEpochAuthorityScope h (ps_authority_scope s) \<and> ps_port_complete s"
  by (simp add: require_active_policy_epoch_session_def)

lemma require_active_policy_epoch_verification_eq [validators]:
  "require_active_policy_epoch_verification h v = Inr x \<longleftrightarrow>
     pv_construction_provenance v = Some TRUSTED_POLICY_EPOCH_AUTHORITY
     \<and> 1 \<le> pv_policy_epoch v \<and> pv_policy_epoch v \<le> max_signed64
     \<and> scope_active PolicyEpochAuthorityScope h (ps_authority_scope (pv_validation_session v))
     \<and> ps_port_complete (pv_validation_session v)
     \<and> pv_organization_id v = ps_organization_id (pv_validation_session v)"
  by (auto simp: require_active_policy_epoch_verification_def validators simp del: require_policy_epoch.simps)

lemma observed_verification_active:
  "observe_current_policy_epoch h s rd = Inr v \<Longrightarrow> require_active_policy_epoch_verification h v = Inr ()"
  by (auto simp: observe_current_policy_epoch_def validators)

section \<open>Properties\<close>

text \<open>
  An observed epoch is confirmed exactly when the authority reads the same epoch again: after an
  observation the re-read answers true if the port returns the observed integer, false if it
  returns another valid epoch, and raises for anything else, so a bumped, malformed or
  unreadable epoch never confirms a decision; and once the authority scope is closed every
  re-read raises.
\<close>

theorem policy_epoch_confirmed_iff_unchanged:
  assumes "observe_current_policy_epoch h s rd1 = Inr v"
  shows "(policy_epoch_is_current h v rd2 = Inr True \<longleftrightarrow> rd2 (ps_organization_id s) = rd1 (ps_organization_id s))
    \<and> (policy_epoch_is_current h v rd2 = Inr False \<longleftrightarrow>
         (\<exists>i. rd2 (ps_organization_id s) = Inr (PInt i) \<and> 1 \<le> i \<and> i \<le> max_signed64 \<and> i \<noteq> pv_policy_epoch v))
    \<and> (close_policy_epoch_authority_scope (heap_run h before) (ps_authority_scope s) = Inr h'
         \<longrightarrow> \<not> returns (policy_epoch_is_current (heap_run h' after) v rd2))"
proof (intro conjI impI)
  from assms have v: "pv_organization_id v = ps_organization_id s" "pv_validation_session v = s"
    and read: "rd1 (ps_organization_id s) = Inr (PInt (pv_policy_epoch v))"
    and range: "1 \<le> pv_policy_epoch v" "pv_policy_epoch v \<le> max_signed64"
    and act: "scope_active PolicyEpochAuthorityScope h (ps_authority_scope s)"
    by (auto simp: observe_current_policy_epoch_def validators)
  have "require_active_policy_epoch_verification h v = Inr ()"
    by (rule observed_verification_active [OF assms])
  then have run: "policy_epoch_is_current h v rd2 = Inr b \<longleftrightarrow>
      (\<exists>i. rd2 (ps_organization_id s) = Inr (PInt i) \<and> 1 \<le> i \<and> i \<le> max_signed64 \<and> b = (i = pv_policy_epoch v))" for b
    by (auto simp: policy_epoch_is_current_def v epoch_read_eq require_policy_epoch_eq)
  show "policy_epoch_is_current h v rd2 = Inr True \<longleftrightarrow> rd2 (ps_organization_id s) = rd1 (ps_organization_id s)"
    unfolding run using read range by auto
  show "policy_epoch_is_current h v rd2 = Inr False \<longleftrightarrow>
      (\<exists>i. rd2 (ps_organization_id s) = Inr (PInt i) \<and> 1 \<le> i \<and> i \<le> max_signed64 \<and> i \<noteq> pv_policy_epoch v)"
    unfolding run by auto
  assume "close_policy_epoch_authority_scope (heap_run h before) (ps_authority_scope s) = Inr h'"
  then have "\<not> scope_active PolicyEpochAuthorityScope (heap_run h' after) (ps_authority_scope s)"
    by (rule policy_epoch_scope.closed_forever [OF act])
  then show "\<not> returns (policy_epoch_is_current (heap_run h' after) v rd2)"
    by (simp add: returns_def policy_epoch_is_current_def v require_active_policy_epoch_verification_eq)
qed

definition example_epoch_session :: PolicyEpochSession where
  "example_epoch_session = \<lparr>ps_organization_id = 1,
     ps_authority_scope = \<lparr>tok_kind = PolicyEpochAuthorityScope, tok_sealed = True, tok_id = 0\<rparr>,
     ps_port_complete = True\<rparr>"

definition example_epoch :: PolicyEpochVerification where
  "example_epoch = \<lparr>pv_organization_id = 1, pv_policy_epoch = 7, pv_validation_session = example_epoch_session,
     pv_construction_provenance = Some TRUSTED_POLICY_EPOCH_AUTHORITY\<rparr>"

lemma example_epoch_observed:
  "observe_current_policy_epoch [True] example_epoch_session (\<lambda>_. Inr (PInt 7)) = Inr example_epoch"
  by (simp add: observe_current_policy_epoch_def require_active_policy_epoch_session_def scope_active_def
      example_epoch_session_def example_epoch_def max_signed64_def)

theorem policy_epoch_confirmed_iff_unchanged_witness:
  "policy_epoch_is_current [True] example_epoch (\<lambda>_. Inr (PInt 7)) = Inr True
   \<and> policy_epoch_is_current [True] example_epoch (\<lambda>_. Inr (PInt 8)) = Inr False
   \<and> \<not> returns (policy_epoch_is_current [False] example_epoch (\<lambda>_. Inr (PInt 7)))"
proof -
  note T = policy_epoch_confirmed_iff_unchanged [OF example_epoch_observed]
  have "close_policy_epoch_authority_scope (heap_run [True] []) (ps_authority_scope example_epoch_session) = Inr [False]"
    by (simp add: heap_run_def close_policy_epoch_authority_scope_def close_scope_def example_epoch_session_def)
  with T [of _ "[]" "[False]" "[]"] have "\<not> returns (policy_epoch_is_current [False] example_epoch (\<lambda>_. Inr (PInt 7)))"
    by (simp add: heap_run_def)
  moreover have "policy_epoch_is_current [True] example_epoch (\<lambda>_. Inr (PInt 7)) = Inr True"
    using T [of "\<lambda>_. Inr (PInt 7)"] by simp
  moreover have "policy_epoch_is_current [True] example_epoch (\<lambda>_. Inr (PInt 8)) = Inr False"
    using T [of "\<lambda>_. Inr (PInt 8)"] by (simp add: example_epoch_def max_signed64_def)
  ultimately show ?thesis by blast
qed

end
