(* ===== verification/Release.thy ===== *)
theory Release
  imports Budget
begin

text \<open>
  \<open>src/engine/runtime/release_lineage.py\<close>: the active Runtime release an Organization runs under,
  with the closed set of tokenizer profiles (\<open>src/context_engine_contracts/__init__.py\<close>,
  \<open>src/engine/tokenizer_accounting.py\<close>) and embedding profiles (\<open>src/engine/supply/embeddings.py\<close>) it
  may select. The RFC 8785 serialiser is a third-party package: \<open>canon\<close> stands for the text it
  produces for a document; its bytes are that text's UTF-8 encoding.
\<close>

section \<open>Documents\<close>

datatype json = JNull | JBool bool | JInt int | JFloat pyfloat | JStr str | JArr "json list" | JObj "(str \<times> json) list"

definition unspaced :: "str \<Rightarrow> bool" where
  "unspaced s \<longleftrightarrow> s \<noteq> [] \<and> \<not> list_ex is_space s"

text \<open>\<open>value == value.strip()\<close>.\<close>

definition stripped :: "str \<Rightarrow> bool" where
  "stripped s \<longleftrightarrow> s = [] \<or> \<not> is_space (hd s) \<and> \<not> is_space (last s)"

definition profile_digest_of :: "bytes \<Rightarrow> str \<Rightarrow> str" where
  "profile_digest_of domain document = sha256_hexdigest (domain @ utf8_surrogatepass document)"

definition ascii :: "string \<Rightarrow> bytes" where
  "ascii s = utf8_surrogatepass (u s)"

section \<open>Tokenizer profiles\<close>

record TokenizerProfileDescriptor =
  td_profile_ref :: str
  td_artifact_name :: str
  td_artifact_digest :: str
  td_vocabulary_ref :: str
  td_normalization_ref :: str
  td_accounting_version :: str
  td_counting_contract :: str

definition TokenizerProfileDescriptor_post_init :: "TokenizerProfileDescriptor \<Rightarrow> unit res" where
  "TokenizerProfileDescriptor_post_init d =
     bnd (each (\<lambda>v. if \<not> (unspaced v \<and> stripped v) then Inl ValueError else Inr ())
       [td_profile_ref d, td_artifact_name d, td_vocabulary_ref d, td_normalization_ref d,
        td_accounting_version d, td_counting_contract d]) (\<lambda>_.
       if 47 \<in> set (td_artifact_name d) \<or> 92 \<in> set (td_artifact_name d) then Inl ValueError
       else if \<not> is_sha256_hex (td_artifact_digest d) then Inl ValueError
       else Inr ())"

definition td_canonical_document :: "TokenizerProfileDescriptor \<Rightarrow> json" where
  "td_canonical_document d = JObj
     [(u ''accountingVersion'', JStr (td_accounting_version d)),
      (u ''artifactDigest'', JStr (td_artifact_digest d)),
      (u ''countingContract'', JStr (td_counting_contract d)),
      (u ''normalizationRef'', JStr (td_normalization_ref d)),
      (u ''profileRef'', JStr (td_profile_ref d)),
      (u ''vocabularyRef'', JStr (td_vocabulary_ref d))]"

definition td_canonical_json :: "(json \<Rightarrow> str) \<Rightarrow> TokenizerProfileDescriptor \<Rightarrow> str" where
  "td_canonical_json canon d = canon (td_canonical_document d)"

definition TOKENIZER_PROFILE_DIGEST_DOMAIN :: bytes where
  "TOKENIZER_PROFILE_DIGEST_DOMAIN = ascii ''context-engine.tokenizer-profile.v1'' @ [0]"

definition td_profile_digest :: "(json \<Rightarrow> str) \<Rightarrow> TokenizerProfileDescriptor \<Rightarrow> str" where
  "td_profile_digest canon d = profile_digest_of TOKENIZER_PROFILE_DIGEST_DOMAIN (td_canonical_json canon d)"

definition unicode_scalar_descriptor :: TokenizerProfileDescriptor where
  "unicode_scalar_descriptor = \<lparr>
     td_profile_ref = u ''unicode-scalar-tokenizer-v1'',
     td_artifact_name = u ''unicode-scalar-v1.json'',
     td_artifact_digest = u ''8d301e3ce94e5b48febffb2e0871e139cd4d5f808084eccbf9cfc512d3948cca'',
     td_vocabulary_ref = u ''unicode-scalars-v15.1'',
     td_normalization_ref = u ''none'',
     td_accounting_version = u ''unicode-scalar-accounting-v1'',
     td_counting_contract = u ''one-unicode-scalar-one-token-v1''\<rparr>"

definition REGISTERED_V1_TOKENIZER_PROFILES :: "TokenizerProfileDescriptor list" where
  "REGISTERED_V1_TOKENIZER_PROFILES = [unicode_scalar_descriptor]"

definition is_registered_v1_tokenizer_identity :: "(json \<Rightarrow> str) \<Rightarrow> str \<Rightarrow> str \<Rightarrow> bool" where
  "is_registered_v1_tokenizer_identity canon ref digest \<longleftrightarrow>
     (ref, digest) \<in> set (map (\<lambda>d. (td_profile_ref d, td_profile_digest canon d)) REGISTERED_V1_TOKENIZER_PROFILES)"

definition runtime_profile :: "(json \<Rightarrow> str) \<Rightarrow> TokenizerProfileDescriptor \<Rightarrow> TokenizerProfile" where
  "runtime_profile canon d = \<lparr>profile_ref = td_profile_ref d, profile_digest = td_profile_digest canon d,
     artifact_digest = td_artifact_digest d, accounting_version = td_accounting_version d,
     normalization_ref = td_normalization_ref d, vocabulary_ref = td_vocabulary_ref d\<rparr>"

definition UNICODE_SCALAR_TOKENIZER_PROFILE :: "(json \<Rightarrow> str) \<Rightarrow> TokenizerProfile" where
  "UNICODE_SCALAR_TOKENIZER_PROFILE canon = runtime_profile canon (REGISTERED_V1_TOKENIZER_PROFILES ! 0)"

text \<open>\<open>len(matches) != 1\<close> raises.\<close>

definition the_match :: "TokenizerProfileDescriptor list \<Rightarrow> TokenizerProfileDescriptor res" where
  "the_match ms = (case ms of [d] \<Rightarrow> Inr d | _ \<Rightarrow> Inl TokenizerUnavailable)"

definition registered_tokenizer_profile :: "(json \<Rightarrow> str) \<Rightarrow> str \<Rightarrow> str \<Rightarrow> TokenizerProfile res" where
  "registered_tokenizer_profile canon document digest =
     bnd (the_match [d \<leftarrow> REGISTERED_V1_TOKENIZER_PROFILES.
            td_canonical_json canon d = document \<and> td_profile_digest canon d = digest]) (\<lambda>d.
       Inr (runtime_profile canon d))"

definition registered_tokenizer_profile_by_identity :: "(json \<Rightarrow> str) \<Rightarrow> str \<Rightarrow> str \<Rightarrow> TokenizerProfile res" where
  "registered_tokenizer_profile_by_identity canon ref digest =
     bnd (the_match [d \<leftarrow> REGISTERED_V1_TOKENIZER_PROFILES.
            td_profile_ref d = ref \<and> td_profile_digest canon d = digest]) (\<lambda>d.
       Inr (runtime_profile canon d))"

definition HISTORICAL_UTF8_BYTE_TOKENIZER_PROFILE_DOCUMENT :: str where
  "HISTORICAL_UTF8_BYTE_TOKENIZER_PROFILE_DOCUMENT =
     u ''{\"accountingVersion\":\"utf8-byte-budget-v1\",'' @ u ''\"artifactDigest\":\"''
     @ sha256_hexdigest (ascii ''utf8-byte-budget-v1'') @ u ''\",''
     @ u ''\"countingContract\":\"historical-delivered-block-utf8-bytes-v1\",''
     @ u ''\"normalizationRef\":\"none\",\"profileRef\":\"utf8-byte-budget-v1\",''
     @ u ''\"vocabularyRef\":\"utf8-octets\"}''"

definition HISTORICAL_UTF8_BYTE_TOKENIZER_PROFILE_DIGEST :: str where
  "HISTORICAL_UTF8_BYTE_TOKENIZER_PROFILE_DIGEST =
     profile_digest_of TOKENIZER_PROFILE_DIGEST_DOMAIN HISTORICAL_UTF8_BYTE_TOKENIZER_PROFILE_DOCUMENT"

section \<open>Embedding profiles\<close>

record EmbeddingProviderProfile =
  emb_model_id :: str
  emb_revision :: str
  emb_artifact_digest :: str
  emb_dimension :: int
  emb_pooling :: str
  emb_query_prefix :: str
  emb_document_prefix :: str
  emb_transformation_pipeline :: str
  emb_precision :: str
  emb_batch_size :: int

definition MAX_PROFILE_TEXT_LENGTH :: nat where
  "MAX_PROFILE_TEXT_LENGTH = 4096"

definition EmbeddingProviderProfile_post_init :: "EmbeddingProviderProfile \<Rightarrow> unit res" where
  "EmbeddingProviderProfile_post_init p =
     (let nonblank_fields = [emb_model_id p, emb_pooling p, emb_transformation_pipeline p, emb_precision p] in
      if list_ex (\<lambda>v. length v > MAX_PROFILE_TEXT_LENGTH \<or> \<not> stripped v) nonblank_fields
         \<or> [] \<in> set nonblank_fields
         \<or> length (emb_query_prefix p) > MAX_PROFILE_TEXT_LENGTH
         \<or> length (emb_document_prefix p) > MAX_PROFILE_TEXT_LENGTH
         \<or> \<not> (list_all is_hex (emb_revision p) \<and> length (emb_revision p) \<in> {40, 64})
         \<or> \<not> is_sha256_hex (emb_artifact_digest p)
         \<or> \<not> (1 \<le> emb_dimension p \<and> emb_dimension p \<le> 4096)
         \<or> \<not> (1 \<le> emb_batch_size p \<and> emb_batch_size p \<le> 1024)
      then Inl ValueError else Inr ())"

definition emb_canonical_document :: "EmbeddingProviderProfile \<Rightarrow> json" where
  "emb_canonical_document p = JObj
     [(u ''artifactDigest'', JStr (emb_artifact_digest p)), (u ''batchSize'', JInt (emb_batch_size p)),
      (u ''dimension'', JInt (emb_dimension p)), (u ''documentPrefix'', JStr (emb_document_prefix p)),
      (u ''modelId'', JStr (emb_model_id p)), (u ''pooling'', JStr (emb_pooling p)),
      (u ''precision'', JStr (emb_precision p)), (u ''queryPrefix'', JStr (emb_query_prefix p)),
      (u ''revision'', JStr (emb_revision p)),
      (u ''transformationPipeline'', JStr (emb_transformation_pipeline p))]"

definition emb_canonical_json :: "(json \<Rightarrow> str) \<Rightarrow> EmbeddingProviderProfile \<Rightarrow> str" where
  "emb_canonical_json canon p = canon (emb_canonical_document p)"

definition emb_profile_digest :: "(json \<Rightarrow> str) \<Rightarrow> EmbeddingProviderProfile \<Rightarrow> str" where
  "emb_profile_digest canon p =
     profile_digest_of (ascii ''context-engine.embedding-provider-profile.v1'' @ [0]) (emb_canonical_json canon p)"

definition DETERMINISTIC_TWIN_EMBEDDING_PROFILE :: EmbeddingProviderProfile where
  "DETERMINISTIC_TWIN_EMBEDDING_PROFILE = \<lparr>
     emb_model_id = u ''context-engine/deterministic-embedding-twin'',
     emb_revision = replicate 40 48,
     emb_artifact_digest =
       sha256_hexdigest (ascii ''context-engine.embedding-twin.v1'' @ [0] @ ascii ''network-free-python''),
     emb_dimension = 384, emb_pooling = u ''shake256-component-l2'', emb_query_prefix = [],
     emb_document_prefix = [], emb_transformation_pipeline = u ''shake256 float components -> l2'',
     emb_precision = u ''float64-to-float32'', emb_batch_size = 256\<rparr>"

definition QWEN3_EMBEDDING_PROFILE :: EmbeddingProviderProfile where
  "QWEN3_EMBEDDING_PROFILE = \<lparr>
     emb_model_id = u ''Qwen/Qwen3-Embedding-0.6B'',
     emb_revision = u ''97b0c614be4d77ee51c0cef4e5f07c00f9eb65b3'',
     emb_artifact_digest = u ''8cb25677d5be69ce6ac88ebbdfb5dad30980fee39c35c6324a583e325917eddc'',
     emb_dimension = 384, emb_pooling = u ''last_token'',
     emb_query_prefix = u ''Instruct: Given a web search query, retrieve relevant passages that answer ''
       @ u ''the query'' @ [10] @ u ''Query:'',
     emb_document_prefix = [], emb_transformation_pipeline = u ''l2 -> truncate 1024->384 -> l2'',
     emb_precision = u ''float32'', emb_batch_size = 8\<rparr>"

definition registered_embedding_provider_profile ::
  "(json \<Rightarrow> str) \<Rightarrow> str \<Rightarrow> str \<Rightarrow> EmbeddingProviderProfile res"
where
  "registered_embedding_provider_profile canon document digest =
     (case map_of (rev (map (\<lambda>p. ((emb_canonical_json canon p, emb_profile_digest canon p), p))
             [DETERMINISTIC_TWIN_EMBEDDING_PROFILE, QWEN3_EMBEDDING_PROFILE])) (document, digest) of
        None \<Rightarrow> Inl ValueError | Some p \<Rightarrow> Inr p)"

section \<open>The active release\<close>

definition RUNTIME_PROFILE_REF_V0 :: str where "RUNTIME_PROFILE_REF_V0 = u ''runtime-materialized-openapi-v0''"
definition RUNTIME_TOKENIZER_REF_V0 :: str where "RUNTIME_TOKENIZER_REF_V0 = u ''utf8-byte-budget-v1''"
definition PACKAGE_SCHEMA_REF_V0 :: str where "PACKAGE_SCHEMA_REF_V0 = u ''context-package-openapi-v0''"
definition RUNTIME_PROFILE_REF_V1 :: str where "RUNTIME_PROFILE_REF_V1 = u ''runtime-materialized-openapi-v1''"
definition RUNTIME_TOKENIZER_REF_V1 :: str where
  "RUNTIME_TOKENIZER_REF_V1 = td_profile_ref (REGISTERED_V1_TOKENIZER_PROFILES ! 0)"
definition PACKAGE_SCHEMA_REF_V1 :: str where "PACKAGE_SCHEMA_REF_V1 = u ''context-package-openapi-v1''"
definition CONTENT_PROFILE_REF_V0 :: str where "CONTENT_PROFILE_REF_V0 = u ''content-materialized-v0''"
definition CONTENT_SCHEMA_REF_V0 :: str where "CONTENT_SCHEMA_REF_V0 = u ''context-content-schema-v1''"
definition INDEX_PROFILE_REF_V0 :: str where "INDEX_PROFILE_REF_V0 = u ''index-exact-phrase-v0''"
definition DOGFOOD_VECTOR_INDEX_PROFILE_REF_V1 :: str where
  "DOGFOOD_VECTOR_INDEX_PROFILE_REF_V1 = u ''index-file-pgvector-deterministic-twin-v1''"
definition QWEN_VECTOR_INDEX_PROFILE_REF_V1 :: str where
  "QWEN_VECTOR_INDEX_PROFILE_REF_V1 = u ''index-file-pgvector-qwen3-0.6b-v1''"
definition INDEX_SCHEMA_REF_V0 :: str where "INDEX_SCHEMA_REF_V0 = u ''context-index-schema-v1''"

definition CONTENT_PROFILE_DIGEST_V0 :: str where
  "CONTENT_PROFILE_DIGEST_V0 = sha256_hexdigest (ascii ''context-engine.content-profile.materialized-v0'')"

definition INDEX_PROFILE_DIGEST_V0 :: str where
  "INDEX_PROFILE_DIGEST_V0 = sha256_hexdigest (ascii ''context-engine.index-profile.exact-phrase-v0'')"

definition DOGFOOD_VECTOR_INDEX_PROFILE_DIGEST_V1 :: str where
  "DOGFOOD_VECTOR_INDEX_PROFILE_DIGEST_V1 = sha256_hexdigest
     (ascii ''context-engine.index-profile.file-pgvector-v1'' @ [0]
      @ ascii ''embedding-model:deterministic-twin-v1'' @ [0]
      @ ascii ''embedding-input:contextual-fragment-v1'')"

definition QWEN_VECTOR_INDEX_PROFILE_DIGEST_V1 :: "(json \<Rightarrow> str) \<Rightarrow> str" where
  "QWEN_VECTOR_INDEX_PROFILE_DIGEST_V1 canon = sha256_hexdigest
     (ascii ''context-engine.index-profile.file-pgvector.v1'' @ [0]
      @ unhex (emb_profile_digest canon QWEN3_EMBEDDING_PROFILE))"

definition RUNTIME_PROFILE_DIGEST_V0 :: str where
  "RUNTIME_PROFILE_DIGEST_V0 = sha256_hexdigest (ascii ''context-engine.runtime-profile.materialized-openapi-v0'')"

definition RUNTIME_PROFILE_DIGEST_V1 :: "(json \<Rightarrow> str) \<Rightarrow> str" where
  "RUNTIME_PROFILE_DIGEST_V1 canon = sha256_hexdigest
     (ascii ''context-engine.runtime-profile.materialized-openapi-v1'' @ [0]
      @ unhex (profile_digest (UNICODE_SCALAR_TOKENIZER_PROFILE canon)))"

definition CURATION_PROFILE_REF_V0 :: str where "CURATION_PROFILE_REF_V0 = u ''curation-off-v0''"

definition CURATION_PROFILE_DIGEST_V0 :: str where
  "CURATION_PROFILE_DIGEST_V0 = sha256_hexdigest (ascii ''context-engine.curation-profile.off-v0'')"

definition require_release_ref :: "str \<Rightarrow> unit res" where
  "require_release_ref v = (if blank v \<or> \<not> stripped v \<or> list_ex is_space v then Inl ValueError else Inr ())"

definition require_release_digest :: "str \<Rightarrow> unit res" where
  "require_release_digest v = (if \<not> is_sha256_hex v then Inl ValueError else Inr ())"

text \<open>The preimage of a public release reference.\<close>

definition release_ref_preimage :: "str \<Rightarrow> int \<Rightarrow> bytes" where
  "release_ref_preimage digest generation =
     ascii ''context-engine.public-release-ref.v1'' @ [0] @ unhex digest @ to_bytes 8 (nat generation)"

definition public_release_manifest_ref :: "str \<Rightarrow> int \<Rightarrow> str res" where
  "public_release_manifest_ref manifest_digest active_generation =
     bnd (require_release_digest manifest_digest) (\<lambda>_.
       if \<not> (1 \<le> active_generation \<and> active_generation \<le> max_signed64) then Inl ValueError
       else Inr (u ''rel_'' @ sha256_hexdigest (release_ref_preimage manifest_digest active_generation)))"

record ActiveRuntimeRelease =
  ar_organization_id :: uuid
  ar_manifest_digest :: str
  ar_active_generation :: int
  ar_content_profile_ref :: str
  ar_content_schema_ref :: str
  ar_index_profile_ref :: str
  ar_index_schema_ref :: str
  ar_runtime_profile_ref :: str
  ar_runtime_profile_digest :: str
  ar_content_profile_digest :: str
  ar_index_profile_digest :: str
  ar_embedding_profile_document :: str
  ar_embedding_profile_digest :: str
  ar_tokenizer_ref :: str
  ar_package_schema_ref :: str
  ar_curation_profile_ref :: str
  ar_curation_profile_digest :: str
  ar_curation_mode :: str
  ar_curation_snapshot_ref :: "str option"
  ar_curation_evaluation_digest :: "str option"
  ar_compatible_revision_refs :: "str list"
  ar_active_revision_refs :: "str list"
  ar_tokenizer_profile_document :: str
  ar_tokenizer_profile_digest :: str
  ar_manifest_ref :: str

definition require_revision_refs :: "str list \<Rightarrow> unit res" where
  "require_revision_refs refs =
     bnd (each require_release_ref refs) (\<lambda>_.
       if card (set refs) \<noteq> length refs \<or> refs \<noteq> sort refs then Inl ValueError else Inr ())"

definition supported_index_profile :: "(json \<Rightarrow> str) \<Rightarrow> ActiveRuntimeRelease \<Rightarrow> bool" where
  "supported_index_profile canon r \<longleftrightarrow>
     (ar_index_profile_ref r, ar_index_profile_digest r, ar_embedding_profile_digest r,
      ar_embedding_profile_document r) \<in>
     {(INDEX_PROFILE_REF_V0, INDEX_PROFILE_DIGEST_V0,
       emb_profile_digest canon DETERMINISTIC_TWIN_EMBEDDING_PROFILE,
       emb_canonical_json canon DETERMINISTIC_TWIN_EMBEDDING_PROFILE),
      (DOGFOOD_VECTOR_INDEX_PROFILE_REF_V1, DOGFOOD_VECTOR_INDEX_PROFILE_DIGEST_V1,
       emb_profile_digest canon DETERMINISTIC_TWIN_EMBEDDING_PROFILE,
       emb_canonical_json canon DETERMINISTIC_TWIN_EMBEDDING_PROFILE),
      (QWEN_VECTOR_INDEX_PROFILE_REF_V1, QWEN_VECTOR_INDEX_PROFILE_DIGEST_V1 canon,
       emb_profile_digest canon QWEN3_EMBEDDING_PROFILE, emb_canonical_json canon QWEN3_EMBEDDING_PROFILE)}"

definition supported_runtime_profile :: "(json \<Rightarrow> str) \<Rightarrow> ActiveRuntimeRelease \<Rightarrow> bool" where
  "supported_runtime_profile canon r \<longleftrightarrow>
     (ar_runtime_profile_ref r, ar_runtime_profile_digest r, ar_tokenizer_ref r,
      ar_tokenizer_profile_document r, ar_tokenizer_profile_digest r, ar_package_schema_ref r) \<in>
     {(RUNTIME_PROFILE_REF_V0, RUNTIME_PROFILE_DIGEST_V0, RUNTIME_TOKENIZER_REF_V0,
       HISTORICAL_UTF8_BYTE_TOKENIZER_PROFILE_DOCUMENT, HISTORICAL_UTF8_BYTE_TOKENIZER_PROFILE_DIGEST,
       PACKAGE_SCHEMA_REF_V0),
      (RUNTIME_PROFILE_REF_V1, RUNTIME_PROFILE_DIGEST_V1 canon, RUNTIME_TOKENIZER_REF_V1,
       td_canonical_json canon (REGISTERED_V1_TOKENIZER_PROFILES ! 0),
       profile_digest (UNICODE_SCALAR_TOKENIZER_PROFILE canon), PACKAGE_SCHEMA_REF_V1)}"

definition ActiveRuntimeRelease_post_init ::
  "(json \<Rightarrow> str) \<Rightarrow> ActiveRuntimeRelease \<Rightarrow> ActiveRuntimeRelease res"
where
  "ActiveRuntimeRelease_post_init canon r =
     (if \<not> (1 \<le> ar_active_generation r \<and> ar_active_generation r \<le> max_signed64) then Inl ValueError
      else
        bnd (each require_release_ref
          [ar_content_profile_ref r, ar_content_schema_ref r, ar_index_profile_ref r, ar_index_schema_ref r,
           ar_runtime_profile_ref r, ar_tokenizer_ref r, ar_package_schema_ref r, ar_curation_profile_ref r]) (\<lambda>_.
        bnd (each require_release_digest
          [ar_manifest_digest r, ar_runtime_profile_digest r, ar_content_profile_digest r,
           ar_index_profile_digest r, ar_embedding_profile_digest r, ar_curation_profile_digest r,
           ar_tokenizer_profile_digest r]) (\<lambda>_.
        bnd (each require_revision_refs [ar_active_revision_refs r, ar_compatible_revision_refs r]) (\<lambda>_.
          if ar_content_profile_ref r \<noteq> CONTENT_PROFILE_REF_V0
             \<or> ar_content_schema_ref r \<noteq> CONTENT_SCHEMA_REF_V0
             \<or> \<not> supported_index_profile canon r
             \<or> ar_index_schema_ref r \<noteq> INDEX_SCHEMA_REF_V0
             \<or> ar_content_profile_digest r \<noteq> CONTENT_PROFILE_DIGEST_V0
             \<or> \<not> supported_runtime_profile canon r
             \<or> ar_curation_profile_ref r \<noteq> CURATION_PROFILE_REF_V0
             \<or> ar_curation_profile_digest r \<noteq> CURATION_PROFILE_DIGEST_V0
             \<or> ar_curation_mode r \<noteq> u ''curation_off''
             \<or> ar_curation_snapshot_ref r \<noteq> None
             \<or> ar_curation_evaluation_digest r \<noteq> None
             \<or> ar_compatible_revision_refs r \<noteq> []
          then Inl ValueError
          else bnd (public_release_manifest_ref (ar_manifest_digest r) (ar_active_generation r)) (\<lambda>ref.
            Inr (r\<lparr>ar_manifest_ref := ref\<rparr>))))))"

section \<open>Lemmas\<close>

lemma schema_refs_differ [simp]:
  "PACKAGE_SCHEMA_REF_V0 \<noteq> PACKAGE_SCHEMA_REF_V1" "PACKAGE_SCHEMA_REF_V1 \<noteq> PACKAGE_SCHEMA_REF_V0"
  by (simp_all add: PACKAGE_SCHEMA_REF_V0_def PACKAGE_SCHEMA_REF_V1_def u_def)

lemma runtime_refs_differ [simp]:
  "RUNTIME_PROFILE_REF_V0 \<noteq> RUNTIME_PROFILE_REF_V1" "RUNTIME_PROFILE_REF_V1 \<noteq> RUNTIME_PROFILE_REF_V0"
  by (simp_all add: RUNTIME_PROFILE_REF_V0_def RUNTIME_PROFILE_REF_V1_def u_def)

lemma profile_digest_of_shape [simp]: "is_sha256_hex (profile_digest_of d t)"
  by (simp add: profile_digest_of_def)

lemma public_release_manifest_ref_eq [validators]:
  "public_release_manifest_ref d g = Inr ref \<longleftrightarrow>
     is_sha256_hex d \<and> 1 \<le> g \<and> g \<le> max_signed64
     \<and> ref = u ''rel_'' @ sha256_hexdigest (release_ref_preimage d g)"
  by (auto simp: public_release_manifest_ref_def require_release_digest_def)

lemma release_ref_preimage_inject:
  assumes "is_sha256_hex d" "is_sha256_hex d'" "1 \<le> g" "g \<le> max_signed64" "1 \<le> g'" "g' \<le> max_signed64"
    and "release_ref_preimage d g = release_ref_preimage d' g'"
  shows "d = d' \<and> g = g'"
proof -
  have len: "length (unhex x) = 32" if "is_sha256_hex x" for x
    using that by (simp add: is_sha256_hex_def length_unhex)
  from assms(7) len [OF assms(1)] len [OF assms(2)]
  have "unhex d = unhex d'" and b: "to_bytes 8 (nat g) = to_bytes 8 (nat g')"
    by (simp_all add: release_ref_preimage_def)
  then have "d = d'" using assms(1,2) by (blast intro: unhex_inject)
  moreover have "nat g = nat g'"
    by (rule to_bytes_inject [OF _ _ b]) (use assms(4,6) in \<open>simp_all add: max_signed64_def\<close>)
  ultimately show ?thesis using assms(3,5) by simp
qed

lemma registered_unicode_scalar:
  "registered_tokenizer_profile canon (td_canonical_json canon (REGISTERED_V1_TOKENIZER_PROFILES ! 0))
     (profile_digest (UNICODE_SCALAR_TOKENIZER_PROFILE canon)) = Inr (UNICODE_SCALAR_TOKENIZER_PROFILE canon)"
  by (simp add: registered_tokenizer_profile_def REGISTERED_V1_TOKENIZER_PROFILES_def the_match_def
      UNICODE_SCALAR_TOKENIZER_PROFILE_def runtime_profile_def)

lemma registered_embedding:
  assumes "p \<in> {DETERMINISTIC_TWIN_EMBEDDING_PROFILE, QWEN3_EMBEDDING_PROFILE}"
  shows "\<exists>q. registered_embedding_provider_profile canon (emb_canonical_json canon p) (emb_profile_digest canon p) = Inr q"
  using assms by (auto simp: registered_embedding_provider_profile_def)

lemma accepted_release:
  assumes "ActiveRuntimeRelease_post_init canon r = Inr r'"
  shows "supported_index_profile canon r" "supported_runtime_profile canon r"
    "r' = r\<lparr>ar_manifest_ref := ar_manifest_ref r'\<rparr>"
    "public_release_manifest_ref (ar_manifest_digest r) (ar_active_generation r) = Inr (ar_manifest_ref r')"
    "distinct (ar_active_revision_refs r)" "sorted (ar_active_revision_refs r)"
proof -
  from assms show "supported_index_profile canon r" "supported_runtime_profile canon r"
    "r' = r\<lparr>ar_manifest_ref := ar_manifest_ref r'\<rparr>"
    "public_release_manifest_ref (ar_manifest_digest r) (ar_active_generation r) = Inr (ar_manifest_ref r')"
    unfolding ActiveRuntimeRelease_post_init_def by auto
  from assms have "require_revision_refs (ar_active_revision_refs r) = Inr ()"
    unfolding ActiveRuntimeRelease_post_init_def by auto
  then have "card (set (ar_active_revision_refs r)) = length (ar_active_revision_refs r)"
    "ar_active_revision_refs r = sort (ar_active_revision_refs r)"
    by (auto simp: require_revision_refs_def)
  then show "distinct (ar_active_revision_refs r)" "sorted (ar_active_revision_refs r)"
    by (auto intro: card_distinct) (metis sorted_sort)
qed

section \<open>Properties\<close>

text \<open>
  The profiles of an accepted release can always be resolved: it has the v1 package schema
  exactly when it has the v1 Runtime profile, then its tokenizer document and digest resolve to
  the one registered tokenizer and its tokenizer reference names it; otherwise it carries the
  historical byte tokenizer; its embedding profile resolves in either case. Nothing a caller
  puts in the other fields changes that.
\<close>

theorem accepted_release_resolves_profiles:
  assumes "ActiveRuntimeRelease_post_init canon r = Inr r'"
  shows "(ar_package_schema_ref r' = PACKAGE_SCHEMA_REF_V1 \<longleftrightarrow> ar_runtime_profile_ref r' = RUNTIME_PROFILE_REF_V1)
    \<and> (if ar_package_schema_ref r' = PACKAGE_SCHEMA_REF_V1
       then registered_tokenizer_profile canon (ar_tokenizer_profile_document r') (ar_tokenizer_profile_digest r')
              = Inr (UNICODE_SCALAR_TOKENIZER_PROFILE canon)
            \<and> is_registered_v1_tokenizer_identity canon (ar_tokenizer_ref r') (ar_tokenizer_profile_digest r')
       else ar_package_schema_ref r' = PACKAGE_SCHEMA_REF_V0 \<and> ar_tokenizer_ref r' = RUNTIME_TOKENIZER_REF_V0
            \<and> ar_tokenizer_profile_digest r' = HISTORICAL_UTF8_BYTE_TOKENIZER_PROFILE_DIGEST)
    \<and> returns (registered_embedding_provider_profile canon (ar_embedding_profile_document r')
         (ar_embedding_profile_digest r'))"
proof (intro conjI)
  note acc = accepted_release [OF assms]
  have r': "supported_runtime_profile canon r'" "supported_index_profile canon r'"
    using acc(1,2) unfolding supported_runtime_profile_def supported_index_profile_def
    by (subst acc(3), simp)+
  from r'(1) show "ar_package_schema_ref r' = PACKAGE_SCHEMA_REF_V1 \<longleftrightarrow> ar_runtime_profile_ref r' = RUNTIME_PROFILE_REF_V1"
    unfolding supported_runtime_profile_def by auto
  have ident: "is_registered_v1_tokenizer_identity canon RUNTIME_TOKENIZER_REF_V1
      (profile_digest (UNICODE_SCALAR_TOKENIZER_PROFILE canon))"
    by (simp add: is_registered_v1_tokenizer_identity_def RUNTIME_TOKENIZER_REF_V1_def
        UNICODE_SCALAR_TOKENIZER_PROFILE_def runtime_profile_def REGISTERED_V1_TOKENIZER_PROFILES_def)
  from r'(1) ident show "if ar_package_schema_ref r' = PACKAGE_SCHEMA_REF_V1
       then registered_tokenizer_profile canon (ar_tokenizer_profile_document r') (ar_tokenizer_profile_digest r')
              = Inr (UNICODE_SCALAR_TOKENIZER_PROFILE canon)
            \<and> is_registered_v1_tokenizer_identity canon (ar_tokenizer_ref r') (ar_tokenizer_profile_digest r')
       else ar_package_schema_ref r' = PACKAGE_SCHEMA_REF_V0 \<and> ar_tokenizer_ref r' = RUNTIME_TOKENIZER_REF_V0
            \<and> ar_tokenizer_profile_digest r' = HISTORICAL_UTF8_BYTE_TOKENIZER_PROFILE_DIGEST"
    unfolding supported_runtime_profile_def by (auto simp: registered_unicode_scalar)
  from r'(2) show "returns (registered_embedding_provider_profile canon (ar_embedding_profile_document r')
         (ar_embedding_profile_digest r'))"
    unfolding supported_index_profile_def returns_def by (auto intro: registered_embedding)
qed

text \<open>
  The public release reference identifies the release without exposing it: two accepted
  releases share a reference only if they have the same manifest digest and generation, or two
  different preimages are an explicit SHA-256 collision; the reference is the prefix \<open>rel_\<close> and 64
  hexadecimal digits.
\<close>

theorem manifest_ref_identifies_release:
  assumes "ActiveRuntimeRelease_post_init canon r1 = Inr s1" "ActiveRuntimeRelease_post_init canon r2 = Inr s2"
    and "ar_manifest_ref s1 = ar_manifest_ref s2"
  shows "(ar_manifest_digest s1 = ar_manifest_digest s2 \<and> ar_active_generation s1 = ar_active_generation s2
      \<or> sha256_collision (release_ref_preimage (ar_manifest_digest s1) (ar_active_generation s1))
          (release_ref_preimage (ar_manifest_digest s2) (ar_active_generation s2)))
    \<and> (\<exists>h. ar_manifest_ref s1 = u ''rel_'' @ h \<and> is_sha256_hex h)"
proof -
  note a = accepted_release [OF assms(1)] and b = accepted_release [OF assms(2)]
  have same: "ar_manifest_digest s1 = ar_manifest_digest r1" "ar_active_generation s1 = ar_active_generation r1"
    "ar_manifest_digest s2 = ar_manifest_digest r2" "ar_active_generation s2 = ar_active_generation r2"
    by (subst a(3) b(3), simp)+
  from a(4) b(4) assms(3)
  have "sha256_hexdigest (release_ref_preimage (ar_manifest_digest r1) (ar_active_generation r1))
      = sha256_hexdigest (release_ref_preimage (ar_manifest_digest r2) (ar_active_generation r2))"
    by (simp add: validators)
  then have "release_ref_preimage (ar_manifest_digest r1) (ar_active_generation r1)
        = release_ref_preimage (ar_manifest_digest r2) (ar_active_generation r2)
      \<or> sha256_collision (release_ref_preimage (ar_manifest_digest r1) (ar_active_generation r1))
          (release_ref_preimage (ar_manifest_digest r2) (ar_active_generation r2))"
    by (rule hexdigest_eq)
  moreover have "\<exists>h. ar_manifest_ref s1 = u ''rel_'' @ h \<and> is_sha256_hex h"
    using a(4) by (simp add: validators)
  moreover note release_ref_preimage_inject [of "ar_manifest_digest r1" "ar_manifest_digest r2"
      "ar_active_generation r1" "ar_active_generation r2"]
  ultimately show ?thesis
    using a(4) b(4) unfolding same public_release_manifest_ref_eq by blast
qed

definition example_release :: "int \<Rightarrow> ActiveRuntimeRelease" where
  "example_release generation = \<lparr>ar_organization_id = 1, ar_manifest_digest = replicate 64 48,
     ar_active_generation = generation, ar_content_profile_ref = CONTENT_PROFILE_REF_V0,
     ar_content_schema_ref = CONTENT_SCHEMA_REF_V0, ar_index_profile_ref = INDEX_PROFILE_REF_V0,
     ar_index_schema_ref = INDEX_SCHEMA_REF_V0, ar_runtime_profile_ref = RUNTIME_PROFILE_REF_V1,
     ar_runtime_profile_digest = RUNTIME_PROFILE_DIGEST_V1 (\<lambda>_. []),
     ar_content_profile_digest = CONTENT_PROFILE_DIGEST_V0, ar_index_profile_digest = INDEX_PROFILE_DIGEST_V0,
     ar_embedding_profile_document = emb_canonical_json (\<lambda>_. []) DETERMINISTIC_TWIN_EMBEDDING_PROFILE,
     ar_embedding_profile_digest = emb_profile_digest (\<lambda>_. []) DETERMINISTIC_TWIN_EMBEDDING_PROFILE,
     ar_tokenizer_ref = RUNTIME_TOKENIZER_REF_V1, ar_package_schema_ref = PACKAGE_SCHEMA_REF_V1,
     ar_curation_profile_ref = CURATION_PROFILE_REF_V0,
     ar_curation_profile_digest = CURATION_PROFILE_DIGEST_V0, ar_curation_mode = u ''curation_off'',
     ar_curation_snapshot_ref = None, ar_curation_evaluation_digest = None, ar_compatible_revision_refs = [],
     ar_active_revision_refs = [u ''r1'', u ''r2''],
     ar_tokenizer_profile_document = td_canonical_json (\<lambda>_. []) (REGISTERED_V1_TOKENIZER_PROFILES ! 0),
     ar_tokenizer_profile_digest = profile_digest (UNICODE_SCALAR_TOKENIZER_PROFILE (\<lambda>_. [])),
     ar_manifest_ref = u ''rel_'' @ sha256_hexdigest (release_ref_preimage (replicate 64 48) generation)\<rparr>"

lemma example_release_refs:
  "each require_release_ref [CONTENT_PROFILE_REF_V0, CONTENT_SCHEMA_REF_V0, INDEX_PROFILE_REF_V0,
     INDEX_SCHEMA_REF_V0, RUNTIME_PROFILE_REF_V1, RUNTIME_TOKENIZER_REF_V1, PACKAGE_SCHEMA_REF_V1,
     CURATION_PROFILE_REF_V0] = Inr ()"
  "each require_revision_refs [[u ''r1'', u ''r2''], []] = Inr ()"
  by (simp_all add: require_release_ref_def CONTENT_PROFILE_REF_V0_def CONTENT_SCHEMA_REF_V0_def
      INDEX_PROFILE_REF_V0_def INDEX_SCHEMA_REF_V0_def RUNTIME_PROFILE_REF_V1_def RUNTIME_TOKENIZER_REF_V1_def
      REGISTERED_V1_TOKENIZER_PROFILES_def unicode_scalar_descriptor_def PACKAGE_SCHEMA_REF_V1_def
      CURATION_PROFILE_REF_V0_def u_def is_space_def blank_iff stripped_def require_revision_refs_def)

lemma example_release_digests:
  "is_sha256_hex (RUNTIME_PROFILE_DIGEST_V1 canon)" "is_sha256_hex CONTENT_PROFILE_DIGEST_V0"
  "is_sha256_hex INDEX_PROFILE_DIGEST_V0" "is_sha256_hex (emb_profile_digest canon p)"
  "is_sha256_hex CURATION_PROFILE_DIGEST_V0" "is_sha256_hex (profile_digest (UNICODE_SCALAR_TOKENIZER_PROFILE canon))"
  "is_sha256_hex (replicate 64 48)"
  by (simp_all add: RUNTIME_PROFILE_DIGEST_V1_def CONTENT_PROFILE_DIGEST_V0_def INDEX_PROFILE_DIGEST_V0_def
      emb_profile_digest_def CURATION_PROFILE_DIGEST_V0_def UNICODE_SCALAR_TOKENIZER_PROFILE_def runtime_profile_def
      td_profile_digest_def is_sha256_hex_def [of "replicate 64 48"] list_all_iff is_hex_def is_digit_def)

lemma example_release_accepted:
  assumes "1 \<le> g" "g \<le> max_signed64"
  shows "ActiveRuntimeRelease_post_init (\<lambda>_. []) (example_release g) = Inr (example_release g)"
  using assms example_release_refs
  by (simp add: ActiveRuntimeRelease_post_init_def example_release_def require_release_digest_def
      example_release_digests supported_index_profile_def supported_runtime_profile_def
      public_release_manifest_ref_def del: each.simps)

theorem accepted_release_resolves_profiles_witness:
  "registered_tokenizer_profile (\<lambda>_. []) (ar_tokenizer_profile_document (example_release 3))
     (ar_tokenizer_profile_digest (example_release 3)) = Inr (UNICODE_SCALAR_TOKENIZER_PROFILE (\<lambda>_. []))"
  using accepted_release_resolves_profiles [OF example_release_accepted [of 3]]
  by (simp add: example_release_def max_signed64_def)

theorem manifest_ref_identifies_release_witness:
  "\<exists>h. ar_manifest_ref (example_release 3) = u ''rel_'' @ h \<and> is_sha256_hex h"
  using manifest_ref_identifies_release [OF example_release_accepted [of 3] example_release_accepted [of 3]]
  by (simp add: max_signed64_def)

end
