(* ===== verification/Actor.thy ===== *)
theory Actor
  imports Scope_Authority Policy_Epoch Release
begin

text \<open>
  The trusted operands of a Runtime call: \<open>src/engine/runtime/actor.py\<close> (current Membership and the
  online UserActor), \<open>organization.py\<close>, \<open>delivery.py\<close>, \<open>invocation.py\<close> and \<open>trusted_inputs.py\<close>. Values
  that Python compares with \<open>is\<close> carry an identity: sessions have one, the epoch verification and
  the active release get one next to the value.
\<close>

section \<open>Current Membership\<close>

datatype MembershipVerificationProvenance = TRUSTED_MEMBERSHIP_AUTHORITY

record CurrentMembershipVerification =
  mv_organization_id :: uuid
  mv_user_id :: uuid
  mv_membership_id :: uuid
  mv_membership_version :: int
  mv_principal_ref :: str
  mv_request_id :: str
  mv_authentication_binding_ref :: str
  mv_checked_at :: datetime
  mv_policy_epoch :: int
  mv_policy_epoch_verification :: "nat \<times> PolicyEpochVerification"
  mv_materialized_projection_session :: "authority_session option"
  mv_context_run_persistence_session :: "authority_session option"
  mv_delivery_evidence_redemption_session :: "authority_session option"
  mv_egress_grant_issuance_session :: "authority_session option"
  mv_citation_open_session :: "authority_session option"
  mv_active_runtime_release :: "(nat \<times> ActiveRuntimeRelease) option"
  mv_construction_provenance :: "MembershipVerificationProvenance option"
  mv_authority_scope :: scope_token

fun optional_check :: "('a \<Rightarrow> unit res) \<Rightarrow> 'a option \<Rightarrow> unit res" where
  "optional_check f None = Inr ()"
| "optional_check f (Some x) = f x"

definition require_active_sessions ::
  "scope_heap \<Rightarrow> authority_session option \<Rightarrow> authority_session option \<Rightarrow> authority_session option
    \<Rightarrow> authority_session option \<Rightarrow> authority_session option \<Rightarrow> unit res"
where
  "require_active_sessions h materialized context_run delivery egress citation =
     bnd (optional_check (require_active_materialized_projection_session h) materialized) (\<lambda>_.
     bnd (optional_check (require_active_context_run_persistence_session h) context_run) (\<lambda>_.
     bnd (optional_check (require_active_delivery_evidence_redemption_session h) delivery) (\<lambda>_.
     bnd (optional_check (require_active_egress_grant_issuance_session h) egress) (\<lambda>_.
       optional_check (require_active_citation_open_session h) citation))))"

definition construct_current_membership_verification ::
  "scope_heap \<Rightarrow> scope_token \<Rightarrow> pyval \<Rightarrow> pyval \<Rightarrow> pyval \<Rightarrow> pyval \<Rightarrow> pyval \<Rightarrow> pyval \<Rightarrow> pyval \<Rightarrow> pyval
    \<Rightarrow> nat \<times> PolicyEpochVerification \<Rightarrow> authority_session option \<Rightarrow> authority_session option
    \<Rightarrow> authority_session option \<Rightarrow> authority_session option \<Rightarrow> authority_session option
    \<Rightarrow> (nat \<times> ActiveRuntimeRelease) option \<Rightarrow> CurrentMembershipVerification res"
where
  "construct_current_membership_verification h authority_scope organization_id user_id membership_id
      membership_version principal_ref request_id authentication_binding_ref checked_at epoch
      materialized context_run delivery egress citation release =
     (if \<not> scope_active MembershipAuthorityScope h authority_scope then Inl ValueError
      else
        bnd (require_uuid organization_id) (\<lambda>org.
        bnd (require_uuid user_id) (\<lambda>usr.
        bnd (require_uuid membership_id) (\<lambda>mem.
        bnd (require_int_range 1 max_signed64 membership_version) (\<lambda>ver.
        bnd (require_nonblank principal_ref) (\<lambda>pr.
        bnd (require_nonblank request_id) (\<lambda>rq.
        bnd (require_nonblank authentication_binding_ref) (\<lambda>ab.
        bnd (require_utc checked_at) (\<lambda>ca.
        bnd (require_active_sessions h materialized context_run delivery egress citation) (\<lambda>_.
        bnd (optional_check (\<lambda>(_, r). if ar_organization_id r \<noteq> org then Inl ValueError else Inr ()) release) (\<lambda>_.
        bnd (require_active_policy_epoch_verification h (snd epoch)) (\<lambda>_.
          if pv_organization_id (snd epoch) \<noteq> org then Inl ValueError
          else Inr \<lparr>mv_organization_id = org, mv_user_id = usr, mv_membership_id = mem,
            mv_membership_version = ver, mv_principal_ref = pr, mv_request_id = rq,
            mv_authentication_binding_ref = ab, mv_checked_at = ca,
            mv_policy_epoch = pv_policy_epoch (snd epoch), mv_policy_epoch_verification = epoch,
            mv_materialized_projection_session = materialized,
            mv_context_run_persistence_session = context_run,
            mv_delivery_evidence_redemption_session = delivery,
            mv_egress_grant_issuance_session = egress, mv_citation_open_session = citation,
            mv_active_runtime_release = release,
            mv_construction_provenance = Some TRUSTED_MEMBERSHIP_AUTHORITY,
            mv_authority_scope = authority_scope\<rparr>))))))))))))"

definition require_active_current_membership_verification ::
  "scope_heap \<Rightarrow> CurrentMembershipVerification \<Rightarrow> unit res"
where
  "require_active_current_membership_verification h v =
     (if mv_construction_provenance v \<noteq> Some TRUSTED_MEMBERSHIP_AUTHORITY
         \<or> \<not> scope_active MembershipAuthorityScope h (mv_authority_scope v)
      then Inl ValueError
      else
        bnd (require_active_sessions h (mv_materialized_projection_session v)
               (mv_context_run_persistence_session v) (mv_delivery_evidence_redemption_session v)
               (mv_egress_grant_issuance_session v) (mv_citation_open_session v)) (\<lambda>_.
        bnd (require_active_policy_epoch_verification h (snd (mv_policy_epoch_verification v))) (\<lambda>_.
          if mv_policy_epoch v \<noteq> pv_policy_epoch (snd (mv_policy_epoch_verification v))
             \<or> mv_organization_id v \<noteq> pv_organization_id (snd (mv_policy_epoch_verification v))
          then Inl ValueError else Inr ())))"

section \<open>The online actor\<close>

datatype UserActorConstructionProvenance = ACTOR_OF_TRUSTED_MEMBERSHIP_AUTHORITY

record UserActor =
  ua_organization_id :: uuid
  ua_user_id :: uuid
  ua_membership_id :: uuid
  ua_membership_version :: int
  ua_principal_ref :: str
  ua_request_id :: str
  ua_authentication_binding_ref :: str
  ua_checked_at :: datetime
  ua_policy_epoch :: int
  ua_policy_epoch_verification :: "nat \<times> PolicyEpochVerification"
  ua_materialized_projection_session :: "authority_session option"
  ua_context_run_persistence_session :: "authority_session option"
  ua_delivery_evidence_redemption_session :: "authority_session option"
  ua_egress_grant_issuance_session :: "authority_session option"
  ua_citation_open_session :: "authority_session option"
  ua_active_runtime_release :: "(nat \<times> ActiveRuntimeRelease) option"
  ua_current_membership_verification :: CurrentMembershipVerification
  ua_construction_provenance :: "UserActorConstructionProvenance option"

definition construct_user_actor :: "scope_heap \<Rightarrow> CurrentMembershipVerification \<Rightarrow> UserActor res" where
  "construct_user_actor h v =
     bnd (require_active_current_membership_verification h v) (\<lambda>_.
       Inr \<lparr>ua_organization_id = mv_organization_id v, ua_user_id = mv_user_id v,
            ua_membership_id = mv_membership_id v, ua_membership_version = mv_membership_version v,
            ua_principal_ref = mv_principal_ref v, ua_request_id = mv_request_id v,
            ua_authentication_binding_ref = mv_authentication_binding_ref v,
            ua_checked_at = mv_checked_at v, ua_policy_epoch = mv_policy_epoch v,
            ua_policy_epoch_verification = mv_policy_epoch_verification v,
            ua_materialized_projection_session = mv_materialized_projection_session v,
            ua_context_run_persistence_session = mv_context_run_persistence_session v,
            ua_delivery_evidence_redemption_session = mv_delivery_evidence_redemption_session v,
            ua_egress_grant_issuance_session = mv_egress_grant_issuance_session v,
            ua_citation_open_session = mv_citation_open_session v,
            ua_active_runtime_release = mv_active_runtime_release v,
            ua_current_membership_verification = v,
            ua_construction_provenance = Some ACTOR_OF_TRUSTED_MEMBERSHIP_AUTHORITY\<rparr>)"

text \<open>\<open>is\<close> on sessions and on the values paired with an identity.\<close>

definition same_session :: "authority_session option \<Rightarrow> authority_session option \<Rightarrow> bool" where
  "same_session a b \<longleftrightarrow> map_option ss_id a = map_option ss_id b"

definition same_release :: "(nat \<times> ActiveRuntimeRelease) option \<Rightarrow> (nat \<times> ActiveRuntimeRelease) option \<Rightarrow> bool" where
  "same_release a b \<longleftrightarrow> map_option fst a = map_option fst b"

definition actor_matches_membership :: "UserActor \<Rightarrow> CurrentMembershipVerification \<Rightarrow> bool" where
  "actor_matches_membership a v \<longleftrightarrow>
     ua_organization_id a = mv_organization_id v \<and> ua_user_id a = mv_user_id v
     \<and> ua_membership_id a = mv_membership_id v \<and> ua_membership_version a = mv_membership_version v
     \<and> ua_principal_ref a = mv_principal_ref v \<and> ua_request_id a = mv_request_id v
     \<and> ua_authentication_binding_ref a = mv_authentication_binding_ref v
     \<and> dt_eq (ua_checked_at a) (mv_checked_at v) \<and> ua_policy_epoch a = mv_policy_epoch v
     \<and> fst (ua_policy_epoch_verification a) = fst (mv_policy_epoch_verification v)
     \<and> same_session (ua_materialized_projection_session a) (mv_materialized_projection_session v)
     \<and> same_session (ua_context_run_persistence_session a) (mv_context_run_persistence_session v)
     \<and> same_session (ua_delivery_evidence_redemption_session a) (mv_delivery_evidence_redemption_session v)
     \<and> same_session (ua_egress_grant_issuance_session a) (mv_egress_grant_issuance_session v)
     \<and> same_session (ua_citation_open_session a) (mv_citation_open_session v)
     \<and> same_release (ua_active_runtime_release a) (mv_active_runtime_release v)"

definition require_active_user_actor :: "scope_heap \<Rightarrow> UserActor \<Rightarrow> unit res" where
  "require_active_user_actor h a =
     (if ua_construction_provenance a \<noteq> Some ACTOR_OF_TRUSTED_MEMBERSHIP_AUTHORITY then Inl ValueError
      else
        bnd (require_active_current_membership_verification h (ua_current_membership_verification a)) (\<lambda>_.
          if \<not> actor_matches_membership a (ua_current_membership_verification a)
          then Inl ValueError else Inr ()))"

section \<open>Organization and delivery\<close>

datatype OrganizationVerificationProvenance = AUTHENTICATED_HTTP_AUTHORITY

record ExistingOrganizationVerification =
  ov_organization_id :: uuid
  ov_request_id :: str
  ov_authentication_binding_ref :: str
  ov_verified_at :: datetime
  ov_construction_provenance :: "OrganizationVerificationProvenance option"

text \<open>An exact aware datetime of any offset, else \<open>ValueError\<close>.\<close>

fun require_aware :: "pyval \<Rightarrow> datetime res" where
  "require_aware (PDatetime d) = (if is_aware d then Inr d else Inl ValueError)"
| "require_aware _ = Inl ValueError"

definition construct_existing_http_organization_verification ::
  "pyval \<Rightarrow> pyval \<Rightarrow> pyval \<Rightarrow> pyval \<Rightarrow> ExistingOrganizationVerification res"
where
  "construct_existing_http_organization_verification organization_id request_id authentication_binding_ref verified_at =
     bnd (require_uuid organization_id) (\<lambda>org.
     bnd (require_nonblank request_id) (\<lambda>rq.
     bnd (require_nonblank authentication_binding_ref) (\<lambda>ab.
     bnd (require_aware verified_at) (\<lambda>va.
       Inr \<lparr>ov_organization_id = org, ov_request_id = rq, ov_authentication_binding_ref = ab,
            ov_verified_at = va, ov_construction_provenance = Some AUTHENTICATED_HTTP_AUTHORITY\<rparr>))))"

datatype DeliveryConstructionProvenance = AUTHENTICATED_DIRECT_INGRESS | REDEEMED_PRIVATE_DELIVERY_EVIDENCE

record TrustedDeliveryContext =
  dc_purpose :: str
  dc_authenticated_application_ref :: str
  dc_delivery_binding_ref :: str
  dc_established_at :: datetime
  dc_construction_provenance :: "DeliveryConstructionProvenance option"
  dc_destination_ref :: "str option"
  dc_consumer_ref :: "str option"
  dc_audience_digest :: "str option"
  dc_logical_resolution_ref :: "str option"
  dc_delivery_profile_ref :: "str option"

definition construct_direct_delivery_context ::
  "pyval \<Rightarrow> pyval \<Rightarrow> pyval \<Rightarrow> pyval \<Rightarrow> TrustedDeliveryContext res"
where
  "construct_direct_delivery_context purpose' application binding established_at =
     bnd (require_nonblank purpose') (\<lambda>pu.
     bnd (require_nonblank application) (\<lambda>ap.
     bnd (require_nonblank binding) (\<lambda>bi.
     bnd (require_aware established_at) (\<lambda>ea.
       Inr \<lparr>dc_purpose = pu, dc_authenticated_application_ref = ap, dc_delivery_binding_ref = bi,
            dc_established_at = ea, dc_construction_provenance = Some AUTHENTICATED_DIRECT_INGRESS,
            dc_destination_ref = None, dc_consumer_ref = None, dc_audience_digest = None,
            dc_logical_resolution_ref = None, dc_delivery_profile_ref = None\<rparr>))))"

definition construct_private_delivery_context ::
  "pyval \<Rightarrow> pyval \<Rightarrow> pyval \<Rightarrow> pyval \<Rightarrow> pyval \<Rightarrow> pyval \<Rightarrow> pyval \<Rightarrow> pyval \<Rightarrow> pyval \<Rightarrow> TrustedDeliveryContext res"
where
  "construct_private_delivery_context purpose' application binding established_at destination consumer
      audience resolution profile =
     bnd (construct_direct_delivery_context purpose' application binding established_at) (\<lambda>context.
     bnd (require_nonblank destination) (\<lambda>de.
     bnd (require_nonblank consumer) (\<lambda>co.
     bnd (require_nonblank resolution) (\<lambda>re.
     bnd (require_nonblank profile) (\<lambda>pr.
     bnd (require_sha256_hex audience) (\<lambda>au.
       Inr (context\<lparr>dc_construction_provenance := Some REDEEMED_PRIVATE_DELIVERY_EVIDENCE,
            dc_destination_ref := Some de, dc_consumer_ref := Some co, dc_audience_digest := Some au,
            dc_logical_resolution_ref := Some re, dc_delivery_profile_ref := Some pr\<rparr>)))))))"

section \<open>The authenticated invocation\<close>

datatype InvocationConstructionProvenance = AUTHENTICATED_HTTP_INGRESS

record AuthenticatedInvocation =
  iv_request_id :: str
  iv_organization_ref :: str
  iv_user_ref :: str
  iv_principal_ref :: str
  iv_membership_ref :: str
  iv_membership_version :: int
  iv_policy_epoch :: int
  iv_agent_version_ref :: str
  iv_authenticated_application_ref :: str
  iv_authentication_binding_ref :: str
  iv_received_at :: datetime
  iv_organization_verification :: ExistingOrganizationVerification
  iv_user_actor :: UserActor
  iv_trusted_scope_snapshot :: TrustedScopeSnapshot
  iv_construction_provenance :: "InvocationConstructionProvenance option"

definition require_canonical_ref :: "str \<Rightarrow> unit res" where
  "require_canonical_ref v = (if canonical_uuid v = None then Inl ValueError else Inr ())"

text \<open>The three comparisons of the constructor.\<close>

definition organization_matches ::
  "ExistingOrganizationVerification \<Rightarrow> str \<Rightarrow> str \<Rightarrow> str \<Rightarrow> datetime \<Rightarrow> bool"
where
  "organization_matches v organization_ref request_id binding received_at \<longleftrightarrow>
     ov_construction_provenance v = Some AUTHENTICATED_HTTP_AUTHORITY
     \<and> uuid_str (ov_organization_id v) = organization_ref \<and> ov_request_id v = request_id
     \<and> ov_authentication_binding_ref v = binding \<and> dt_eq (ov_verified_at v) received_at"

definition actor_matches ::
  "UserActor \<Rightarrow> str \<Rightarrow> str \<Rightarrow> str \<Rightarrow> int \<Rightarrow> str \<Rightarrow> str \<Rightarrow> str \<Rightarrow> datetime \<Rightarrow> bool"
where
  "actor_matches a organization_ref user_ref membership_ref version principal_ref request_id binding received_at \<longleftrightarrow>
     uuid_str (ua_organization_id a) = organization_ref \<and> uuid_str (ua_user_id a) = user_ref
     \<and> uuid_str (ua_membership_id a) = membership_ref \<and> ua_membership_version a = version
     \<and> ua_principal_ref a = principal_ref \<and> ua_request_id a = request_id
     \<and> ua_authentication_binding_ref a = binding \<and> dt_eq (ua_checked_at a) received_at"

definition snapshot_matches ::
  "TrustedScopeSnapshot \<Rightarrow> uuid \<Rightarrow> UserActor \<Rightarrow> int \<Rightarrow> str \<Rightarrow> str \<Rightarrow> str \<Rightarrow> str \<Rightarrow> str \<Rightarrow> datetime \<Rightarrow> bool"
where
  "snapshot_matches s org a version principal_ref agent purpose' request_id binding received_at \<longleftrightarrow>
     ts_organization_id s = org \<and> ts_user_id s = ua_user_id a \<and> ts_membership_id s = ua_membership_id a
     \<and> ts_membership_version s = version \<and> ts_principal_ref s = principal_ref
     \<and> ts_agent_version_ref s = agent \<and> ts_purpose s = purpose' \<and> ts_request_id s = request_id
     \<and> ts_authentication_binding_ref s = binding \<and> dt_eq (ts_checked_at s) received_at"

text \<open>A \<open>TypeError\<close> or \<open>ValueError\<close> of the snapshot check becomes \<open>InvalidTrustedScopeSnapshot\<close>.\<close>

definition as_invalid_snapshot :: "unit res \<Rightarrow> unit res" where
  "as_invalid_snapshot r =
     (case r of Inl e \<Rightarrow> if e = TypeError \<or> is_value_error e then Inl InvalidTrustedScopeSnapshot else Inl e
      | Inr x \<Rightarrow> Inr x)"

definition construct_authenticated_http_invocation ::
  "scope_heap \<Rightarrow> pyval \<Rightarrow> pyval \<Rightarrow> ExistingOrganizationVerification \<Rightarrow> pyval \<Rightarrow> pyval \<Rightarrow> pyval \<Rightarrow> pyval
    \<Rightarrow> CurrentMembershipVerification \<Rightarrow> pyval \<Rightarrow> pyval \<Rightarrow> pyval \<Rightarrow> pyval \<Rightarrow> pyval \<Rightarrow> TrustedScopeSnapshot
    \<Rightarrow> AuthenticatedInvocation res"
where
  "construct_authenticated_http_invocation h request_id organization_ref organization_verification user_ref
      principal_ref membership_ref membership_version membership agent application binding purpose' received_at
      snapshot =
     bnd (require_nonblank request_id) (\<lambda>rq.
     bnd (require_nonblank organization_ref) (\<lambda>org.
     bnd (require_nonblank user_ref) (\<lambda>usr.
     bnd (require_nonblank principal_ref) (\<lambda>pr.
     bnd (require_nonblank membership_ref) (\<lambda>mem.
     bnd (require_nonblank agent) (\<lambda>ag.
     bnd (require_nonblank application) (\<lambda>ap.
     bnd (require_nonblank binding) (\<lambda>bi.
     bnd (require_nonblank purpose') (\<lambda>pu.
     bnd (each require_canonical_ref [org, usr, mem]) (\<lambda>_.
     bnd (require_int_range 1 max_signed64 membership_version) (\<lambda>ver.
     bnd (require_utc received_at) (\<lambda>ra.
       if \<not> organization_matches organization_verification org rq bi ra then Inl ValueError
       else
         bnd (construct_user_actor h membership) (\<lambda>actor.
           if \<not> (actor_matches actor org usr mem ver pr rq bi ra
                 \<and> ua_policy_epoch actor = mv_policy_epoch membership)
           then Inl ValueError
           else
             bnd (as_invalid_snapshot (require_active_trusted_scope_snapshot h snapshot)) (\<lambda>_.
               if \<not> snapshot_matches snapshot (ov_organization_id organization_verification) actor ver pr ag pu
                      rq bi ra
               then Inl InvalidTrustedScopeSnapshot
               else Inr \<lparr>iv_request_id = rq, iv_organization_ref = org, iv_user_ref = usr,
                 iv_principal_ref = pr, iv_membership_ref = mem, iv_membership_version = ver,
                 iv_policy_epoch = ua_policy_epoch actor, iv_agent_version_ref = ag,
                 iv_authenticated_application_ref = ap, iv_authentication_binding_ref = bi,
                 iv_received_at = ra, iv_organization_verification = organization_verification,
                 iv_user_actor = actor, iv_trusted_scope_snapshot = snapshot,
                 iv_construction_provenance = Some AUTHENTICATED_HTTP_INGRESS\<rparr>))))))))))))))"

definition delivery_matches :: "TrustedDeliveryContext \<Rightarrow> AuthenticatedInvocation \<Rightarrow> bool" where
  "delivery_matches d i \<longleftrightarrow>
     dc_construction_provenance d
       \<in> {Some AUTHENTICATED_DIRECT_INGRESS, Some REDEEMED_PRIVATE_DELIVERY_EVIDENCE}
     \<and> dc_authenticated_application_ref d = iv_authenticated_application_ref i
     \<and> dc_delivery_binding_ref d = iv_authentication_binding_ref i
     \<and> dt_eq (dc_established_at d) (iv_received_at i)"

definition validate_trusted_invocation_and_delivery ::
  "scope_heap \<Rightarrow> AuthenticatedInvocation \<Rightarrow> TrustedDeliveryContext \<Rightarrow> unit res"
where
  "validate_trusted_invocation_and_delivery h i d =
     (if iv_construction_provenance i \<noteq> Some AUTHENTICATED_HTTP_INGRESS then Inl TypeError
      else if \<not> organization_matches (iv_organization_verification i) (iv_organization_ref i)
                 (iv_request_id i) (iv_authentication_binding_ref i) (iv_received_at i)
      then Inl ValueError
      else
        let a = iv_user_actor i; s = iv_trusted_scope_snapshot i in
        bnd (require_active_user_actor h a) (\<lambda>_.
          if \<not> (actor_matches a (iv_organization_ref i) (iv_user_ref i) (iv_membership_ref i)
                   (iv_membership_version i) (iv_principal_ref i) (iv_request_id i)
                   (iv_authentication_binding_ref i) (iv_received_at i)
                 \<and> ua_policy_epoch a = iv_policy_epoch i)
          then Inl ValueError
          else if \<not> delivery_matches d i then Inl ValueError
          else
            bnd (require_active_trusted_scope_snapshot h s) (\<lambda>_.
              if \<not> snapshot_matches s (ua_organization_id a) a (ua_membership_version a) (iv_principal_ref i)
                     (iv_agent_version_ref i) (dc_purpose d) (iv_request_id i)
                     (iv_authentication_binding_ref i) (iv_received_at i)
              then Inl ValueError else Inr ())))"

section \<open>Lemmas\<close>

lemma optional_check_eq [validators]: "optional_check f x = Inr w \<longleftrightarrow> (\<forall>y. x = Some y \<longrightarrow> f y = Inr ())"
  by (cases x) auto

lemma require_aware_eq [validators]: "require_aware v = Inr d \<longleftrightarrow> v = PDatetime d \<and> is_aware d"
  by (cases v) auto

declare require_aware.simps [simp del] optional_check.simps [simp del]

lemma require_active_sessions_returns [validators]:
  "require_active_sessions h m c d e k = Inr w \<longleftrightarrow>
     (\<forall>s. m = Some s \<longrightarrow> scope_active MaterializedProjectionScope h (ss_scope s))
     \<and> (\<forall>s. c = Some s \<longrightarrow> scope_active ContextRunPersistenceScope h (ss_scope s))
     \<and> (\<forall>s. d = Some s \<longrightarrow> scope_active DeliveryEvidenceRedemptionScope h (ss_scope s) \<and> ss_port_complete s)
     \<and> (\<forall>s. e = Some s \<longrightarrow> scope_active EgressGrantIssuanceScope h (ss_scope s) \<and> ss_port_complete s)
     \<and> (\<forall>s. k = Some s \<longrightarrow> scope_active CitationAuthorityScope h (ss_scope s))"
  by (auto simp: require_active_sessions_def validators)

text \<open>The scopes a membership proof lives on.\<close>

definition membership_scopes :: "CurrentMembershipVerification \<Rightarrow> (scope_kind \<times> scope_token) list" where
  "membership_scopes v =
     [(MembershipAuthorityScope, mv_authority_scope v),
      (PolicyEpochAuthorityScope, ps_authority_scope (pv_validation_session (snd (mv_policy_epoch_verification v))))]
     @ [(k, ss_scope s). (k, Some s) \<leftarrow>
          [(MaterializedProjectionScope, mv_materialized_projection_session v),
           (ContextRunPersistenceScope, mv_context_run_persistence_session v),
           (DeliveryEvidenceRedemptionScope, mv_delivery_evidence_redemption_session v),
           (EgressGrantIssuanceScope, mv_egress_grant_issuance_session v),
           (CitationAuthorityScope, mv_citation_open_session v)]]"

lemma membership_scopes_active:
  assumes "require_active_current_membership_verification h v = Inr ()" "(k, t) \<in> set (membership_scopes v)"
  shows "scope_active k h t"
  using assms
  by (auto simp: require_active_current_membership_verification_def membership_scopes_def validators
      split: option.splits)

lemma require_active_user_actor_eq [validators]:
  "require_active_user_actor h a = Inr w \<longleftrightarrow>
     ua_construction_provenance a = Some ACTOR_OF_TRUSTED_MEMBERSHIP_AUTHORITY
     \<and> require_active_current_membership_verification h (ua_current_membership_verification a) = Inr ()
     \<and> actor_matches_membership a (ua_current_membership_verification a)"
  by (auto simp: require_active_user_actor_def)

lemma validate_trusted_eq:
  "validate_trusted_invocation_and_delivery h i d = Inr () \<longleftrightarrow>
     iv_construction_provenance i = Some AUTHENTICATED_HTTP_INGRESS
     \<and> organization_matches (iv_organization_verification i) (iv_organization_ref i)
         (iv_request_id i) (iv_authentication_binding_ref i) (iv_received_at i)
     \<and> require_active_user_actor h (iv_user_actor i) = Inr ()
     \<and> actor_matches (iv_user_actor i) (iv_organization_ref i) (iv_user_ref i) (iv_membership_ref i)
         (iv_membership_version i) (iv_principal_ref i) (iv_request_id i)
         (iv_authentication_binding_ref i) (iv_received_at i)
     \<and> ua_policy_epoch (iv_user_actor i) = iv_policy_epoch i
     \<and> delivery_matches d i
     \<and> require_active_trusted_scope_snapshot h (iv_trusted_scope_snapshot i) = Inr ()
     \<and> snapshot_matches (iv_trusted_scope_snapshot i) (ua_organization_id (iv_user_actor i)) (iv_user_actor i)
         (ua_membership_version (iv_user_actor i)) (iv_principal_ref i) (iv_agent_version_ref i) (dc_purpose d)
         (iv_request_id i) (iv_authentication_binding_ref i) (iv_received_at i)"
  unfolding validate_trusted_invocation_and_delivery_def Let_def by auto

lemma constructed_actor_active:
  "construct_user_actor h v = Inr a \<Longrightarrow> require_active_user_actor h a = Inr ()"
  by (auto simp: construct_user_actor_def validators actor_matches_membership_def same_session_def same_release_def)

section \<open>Properties\<close>

text \<open>
  C14. One identity per call: when the trusted operands of a call pass validation, the Organization
  verification, the actor, its Membership proof, its policy epoch observation and the scope
  snapshot are all of one Organization; actor, proof and snapshot are of one user, one
  Membership and one Membership version; and the references of the invocation spell exactly
  these identifiers.
\<close>

theorem validated_call_has_one_identity:
  assumes "validate_trusted_invocation_and_delivery h i d = Inr ()"
  shows "let a = iv_user_actor i; v = ua_current_membership_verification a; s = iv_trusted_scope_snapshot i;
      org = ov_organization_id (iv_organization_verification i) in
    {ua_organization_id a, mv_organization_id v, ts_organization_id s,
       pv_organization_id (snd (mv_policy_epoch_verification v)),
       ps_organization_id (pv_validation_session (snd (mv_policy_epoch_verification v)))} = {org}
    \<and> mv_user_id v = ua_user_id a \<and> ts_user_id s = ua_user_id a
    \<and> mv_membership_id v = ua_membership_id a \<and> ts_membership_id s = ua_membership_id a
    \<and> mv_membership_version v = iv_membership_version i \<and> ts_membership_version s = iv_membership_version i
    \<and> pv_policy_epoch (snd (mv_policy_epoch_verification v)) = iv_policy_epoch i
    \<and> canonical_uuid (iv_organization_ref i) = Some org
    \<and> canonical_uuid (iv_user_ref i) = Some (ua_user_id a)
    \<and> canonical_uuid (iv_membership_ref i) = Some (ua_membership_id a)
    \<and> {ov_request_id (iv_organization_verification i), ua_request_id a, mv_request_id v, ts_request_id s}
        = {iv_request_id i}"
proof -
  let ?a = "iv_user_actor i"
  let ?v = "ua_current_membership_verification ?a"
  from assms have
    ov: "uuid_str (ov_organization_id (iv_organization_verification i)) = iv_organization_ref i"
      "ov_request_id (iv_organization_verification i) = iv_request_id i"
    and act: "actor_matches_membership ?a ?v"
      "require_active_current_membership_verification h ?v = Inr ()"
    and ua: "actor_matches ?a (iv_organization_ref i) (iv_user_ref i) (iv_membership_ref i)
         (iv_membership_version i) (iv_principal_ref i) (iv_request_id i)
         (iv_authentication_binding_ref i) (iv_received_at i)" "ua_policy_epoch ?a = iv_policy_epoch i"
    and ts: "snapshot_matches (iv_trusted_scope_snapshot i) (ua_organization_id ?a) ?a
         (ua_membership_version ?a) (iv_principal_ref i) (iv_agent_version_ref i) (dc_purpose d)
         (iv_request_id i) (iv_authentication_binding_ref i) (iv_received_at i)"
    by (auto simp: validate_trusted_eq validators organization_matches_def)
  have org: "ua_organization_id ?a = ov_organization_id (iv_organization_verification i)"
    using ov(1) ua(1) by (intro uuid_str_inject) (simp add: actor_matches_def)
  show ?thesis
    unfolding Let_def canonical_uuid_eq using org ov act ua ts
    by (simp add: actor_matches_membership_def actor_matches_def snapshot_matches_def
        require_active_current_membership_verification_def validators)
qed

text \<open>
  Revocation is final: once any authority scope the call rests on is closed (Membership, policy
  epoch, scope authority, or the scope of any session the actor carries), validating the same
  call raises at every later time, whatever other scopes are opened or closed in between.
\<close>

theorem closed_authority_scope_refuses_call:
  assumes "validate_trusted_invocation_and_delivery h i d = Inr ()"
    and "(k, t) = (ScopeAuthorityScope, ts_authority_scope (iv_trusted_scope_snapshot i))
      \<or> (k, t) \<in> set (membership_scopes (ua_current_membership_verification (iv_user_actor i)))"
    and "close_scope k (heap_run h before) t = Inr h'"
  shows "\<not> returns (validate_trusted_invocation_and_delivery (heap_run h' after) i d)"
proof -
  have "scope_active k h t"
    using assms(1,2) membership_scopes_active
    by (auto simp: validate_trusted_eq validators)
  then have dead: "\<not> scope_active k (heap_run h' after) t"
    using assms(3) by (rule lifetime.closed_forever [OF lifetime_of_kind])
  show ?thesis
  proof
    assume "returns (validate_trusted_invocation_and_delivery (heap_run h' after) i d)"
    then have "validate_trusted_invocation_and_delivery (heap_run h' after) i d = Inr ()"
      by (auto simp: returns_def)
    then have "scope_active k (heap_run h' after) t"
      using assms(2) membership_scopes_active by (auto simp: validate_trusted_eq validators)
    with dead show False by simp
  qed
qed

text \<open>
  What trusted ingress constructs is accepted: an invocation built by the HTTP constructor,
  together with a direct or redeemed private delivery context built for the same application,
  binding, purpose and receive time, passes the validation in the same heap.
\<close>

theorem constructed_call_validates:
  assumes "construct_authenticated_http_invocation h rq org ov usr pr mem ver membership ag ap bi pu ra snapshot = Inr i"
    and "construct_direct_delivery_context pu ap bi ra = Inr d
      \<or> construct_private_delivery_context pu ap bi ra de co au re pf = Inr d"
  shows "validate_trusted_invocation_and_delivery h i d = Inr ()"
proof -
  from assms(1) obtain actor where
    actor: "construct_user_actor h membership = Inr actor" "iv_user_actor i = actor"
    and snap: "as_invalid_snapshot (require_active_trusted_scope_snapshot h snapshot) = Inr ()"
      "iv_trusted_scope_snapshot i = snapshot"
    and args: "ap = PStr (iv_authenticated_application_ref i)" "bi = PStr (iv_authentication_binding_ref i)"
      "ra = PDatetime (iv_received_at i)"
    and ok: "organization_matches (iv_organization_verification i) (iv_organization_ref i) (iv_request_id i)
        (iv_authentication_binding_ref i) (iv_received_at i)"
      "actor_matches actor (iv_organization_ref i) (iv_user_ref i) (iv_membership_ref i)
        (iv_membership_version i) (iv_principal_ref i) (iv_request_id i)
        (iv_authentication_binding_ref i) (iv_received_at i)"
      "iv_policy_epoch i = ua_policy_epoch actor" "iv_construction_provenance i = Some AUTHENTICATED_HTTP_INGRESS"
      "\<exists>p. pu = PStr p \<and> snapshot_matches snapshot (ov_organization_id (iv_organization_verification i)) actor
        (iv_membership_version i) (iv_principal_ref i) (iv_agent_version_ref i) p (iv_request_id i)
        (iv_authentication_binding_ref i) (iv_received_at i)"
    unfolding construct_authenticated_http_invocation_def by (auto simp: validators)
  have d: "pu = PStr (dc_purpose d)" "delivery_matches d i"
    using assms(2) args
    by (auto simp: construct_private_delivery_context_def construct_direct_delivery_context_def
        delivery_matches_def validators)
  have "require_active_trusted_scope_snapshot h snapshot = Inr ()"
    using snap(1) by (auto simp: as_invalid_snapshot_def split: sum.splits if_splits)
  moreover have "ov_organization_id (iv_organization_verification i) = ua_organization_id actor"
    using ok(1,2) by (intro uuid_str_inject) (simp add: organization_matches_def actor_matches_def)
  moreover have "ua_membership_version actor = iv_membership_version i"
    using ok(2) by (simp add: actor_matches_def)
  ultimately show ?thesis
    unfolding validate_trusted_eq using ok d snap(2) actor constructed_actor_active [OF actor(1)] by auto
qed

section \<open>A concrete call\<close>

definition example_token :: "scope_kind \<Rightarrow> nat \<Rightarrow> scope_token" where
  "example_token k n = \<lparr>tok_kind = k, tok_sealed = True, tok_id = n\<rparr>"

definition example_call_epoch :: PolicyEpochVerification where
  "example_call_epoch = example_epoch\<lparr>pv_validation_session :=
     example_epoch_session\<lparr>ps_authority_scope := example_token PolicyEpochAuthorityScope 1\<rparr>\<rparr>"

definition example_membership :: CurrentMembershipVerification where
  "example_membership = \<lparr>mv_organization_id = 1, mv_user_id = 2, mv_membership_id = 3,
     mv_membership_version = 1, mv_principal_ref = u ''p'', mv_request_id = u ''r'',
     mv_authentication_binding_ref = u ''b'', mv_checked_at = ts_checked_at example_snapshot,
     mv_policy_epoch = 7, mv_policy_epoch_verification = (0, example_call_epoch),
     mv_materialized_projection_session =
       Some \<lparr>ss_id = 0, ss_scope = example_token MaterializedProjectionScope 3, ss_port_complete = True\<rparr>,
     mv_context_run_persistence_session = None, mv_delivery_evidence_redemption_session = None,
     mv_egress_grant_issuance_session = None, mv_citation_open_session = None,
     mv_active_runtime_release = None, mv_construction_provenance = Some TRUSTED_MEMBERSHIP_AUTHORITY,
     mv_authority_scope = example_token MembershipAuthorityScope 2\<rparr>"

definition example_organization :: ExistingOrganizationVerification where
  "example_organization = \<lparr>ov_organization_id = 1, ov_request_id = u ''r'',
     ov_authentication_binding_ref = u ''b'', ov_verified_at = ts_checked_at example_snapshot,
     ov_construction_provenance = Some AUTHENTICATED_HTTP_AUTHORITY\<rparr>"

definition example_actor :: UserActor where
  "example_actor = \<lparr>ua_organization_id = 1, ua_user_id = 2, ua_membership_id = 3, ua_membership_version = 1,
     ua_principal_ref = u ''p'', ua_request_id = u ''r'', ua_authentication_binding_ref = u ''b'',
     ua_checked_at = ts_checked_at example_snapshot, ua_policy_epoch = 7,
     ua_policy_epoch_verification = (0, example_call_epoch),
     ua_materialized_projection_session = mv_materialized_projection_session example_membership,
     ua_context_run_persistence_session = None, ua_delivery_evidence_redemption_session = None,
     ua_egress_grant_issuance_session = None, ua_citation_open_session = None,
     ua_active_runtime_release = None, ua_current_membership_verification = example_membership,
     ua_construction_provenance = Some ACTOR_OF_TRUSTED_MEMBERSHIP_AUTHORITY\<rparr>"

definition example_invocation :: AuthenticatedInvocation where
  "example_invocation = \<lparr>iv_request_id = u ''r'', iv_organization_ref = uuid_str 1, iv_user_ref = uuid_str 2,
     iv_principal_ref = u ''p'', iv_membership_ref = uuid_str 3, iv_membership_version = 1, iv_policy_epoch = 7,
     iv_agent_version_ref = u ''a'', iv_authenticated_application_ref = u ''app'',
     iv_authentication_binding_ref = u ''b'', iv_received_at = ts_checked_at example_snapshot,
     iv_organization_verification = example_organization, iv_user_actor = example_actor,
     iv_trusted_scope_snapshot = example_snapshot,
     iv_construction_provenance = Some AUTHENTICATED_HTTP_INGRESS\<rparr>"

definition example_delivery :: TrustedDeliveryContext where
  "example_delivery = \<lparr>dc_purpose = u ''ask'', dc_authenticated_application_ref = u ''app'',
     dc_delivery_binding_ref = u ''b'', dc_established_at = ts_checked_at example_snapshot,
     dc_construction_provenance = Some AUTHENTICATED_DIRECT_INGRESS, dc_destination_ref = None,
     dc_consumer_ref = None, dc_audience_digest = None, dc_logical_resolution_ref = None,
     dc_delivery_profile_ref = None\<rparr>"

definition example_heap :: scope_heap where
  "example_heap = [True, True, True, True]"

lemma uuid_str_not_blank: "\<not> blank (uuid_str v)"
  by (auto simp: blank_iff uuid_str_def Let_def list_all_iff u_def is_space_def)

lemma example_membership_active:
  "require_active_current_membership_verification example_heap example_membership = Inr ()"
  by (simp add: require_active_current_membership_verification_def validators example_membership_def
      example_call_epoch_def example_epoch_def example_epoch_session_def example_token_def example_heap_def
      scope_active_def max_signed64_def)

lemma example_actor_constructed: "construct_user_actor example_heap example_membership = Inr example_actor"
  by (simp add: construct_user_actor_def example_membership_active) (simp add: example_actor_def example_membership_def)

lemma example_snapshot_active: "require_active_trusted_scope_snapshot example_heap example_snapshot = Inr ()"
  by (simp add: validators example_snapshot_def example_heap_def scope_active_def max_signed64_def)

lemma example_invocation_constructed:
  "construct_authenticated_http_invocation example_heap (PStr (u ''r'')) (PStr (uuid_str 1)) example_organization
     (PStr (uuid_str 2)) (PStr (u ''p'')) (PStr (uuid_str 3)) (PInt 1) example_membership (PStr (u ''a''))
     (PStr (u ''app'')) (PStr (u ''b'')) (PStr (u ''ask'')) (PDatetime (ts_checked_at example_snapshot))
     example_snapshot = Inr example_invocation"
proof -
  have refs: "canonical_uuid (uuid_str v) = Some v" for v by (simp add: canonical_uuid_eq)
  have texts: "\<not> blank (u ''r'')" "\<not> blank (u ''p'')" "\<not> blank (u ''a'')" "\<not> blank (u ''app'')" "\<not> blank (u ''b'')"
    "\<not> blank (u ''ask'')"
    by (simp_all add: u_def blank_iff is_space_def)
  have utc: "is_aware_utc (ts_checked_at example_snapshot)"
    by (simp add: example_snapshot_def is_aware_utc_def)
  show ?thesis
    by (simp add: construct_authenticated_http_invocation_def texts uuid_str_not_blank refs utc
        require_canonical_ref_def require_int_range.simps max_signed64_def example_actor_constructed
        example_snapshot_active as_invalid_snapshot_def)
      (simp add: organization_matches_def example_organization_def actor_matches_def example_actor_def
        example_membership_def snapshot_matches_def example_snapshot_def example_invocation_def)
qed

lemma example_delivery_constructed:
  "construct_direct_delivery_context (PStr (u ''ask'')) (PStr (u ''app'')) (PStr (u ''b''))
     (PDatetime (ts_checked_at example_snapshot)) = Inr example_delivery"
  by (simp add: construct_direct_delivery_context_def u_def blank_iff is_space_def example_delivery_def
      example_snapshot_def is_aware_def require_aware.simps)

lemma example_call_valid: "validate_trusted_invocation_and_delivery example_heap example_invocation example_delivery = Inr ()"
proof -
  have "require_active_user_actor example_heap (iv_user_actor example_invocation) = Inr ()"
    "require_active_trusted_scope_snapshot example_heap (iv_trusted_scope_snapshot example_invocation) = Inr ()"
    using constructed_actor_active [OF example_actor_constructed] example_snapshot_active
    by (simp_all add: example_invocation_def)
  then show ?thesis
    unfolding validate_trusted_eq
    by (simp add: organization_matches_def actor_matches_def snapshot_matches_def delivery_matches_def)
      (simp add: example_invocation_def example_organization_def example_actor_def example_snapshot_def
        example_delivery_def)
qed

theorem validated_call_has_one_identity_witness:
  "canonical_uuid (iv_user_ref example_invocation) = Some (ts_user_id (iv_trusted_scope_snapshot example_invocation))"
  using validated_call_has_one_identity [OF example_call_valid] unfolding Let_def by metis

theorem closed_authority_scope_refuses_call_witness:
  "validate_trusted_invocation_and_delivery example_heap example_invocation example_delivery = Inr ()
   \<and> \<not> returns (validate_trusted_invocation_and_delivery [True, True, False, True] example_invocation example_delivery)"
proof -
  have "close_scope MembershipAuthorityScope (heap_run example_heap []) (example_token MembershipAuthorityScope 2)
      = Inr [True, True, False, True]"
    by (simp add: heap_run_def example_heap_def close_scope_def example_token_def)
  from closed_authority_scope_refuses_call [OF example_call_valid _ this, of "[]"] example_call_valid
  show ?thesis
    by (simp add: heap_run_def membership_scopes_def example_invocation_def example_actor_def example_membership_def)
qed

theorem constructed_call_validates_witness:
  "validate_trusted_invocation_and_delivery example_heap example_invocation example_delivery = Inr ()"
  using constructed_call_validates [OF example_invocation_constructed] example_delivery_constructed by blast

end
