(* ===== verification/Evidence.thy ===== *)
theory Evidence
  imports Scope Lifetime
begin

text \<open>
  \<open>src/engine/runtime/evidence.py\<close>: exact candidate locators, the lineage of a decision, the
  projections that only an open Kernel scope can construct, and the package content (blocks and
  Evidence) built from them. Every value carries a SHA-256 digest of its canonical encoding.
\<close>

section \<open>Validators\<close>

definition MAX_OPAQUE_REF_LENGTH :: nat where
  "MAX_OPAQUE_REF_LENGTH = 256"

definition MAX_PROJECTED_FIELD_REFS :: nat where
  "MAX_PROJECTED_FIELD_REFS = 64"

definition MAX_PROJECTED_FIELD_REF_LENGTH :: nat where
  "MAX_PROJECTED_FIELD_REF_LENGTH = 64"

definition opaque_text :: "str \<Rightarrow> bool" where
  "opaque_text s \<longleftrightarrow> s \<noteq> [] \<and> length s \<le> MAX_OPAQUE_REF_LENGTH \<and> \<not> list_ex is_space s"

fun require_opaque_ref :: "pyval \<Rightarrow> str res" where
  "require_opaque_ref (PStr s) = (if opaque_text s then Inr s else Inl ValueError)"
| "require_opaque_ref _ = Inl ValueError"

definition require_nonblank_body :: "pyval \<Rightarrow> str res" where
  "require_nonblank_body = require_nonblank"

definition require_utc_as_of :: "pyval \<Rightarrow> datetime res" where
  "require_utc_as_of = require_utc"

definition EVIDENCE_REF_PREFIX :: str where
  "EVIDENCE_REF_PREFIX = u ''ev''"

definition EVIDENCE_REF_ENTROPY_LENGTH :: nat where
  "EVIDENCE_REF_ENTROPY_LENGTH = 64"

fun require_evidence_ref :: "pyval \<Rightarrow> str res" where
  "require_evidence_ref (PStr s) =
     (if length s \<noteq> length EVIDENCE_REF_PREFIX + 1 + EVIDENCE_REF_ENTROPY_LENGTH
         \<or> \<not> str_startswith s (EVIDENCE_REF_PREFIX @ u ''_'')
      then Inl ValueError
      else if \<not> list_all is_hex (drop (length EVIDENCE_REF_PREFIX + 1) s) then Inl ValueError
      else Inr s)"
| "require_evidence_ref _ = Inl ValueError"

text \<open>\<open>context_engine_contracts.validate_projected_field_refs\<close>.\<close>

definition field_ref_char :: "nat \<Rightarrow> bool" where
  "field_ref_char c \<longleftrightarrow> is_lower c \<or> is_digit c \<or> c = 95"

fun require_field_ref :: "pyval \<Rightarrow> str res" where
  "require_field_ref (PStr s) =
     (if s = [] \<or> length s > MAX_PROJECTED_FIELD_REF_LENGTH \<or> \<not> is_lower (hd s)
         \<or> \<not> list_all field_ref_char s
      then Inl ValueError else Inr s)"
| "require_field_ref _ = Inl ValueError"

fun validate_projected_field_refs :: "pyval \<Rightarrow> str list res" where
  "validate_projected_field_refs (PTuple vs) =
     (if vs = [] then Inl ValueError
      else if length vs > MAX_PROJECTED_FIELD_REFS then Inl ValueError
      else bnd (mapr require_field_ref vs) (\<lambda>refs.
        if length refs \<noteq> card (set refs) then Inl ValueError else Inr refs))"
| "validate_projected_field_refs _ = Inl ValueError"

section \<open>Locators and lineage\<close>

record CandidateRef =
  cr_organization_id :: uuid
  cr_source_ref :: str
  cr_resource_ref :: str
  cr_revision_ref :: str
  cr_fragment_ref :: str

definition CandidateRef_init :: "pyval \<Rightarrow> pyval \<Rightarrow> pyval \<Rightarrow> pyval \<Rightarrow> pyval \<Rightarrow> CandidateRef res" where
  "CandidateRef_init org src resource revision fragment =
     bnd (require_uuid org) (\<lambda>o'.
     bnd (require_opaque_ref src) (\<lambda>s.
     bnd (require_opaque_ref resource) (\<lambda>r.
     bnd (require_opaque_ref revision) (\<lambda>v.
     bnd (require_opaque_ref fragment) (\<lambda>f.
       Inr \<lparr>cr_organization_id = o', cr_source_ref = s, cr_resource_ref = r, cr_revision_ref = v,
            cr_fragment_ref = f\<rparr>)))))"

definition FILE_SOURCE_ACL_FRESHNESS_PROFILE_REF :: str where
  "FILE_SOURCE_ACL_FRESHNESS_PROFILE_REF = u ''file-source-access-current-transaction-v1''"

definition FEISHU_DOCS_ACL_FRESHNESS_PROFILE_REF :: str where
  "FEISHU_DOCS_ACL_FRESHNESS_PROFILE_REF = u ''feishu-docs-mirrored-five-minute-v1''"

text \<open>\<open>timedelta(minutes=5)\<close> in microseconds.\<close>

definition FEISHU_DOCS_MIRRORED_ACL_MAX_AGE :: int where
  "FEISHU_DOCS_MIRRORED_ACL_MAX_AGE = 300000000"

record EvidenceLineage =
  el_run_ref :: str
  el_principal_ref :: str
  el_purpose :: str
  el_as_of :: datetime
  el_decision_ref :: str
  el_policy_snapshot_ref :: str
  el_policy_epoch :: int
  el_source_acl_decision_ref :: str
  el_source_acl_projection_ref :: str
  el_source_acl_as_of :: datetime
  el_source_acl_freshness_profile_ref :: str

definition EvidenceLineage_init ::
  "pyval \<Rightarrow> pyval \<Rightarrow> pyval \<Rightarrow> pyval \<Rightarrow> pyval \<Rightarrow> pyval \<Rightarrow> pyval \<Rightarrow> pyval \<Rightarrow> pyval \<Rightarrow> pyval \<Rightarrow> pyval
    \<Rightarrow> EvidenceLineage res"
where
  "EvidenceLineage_init run principal' purpose' as_of' decision snapshot epoch acl_decision acl_projection
      acl_as_of acl_profile =
     bnd (require_opaque_ref run) (\<lambda>ru.
     bnd (require_opaque_ref principal') (\<lambda>pr.
     bnd (require_opaque_ref purpose') (\<lambda>pu.
     bnd (require_opaque_ref decision) (\<lambda>de.
     bnd (require_opaque_ref snapshot) (\<lambda>sn.
     bnd (require_opaque_ref acl_decision) (\<lambda>ad.
     bnd (require_opaque_ref acl_projection) (\<lambda>ap.
     bnd (require_opaque_ref acl_profile) (\<lambda>af.
     bnd (require_utc_as_of as_of') (\<lambda>ao.
     bnd (require_utc_as_of acl_as_of) (\<lambda>aa.
     bnd (require_int_range 1 max_signed64 epoch) (\<lambda>ep.
       Inr \<lparr>el_run_ref = ru, el_principal_ref = pr, el_purpose = pu, el_as_of = ao,
            el_decision_ref = de, el_policy_snapshot_ref = sn, el_policy_epoch = ep,
            el_source_acl_decision_ref = ad, el_source_acl_projection_ref = ap,
            el_source_acl_as_of = aa, el_source_acl_freshness_profile_ref = af\<rparr>)))))))))))"

text \<open>A second run of \<open>__post_init__\<close> on an existing lineage.\<close>

definition EvidenceLineage_post_init :: "EvidenceLineage \<Rightarrow> unit res" where
  "EvidenceLineage_post_init l =
     bnd (EvidenceLineage_init (PStr (el_run_ref l)) (PStr (el_principal_ref l)) (PStr (el_purpose l))
        (PDatetime (el_as_of l)) (PStr (el_decision_ref l)) (PStr (el_policy_snapshot_ref l))
        (PInt (el_policy_epoch l)) (PStr (el_source_acl_decision_ref l))
        (PStr (el_source_acl_projection_ref l)) (PDatetime (el_source_acl_as_of l))
        (PStr (el_source_acl_freshness_profile_ref l))) (\<lambda>_. Inr ())"

text \<open>\<open>_package_lineage_binding\<close>, compared with Python's tuple equality.\<close>

definition same_lineage_binding :: "EvidenceLineage \<Rightarrow> EvidenceLineage \<Rightarrow> bool" where
  "same_lineage_binding a b \<longleftrightarrow>
     el_run_ref a = el_run_ref b \<and> el_principal_ref a = el_principal_ref b \<and> el_purpose a = el_purpose b
     \<and> dt_eq (el_as_of a) (el_as_of b) \<and> el_decision_ref a = el_decision_ref b
     \<and> el_policy_snapshot_ref a = el_policy_snapshot_ref b \<and> el_policy_epoch a = el_policy_epoch b"

section \<open>Canonical encodings\<close>

definition lineage_texts :: "EvidenceLineage \<Rightarrow> str list" where
  "lineage_texts l =
     [el_run_ref l, el_principal_ref l, el_purpose l, isoformat_us (el_as_of l), el_decision_ref l,
      el_policy_snapshot_ref l, dec_int (el_policy_epoch l), el_source_acl_decision_ref l,
      el_source_acl_projection_ref l, isoformat_us (el_source_acl_as_of l),
      el_source_acl_freshness_profile_ref l]"

definition lineage_canonical_bytes :: "EvidenceLineage \<Rightarrow> bytes" where
  "lineage_canonical_bytes l = concat (map encode_text (lineage_texts l))"

definition projection_texts :: "CandidateRef \<Rightarrow> str \<Rightarrow> str list \<Rightarrow> EvidenceLineage \<Rightarrow> str list" where
  "projection_texts c body field_refs l =
     [cr_source_ref c, cr_resource_ref c, cr_revision_ref c, cr_fragment_ref c, body]
     @ lineage_texts l @ field_refs"

definition projection_canonical :: "str \<Rightarrow> CandidateRef \<Rightarrow> str \<Rightarrow> str list \<Rightarrow> EvidenceLineage \<Rightarrow> bytes" where
  "projection_canonical domain c body field_refs l =
     utf8_surrogatepass domain @ length_prefix (uuid_bytes (cr_organization_id c))
     @ concat (map encode_text (projection_texts c body field_refs l))"

definition projection_domain :: str where
  "projection_domain = u ''context-engine:authorized-projection:v4''"

definition evidence_ref_domain :: str where
  "evidence_ref_domain = u ''context-engine:evidence-ref:v4''"

definition projection_integrity_digest :: "CandidateRef \<Rightarrow> str \<Rightarrow> str list \<Rightarrow> EvidenceLineage \<Rightarrow> str" where
  "projection_integrity_digest c body field_refs l =
     sha256_hexdigest (projection_canonical projection_domain c body field_refs l)"

section \<open>Authorized projections\<close>

datatype AuthorizedProjectionProvenance = AUTHORIZATION_KERNEL

text \<open>
  \<open>construction_provenance\<close> is \<open>None\<close> on an object that was not built by
  \<open>_construct_authorized_projection\<close>.
\<close>

record AuthorizedProjection =
  ap_candidate_ref :: CandidateRef
  ap_projected_body :: str
  ap_projected_field_refs :: "str list"
  ap_lineage :: EvidenceLineage
  ap_construction_provenance :: "AuthorizedProjectionProvenance option"
  ap_kernel_scope :: scope_token
  ap_integrity_digest :: str

definition require_active_authorization_kernel_scope :: "scope_heap \<Rightarrow> scope_token \<Rightarrow> unit res" where
  "require_active_authorization_kernel_scope h t =
     (if scope_active AuthorizationKernelScope h t then Inr () else Inl ValueError)"

definition construct_authorized_projection ::
  "scope_heap \<Rightarrow> scope_token \<Rightarrow> CandidateRef \<Rightarrow> pyval \<Rightarrow> pyval \<Rightarrow> EvidenceLineage \<Rightarrow> AuthorizedProjection res"
where
  "construct_authorized_projection h kernel_scope candidate_ref body field_refs lineage =
     bnd (require_active_authorization_kernel_scope h kernel_scope) (\<lambda>_.
     bnd (require_nonblank_body body) (\<lambda>b.
     bnd (validate_projected_field_refs field_refs) (\<lambda>fs.
       Inr \<lparr>ap_candidate_ref = candidate_ref, ap_projected_body = b, ap_projected_field_refs = fs,
            ap_lineage = lineage, ap_construction_provenance = Some AUTHORIZATION_KERNEL,
            ap_kernel_scope = kernel_scope,
            ap_integrity_digest = projection_integrity_digest candidate_ref b fs lineage\<rparr>)))"

definition require_active_authorized_projection :: "scope_heap \<Rightarrow> AuthorizedProjection \<Rightarrow> unit res" where
  "require_active_authorized_projection h p =
     (if ap_construction_provenance p \<noteq> Some AUTHORIZATION_KERNEL then Inl ValueError
      else if tok_kind (ap_kernel_scope p) \<noteq> AuthorizationKernelScope then Inl ValueError
      else bnd (require_active_authorization_kernel_scope h (ap_kernel_scope p)) (\<lambda>_.
           bnd (require_nonblank_body (PStr (ap_projected_body p))) (\<lambda>body.
           bnd (validate_projected_field_refs (PTuple (map PStr (ap_projected_field_refs p)))) (\<lambda>field_refs.
             if ap_integrity_digest p
                \<noteq> projection_integrity_digest (ap_candidate_ref p) body field_refs (ap_lineage p)
             then Inl ValueError else Inr ()))))"

definition construct_inherited_authorized_projection ::
  "scope_heap \<Rightarrow> AuthorizedProjection \<Rightarrow> CandidateRef \<Rightarrow> pyval \<Rightarrow> pyval \<Rightarrow> AuthorizedProjection res"
where
  "construct_inherited_authorized_projection h anchor candidate_ref body field_refs =
     bnd (require_active_authorized_projection h anchor) (\<lambda>_.
       let a = ap_candidate_ref anchor in
       if cr_organization_id candidate_ref \<noteq> cr_organization_id a
          \<or> cr_source_ref candidate_ref \<noteq> cr_source_ref a
          \<or> cr_resource_ref candidate_ref \<noteq> cr_resource_ref a
          \<or> cr_revision_ref candidate_ref \<noteq> cr_revision_ref a
       then Inl ValueError
       else construct_authorized_projection h (ap_kernel_scope anchor) candidate_ref body field_refs
              (ap_lineage anchor))"

section \<open>Evidence and blocks\<close>

record Evidence =
  ev_evidence_ref :: str
  ev_source_ref :: str
  ev_resource_ref :: str
  ev_revision_ref :: str
  ev_fragment_ref :: str
  ev_projected_field_refs :: "str list"
  ev_lineage :: EvidenceLineage
  ev_citation_open_ref :: "CitationOpenRef option"
  ev_integrity_digest :: str

definition evidence_texts :: "Evidence \<Rightarrow> str list" where
  "evidence_texts e =
     [ev_evidence_ref e, ev_source_ref e, ev_resource_ref e, ev_revision_ref e, ev_fragment_ref e]
     @ ev_projected_field_refs e
     @ [case ev_citation_open_ref e of None \<Rightarrow> [] | Some c \<Rightarrow> citation_value c]"

definition evidence_canonical :: "Evidence \<Rightarrow> bytes" where
  "evidence_canonical e =
     utf8_surrogatepass (u ''context-engine:evidence-integrity:v4'')
     @ concat (map encode_text (evidence_texts e)) @ lineage_canonical_bytes (ev_lineage e)"

definition evidence_integrity_digest :: "Evidence \<Rightarrow> str" where
  "evidence_integrity_digest e = sha256_hexdigest (evidence_canonical e)"

definition Evidence_init ::
  "pyval \<Rightarrow> pyval \<Rightarrow> pyval \<Rightarrow> pyval \<Rightarrow> pyval \<Rightarrow> pyval \<Rightarrow> EvidenceLineage \<Rightarrow> CitationOpenRef option
    \<Rightarrow> Evidence res"
where
  "Evidence_init evidence_ref src resource revision fragment field_refs lineage citation =
     bnd (require_evidence_ref evidence_ref) (\<lambda>e.
     bnd (require_opaque_ref src) (\<lambda>s.
     bnd (require_opaque_ref resource) (\<lambda>r.
     bnd (require_opaque_ref revision) (\<lambda>v.
     bnd (require_opaque_ref fragment) (\<lambda>f.
     bnd (validate_projected_field_refs field_refs) (\<lambda>fs.
     bnd (EvidenceLineage_post_init lineage) (\<lambda>_.
       let self = \<lparr>ev_evidence_ref = e, ev_source_ref = s, ev_resource_ref = r, ev_revision_ref = v,
            ev_fragment_ref = f, ev_projected_field_refs = fs, ev_lineage = lineage,
            ev_citation_open_ref = citation, ev_integrity_digest = []\<rparr>
       in Inr (self\<lparr>ev_integrity_digest := evidence_integrity_digest self\<rparr>))))))))"

record PackageBlock =
  pb_evidence_ref :: str
  pb_body :: str
  pb_integrity_digest :: str

definition block_canonical :: "PackageBlock \<Rightarrow> bytes" where
  "block_canonical b =
     utf8_surrogatepass (u ''context-engine:package-block-integrity:v1'')
     @ encode_text (pb_evidence_ref b) @ encode_text (pb_body b)"

definition block_integrity_digest :: "PackageBlock \<Rightarrow> str" where
  "block_integrity_digest b = sha256_hexdigest (block_canonical b)"

definition PackageBlock_init :: "pyval \<Rightarrow> pyval \<Rightarrow> PackageBlock res" where
  "PackageBlock_init evidence_ref body =
     bnd (require_evidence_ref evidence_ref) (\<lambda>e.
     bnd (require_nonblank_body body) (\<lambda>b.
       let self = \<lparr>pb_evidence_ref = e, pb_body = b, pb_integrity_digest = []\<rparr>
       in Inr (self\<lparr>pb_integrity_digest := block_integrity_digest self\<rparr>)))"

section \<open>Package content\<close>

definition fragment_identity :: "Evidence \<Rightarrow> str \<times> str \<times> str \<times> str" where
  "fragment_identity e = (ev_source_ref e, ev_resource_ref e, ev_revision_ref e, ev_fragment_ref e)"

definition check_block :: "PackageBlock \<Rightarrow> unit res" where
  "check_block b =
     bnd (require_evidence_ref (PStr (pb_evidence_ref b))) (\<lambda>_.
     bnd (require_nonblank_body (PStr (pb_body b))) (\<lambda>_.
       if pb_integrity_digest b \<noteq> block_integrity_digest b then Inl ValueError else Inr ()))"

definition check_evidence :: "Evidence \<Rightarrow> unit res" where
  "check_evidence e =
     bnd (EvidenceLineage_post_init (ev_lineage e)) (\<lambda>_.
       if ev_integrity_digest e \<noteq> evidence_integrity_digest e then Inl ValueError else Inr ())"

definition validate_package_content :: "PackageBlock list \<Rightarrow> Evidence list \<Rightarrow> unit res" where
  "validate_package_content blocks evidence =
     bnd (each check_block blocks) (\<lambda>_.
     bnd (each check_evidence evidence) (\<lambda>_.
       let block_refs = map pb_evidence_ref blocks;
           evidence_refs = map ev_evidence_ref evidence;
           fragment_identities = map fragment_identity evidence
       in if length block_refs \<noteq> card (set block_refs) then Inl ValueError
          else if length evidence_refs \<noteq> card (set evidence_refs) then Inl ValueError
          else if length fragment_identities \<noteq> card (set fragment_identities) then Inl ValueError
          else if set block_refs - set evidence_refs \<noteq> {} then Inl ValueError
          else if set evidence_refs - set block_refs \<noteq> {} then Inl ValueError
          else case evidence of [] \<Rightarrow> Inr ()
               | e # rest \<Rightarrow>
                   if list_ex (\<lambda>i. \<not> same_lineage_binding (ev_lineage i) (ev_lineage e)) rest
                   then Inl ValueError else Inr ()))"

record PackageContent =
  pc_blocks :: "PackageBlock list"
  pc_evidence :: "Evidence list"

definition construct_validated_package_content ::
  "PackageBlock list \<Rightarrow> Evidence list \<Rightarrow> PackageContent res"
where
  "construct_validated_package_content blocks evidence =
     bnd (validate_package_content blocks evidence) (\<lambda>_. Inr \<lparr>pc_blocks = blocks, pc_evidence = evidence\<rparr>)"

text \<open>The mapping of issued locators is an association list with distinct keys.\<close>

definition attach_citation_open_refs ::
  "PackageContent \<Rightarrow> (str \<times> CitationOpenRef) list \<Rightarrow> PackageContent res"
where
  "attach_citation_open_refs content references =
     (if set (map fst references) \<noteq> set (map ev_evidence_ref (pc_evidence content)) then Inl ValueError
      else bnd (mapr (\<lambda>e. Evidence_init (PStr (ev_evidence_ref e)) (PStr (ev_source_ref e))
                  (PStr (ev_resource_ref e)) (PStr (ev_revision_ref e)) (PStr (ev_fragment_ref e))
                  (PTuple (map PStr (ev_projected_field_refs e))) (ev_lineage e)
                  (map_of references (ev_evidence_ref e))) (pc_evidence content)) (\<lambda>evidence.
           construct_validated_package_content (pc_blocks content) evidence))"

definition candidate_sort_key :: "CandidateRef \<Rightarrow> bytes \<times> str \<times> str \<times> str \<times> str" where
  "candidate_sort_key c =
     (uuid_bytes (cr_organization_id c), cr_source_ref c, cr_resource_ref c, cr_revision_ref c,
      cr_fragment_ref c)"

definition evidence_ref_for_projection :: "AuthorizedProjection \<Rightarrow> str" where
  "evidence_ref_for_projection p =
     EVIDENCE_REF_PREFIX @ u ''_''
     @ sha256_hexdigest (projection_canonical evidence_ref_domain (ap_candidate_ref p) (ap_projected_body p)
         (ap_projected_field_refs p) (ap_lineage p))"

definition content_item :: "AuthorizedProjection \<Rightarrow> (PackageBlock \<times> Evidence) res" where
  "content_item p =
     (let c = ap_candidate_ref p; evidence_ref = PStr (evidence_ref_for_projection p) in
      bnd (Evidence_init evidence_ref (PStr (cr_source_ref c)) (PStr (cr_resource_ref c))
             (PStr (cr_revision_ref c)) (PStr (cr_fragment_ref c))
             (PTuple (map PStr (ap_projected_field_refs p))) (ap_lineage p) None) (\<lambda>e.
      bnd (PackageBlock_init evidence_ref (PStr (ap_projected_body p))) (\<lambda>b. Inr (b, e))))"

text \<open>The checks of \<open>construct_package_content\<close> over a nonempty tuple: one organization, one decision.\<close>

definition require_one_decision :: "AuthorizedProjection list \<Rightarrow> unit res" where
  "require_one_decision projections =
     (case projections of [] \<Rightarrow> Inr ()
      | p # rest \<Rightarrow>
          if list_ex (\<lambda>q. cr_organization_id (ap_candidate_ref q) \<noteq> cr_organization_id (ap_candidate_ref p)) rest
          then Inl ValueError
          else if list_ex (\<lambda>q. \<not> same_lineage_binding (ap_lineage q) (ap_lineage p)) rest
          then Inl ValueError
          else Inr ())"

definition construct_package_content ::
  "scope_heap \<Rightarrow> AuthorizedProjection list \<Rightarrow> PackageContent res"
where
  "construct_package_content h projections =
     bnd (each (require_active_authorized_projection h) projections) (\<lambda>_.
     bnd (require_one_decision projections) (\<lambda>_.
     bnd (mapr content_item projections) (\<lambda>items.
       construct_validated_package_content (map fst items) (map snd items))))"

section \<open>Lemmas\<close>

lemma require_opaque_ref_eq [validators]: "require_opaque_ref v = Inr s \<longleftrightarrow> v = PStr s \<and> opaque_text s"
  by (cases v) auto

lemma require_nonblank_body_eq [validators]:
  "require_nonblank_body v = Inr s \<longleftrightarrow> v = PStr s \<and> \<not> blank s"
  by (simp add: require_nonblank_body_def validators)

lemma require_utc_as_of_eq [validators]:
  "require_utc_as_of v = Inr d \<longleftrightarrow> v = PDatetime d \<and> is_aware_utc d"
  by (simp add: require_utc_as_of_def validators)

lemma require_evidence_ref_eq [validators]:
  "require_evidence_ref v = Inr s \<longleftrightarrow> v = PStr s \<and> (\<exists>h. s = EVIDENCE_REF_PREFIX @ u ''_'' @ h \<and> is_sha256_hex h)"
proof (cases v)
  case (PStr t)
  have "str_startswith t (EVIDENCE_REF_PREFIX @ u ''_'') \<longleftrightarrow> (\<exists>h. t = EVIDENCE_REF_PREFIX @ u ''_'' @ h)"
    by (auto simp: str_startswith_def) (metis append.assoc append_take_drop_id)
  with PStr show ?thesis
    by (auto simp: is_sha256_hex_def EVIDENCE_REF_ENTROPY_LENGTH_def)
qed simp_all

declare require_evidence_ref.simps [simp del]

definition field_ref_text :: "str \<Rightarrow> bool" where
  "field_ref_text s \<longleftrightarrow> s \<noteq> [] \<and> length s \<le> MAX_PROJECTED_FIELD_REF_LENGTH \<and> is_lower (hd s)
     \<and> list_all field_ref_char s"

lemma require_field_ref_eq [validators]:
  "require_field_ref v = Inr s \<longleftrightarrow> v = PStr s \<and> field_ref_text s"
  by (cases v) (auto simp: field_ref_text_def)

lemma mapr_PStr:
  assumes "\<And>v s. f v = Inr s \<longleftrightarrow> v = PStr s \<and> P s"
  shows "mapr f vs = Inr xs \<longleftrightarrow> vs = map PStr xs \<and> list_all P xs"
  by (auto simp: mapr_eq_Inr assms list_all2_conv_all_nth list_all_length intro!: nth_equalityI)

lemma validate_projected_field_refs_eq [validators]:
  "validate_projected_field_refs v = Inr fs \<longleftrightarrow>
     v = PTuple (map PStr fs) \<and> fs \<noteq> [] \<and> length fs \<le> MAX_PROJECTED_FIELD_REFS
     \<and> list_all field_ref_text fs \<and> distinct fs"
proof (cases v)
  case (PTuple vs)
  have "length fs = card (set fs) \<longleftrightarrow> distinct fs"
    by (metis card_distinct distinct_card)
  with PTuple show ?thesis
    by (auto simp: mapr_PStr [OF require_field_ref_eq])
qed simp_all

declare validate_projected_field_refs.simps [simp del]

lemma map_PStr_inject [simp]: "map PStr xs = map PStr ys \<longleftrightarrow> xs = ys"
  by (simp add: inj_map_eq_map inj_def)

definition wf_candidate :: "CandidateRef \<Rightarrow> bool" where
  "wf_candidate c \<longleftrightarrow> opaque_text (cr_source_ref c) \<and> opaque_text (cr_resource_ref c)
     \<and> opaque_text (cr_revision_ref c) \<and> opaque_text (cr_fragment_ref c)"

lemma CandidateRef_init_eq [validators]:
  "CandidateRef_init org src resource revision fragment = Inr c \<longleftrightarrow>
     org = PUuid (cr_organization_id c) \<and> src = PStr (cr_source_ref c)
     \<and> resource = PStr (cr_resource_ref c) \<and> revision = PStr (cr_revision_ref c)
     \<and> fragment = PStr (cr_fragment_ref c) \<and> wf_candidate c"
  by (cases c) (auto simp: CandidateRef_init_def validators wf_candidate_def)

definition wf_lineage :: "EvidenceLineage \<Rightarrow> bool" where
  "wf_lineage l \<longleftrightarrow> opaque_text (el_run_ref l) \<and> opaque_text (el_principal_ref l)
     \<and> opaque_text (el_purpose l) \<and> opaque_text (el_decision_ref l)
     \<and> opaque_text (el_policy_snapshot_ref l) \<and> opaque_text (el_source_acl_decision_ref l)
     \<and> opaque_text (el_source_acl_projection_ref l) \<and> opaque_text (el_source_acl_freshness_profile_ref l)
     \<and> is_aware_utc (el_as_of l) \<and> is_aware_utc (el_source_acl_as_of l)
     \<and> 1 \<le> el_policy_epoch l \<and> el_policy_epoch l \<le> max_signed64"

lemma EvidenceLineage_init_wf: "EvidenceLineage_init a b c d e f g i j k m = Inr l \<Longrightarrow> wf_lineage l"
  by (auto simp: EvidenceLineage_init_def validators wf_lineage_def)

lemma EvidenceLineage_post_init_eq [validators]:
  "EvidenceLineage_post_init l = Inr x \<longleftrightarrow> wf_lineage l"
  by (auto simp: EvidenceLineage_post_init_def EvidenceLineage_init_def validators wf_lineage_def)

lemma require_active_kernel_scope_eq [validators]:
  "require_active_authorization_kernel_scope h t = Inr x \<longleftrightarrow> scope_active AuthorizationKernelScope h t"
  by (simp add: require_active_authorization_kernel_scope_def)

lemma construct_authorized_projection_eq:
  "construct_authorized_projection h t c body frefs l = Inr p \<longleftrightarrow>
     scope_active AuthorizationKernelScope h t
     \<and> body = PStr (ap_projected_body p) \<and> \<not> blank (ap_projected_body p)
     \<and> validate_projected_field_refs frefs = Inr (ap_projected_field_refs p)
     \<and> ap_candidate_ref p = c \<and> ap_lineage p = l
     \<and> ap_construction_provenance p = Some AUTHORIZATION_KERNEL \<and> ap_kernel_scope p = t
     \<and> ap_integrity_digest p
         = projection_integrity_digest c (ap_projected_body p) (ap_projected_field_refs p) l"
  by (cases p)
    (auto simp: construct_authorized_projection_def require_nonblank_body_eq require_active_kernel_scope_eq)

lemma require_active_authorized_projection_eq [validators]:
  "require_active_authorized_projection h p = Inr x \<longleftrightarrow>
     ap_construction_provenance p = Some AUTHORIZATION_KERNEL
     \<and> scope_active AuthorizationKernelScope h (ap_kernel_scope p)
     \<and> \<not> blank (ap_projected_body p)
     \<and> validate_projected_field_refs (PTuple (map PStr (ap_projected_field_refs p)))
         = Inr (ap_projected_field_refs p)
     \<and> ap_integrity_digest p = projection_integrity_digest (ap_candidate_ref p) (ap_projected_body p)
         (ap_projected_field_refs p) (ap_lineage p)"
proof -
  have "validate_projected_field_refs (PTuple (map PStr fs)) = Inr gs \<Longrightarrow> gs = fs" for fs gs
    by (simp add: validate_projected_field_refs_eq)
  then show ?thesis
    by (auto simp: require_active_authorized_projection_def require_nonblank_body_eq
        require_active_kernel_scope_eq scope_active_def)
qed

text \<open>What was constructed may be used as long as the scope is open.\<close>

lemma constructed_projection_active:
  "construct_authorized_projection h t c body frefs l = Inr p
    \<Longrightarrow> require_active_authorized_projection h p = Inr ()"
  by (auto simp: construct_authorized_projection_eq require_active_authorized_projection_eq
      validate_projected_field_refs_eq)

lemma inactive_projection_raises:
  assumes "\<not> scope_active AuthorizationKernelScope h (ap_kernel_scope p)"
  shows "require_active_authorized_projection h p = Inl ValueError"
  using assms
  by (simp add: require_active_authorized_projection_def require_active_authorization_kernel_scope_def)

text \<open>The canonical encodings determine what they encode.\<close>

definition encodable_lineage :: "EvidenceLineage \<Rightarrow> bool" where
  "encodable_lineage l \<longleftrightarrow> valid_datetime (el_as_of l) \<and> valid_datetime (el_source_acl_as_of l)
     \<and> list_all encodable (lineage_texts l)"

lemma lineage_texts_inject:
  assumes "encodable_lineage a" "encodable_lineage b" "lineage_texts a = lineage_texts b"
  shows "a = b"
  using assms
  by (auto simp: encodable_lineage_def lineage_texts_def intro!: EvidenceLineage.equality
      dest: isoformat_us_inject dec_int_inject)

lemma length_lineage_texts [simp]: "length (lineage_texts l) = 11"
  by (simp add: lineage_texts_def)

definition encodable_projection :: "CandidateRef \<Rightarrow> str \<Rightarrow> str list \<Rightarrow> EvidenceLineage \<Rightarrow> bool" where
  "encodable_projection c body fs l \<longleftrightarrow>
     encodable_lineage l \<and> list_all encodable (projection_texts c body fs l)"

lemma projection_canonical_inject:
  assumes ok: "encodable_projection c body fs l" "encodable_projection c' body' fs' l'"
    and eq: "projection_canonical d c body fs l = projection_canonical d c' body' fs' l'"
  shows "c = c' \<and> body = body' \<and> fs = fs' \<and> l = l'"
proof -
  have "sized (uuid_bytes i)" for i
    by (simp add: sized_def)
  with eq have org: "uuid_bytes (cr_organization_id c) = uuid_bytes (cr_organization_id c')"
    and rest: "concat (map encode_text (projection_texts c body fs l))
      = concat (map encode_text (projection_texts c' body' fs' l'))"
    unfolding projection_canonical_def by (auto dest: lp.delim)
  from rest have "projection_texts c body fs l = projection_texts c' body' fs' l'"
    using ok by (intro etext.concat_inject) (simp_all add: encodable_projection_def)
  then have texts: "cr_source_ref c = cr_source_ref c'" "cr_resource_ref c = cr_resource_ref c'"
    "cr_revision_ref c = cr_revision_ref c'" "cr_fragment_ref c = cr_fragment_ref c'" "body = body'"
    "lineage_texts l = lineage_texts l'" "fs = fs'"
    by (simp_all add: projection_texts_def)
  then have "l = l'"
    using ok by (auto simp: encodable_projection_def intro: lineage_texts_inject)
  with org texts show ?thesis
    by (auto simp: uuid_bytes_inject intro: CandidateRef.equality)
qed

definition encodable_evidence :: "Evidence \<Rightarrow> bool" where
  "encodable_evidence e \<longleftrightarrow> encodable_lineage (ev_lineage e) \<and> list_all encodable (evidence_texts e)
     \<and> (\<forall>c. ev_citation_open_ref e = Some c \<longrightarrow> citation_value c \<noteq> [])"

lemma evidence_canonical_inject:
  assumes ok: "encodable_evidence a" "encodable_evidence b"
    and eq: "evidence_canonical a = evidence_canonical b"
  shows "a\<lparr>ev_integrity_digest := d\<rparr> = b\<lparr>ev_integrity_digest := d\<rparr>"
proof -
  let ?texts = "\<lambda>e. evidence_texts e @ lineage_texts (ev_lineage e)"
  from eq have "concat (map encode_text (?texts a)) = concat (map encode_text (?texts b))"
    by (simp add: evidence_canonical_def lineage_canonical_bytes_def)
  then have "?texts a = ?texts b"
    using ok by (intro etext.concat_inject) (simp_all add: encodable_evidence_def encodable_lineage_def)
  then have texts: "evidence_texts a = evidence_texts b"
    and "lineage_texts (ev_lineage a) = lineage_texts (ev_lineage b)"
    by (simp_all add: append_eq_append_conv)
  then have lineage: "ev_lineage a = ev_lineage b"
    using ok by (auto simp: encodable_evidence_def intro: lineage_texts_inject)
  let ?cite = "\<lambda>e. case ev_citation_open_ref e of None \<Rightarrow> [] | Some c \<Rightarrow> citation_value c"
  from texts have fields: "ev_evidence_ref a = ev_evidence_ref b" "ev_source_ref a = ev_source_ref b"
    "ev_resource_ref a = ev_resource_ref b" "ev_revision_ref a = ev_revision_ref b"
    "ev_fragment_ref a = ev_fragment_ref b" "ev_projected_field_refs a = ev_projected_field_refs b"
    and cite: "?cite a = ?cite b"
    by (simp_all add: evidence_texts_def)
  have "ev_citation_open_ref a = ev_citation_open_ref b"
    using cite ok by (auto simp: encodable_evidence_def CitationOpenRef.expand split: option.splits)
  with fields lineage show ?thesis
    by (cases a; cases b) simp
qed

lemma block_canonical_inject:
  assumes "encodable (pb_evidence_ref a)" "encodable (pb_body a)" "encodable (pb_evidence_ref b)"
    "encodable (pb_body b)" "block_canonical a = block_canonical b"
  shows "pb_evidence_ref a = pb_evidence_ref b \<and> pb_body a = pb_body b"
  using assms etext.delim [of "pb_evidence_ref a" "pb_evidence_ref b"] etext.enc_inject
  by (auto simp: block_canonical_def)

text \<open>The members of a package.\<close>

lemma evidence_ref_for_projection_ok [simp]:
  "require_evidence_ref (PStr (evidence_ref_for_projection p)) = Inr (evidence_ref_for_projection p)"
  by (simp add: require_evidence_ref_eq evidence_ref_for_projection_def)

lemma Evidence_init_fields:
  assumes "Evidence_init r s re rv f fs l c = Inr e"
  shows "r = PStr (ev_evidence_ref e)" "s = PStr (ev_source_ref e)" "re = PStr (ev_resource_ref e)"
    "rv = PStr (ev_revision_ref e)" "f = PStr (ev_fragment_ref e)"
    "fs = PTuple (map PStr (ev_projected_field_refs e))" "ev_lineage e = l"
    "ev_citation_open_ref e = c" "wf_lineage l" "check_evidence e = Inr ()"
  using assms
  by (auto simp: Evidence_init_def check_evidence_def Let_def validators evidence_integrity_digest_def
      evidence_canonical_def evidence_texts_def)

lemma PackageBlock_init_fields:
  assumes "PackageBlock_init r body = Inr b"
  shows "r = PStr (pb_evidence_ref b)" "body = PStr (pb_body b)" "check_block b = Inr ()"
  using assms
  by (auto simp: PackageBlock_init_def check_block_def Let_def validators block_integrity_digest_def
      block_canonical_def)

definition item_of :: "AuthorizedProjection \<Rightarrow> PackageBlock \<Rightarrow> Evidence \<Rightarrow> bool" where
  "item_of p b e \<longleftrightarrow>
     pb_evidence_ref b = evidence_ref_for_projection p \<and> pb_body b = ap_projected_body p
     \<and> ev_evidence_ref e = evidence_ref_for_projection p
     \<and> ev_source_ref e = cr_source_ref (ap_candidate_ref p)
     \<and> ev_resource_ref e = cr_resource_ref (ap_candidate_ref p)
     \<and> ev_revision_ref e = cr_revision_ref (ap_candidate_ref p)
     \<and> ev_fragment_ref e = cr_fragment_ref (ap_candidate_ref p)
     \<and> ev_projected_field_refs e = ap_projected_field_refs p \<and> ev_lineage e = ap_lineage p
     \<and> ev_citation_open_ref e = None"

lemma content_item_fields:
  assumes "content_item p = Inr (b, e)"
  shows "item_of p b e" "check_block b = Inr ()" "check_evidence e = Inr ()"
proof -
  let ?c = "ap_candidate_ref p" and ?r = "PStr (evidence_ref_for_projection p)"
  from assms have e: "Evidence_init ?r (PStr (cr_source_ref ?c)) (PStr (cr_resource_ref ?c))
      (PStr (cr_revision_ref ?c)) (PStr (cr_fragment_ref ?c))
      (PTuple (map PStr (ap_projected_field_refs p))) (ap_lineage p) None = Inr e"
    and b: "PackageBlock_init ?r (PStr (ap_projected_body p)) = Inr b"
    by (auto simp: content_item_def Let_def)
  show "check_block b = Inr ()" "check_evidence e = Inr ()"
    by (rule PackageBlock_init_fields(3) [OF b], rule Evidence_init_fields(10) [OF e])
  show "item_of p b e"
    using PackageBlock_init_fields(1,2) [OF b] Evidence_init_fields(1-8) [OF e]
    by (simp add: item_of_def)
qed

lemma content_item_total:
  assumes "wf_candidate (ap_candidate_ref p)" "wf_lineage (ap_lineage p)"
    "require_active_authorized_projection h p = Inr ()"
  shows "\<exists>b e. content_item p = Inr (b, e)"
proof -
  have "EvidenceLineage_post_init (ap_lineage p) = Inr ()"
    using assms(2) by (simp add: EvidenceLineage_post_init_eq)
  with assms show ?thesis
    by (simp add: content_item_def Let_def Evidence_init_def PackageBlock_init_def wf_candidate_def
        require_active_authorized_projection_eq require_nonblank_body_def)
qed

lemma distinct_iff_card: "length xs \<noteq> card (set xs) \<longleftrightarrow> \<not> distinct xs"
  by (metis card_distinct distinct_card)

lemma validate_package_content_eq:
  "validate_package_content bs es = Inr x \<longleftrightarrow>
     (\<forall>b \<in> set bs. check_block b = Inr ()) \<and> (\<forall>e \<in> set es. check_evidence e = Inr ())
     \<and> distinct (map pb_evidence_ref bs) \<and> distinct (map ev_evidence_ref es)
     \<and> distinct (map fragment_identity es) \<and> pb_evidence_ref ` set bs = ev_evidence_ref ` set es
     \<and> (\<forall>e \<in> set (tl es). same_lineage_binding (ev_lineage e) (ev_lineage (hd es)))"
proof -
  have "pb_evidence_ref ` set bs = ev_evidence_ref ` set es \<longleftrightarrow>
      pb_evidence_ref ` set bs \<subseteq> ev_evidence_ref ` set es \<and> ev_evidence_ref ` set es \<subseteq> pb_evidence_ref ` set bs"
    by (rule set_eq_subset)
  then show ?thesis
    unfolding validate_package_content_def Let_def distinct_iff_card
    by (cases es) (simp_all add: list_ex_iff)
qed

lemma construct_package_content_items:
  assumes "construct_package_content h ps = Inr content"
  shows "list_all2 (\<lambda>p (b, e). item_of p b e) ps (zip (pc_blocks content) (pc_evidence content))"
    and "length (pc_blocks content) = length ps" "length (pc_evidence content) = length ps"
    and "validate_package_content (pc_blocks content) (pc_evidence content) = Inr ()"
    and "\<And>p. p \<in> set ps \<Longrightarrow> require_active_authorized_projection h p = Inr ()"
proof -
  from assms obtain items where items: "mapr content_item ps = Inr items"
    and content: "construct_validated_package_content (map fst items) (map snd items) = Inr content"
    and active: "each (require_active_authorized_projection h) ps = Inr ()"
    by (auto simp: construct_package_content_def)
  from content have parts: "pc_blocks content = map fst items" "pc_evidence content = map snd items"
    and "validate_package_content (map fst items) (map snd items) = Inr ()"
    by (auto simp: construct_validated_package_content_def)
  then show "validate_package_content (pc_blocks content) (pc_evidence content) = Inr ()" by simp
  show "length (pc_blocks content) = length ps" "length (pc_evidence content) = length ps"
    using mapr_length [OF items] by (simp_all add: parts)
  show "require_active_authorized_projection h p = Inr ()" if "p \<in> set ps" for p
    using active that by auto
  have "list_all2 (\<lambda>p (b, e). item_of p b e) ps items"
    using items unfolding mapr_eq_Inr by (rule list_all2_mono) (auto intro: content_item_fields)
  then show "list_all2 (\<lambda>p (b, e). item_of p b e) ps (zip (pc_blocks content) (pc_evidence content))"
    by (simp add: parts zip_map_fst_snd)
qed

lemma require_one_decision_eq:
  "require_one_decision ps = Inr x \<longleftrightarrow>
     (\<forall>p \<in> set ps. cr_organization_id (ap_candidate_ref p) = cr_organization_id (ap_candidate_ref (hd ps))
        \<and> same_lineage_binding (ap_lineage p) (ap_lineage (hd ps)))"
proof (cases ps)
  case (Cons p rest)
  have "same_lineage_binding a a" for a
    by (simp add: same_lineage_binding_def)
  with Cons show ?thesis
    by (auto simp: require_one_decision_def list_ex_iff)
qed (simp add: require_one_decision_def)

lemma construct_package_content_uniform:
  assumes "construct_package_content h ps = Inr content" "p \<in> set ps" "q \<in> set ps"
  shows "cr_organization_id (ap_candidate_ref p) = cr_organization_id (ap_candidate_ref q)"
    and "same_lineage_binding (ap_lineage p) (ap_lineage q)"
proof -
  have trans: "same_lineage_binding a b \<Longrightarrow> same_lineage_binding c b \<Longrightarrow> same_lineage_binding a c" for a b c
    by (auto simp: same_lineage_binding_def dt_eq_def)
  have "cr_organization_id (ap_candidate_ref r) = cr_organization_id (ap_candidate_ref (hd ps))
      \<and> same_lineage_binding (ap_lineage r) (ap_lineage (hd ps))" if "r \<in> set ps" for r
    using assms(1) that by (auto simp: construct_package_content_def require_one_decision_eq)
  from this [OF assms(2)] this [OF assms(3)] trans
  show "cr_organization_id (ap_candidate_ref p) = cr_organization_id (ap_candidate_ref q)"
    "same_lineage_binding (ap_lineage p) (ap_lineage q)"
    by auto
qed

text \<open>Two of the projections whose different encodings have one SHA-256 digest.\<close>

definition evidence_refs_collide :: "AuthorizedProjection list \<Rightarrow> bool" where
  "evidence_refs_collide ps \<longleftrightarrow>
     (\<exists>p \<in> set ps. \<exists>q \<in> set ps. sha256_collision
        (projection_canonical evidence_ref_domain (ap_candidate_ref p) (ap_projected_body p)
           (ap_projected_field_refs p) (ap_lineage p))
        (projection_canonical evidence_ref_domain (ap_candidate_ref q) (ap_projected_body q)
           (ap_projected_field_refs q) (ap_lineage q)))"

lemma evidence_refs_distinct:
  assumes "distinct (map ap_candidate_ref ps)"
    and "\<And>p. p \<in> set ps \<Longrightarrow> encodable_projection (ap_candidate_ref p) (ap_projected_body p)
           (ap_projected_field_refs p) (ap_lineage p)"
  shows "distinct (map evidence_ref_for_projection ps) \<or> evidence_refs_collide ps"
proof (rule disjCI)
  assume none: "\<not> evidence_refs_collide ps"
  let ?can = "\<lambda>p. projection_canonical evidence_ref_domain (ap_candidate_ref p) (ap_projected_body p)
    (ap_projected_field_refs p) (ap_lineage p)"
  have "inj_on evidence_ref_for_projection (set ps)"
  proof (rule inj_onI)
    fix p q
    assume mem: "p \<in> set ps" "q \<in> set ps"
      and "evidence_ref_for_projection p = evidence_ref_for_projection q"
    then have "sha256_hexdigest (?can p) = sha256_hexdigest (?can q)"
      by (simp add: evidence_ref_for_projection_def)
    with none mem have "?can p = ?can q" using hexdigest_eq unfolding evidence_refs_collide_def by blast
    then have "ap_candidate_ref p = ap_candidate_ref q"
      using projection_canonical_inject assms(2) mem by blast
    with assms(1) mem show "p = q" by (auto simp: distinct_map dest: inj_onD)
  qed
  with assms(1) show "distinct (map evidence_ref_for_projection ps)"
    by (simp add: distinct_map)
qed

lemma same_org_fragments_distinct:
  assumes "distinct (map ap_candidate_ref ps)"
    and "\<And>p q. p \<in> set ps \<Longrightarrow> q \<in> set ps \<Longrightarrow>
      cr_organization_id (ap_candidate_ref p) = cr_organization_id (ap_candidate_ref q)"
  shows "distinct (map (\<lambda>p. (cr_source_ref (ap_candidate_ref p), cr_resource_ref (ap_candidate_ref p),
    cr_revision_ref (ap_candidate_ref p), cr_fragment_ref (ap_candidate_ref p))) ps)"
proof -
  let ?id = "\<lambda>p. (cr_source_ref (ap_candidate_ref p), cr_resource_ref (ap_candidate_ref p),
    cr_revision_ref (ap_candidate_ref p), cr_fragment_ref (ap_candidate_ref p))"
  have "inj_on ?id (set ps)"
  proof (rule inj_onI)
    fix p q assume mem: "p \<in> set ps" "q \<in> set ps" and "?id p = ?id q"
    then have "ap_candidate_ref p = ap_candidate_ref q"
      using assms(2) [OF mem] by (intro CandidateRef.equality) simp_all
    with assms(1) mem show "p = q" by (auto simp: distinct_map dest: inj_onD)
  qed
  with assms(1) show ?thesis by (simp add: distinct_map)
qed

lemma items_validate:
  assumes items: "mapr content_item ps = Inr items"
    and refs: "distinct (map evidence_ref_for_projection ps)"
    and frags: "distinct (map (\<lambda>p. (cr_source_ref (ap_candidate_ref p), cr_resource_ref (ap_candidate_ref p),
      cr_revision_ref (ap_candidate_ref p), cr_fragment_ref (ap_candidate_ref p))) ps)"
    and bind: "\<And>p q. p \<in> set ps \<Longrightarrow> q \<in> set ps \<Longrightarrow> same_lineage_binding (ap_lineage p) (ap_lineage q)"
  shows "validate_package_content (map fst items) (map snd items) = Inr ()"
proof -
  have rel: "list_all2 (\<lambda>p i. item_of p (fst i) (snd i) \<and> check_block (fst i) = Inr ()
      \<and> check_evidence (snd i) = Inr ()) ps items"
    using items unfolding mapr_eq_Inr by (rule list_all2_mono) (auto intro: content_item_fields)
  then have checks: "\<forall>i \<in> set items. check_block (fst i) = Inr () \<and> check_evidence (snd i) = Inr ()"
    by (induction rule: list_all2_induct) simp_all
  have img: "map (\<lambda>i. g (fst i) (snd i)) items = map f ps"
    if "\<And>p b e. item_of p b e \<Longrightarrow> g b e = f p" for f :: "AuthorizedProjection \<Rightarrow> 'z" and g
    using rel by (induction rule: list_all2_induct) (simp_all add: that)
  have brefs: "map pb_evidence_ref (map fst items) = map evidence_ref_for_projection ps"
    using img [of "\<lambda>b e. pb_evidence_ref b"] by (simp add: item_of_def comp_def)
  have erefs: "map ev_evidence_ref (map snd items) = map evidence_ref_for_projection ps"
    using img [of "\<lambda>b e. ev_evidence_ref e"] by (simp add: item_of_def comp_def)
  have fids: "map fragment_identity (map snd items) = map (\<lambda>p. (cr_source_ref (ap_candidate_ref p),
      cr_resource_ref (ap_candidate_ref p), cr_revision_ref (ap_candidate_ref p),
      cr_fragment_ref (ap_candidate_ref p))) ps"
    using img [of "\<lambda>b e. fragment_identity e"] by (simp add: item_of_def fragment_identity_def comp_def)
  have "map ev_lineage (map snd items) = map ap_lineage ps"
    using img [of "\<lambda>b e. ev_lineage e"] by (simp add: item_of_def comp_def)
  then have lineages: "ev_lineage ` set (map snd items) = ap_lineage ` set ps"
    by (metis list.set_map)
  have "same_lineage_binding (ev_lineage a) (ev_lineage b)"
    if "a \<in> set (map snd items)" "b \<in> set (map snd items)" for a b
    using lineages that bind by (metis (no_types, lifting) imageE image_eqI)
  moreover have "hd (map snd items) \<in> set (map snd items)" if "e \<in> set (tl (map snd items))" for e
    using that by (cases items) auto
  moreover have "e \<in> set (tl (map snd items)) \<Longrightarrow> e \<in> set (map snd items)" for e
    by (cases items) auto
  moreover have "check_block b = Inr ()" if "b \<in> set (map fst items)" for b
    using checks that by auto
  moreover have "check_evidence e = Inr ()" if "e \<in> set (map snd items)" for e
    using checks that by auto
  moreover have "pb_evidence_ref ` set (map fst items) = ev_evidence_ref ` set (map snd items)"
    using brefs erefs by (metis list.set_map)
  ultimately show ?thesis
    unfolding validate_package_content_eq brefs erefs fids using refs frags by blast
qed

section \<open>Properties\<close>

text \<open>
  C10. The lifetime of authorized content: once the Kernel scope that a projection was constructed
  in is closed, and whatever other scopes are opened or closed before and after, the projection
  fails every activity check, nothing new or inherited can be projected from it, and no package
  that contains it can be built.
\<close>

theorem closed_kernel_scope_revokes_projections:
  assumes "construct_authorized_projection h t c body field_refs l = Inr p"
    and "close_authorization_kernel_scope (heap_run h before) t = Inr h'"
    and "later = heap_run h' after"
  shows "require_active_authorized_projection later p = Inl ValueError
    \<and> construct_authorized_projection later t c2 body2 fields2 l2 = Inl ValueError
    \<and> construct_inherited_authorized_projection later p c2 body2 fields2 = Inl ValueError
    \<and> (p \<in> set ps \<longrightarrow> \<not> returns (construct_package_content later ps))"
proof (intro conjI impI)
  from assms(1) have active: "scope_active AuthorizationKernelScope h t" and scope: "ap_kernel_scope p = t"
    by (simp_all add: construct_authorized_projection_eq)
  have closed: "\<not> scope_active AuthorizationKernelScope later t"
    unfolding assms(3) by (rule kernel_scope.closed_forever [OF active assms(2)])
  show raises: "require_active_authorized_projection later p = Inl ValueError"
    using closed scope by (simp add: inactive_projection_raises)
  show "construct_authorized_projection later t c2 body2 fields2 l2 = Inl ValueError"
    using closed by (simp add: construct_authorized_projection_def require_active_authorization_kernel_scope_def)
  show "construct_inherited_authorized_projection later p c2 body2 fields2 = Inl ValueError"
    using raises by (simp add: construct_inherited_authorized_projection_def)
  show "\<not> returns (construct_package_content later ps)" if "p \<in> set ps"
    using raises construct_package_content_items(5) [OF _ that] by (fastforce simp: returns_def)
qed

definition example_datetime :: datetime where
  "example_datetime = \<lparr>year = 2025, month = 6, day = 1, hour = 12, minute = 0, second = 0, microsecond = 0,
     utc_offset = Some 0\<rparr>"

definition example_candidate :: CandidateRef where
  "example_candidate = \<lparr>cr_organization_id = 1, cr_source_ref = u ''src'', cr_resource_ref = u ''res'',
     cr_revision_ref = u ''rev'', cr_fragment_ref = u ''frag''\<rparr>"

definition example_lineage :: EvidenceLineage where
  "example_lineage = \<lparr>el_run_ref = u ''run'', el_principal_ref = u ''p'', el_purpose = u ''ask'',
     el_as_of = example_datetime, el_decision_ref = u ''d'', el_policy_snapshot_ref = u ''s'',
     el_policy_epoch = 1, el_source_acl_decision_ref = u ''a'', el_source_acl_projection_ref = u ''b'',
     el_source_acl_as_of = example_datetime,
     el_source_acl_freshness_profile_ref = FILE_SOURCE_ACL_FRESHNESS_PROFILE_REF\<rparr>"

definition example_projection :: AuthorizedProjection where
  "example_projection = \<lparr>ap_candidate_ref = example_candidate, ap_projected_body = u ''text'',
     ap_projected_field_refs = [u ''body''], ap_lineage = example_lineage,
     ap_construction_provenance = Some AUTHORIZATION_KERNEL,
     ap_kernel_scope = \<lparr>tok_kind = AuthorizationKernelScope, tok_sealed = True, tok_id = 0\<rparr>,
     ap_integrity_digest = projection_integrity_digest example_candidate (u ''text'') [u ''body''] example_lineage\<rparr>"

lemma example_projection_constructed:
  "construct_authorized_projection [True] \<lparr>tok_kind = AuthorizationKernelScope, tok_sealed = True, tok_id = 0\<rparr>
     example_candidate (PStr (u ''text'')) (PTuple [PStr (u ''body'')]) example_lineage = Inr example_projection"
  by (simp add: construct_authorized_projection_eq scope_active_def example_projection_def
      validate_projected_field_refs_eq field_ref_text_def u_def blank_iff is_space_def is_lower_def
      field_ref_char_def MAX_PROJECTED_FIELD_REFS_def MAX_PROJECTED_FIELD_REF_LENGTH_def)

lemma example_projection_wf:
  "wf_candidate example_candidate" "wf_lineage example_lineage"
  by (simp_all add: wf_candidate_def example_candidate_def wf_lineage_def example_lineage_def opaque_text_def
      MAX_OPAQUE_REF_LENGTH_def u_def is_space_def is_aware_utc_def example_datetime_def max_signed64_def
      FILE_SOURCE_ACL_FRESHNESS_PROFILE_REF_def)

theorem closed_kernel_scope_revokes_projections_witness:
  "require_active_authorized_projection [True] example_projection = Inr ()
   \<and> close_authorization_kernel_scope [True] (ap_kernel_scope example_projection) = Inr [False]
   \<and> require_active_authorized_projection [False, True] example_projection = Inl ValueError
   \<and> \<not> returns (construct_package_content [False, True] [example_projection])"
proof -
  have close: "close_authorization_kernel_scope (heap_run [True] [])
      \<lparr>tok_kind = AuthorizationKernelScope, tok_sealed = True, tok_id = 0\<rparr> = Inr [False]"
    by (simp add: heap_run_def close_authorization_kernel_scope_def close_scope_def)
  have later: "[False, True] = heap_run [False] [OpenScope AuthorizationKernelScope]"
    by (simp add: heap_run_def open_scope_def)
  from closed_kernel_scope_revokes_projections [OF example_projection_constructed close later, of
      example_candidate PNone PNone example_lineage "[example_projection]"]
    constructed_projection_active [OF example_projection_constructed] close
  show ?thesis by (simp add: example_projection_def heap_run_def)
qed

text \<open>
  Tamper evidence: a projection whose candidate, body, field references or lineage were
  exchanged after construction while its digest stayed the same is accepted only if the two
  canonical encodings are an explicit SHA-256 collision.
\<close>

theorem projection_integrity_detects_mutation:
  assumes "construct_authorized_projection h t c body field_refs l = Inr p"
    and "require_active_authorized_projection h2 forged = Inr ()"
    and "ap_integrity_digest forged = ap_integrity_digest p"
    and "encodable_projection (ap_candidate_ref p) (ap_projected_body p) (ap_projected_field_refs p) (ap_lineage p)"
    and "encodable_projection (ap_candidate_ref forged) (ap_projected_body forged)
           (ap_projected_field_refs forged) (ap_lineage forged)"
  shows "(ap_candidate_ref forged = ap_candidate_ref p \<and> ap_projected_body forged = ap_projected_body p
      \<and> ap_projected_field_refs forged = ap_projected_field_refs p \<and> ap_lineage forged = ap_lineage p)
    \<or> sha256_collision
        (projection_canonical projection_domain (ap_candidate_ref forged) (ap_projected_body forged)
           (ap_projected_field_refs forged) (ap_lineage forged))
        (projection_canonical projection_domain (ap_candidate_ref p) (ap_projected_body p)
           (ap_projected_field_refs p) (ap_lineage p))"
proof -
  let ?can = "\<lambda>p. projection_canonical projection_domain (ap_candidate_ref p) (ap_projected_body p)
    (ap_projected_field_refs p) (ap_lineage p)"
  from assms(1,2,3) have "sha256_hexdigest (?can forged) = sha256_hexdigest (?can p)"
    by (simp add: construct_authorized_projection_eq require_active_authorized_projection_eq
        projection_integrity_digest_def)
  then have "?can forged = ?can p \<or> sha256_collision (?can forged) (?can p)"
    by (rule hexdigest_eq)
  then show ?thesis
    using projection_canonical_inject [OF assms(5,4)] by blast
qed

text \<open>Short ASCII texts are encodable.\<close>

definition short_ascii :: "str \<Rightarrow> bool" where
  "short_ascii s \<longleftrightarrow> list_all (\<lambda>c. c < 128) s \<and> length s \<le> 1000"

lemma encodable_short_ascii:
  assumes "short_ascii s" shows "encodable s"
proof -
  have "list_all (\<lambda>c. c < 128) s \<Longrightarrow> length (utf8_surrogatepass s) = length s"
    by (induction s) (simp_all add: utf8_surrogatepass_def length_utf8_char)
  moreover have "list_all code_point s"
    using assms by (auto simp: short_ascii_def list_all_iff code_point_def)
  ultimately show ?thesis
    using assms by (simp add: short_ascii_def encodable_def sized_def)
qed

lemma ascii_u: "list_all (\<lambda>c. c < 128) (u s) \<longleftrightarrow> list_all (\<lambda>c. (of_char c :: nat) < 128) s"
  by (simp add: u_def list_all_iff)

lemma isoformat_us_ascii: "list_all (\<lambda>c. c < 128) (isoformat_us d)" "length (isoformat_us d) \<le> 50"
proof -
  have "list_all (\<lambda>c. c < 128) (dec_pad n v)" for n v
  proof (induction n arbitrary: v)
    case (Suc n)
    have "v mod 10 < 10" by simp
    then have "48 + v mod 10 < 128" by linarith
    with Suc show ?case by simp
  qed simp
  then have "list_all (\<lambda>c. c < 128) (iso_offset off)" "list_all (\<lambda>c. c < 128) (dec_pad n v)" for off n v
    by (simp_all add: iso_offset_def Let_def ascii_u del: dec_pad.simps)
  then show "list_all (\<lambda>c. c < 128) (isoformat_us d)"
    unfolding isoformat_us_def by (simp add: ascii_u del: dec_pad.simps split: option.splits)
  have len: "length (iso_offset off) \<le> 20" for off
    by (simp add: iso_offset_def Let_def)
  show "length (isoformat_us d) \<le> 50"
    unfolding isoformat_us_def by (auto split: option.splits intro: order.trans [OF len])
qed

lemma example_projection_encodable:
  "encodable_projection example_candidate (u ''text'') [u ''body''] example_lineage"
proof -
  have "short_ascii (isoformat_us d)" for d
    using isoformat_us_ascii [of d] by (simp add: short_ascii_def)
  moreover have "dec_int 1 = u ''1''"
    by (simp add: dec_int_def u_def dec_nat.simps [of "Suc 0"])
  ultimately have "list_all short_ascii
      (projection_texts example_candidate (u ''text'') [u ''body''] example_lineage)"
    by (simp add: projection_texts_def lineage_texts_def example_candidate_def example_lineage_def
        FILE_SOURCE_ACL_FRESHNESS_PROFILE_REF_def)
      (simp add: short_ascii_def ascii_u)
  then have "list_all encodable (projection_texts example_candidate (u ''text'') [u ''body''] example_lineage)"
    by (auto simp: list_all_iff intro: encodable_short_ascii)
  then show ?thesis
    by (simp add: encodable_projection_def encodable_lineage_def projection_texts_def)
      (simp add: example_lineage_def example_datetime_def valid_datetime_def days_in_month_def)
qed

theorem projection_integrity_detects_mutation_witness:
  "require_active_authorized_projection [True] example_projection = Inr ()
   \<and> encodable_projection example_candidate (u ''text'') [u ''body''] example_lineage
   \<and> (ap_projected_body example_projection = u ''text''
      \<or> sha256_collision
          (projection_canonical projection_domain example_candidate (u ''text'') [u ''body''] example_lineage)
          (projection_canonical projection_domain example_candidate (u ''text'') [u ''body''] example_lineage))"
  using projection_integrity_detects_mutation [OF example_projection_constructed
      constructed_projection_active [OF example_projection_constructed]] example_projection_encodable
    constructed_projection_active [OF example_projection_constructed]
  by (simp add: example_projection_def)

text \<open>
  C24. What a package content is made of: it has one block and one Evidence value per projection, in
  the order of the projections; the block carries the projected body, the Evidence its exact
  locator, fields and lineage, and both the same reference; references and fragments are
  pairwise different; every projection was active, and all belong to one organization and to
  one decision.
\<close>

theorem package_content_mirrors_projections:
  assumes "construct_package_content h ps = Inr content"
  shows "length (pc_blocks content) = length ps \<and> length (pc_evidence content) = length ps
    \<and> (\<forall>i < length ps. pb_body (pc_blocks content ! i) = ap_projected_body (ps ! i)
        \<and> pb_evidence_ref (pc_blocks content ! i) = evidence_ref_for_projection (ps ! i)
        \<and> ev_evidence_ref (pc_evidence content ! i) = evidence_ref_for_projection (ps ! i)
        \<and> fragment_identity (pc_evidence content ! i)
            = (cr_source_ref (ap_candidate_ref (ps ! i)), cr_resource_ref (ap_candidate_ref (ps ! i)),
               cr_revision_ref (ap_candidate_ref (ps ! i)), cr_fragment_ref (ap_candidate_ref (ps ! i)))
        \<and> ev_projected_field_refs (pc_evidence content ! i) = ap_projected_field_refs (ps ! i)
        \<and> ev_lineage (pc_evidence content ! i) = ap_lineage (ps ! i))
    \<and> distinct (map ev_evidence_ref (pc_evidence content))
    \<and> distinct (map fragment_identity (pc_evidence content))
    \<and> (\<forall>p \<in> set ps. require_active_authorized_projection h p = Inr ())
    \<and> (\<forall>p \<in> set ps. \<forall>q \<in> set ps.
         cr_organization_id (ap_candidate_ref p) = cr_organization_id (ap_candidate_ref q)
         \<and> same_lineage_binding (ap_lineage p) (ap_lineage q))"
proof -
  note items = construct_package_content_items [OF assms]
  have "item_of (ps ! i) (pc_blocks content ! i) (pc_evidence content ! i)" if "i < length ps" for i
    using items(1,2,3) that by (auto simp: list_all2_conv_all_nth)
  then have "\<forall>i < length ps. pb_body (pc_blocks content ! i) = ap_projected_body (ps ! i)
        \<and> pb_evidence_ref (pc_blocks content ! i) = evidence_ref_for_projection (ps ! i)
        \<and> ev_evidence_ref (pc_evidence content ! i) = evidence_ref_for_projection (ps ! i)
        \<and> fragment_identity (pc_evidence content ! i)
            = (cr_source_ref (ap_candidate_ref (ps ! i)), cr_resource_ref (ap_candidate_ref (ps ! i)),
               cr_revision_ref (ap_candidate_ref (ps ! i)), cr_fragment_ref (ap_candidate_ref (ps ! i)))
        \<and> ev_projected_field_refs (pc_evidence content ! i) = ap_projected_field_refs (ps ! i)
        \<and> ev_lineage (pc_evidence content ! i) = ap_lineage (ps ! i)"
    by (simp add: item_of_def fragment_identity_def)
  moreover have "distinct (map ev_evidence_ref (pc_evidence content))"
    "distinct (map fragment_identity (pc_evidence content))"
    using items(4) by (simp_all add: validate_package_content_eq)
  moreover have "\<forall>p \<in> set ps. require_active_authorized_projection h p = Inr ()"
    using items(5) by blast
  ultimately show ?thesis
    using items(2,3) construct_package_content_uniform [OF assms] by blast
qed

text \<open>
  Construction always succeeds on well-formed input: active projections of pairwise different
  candidates of one organization and one decision give a package content, unless the encodings of
  two of them are an explicit SHA-256 collision.
\<close>

theorem construct_package_content_total:
  assumes "\<And>p. p \<in> set ps \<Longrightarrow> require_active_authorized_projection h p = Inr ()
      \<and> wf_candidate (ap_candidate_ref p) \<and> wf_lineage (ap_lineage p)
      \<and> encodable_projection (ap_candidate_ref p) (ap_projected_body p) (ap_projected_field_refs p) (ap_lineage p)"
    and "\<And>p q. p \<in> set ps \<Longrightarrow> q \<in> set ps \<Longrightarrow>
      cr_organization_id (ap_candidate_ref p) = cr_organization_id (ap_candidate_ref q)
      \<and> same_lineage_binding (ap_lineage p) (ap_lineage q)"
    and "distinct (map ap_candidate_ref ps)"
  shows "returns (construct_package_content h ps) \<or> evidence_refs_collide ps"
proof (rule disjCI)
  assume "\<not> evidence_refs_collide ps"
  then have refs: "distinct (map evidence_ref_for_projection ps)"
    using evidence_refs_distinct [OF assms(3)] assms(1) by blast
  have "list_all (\<lambda>p. \<exists>i. content_item p = Inr i) ps"
    using assms(1) content_item_total by (fastforce simp: list_all_iff)
  then obtain items where items: "mapr content_item ps = Inr items"
    by (induction ps) auto
  have "validate_package_content (map fst items) (map snd items) = Inr ()"
    using items_validate [OF items refs same_org_fragments_distinct [OF assms(3)]] assms(2) by blast
  moreover have "each (require_active_authorized_projection h) ps = Inr ()"
    using assms(1) by simp
  moreover have "require_one_decision ps = Inr ()"
  proof -
    have "p \<in> set ps \<Longrightarrow> hd ps \<in> set ps" for p by (cases ps) auto
    with assms(2) show ?thesis unfolding require_one_decision_eq by blast
  qed
  ultimately show "returns (construct_package_content h ps)"
    using items
    by (simp add: construct_package_content_def construct_validated_package_content_def
        del: each_eq_Inr each_returns)
qed

text \<open>A package content of the example projection, and its construction.\<close>

theorem construct_package_content_total_witness:
  "require_active_authorized_projection [True] example_projection = Inr ()
   \<and> returns (construct_package_content [True] [example_projection])"
proof -
  note active = constructed_projection_active [OF example_projection_constructed]
  have "returns (construct_package_content [True] [example_projection]) \<or> evidence_refs_collide [example_projection]"
  proof (rule construct_package_content_total)
    show "require_active_authorized_projection [True] p = Inr () \<and> wf_candidate (ap_candidate_ref p)
        \<and> wf_lineage (ap_lineage p) \<and> encodable_projection (ap_candidate_ref p) (ap_projected_body p)
             (ap_projected_field_refs p) (ap_lineage p)" if "p \<in> set [example_projection]" for p
      using that active example_projection_wf example_projection_encodable
      by (simp add: example_projection_def)
  qed (simp_all add: same_lineage_binding_def)
  with active show ?thesis by (simp add: evidence_refs_collide_def sha256_collision_def)
qed

lemma example_package_content:
  obtains content where "construct_package_content [True] [example_projection] = Inr content"
proof -
  note active = constructed_projection_active [OF example_projection_constructed]
  have "wf_candidate (ap_candidate_ref example_projection)" "wf_lineage (ap_lineage example_projection)"
    using example_projection_wf by (simp_all add: example_projection_def)
  from content_item_total [OF this active] obtain b e where "content_item example_projection = Inr (b, e)"
    by blast
  then have items: "mapr content_item [example_projection] = Inr [(b, e)]"
    by simp
  have "validate_package_content [b] [e] = Inr ()"
    using items_validate [OF items] by (simp add: same_lineage_binding_def)
  with items active that show ?thesis
    by (simp add: construct_package_content_def construct_validated_package_content_def
        require_one_decision_def)
qed

theorem package_content_mirrors_projections_witness:
  "\<exists>content. construct_package_content [True] [example_projection] = Inr content
     \<and> map pb_body (pc_blocks content) = [u ''text'']
     \<and> map ev_evidence_ref (pc_evidence content) = [evidence_ref_for_projection example_projection]"
proof -
  obtain content where c: "construct_package_content [True] [example_projection] = Inr content"
    by (rule example_package_content)
  with package_content_mirrors_projections [OF c] show ?thesis
    by (auto simp: example_projection_def length_Suc_conv)
qed

end
