(* ===== verification/Candidate_Ranking.thy ===== *)
theory Candidate_Ranking
  imports Evidence
begin

text \<open>
  \<open>src/engine/runtime/candidate_ranking.py\<close> and \<open>src/engine/runtime/prekernel_fusion.py\<close>: the
  content-free ranked lists an untrusted candidate index submits, the bound on a submission,
  and the fusion that deduplicates them before authorization.
\<close>

section \<open>Ranked candidates\<close>

definition MAX_CANDIDATE_SUBMISSION_CEILING :: int where
  "MAX_CANDIDATE_SUBMISSION_CEILING = 512"

definition DEFAULT_CANDIDATE_SUBMISSION_LIMIT :: int where
  "DEFAULT_CANDIDATE_SUBMISSION_LIMIT = 128"

definition MAX_SUBMITTED_RANKED_LISTS :: nat where
  "MAX_SUBMITTED_RANKED_LISTS = 8"

definition require_candidate_submission_limit :: "pyval \<Rightarrow> int res" where
  "require_candidate_submission_limit = require_int_range 1 MAX_CANDIDATE_SUBMISSION_CEILING"

definition ranker_text :: "str \<Rightarrow> bool" where
  "ranker_text s \<longleftrightarrow> s \<noteq> [] \<and> length s \<le> 64 \<and> is_lower (hd s)
     \<and> list_all (\<lambda>c. is_lower c \<or> is_digit c \<or> c = 95 \<or> c = 45) s"

fun require_ranker_ref :: "pyval \<Rightarrow> str res" where
  "require_ranker_ref (PStr s) = (if ranker_text s then Inr s else Inl ValueError)"
| "require_ranker_ref _ = Inl ValueError"

text \<open>
  \<open>isfinite\<close> converts an \<open>int\<close> to a float and raises \<open>OverflowError\<close> when it is out of range.
\<close>

fun require_optional_score :: "pyval \<Rightarrow> pyval res" where
  "require_optional_score PNone = Inr PNone"
| "require_optional_score (PInt i) =
     (if isfinite (round64 (of_int i)) then Inr (PInt i) else Inl OverflowError)"
| "require_optional_score (PFloat f) = (if isfinite f then Inr (PFloat f) else Inl ValueError)"
| "require_optional_score _ = Inl ValueError"

record RankedCandidate =
  rc_candidate_ref :: CandidateRef
  rc_score :: pyval

definition RankedCandidate_post_init :: "RankedCandidate \<Rightarrow> unit res" where
  "RankedCandidate_post_init r = bnd (require_optional_score (rc_score r)) (\<lambda>_. Inr ())"

record RankedCandidateList =
  rl_ranker_ref :: str
  rl_candidates :: "RankedCandidate list"

definition RankedCandidateList_post_init :: "RankedCandidateList \<Rightarrow> unit res" where
  "RankedCandidateList_post_init l = bnd (require_ranker_ref (PStr (rl_ranker_ref l))) (\<lambda>_. Inr ())"

record CandidateQuery =
  cq_ranked_lists :: "RankedCandidateList list"

definition CandidateQuery_post_init :: "CandidateQuery \<Rightarrow> unit res" where
  "CandidateQuery_post_init q =
     (if cq_ranked_lists q = [] then Inl ValueError
      else let identities = map rl_ranker_ref (cq_ranked_lists q)
           in if length identities \<noteq> card (set identities) then Inl ValueError else Inr ())"

definition require_bounded_candidate_submission :: "CandidateQuery \<Rightarrow> pyval \<Rightarrow> CandidateQuery res" where
  "require_bounded_candidate_submission q submission_limit =
     bnd (require_candidate_submission_limit submission_limit) (\<lambda>limit.
     bnd (CandidateQuery_post_init q) (\<lambda>_.
     bnd (each (\<lambda>l. bnd (RankedCandidateList_post_init l) (\<lambda>_.
            each RankedCandidate_post_init (rl_candidates l))) (cq_ranked_lists q)) (\<lambda>_.
       if length (cq_ranked_lists q) > MAX_SUBMITTED_RANKED_LISTS then Inl ValueError
       else let submitted = sum_list (map (\<lambda>l. int (length (rl_candidates l))) (cq_ranked_lists q))
            in if submitted > limit then Inl ValueError else Inr q)))"

section \<open>Rank evidence\<close>

record RankerEvidence =
  re_ranker_ref :: str
  re_position :: int
  re_score :: pyval

definition RankerEvidence_init :: "pyval \<Rightarrow> int \<Rightarrow> pyval \<Rightarrow> RankerEvidence res" where
  "RankerEvidence_init ranker position score =
     bnd (require_ranker_ref ranker) (\<lambda>r.
       if position < 1 then Inl ValueError
       else bnd (require_optional_score score) (\<lambda>s.
         Inr \<lparr>re_ranker_ref = r, re_position = position, re_score = s\<rparr>))"

record CandidateRankEvidence =
  ce_candidate_ref :: CandidateRef
  ce_per_ranker :: "RankerEvidence list"
  ce_fused_rank :: int

definition CandidateRankEvidence_init ::
  "CandidateRef \<Rightarrow> RankerEvidence list \<Rightarrow> int \<Rightarrow> CandidateRankEvidence res"
where
  "CandidateRankEvidence_init candidate_ref per_ranker fused_rank =
     (if per_ranker = [] then Inl ValueError
      else let identities = map re_ranker_ref per_ranker
           in if length identities \<noteq> card (set identities) then Inl ValueError
              else if fused_rank < 1 then Inl ValueError
              else Inr \<lparr>ce_candidate_ref = candidate_ref, ce_per_ranker = per_ranker,
                        ce_fused_rank = fused_rank\<rparr>)"

record FusedCandidates =
  fc_candidate_refs :: "CandidateRef list"
  fc_rank_evidence :: "CandidateRankEvidence list"

definition FusedCandidates_init ::
  "CandidateRef list \<Rightarrow> CandidateRankEvidence list \<Rightarrow> FusedCandidates res"
where
  "FusedCandidates_init refs evidence =
     (if map ce_candidate_ref evidence \<noteq> refs then Inl ValueError
      else Inr \<lparr>fc_candidate_refs = refs, fc_rank_evidence = evidence\<rparr>)"

section \<open>Fusion\<close>

text \<open>The two dicts \<open>reciprocal_scores\<close> and \<open>evidence_by_ref\<close>.\<close>

type_synonym fusion_state =
  "(CandidateRef \<times> pyfloat) list \<times> (CandidateRef \<times> RankerEvidence list) list"

text \<open>The inner loop over one ranked list: \<open>seen\<close> is \<open>seen_by_ranker\<close>, \<open>position\<close> counts from 1.\<close>

fun fuse_ranked ::
  "str \<Rightarrow> CandidateRef list \<Rightarrow> nat \<Rightarrow> RankedCandidate list \<Rightarrow> fusion_state \<Rightarrow> fusion_state res"
where
  "fuse_ranked ranker seen position [] st = Inr st"
| "fuse_ranked ranker seen position (r # rs) st =
     bnd (RankedCandidate_post_init r) (\<lambda>_.
       if rc_candidate_ref r \<in> set seen then fuse_ranked ranker seen (Suc position) rs st
       else let c = rc_candidate_ref r; (scores, evidence) = st;
                scores' = dict_put c (fadd (dict_get scores c (Fin 0)) (fdiv_pos (Fin 1) position)) scores
            in bnd (RankerEvidence_init (PStr ranker) (int position) (rc_score r)) (\<lambda>e.
                 fuse_ranked ranker (c # seen) (Suc position) rs
                   (scores', dict_put c (dict_get evidence c [] @ [e]) evidence)))"

fun fuse_lists :: "RankedCandidateList list \<Rightarrow> fusion_state \<Rightarrow> fusion_state res" where
  "fuse_lists [] st = Inr st"
| "fuse_lists (l # ls) st =
     bnd (RankedCandidateList_post_init l) (\<lambda>_.
     bnd (fuse_ranked (rl_ranker_ref l) [] 1 (rl_candidates l) st) (\<lambda>st'. fuse_lists ls st'))"

text \<open>The sort key \<open>(-score, _candidate_sort_key(ref))\<close>.\<close>

definition rank_key :: "pyfloat \<Rightarrow> CandidateRef \<Rightarrow> (int \<times> rat) \<times> bytes \<times> str \<times> str \<times> str \<times> str" where
  "rank_key score c = (fkey (fneg score), candidate_sort_key c)"

definition fuse_candidate_evidence :: "CandidateQuery \<Rightarrow> FusedCandidates res" where
  "fuse_candidate_evidence q =
     bnd (CandidateQuery_post_init q) (\<lambda>_.
     bnd (fuse_lists (cq_ranked_lists q) ([], [])) (\<lambda>(scores, evidence).
       let ordered = sort_key (\<lambda>c. rank_key (dict_get scores c (Fin 0)) c) (map fst scores)
       in bnd (mapr (\<lambda>(fused_rank, c).
                 bnd (dict_index evidence c) (\<lambda>per_ranker.
                   CandidateRankEvidence_init c per_ranker (int fused_rank)))
               (zip [1..<Suc (length ordered)] ordered)) (\<lambda>rank_evidence.
            FusedCandidates_init ordered rank_evidence)))"

section \<open>Lemmas\<close>

lemma require_ranker_ref_eq [validators]: "require_ranker_ref v = Inr s \<longleftrightarrow> v = PStr s \<and> ranker_text s"
  by (cases v) auto

definition score_ok :: "pyval \<Rightarrow> bool" where
  "score_ok v \<longleftrightarrow> require_optional_score v = Inr v"

lemma require_optional_score_eq [validators]:
  "require_optional_score v = Inr w \<longleftrightarrow> w = v \<and> score_ok v"
  by (cases v) (auto simp: score_ok_def)

definition wf_ranked_list :: "RankedCandidateList \<Rightarrow> bool" where
  "wf_ranked_list l \<longleftrightarrow> ranker_text (rl_ranker_ref l) \<and> (\<forall>r \<in> set (rl_candidates l). score_ok (rc_score r))"

definition wf_query :: "CandidateQuery \<Rightarrow> bool" where
  "wf_query q \<longleftrightarrow> cq_ranked_lists q \<noteq> [] \<and> distinct (map rl_ranker_ref (cq_ranked_lists q))
     \<and> (\<forall>l \<in> set (cq_ranked_lists q). wf_ranked_list l)"

lemma RankedCandidate_post_init_eq [validators]:
  "RankedCandidate_post_init r = Inr x \<longleftrightarrow> score_ok (rc_score r)"
  by (simp add: RankedCandidate_post_init_def validators)

lemma RankedCandidateList_post_init_eq [validators]:
  "RankedCandidateList_post_init l = Inr x \<longleftrightarrow> ranker_text (rl_ranker_ref l)"
  by (simp add: RankedCandidateList_post_init_def validators)

lemma CandidateQuery_post_init_eq [validators]:
  "CandidateQuery_post_init q = Inr x \<longleftrightarrow>
     cq_ranked_lists q \<noteq> [] \<and> distinct (map rl_ranker_ref (cq_ranked_lists q))"
  unfolding CandidateQuery_post_init_def Let_def distinct_iff_card by simp

lemma RankerEvidence_init_eq [validators]:
  "RankerEvidence_init v p s = Inr e \<longleftrightarrow>
     v = PStr (re_ranker_ref e) \<and> ranker_text (re_ranker_ref e) \<and> re_position e = p \<and> 1 \<le> p
     \<and> re_score e = s \<and> score_ok s"
  by (cases e) (auto simp: RankerEvidence_init_def validators)

lemma CandidateRankEvidence_init_eq [validators]:
  "CandidateRankEvidence_init c per k = Inr e \<longleftrightarrow>
     per \<noteq> [] \<and> distinct (map re_ranker_ref per) \<and> 1 \<le> k
     \<and> e = \<lparr>ce_candidate_ref = c, ce_per_ranker = per, ce_fused_rank = k\<rparr>"
  unfolding CandidateRankEvidence_init_def Let_def distinct_iff_card by auto

lemma candidate_sort_key_inject: "candidate_sort_key a = candidate_sort_key b \<Longrightarrow> a = b"
  by (auto simp: candidate_sort_key_def uuid_bytes_inject intro: CandidateRef.equality)

lemma rank_key_inject: "rank_key s a = rank_key t b \<Longrightarrow> a = b"
  by (simp add: rank_key_def candidate_sort_key_inject)

text \<open>
  The specification of fusion: the evidence of a candidate is, for every list it occurs in and in
  the order of the lists, its first position there; its provisional score is the running
  binary64 sum of the reciprocal positions.
\<close>

definition first_position :: "CandidateRef \<Rightarrow> RankedCandidate list \<Rightarrow> nat" where
  "first_position c rs = Suc (length (takeWhile (\<lambda>r. rc_candidate_ref r \<noteq> c) rs))"

definition first_score :: "CandidateRef \<Rightarrow> RankedCandidate list \<Rightarrow> pyval" where
  "first_score c rs = rc_score (hd (dropWhile (\<lambda>r. rc_candidate_ref r \<noteq> c) rs))"

definition refs_of :: "RankedCandidate list \<Rightarrow> CandidateRef set" where
  "refs_of rs = rc_candidate_ref ` set rs"

lemma first_position_Cons [simp]:
  "first_position c (r # rs) = (if rc_candidate_ref r = c then 1 else Suc (first_position c rs))"
  by (simp add: first_position_def)

lemma first_score_Cons [simp]:
  "first_score c (r # rs) = (if rc_candidate_ref r = c then rc_score r else first_score c rs)"
  by (simp add: first_score_def)

definition evidence_for :: "CandidateRef \<Rightarrow> RankedCandidateList list \<Rightarrow> RankerEvidence list" where
  "evidence_for c ls =
     map (\<lambda>l. \<lparr>re_ranker_ref = rl_ranker_ref l, re_position = int (first_position c (rl_candidates l)),
               re_score = first_score c (rl_candidates l)\<rparr>)
       (filter (\<lambda>l. c \<in> refs_of (rl_candidates l)) ls)"

definition reciprocal_score :: "RankerEvidence list \<Rightarrow> pyfloat" where
  "reciprocal_score es = foldl (\<lambda>a e. fadd a (fdiv_pos (Fin 1) (nat (re_position e)))) (Fin 0) es"

definition fusion_inv :: "fusion_state \<Rightarrow> bool" where
  "fusion_inv st \<longleftrightarrow> map fst (fst st) = map fst (snd st) \<and> distinct (map fst (snd st))
     \<and> (\<forall>c. dict_get (fst st) c (Fin 0) = reciprocal_score (dict_get (snd st) c []))
     \<and> (\<forall>c. c \<in> fst ` set (snd st) \<longleftrightarrow> dict_get (snd st) c [] \<noteq> [])"

lemma dict_get_put: "dict_get (dict_put k v d) k' x = (if k' = k then v else dict_get d k' x)"
  by (simp add: dict_get_def)

lemma fusion_inv_put:
  assumes "fusion_inv (scores, ev)" "re_position e = int position"
  shows "fusion_inv (dict_put c (fadd (dict_get scores c (Fin 0)) (fdiv_pos (Fin 1) position)) scores,
    dict_put c (dict_get ev c [] @ [e]) ev)"
proof -
  from assms have "map fst scores = map fst ev"
    by (simp add: fusion_inv_def)
  then have "set (map fst scores) = set (map fst ev)" by metis
  with assms show ?thesis
    unfolding fusion_inv_def fst_conv snd_conv keys_dict_put
    by (auto simp: dict_get_put reciprocal_score_def)
qed

lemma fuse_ranked_spec:
  assumes "fusion_inv st" "ranker_text ranker" "\<forall>r \<in> set rs. score_ok (rc_score r)" "1 \<le> position"
  shows "\<exists>st'. fuse_ranked ranker seen position rs st = Inr st' \<and> fusion_inv st'
    \<and> (\<forall>c. dict_get (snd st') c [] = dict_get (snd st) c []
         @ (if c \<in> refs_of rs \<and> c \<notin> set seen
            then [\<lparr>re_ranker_ref = ranker, re_position = int (position - 1 + first_position c rs),
                   re_score = first_score c rs\<rparr>]
            else []))"
  using assms
proof (induction rs arbitrary: seen position st)
  case Nil
  then show ?case by (simp add: refs_of_def)
next
  case (Cons r rs)
  let ?c = "rc_candidate_ref r"
  obtain scores ev where st: "st = (scores, ev)" by fastforce
  have post: "RankedCandidate_post_init r = Inr ()"
    using Cons.prems by (simp add: RankedCandidate_post_init_eq)
  show ?case
  proof (cases "?c \<in> set seen")
    case True
    have "fuse_ranked ranker seen position (r # rs) st = fuse_ranked ranker seen (Suc position) rs st"
      using post True by simp
    moreover have "c \<noteq> ?c" if "c \<notin> set seen" for c using that True by blast
    ultimately show ?thesis
      using Cons.IH [of st "Suc position" seen] Cons.prems True
      by (auto simp: refs_of_def simp del: fuse_ranked.simps)
  next
    case False
    define e where "e = \<lparr>re_ranker_ref = ranker, re_position = int position, re_score = rc_score r\<rparr>"
    define st1 where "st1 = (dict_put ?c (fadd (dict_get scores ?c (Fin 0)) (fdiv_pos (Fin 1) position)) scores,
      dict_put ?c (dict_get ev ?c [] @ [e]) ev)"
    have "RankerEvidence_init (PStr ranker) (int position) (rc_score r) = Inr e"
      using Cons.prems by (simp add: RankerEvidence_init_eq e_def)
    then have run: "fuse_ranked ranker seen position (r # rs) st
        = fuse_ranked ranker (?c # seen) (Suc position) rs st1"
      using post False by (simp add: st st1_def Let_def)
    have "fusion_inv st1"
      using Cons.prems(1) unfolding st st1_def by (intro fusion_inv_put) (simp_all add: e_def)
    from Cons.IH [OF this, of "Suc position" "?c # seen"] Cons.prems run show ?thesis
      using False
      by (auto simp: st st1_def dict_get_put refs_of_def e_def simp del: fuse_ranked.simps)
  qed
qed

lemma fuse_lists_spec:
  assumes "fusion_inv st" "\<forall>l \<in> set ls. wf_ranked_list l"
  shows "\<exists>st'. fuse_lists ls st = Inr st' \<and> fusion_inv st'
    \<and> (\<forall>c. dict_get (snd st') c [] = dict_get (snd st) c [] @ evidence_for c ls)"
  using assms
proof (induction ls arbitrary: st)
  case (Cons l ls)
  then have "RankedCandidateList_post_init l = Inr ()"
    by (simp add: RankedCandidateList_post_init_eq wf_ranked_list_def)
  moreover obtain st1 where st1: "fuse_ranked (rl_ranker_ref l) [] 1 (rl_candidates l) st = Inr st1"
    "fusion_inv st1"
    "\<And>c. dict_get (snd st1) c [] = dict_get (snd st) c []
       @ (if c \<in> refs_of (rl_candidates l)
          then [\<lparr>re_ranker_ref = rl_ranker_ref l, re_position = int (first_position c (rl_candidates l)),
                 re_score = first_score c (rl_candidates l)\<rparr>]
          else [])"
    using fuse_ranked_spec [of st "rl_ranker_ref l" "rl_candidates l" 1 "[]"] Cons.prems
    by (auto simp: wf_ranked_list_def)
  moreover obtain st2 where "fuse_lists ls st1 = Inr st2" "fusion_inv st2"
    "\<And>c. dict_get (snd st2) c [] = dict_get (snd st1) c [] @ evidence_for c ls"
    using Cons.IH [OF st1(2)] Cons.prems by auto
  ultimately show ?case
    by (auto simp: evidence_for_def)
qed (simp add: evidence_for_def)

lemma evidence_for_nonempty: "evidence_for c ls \<noteq> [] \<longleftrightarrow> (\<exists>l \<in> set ls. c \<in> refs_of (rl_candidates l))"
  by (auto simp: evidence_for_def filter_empty_conv)

lemma evidence_for_rankers:
  "distinct (map rl_ranker_ref ls) \<Longrightarrow> distinct (map re_ranker_ref (evidence_for c ls))"
  by (auto simp: evidence_for_def distinct_map comp_def intro: inj_on_subset)

definition fused_order :: "RankedCandidateList list \<Rightarrow> CandidateRef \<Rightarrow> (int \<times> rat) \<times> bytes \<times> str \<times> str \<times> str \<times> str" where
  "fused_order ls c = rank_key (reciprocal_score (evidence_for c ls)) c"

lemma fused_items:
  assumes "\<And>c. c \<in> set ordered \<Longrightarrow>
    dict_index ev c = Inr (E c) \<and> E c \<noteq> [] \<and> distinct (map re_ranker_ref (E c))"
  shows "mapr (\<lambda>(fused_rank, c). bnd (dict_index ev c) (\<lambda>per_ranker.
      CandidateRankEvidence_init c per_ranker (int fused_rank))) (zip [1..<Suc (length ordered)] ordered)
    = Inr (map (\<lambda>i. \<lparr>ce_candidate_ref = ordered ! i, ce_per_ranker = E (ordered ! i),
        ce_fused_rank = int (Suc i)\<rparr>) [0..<length ordered])"
    (is "mapr ?f ?zip = Inr ?items")
proof -
  let ?item = "\<lambda>p. \<lparr>ce_candidate_ref = snd p, ce_per_ranker = E (snd p), ce_fused_rank = int (fst p)\<rparr>"
  have "mapr ?f ?zip = Inr (map ?item ?zip)"
  proof (rule mapr_total)
    fix p assume "p \<in> set ?zip"
    then have "1 \<le> fst p" "snd p \<in> set ordered"
      by (auto simp: set_zip simp del: upt_Suc)
    with assms [of "snd p"] show "?f p = Inr (?item p)"
      by (simp add: split_beta CandidateRankEvidence_init_eq)
  qed
  also have "map ?item ?zip = ?items"
    by (rule nth_equalityI) (simp_all del: upt_Suc)
  finally show ?thesis .
qed

lemma fuse_candidate_evidence_spec:
  assumes "wf_query q"
  shows "\<exists>fused. fuse_candidate_evidence q = Inr fused
    \<and> distinct (fc_candidate_refs fused)
    \<and> set (fc_candidate_refs fused) = (\<Union>l \<in> set (cq_ranked_lists q). refs_of (rl_candidates l))
    \<and> sorted (map (fused_order (cq_ranked_lists q)) (fc_candidate_refs fused))
    \<and> fc_rank_evidence fused
        = map (\<lambda>i. \<lparr>ce_candidate_ref = fc_candidate_refs fused ! i,
                    ce_per_ranker = evidence_for (fc_candidate_refs fused ! i) (cq_ranked_lists q),
                    ce_fused_rank = int (Suc i)\<rparr>) [0..<length (fc_candidate_refs fused)]"
proof -
  let ?ls = "cq_ranked_lists q"
  have empty: "fusion_inv ([], [])"
    by (simp add: fusion_inv_def dict_get_def reciprocal_score_def)
  from fuse_lists_spec [OF empty] assms obtain scores ev
    where run: "fuse_lists ?ls ([], []) = Inr (scores, ev)" and inv: "fusion_inv (scores, ev)"
      and ev: "\<And>c. dict_get ev c [] = evidence_for c ?ls"
    by (force simp: wf_query_def dict_get_def)
  have score: "dict_get scores c (Fin 0) = reciprocal_score (evidence_for c ?ls)" for c
    using inv ev by (simp add: fusion_inv_def)
  have keys: "distinct (map fst scores)" "set (map fst scores) = fst ` set ev"
    using inv by (auto simp: fusion_inv_def dest: arg_cong [of _ _ set])
  have mem: "c \<in> set (map fst scores) \<longleftrightarrow> evidence_for c ?ls \<noteq> []" for c
    using inv ev keys(2) by (simp add: fusion_inv_def)
  define ordered where "ordered = sort_key (fused_order ?ls) (map fst scores)"
  have sort: "sort_key (\<lambda>c. rank_key (dict_get scores c (Fin 0)) c) (map fst scores) = ordered"
    by (simp add: ordered_def fused_order_def [abs_def] score)
  have "dict_index ev c = Inr (evidence_for c ?ls) \<and> evidence_for c ?ls \<noteq> []
      \<and> distinct (map re_ranker_ref (evidence_for c ?ls))" if "c \<in> set ordered" for c
    using that mem ev [of c] assms evidence_for_rankers
    by (auto simp: ordered_def dict_index_def dict_get_def wf_query_def split: option.splits)
  note items = fused_items [of ordered ev "\<lambda>c. evidence_for c ?ls", OF this]
  have post: "CandidateQuery_post_init q = Inr ()"
    using assms by (simp add: CandidateQuery_post_init_eq wf_query_def)
  have "fuse_candidate_evidence q = Inr \<lparr>fc_candidate_refs = ordered,
      fc_rank_evidence = map (\<lambda>i. \<lparr>ce_candidate_ref = ordered ! i,
        ce_per_ranker = evidence_for (ordered ! i) ?ls, ce_fused_rank = int (Suc i)\<rparr>) [0..<length ordered]\<rparr>"
    by (simp add: fuse_candidate_evidence_def post run Let_def sort del: upt_Suc One_nat_def length_sort)
      (simp add: items FusedCandidates_init_def comp_def map_nth del: upt_Suc One_nat_def)
  moreover have "set ordered = (\<Union>l \<in> set ?ls. refs_of (rl_candidates l))"
  proof -
    have "set ordered = {c. evidence_for c ?ls \<noteq> []}"
      unfolding ordered_def set_sort using mem by blast
    then show ?thesis unfolding evidence_for_nonempty by blast
  qed
  ultimately show ?thesis
    using keys(1) by (simp add: ordered_def)
qed

section \<open>Properties\<close>

text \<open>
  A submission that passes the bound is the submitted query itself, structurally valid, with at
  most eight ranked lists and no more candidates in total than the server's limit, which is at
  most 512; every valid query within the bounds passes.
\<close>

theorem bounded_submission_exact:
  "require_bounded_candidate_submission q limit = Inr q' \<longleftrightarrow>
     q' = q \<and> wf_query q \<and> length (cq_ranked_lists q) \<le> 8
     \<and> (\<exists>n. limit = PInt n \<and> 1 \<le> n \<and> n \<le> 512
          \<and> sum_list (map (\<lambda>l. int (length (rl_candidates l))) (cq_ranked_lists q)) \<le> n)"
proof -
  have "each (\<lambda>l. bnd (RankedCandidateList_post_init l) (\<lambda>_. each RankedCandidate_post_init (rl_candidates l)))
      (cq_ranked_lists q) = Inr () \<longleftrightarrow> (\<forall>l \<in> set (cq_ranked_lists q). wf_ranked_list l)"
    by (simp add: wf_ranked_list_def validators)
  then show ?thesis
    by (auto simp: require_bounded_candidate_submission_def require_candidate_submission_limit_def
        MAX_CANDIDATE_SUBMISSION_CEILING_def MAX_SUBMITTED_RANKED_LISTS_def validators wf_query_def Let_def
        simp del: each_eq_Inr each_returns)
qed

text \<open>
  Fusion of a valid query always succeeds. It nominates every submitted candidate exactly once
  and no other, in the order of the provisional reciprocal-rank score with ties broken by the
  locator, and its evidence for a candidate is exactly the first position the candidate has in
  every list that names it.
\<close>

theorem fusion_nominates_each_candidate_once:
  assumes "wf_query q"
  shows "\<exists>fused. fuse_candidate_evidence q = Inr fused
    \<and> distinct (fc_candidate_refs fused)
    \<and> set (fc_candidate_refs fused) = (\<Union>l \<in> set (cq_ranked_lists q). refs_of (rl_candidates l))
    \<and> sorted (map (fused_order (cq_ranked_lists q)) (fc_candidate_refs fused))
    \<and> fc_rank_evidence fused
        = map (\<lambda>i. \<lparr>ce_candidate_ref = fc_candidate_refs fused ! i,
                    ce_per_ranker = evidence_for (fc_candidate_refs fused ! i) (cq_ranked_lists q),
                    ce_fused_rank = int (Suc i)\<rparr>) [0..<length (fc_candidate_refs fused)]"
  using assms by (rule fuse_candidate_evidence_spec)

definition example_query :: CandidateQuery where
  "example_query = \<lparr>cq_ranked_lists =
     [\<lparr>rl_ranker_ref = u ''fts'', rl_candidates =
         [\<lparr>rc_candidate_ref = example_candidate, rc_score = PNone\<rparr>,
          \<lparr>rc_candidate_ref = example_candidate\<lparr>cr_fragment_ref := u ''other''\<rparr>, rc_score = PNone\<rparr>,
          \<lparr>rc_candidate_ref = example_candidate, rc_score = PNone\<rparr>]\<rparr>,
      \<lparr>rl_ranker_ref = u ''vector'', rl_candidates =
         [\<lparr>rc_candidate_ref = example_candidate, rc_score = PInt 3\<rparr>]\<rparr>]\<rparr>"

lemma round64_3: "isfinite (round64 3)"
  by code_simp

lemma example_query_wf: "wf_query example_query"
  by (simp add: wf_query_def example_query_def wf_ranked_list_def ranker_text_def score_ok_def u_def
      is_lower_def is_digit_def round64_3)

theorem fusion_nominates_each_candidate_once_witness:
  "wf_query example_query \<and> (\<exists>fused. fuse_candidate_evidence example_query = Inr fused
     \<and> mset (fc_candidate_refs fused)
         = mset [example_candidate, example_candidate\<lparr>cr_fragment_ref := u ''other''\<rparr>])"
proof -
  have diff: "example_candidate \<noteq> example_candidate\<lparr>cr_fragment_ref := u ''other''\<rparr>"
    by (simp add: example_candidate_def u_def)
  have "(\<Union>l \<in> set (cq_ranked_lists example_query). refs_of (rl_candidates l))
      = set [example_candidate, example_candidate\<lparr>cr_fragment_ref := u ''other''\<rparr>]"
    by (auto simp: example_query_def refs_of_def)
  with fusion_nominates_each_candidate_once [OF example_query_wf] obtain fused
    where run: "fuse_candidate_evidence example_query = Inr fused" and d: "distinct (fc_candidate_refs fused)"
      and set: "set (fc_candidate_refs fused)
        = set [example_candidate, example_candidate\<lparr>cr_fragment_ref := u ''other''\<rparr>]"
    by auto
  have "distinct [example_candidate, example_candidate\<lparr>cr_fragment_ref := u ''other''\<rparr>]"
    using diff by simp
  with set_eq_iff_mset_eq_distinct [OF d this] set run example_query_wf show ?thesis by blast
qed

end
