(* ===== verification/Authorized_Ranking.thy ===== *)
theory Authorized_Ranking
  imports Candidate_Ranking "HOL-Library.Sublist"
begin

text \<open>
  \<open>src/engine/runtime/authorized_ranking.py\<close>: rank evidence is rejoined with content only after
  exact authorization. Positions are recomputed over the admitted candidates alone, the weighted
  reciprocal ranks are summed in binary64, and the resulting order is packed to the token budget.
\<close>

section \<open>Weights\<close>

definition NEUTRAL_FUSED_RANK :: int where
  "NEUTRAL_FUSED_RANK = 1"

definition UNIFORM_RANKER_WEIGHT :: pyfloat where
  "UNIFORM_RANKER_WEIGHT = Fin 1"

definition GRAPH_RANKER_REF :: str where
  "GRAPH_RANKER_REF = u ''graph''"

text \<open>
  One configured weight: an exact \<open>int\<close> or \<open>float\<close>, finite and positive, converted with
  \<open>float(...)\<close>. An \<open>int\<close> outside the float range makes \<open>isfinite\<close> raise \<open>OverflowError\<close>.
\<close>

fun require_weight :: "pyval \<Rightarrow> pyfloat res" where
  "require_weight (PInt i) =
     (if \<not> isfinite (round64 (of_int i)) then Inl OverflowError
      else if i \<le> 0 then Inl ValueError else Inr (round64 (of_int i)))"
| "require_weight (PFloat f) =
     (if \<not> isfinite f then Inl ValueError
      else if fle f (Fin 0) then Inl ValueError else Inr f)"
| "require_weight _ = Inl ValueError"

text \<open>
  \<open>None\<close> weighs uniformly. The set of admitted rankers is a list here; only its elements matter,
  the result is read by key.
\<close>

definition authorized_ranker_weights ::
  "(str \<times> pyval) list option \<Rightarrow> str list \<Rightarrow> (str \<times> pyfloat) list res"
where
  "authorized_ranker_weights ranker_weights admitted =
     (case ranker_weights of
        None \<Rightarrow> Inr (map (\<lambda>r. (r, UNIFORM_RANKER_WEIGHT)) admitted)
      | Some ws \<Rightarrow>
          if \<not> set admitted \<subseteq> fst ` set ws then Inl ValueError
          else bnd (each (\<lambda>w. require_weight (snd w)) ws) (\<lambda>_.
               mapr (\<lambda>r. bnd (dict_index ws r) (\<lambda>w. bnd (require_weight w) (\<lambda>f. Inr (r, f)))) admitted))"

text \<open>\<open>RankerWeights.__post_init__\<close>: the stored mapping is the validated one.\<close>

definition RankerWeights_init :: "(str \<times> pyval) list option \<Rightarrow> (str \<times> pyfloat) list option res" where
  "RankerWeights_init vals =
     (case vals of None \<Rightarrow> Inr None
      | Some ws \<Rightarrow> if ws = [] then Inl ValueError
                   else bnd (authorized_ranker_weights (Some ws) (map fst ws)) (\<lambda>v. Inr (Some v)))"

definition HYBRID_RANKER_WEIGHTS :: "(str \<times> pyval) list option" where
  "HYBRID_RANKER_WEIGHTS =
     Some [(u ''fts'', PFloat (Fin 1)), (u ''vector'', PFloat (Fin 1)), (GRAPH_RANKER_REF, PFloat (Fin 1))]"

section \<open>Lexical one-hop ranking\<close>

text \<open>
  \<open>tokens_of\<close> stands for \<open>frozenset(re.compile("[\w]+").findall(text.casefold()))\<close>, which rests on
  the interpreter's Unicode tables.
\<close>

definition one_hop_score :: "(str \<Rightarrow> str list) \<Rightarrow> str \<Rightarrow> AuthorizedProjection \<Rightarrow> pyfloat" where
  "one_hop_score tokens_of query_text p =
     (let query_tokens = set (tokens_of query_text); body_tokens = set (tokens_of (ap_projected_body p))
      in int_truediv (card (query_tokens \<inter> body_tokens)) (card query_tokens))"

definition rank_authorized_one_hop ::
  "(str \<Rightarrow> str list) \<Rightarrow> scope_heap \<Rightarrow> pyval \<Rightarrow> AuthorizedProjection list \<Rightarrow> CandidateRankEvidence list res"
where
  "rank_authorized_one_hop tokens_of h query_text projections =
     bnd (require_nonblank query_text) (\<lambda>q.
       if tokens_of q = [] then Inr []
       else bnd (each (require_active_authorized_projection h) projections) (\<lambda>_.
         let scored = filter (\<lambda>(p, s). flt (Fin (1 / 2)) s)
                        (map (\<lambda>p. (p, one_hop_score tokens_of q p)) projections);
             ordered = sort_key (\<lambda>(p, s). rank_key s (ap_candidate_ref p)) scored
         in mapr (\<lambda>(position, p, s).
              bnd (RankerEvidence_init (PStr GRAPH_RANKER_REF) (int position) (PFloat s)) (\<lambda>e.
                CandidateRankEvidence_init (ap_candidate_ref p) [e] (int position)))
              (zip [1..<Suc (length ordered)] ordered)))"

section \<open>The join\<close>

record AuthorizedRerankItem =
  ri_projection :: AuthorizedProjection
  ri_rank_evidence :: "CandidateRankEvidence option"
  ri_fused_rank :: int

definition AuthorizedRerankItem_init ::
  "scope_heap \<Rightarrow> AuthorizedProjection \<Rightarrow> CandidateRankEvidence option \<Rightarrow> AuthorizedRerankItem res"
where
  "AuthorizedRerankItem_init h projection rank_evidence =
     bnd (require_active_authorized_projection h projection) (\<lambda>_.
       case rank_evidence of
         None \<Rightarrow> Inr \<lparr>ri_projection = projection, ri_rank_evidence = None,
                       ri_fused_rank = NEUTRAL_FUSED_RANK\<rparr>
       | Some e \<Rightarrow>
           if ce_candidate_ref e \<noteq> ap_candidate_ref projection then Inl ValueError
           else Inr \<lparr>ri_projection = projection, ri_rank_evidence = Some e,
                     ri_fused_rank = ce_fused_rank e\<rparr>)"

text \<open>The entries \<open>by_ranker\<close> collects, each with its ranker, and the keys of that dict.\<close>

definition ranker_entries :: "CandidateRankEvidence list \<Rightarrow> (str \<times> CandidateRef \<times> int) list" where
  "ranker_entries admitted =
     concat (map (\<lambda>e. map (\<lambda>r. (re_ranker_ref r, ce_candidate_ref e, re_position r)) (ce_per_ranker e)) admitted)"

definition by_ranker :: "CandidateRankEvidence list \<Rightarrow> str \<Rightarrow> (CandidateRef \<times> int) list" where
  "by_ranker admitted ranker = map snd (filter (\<lambda>x. fst x = ranker) (ranker_entries admitted))"

definition admitted_rankers :: "CandidateRankEvidence list \<Rightarrow> str list" where
  "admitted_rankers admitted = first_occurrences (map fst (ranker_entries admitted))"

definition entry_key :: "CandidateRef \<times> int \<Rightarrow> int \<times> bytes \<times> str \<times> str \<times> str \<times> str" where
  "entry_key x = (snd x, candidate_sort_key (fst x))"

text \<open>The items assigned to \<open>compacted_positions\<close>; reversed, so that a later assignment wins.\<close>

definition compacted_positions :: "CandidateRankEvidence list \<Rightarrow> ((CandidateRef \<times> str) \<times> nat) list" where
  "compacted_positions admitted =
     rev (concat (map (\<lambda>ranker.
       let ordered = sort_key entry_key (by_ranker admitted ranker)
       in map (\<lambda>(i, c, _). ((c, ranker), i)) (zip [1..<Suc (length ordered)] ordered))
       (admitted_rankers admitted)))"

definition fused_score ::
  "(str \<times> pyfloat) list \<Rightarrow> ((CandidateRef \<times> str) \<times> nat) list \<Rightarrow> CandidateRankEvidence \<Rightarrow> pyfloat res"
where
  "fused_score weights compacted e =
     bnd (mapr (\<lambda>r. bnd (dict_index weights (re_ranker_ref r)) (\<lambda>w.
                    bnd (dict_index compacted (ce_candidate_ref e, re_ranker_ref r)) (\<lambda>p.
                      Inr (fdiv_pos w p)))) (ce_per_ranker e)) (\<lambda>terms. Inr (float_sum terms))"

definition normalized_evidence ::
  "((CandidateRef \<times> str) \<times> nat) list \<Rightarrow> (CandidateRef \<times> int) list \<Rightarrow> CandidateRankEvidence
    \<Rightarrow> (CandidateRef \<times> CandidateRankEvidence) res"
where
  "normalized_evidence compacted authorized_rank e =
     bnd (mapr (\<lambda>r. bnd (dict_index compacted (ce_candidate_ref e, re_ranker_ref r)) (\<lambda>p.
                    RankerEvidence_init (PStr (re_ranker_ref r)) (int p) (re_score r)))
            (ce_per_ranker e)) (\<lambda>per_ranker.
     bnd (dict_index authorized_rank (ce_candidate_ref e)) (\<lambda>rank.
     bnd (CandidateRankEvidence_init (ce_candidate_ref e) per_ranker rank) (\<lambda>n.
       Inr (ce_candidate_ref e, n))))"

definition join_authorized_ranking ::
  "scope_heap \<Rightarrow> AuthorizedProjection list \<Rightarrow> CandidateRankEvidence list \<Rightarrow> (str \<times> pyval) list option
    \<Rightarrow> AuthorizedRerankItem list res"
where
  "join_authorized_ranking h projections rank_evidence ranker_weights =
     (if length (first_occurrences (map ce_candidate_ref rank_evidence)) \<noteq> length rank_evidence
      then Inl ValueError
      else let admitted = filter (\<lambda>e. ce_candidate_ref e \<in> ap_candidate_ref ` set projections) rank_evidence;
               compacted = compacted_positions admitted
           in bnd (authorized_ranker_weights ranker_weights (admitted_rankers admitted)) (\<lambda>weights.
              bnd (mapr (\<lambda>e. bnd (fused_score weights compacted e) (\<lambda>s. Inr (ce_candidate_ref e, s)))
                     admitted) (\<lambda>fused_scores.
              let ranked_refs = sort_key (\<lambda>c. rank_key (dict_get fused_scores c (Fin 0)) c)
                                  (map fst fused_scores);
                  authorized_rank = map (\<lambda>(rank, c). (c, 2 * int rank - 1))
                                      (zip [1..<Suc (length ranked_refs)] ranked_refs)
              in bnd (mapr (normalized_evidence compacted authorized_rank) admitted) (\<lambda>normalized.
                 let neutral_rank = (if authorized_rank = [] then NEUTRAL_FUSED_RANK
                       else (Min (set (map snd authorized_rank)) + Max (set (map snd authorized_rank))) div 2)
                 in bnd (mapr (\<lambda>p. bnd (AuthorizedRerankItem_init h p (map_of normalized (ap_candidate_ref p))) (\<lambda>i.
                            Inr (i\<lparr>ri_fused_rank := dict_get authorized_rank (ap_candidate_ref p) neutral_rank\<rparr>)))
                          projections) (\<lambda>joined.
                    Inr (sort_key (\<lambda>i. (ri_fused_rank i, candidate_sort_key (ap_candidate_ref (ri_projection i))))
                          joined))))))"

section \<open>Selection\<close>

fun select_loop :: "int \<Rightarrow> AuthorizedRerankItem list \<Rightarrow> int \<Rightarrow> AuthorizedRerankItem list res" where
  "select_loop max_tokens' [] consumed = Inr []"
| "select_loop max_tokens' (i # is) consumed =
     bnd (utf8_encode (ap_projected_body (ri_projection i))) (\<lambda>bs.
       let body_tokens = int (length bs)
       in if consumed + body_tokens > max_tokens' then select_loop max_tokens' is consumed
          else bnd (select_loop max_tokens' is (consumed + body_tokens)) (\<lambda>rest. Inr (i # rest)))"

definition select_authorized_ranking ::
  "AuthorizedRerankItem list \<Rightarrow> PackageBudget \<Rightarrow> AuthorizedRerankItem list res"
where
  "select_authorized_ranking joined budget = select_loop (max_tokens budget) joined 0"

section \<open>Lemmas: compacted positions\<close>

definition wf_rank_evidence :: "CandidateRankEvidence \<Rightarrow> bool" where
  "wf_rank_evidence e \<longleftrightarrow> ce_per_ranker e \<noteq> [] \<and> distinct (map re_ranker_ref (ce_per_ranker e))
     \<and> (\<forall>r \<in> set (ce_per_ranker e). ranker_text (re_ranker_ref r) \<and> score_ok (re_score r))"

definition wf_admitted :: "CandidateRankEvidence list \<Rightarrow> bool" where
  "wf_admitted A \<longleftrightarrow> distinct (map ce_candidate_ref A) \<and> (\<forall>e \<in> set A. wf_rank_evidence e)"

lemma by_ranker_Cons:
  "by_ranker (e # A) ranker =
     map (\<lambda>r. (ce_candidate_ref e, re_position r)) (filter (\<lambda>r. re_ranker_ref r = ranker) (ce_per_ranker e))
     @ by_ranker A ranker"
  by (simp add: by_ranker_def ranker_entries_def filter_map comp_def)

lemma by_ranker_Nil [simp]: "by_ranker [] ranker = []"
  by (simp add: by_ranker_def ranker_entries_def)

lemma mem_by_ranker:
  "(c, p) \<in> set (by_ranker A ranker) \<longleftrightarrow>
     (\<exists>e \<in> set A. ce_candidate_ref e = c \<and> (\<exists>r \<in> set (ce_per_ranker e). re_ranker_ref r = ranker \<and> re_position r = p))"
  by (induction A) (auto simp: by_ranker_Cons)

lemma filter_distinct_key: "distinct (map f xs) \<Longrightarrow> length (filter (\<lambda>x. f x = k) xs) \<le> 1"
proof (induction xs)
  case (Cons x xs)
  have "filter (\<lambda>y. f y = f x) xs = []" if "f x \<notin> f ` set xs"
    using that by (auto simp: filter_empty_conv) (metis image_eqI)
  with Cons show ?case by auto
qed simp

lemma distinct_by_ranker: "wf_admitted A \<Longrightarrow> distinct (map fst (by_ranker A ranker))"
proof (induction A)
  case (Cons e A)
  then have "length (filter (\<lambda>r. re_ranker_ref r = ranker) (ce_per_ranker e)) \<le> 1"
    by (intro filter_distinct_key) (simp add: wf_admitted_def wf_rank_evidence_def)
  then have "distinct (map (\<lambda>_. ce_candidate_ref e) (filter (\<lambda>r. re_ranker_ref r = ranker) (ce_per_ranker e)))"
    by (cases "filter (\<lambda>r. re_ranker_ref r = ranker) (ce_per_ranker e)") auto
  moreover have "ce_candidate_ref e \<notin> fst ` set (by_ranker A ranker)"
  proof
    assume "ce_candidate_ref e \<in> fst ` set (by_ranker A ranker)"
    then obtain p where "(ce_candidate_ref e, p) \<in> set (by_ranker A ranker)" by force
    then have "ce_candidate_ref e \<in> ce_candidate_ref ` set A"
      unfolding mem_by_ranker by (metis image_eqI)
    with Cons.prems show False by (simp add: wf_admitted_def)
  qed
  ultimately show ?case
    using Cons by (auto simp: by_ranker_Cons comp_def wf_admitted_def)
qed simp

text \<open>The place of an entry among the entries of its ranker.\<close>

definition place :: "CandidateRankEvidence list \<Rightarrow> str \<Rightarrow> CandidateRef \<times> int \<Rightarrow> nat" where
  "place A ranker x = Suc (card {y \<in> set (by_ranker A ranker). entry_key y < entry_key x})"

lemma entry_key_inject: "entry_key x = entry_key y \<Longrightarrow> x = y"
  by (cases x; cases y) (auto simp: entry_key_def dest: candidate_sort_key_inject)

lemma distinct_tagged:
  assumes "distinct rs" "\<And>r. r \<in> set rs \<Longrightarrow> distinct (map fst (f r)) \<and> (\<forall>x \<in> set (f r). snd (fst x) = r)"
  shows "distinct (map fst (concat (map f rs)))"
  using assms
proof (induction rs)
  case (Cons r rs)
  have "snd ` fst ` set (f r) \<subseteq> {r}"
    using Cons.prems(2) [of r] by auto
  moreover have "snd ` fst ` set (concat (map f rs)) \<subseteq> set rs"
    using Cons.prems(2) by fastforce
  moreover have "r \<notin> set rs" using Cons.prems(1) by simp
  ultimately have "fst ` set (f r) \<inter> fst ` set (concat (map f rs)) = {}"
    by blast
  with Cons show ?case by auto
qed simp

lemma enumerate_from_1:
  "(k, y) \<in> set (zip [1..<Suc (length ys)] ys) \<longleftrightarrow> (\<exists>i < length ys. k = Suc i \<and> y = ys ! i)"
proof
  assume "\<exists>i < length ys. k = Suc i \<and> y = ys ! i"
  then obtain i where i: "i < length ys" "k = Suc i" "y = ys ! i" by blast
  then have "[1..<Suc (length ys)] ! i = k" by (simp del: upt_Suc)
  with i show "(k, y) \<in> set (zip [1..<Suc (length ys)] ys)"
    by (auto simp: in_set_zip simp del: upt_Suc intro!: exI [of _ i])
qed (auto simp: set_zip simp del: upt_Suc)

lemma compacted_lookup:
  assumes wf: "wf_admitted A" and mem: "e \<in> set A" "r \<in> set (ce_per_ranker e)"
  shows "dict_index (compacted_positions A) (ce_candidate_ref e, re_ranker_ref r)
    = Inr (place A (re_ranker_ref r) (ce_candidate_ref e, re_position r))"
proof -
  let ?x = "(ce_candidate_ref e, re_position r)" and ?rr = "re_ranker_ref r"
  let ?group = "\<lambda>ranker. let ordered = sort_key entry_key (by_ranker A ranker)
    in map (\<lambda>(i, c, _). ((c, ranker), i)) (zip [1..<Suc (length ordered)] ordered)"
  have keys: "map fst (?group ranker) = map (\<lambda>x. (fst x, ranker)) (sort_key entry_key (by_ranker A ranker))"
    for ranker
    by (rule nth_equalityI) (simp_all add: Let_def split_beta del: upt_Suc)
  have "distinct (map fst (?group ranker)) \<and> (\<forall>x \<in> set (?group ranker). snd (fst x) = ranker)" for ranker
  proof
    have "distinct (map (\<lambda>x. (fst x, ranker)) (sort_key entry_key (by_ranker A ranker)))"
      using distinct_by_ranker [OF wf, of ranker]
      by (auto simp: distinct_map inj_on_def)
    then show "distinct (map fst (?group ranker))" unfolding keys .
  qed (auto simp: Let_def split_beta)
  then have distinct: "distinct (map fst (compacted_positions A))"
    unfolding compacted_positions_def rev_map [symmetric] distinct_rev
    by (intro distinct_tagged) (simp_all add: admitted_rankers_def)
  have x: "?x \<in> set (by_ranker A ?rr)"
    using mem unfolding mem_by_ranker by blast
  then obtain i where i: "i < length (by_ranker A ?rr)" "sort_key entry_key (by_ranker A ?rr) ! i = ?x"
    by (metis in_set_conv_nth length_sort set_sort)
  have "distinct (by_ranker A ?rr)"
    using distinct_by_ranker [OF wf] by (simp add: distinct_map)
  then have "place A ?rr ?x = Suc i"
    using sort_key_place [of "by_ranker A ?rr" entry_key i] i entry_key_inject
    by (simp add: place_def inj_on_def)
  moreover have "(Suc i, ?x) \<in> set (zip [1..<Suc (length (sort_key entry_key (by_ranker A ?rr)))]
      (sort_key entry_key (by_ranker A ?rr)))"
    unfolding enumerate_from_1 using i by auto
  then have "((ce_candidate_ref e, ?rr), Suc i) \<in> set (?group ?rr)"
    unfolding Let_def set_map by (rule rev_image_eqI) simp
  moreover have "?rr \<in> set (admitted_rankers A)"
    using mem by (force simp: admitted_rankers_def ranker_entries_def)
  ultimately have "((ce_candidate_ref e, ?rr), place A ?rr ?x) \<in> set (compacted_positions A)"
    unfolding compacted_positions_def by auto
  with distinct show ?thesis by (simp add: dict_index_def)
qed

section \<open>Lemmas: weights, scores and ranks\<close>

definition weight_of :: "(str \<times> pyval) list option \<Rightarrow> str \<Rightarrow> pyfloat" where
  "weight_of ranker_weights ranker =
     (case ranker_weights of None \<Rightarrow> UNIFORM_RANKER_WEIGHT
      | Some ws \<Rightarrow> (case map_of ws ranker of None \<Rightarrow> UNIFORM_RANKER_WEIGHT
          | Some w \<Rightarrow> (case require_weight w of Inl _ \<Rightarrow> UNIFORM_RANKER_WEIGHT | Inr f \<Rightarrow> f)))"

definition weights_check :: "(str \<times> pyval) list option \<Rightarrow> str set \<Rightarrow> unit res" where
  "weights_check ranker_weights rankers =
     (case ranker_weights of None \<Rightarrow> Inr ()
      | Some ws \<Rightarrow> if \<not> rankers \<subseteq> fst ` set ws then Inl ValueError
                   else each (\<lambda>w. require_weight (snd w)) ws)"

text \<open>The validation depends only on the set of admitted rankers.\<close>

lemma authorized_ranker_weights_eq:
  "authorized_ranker_weights w rankers =
     bnd (weights_check w (set rankers)) (\<lambda>_. Inr (map (\<lambda>r. (r, weight_of w r)) rankers))"
proof (cases w)
  case None
  then show ?thesis
    by (simp add: authorized_ranker_weights_def weights_check_def weight_of_def)
next
  case (Some ws)
  have "mapr (\<lambda>r. bnd (dict_index ws r) (\<lambda>w. bnd (require_weight w) (\<lambda>f. Inr (r, f)))) rankers
      = Inr (map (\<lambda>r. (r, weight_of w r)) rankers)"
    if sub: "set rankers \<subseteq> fst ` set ws" and ok: "each (\<lambda>w. require_weight (snd w)) ws = Inr x" for x
  proof (rule mapr_total)
    fix r assume "r \<in> set rankers"
    with sub have "r \<in> dom (map_of ws)" by (auto simp: dom_map_of_conv_image_fst)
    then obtain v where v: "map_of ws r = Some v" by blast
    then have "(r, v) \<in> set ws" by (rule map_of_SomeD)
    with ok obtain f where "require_weight v = Inr f" by fastforce
    with v Some show "bnd (dict_index ws r) (\<lambda>w. bnd (require_weight w) (\<lambda>f. Inr (r, f)))
        = Inr (r, weight_of w r)"
      by (simp add: dict_index_def weight_of_def)
  qed
  with Some show ?thesis
    by (cases "each (\<lambda>w. require_weight (snd w)) ws")
      (simp_all add: authorized_ranker_weights_def weights_check_def del: each_eq_Inr each_returns)
qed

lemma weight_lookup: "r \<in> set rankers \<Longrightarrow> dict_index (map (\<lambda>r. (r, f r)) rankers) r = Inr (f r)"
  by (simp add: dict_index_def map_of_map_restrict)

definition score_spec :: "CandidateRankEvidence list \<Rightarrow> (str \<times> pyval) list option \<Rightarrow> CandidateRankEvidence \<Rightarrow> pyfloat" where
  "score_spec A w e =
     float_sum (map (\<lambda>r. fdiv_pos (weight_of w (re_ranker_ref r))
                  (place A (re_ranker_ref r) (ce_candidate_ref e, re_position r))) (ce_per_ranker e))"

lemma fused_score_eq:
  assumes "wf_admitted A" "e \<in> set A"
  shows "fused_score (map (\<lambda>r. (r, weight_of w r)) (admitted_rankers A)) (compacted_positions A) e
    = Inr (score_spec A w e)"
proof -
  have "r \<in> set (ce_per_ranker e) \<Longrightarrow> re_ranker_ref r \<in> set (admitted_rankers A)" for r
    using assms(2) by (force simp: admitted_rankers_def ranker_entries_def)
  then have "mapr (\<lambda>r. bnd (dict_index (map (\<lambda>r. (r, weight_of w r)) (admitted_rankers A)) (re_ranker_ref r)) (\<lambda>w.
          bnd (dict_index (compacted_positions A) (ce_candidate_ref e, re_ranker_ref r)) (\<lambda>p.
            Inr (fdiv_pos w p)))) (ce_per_ranker e)
      = Inr (map (\<lambda>r. fdiv_pos (weight_of w (re_ranker_ref r))
          (place A (re_ranker_ref r) (ce_candidate_ref e, re_position r))) (ce_per_ranker e))"
    using assms by (intro mapr_total) (simp add: compacted_lookup weight_lookup)
  then show ?thesis by (simp add: fused_score_def score_spec_def)
qed

definition evidence_of :: "CandidateRankEvidence list \<Rightarrow> CandidateRef \<Rightarrow> CandidateRankEvidence option" where
  "evidence_of A c = map_of (map (\<lambda>e. (ce_candidate_ref e, e)) A) c"

lemma evidence_of_map:
  "map_of (map (\<lambda>e. (ce_candidate_ref e, g e)) A) c = map_option g (evidence_of A c)"
  unfolding evidence_of_def by (induction A) auto

lemma evidence_of_mem:
  assumes "distinct (map ce_candidate_ref A)" "e \<in> set A"
  shows "evidence_of A (ce_candidate_ref e) = Some e"
  using assms by (simp add: evidence_of_def comp_def)

lemma evidence_of_Some: "evidence_of A c = Some e \<Longrightarrow> e \<in> set A \<and> ce_candidate_ref e = c"
  by (auto simp: evidence_of_def dest!: map_of_SomeD)

lemma evidence_of_None: "evidence_of A c = None \<longleftrightarrow> c \<notin> ce_candidate_ref ` set A"
  by (simp add: evidence_of_def map_of_eq_None_iff image_image)

definition rank_key_of :: "CandidateRankEvidence list \<Rightarrow> (str \<times> pyval) list option \<Rightarrow> CandidateRankEvidence
    \<Rightarrow> (int \<times> rat) \<times> bytes \<times> str \<times> str \<times> str \<times> str" where
  "rank_key_of A w e = rank_key (score_spec A w e) (ce_candidate_ref e)"

definition rank_of :: "CandidateRankEvidence list \<Rightarrow> (str \<times> pyval) list option \<Rightarrow> CandidateRankEvidence \<Rightarrow> int" where
  "rank_of A w e = 2 * int (Suc (card {e' \<in> set A. rank_key_of A w e' < rank_key_of A w e})) - 1"

lemma rank_key_of_inj: "distinct (map ce_candidate_ref A) \<Longrightarrow> inj_on (rank_key_of A w) (set A)"
  by (auto simp: inj_on_def rank_key_of_def distinct_map dest: rank_key_inject)

text \<open>The dict \<open>authorized_rank\<close>, read by key.\<close>

lemma authorized_rank_lookup:
  assumes wf: "wf_admitted A"
    and fs: "fused_scores = map (\<lambda>e. (ce_candidate_ref e, score_spec A w e)) A"
    and rr: "ranked_refs = sort_key (\<lambda>c. rank_key (dict_get fused_scores c (Fin 0)) c) (map fst fused_scores)"
    and ar: "authorized_rank = map (\<lambda>(rank, c). (c, 2 * int rank - 1)) (zip [1..<Suc (length ranked_refs)] ranked_refs)"
  shows "map_of authorized_rank c = map_option (rank_of A w) (evidence_of A c)"
    and "map snd authorized_rank = map (\<lambda>i. 2 * int (Suc i) - 1) [0..<length A]"
proof -
  have d: "distinct (map ce_candidate_ref A)" using wf by (simp add: wf_admitted_def)
  have get: "dict_get fused_scores (ce_candidate_ref e) (Fin 0) = score_spec A w e" if "e \<in> set A" for e
  proof -
    have "map_of fused_scores (ce_candidate_ref e) = Some (score_spec A w e)"
      unfolding fs using d that by (intro map_of_is_SomeI) (auto simp: comp_def)
    then show ?thesis by (simp add: dict_get_def)
  qed
  let ?s = "sort_key (rank_key_of A w) A"
  have "sorted (map (\<lambda>c. rank_key (dict_get fused_scores c (Fin 0)) c) (map ce_candidate_ref ?s))"
  proof -
    have eq: "map (\<lambda>c. rank_key (dict_get fused_scores c (Fin 0)) c) (map ce_candidate_ref ?s)
        = map (rank_key_of A w) ?s"
      using get by (simp add: rank_key_of_def)
    show ?thesis unfolding eq by simp
  qed
  then have refs: "ranked_refs = map ce_candidate_ref ?s"
    unfolding rr by (intro sort_key_inj_key_eq) (auto simp: fs comp_def inj_on_def dest: rank_key_inject)
  then have len: "length ranked_refs = length A" by simp
  have keys: "map fst authorized_rank = ranked_refs"
    unfolding ar by (rule nth_equalityI) (simp_all add: split_beta del: upt_Suc)
  have dist: "distinct (map fst authorized_rank)"
    unfolding keys refs using d by (simp add: distinct_map)
  show "map snd authorized_rank = map (\<lambda>i. 2 * int (Suc i) - 1) [0..<length A]"
    unfolding ar by (rule nth_equalityI) (simp_all add: split_beta len del: upt_Suc)
  show "map_of authorized_rank c = map_option (rank_of A w) (evidence_of A c)"
  proof (cases "evidence_of A c")
    case None
    then have "c \<notin> set (map fst authorized_rank)"
      unfolding keys refs by (simp add: evidence_of_None)
    with None show ?thesis by (simp add: map_of_eq_None_iff)
  next
    case (Some e)
    then have e: "e \<in> set A" "ce_candidate_ref e = c" by (auto dest: evidence_of_Some)
    then obtain i where i: "i < length A" "?s ! i = e"
      by (metis in_set_conv_nth length_sort set_sort)
    have "distinct A" using d by (simp add: distinct_map)
    then have "rank_of A w e = 2 * int (Suc i) - 1"
      using sort_key_place [OF _ rank_key_of_inj [OF d, of w] i(1)] i by (simp add: rank_of_def)
    moreover have "(Suc i, c) \<in> set (zip [1..<Suc (length ranked_refs)] ranked_refs)"
      unfolding enumerate_from_1 using i e refs by auto
    then have "(c, 2 * int (Suc i) - 1) \<in> set authorized_rank"
      unfolding ar set_map by (rule rev_image_eqI) simp
    ultimately show ?thesis
      using dist Some by simp
  qed
qed

lemma neutral_rank_eq:
  assumes "map snd authorized_rank = map (\<lambda>i. 2 * int (Suc i) - 1) [0..<n]"
  shows "(if authorized_rank = [] then NEUTRAL_FUSED_RANK
    else (Min (set (map snd authorized_rank)) + Max (set (map snd authorized_rank))) div 2) = max 1 (int n)"
proof (cases n)
  case 0
  with assms show ?thesis by (simp add: NEUTRAL_FUSED_RANK_def)
next
  case (Suc m)
  let ?S = "(\<lambda>i. 2 * int (Suc i) - 1) ` {0..<n}"
  have set: "set (map snd authorized_rank) = ?S" unfolding assms by simp
  have "Min ?S = 1"
    using Suc by (intro Min_eqI) (auto intro!: rev_image_eqI [of 0])
  moreover have "Max ?S = 2 * int n - 1"
    using Suc by (intro Max_eqI) (auto intro!: rev_image_eqI [of m])
  moreover have "authorized_rank \<noteq> []" using assms Suc by force
  ultimately show ?thesis
    unfolding set using Suc by simp
qed

definition normalized_spec ::
  "CandidateRankEvidence list \<Rightarrow> (str \<times> pyval) list option \<Rightarrow> CandidateRankEvidence \<Rightarrow> CandidateRankEvidence"
where
  "normalized_spec A w e =
     \<lparr>ce_candidate_ref = ce_candidate_ref e,
      ce_per_ranker = map (\<lambda>r. \<lparr>re_ranker_ref = re_ranker_ref r,
          re_position = int (place A (re_ranker_ref r) (ce_candidate_ref e, re_position r)),
          re_score = re_score r\<rparr>) (ce_per_ranker e),
      ce_fused_rank = rank_of A w e\<rparr>"

definition item_spec ::
  "CandidateRankEvidence list \<Rightarrow> (str \<times> pyval) list option \<Rightarrow> AuthorizedProjection \<Rightarrow> AuthorizedRerankItem"
where
  "item_spec A w p =
     \<lparr>ri_projection = p,
      ri_rank_evidence = map_option (normalized_spec A w) (evidence_of A (ap_candidate_ref p)),
      ri_fused_rank = (case evidence_of A (ap_candidate_ref p) of
          None \<Rightarrow> max 1 (int (length A)) | Some e \<Rightarrow> rank_of A w e)\<rparr>"

definition item_key :: "AuthorizedRerankItem \<Rightarrow> int \<times> bytes \<times> str \<times> str \<times> str \<times> str" where
  "item_key i = (ri_fused_rank i, candidate_sort_key (ap_candidate_ref (ri_projection i)))"

lemma normalized_evidence_eq:
  assumes wf: "wf_admitted A" and e: "e \<in> set A"
    and rank: "\<And>c. map_of authorized_rank c = map_option (rank_of A w) (evidence_of A c)"
  shows "normalized_evidence (compacted_positions A) authorized_rank e
    = Inr (ce_candidate_ref e, normalized_spec A w e)"
proof -
  let ?pos = "\<lambda>r. place A (re_ranker_ref r) (ce_candidate_ref e, re_position r)"
  have we: "wf_rank_evidence e" using wf e by (simp add: wf_admitted_def)
  have "mapr (\<lambda>r. bnd (dict_index (compacted_positions A) (ce_candidate_ref e, re_ranker_ref r)) (\<lambda>p.
          RankerEvidence_init (PStr (re_ranker_ref r)) (int p) (re_score r))) (ce_per_ranker e)
      = Inr (map (\<lambda>r. \<lparr>re_ranker_ref = re_ranker_ref r, re_position = int (?pos r), re_score = re_score r\<rparr>)
          (ce_per_ranker e))"
    using we by (intro mapr_total)
      (auto simp: compacted_lookup [OF wf e] RankerEvidence_init_eq wf_rank_evidence_def place_def)
  moreover have "dict_index authorized_rank (ce_candidate_ref e) = Inr (rank_of A w e)"
    using wf e by (simp add: dict_index_def rank evidence_of_mem wf_admitted_def)
  moreover have "1 \<le> rank_of A w e" by (simp add: rank_of_def)
  ultimately show ?thesis
    using we
    by (simp add: normalized_evidence_def normalized_spec_def CandidateRankEvidence_init_eq
        wf_rank_evidence_def comp_def)
qed

lemma require_active_raises:
  "require_active_authorized_projection h p = Inr () \<or> require_active_authorized_projection h p = Inl ValueError"
proof (cases "validate_projected_field_refs (PTuple (map PStr (ap_projected_field_refs p)))")
  case (Inl e)
  have "mapr require_field_ref vs = Inl e \<Longrightarrow> e = ValueError" for vs e
    by (induction vs) (auto simp: bnd_eq_Inl split: if_splits elim!: require_field_ref.elims)
  with Inl have "e = ValueError"
    by (auto simp: validate_projected_field_refs.simps bnd_eq_Inl split: if_splits)
  with Inl show ?thesis
    by (auto simp: require_active_authorized_projection_def require_active_authorization_kernel_scope_def
        require_nonblank_body_def)
qed (auto simp: require_active_authorized_projection_def require_active_authorization_kernel_scope_def
    require_nonblank_body_def)

lemma join_items:
  assumes "\<And>p. p \<in> set ps \<Longrightarrow> f p = (if active p then Inr (g p) else Inl ValueError)"
  shows "mapr f ps = (if \<forall>p \<in> set ps. active p then Inr (map g ps) else Inl ValueError)"
  using assms by (induction ps) auto

text \<open>The join in closed form.\<close>

lemma join_authorized_ranking_eq:
  assumes "distinct (map ce_candidate_ref ev)"
    and A: "A = filter (\<lambda>e. ce_candidate_ref e \<in> ap_candidate_ref ` set ps) ev"
    and wf: "\<forall>e \<in> set A. wf_rank_evidence e"
  shows "join_authorized_ranking h ps ev w =
    bnd (weights_check w (set (admitted_rankers A))) (\<lambda>_.
      if \<forall>p \<in> set ps. require_active_authorized_projection h p = Inr ()
      then Inr (sort_key item_key (map (item_spec A w) ps)) else Inl ValueError)"
proof -
  have wfA: "wf_admitted A"
    using assms by (auto simp: wf_admitted_def distinct_map_filter)
  define fs where "fs = map (\<lambda>e. (ce_candidate_ref e, score_spec A w e)) A"
  define rr where "rr = sort_key (\<lambda>c. rank_key (dict_get fs c (Fin 0)) c) (map fst fs)"
  define ar where "ar = map (\<lambda>(rank, c). (c, 2 * int rank - 1)) (zip [1..<Suc (length rr)] rr)"
  note rank = authorized_rank_lookup [OF wfA fs_def rr_def ar_def]
  have scores: "mapr (\<lambda>e. bnd (fused_score (map (\<lambda>r. (r, weight_of w r)) (admitted_rankers A))
      (compacted_positions A) e) (\<lambda>s. Inr (ce_candidate_ref e, s))) A = Inr fs"
    unfolding fs_def by (rule mapr_total) (simp add: fused_score_eq [OF wfA])
  define norm where "norm = map (\<lambda>e. (ce_candidate_ref e, normalized_spec A w e)) A"
  have normalized: "mapr (normalized_evidence (compacted_positions A) ar) A = Inr norm"
    unfolding norm_def by (rule mapr_total) (rule normalized_evidence_eq [OF wfA _ rank(1)])
  have "map_of norm c = map_option (normalized_spec A w) (evidence_of A c)" for c
    unfolding norm_def by (rule evidence_of_map)
  then have items: "mapr (\<lambda>p. bnd (AuthorizedRerankItem_init h p (map_of norm (ap_candidate_ref p))) (\<lambda>i.
        Inr (i\<lparr>ri_fused_rank := dict_get ar (ap_candidate_ref p) (max 1 (int (length A)))\<rparr>))) ps
      = (if \<forall>p \<in> set ps. require_active_authorized_projection h p = Inr ()
         then Inr (map (item_spec A w) ps) else Inl ValueError)"
    using require_active_raises [of h]
    by (intro join_items)
      (force simp: AuthorizedRerankItem_init_def item_spec_def dict_get_def rank(1) normalized_spec_def
        dest: evidence_of_Some split: option.splits)
  have "length (first_occurrences (map ce_candidate_ref ev)) = length ev"
    using assms(1) length_first_occurrences [of "map ce_candidate_ref ev"] by simp
  then show ?thesis
    unfolding join_authorized_ranking_def A [symmetric] Let_def authorized_ranker_weights_eq bnd_assoc
      bnd_Inr scores rr_def [symmetric] ar_def [symmetric] normalized neutral_rank_eq [OF rank(2)] items
    by (cases "\<forall>p \<in> set ps. require_active_authorized_projection h p = Inr ()")
      (auto simp: item_key_def [abs_def])
qed

section \<open>Lemmas: only the relative order of positions matters\<close>

text \<open>
  Evidence whose positions are moved by a function per ranker, and whose provisional fused rank is
  anything.
\<close>

definition shift :: "(str \<Rightarrow> int \<Rightarrow> int) \<Rightarrow> (CandidateRankEvidence \<Rightarrow> int) \<Rightarrow> CandidateRankEvidence \<Rightarrow> CandidateRankEvidence" where
  "shift f g e = \<lparr>ce_candidate_ref = ce_candidate_ref e,
     ce_per_ranker = map (\<lambda>r. r\<lparr>re_position := f (re_ranker_ref r) (re_position r)\<rparr>) (ce_per_ranker e),
     ce_fused_rank = g e\<rparr>"

definition order_preserving :: "CandidateRankEvidence list \<Rightarrow> (str \<Rightarrow> int \<Rightarrow> int) \<Rightarrow> bool" where
  "order_preserving A f \<longleftrightarrow>
     (\<forall>ranker. \<forall>x \<in> set (by_ranker A ranker). \<forall>y \<in> set (by_ranker A ranker).
        snd x < snd y \<longrightarrow> f ranker (snd x) < f ranker (snd y))"

lemma shift_sel [simp]: "ce_candidate_ref (shift f g e) = ce_candidate_ref e"
  by (simp add: shift_def)

lemma set_admitted_rankers:
  "set (admitted_rankers A) = (\<Union>e \<in> set A. re_ranker_ref ` set (ce_per_ranker e))"
  unfolding admitted_rankers_def set_first_occurrences
  by (induction A) (simp_all add: ranker_entries_def image_Un image_image)

lemma admitted_rankers_shift:
  assumes "set A' = shift f g ` set A"
  shows "set (admitted_rankers A') = set (admitted_rankers A)"
  unfolding set_admitted_rankers assms by (simp add: shift_def image_image)

lemma by_ranker_shift:
  assumes "set A' = shift f g ` set A"
  shows "set (by_ranker A' ranker) = (\<lambda>(c, p). (c, f ranker p)) ` set (by_ranker A ranker)"
proof -
  have "x \<in> set (by_ranker A' ranker) \<longleftrightarrow> x \<in> (\<lambda>(c, p). (c, f ranker p)) ` set (by_ranker A ranker)" for x
  proof (cases x)
    case (Pair c p)
    have "(c, p) \<in> set (by_ranker A' ranker) \<longleftrightarrow> (\<exists>e \<in> set A. ce_candidate_ref e = c
        \<and> (\<exists>r \<in> set (ce_per_ranker e). re_ranker_ref r = ranker \<and> f ranker (re_position r) = p))"
      unfolding mem_by_ranker assms by (auto simp: shift_def)
    also have "\<dots> \<longleftrightarrow> (\<exists>q. (c, q) \<in> set (by_ranker A ranker) \<and> f ranker q = p)"
      unfolding mem_by_ranker by blast
    finally show ?thesis unfolding Pair by force
  qed
  then show ?thesis by blast
qed

lemma place_shift:
  assumes A': "set A' = shift f g ` set A" and f: "order_preserving A f"
    and x: "(c, p) \<in> set (by_ranker A ranker)"
  shows "place A' ranker (c, f ranker p) = place A ranker (c, p)"
proof -
  let ?m = "\<lambda>(c, p). (c, f ranker p)" and ?B = "set (by_ranker A ranker)"
  have mono: "f ranker (snd y) < f ranker (snd z) \<longleftrightarrow> snd y < snd z"
    and inj: "f ranker (snd y) = f ranker (snd z) \<longleftrightarrow> snd y = snd z" if "y \<in> ?B" "z \<in> ?B" for y z
    using f that unfolding order_preserving_def by (metis less_asym linorder_less_linear)+
  have key: "entry_key (?m y) < entry_key (?m (c, p)) \<longleftrightarrow> entry_key y < entry_key (c, p)" if "y \<in> ?B" for y
    using mono [OF that x] inj [OF that x] by (auto simp: entry_key_def split_beta)
  have "{y \<in> set (by_ranker A' ranker). entry_key y < entry_key (?m (c, p))}
      = ?m ` {y \<in> ?B. entry_key y < entry_key (c, p)}"
    unfolding by_ranker_shift [OF A'] using key by auto
  moreover have "inj_on ?m {y \<in> ?B. entry_key y < entry_key (c, p)}"
    using inj by (auto simp: inj_on_def)
  ultimately show ?thesis by (simp add: place_def card_image)
qed

lemma evidence_of_iff:
  "distinct (map ce_candidate_ref A) \<Longrightarrow> evidence_of A c = Some e \<longleftrightarrow> e \<in> set A \<and> ce_candidate_ref e = c"
  using evidence_of_mem evidence_of_Some by blast

lemma item_spec_shift:
  assumes wf: "wf_admitted A" and f: "order_preserving A f" and A': "mset A' = mset (map (shift f g) A)"
  shows "item_spec A' w p = item_spec A w p"
proof -
  have set: "set A' = shift f g ` set A"
    using A' by (metis list.set_map mset_eq_setD)
  have d: "distinct (map ce_candidate_ref A)" using wf by (simp add: wf_admitted_def)
  have "mset (map ce_candidate_ref A') = mset (map ce_candidate_ref (map (shift f g) A))"
    using A' by (simp only: mset_map)
  then have "mset (map ce_candidate_ref A') = mset (map ce_candidate_ref A)"
    by (simp add: comp_def)
  with d have d': "distinct (map ce_candidate_ref A')"
    by (metis mset_eq_imp_distinct_iff)
  have ev: "evidence_of A' c = map_option (shift f g) (evidence_of A c)" for c
  proof (cases "evidence_of A c")
    case None
    then have "evidence_of A' c = None"
      unfolding evidence_of_None set by (simp add: image_image)
    with None show ?thesis by simp
  next
    case (Some e)
    then have "evidence_of A' c = Some (shift f g e)"
      unfolding evidence_of_iff [OF d] evidence_of_iff [OF d'] set by simp
    with Some show ?thesis by simp
  qed
  have mem: "r \<in> set (ce_per_ranker e) \<Longrightarrow> e \<in> set A \<Longrightarrow>
      (ce_candidate_ref e, re_position r) \<in> set (by_ranker A (re_ranker_ref r))" for e r
    unfolding mem_by_ranker by blast
  have score: "score_spec A' w (shift f g e) = score_spec A w e" if "e \<in> set A" for e
    using that place_shift [OF set f] mem
    by (auto simp: score_spec_def shift_def comp_def intro!: arg_cong [where f = float_sum])
  have key: "rank_key_of A' w (shift f g e) = rank_key_of A w e" if "e \<in> set A" for e
    using that by (simp add: rank_key_of_def score)
  have rank: "rank_of A' w (shift f g e) = rank_of A w e" if "e \<in> set A" for e
  proof -
    have "{e' \<in> set A'. rank_key_of A' w e' < rank_key_of A w e}
        = shift f g ` {e' \<in> set A. rank_key_of A w e' < rank_key_of A w e}"
      unfolding set using key by auto
    moreover have "inj_on (shift f g) (set A)"
      using d by (auto simp: distinct_map inj_on_def) (metis shift_sel)
    then have "inj_on (shift f g) {e' \<in> set A. rank_key_of A w e' < rank_key_of A w e}"
      by (rule inj_on_subset) auto
    ultimately show ?thesis
      using that by (simp add: rank_of_def key card_image)
  qed
  have norm: "normalized_spec A' w (shift f g e) = normalized_spec A w e" if "e \<in> set A" for e
    using that place_shift [OF set f] mem by (auto simp: normalized_spec_def rank) (auto simp: shift_def)
  have "length A' = length A"
    using A' by (metis length_map size_mset)
  then show ?thesis
    using rank norm by (auto simp: item_spec_def ev split: option.splits dest: evidence_of_Some)
qed

section \<open>Lemmas: candidates that are not admitted\<close>

text \<open>The query with every candidate outside a set removed from every ranked list.\<close>

definition restrict_query :: "CandidateRef set \<Rightarrow> CandidateQuery \<Rightarrow> CandidateQuery" where
  "restrict_query adm q = q\<lparr>cq_ranked_lists :=
     map (\<lambda>l. l\<lparr>rl_candidates := filter (\<lambda>r. rc_candidate_ref r \<in> adm) (rl_candidates l)\<rparr>) (cq_ranked_lists q)\<rparr>"

lemma restrict_query_wf: "wf_query q \<Longrightarrow> wf_query (restrict_query adm q)"
  by (auto simp: wf_query_def restrict_query_def wf_ranked_list_def comp_def)

lemma refs_of_filter: "c \<in> refs_of (filter (\<lambda>r. rc_candidate_ref r \<in> adm) rs) \<longleftrightarrow> c \<in> refs_of rs \<and> c \<in> adm"
  by (auto simp: refs_of_def)

lemma first_position_filter:
  assumes "c \<in> adm" "c \<in> refs_of rs"
  shows "first_position c (filter (\<lambda>r. rc_candidate_ref r \<in> adm) rs)
    = length (filter (\<lambda>r. rc_candidate_ref r \<in> adm) (take (first_position c rs) rs))"
  using assms by (induction rs) (auto simp: refs_of_def)

lemma first_score_filter:
  assumes "c \<in> adm"
  shows "first_score c (filter (\<lambda>r. rc_candidate_ref r \<in> adm) rs) = first_score c rs"
  using assms by (induction rs) (auto simp: refs_of_def)

lemma first_position_nth:
  assumes "c \<in> refs_of rs"
  shows "1 \<le> first_position c rs" "first_position c rs \<le> length rs"
    "rc_candidate_ref (rs ! (first_position c rs - 1)) = c"
proof -
  from assms have "1 \<le> first_position c rs \<and> first_position c rs \<le> length rs
      \<and> rc_candidate_ref (rs ! (first_position c rs - 1)) = c"
  proof (induction rs)
    case (Cons r rs)
    then show ?case
      by (cases "rc_candidate_ref r = c") (auto simp: refs_of_def nth_Cons')
  qed (simp add: refs_of_def)
  then show "1 \<le> first_position c rs" "first_position c rs \<le> length rs"
    "rc_candidate_ref (rs ! (first_position c rs - 1)) = c" by simp_all
qed

lemma filter_take_less:
  assumes "m < n" "n \<le> length xs" "P (xs ! (n - 1))"
  shows "length (filter P (take m xs)) < length (filter P (take n xs))"
proof -
  have "take n xs = take (n - 1) xs @ [xs ! (n - 1)]"
    using assms by (metis One_nat_def Suc_diff_1 Suc_le_lessD gr_implies_not_zero neq0_conv take_Suc_conv_app_nth)
  moreover have "take (n - 1) xs = take m xs @ take (n - 1 - m) (drop m xs)"
    using assms(1) by (metis Suc_diff_1 add_diff_inverse_nat gr_implies_not_zero less_Suc_eq_le neq0_conv
        not_less take_add)
  ultimately show ?thesis using assms(3) by simp
qed

text \<open>Where a position of the full list moves when only the admitted candidates are kept.\<close>

definition kept_position :: "CandidateRef set \<Rightarrow> RankedCandidateList list \<Rightarrow> str \<Rightarrow> int \<Rightarrow> int" where
  "kept_position adm ls ranker p =
     (case map_of (map (\<lambda>l. (rl_ranker_ref l, rl_candidates l)) ls) ranker of None \<Rightarrow> p
      | Some rs \<Rightarrow> int (length (filter (\<lambda>r. rc_candidate_ref r \<in> adm) (take (nat p) rs))))"

lemma kept_position_eq:
  assumes "distinct (map rl_ranker_ref ls)" "l \<in> set ls"
  shows "kept_position adm ls (rl_ranker_ref l) p
    = int (length (filter (\<lambda>r. rc_candidate_ref r \<in> adm) (take (nat p) (rl_candidates l))))"
proof -
  have "map_of (map (\<lambda>l. (rl_ranker_ref l, rl_candidates l)) ls) (rl_ranker_ref l) = Some (rl_candidates l)"
    using assms by (intro map_of_is_SomeI) (auto simp: comp_def)
  then show ?thesis by (simp add: kept_position_def)
qed

lemma evidence_for_restrict:
  assumes "distinct (map rl_ranker_ref (cq_ranked_lists q))" "c \<in> adm"
  shows "evidence_for c (cq_ranked_lists (restrict_query adm q))
    = map (\<lambda>r. r\<lparr>re_position := kept_position adm (cq_ranked_lists q) (re_ranker_ref r) (re_position r)\<rparr>)
        (evidence_for c (cq_ranked_lists q))"
  using assms
  by (auto simp: evidence_for_def restrict_query_def filter_map comp_def refs_of_filter
      kept_position_eq first_position_filter first_score_filter)

lemma fusion_total:
  assumes "wf_query q"
  shows "\<exists>fused. fuse_candidate_evidence q = Inr fused"
  using fuse_candidate_evidence_spec [OF assms] by (elim exE conjE) (rule exI)

lemma fused_evidence:
  assumes "wf_query q" "fuse_candidate_evidence q = Inr fused"
  shows "distinct (map ce_candidate_ref (fc_rank_evidence fused))"
    and "ce_candidate_ref ` set (fc_rank_evidence fused) = (\<Union>l \<in> set (cq_ranked_lists q). refs_of (rl_candidates l))"
    and "e \<in> set (fc_rank_evidence fused) \<Longrightarrow> ce_per_ranker e = evidence_for (ce_candidate_ref e) (cq_ranked_lists q)"
    and "e \<in> set (fc_rank_evidence fused) \<Longrightarrow> wf_rank_evidence e"
proof -
  from fuse_candidate_evidence_spec [OF assms(1)] assms(2)
  have d: "distinct (fc_candidate_refs fused)"
    and set: "set (fc_candidate_refs fused) = (\<Union>l \<in> set (cq_ranked_lists q). refs_of (rl_candidates l))"
    and ev: "fc_rank_evidence fused = map (\<lambda>i. \<lparr>ce_candidate_ref = fc_candidate_refs fused ! i,
        ce_per_ranker = evidence_for (fc_candidate_refs fused ! i) (cq_ranked_lists q),
        ce_fused_rank = int (Suc i)\<rparr>) [0..<length (fc_candidate_refs fused)]"
    by auto
  have refs: "map ce_candidate_ref (fc_rank_evidence fused) = fc_candidate_refs fused"
    unfolding ev by (simp add: comp_def map_nth)
  then show "distinct (map ce_candidate_ref (fc_rank_evidence fused))" using d by simp
  show img: "ce_candidate_ref ` set (fc_rank_evidence fused) = (\<Union>l \<in> set (cq_ranked_lists q). refs_of (rl_candidates l))"
    using refs set by (metis list.set_map)
  show per: "ce_per_ranker e = evidence_for (ce_candidate_ref e) (cq_ranked_lists q)"
    if "e \<in> set (fc_rank_evidence fused)" for e
    using that unfolding ev by auto
  show "wf_rank_evidence e" if "e \<in> set (fc_rank_evidence fused)"
  proof -
    have "ce_candidate_ref e \<in> (\<Union>l \<in> set (cq_ranked_lists q). refs_of (rl_candidates l))"
      using img that by blast
    then have "evidence_for (ce_candidate_ref e) (cq_ranked_lists q) \<noteq> []"
      unfolding evidence_for_nonempty by blast
    moreover have "score_ok (first_score c rs)" if "c \<in> refs_of rs" "\<forall>r \<in> set rs. score_ok (rc_score r)" for c rs
      using that by (induction rs) (auto simp: refs_of_def)
    ultimately show ?thesis
      using per [OF that] assms(1) evidence_for_rankers
      by (auto simp: wf_rank_evidence_def wf_query_def evidence_for_def wf_ranked_list_def)
  qed
qed

text \<open>On the admitted evidence of a fused query, keeping only admitted candidates preserves the order.\<close>

lemma kept_position_order_preserving:
  assumes wf: "wf_query q" and run: "fuse_candidate_evidence q = Inr fused"
    and A: "A = filter (\<lambda>e. ce_candidate_ref e \<in> adm) (fc_rank_evidence fused)"
  shows "order_preserving A (kept_position adm (cq_ranked_lists q))"
  unfolding order_preserving_def
proof (intro allI ballI impI)
  fix ranker x y
  let ?ls = "cq_ranked_lists q"
  have entry: "\<exists>l \<in> set ?ls. rl_ranker_ref l = ranker \<and> fst z \<in> refs_of (rl_candidates l) \<and> fst z \<in> adm
      \<and> snd z = int (first_position (fst z) (rl_candidates l))" if "z \<in> set (by_ranker A ranker)" for z
  proof -
    from that obtain e r where er: "e \<in> set A" "ce_candidate_ref e = fst z" "r \<in> set (ce_per_ranker e)"
      "re_ranker_ref r = ranker" "re_position r = snd z"
      using mem_by_ranker [of "fst z" "snd z"] by auto
    then have "r \<in> set (evidence_for (fst z) ?ls)" "fst z \<in> adm"
      using fused_evidence(3) [OF wf run] by (auto simp: A)
    with er show ?thesis by (auto simp: evidence_for_def)
  qed
  assume "x \<in> set (by_ranker A ranker)" "y \<in> set (by_ranker A ranker)" and less: "snd x < snd y"
  then obtain l l' where l: "l \<in> set ?ls" "rl_ranker_ref l = ranker" "snd x = int (first_position (fst x) (rl_candidates l))"
    and l': "l' \<in> set ?ls" "rl_ranker_ref l' = ranker" "fst y \<in> refs_of (rl_candidates l')" "fst y \<in> adm"
      "snd y = int (first_position (fst y) (rl_candidates l'))"
    using entry by blast
  have d: "distinct (map rl_ranker_ref ?ls)" using wf by (simp add: wf_query_def)
  then have "l = l'" using l(1,2) l'(1,2) by (auto simp: distinct_map dest: inj_onD)
  have "length (filter (\<lambda>r. rc_candidate_ref r \<in> adm) (take (nat (snd x)) (rl_candidates l)))
      < length (filter (\<lambda>r. rc_candidate_ref r \<in> adm) (take (nat (snd y)) (rl_candidates l)))"
    using less l l' first_position_nth [OF l'(3)] \<open>l = l'\<close> by (intro filter_take_less) auto
  then show "kept_position adm ?ls ranker (snd x) < kept_position adm ?ls ranker (snd y)"
    using kept_position_eq [OF d l(1)] l(2) by simp
qed

lemma restricted_evidence_shifted:
  assumes wf: "wf_query q" and run: "fuse_candidate_evidence q = Inr fused"
    and run': "fuse_candidate_evidence (restrict_query adm q) = Inr fused'"
  shows "\<exists>g. mset (fc_rank_evidence fused') = mset (map (shift (kept_position adm (cq_ranked_lists q)) g)
    (filter (\<lambda>e. ce_candidate_ref e \<in> adm) (fc_rank_evidence fused)))"
proof -
  let ?A = "filter (\<lambda>e. ce_candidate_ref e \<in> adm) (fc_rank_evidence fused)" and ?B = "fc_rank_evidence fused'"
  define g where "g e = (case evidence_of ?B (ce_candidate_ref e) of None \<Rightarrow> 0 | Some e' \<Rightarrow> ce_fused_rank e')"
    for e :: CandidateRankEvidence
  let ?s = "shift (kept_position adm (cq_ranked_lists q)) g"
  note F = fused_evidence [OF wf run] and F' = fused_evidence [OF restrict_query_wf [OF wf] run']
  have d: "distinct (map rl_ranker_ref (cq_ranked_lists q))" using wf by (simp add: wf_query_def)
  have refs: "ce_candidate_ref ` set ?B = ce_candidate_ref ` set ?A"
  proof -
    have "(\<Union>l \<in> set (cq_ranked_lists (restrict_query adm q)). refs_of (rl_candidates l))
        = (\<Union>l \<in> set (cq_ranked_lists q). refs_of (rl_candidates l)) \<inter> adm"
      by (auto simp: restrict_query_def refs_of_filter)
    then show ?thesis using F(2) F'(2) by auto
  qed
  have same: "e' = ?s e" if "e \<in> set ?A" "e' \<in> set ?B" "ce_candidate_ref e' = ce_candidate_ref e" for e e'
  proof -
    have "evidence_of ?B (ce_candidate_ref e) = Some e'"
      using evidence_of_mem [OF F'(1) that(2)] that(3) by simp
    moreover have "ce_per_ranker e' = map (\<lambda>r. r\<lparr>re_position := kept_position adm (cq_ranked_lists q)
        (re_ranker_ref r) (re_position r)\<rparr>) (ce_per_ranker e)"
      using that F(3) F'(3) [OF that(2)] evidence_for_restrict [OF d] by simp
    ultimately show ?thesis
      using that(3) by (simp add: shift_def g_def)
  qed
  have "set ?B = ?s ` set ?A"
  proof (intro equalityI subsetI)
    fix e' assume e': "e' \<in> set ?B"
    then have "ce_candidate_ref e' \<in> ce_candidate_ref ` set ?A"
      unfolding refs [symmetric] by (rule imageI)
    then obtain e where "ce_candidate_ref e' = ce_candidate_ref e" "e \<in> set ?A" by (rule imageE)
    with same e' show "e' \<in> ?s ` set ?A" by blast
  next
    fix x assume "x \<in> ?s ` set ?A"
    then obtain e where e: "e \<in> set ?A" "x = ?s e" by blast
    then have "ce_candidate_ref e \<in> ce_candidate_ref ` set ?B" unfolding refs by blast
    then obtain e' where e': "ce_candidate_ref e = ce_candidate_ref e'" "e' \<in> set ?B" by (rule imageE)
    have "e' = ?s e" by (rule same [OF e(1) e'(2) e'(1) [symmetric]])
    with e(2) e'(2) show "x \<in> set ?B" by (simp only:)
  qed
  then have set: "set ?B = set (map ?s ?A)" by simp
  have "distinct (map ce_candidate_ref (map ?s ?A))"
    using F(1) by (simp add: comp_def distinct_map_filter)
  then have "distinct (map ?s ?A)" unfolding distinct_map [of ce_candidate_ref] by (rule conjunct1)
  moreover have "distinct ?B"
    using F'(1) unfolding distinct_map [of ce_candidate_ref] by (rule conjunct1)
  ultimately have "mset ?B = mset (map ?s ?A)"
    using set by (simp only: set_eq_iff_mset_eq_distinct)
  then show ?thesis by (rule exI [where x = g])
qed

section \<open>Properties\<close>

text \<open>
  C6. Candidates that were not admitted leave no trace in the ranking: whatever the untrusted index
  submits, joining the fused evidence with the authorized projections gives the same result, down
  to ranks, positions and errors, as if every candidate that is not among the projections had
  never been submitted.
\<close>

theorem unadmitted_candidates_do_not_influence_ranking:
  assumes "wf_query q"
    and "fuse_candidate_evidence q = Inr fused"
    and "fuse_candidate_evidence (restrict_query (ap_candidate_ref ` set ps) q) = Inr fused'"
  shows "join_authorized_ranking h ps (fc_rank_evidence fused) w
    = join_authorized_ranking h ps (fc_rank_evidence fused') w"
proof -
  let ?adm = "ap_candidate_ref ` set ps"
  let ?f = "kept_position ?adm (cq_ranked_lists q)"
  define A where "A = filter (\<lambda>e. ce_candidate_ref e \<in> ?adm) (fc_rank_evidence fused)"
  define B where "B = fc_rank_evidence fused'"
  note F = fused_evidence [OF assms(1,2)] and F' = fused_evidence [OF restrict_query_wf [OF assms(1)] assms(3)]
  have B: "B = filter (\<lambda>e. ce_candidate_ref e \<in> ?adm) (fc_rank_evidence fused')"
  proof -
    have "ce_candidate_ref e \<in> ?adm" if "e \<in> set (fc_rank_evidence fused')" for e
    proof -
      have "ce_candidate_ref e \<in> ce_candidate_ref ` set (fc_rank_evidence fused')" using that by simp
      then show ?thesis unfolding F'(2) by (auto simp: restrict_query_def refs_of_filter)
    qed
    then show ?thesis unfolding B_def by (metis (no_types, lifting) filter_True)
  qed
  obtain g where mset: "mset B = mset (map (shift ?f g) A)"
    using restricted_evidence_shifted [OF assms] unfolding A_def B_def by blast
  have wfA: "wf_admitted A"
    using F by (auto simp: wf_admitted_def A_def distinct_map_filter)
  have "order_preserving A ?f"
    by (rule kept_position_order_preserving [OF assms(1,2) A_def])
  from item_spec_shift [OF wfA this mset] have items: "item_spec B w = item_spec A w" by blast
  have rankers: "set (admitted_rankers B) = set (admitted_rankers A)"
  proof -
    have "set B = shift ?f g ` set A" using mset by (metis list.set_map mset_eq_setD)
    then show ?thesis by (rule admitted_rankers_shift)
  qed
  have "join_authorized_ranking h ps (fc_rank_evidence fused) w
      = bnd (weights_check w (set (admitted_rankers A))) (\<lambda>_.
          if \<forall>p \<in> set ps. require_active_authorized_projection h p = Inr ()
          then Inr (sort_key item_key (map (item_spec A w) ps)) else Inl ValueError)"
    by (rule join_authorized_ranking_eq [OF F(1) A_def]) (auto simp: A_def intro: F(4))
  also have "\<dots> = join_authorized_ranking h ps (fc_rank_evidence fused') w"
    unfolding items [symmetric] rankers [symmetric]
    by (rule join_authorized_ranking_eq [OF F'(1) B, symmetric]) (auto simp: B_def intro: F'(4))
  finally show ?thesis .
qed

lemma example_join_runs:
  obtains fused fused' where "fuse_candidate_evidence example_query = Inr fused"
    and "fuse_candidate_evidence (restrict_query (ap_candidate_ref ` set [example_projection]) example_query) = Inr fused'"
  using fusion_total [OF example_query_wf] fusion_total [OF restrict_query_wf [OF example_query_wf]] by blast

theorem unadmitted_candidates_do_not_influence_ranking_witness:
  "wf_query example_query \<and> (\<exists>fused fused'. fuse_candidate_evidence example_query = Inr fused
     \<and> fuse_candidate_evidence (restrict_query {example_candidate} example_query) = Inr fused'
     \<and> join_authorized_ranking [True] [example_projection] (fc_rank_evidence fused) None
         = join_authorized_ranking [True] [example_projection] (fc_rank_evidence fused') None)"
proof -
  obtain fused fused' where run: "fuse_candidate_evidence example_query = Inr fused"
    and run': "fuse_candidate_evidence (restrict_query (ap_candidate_ref ` set [example_projection]) example_query) = Inr fused'"
    by (rule example_join_runs)
  have "ap_candidate_ref ` set [example_projection] = {example_candidate}"
    by (simp add: example_projection_def)
  with unadmitted_candidates_do_not_influence_ranking [OF example_query_wf run run'] run run' example_query_wf
  show ?thesis by auto
qed

text \<open>
  C25. The join neither drops nor adds nor repeats content: on active projections, unique well-formed
  evidence and accepted weights it returns one item per projection, ordered by fused rank with ties
  broken by the locator; a projection without evidence gets the neutral rank in the middle of the
  admitted ones, and an item's evidence names its own candidate and its own rank.
\<close>

theorem join_is_an_ordered_permutation:
  assumes "distinct (map ce_candidate_ref ev)"
    and "\<And>e. e \<in> set ev \<Longrightarrow> wf_rank_evidence e"
    and "\<And>p. p \<in> set ps \<Longrightarrow> require_active_authorized_projection h p = Inr ()"
    and "A = filter (\<lambda>e. ce_candidate_ref e \<in> ap_candidate_ref ` set ps) ev"
    and "returns (authorized_ranker_weights w (admitted_rankers A))"
  shows "\<exists>items. join_authorized_ranking h ps ev w = Inr items
    \<and> mset (map ri_projection items) = mset ps
    \<and> sorted (map (\<lambda>i. (ri_fused_rank i, candidate_sort_key (ap_candidate_ref (ri_projection i)))) items)
    \<and> (\<forall>i \<in> set items.
         (ri_rank_evidence i = None \<longleftrightarrow> ap_candidate_ref (ri_projection i) \<notin> ce_candidate_ref ` set A)
         \<and> (ri_rank_evidence i = None \<longrightarrow> ri_fused_rank i = max 1 (int (length A)))
         \<and> (\<forall>e. ri_rank_evidence i = Some e \<longrightarrow>
              ce_candidate_ref e = ap_candidate_ref (ri_projection i) \<and> ce_fused_rank e = ri_fused_rank i
              \<and> odd (ri_fused_rank i) \<and> 1 \<le> ri_fused_rank i \<and> ri_fused_rank i \<le> 2 * int (length A) - 1))"
proof -
  let ?items = "sort_key item_key (map (item_spec A w) ps)"
  have wfA: "wf_admitted A"
    using assms(1,2) by (auto simp: wf_admitted_def assms(4) distinct_map_filter)
  have "weights_check w (set (admitted_rankers A)) = Inr ()"
    using assms(5) by (cases "weights_check w (set (admitted_rankers A))")
      (simp_all add: authorized_ranker_weights_eq)
  then have run: "join_authorized_ranking h ps ev w = Inr ?items"
    using join_authorized_ranking_eq [OF assms(1,4)] assms(2,3) by (simp add: assms(4))
  have bound: "rank_of A w e \<le> 2 * int (length A) - 1" if "e \<in> set A" for e
  proof -
    have "{e' \<in> set A. rank_key_of A w e' < rank_key_of A w e} \<subset> set A" using that by auto
    then have "card {e' \<in> set A. rank_key_of A w e' < rank_key_of A w e} < card (set A)"
      by (intro psubset_card_mono) auto
    also have "card (set A) \<le> length A" by (rule card_length)
    finally show ?thesis by (simp add: rank_of_def)
  qed
  have item: "(ri_rank_evidence i = None \<longleftrightarrow> ap_candidate_ref (ri_projection i) \<notin> ce_candidate_ref ` set A)
      \<and> (ri_rank_evidence i = None \<longrightarrow> ri_fused_rank i = max 1 (int (length A)))
      \<and> (\<forall>e. ri_rank_evidence i = Some e \<longrightarrow>
           ce_candidate_ref e = ap_candidate_ref (ri_projection i) \<and> ce_fused_rank e = ri_fused_rank i
           \<and> odd (ri_fused_rank i) \<and> 1 \<le> ri_fused_rank i \<and> ri_fused_rank i \<le> 2 * int (length A) - 1)"
    if "i \<in> set ?items" for i
  proof -
    from that obtain p where i: "i = item_spec A w p" by auto
    show ?thesis
    proof (cases "evidence_of A (ap_candidate_ref p)")
      case None
      then have "ap_candidate_ref p \<notin> ce_candidate_ref ` set A" by (simp add: evidence_of_None)
      with None show ?thesis by (simp add: i item_spec_def)
    next
      case (Some e)
      with evidence_of_Some [OF Some] bound [of e] show ?thesis
        by (force simp: i item_spec_def normalized_spec_def rank_of_def)
    qed
  qed
  have "mset (map ri_projection ?items) = mset ps"
    by (simp add: item_spec_def comp_def flip: image_mset.compositionality) (simp add: image_mset.compositionality comp_def item_spec_def)
  moreover have "sorted (map (\<lambda>i. (ri_fused_rank i, candidate_sort_key (ap_candidate_ref (ri_projection i)))) ?items)"
    using sorted_sort_key [of item_key "map (item_spec A w) ps"] unfolding item_key_def [abs_def] .
  ultimately show ?thesis using run item by blast
qed

theorem join_is_an_ordered_permutation_witness:
  "require_active_authorized_projection [True] example_projection = Inr ()
   \<and> (\<exists>items. join_authorized_ranking [True] [example_projection] [] None = Inr items
        \<and> map ri_projection items = [example_projection] \<and> map ri_fused_rank items = [1])"
proof -
  note active = constructed_projection_active [OF example_projection_constructed]
  have weights: "returns (authorized_ranker_weights None (admitted_rankers
      (filter (\<lambda>e. ce_candidate_ref e \<in> ap_candidate_ref ` set [example_projection]) [])))"
    by (simp add: authorized_ranker_weights_def)
  from join_is_an_ordered_permutation [of "[]" "[example_projection]" "[True]", OF _ _ _ refl weights] active
  obtain items where "join_authorized_ranking [True] [example_projection] [] None = Inr items"
    "mset (map ri_projection items) = mset [example_projection]"
    "\<forall>i \<in> set items. (ri_rank_evidence i = None \<longleftrightarrow> True) \<and> (ri_rank_evidence i = None \<longrightarrow> ri_fused_rank i = 1)"
    by auto
  moreover from this(2) have "mset (map ri_projection items) = {#example_projection#}" by simp
  then have "map ri_projection items = [example_projection]" by (simp only: mset_single_iff)
  ultimately show ?thesis using active by auto
qed

section \<open>Selection\<close>

definition body_tokens :: "AuthorizedRerankItem \<Rightarrow> int" where
  "body_tokens i = int (length (utf8_surrogatepass (ap_projected_body (ri_projection i))))"

definition encodes :: "AuthorizedRerankItem \<Rightarrow> bool" where
  "encodes i \<longleftrightarrow> \<not> list_ex is_surrogate (ap_projected_body (ri_projection i))"

lemma select_loop_total: "list_all encodes is \<Longrightarrow> \<exists>sel. select_loop m is c = Inr sel"
  by (induction "is" arbitrary: c) (auto simp: encodes_def utf8_encode_def Let_def)

lemma select_loop_Inr:
  assumes "select_loop m is c = Inr sel"
  shows "list_all encodes is" "subseq sel is" "sel \<noteq> [] \<Longrightarrow> c + sum_list (map body_tokens sel) \<le> m"
proof -
  from assms have "list_all encodes is \<and> subseq sel is \<and> (sel \<noteq> [] \<longrightarrow> c + sum_list (map body_tokens sel) \<le> m)"
  proof (induction "is" arbitrary: c sel)
    case (Cons i "is")
    show ?case
    proof (cases "c + body_tokens i > m")
      case True
      with Cons show ?thesis
        by (auto simp: utf8_encode_def encodes_def body_tokens_def Let_def split: if_splits)
    next
      case False
      with Cons.prems obtain rest where rest: "sel = i # rest" "encodes i"
        "select_loop m is (c + body_tokens i) = Inr rest"
        by (auto simp: utf8_encode_def encodes_def body_tokens_def Let_def split: if_splits)
      with Cons.IH [OF rest(3)] False show ?thesis
        by (cases rest) auto
    qed
  qed simp
  then show "list_all encodes is" "subseq sel is" "sel \<noteq> [] \<Longrightarrow> c + sum_list (map body_tokens sel) \<le> m"
    by simp_all
qed

lemma select_loop_append:
  assumes "select_loop m (xs @ ys) c = Inr sel"
  shows "\<exists>s1 s2. select_loop m xs c = Inr s1 \<and> select_loop m ys (c + sum_list (map body_tokens s1)) = Inr s2
    \<and> sel = s1 @ s2"
  using assms
proof (induction xs arbitrary: c sel)
  case (Cons x xs)
  show ?case
  proof (cases "c + body_tokens x > m")
    case True
    with Cons show ?thesis
      by (auto simp: utf8_encode_def body_tokens_def Let_def split: if_splits)
  next
    case False
    with Cons.prems obtain rest where rest: "sel = x # rest" "\<not> list_ex is_surrogate (ap_projected_body (ri_projection x))"
      "select_loop m (xs @ ys) (c + body_tokens x) = Inr rest"
      by (auto simp: utf8_encode_def body_tokens_def Let_def split: if_splits)
    with Cons.IH [OF rest(3)] False show ?thesis
      by (auto simp: utf8_encode_def body_tokens_def Let_def add.assoc)
  qed
qed simp

text \<open>
  C26. Packing to the token budget: selection returns exactly when every body is encodable as UTF-8;
  the selected items are a subsequence of the ranking, their UTF-8 bytes never exceed the
  budget's tokens, and the choice is greedy in rank order: whether an item is taken depends only on
  the items before it, and it is taken exactly when it fits beside what they used.
\<close>

theorem selection_is_greedy_within_budget:
  "(returns (select_authorized_ranking joined budget) \<longleftrightarrow> list_all encodes joined)
   \<and> (\<forall>sel. select_authorized_ranking joined budget = Inr sel \<longrightarrow>
        subseq sel joined
        \<and> (sel \<noteq> [] \<longrightarrow> sum_list (map body_tokens sel) \<le> max_tokens budget)
        \<and> (\<forall>pre i post. joined = pre @ i # post \<longrightarrow>
             (\<exists>before after. select_authorized_ranking pre budget = Inr before
                \<and> sel = before @ (if sum_list (map body_tokens before) + body_tokens i \<le> max_tokens budget
                                  then [i] else []) @ after)))"
proof (intro conjI allI impI)
  show "returns (select_authorized_ranking joined budget) \<longleftrightarrow> list_all encodes joined"
    using select_loop_total select_loop_Inr(1)
    by (fastforce simp: returns_def select_authorized_ranking_def)
next
  fix sel assume run: "select_authorized_ranking joined budget = Inr sel"
  then have loop: "select_loop (max_tokens budget) joined 0 = Inr sel"
    by (simp add: select_authorized_ranking_def)
  show "subseq sel joined" by (rule select_loop_Inr(2) [OF loop])
  show "sum_list (map body_tokens sel) \<le> max_tokens budget" if "sel \<noteq> []"
    using select_loop_Inr(3) [OF loop that] by simp
  fix pre i post assume joined: "joined = pre @ i # post"
  from select_loop_append [OF loop [unfolded joined]] obtain before rest where
    before: "select_loop (max_tokens budget) pre 0 = Inr before" and sel: "sel = before @ rest"
    and rest: "select_loop (max_tokens budget) (i # post) (sum_list (map body_tokens before)) = Inr rest"
    by auto
  from rest obtain after where
    "rest = (if sum_list (map body_tokens before) + body_tokens i \<le> max_tokens budget then [i] else []) @ after"
    by (auto simp: utf8_encode_def body_tokens_def Let_def split: if_splits)
  with before sel show "\<exists>before after. select_authorized_ranking pre budget = Inr before
      \<and> sel = before @ (if sum_list (map body_tokens before) + body_tokens i \<le> max_tokens budget
                        then [i] else []) @ after"
    unfolding select_authorized_ranking_def by blast
qed

definition example_item :: AuthorizedRerankItem where
  "example_item = \<lparr>ri_projection = example_projection, ri_rank_evidence = None, ri_fused_rank = 1\<rparr>"

lemma example_item_tokens [simp]: "body_tokens example_item = 4" "encodes example_item"
  by (simp_all add: body_tokens_def encodes_def example_item_def example_projection_def u_def is_surrogate_def
      utf8_surrogatepass_def utf8_char_def utf8_units_def)

theorem selection_is_greedy_within_budget_witness:
  "\<exists>sel. select_authorized_ranking [example_item, example_item, example_item] example_budget = Inr sel
     \<and> subseq sel [example_item, example_item, example_item]
     \<and> sum_list (map body_tokens sel) \<le> 10 \<and> (\<exists>after. sel = [example_item] @ after)"
proof -
  let ?js = "[example_item, example_item, example_item]"
  note S = selection_is_greedy_within_budget [of ?js example_budget]
  from S obtain sel where sel: "select_authorized_ranking ?js example_budget = Inr sel"
    by (auto simp: returns_def)
  have first: "select_authorized_ranking [] example_budget = Inr []"
    by (simp add: select_authorized_ranking_def)
  from S sel have "subseq sel ?js" "sel \<noteq> [] \<longrightarrow> sum_list (map body_tokens sel) \<le> max_tokens example_budget"
    and greedy: "\<And>pre i post. ?js = pre @ i # post \<Longrightarrow>
      \<exists>before after. select_authorized_ranking pre example_budget = Inr before
        \<and> sel = before @ (if sum_list (map body_tokens before) + body_tokens i \<le> max_tokens example_budget
                          then [i] else []) @ after"
    by blast+
  moreover from greedy [of "[]" example_item "[example_item, example_item]"] first
  have "\<exists>after. sel = [example_item] @ after" by (auto simp: example_budget_def)
  ultimately show ?thesis using sel by (auto simp: example_budget_def)
qed

section \<open>One-hop ranking\<close>

lemma mapr_rank_items:
  assumes "\<And>x. x \<in> set ordered \<Longrightarrow> isfinite (snd x)"
  shows "mapr (\<lambda>(position, p, s).
      bnd (RankerEvidence_init (PStr GRAPH_RANKER_REF) (int position) (PFloat s)) (\<lambda>e.
        CandidateRankEvidence_init (ap_candidate_ref p) [e] (int position)))
      (zip [1..<Suc (length ordered)] ordered)
    = Inr (map (\<lambda>i. \<lparr>ce_candidate_ref = ap_candidate_ref (fst (ordered ! i)),
        ce_per_ranker = [\<lparr>re_ranker_ref = GRAPH_RANKER_REF, re_position = int (Suc i),
          re_score = PFloat (snd (ordered ! i))\<rparr>],
        ce_fused_rank = int (Suc i)\<rparr>) [0..<length ordered])"
    (is "mapr ?f ?zip = Inr ?items")
proof -
  let ?item = "\<lambda>x. \<lparr>ce_candidate_ref = ap_candidate_ref (fst (snd x)),
    ce_per_ranker = [\<lparr>re_ranker_ref = GRAPH_RANKER_REF, re_position = int (fst x), re_score = PFloat (snd (snd x))\<rparr>],
    ce_fused_rank = int (fst x)\<rparr>"
  have graph: "ranker_text GRAPH_RANKER_REF"
    by (simp add: ranker_text_def GRAPH_RANKER_REF_def u_def is_lower_def)
  have "mapr ?f ?zip = Inr (map ?item ?zip)"
  proof (rule mapr_total)
    fix x assume "x \<in> set ?zip"
    then have "1 \<le> fst x" "snd x \<in> set ordered"
      by (auto simp: set_zip simp del: upt_Suc)
    moreover from this(2) have "score_ok (PFloat (snd (snd x)))"
      using assms by (simp add: score_ok_def)
    ultimately have "RankerEvidence_init (PStr GRAPH_RANKER_REF) (int (fst x)) (PFloat (snd (snd x)))
        = Inr \<lparr>re_ranker_ref = GRAPH_RANKER_REF, re_position = int (fst x), re_score = PFloat (snd (snd x))\<rparr>"
      using graph by (simp add: RankerEvidence_init_eq)
    with \<open>1 \<le> fst x\<close> show "?f x = Inr (?item x)"
      by (simp add: split_beta CandidateRankEvidence_init_eq)
  qed
  also have "map ?item ?zip = ?items"
    by (rule nth_equalityI) (simp_all del: upt_Suc)
  finally show ?thesis .
qed

text \<open>
  Graph expansion never widens what was authorized: the one-hop ranking returns evidence only
  for projections it was given, all of them active, each sharing more than half of the query
  tokens (as a binary64 ratio); it keeps every such projection, in decreasing score order, with
  consecutive positions from 1.
\<close>

theorem one_hop_ranks_only_authorized:
  assumes "\<not> blank query_text" and "tokens_of query_text \<noteq> []"
    and "\<forall>p \<in> set ps. require_active_authorized_projection h p = Inr ()"
  shows "\<exists>ordered. rank_authorized_one_hop tokens_of h (PStr query_text) ps
      = Inr (map (\<lambda>i. \<lparr>ce_candidate_ref = ap_candidate_ref (ordered ! i),
          ce_per_ranker = [\<lparr>re_ranker_ref = GRAPH_RANKER_REF, re_position = int (Suc i),
            re_score = PFloat (one_hop_score tokens_of query_text (ordered ! i))\<rparr>],
          ce_fused_rank = int (Suc i)\<rparr>) [0..<length ordered])
    \<and> mset ordered = mset (filter (\<lambda>p. flt (Fin (1 / 2)) (one_hop_score tokens_of query_text p)) ps)
    \<and> sorted (map (\<lambda>p. rank_key (one_hop_score tokens_of query_text p) (ap_candidate_ref p)) ordered)"
proof -
  let ?s = "one_hop_score tokens_of query_text"
  let ?scored = "filter (\<lambda>(p, s). flt (Fin (1 / 2)) s) (map (\<lambda>p. (p, ?s p)) ps)"
  let ?key = "\<lambda>(p, s). rank_key s (ap_candidate_ref p)"
  let ?sorted = "sort_key ?key ?scored"
  have fin: "isfinite (?s p)" for p
  proof -
    let ?Q = "set (tokens_of query_text)"
    have "card (?Q \<inter> set (tokens_of (ap_projected_body p))) \<le> card ?Q"
      by (intro card_mono) auto
    then show ?thesis
      by (simp add: one_hop_score_def Let_def int_truediv_def) (intro round64_unit_finite; simp add: divide_le_eq)
  qed
  have pair: "x = (fst x, ?s (fst x))" if "x \<in> set ?sorted" for x
    using that by auto
  have "each (require_active_authorized_projection h) ps = Inr ()"
    using assms(3) by simp
  then have "rank_authorized_one_hop tokens_of h (PStr query_text) ps
      = mapr (\<lambda>(position, p, s).
          bnd (RankerEvidence_init (PStr GRAPH_RANKER_REF) (int position) (PFloat s)) (\<lambda>e.
            CandidateRankEvidence_init (ap_candidate_ref p) [e] (int position)))
          (zip [1..<Suc (length ?sorted)] ?sorted)"
    unfolding rank_authorized_one_hop_def require_nonblank.simps Let_def using assms(1,2)
    by (simp del: each_eq_Inr each_returns upt_Suc length_sort)
  also have "\<dots> = Inr (map (\<lambda>i. \<lparr>ce_candidate_ref = ap_candidate_ref (fst (?sorted ! i)),
        ce_per_ranker = [\<lparr>re_ranker_ref = GRAPH_RANKER_REF, re_position = int (Suc i),
          re_score = PFloat (snd (?sorted ! i))\<rparr>],
        ce_fused_rank = int (Suc i)\<rparr>) [0..<length ?sorted])"
    using fin by (intro mapr_rank_items) auto
  also have "\<dots> = Inr (map (\<lambda>i. \<lparr>ce_candidate_ref = ap_candidate_ref (map fst ?sorted ! i),
        ce_per_ranker = [\<lparr>re_ranker_ref = GRAPH_RANKER_REF, re_position = int (Suc i),
          re_score = PFloat (?s (map fst ?sorted ! i))\<rparr>],
        ce_fused_rank = int (Suc i)\<rparr>) [0..<length (map fst ?sorted)])"
  proof -
    have "snd (?sorted ! i) = ?s (fst (?sorted ! i))" if "i < length ?sorted" for i
      using arg_cong [OF pair [OF nth_mem [OF that]], of snd] by (simp only: snd_conv)
    then show ?thesis
      by (simp only: length_map sum.inject map_eq_conv set_upt atLeastLessThan_iff nth_map) simp
  qed
  finally have run: "rank_authorized_one_hop tokens_of h (PStr query_text) ps
      = Inr (map (\<lambda>i. \<lparr>ce_candidate_ref = ap_candidate_ref (map fst ?sorted ! i),
        ce_per_ranker = [\<lparr>re_ranker_ref = GRAPH_RANKER_REF, re_position = int (Suc i),
          re_score = PFloat (?s (map fst ?sorted ! i))\<rparr>],
        ce_fused_rank = int (Suc i)\<rparr>) [0..<length (map fst ?sorted)])" .
  have mset: "mset (map fst ?sorted) = mset (filter (\<lambda>p. flt (Fin (1 / 2)) (?s p)) ps)"
  proof -
    have "map fst ?scored = filter (\<lambda>p. flt (Fin (1 / 2)) (?s p)) ps"
      by (simp add: filter_map comp_def)
    moreover have "mset (map fst ?sorted) = mset (map fst ?scored)"
      by (simp only: mset_map mset_sort)
    ultimately show ?thesis by (simp only:)
  qed
  have "(\<lambda>p. rank_key (?s p) (ap_candidate_ref p)) (fst x) = ?key x" if "x \<in> set ?sorted" for x
    by (subst pair [OF that]) simp
  then have "map (\<lambda>p. rank_key (?s p) (ap_candidate_ref p)) (map fst ?sorted) = map ?key ?sorted"
    by (simp only: map_map comp_def map_eq_conv) blast
  then have "sorted (map (\<lambda>p. rank_key (?s p) (ap_candidate_ref p)) (map fst ?sorted))"
    by (simp only: sorted_sort_key)
  with run mset show ?thesis by (intro exI [where x = "map fst ?sorted"] conjI)
qed

theorem one_hop_ranks_only_authorized_witness:
  "\<not> blank (u ''text'')
   \<and> (\<exists>evidence. rank_authorized_one_hop (\<lambda>s. [s]) [True] (PStr (u ''text'')) [example_projection] = Inr evidence
        \<and> set (map ce_candidate_ref evidence) \<subseteq> {example_candidate})"
proof -
  have nb: "\<not> blank (u ''text'')" by (simp add: u_def blank_iff is_space_def)
  have act: "\<forall>p \<in> set [example_projection]. require_active_authorized_projection [True] p = Inr ()"
    using constructed_projection_active [OF example_projection_constructed] by simp
  have tok: "(\<lambda>s. [s]) (u ''text'') \<noteq> []" by simp
  obtain ordered where run: "rank_authorized_one_hop (\<lambda>s. [s]) [True] (PStr (u ''text'')) [example_projection]
      = Inr (map (\<lambda>i. \<lparr>ce_candidate_ref = ap_candidate_ref (ordered ! i),
          ce_per_ranker = [\<lparr>re_ranker_ref = GRAPH_RANKER_REF, re_position = int (Suc i),
            re_score = PFloat (one_hop_score (\<lambda>s. [s]) (u ''text'') (ordered ! i))\<rparr>],
          ce_fused_rank = int (Suc i)\<rparr>) [0..<length ordered])"
    and perm: "mset ordered = mset (filter (\<lambda>p. flt (Fin (1 / 2)) (one_hop_score (\<lambda>s. [s]) (u ''text'') p)) [example_projection])"
    using one_hop_ranks_only_authorized [of "u ''text''" "\<lambda>s. [s]" "[example_projection]" "[True]", OF nb tok act]
    by (elim exE conjE) (rule that)
  have "set ordered \<subseteq> {example_projection}"
    using mset_eq_setD [OF perm] by (simp only: set_filter) auto
  then have "ap_candidate_ref (ordered ! i) = example_candidate" if "i < length ordered" for i
    using nth_mem [OF that] by (auto simp: example_projection_def)
  then have "set (map ce_candidate_ref (map (\<lambda>i. \<lparr>ce_candidate_ref = ap_candidate_ref (ordered ! i),
          ce_per_ranker = [\<lparr>re_ranker_ref = GRAPH_RANKER_REF, re_position = int (Suc i),
            re_score = PFloat (one_hop_score (\<lambda>s. [s]) (u ''text'') (ordered ! i))\<rparr>],
          ce_fused_rank = int (Suc i)\<rparr>) [0..<length ordered])) \<subseteq> {example_candidate}"
    by auto
  with nb run show ?thesis by blast
qed

end
