(* ===== verification/Materialized.thy ===== *)
theory Materialized
  imports Candidate_Ranking Policy_Epoch
begin

text \<open>
  \<open>src/engine/runtime/materialized.py\<close>: the seam to the database transaction of the current user
  actor. The database is behind ports; what a port answers when it is called is an argument of the
  model, possibly of the wrong type (\<open>WrongType\<close>) or an exception. Modelled are the values that
  cross the seam with their checks, the rendering of structured fields, and every operation of
  the module.
\<close>

section \<open>Structured field values\<close>

definition STRUCTURED_FIELD_LINE_BREAKS :: "nat list" where
  "STRUCTURED_FIELD_LINE_BREAKS = [10, 13, 11, 12, 28, 29, 30, 133, 8232, 8233]"

text \<open>\<open>f"\\u{ord(character):04x}"\<close> for a code point below 65536.\<close>

definition hex4 :: "nat \<Rightarrow> str" where
  "hex4 c = [hex_digit (c div 4096), hex_digit (c div 256 mod 16), hex_digit (c div 16 mod 16), hex_digit (c mod 16)]"

definition encode_character :: "nat \<Rightarrow> str" where
  "encode_character c =
     (if c = 92 then [92, 92]
      else if c = 61 then [92, 61]
      else if c \<in> set STRUCTURED_FIELD_LINE_BREAKS then [92, 117] @ hex4 c
      else [c])"

definition encode_structured_field_value :: "str \<Rightarrow> str" where
  "encode_structured_field_value v = concat (map encode_character v)"

datatype MaterializedProjectionKind = LEGACY_BODY | STRUCTURED_FIELDS

record MaterializedFieldValue =
  fv_field_ref :: str
  fv_field_value :: str
  fv_ordinal :: int

definition MaterializedFieldValue_init :: "pyval \<Rightarrow> pyval \<Rightarrow> pyval \<Rightarrow> MaterializedFieldValue res" where
  "MaterializedFieldValue_init field_ref field_value ordinal =
     bnd (require_field_ref field_ref) (\<lambda>r.
     bnd (require_nonblank field_value) (\<lambda>v.
     bnd (require_nonnegative_exact_integer ordinal) (\<lambda>i.
       Inr \<lparr>fv_field_ref = r, fv_field_value = v, fv_ordinal = i\<rparr>)))"

record MaterializedFragmentProjection =
  mp_kind :: MaterializedProjectionKind
  mp_fields :: "MaterializedFieldValue list"
  mp_projection_ceiling :: "str fset"

definition projected_field_refs :: "MaterializedFragmentProjection \<Rightarrow> str list" where
  "projected_field_refs p = map fv_field_ref (mp_fields p)"

definition MaterializedFragmentProjection_post_init :: "MaterializedFragmentProjection \<Rightarrow> unit res" where
  "MaterializedFragmentProjection_post_init p =
     (if mp_fields p = [] then Inl ValueError
      else if mp_projection_ceiling p = {||} then Inl ValueError
      else if fBex (mp_projection_ceiling p) (\<lambda>r. \<not> returns (require_field_ref (PStr r))) then Inl ValueError
      else bnd (validate_projected_field_refs (PTuple (map PStr (projected_field_refs p)))) (\<lambda>field_refs.
        if map fv_ordinal (mp_fields p) \<noteq> map int [0..<length (mp_fields p)] then Inl ValueError
        else if \<not> set field_refs \<subseteq> fset (mp_projection_ceiling p) then Inl ValueError
        else if mp_kind p = LEGACY_BODY \<and> field_refs \<noteq> [u ''body''] then Inl ValueError
        else if mp_kind p = STRUCTURED_FIELDS \<and> u ''body'' \<in> set field_refs then Inl ValueError
        else Inr ()))"

text \<open>\<open>"\n".join(...)\<close>.\<close>

fun join_lines :: "str list \<Rightarrow> str" where
  "join_lines [] = []"
| "join_lines [l] = l"
| "join_lines (l # ls) = l @ 10 # join_lines ls"

definition field_line :: "MaterializedFieldValue \<Rightarrow> str" where
  "field_line v = fv_field_ref v @ 61 # encode_structured_field_value (fv_field_value v)"

definition rendered_body :: "MaterializedFragmentProjection \<Rightarrow> str" where
  "rendered_body p =
     (case mp_kind p of LEGACY_BODY \<Rightarrow> fv_field_value (hd (mp_fields p))
      | STRUCTURED_FIELDS \<Rightarrow> join_lines (map field_line (mp_fields p)))"

section \<open>Locators, traces and scope operands\<close>

record MaterializedFragmentLocator =
  ml_organization_id :: uuid
  ml_source_ref :: str
  ml_resource_ref :: str
  ml_revision_ref :: str
  ml_fragment_ref :: str
  ml_source_acl_projection_ref :: str
  ml_source_acl_as_of :: datetime
  ml_source_acl_freshness_profile_ref :: str

definition MaterializedFragmentLocator_init ::
  "pyval \<Rightarrow> pyval \<Rightarrow> pyval \<Rightarrow> pyval \<Rightarrow> pyval \<Rightarrow> pyval \<Rightarrow> pyval \<Rightarrow> pyval \<Rightarrow> MaterializedFragmentLocator res"
where
  "MaterializedFragmentLocator_init org src resource revision fragment acl_ref acl_as_of acl_profile =
     bnd (require_uuid org) (\<lambda>o'.
     bnd (require_nonblank src) (\<lambda>s.
     bnd (require_nonblank resource) (\<lambda>r.
     bnd (require_nonblank revision) (\<lambda>v.
     bnd (require_nonblank fragment) (\<lambda>f.
     bnd (require_nonblank acl_ref) (\<lambda>a.
     bnd (require_nonblank acl_profile) (\<lambda>p.
     bnd (require_utc acl_as_of) (\<lambda>d.
       Inr \<lparr>ml_organization_id = o', ml_source_ref = s, ml_resource_ref = r, ml_revision_ref = v,
            ml_fragment_ref = f, ml_source_acl_projection_ref = a, ml_source_acl_as_of = d,
            ml_source_acl_freshness_profile_ref = p\<rparr>))))))))"

record MaterializedPublicationTrace =
  pt_states :: "str list"
  pt_active_revision_ref :: str

definition MaterializedPublicationTrace_init :: "str list \<Rightarrow> pyval \<Rightarrow> MaterializedPublicationTrace res" where
  "MaterializedPublicationTrace_init states revision =
     (if states \<noteq> [u ''prepared'', u ''indexed'', u ''active''] then Inl ValueError
      else bnd (require_nonblank revision) (\<lambda>r. Inr \<lparr>pt_states = states, pt_active_revision_ref = r\<rparr>))"

record MaterializedScopeOperands =
  mo_organization_boundary :: "ScopeTarget fset"
  mo_membership_rights :: "ScopeTarget fset"
  mo_principal_grants :: "ScopeTarget fset"
  mo_source_native_acl :: "ScopeTarget fset"
  mo_resource_acl :: "ScopeTarget fset"

definition MaterializedScopeOperands_post_init :: "MaterializedScopeOperands \<Rightarrow> unit res" where
  "MaterializedScopeOperands_post_init m =
     each (\<lambda>ts. if fBex ts (\<lambda>t. st_resource_ref t = None) then Inl TypeError else Inr ())
       [mo_organization_boundary m, mo_membership_rights m, mo_principal_grants m, mo_source_native_acl m,
        mo_resource_acl m]"

section \<open>Windows and graph candidates\<close>

record MaterializedFragmentWindowItem =
  wi_locator :: MaterializedFragmentLocator
  wi_projection :: MaterializedFragmentProjection

record MaterializedFragmentWindowRead =
  wr_items :: "MaterializedFragmentWindowItem list"
  wr_reauthorization_refs :: "CandidateRef list"

record MaterializedOneHopCandidate =
  oh_anchor_ref :: CandidateRef
  oh_candidate_ref :: CandidateRef

section \<open>Discovery requests\<close>

definition require_bounded_discovery_limit :: "pyval \<Rightarrow> int res" where
  "require_bounded_discovery_limit = require_int_range 1 MAX_CANDIDATE_SUBMISSION_CEILING"

record ExactPhraseDiscoveryRequest =
  xd_phrase_digest :: pyval

fun require_nonempty_str :: "pyval \<Rightarrow> str res" where
  "require_nonempty_str (PStr s) = (if s = [] then Inl ValueError else Inr s)"
| "require_nonempty_str _ = Inl ValueError"

definition ExactPhraseDiscoveryRequest_post_init :: "ExactPhraseDiscoveryRequest \<Rightarrow> str res" where
  "ExactPhraseDiscoveryRequest_post_init r = require_nonempty_str (xd_phrase_digest r)"

text \<open>Optional tuples of nonempty refs.\<close>

fun require_optional_refs :: "pyval \<Rightarrow> str list option res" where
  "require_optional_refs PNone = Inr None"
| "require_optional_refs (PTuple vs) =
     (if vs = [] then Inl ValueError
      else bnd (mapr require_nonempty_str vs) (\<lambda>rs. Inr (Some rs)))"
| "require_optional_refs _ = Inl ValueError"

record VectorDiscoveryRequest =
  vd_query_embedding :: pyval
  vd_embedding_profile_digest :: pyval
  vd_limit :: pyval
  vd_source_refs :: pyval
  vd_resource_refs :: pyval

text \<open>The validated contents of a vector plan.\<close>

record vector_plan =
  vp_embedding :: "pyfloat list"
  vp_profile_digest :: str
  vp_limit :: int
  vp_source_refs :: "str list option"
  vp_resource_refs :: "str list option"

fun require_float :: "pyval \<Rightarrow> pyfloat res" where
  "require_float (PFloat f) = Inr f"
| "require_float _ = Inl TypeError"

fun require_embedding :: "pyval \<Rightarrow> pyfloat list res" where
  "require_embedding (PTuple vs) = (if vs = [] then Inl ValueError else mapr require_float vs)"
| "require_embedding _ = Inl ValueError"

definition VectorDiscoveryRequest_post_init :: "VectorDiscoveryRequest \<Rightarrow> vector_plan res" where
  "VectorDiscoveryRequest_post_init r =
     bnd (require_embedding (vd_query_embedding r)) (\<lambda>e.
     bnd (require_sha256_hex (vd_embedding_profile_digest r)) (\<lambda>d.
     bnd (require_bounded_discovery_limit (vd_limit r)) (\<lambda>l.
     bnd (require_optional_refs (vd_source_refs r)) (\<lambda>s.
     bnd (require_optional_refs (vd_resource_refs r)) (\<lambda>t.
       Inr \<lparr>vp_embedding = e, vp_profile_digest = d, vp_limit = l, vp_source_refs = s,
            vp_resource_refs = t\<rparr>)))))"

record FtsDiscoveryRequest =
  fd_query_text :: pyval
  fd_limit :: pyval
  fd_source_refs :: pyval
  fd_resource_refs :: pyval

record fts_plan =
  fp_query_text :: str
  fp_limit :: int
  fp_source_refs :: "str list option"
  fp_resource_refs :: "str list option"

definition FtsDiscoveryRequest_post_init :: "FtsDiscoveryRequest \<Rightarrow> fts_plan res" where
  "FtsDiscoveryRequest_post_init r =
     bnd (require_nonblank (fd_query_text r)) (\<lambda>q.
     bnd (require_bounded_discovery_limit (fd_limit r)) (\<lambda>l.
     bnd (require_optional_refs (fd_source_refs r)) (\<lambda>s.
     bnd (require_optional_refs (fd_resource_refs r)) (\<lambda>t.
       Inr \<lparr>fp_query_text = q, fp_limit = l, fp_source_refs = s, fp_resource_refs = t\<rparr>))))"

datatype CandidateDiscoveryRequest =
    ExactPhrase ExactPhraseDiscoveryRequest
  | Fts FtsDiscoveryRequest
  | Vector VectorDiscoveryRequest
  | Hybrid FtsDiscoveryRequest VectorDiscoveryRequest

datatype discovery_plan =
    ExactPhrasePlan str
  | FtsPlan fts_plan
  | VectorPlan vector_plan
  | HybridPlan fts_plan vector_plan

fun discovery_post_init :: "CandidateDiscoveryRequest \<Rightarrow> discovery_plan res" where
  "discovery_post_init (ExactPhrase r) = bnd (ExactPhraseDiscoveryRequest_post_init r) (\<lambda>p. Inr (ExactPhrasePlan p))"
| "discovery_post_init (Fts r) = bnd (FtsDiscoveryRequest_post_init r) (\<lambda>p. Inr (FtsPlan p))"
| "discovery_post_init (Vector r) = bnd (VectorDiscoveryRequest_post_init r) (\<lambda>p. Inr (VectorPlan p))"
| "discovery_post_init (Hybrid f v) =
     bnd (FtsDiscoveryRequest_post_init f) (\<lambda>p.
     bnd (VectorDiscoveryRequest_post_init v) (\<lambda>q. Inr (HybridPlan p q)))"

fun plan_limit :: "discovery_plan \<Rightarrow> int option" where
  "plan_limit (ExactPhrasePlan p) = None"
| "plan_limit (FtsPlan p) = Some (fp_limit p)"
| "plan_limit (VectorPlan p) = Some (vp_limit p)"
| "plan_limit (HybridPlan p q) = Some (fp_limit p + vp_limit q)"

definition require_bounded_discovery_request ::
  "CandidateDiscoveryRequest \<Rightarrow> pyval \<Rightarrow> discovery_plan res"
where
  "require_bounded_discovery_request request submission_limit =
     bnd (discovery_post_init request) (\<lambda>plan.
     bnd (require_candidate_submission_limit submission_limit) (\<lambda>limit.
       case plan_limit plan of None \<Rightarrow> Inr plan
       | Some l \<Rightarrow> if l > limit then Inl ValueError else Inr plan))"

section \<open>The port\<close>

text \<open>
  One database transaction seen as its answers: what every method returns or raises when it is
  called. The methods that a port may lack are optional.
\<close>

record materialized_port =
  port_source_is_active :: "uuid \<Rightarrow> pyval res"
  port_locate :: "CandidateRef \<Rightarrow> MaterializedFragmentLocator option foreign res"
  port_project :: "MaterializedFragmentLocator \<Rightarrow> MaterializedFragmentProjection option foreign res"
  port_observe_publication :: "CandidateRef \<Rightarrow> MaterializedPublicationTrace option foreign res"
  port_current_scope_operands :: "(uuid list \<Rightarrow> MaterializedScopeOperands foreign res) option"
  port_discover_exact_phrase :: "(str \<Rightarrow> CandidateRef list foreign res) option"
  port_discover_vector ::
    "(pyfloat list \<Rightarrow> str \<Rightarrow> int \<Rightarrow> str list option \<Rightarrow> str list option \<Rightarrow> ScopeTarget fset
       \<Rightarrow> CandidateRef list foreign res) option"
  port_discover_fts ::
    "(str \<Rightarrow> int \<Rightarrow> str list option \<Rightarrow> str list option \<Rightarrow> ScopeTarget fset
       \<Rightarrow> CandidateRef list foreign res) option"
  port_discover_one_hop ::
    "(CandidateRef list \<Rightarrow> int \<Rightarrow> int \<Rightarrow> MaterializedOneHopCandidate list foreign res) option"
  port_read_fragment_window ::
    "(MaterializedFragmentLocator \<Rightarrow> int \<Rightarrow> int \<Rightarrow> CandidateRef list
       \<Rightarrow> MaterializedFragmentWindowRead foreign res) option"

text \<open>The type test on an answer, and the lookup of a method a port may lack.\<close>

fun require_exact :: "'a foreign \<Rightarrow> 'a res" where
  "require_exact (Exact x) = Inr x"
| "require_exact WrongType = Inl TypeError"

fun require_method :: "'m option \<Rightarrow> 'm res" where
  "require_method (Some m) = Inr m"
| "require_method None = Inl TypeError"

section \<open>Candidate discovery\<close>

record CandidateDiscoverySession =
  cd_active :: bool
  cd_candidate_sets :: "(str \<times> CandidateRef list) list"

definition discover_vector_candidates ::
  "materialized_port \<Rightarrow> vector_plan \<Rightarrow> EffectiveScope \<Rightarrow> CandidateRef list res"
where
  "discover_vector_candidates port request effective_scope =
     bnd (require_method (port_discover_vector port)) (\<lambda>discover_vector.
     bnd (discover_vector (vp_embedding request) (vp_profile_digest request) (vp_limit request)
            (vp_source_refs request) (vp_resource_refs request) (es_targets effective_scope)) (\<lambda>answer.
     bnd (require_exact answer) (\<lambda>candidates.
       if int (length candidates) > vp_limit request then Inl TypeError else Inr candidates)))"

definition discover_fts_candidates ::
  "materialized_port \<Rightarrow> fts_plan \<Rightarrow> EffectiveScope \<Rightarrow> CandidateRef list res"
where
  "discover_fts_candidates port request effective_scope =
     bnd (require_method (port_discover_fts port)) (\<lambda>discover_fts.
     bnd (discover_fts (fp_query_text request) (fp_limit request) (fp_source_refs request)
            (fp_resource_refs request) (es_targets effective_scope)) (\<lambda>answer.
     bnd (require_exact answer) (\<lambda>candidates.
       if int (length candidates) > fp_limit request then Inl TypeError else Inr candidates)))"

fun discover_candidate_sets ::
  "materialized_port \<Rightarrow> EffectiveScope \<Rightarrow> discovery_plan \<Rightarrow> (str \<times> CandidateRef list) list res"
where
  "discover_candidate_sets port effective_scope (ExactPhrasePlan phrase_digest) =
     bnd (require_method (port_discover_exact_phrase port)) (\<lambda>discover_exact_phrase.
     bnd (discover_exact_phrase phrase_digest) (\<lambda>answer.
     bnd (require_exact answer) (\<lambda>candidates. Inr [(u ''exact_phrase'', candidates)])))"
| "discover_candidate_sets port effective_scope (FtsPlan p) =
     bnd (discover_fts_candidates port p effective_scope) (\<lambda>candidates. Inr [(u ''fts'', candidates)])"
| "discover_candidate_sets port effective_scope (VectorPlan p) =
     bnd (discover_vector_candidates port p effective_scope) (\<lambda>candidates. Inr [(u ''vector'', candidates)])"
| "discover_candidate_sets port effective_scope (HybridPlan p q) =
     bnd (discover_fts_candidates port p effective_scope) (\<lambda>lexical.
     bnd (discover_vector_candidates port q effective_scope) (\<lambda>vector.
       Inr [(u ''fts'', lexical), (u ''vector'', vector)]))"

definition construct_candidate_discovery_session ::
  "scope_heap \<Rightarrow> authority_session \<Rightarrow> materialized_port \<Rightarrow> discovery_plan \<Rightarrow> EffectiveScope
    \<Rightarrow> CandidateDiscoverySession res"
where
  "construct_candidate_discovery_session h session port request effective_scope =
     bnd (require_active_materialized_projection_session h session) (\<lambda>_.
     bnd (require_effective_scope_integrity effective_scope) (\<lambda>_.
     bnd (discover_candidate_sets port effective_scope request) (\<lambda>sets.
       Inr \<lparr>cd_active = True, cd_candidate_sets = sets\<rparr>)))"

definition candidate_discovery_candidates :: "CandidateDiscoverySession \<Rightarrow> CandidateRef list res" where
  "candidate_discovery_candidates session =
     (if \<not> cd_active session then Inl ValueError
      else if length (cd_candidate_sets session) \<noteq> 1 then Inl ValueError
      else Inr (snd (cd_candidate_sets session ! 0)))"

definition candidate_discovery_ranker_candidates ::
  "CandidateDiscoverySession \<Rightarrow> str \<Rightarrow> CandidateRef list res"
where
  "candidate_discovery_ranker_candidates session ranker_ref =
     (if \<not> cd_active session then Inl ValueError
      else let matches = [cs. (r, cs) \<leftarrow> cd_candidate_sets session, r = ranker_ref]
           in if length matches \<noteq> 1 then Inl ValueError else Inr (matches ! 0))"

definition discover_materialized_candidates :: "CandidateDiscoverySession \<Rightarrow> CandidateRef list res" where
  "discover_materialized_candidates = candidate_discovery_candidates"

definition close_candidate_discovery_session :: "CandidateDiscoverySession \<Rightarrow> CandidateDiscoverySession" where
  "close_candidate_discovery_session session = session\<lparr>cd_active := False, cd_candidate_sets := []\<rparr>"

definition discover_materialized_exact_phrase ::
  "CandidateDiscoverySession \<Rightarrow> pyval \<Rightarrow> CandidateRef list res"
where
  "discover_materialized_exact_phrase session phrase_digest =
     bnd (require_nonempty_str phrase_digest) (\<lambda>_. candidate_discovery_candidates session)"

fun require_nonempty_tuple :: "pyval \<Rightarrow> unit res" where
  "require_nonempty_tuple (PTuple vs) = (if vs = [] then Inl ValueError else Inr ())"
| "require_nonempty_tuple _ = Inl ValueError"

fun require_positive_int :: "pyval \<Rightarrow> int res" where
  "require_positive_int (PInt i) = (if i \<le> 0 then Inl ValueError else Inr i)"
| "require_positive_int _ = Inl ValueError"

definition discover_materialized_vector ::
  "CandidateDiscoverySession \<Rightarrow> pyval \<Rightarrow> pyval \<Rightarrow> pyval \<Rightarrow> pyval \<Rightarrow> CandidateDiscoveryScope
    \<Rightarrow> CandidateRef list res"
where
  "discover_materialized_vector session query_embedding limit srcs ress effective_scope =
     bnd (require_nonempty_tuple query_embedding) (\<lambda>_.
     bnd (require_positive_int limit) (\<lambda>bound.
     bnd (require_candidate_discovery_scope_integrity effective_scope) (\<lambda>_.
     bnd (require_optional_refs srcs) (\<lambda>_.
     bnd (require_optional_refs ress) (\<lambda>_.
     bnd (candidate_discovery_candidates session) (\<lambda>candidates.
       if int (length candidates) > bound then Inl TypeError else Inr candidates))))))"

section \<open>Reads of the retained transaction\<close>

definition current_materialized_scope_operands ::
  "scope_heap \<Rightarrow> authority_session \<Rightarrow> materialized_port \<Rightarrow> str list \<Rightarrow> MaterializedScopeOperands res"
where
  "current_materialized_scope_operands h session port active_revision_refs =
     bnd (require_active_materialized_projection_session h session) (\<lambda>_.
       if active_revision_refs = [] then Inl MaterializedScopeUnavailable
       else if None \<in> set (map canonical_uuid active_revision_refs) then Inl MaterializedScopeUnavailable
       else case port_current_scope_operands port of
              None \<Rightarrow> Inl MaterializedScopeUnavailable
            | Some current_scope_operands \<Rightarrow>
                bnd (current_scope_operands (map (the \<circ> canonical_uuid) active_revision_refs)) require_exact)"

definition is_materialized_source_active ::
  "scope_heap \<Rightarrow> authority_session \<Rightarrow> materialized_port \<Rightarrow> pyval \<Rightarrow> bool res"
where
  "is_materialized_source_active h session port source_ref =
     bnd (require_active_materialized_projection_session h session) (\<lambda>_.
     bnd (require_uuid source_ref) (\<lambda>src.
     bnd (port_source_is_active port src) (\<lambda>observed.
       case observed of PBool b \<Rightarrow> Inr b | _ \<Rightarrow> Inl TypeError)))"

definition locate_materialized_fragment ::
  "scope_heap \<Rightarrow> authority_session \<Rightarrow> materialized_port \<Rightarrow> CandidateRef
    \<Rightarrow> MaterializedFragmentLocator option res"
where
  "locate_materialized_fragment h session port candidate_ref =
     bnd (require_active_materialized_projection_session h session) (\<lambda>_.
     bnd (port_locate port candidate_ref) require_exact)"

definition observe_materialized_publication ::
  "scope_heap \<Rightarrow> authority_session \<Rightarrow> materialized_port \<Rightarrow> CandidateRef
    \<Rightarrow> MaterializedPublicationTrace option res"
where
  "observe_materialized_publication h session port candidate_ref =
     bnd (require_active_materialized_projection_session h session) (\<lambda>_.
     bnd (port_observe_publication port candidate_ref) require_exact)"

definition project_materialized_fragment ::
  "scope_heap \<Rightarrow> authority_session \<Rightarrow> materialized_port \<Rightarrow> MaterializedFragmentLocator
    \<Rightarrow> MaterializedFragmentProjection option res"
where
  "project_materialized_fragment h session port locator =
     bnd (require_active_materialized_projection_session h session) (\<lambda>_.
     bnd (port_project port locator) (\<lambda>answer.
     bnd (require_exact answer) (\<lambda>projection.
       case projection of None \<Rightarrow> Inr None
       | Some p \<Rightarrow> bnd (MaterializedFragmentProjection_post_init p) (\<lambda>_. Inr (Some p)))))"

definition discover_materialized_one_hop ::
  "scope_heap \<Rightarrow> authority_session \<Rightarrow> materialized_port \<Rightarrow> AuthorizedProjection list \<Rightarrow> pyval \<Rightarrow> pyval
    \<Rightarrow> MaterializedOneHopCandidate list res"
where
  "discover_materialized_one_hop h session port anchors limit offset =
     bnd (require_active_materialized_projection_session h session) (\<lambda>_.
     bnd (require_int_range 1 64 limit) (\<lambda>bound.
     bnd (require_nonnegative_exact_integer offset) (\<lambda>start.
     bnd (each (require_active_authorized_projection h) anchors) (\<lambda>_.
       if anchors = [] then Inr []
       else case port_discover_one_hop port of
              None \<Rightarrow> Inr []
            | Some discover_one_hop \<Rightarrow>
                bnd (discover_one_hop (map ap_candidate_ref anchors) bound start) (\<lambda>answer.
                bnd (require_exact answer) (\<lambda>discovered.
                  let anchor_refs = set (map ap_candidate_ref anchors) in
                  if int (length discovered) > bound then Inl TypeError
                  else if list_ex (\<lambda>item. oh_anchor_ref item \<notin> anchor_refs) discovered then Inl ValueError
                  else if list_ex (\<lambda>item. oh_candidate_ref item \<in> anchor_refs) discovered then Inl ValueError
                  else if card (set (map oh_candidate_ref discovered)) \<noteq> length discovered then Inl ValueError
                  else Inr discovered))))))"

definition require_same_article :: "MaterializedFragmentLocator \<Rightarrow> MaterializedFragmentWindowItem \<Rightarrow> unit res" where
  "require_same_article anchor item =
     (let l = wi_locator item in
      if ml_organization_id l \<noteq> ml_organization_id anchor \<or> ml_source_ref l \<noteq> ml_source_ref anchor
         \<or> ml_resource_ref l \<noteq> ml_resource_ref anchor \<or> ml_revision_ref l \<noteq> ml_revision_ref anchor
      then Inl ValueError else Inr ())"

definition same_article_ref :: "MaterializedFragmentLocator \<Rightarrow> CandidateRef \<Rightarrow> bool" where
  "same_article_ref anchor c \<longleftrightarrow>
     cr_organization_id c = ml_organization_id anchor \<and> cr_source_ref c = ml_source_ref anchor
     \<and> cr_resource_ref c = ml_resource_ref anchor"

definition read_materialized_fragment_window ::
  "scope_heap \<Rightarrow> authority_session \<Rightarrow> materialized_port \<Rightarrow> MaterializedFragmentLocator \<Rightarrow> pyval \<Rightarrow> pyval
    \<Rightarrow> CandidateRef list \<Rightarrow> MaterializedFragmentWindowRead res"
where
  "read_materialized_fragment_window h session port anchor before after expansion_candidates =
     bnd (require_active_materialized_projection_session h session) (\<lambda>_.
     bnd (require_int_range 0 32 before) (\<lambda>b.
     bnd (require_int_range 0 32 after) (\<lambda>a.
       if length expansion_candidates > 64 then Inl ValueError
       else
         bnd (require_method (port_read_fragment_window port)) (\<lambda>read_fragment_window.
         bnd (read_fragment_window anchor b a expansion_candidates) (\<lambda>answer.
         bnd (require_exact answer) (\<lambda>rd.
         bnd (each (require_same_article anchor) (wr_items rd)) (\<lambda>_.
           if card (set (wr_reauthorization_refs rd)) \<noteq> length (wr_reauthorization_refs rd) then Inl ValueError
           else if list_ex (same_article_ref anchor) (wr_reauthorization_refs rd) then Inl ValueError
           else Inr rd)))))))"

declare validate_projected_field_refs.simps [simp del] require_field_ref.simps [simp del]
  require_optional_refs.simps [simp del] require_int_range.simps [simp del]
  require_nonnegative_exact_integer.simps [simp del]

section \<open>Lemmas on the rendering\<close>

text \<open>Escaped characters form a prefix code, so an escaped value can be read back.\<close>

lemma hex4_line_break_inject:
  "\<lbrakk>x \<in> set STRUCTURED_FIELD_LINE_BREAKS; y \<in> set STRUCTURED_FIELD_LINE_BREAKS; hex4 x = hex4 y\<rbrakk> \<Longrightarrow> x = y"
  by (auto simp: STRUCTURED_FIELD_LINE_BREAKS_def hex4_def hex_digit_def)

lemma length_hex4 [simp]: "length (hex4 c) = 4"
  by (simp add: hex4_def)

interpretation escape: self_delimiting encode_character "\<lambda>_. True"
proof
  show "encode_character x \<noteq> []" for x
    by (simp add: encode_character_def)
next
  fix x y and r s :: str
  assume eq: "encode_character x @ r = encode_character y @ s"
  show "x = y \<and> r = s"
    using eq by (auto simp: encode_character_def split: if_splits intro: hex4_line_break_inject)
qed

lemma encode_structured_field_value_inject:
  "encode_structured_field_value v = encode_structured_field_value w \<Longrightarrow> v = w"
  unfolding encode_structured_field_value_def by (rule escape.concat_inject) (simp_all add: list_all_iff)

lemma hex_digit_not_newline: "hex_digit n \<noteq> 10"
  by (simp add: hex_digit_def)

lemma encoded_value_single_line: "10 \<notin> set (encode_structured_field_value v)"
proof -
  have "10 \<notin> set (encode_character c)" for c
    using hex_digit_not_newline [symmetric]
    by (simp add: encode_character_def hex4_def STRUCTURED_FIELD_LINE_BREAKS_def)
  then show ?thesis by (simp add: encode_structured_field_value_def)
qed

lemma field_ref_text_chars: "field_ref_text r \<Longrightarrow> 10 \<notin> set r \<and> 61 \<notin> set r"
  by (auto simp: field_ref_text_def list_all_iff field_ref_char_def is_lower_def is_digit_def)

lemma field_line_inject:
  assumes "field_ref_text (fv_field_ref v)" "field_ref_text (fv_field_ref w)" "field_line v = field_line w"
  shows "fv_field_ref v = fv_field_ref w \<and> fv_field_value v = fv_field_value w"
  using delimited_inject [of 61 "fv_field_ref v" "fv_field_ref w"] assms
  by (auto simp: field_line_def field_ref_text_chars intro: encode_structured_field_value_inject)

lemma field_line_single: "field_ref_text (fv_field_ref v) \<Longrightarrow> 10 \<notin> set (field_line v)"
  using field_ref_text_chars [of "fv_field_ref v"] encoded_value_single_line [of "fv_field_value v"]
  by (simp add: field_line_def)

lemma join_lines_Cons: "ls \<noteq> [] \<Longrightarrow> join_lines (l # ls) = l @ 10 # join_lines ls"
  by (cases ls) simp_all

lemma join_lines_inject:
  assumes "xs \<noteq> []" "ys \<noteq> []" "\<forall>x \<in> set xs. 10 \<notin> set x" "\<forall>y \<in> set ys. 10 \<notin> set y"
    and "join_lines xs = join_lines ys"
  shows "xs = ys"
  using assms
proof (induction xs arbitrary: ys)
  case (Cons x xs)
  then obtain y ys' where ys: "ys = y # ys'" by (cases ys) auto
  show ?case
  proof (cases "xs = []"; cases "ys' = []")
    assume "xs \<noteq> []" "ys' \<noteq> []"
    with Cons.prems ys have "x = y \<and> join_lines xs = join_lines ys'"
      by (intro delimited_inject [of 10]) (simp_all add: join_lines_Cons)
    moreover from this have "xs = ys'"
      using Cons.prems(3,4) ys \<open>xs \<noteq> []\<close> \<open>ys' \<noteq> []\<close> by (intro Cons.IH) simp_all
    ultimately show ?thesis using ys by simp
  next
    assume "xs = []" "ys' \<noteq> []"
    with Cons.prems ys have "10 \<in> set x" by (simp add: join_lines_Cons)
    with Cons.prems show ?thesis by simp
  next
    assume "xs \<noteq> []" "ys' = []"
    with Cons.prems(5) ys have "y = x @ 10 # join_lines xs" by (simp add: join_lines_Cons)
    with Cons.prems(4) ys show ?thesis by simp
  qed (use Cons.prems ys in simp_all)
qed simp

lemma MaterializedFragmentProjection_post_init_eq [validators]:
  "MaterializedFragmentProjection_post_init p = Inr w \<longleftrightarrow>
     mp_fields p \<noteq> [] \<and> (\<forall>r |\<in>| mp_projection_ceiling p. field_ref_text r)
     \<and> length (mp_fields p) \<le> MAX_PROJECTED_FIELD_REFS
     \<and> distinct (projected_field_refs p) \<and> set (projected_field_refs p) \<subseteq> fset (mp_projection_ceiling p)
     \<and> map fv_ordinal (mp_fields p) = map int [0..<length (mp_fields p)]
     \<and> (mp_kind p = LEGACY_BODY \<longrightarrow> projected_field_refs p = [u ''body''])
     \<and> (mp_kind p = STRUCTURED_FIELDS \<longrightarrow> u ''body'' \<notin> set (projected_field_refs p))" (is "_ \<longleftrightarrow> ?R")
proof -
  have ceiling: "returns (require_field_ref (PStr r)) \<longleftrightarrow> field_ref_text r" for r
    by (simp add: returns_def require_field_ref_eq)
  have len: "length (projected_field_refs p) = length (mp_fields p)"
    "projected_field_refs p = [] \<longleftrightarrow> mp_fields p = []"
    by (simp_all add: projected_field_refs_def)
  have ceil: "fBex (mp_projection_ceiling p) (\<lambda>r. \<not> returns (require_field_ref (PStr r))) \<longleftrightarrow>
      \<not> (\<forall>r |\<in>| mp_projection_ceiling p. field_ref_text r)"
    by (simp add: ceiling)
  define ordered where "ordered \<longleftrightarrow> map fv_ordinal (mp_fields p) = map int [0..<length (mp_fields p)]"
  have refs: "list_all field_ref_text (projected_field_refs p)"
    if "set (projected_field_refs p) \<subseteq> fset (mp_projection_ceiling p)" "\<forall>r |\<in>| mp_projection_ceiling p. field_ref_text r"
    using that by (auto simp: list_all_iff)
  have ne: "mp_projection_ceiling p \<noteq> {||}"
    if "set (projected_field_refs p) \<subseteq> fset (mp_projection_ceiling p)" "mp_fields p \<noteq> []"
    using that by (auto simp: projected_field_refs_def)
  have "MaterializedFragmentProjection_post_init p = Inr w \<longleftrightarrow>
      mp_fields p \<noteq> [] \<and> mp_projection_ceiling p \<noteq> {||} \<and> (\<forall>r |\<in>| mp_projection_ceiling p. field_ref_text r)
      \<and> length (mp_fields p) \<le> MAX_PROJECTED_FIELD_REFS \<and> list_all field_ref_text (projected_field_refs p)
      \<and> distinct (projected_field_refs p) \<and> ordered \<and> set (projected_field_refs p) \<subseteq> fset (mp_projection_ceiling p)
      \<and> \<not> (mp_kind p = LEGACY_BODY \<and> projected_field_refs p \<noteq> [u ''body''])
      \<and> \<not> (mp_kind p = STRUCTURED_FIELDS \<and> u ''body'' \<in> set (projected_field_refs p))"
    unfolding MaterializedFragmentProjection_post_init_def if_raise_eq_Inr bnd_eq_Inr ceil
      validate_projected_field_refs_eq ordered_def [symmetric]
    by (simp add: len del: if_raise_eq_Inr) blast
  with refs ne show ?thesis unfolding ordered_def by blast
qed

lemma projected_field_refs_text:
  "MaterializedFragmentProjection_post_init p = Inr () \<Longrightarrow> v \<in> set (mp_fields p) \<Longrightarrow> field_ref_text (fv_field_ref v)"
  by (auto simp: MaterializedFragmentProjection_post_init_eq projected_field_refs_def)

lemma rendered_fields_inject:
  assumes "MaterializedFragmentProjection_post_init p = Inr ()" "MaterializedFragmentProjection_post_init q = Inr ()"
    and "mp_kind p = STRUCTURED_FIELDS" "mp_kind q = STRUCTURED_FIELDS" and "rendered_body p = rendered_body q"
  shows "mp_fields p = mp_fields q"
proof -
  have "map field_line (mp_fields p) = map field_line (mp_fields q)"
  proof (rule join_lines_inject)
    show "join_lines (map field_line (mp_fields p)) = join_lines (map field_line (mp_fields q))"
      using assms(3-5) by (simp add: rendered_body_def)
    show "map field_line (mp_fields p) \<noteq> []" "map field_line (mp_fields q) \<noteq> []"
      using assms(1,2) by (simp_all add: MaterializedFragmentProjection_post_init_eq)
  qed (use assms(1,2) in \<open>simp_all add: projected_field_refs_text field_line_single\<close>)
  then have len: "length (mp_fields p) = length (mp_fields q)"
    and eq: "\<And>i. i < length (mp_fields p) \<Longrightarrow> field_line (mp_fields p ! i) = field_line (mp_fields q ! i)"
    by (auto dest: map_eq_imp_length_eq simp: list_eq_iff_nth_eq)
  show ?thesis
  proof (rule nth_equalityI [OF len])
    fix i assume i: "i < length (mp_fields p)"
    have "fv_ordinal (mp_fields p ! i) = int i" "fv_ordinal (mp_fields q ! i) = int i"
      using assms(1,2) i len unfolding MaterializedFragmentProjection_post_init_eq list_eq_iff_nth_eq by simp_all
    moreover have "fv_field_ref (mp_fields p ! i) = fv_field_ref (mp_fields q ! i)
        \<and> fv_field_value (mp_fields p ! i) = fv_field_value (mp_fields q ! i)"
      using i len assms(1,2) by (intro field_line_inject eq) (simp_all add: projected_field_refs_text)
    ultimately show "mp_fields p ! i = mp_fields q ! i"
      by (intro MaterializedFieldValue.equality) simp_all
  qed
qed

section \<open>Lemmas on discovery\<close>

lemma require_exact_eq [validators]: "require_exact a = Inr x \<longleftrightarrow> a = Exact x"
  by (cases a) auto

lemma require_method_eq [validators]: "require_method a = Inr x \<longleftrightarrow> a = Some x"
  by (cases a) auto

lemma discovered_within_plan:
  "discover_fts_candidates port p scope = Inr cs \<Longrightarrow> int (length cs) \<le> fp_limit p"
  "discover_vector_candidates port q scope = Inr ds \<Longrightarrow> int (length ds) \<le> vp_limit q"
  by (auto simp: discover_fts_candidates_def discover_vector_candidates_def)

definition discovered_total :: "CandidateDiscoverySession \<Rightarrow> int" where
  "discovered_total s = (\<Sum>(r, cs) \<leftarrow> cd_candidate_sets s. int (length cs))"

lemma discover_candidate_sets_bounded:
  assumes "discover_candidate_sets port scope plan = Inr sets" "plan_limit plan = Some l"
  shows "(\<Sum>(r, cs) \<leftarrow> sets. int (length cs)) \<le> l"
  using assms by (cases plan) (auto dest: discovered_within_plan intro!: add_mono)

lemma ranker_names [simp]: "u ''fts'' \<noteq> u ''vector''"
  by (simp add: u_def)

lemma discover_candidate_sets_rankers:
  "discover_candidate_sets port scope plan = Inr sets \<Longrightarrow> distinct (map fst sets)"
  by (cases plan) auto

lemma ranker_lookup:
  assumes "cd_active s" "distinct (map fst (cd_candidate_sets s))" "(r, cs) \<in> set (cd_candidate_sets s)"
  shows "candidate_discovery_ranker_candidates s r = Inr cs"
proof -
  have "[cs. (r', cs) \<leftarrow> sets, r' = r] = [cs]" if "distinct (map fst sets)" "(r, cs) \<in> set sets"
    for sets :: "(str \<times> CandidateRef list) list"
  proof -
    have "[cs. (r', cs) \<leftarrow> zs, r' = r] = []" if "r \<notin> fst ` set zs" for zs :: "(str \<times> CandidateRef list) list"
      using that by (induction zs) auto
    then show ?thesis using that by (induction sets) (auto simp: image_iff)
  qed
  with assms show ?thesis by (simp add: candidate_discovery_ranker_candidates_def)
qed

section \<open>Properties\<close>

text \<open>
  C27. The rendering of structured fields is unambiguous: two projections that pass their checks
  render to the same body exactly when they have the same fields in the same order, whatever
  the values contain (delimiters, backslashes, line breaks), and a value never adds a line to the
  body.
\<close>

theorem structured_rendering_unambiguous:
  assumes "MaterializedFragmentProjection_post_init p = Inr ()" "MaterializedFragmentProjection_post_init q = Inr ()"
    and "mp_kind p = STRUCTURED_FIELDS" "mp_kind q = STRUCTURED_FIELDS"
  shows "(rendered_body p = rendered_body q \<longleftrightarrow> mp_fields p = mp_fields q)
    \<and> count_list (rendered_body p) 10 + 1 = length (mp_fields p)"
proof
  show "rendered_body p = rendered_body q \<longleftrightarrow> mp_fields p = mp_fields q"
    using rendered_fields_inject [OF assms] assms(3,4) by (auto simp: rendered_body_def)
  have lines: "count_list (join_lines ls) 10 + 1 = length ls"
    if "ls \<noteq> []" "\<forall>l \<in> set ls. 10 \<notin> set l" for ls
    using that by (induction ls rule: join_lines.induct) (auto simp: count_list_0_iff)
  show "count_list (rendered_body p) 10 + 1 = length (mp_fields p)"
    using lines [of "map field_line (mp_fields p)"] assms(1,3)
    by (simp add: rendered_body_def MaterializedFragmentProjection_post_init_eq
        projected_field_refs_text [OF assms(1)] field_line_single)
qed

definition example_field :: "string \<Rightarrow> str \<Rightarrow> int \<Rightarrow> MaterializedFieldValue" where
  "example_field ref value' ordinal = \<lparr>fv_field_ref = u ref, fv_field_value = value', fv_ordinal = ordinal\<rparr>"

definition example_structured :: "str \<Rightarrow> str \<Rightarrow> MaterializedFragmentProjection" where
  "example_structured title note = \<lparr>mp_kind = STRUCTURED_FIELDS,
     mp_fields = [example_field ''title'' title 0, example_field ''note'' note 1],
     mp_projection_ceiling = {|u ''title'', u ''note'', u ''owner''|}\<rparr>"

lemma example_structured_ok: "MaterializedFragmentProjection_post_init (example_structured v w) = Inr ()"
  by (simp add: MaterializedFragmentProjection_post_init_eq example_structured_def example_field_def
      projected_field_refs_def u_def field_ref_text_def field_ref_char_def is_lower_def is_digit_def
      MAX_PROJECTED_FIELD_REFS_def MAX_PROJECTED_FIELD_REF_LENGTH_def upt_rec)

theorem structured_rendering_unambiguous_witness:
  "rendered_body (example_structured (u ''a'') (u ''b'' @ [10] @ u ''note=c''))
     \<noteq> rendered_body (example_structured (u ''a'' @ [10] @ u ''note=b'') (u ''c''))
   \<and> count_list (rendered_body (example_structured (u ''a'') (u ''b'' @ [10] @ u ''note=c''))) 10 = 1"
  using structured_rendering_unambiguous [OF example_structured_ok example_structured_ok,
      of "u ''a''" "u ''b'' @ [10] @ u ''note=c''" "u ''a'' @ [10] @ u ''note=b''" "u ''c''"]
  by (simp add: example_structured_def example_field_def u_def)

text \<open>
  Candidate discovery stays within the server's bound: when a full-text, vector or hybrid plan
  passes the bound on requests, the candidates the transaction hands over number at most the
  submission limit, which is at most 512, whatever the port answers; every ranker's list can
  be read by its name, and nothing can be read after the session is closed.
\<close>

theorem discovery_within_submission_limit:
  assumes "require_bounded_discovery_request request (PInt limit) = Inr plan" "plan_limit plan = Some l"
    and "construct_candidate_discovery_session h session port plan scope = Inr s"
  shows "discovered_total s \<le> limit \<and> limit \<le> 512
    \<and> (\<forall>(r, cs) \<in> set (cd_candidate_sets s). candidate_discovery_ranker_candidates s r = Inr cs)
    \<and> candidate_discovery_candidates (close_candidate_discovery_session s) = Inl ValueError
    \<and> candidate_discovery_ranker_candidates (close_candidate_discovery_session s) ranker = Inl ValueError"
proof -
  from assms(1,2) have "l \<le> limit" "limit \<le> 512"
    by (auto simp: require_bounded_discovery_request_def require_candidate_submission_limit_def
        require_int_range_eq MAX_CANDIDATE_SUBMISSION_CEILING_def split: option.splits if_splits)
  moreover from assms(3) have sets: "discover_candidate_sets port scope plan = Inr (cd_candidate_sets s)" "cd_active s"
    by (auto simp: construct_candidate_discovery_session_def)
  moreover have "discovered_total s \<le> l"
    unfolding discovered_total_def by (rule discover_candidate_sets_bounded [OF sets(1) assms(2)])
  ultimately show ?thesis
    by (auto simp: close_candidate_discovery_session_def candidate_discovery_candidates_def
        candidate_discovery_ranker_candidates_def [of "_\<lparr>cd_active := False, cd_candidate_sets := []\<rparr>"]
        intro: ranker_lookup discover_candidate_sets_rankers)
qed

definition example_port :: materialized_port where
  "example_port = \<lparr>port_source_is_active = \<lambda>_. Inr (PBool True), port_locate = \<lambda>_. Inr (Exact None),
     port_project = \<lambda>_. Inr (Exact None), port_observe_publication = \<lambda>_. Inr (Exact None),
     port_current_scope_operands = None, port_discover_exact_phrase = None,
     port_discover_vector = None,
     port_discover_fts = Some (\<lambda>_ _ _ _ _. Inr (Exact [example_candidate])),
     port_discover_one_hop = Some (\<lambda>anchors _ _. Inr (Exact
        [\<lparr>oh_anchor_ref = hd anchors, oh_candidate_ref = example_candidate\<lparr>cr_fragment_ref := u ''next''\<rparr>\<rparr>])),
     port_read_fragment_window = None\<rparr>"

definition example_projection_session :: authority_session where
  "example_projection_session = \<lparr>ss_id = 0,
     ss_scope = \<lparr>tok_kind = MaterializedProjectionScope, tok_sealed = True, tok_id = 1\<rparr>, ss_port_complete = True\<rparr>"

theorem discovery_within_submission_limit_witness:
  "\<exists>plan s. construct_candidate_discovery_session [True, True] example_projection_session example_port plan
      (EffectiveScope_init {|example_target|}) = Inr s
    \<and> discovered_total s \<le> 8 \<and> candidate_discovery_ranker_candidates s (u ''fts'') = Inr [example_candidate]
    \<and> candidate_discovery_candidates (close_candidate_discovery_session s) = Inl ValueError"
proof -
  let ?plan = "FtsPlan \<lparr>fp_query_text = u ''q'', fp_limit = 4, fp_source_refs = None, fp_resource_refs = None\<rparr>"
  let ?s = "\<lparr>cd_active = True, cd_candidate_sets = [(u ''fts'', [example_candidate])]\<rparr>"
  have bounded: "require_bounded_discovery_request (Fts \<lparr>fd_query_text = PStr (u ''q''), fd_limit = PInt 4,
      fd_source_refs = PNone, fd_resource_refs = PNone\<rparr>) (PInt 8) = Inr ?plan"
    by (simp add: require_bounded_discovery_request_def FtsDiscoveryRequest_post_init_def
        require_bounded_discovery_limit_def require_candidate_submission_limit_def require_int_range.simps
        require_optional_refs.simps MAX_CANDIDATE_SUBMISSION_CEILING_def u_def blank_iff is_space_def)
  have session: "construct_candidate_discovery_session [True, True] example_projection_session example_port ?plan
      (EffectiveScope_init {|example_target|}) = Inr ?s"
    by (simp add: construct_candidate_discovery_session_def discover_fts_candidates_def
        require_active_materialized_projection_session_def require_session_scope_def scope_active_def
        example_projection_session_def example_port_def)
  show ?thesis
    using discovery_within_submission_limit [OF bounded _ session, of 4 "u ''fts''"] session by auto
qed

text \<open>
  C28. Graph expansion is rooted in what was authorized: every candidate of a one-hop expansion
  names an anchor that passes the projection check now, is none of the anchors itself, occurs
  once, and there are at most as many as the requested limit, itself at most 64; with a closed
  session scope, or with an anchor whose Kernel scope is closed, the expansion raises.
\<close>

theorem one_hop_rooted_in_authorized_anchors:
  assumes "discover_materialized_one_hop h session port anchors limit offset = Inr items"
  shows "(\<forall>i \<in> set items. (\<exists>a \<in> set anchors. oh_anchor_ref i = ap_candidate_ref a
              \<and> require_active_authorized_projection h a = Inr ())
            \<and> oh_candidate_ref i \<notin> ap_candidate_ref ` set anchors)
    \<and> distinct (map oh_candidate_ref items)
    \<and> (\<exists>l. limit = PInt l \<and> int (length items) \<le> l \<and> l \<le> 64)
    \<and> (\<not> scope_active MaterializedProjectionScope h' (ss_scope session)
          \<or> (\<exists>a \<in> set anchors. \<not> scope_active AuthorizationKernelScope h' (ap_kernel_scope a))
        \<longrightarrow> \<not> returns (discover_materialized_one_hop h' session port anchors limit offset))"
proof (intro conjI impI)
  from assms have act: "\<forall>a \<in> set anchors. require_active_authorized_projection h a = Inr ()"
    by (auto simp: discover_materialized_one_hop_def)
  then show "\<forall>i \<in> set items. (\<exists>a \<in> set anchors. oh_anchor_ref i = ap_candidate_ref a
              \<and> require_active_authorized_projection h a = Inr ())
            \<and> oh_candidate_ref i \<notin> ap_candidate_ref ` set anchors"
    using assms
    by (auto simp: discover_materialized_one_hop_def Let_def list_ex_iff split: if_splits option.splits)
  show "distinct (map oh_candidate_ref items)"
    using assms by (auto simp: discover_materialized_one_hop_def Let_def card_distinct split: if_splits option.splits)
  show "\<exists>l. limit = PInt l \<and> int (length items) \<le> l \<and> l \<le> 64"
    using assms
    by (auto simp: discover_materialized_one_hop_def Let_def require_int_range_eq split: if_splits option.splits)
  assume "\<not> scope_active MaterializedProjectionScope h' (ss_scope session)
          \<or> (\<exists>a \<in> set anchors. \<not> scope_active AuthorizationKernelScope h' (ap_kernel_scope a))"
  then show "\<not> returns (discover_materialized_one_hop h' session port anchors limit offset)"
    unfolding returns_def discover_materialized_one_hop_def by (fastforce simp: validators)
qed

lemma example_projection_active: "require_active_authorized_projection [True, True] example_projection = Inr ()"
  using constructed_projection_active [OF example_projection_constructed]
  by (simp add: require_active_authorized_projection_eq scope_active_def nth_Cons')

theorem one_hop_rooted_in_authorized_anchors_witness:
  "\<exists>i. discover_materialized_one_hop [True, True] example_projection_session example_port [example_projection]
      (PInt 5) (PInt 0) = Inr [i]
    \<and> oh_anchor_ref i = ap_candidate_ref example_projection \<and> oh_candidate_ref i \<noteq> example_candidate
    \<and> \<not> returns (discover_materialized_one_hop [False, True] example_projection_session example_port
        [example_projection] (PInt 5) (PInt 0))"
proof -
  let ?i = "\<lparr>oh_anchor_ref = example_candidate, oh_candidate_ref = example_candidate\<lparr>cr_fragment_ref := u ''next''\<rparr>\<rparr>"
  have anchor: "ap_candidate_ref example_projection = example_candidate" by (simp add: example_projection_def)
  have other: "example_candidate\<lparr>cr_fragment_ref := u ''next''\<rparr> \<noteq> example_candidate"
    by (simp add: example_candidate_def u_def)
  have run: "discover_materialized_one_hop [True, True] example_projection_session example_port [example_projection]
      (PInt 5) (PInt 0) = Inr [?i]"
    by (simp add: discover_materialized_one_hop_def example_projection_active require_int_range.simps
        require_nonnegative_exact_integer.simps require_active_materialized_projection_session_def
        require_session_scope_def scope_active_def example_projection_session_def example_port_def
        anchor other Let_def)
  have "\<not> scope_active AuthorizationKernelScope [False, True] (ap_kernel_scope example_projection)"
    by (simp add: scope_active_def example_projection_def)
  with one_hop_rooted_in_authorized_anchors [OF run, of "[False, True]"] run show ?thesis
    by (auto simp: anchor other)
qed

end
