(* ===== verification/Kernel.thy ===== *)
theory Kernel
  imports Actor Authorized_Ranking Materialized
begin

text \<open>
  \<open>src/engine/runtime/construction.py\<close>: the mandatory gates, the AuthorizationKernel and the sealed
  selector, with \<open>src/engine/runtime/fragment_window.py\<close>. Operations that open or close a Kernel
  scope or issue references thread the Kernel's state and keep it on the exceptional path too:
  \<open>('s, 'a) exec\<close> maps a state to the state afterwards and the result or exception. The policy
  epoch port and the database port are arguments, answering at the moment of the call.
\<close>

section \<open>Stateful computations that may raise\<close>

type_synonym ('s, 'a) exec = "'s \<Rightarrow> 's \<times> 'a res"

definition lift :: "'a res \<Rightarrow> ('s, 'a) exec" where
  "lift r = (\<lambda>s. (s, r))"

definition xbnd :: "('s, 'a) exec \<Rightarrow> ('a \<Rightarrow> ('s, 'b) exec) \<Rightarrow> ('s, 'b) exec" where
  "xbnd m f = (\<lambda>s. case m s of (s', Inl e) \<Rightarrow> (s', Inl e) | (s', Inr x) \<Rightarrow> f x s')"

definition reading :: "('s \<Rightarrow> 'a res) \<Rightarrow> ('s, 'a) exec" where
  "reading f = (\<lambda>s. (s, f s))"

text \<open>The scopes' flags, the reference counter and the audit counter.\<close>

record kernel_state =
  ks_scopes :: scope_heap
  ks_sequence :: nat
  ks_unsupported :: int

section \<open>Receipts\<close>

record PolicyReceipt =
  pr_request_id :: str
  pr_purpose :: str
  pr_policy_epoch :: int
  pr_effective_scope :: EffectiveScope

record DecisionProvenanceReceipt =
  dp_decision_ref :: str
  dp_package_id :: str
  dp_organization_id :: uuid
  dp_user_id :: uuid
  dp_membership_id :: uuid
  dp_membership_version :: int
  dp_principal_ref :: str
  dp_agent_version_ref :: str
  dp_authenticated_application_ref :: str
  dp_authentication_binding_ref :: str
  dp_effective_scope_digest :: str
  dp_request_id :: str
  dp_purpose :: str
  dp_as_of :: datetime
  dp_run_ref :: str
  dp_policy_snapshot_ref :: str
  dp_policy_epoch :: int
  dp_source_acl_decision_ref :: str

datatype CoverageReason = NO_AUTHORIZED_EVIDENCE

record DecisionAuditReceipt =
  da_decision_ref :: str
  da_reason :: "CoverageReason option"
  da_authorized_evidence_count :: int

section \<open>The policy gates\<close>

text \<open>\<open>EffectiveScope(frozenset())\<close>.\<close>

definition empty_scope :: EffectiveScope where
  "empty_scope = EffectiveScope_init {||}"

definition policy_receipt :: "AuthenticatedInvocation \<Rightarrow> TrustedDeliveryContext \<Rightarrow> EffectiveScope \<Rightarrow> PolicyReceipt" where
  "policy_receipt invocation delivery scope =
     \<lparr>pr_request_id = iv_request_id invocation, pr_purpose = dc_purpose delivery,
      pr_policy_epoch = iv_policy_epoch invocation, pr_effective_scope = scope\<rparr>"

text \<open>The scope of an epoch that still matches the invocation's, else the empty scope.\<close>

definition current_scope :: "scope_heap \<Rightarrow> AuthenticatedInvocation \<Rightarrow> RequestNarrowing option \<Rightarrow> EffectiveScope res" where
  "current_scope h invocation restriction =
     (let snapshot = iv_trusted_scope_snapshot invocation in
      if ts_policy_epoch snapshot = iv_policy_epoch invocation
      then bnd (trusted_operands_from_snapshot h snapshot) (\<lambda>operands.
             Inr (compute_effective_scope operands restriction))
      else Inr empty_scope)"

definition validate_acquire ::
  "scope_heap \<Rightarrow> AuthenticatedInvocation \<Rightarrow> TrustedDeliveryContext \<Rightarrow> RuntimeRequest \<Rightarrow> PolicyReceipt res"
where
  "validate_acquire h invocation delivery request =
     (case request of
        Acquire need' budget restriction \<Rightarrow>
          bnd (validate_trusted_invocation_and_delivery h invocation delivery) (\<lambda>_.
          bnd (current_scope h invocation restriction) (\<lambda>scope.
            Inr (policy_receipt invocation delivery scope)))
      | _ \<Rightarrow> Inl TypeError)"

definition validate_unavailable ::
  "scope_heap \<Rightarrow> AuthenticatedInvocation \<Rightarrow> TrustedDeliveryContext \<Rightarrow> RuntimeRequest \<Rightarrow> PolicyReceipt res"
where
  "validate_unavailable h invocation delivery request =
     bnd (validate_trusted_invocation_and_delivery h invocation delivery) (\<lambda>_.
       Inr (policy_receipt invocation delivery empty_scope))"

definition validate_open_citation ::
  "scope_heap \<Rightarrow> AuthenticatedInvocation \<Rightarrow> TrustedDeliveryContext \<Rightarrow> RuntimeRequest \<Rightarrow> PolicyReceipt res"
where
  "validate_open_citation h invocation delivery request =
     (case request of
        OpenCitation ref \<Rightarrow>
          bnd (validate_trusted_invocation_and_delivery h invocation delivery) (\<lambda>_.
          bnd (current_scope h invocation None) (\<lambda>scope.
            Inr (policy_receipt invocation delivery scope)))
      | _ \<Rightarrow> Inl TypeError)"

text \<open>\<open>PolicyEpochGate.is_current\<close>: a \<open>TypeError\<close> or \<open>ValueError\<close> becomes unavailability.\<close>

definition epoch_gate_is_current ::
  "scope_heap \<Rightarrow> PolicyEpochVerification \<Rightarrow> (uuid \<Rightarrow> pyval res) \<Rightarrow> bool res"
where
  "epoch_gate_is_current h verification read_epoch =
     (case bnd (require_active_policy_epoch_verification h verification) (\<lambda>_.
             policy_epoch_is_current h verification read_epoch) of
        Inl e \<Rightarrow> if e = TypeError \<or> is_value_error e then Inl PolicyEpochAuthorityUnavailable else Inl e
      | Inr b \<Rightarrow> Inr b)"

definition actor_epoch :: "AuthenticatedInvocation \<Rightarrow> PolicyEpochVerification" where
  "actor_epoch invocation = snd (ua_policy_epoch_verification (iv_user_actor invocation))"

section \<open>References and provenance\<close>

record IssuedReferences =
  ir_package_id :: str
  ir_decision_ref :: str
  ir_run_ref :: str
  ir_policy_snapshot_ref :: str
  ir_source_acl_decision_ref :: str

definition reference_entropy :: "bytes \<Rightarrow> nat \<Rightarrow> string \<Rightarrow> str" where
  "reference_entropy secret n label = take 32 (hmac_hexdigest secret (ascii label @ ascii '':'' @ to_bytes 16 n))"

text \<open>\<open>_OpaqueReferenceIssuer.issue\<close>; the counter stays incremented when \<open>to_bytes\<close> overflows.\<close>

definition issue_references :: "bytes \<Rightarrow> (kernel_state, IssuedReferences) exec" where
  "issue_references secret = (\<lambda>s.
     let n = Suc (ks_sequence s); s' = s\<lparr>ks_sequence := n\<rparr> in
     if n \<ge> 2 ^ 128 then (s', Inl OverflowError)
     else (s', Inr
       \<lparr>ir_package_id = u ''pkg_'' @ reference_entropy secret n ''package'',
        ir_decision_ref = u ''dec_'' @ reference_entropy secret n ''decision'',
        ir_run_ref = u ''run_'' @ reference_entropy secret n ''run'',
        ir_policy_snapshot_ref = u ''policy_'' @ reference_entropy secret n ''policy'',
        ir_source_acl_decision_ref = u ''sourceacl_'' @ reference_entropy secret n ''source-acl''\<rparr>))"

text \<open>\<open>part in whole\<close> on strings.\<close>

definition str_contains :: "str \<Rightarrow> str \<Rightarrow> bool" where
  "str_contains whole part \<longleftrightarrow> list_ex (\<lambda>i. str_startswith (drop i whole) part) [0..<Suc (length whole)]"

definition provenance_issue ::
  "bytes \<Rightarrow> AuthenticatedInvocation \<Rightarrow> PolicyReceipt \<Rightarrow> pyval \<Rightarrow> (kernel_state, DecisionProvenanceReceipt) exec"
where
  "provenance_issue secret invocation receipt as_of =
     xbnd (lift (require_utc as_of)) (\<lambda>now.
     xbnd (issue_references secret) (\<lambda>references.
     xbnd (lift (require_closed_opaque_ref (u ''pkg'') (PStr (ir_package_id references)))) (\<lambda>package_id.
     xbnd (lift (require_closed_opaque_ref (u ''dec'') (PStr (ir_decision_ref references)))) (\<lambda>decision_ref.
       let hex = uuid_hex (ov_organization_id (iv_organization_verification invocation));
           actor = iv_user_actor invocation in
       lift (if str_contains package_id hex \<or> str_contains decision_ref hex then Inl ValueError
         else Inr \<lparr>dp_decision_ref = decision_ref, dp_package_id = package_id,
           dp_organization_id = ov_organization_id (iv_organization_verification invocation),
           dp_user_id = ua_user_id actor, dp_membership_id = ua_membership_id actor,
           dp_membership_version = ua_membership_version actor,
           dp_principal_ref = iv_principal_ref invocation,
           dp_agent_version_ref = iv_agent_version_ref invocation,
           dp_authenticated_application_ref = iv_authenticated_application_ref invocation,
           dp_authentication_binding_ref = iv_authentication_binding_ref invocation,
           dp_effective_scope_digest = es_digest (pr_effective_scope receipt),
           dp_request_id = pr_request_id receipt, dp_purpose = pr_purpose receipt, dp_as_of = now,
           dp_run_ref = ir_run_ref references,
           dp_policy_snapshot_ref = ir_policy_snapshot_ref references,
           dp_policy_epoch = pr_policy_epoch receipt,
           dp_source_acl_decision_ref = ir_source_acl_decision_ref references\<rparr>)))))"

section \<open>The audit gate\<close>

definition audit_record :: "DecisionProvenanceReceipt \<Rightarrow> int \<Rightarrow> DecisionAuditReceipt res" where
  "audit_record provenance evidence_count =
     (if evidence_count < 0 then Inl ValueError
      else Inr \<lparr>da_decision_ref = dp_decision_ref provenance,
                da_reason = (if evidence_count = 0 then Some NO_AUTHORIZED_EVIDENCE else None),
                da_authorized_evidence_count = evidence_count\<rparr>)"

definition record_unsupported :: "DecisionProvenanceReceipt \<Rightarrow> (kernel_state, unit) exec" where
  "record_unsupported provenance =
     xbnd (lift (require_closed_opaque_ref (u ''dec'') (PStr (dp_decision_ref provenance)))) (\<lambda>_ s.
       (s\<lparr>ks_unsupported := ks_unsupported s + 1\<rparr>, Inr ()))"

section \<open>Decisions and their seals\<close>

type_synonym budget_limits = "int \<times> int \<times> int \<times> int"

definition package_budget_limits :: "PackageBudget \<Rightarrow> budget_limits res" where
  "package_budget_limits b =
     bnd (PackageBudget_init (PInt (max_tokens b)) (PInt (max_provider_calls b)) (PInt (max_cost_microunits b))
            (PInt (max_elapsed_ms b))) (\<lambda>_.
       Inr (max_tokens b, max_provider_calls b, max_cost_microunits b, max_elapsed_ms b))"

text \<open>\<open>ad_id\<close> is \<open>id(decision)\<close>, which enters the sealed material.\<close>

record AuthorizationDecision =
  ad_id :: nat
  ad_effective_budget :: PackageBudget
  ad_policy_receipt :: PolicyReceipt
  ad_provenance_receipt :: DecisionProvenanceReceipt
  ad_projections :: "AuthorizedProjection list"
  ad_projection_scope :: "scope_token option"
  ad_expanded_candidate_refs :: "CandidateRef fset"
  ad_effective_budget_limits :: budget_limits
  ad_integrity_seal :: bytes

record PreparedAcquireAuthorization =
  pa_effective_budget :: PackageBudget
  pa_policy_receipt :: PolicyReceipt
  pa_provenance_receipt :: DecisionProvenanceReceipt

record SealedPackageSelection =
  sp_decision :: AuthorizationDecision
  sp_content :: PackageContent
  sp_effective_budget_limits :: budget_limits
  sp_integrity_seal :: bytes

record FinalizedAuthorizationResult =
  fr_policy_receipt :: PolicyReceipt
  fr_provenance_receipt :: DecisionProvenanceReceipt
  fr_content :: PackageContent
  fr_audit_receipt :: DecisionAuditReceipt

type_synonym decision_snapshot =
  "nat \<times> budget_limits \<times> budget_limits \<times> str \<times> str \<times> int \<times> (bytes \<times> str \<times> str) list \<times> str
     \<times> DecisionProvenanceReceipt \<times> (CandidateRef \<times> str \<times> str list \<times> EvidenceLineage) list
     \<times> (bytes \<times> str \<times> str \<times> str \<times> str) list"

definition decision_integrity_snapshot :: "AuthorizationDecision \<Rightarrow> decision_snapshot res" where
  "decision_integrity_snapshot d =
     (let policy = ad_policy_receipt d in
      bnd (package_budget_limits (ad_effective_budget d)) (\<lambda>limits.
        Inr (ad_id d, limits, ad_effective_budget_limits d, pr_request_id policy, pr_purpose policy,
             pr_policy_epoch policy,
             sorted_list_of_multiset (image_mset
               (\<lambda>t. (uuid_bytes (st_organization_id t), st_source_ref t,
                     case st_resource_ref t of None \<Rightarrow> [] | Some r \<Rightarrow> r))
               (mset_set (fset (es_targets (pr_effective_scope policy))))),
             es_digest (pr_effective_scope policy), ad_provenance_receipt d,
             map (\<lambda>p. (ap_candidate_ref p, ap_projected_body p, ap_projected_field_refs p, ap_lineage p))
               (ad_projections d),
             sorted_list_of_multiset (image_mset candidate_sort_key
               (mset_set (fset (ad_expanded_candidate_refs d)))))))"

text \<open>
  The material is the \<open>repr\<close> of a tuple, which depends on the interpreter's Unicode tables:
  \<open>repr_decision\<close> and \<open>repr_selection\<close> stand for it, one for each of the two sealed tuples.
\<close>

type_synonym selection_snapshot =
  "decision_snapshot \<times> bytes \<times> budget_limits \<times> (str \<times> str) list \<times> Evidence list"

record seal_authority =
  seal_secret :: bytes
  repr_decision :: "decision_snapshot \<Rightarrow> bytes"
  repr_selection :: "selection_snapshot \<Rightarrow> bytes"

definition issue_selection_authority_seal :: "seal_authority \<Rightarrow> bytes \<Rightarrow> bytes" where
  "issue_selection_authority_seal authority material = hmac_sha256 (seal_secret authority) material"

definition verify_selection_authority_seal :: "seal_authority \<Rightarrow> bytes \<Rightarrow> bytes \<Rightarrow> bool" where
  "verify_selection_authority_seal authority seal material \<longleftrightarrow>
     seal = issue_selection_authority_seal authority material"

definition decision_integrity_material :: "seal_authority \<Rightarrow> AuthorizationDecision \<Rightarrow> bytes res" where
  "decision_integrity_material authority d =
     bnd (decision_integrity_snapshot d) (\<lambda>snap. Inr (repr_decision authority snap))"

definition selection_integrity_material ::
  "seal_authority \<Rightarrow> AuthorizationDecision \<Rightarrow> PackageContent \<Rightarrow> budget_limits \<Rightarrow> bytes res"
where
  "selection_integrity_material authority d content limits =
     bnd (decision_integrity_snapshot d) (\<lambda>snap.
       Inr (repr_selection authority (snap, ad_integrity_seal d, limits,
              map (\<lambda>b. (pb_evidence_ref b, pb_body b)) (pc_blocks content), pc_evidence content)))"

text \<open>\<open>AuthorizationDecision(...)\<close> followed by the assignment of its seal.\<close>

definition seal_decision ::
  "seal_authority \<Rightarrow> nat \<Rightarrow> PackageBudget \<Rightarrow> PolicyReceipt \<Rightarrow> DecisionProvenanceReceipt
    \<Rightarrow> AuthorizedProjection list \<Rightarrow> scope_token option \<Rightarrow> CandidateRef fset \<Rightarrow> AuthorizationDecision res"
where
  "seal_decision authority i budget policy provenance projections scope expanded =
     bnd (package_budget_limits budget) (\<lambda>limits.
       let d = \<lparr>ad_id = i, ad_effective_budget = budget, ad_policy_receipt = policy,
                ad_provenance_receipt = provenance, ad_projections = projections,
                ad_projection_scope = scope, ad_expanded_candidate_refs = expanded,
                ad_effective_budget_limits = limits, ad_integrity_seal = []\<rparr>
       in bnd (decision_integrity_material authority d) (\<lambda>material.
            Inr (d\<lparr>ad_integrity_seal := issue_selection_authority_seal authority material\<rparr>)))"

section \<open>Authorization and projection\<close>

definition locator_matches_candidate :: "MaterializedFragmentLocator \<Rightarrow> CandidateRef \<Rightarrow> bool" where
  "locator_matches_candidate l c \<longleftrightarrow>
     ml_organization_id l = cr_organization_id c \<and> ml_source_ref l = cr_source_ref c
     \<and> ml_resource_ref l = cr_resource_ref c \<and> ml_revision_ref l = cr_revision_ref c
     \<and> ml_fragment_ref l = cr_fragment_ref c"

text \<open>The retained transaction of the actor: its session and what its port answers.\<close>

type_synonym transaction = "authority_session \<times> materialized_port"

definition decision_lineage ::
  "AuthenticatedInvocation \<Rightarrow> DecisionProvenanceReceipt \<Rightarrow> MaterializedFragmentLocator \<Rightarrow> EvidenceLineage res"
where
  "decision_lineage invocation provenance locator = EvidenceLineage_init
     (PStr (dp_run_ref provenance)) (PStr (iv_principal_ref invocation)) (PStr (dp_purpose provenance))
     (PDatetime (dp_as_of provenance)) (PStr (dp_decision_ref provenance))
     (PStr (dp_policy_snapshot_ref provenance)) (PInt (dp_policy_epoch provenance))
     (PStr (dp_source_acl_decision_ref provenance)) (PStr (ml_source_acl_projection_ref locator))
     (PDatetime (ml_source_acl_as_of locator)) (PStr (ml_source_acl_freshness_profile_ref locator))"

text \<open>One iteration of the loop; \<open>None\<close> is \<open>continue\<close>.\<close>

definition project_candidate ::
  "scope_heap \<Rightarrow> scope_token \<Rightarrow> AuthenticatedInvocation \<Rightarrow> PolicyReceipt \<Rightarrow> DecisionProvenanceReceipt
    \<Rightarrow> transaction \<Rightarrow> CandidateRef \<Rightarrow> AuthorizedProjection option res"
where
  "project_candidate h kernel_scope invocation receipt provenance transaction candidate =
     (case transaction of (session, port) \<Rightarrow>
        bnd (locate_materialized_fragment h session port candidate) (\<lambda>located.
          case located of None \<Rightarrow> Inr None
          | Some locator \<Rightarrow>
              if \<not> locator_matches_candidate locator candidate then Inr None
              else
                bnd (ScopeTarget_init (PUuid (ml_organization_id locator)) (PStr (ml_source_ref locator))
                       (PStr (ml_resource_ref locator))) (\<lambda>exact_target.
                  if exact_target |\<notin>| es_targets (pr_effective_scope receipt) then Inr None
                  else
                    bnd (project_materialized_fragment h session port locator) (\<lambda>projected.
                      case projected of None \<Rightarrow> Inr None
                      | Some fields' \<Rightarrow>
                          bnd (decision_lineage invocation provenance locator) (\<lambda>lineage.
                          bnd (construct_authorized_projection h kernel_scope candidate
                                 (PStr (rendered_body fields'))
                                 (PTuple (map PStr (projected_field_refs fields'))) lineage) (\<lambda>p.
                            Inr (Some p)))))))"

text \<open>\<open>sorted(set(candidates), key=_candidate_sort_key)\<close>.\<close>

definition ordered_candidates :: "CandidateRef list \<Rightarrow> CandidateRef list" where
  "ordered_candidates candidates = sort_key candidate_sort_key (remdups candidates)"

definition somes :: "'a option list \<Rightarrow> 'a list" where
  "somes xs = map the (filter (\<lambda>x. x \<noteq> None) xs)"

definition project_all ::
  "scope_heap \<Rightarrow> scope_token \<Rightarrow> AuthenticatedInvocation \<Rightarrow> PolicyReceipt \<Rightarrow> DecisionProvenanceReceipt
    \<Rightarrow> transaction \<Rightarrow> CandidateRef list \<Rightarrow> AuthorizedProjection list res"
where
  "project_all h kernel_scope invocation receipt provenance transaction candidates =
     bnd (mapr (project_candidate h kernel_scope invocation receipt provenance transaction)
            (ordered_candidates candidates)) (\<lambda>ps. Inr (somes ps))"

text \<open>An exception closes the scope that this call opened, and only that one.\<close>

definition authorize_and_project ::
  "AuthenticatedInvocation \<Rightarrow> PolicyReceipt \<Rightarrow> DecisionProvenanceReceipt \<Rightarrow> CandidateRef list
    \<Rightarrow> transaction option \<Rightarrow> scope_token option
    \<Rightarrow> (kernel_state, AuthorizedProjection list \<times> scope_token option) exec"
where
  "authorize_and_project invocation receipt provenance candidates transaction kernel_scope = (\<lambda>s.
     if candidates = [] \<or> es_targets (pr_effective_scope receipt) = {||} then (s, Inr ([], None))
     else case transaction of
       None \<Rightarrow> (s, Inl RuntimeConfigurationError)
     | Some t \<Rightarrow>
         (case kernel_scope of
            Some token \<Rightarrow>
              (s, bnd (project_all (ks_scopes s) token invocation receipt provenance t candidates) (\<lambda>ps.
                    Inr (ps, Some token)))
          | None \<Rightarrow>
              (case open_authorization_kernel_scope (ks_scopes s) of (h, token) \<Rightarrow>
                 (case project_all h token invocation receipt provenance t candidates of
                    Inr ps \<Rightarrow> (s\<lparr>ks_scopes := h\<rparr>, Inr (ps, Some token))
                  | Inl e \<Rightarrow>
                      (case close_authorization_kernel_scope h token of
                         Inr h' \<Rightarrow> (s\<lparr>ks_scopes := h'\<rparr>, Inl e)
                       | Inl e' \<Rightarrow> (s\<lparr>ks_scopes := h\<rparr>, Inl e'))))))"

section \<open>The Kernel's operations\<close>

definition prepare_acquire ::
  "bytes \<Rightarrow> AuthenticatedInvocation \<Rightarrow> TrustedDeliveryContext \<Rightarrow> RuntimeRequest \<Rightarrow> PackageBudget \<Rightarrow> pyval
    \<Rightarrow> (uuid \<Rightarrow> pyval res) \<Rightarrow> (kernel_state, PreparedAcquireAuthorization) exec"
where
  "prepare_acquire issuer_secret invocation delivery request server_budget as_of read_epoch =
     xbnd (reading (\<lambda>s. validate_acquire (ks_scopes s) invocation delivery request)) (\<lambda>receipt.
     xbnd (reading (\<lambda>s. epoch_gate_is_current (ks_scopes s) (actor_epoch invocation) read_epoch)) (\<lambda>current.
       let receipt' = (if current then receipt else receipt\<lparr>pr_effective_scope := empty_scope\<rparr>) in
       xbnd (lift (budget_gate_intersect server_budget request)) (\<lambda>budget.
       xbnd (provenance_issue issuer_secret invocation receipt' as_of) (\<lambda>provenance.
         lift (Inr \<lparr>pa_effective_budget = budget, pa_policy_receipt = receipt',
                    pa_provenance_receipt = provenance\<rparr>)))))"

definition authorize_acquire ::
  "seal_authority \<Rightarrow> nat \<Rightarrow> AuthenticatedInvocation \<Rightarrow> PreparedAcquireAuthorization \<Rightarrow> CandidateRef list
    \<Rightarrow> transaction option \<Rightarrow> (kernel_state, AuthorizationDecision) exec"
where
  "authorize_acquire authority decision_id invocation preparation candidate_refs transaction =
     xbnd (lift (require_effective_scope_integrity (pr_effective_scope (pa_policy_receipt preparation)))) (\<lambda>_.
     xbnd (authorize_and_project invocation (pa_policy_receipt preparation) (pa_provenance_receipt preparation)
             candidate_refs transaction None) (\<lambda>(projections, projection_scope).
       lift (seal_decision authority decision_id (pa_effective_budget preparation)
               (pa_policy_receipt preparation) (pa_provenance_receipt preparation) projections
               projection_scope {||})))"

text \<open>\<open>anchors.get(...)\<close>: a dict keeps the last projection of a candidate.\<close>

definition anchor_of :: "AuthorizationDecision \<Rightarrow> CandidateRef \<Rightarrow> AuthorizedProjection option" where
  "anchor_of d c = map_of (rev (map (\<lambda>p. (ap_candidate_ref p, p)) (ad_projections d))) c"

definition same_article :: "CandidateRef \<Rightarrow> CandidateRef \<Rightarrow> bool" where
  "same_article c a \<longleftrightarrow> cr_organization_id c = cr_organization_id a \<and> cr_source_ref c = cr_source_ref a
     \<and> cr_resource_ref c = cr_resource_ref a"

text \<open>What the loop does with one graph candidate: inherit, submit to reauthorization or skip.\<close>

datatype graph_step = Inherit AuthorizedProjection | Reauthorize CandidateRef | Skip

definition classify_one_hop ::
  "scope_heap \<Rightarrow> transaction \<Rightarrow> AuthorizationDecision \<Rightarrow> MaterializedOneHopCandidate \<Rightarrow> graph_step res"
where
  "classify_one_hop h transaction d candidate =
     (case transaction of (session, port) \<Rightarrow>
        let candidate_ref = oh_candidate_ref candidate; anchor_ref = oh_anchor_ref candidate in
        if anchor_ref |\<in>| ad_expanded_candidate_refs d then Inl ValueError
        else case anchor_of d anchor_ref of
          None \<Rightarrow> Inl ValueError
        | Some anchor \<Rightarrow>
            if \<not> same_article candidate_ref anchor_ref then Inr (Reauthorize candidate_ref)
            else if cr_revision_ref candidate_ref \<noteq> cr_revision_ref anchor_ref then Inr Skip
            else
              bnd (locate_materialized_fragment h session port candidate_ref) (\<lambda>located.
                case located of None \<Rightarrow> Inr Skip
                | Some locator \<Rightarrow>
                    if \<not> locator_matches_candidate locator candidate_ref then Inr Skip
                    else
                      bnd (project_materialized_fragment h session port locator) (\<lambda>projected.
                        case projected of None \<Rightarrow> Inr Skip
                        | Some fields' \<Rightarrow>
                            bnd (construct_inherited_authorized_projection h anchor candidate_ref
                                   (PStr (rendered_body fields'))
                                   (PTuple (map PStr (projected_field_refs fields')))) (\<lambda>p.
                              Inr (Inherit p)))))"

definition inherited_of :: "graph_step list \<Rightarrow> AuthorizedProjection list" where
  "inherited_of steps = [p. Inherit p \<leftarrow> steps]"

definition reauthorize_of :: "graph_step list \<Rightarrow> CandidateRef list" where
  "reauthorize_of steps = [c. Reauthorize c \<leftarrow> steps]"

definition authorize_one_hop ::
  "seal_authority \<Rightarrow> nat \<Rightarrow> AuthenticatedInvocation \<Rightarrow> PreparedAcquireAuthorization \<Rightarrow> AuthorizationDecision
    \<Rightarrow> MaterializedOneHopCandidate list \<Rightarrow> transaction \<Rightarrow> (kernel_state, AuthorizationDecision) exec"
where
  "authorize_one_hop authority decision_id invocation preparation d candidates transaction =
     xbnd (reading (\<lambda>s. mapr (classify_one_hop (ks_scopes s) transaction d) candidates)) (\<lambda>steps.
     xbnd (authorize_and_project invocation (pa_policy_receipt preparation) (pa_provenance_receipt preparation)
             (reauthorize_of steps) (Some transaction) (ad_projection_scope d)) (\<lambda>(reauthorized, _).
       let new = inherited_of steps @ reauthorized in
       lift (seal_decision authority decision_id (ad_effective_budget d) (ad_policy_receipt d)
               (ad_provenance_receipt d) (ad_projections d @ new) (ad_projection_scope d)
               (ad_expanded_candidate_refs d |\<union>| fset_of_list (map ap_candidate_ref new)))))"

definition authorize_open_citation ::
  "seal_authority \<Rightarrow> nat \<Rightarrow> bytes \<Rightarrow> AuthenticatedInvocation \<Rightarrow> TrustedDeliveryContext \<Rightarrow> RuntimeRequest
    \<Rightarrow> CandidateRef option \<Rightarrow> PackageBudget \<Rightarrow> pyval \<Rightarrow> transaction option \<Rightarrow> (uuid \<Rightarrow> pyval res)
    \<Rightarrow> (kernel_state, AuthorizationDecision) exec"
where
  "authorize_open_citation authority decision_id issuer_secret invocation delivery request candidate
      server_budget as_of transaction read_epoch =
     xbnd (reading (\<lambda>s. validate_open_citation (ks_scopes s) invocation delivery request)) (\<lambda>receipt.
     xbnd (reading (\<lambda>s. epoch_gate_is_current (ks_scopes s) (actor_epoch invocation) read_epoch)) (\<lambda>current.
       let receipt' = (if current then receipt else receipt\<lparr>pr_effective_scope := empty_scope\<rparr>) in
       xbnd (lift (budget_gate_intersect server_budget request)) (\<lambda>budget.
       xbnd (provenance_issue issuer_secret invocation receipt' as_of) (\<lambda>provenance.
       xbnd (authorize_and_project invocation receipt' provenance
               (case candidate of None \<Rightarrow> [] | Some c \<Rightarrow> [c]) transaction None) (\<lambda>(projections, scope).
         lift (seal_decision authority decision_id budget receipt' provenance projections scope {||}))))))"

definition preflight_unavailable_request ::
  "bytes \<Rightarrow> AuthenticatedInvocation \<Rightarrow> TrustedDeliveryContext \<Rightarrow> RuntimeRequest \<Rightarrow> PackageBudget \<Rightarrow> pyval
    \<Rightarrow> (uuid \<Rightarrow> pyval res) \<Rightarrow> (kernel_state, unit) exec"
where
  "preflight_unavailable_request issuer_secret invocation delivery request server_budget as_of read_epoch =
     xbnd (reading (\<lambda>s. validate_unavailable (ks_scopes s) invocation delivery request)) (\<lambda>receipt.
     xbnd (lift (budget_gate_intersect server_budget request)) (\<lambda>_.
     xbnd (provenance_issue issuer_secret invocation receipt as_of) (\<lambda>provenance.
     xbnd (if ts_policy_epoch (iv_trusted_scope_snapshot invocation) \<noteq> iv_policy_epoch invocation
           then lift (Inl PolicyEpochAuthorityUnavailable)
           else reading (\<lambda>s.
             bnd (epoch_gate_is_current (ks_scopes s) (actor_epoch invocation) read_epoch) (\<lambda>current.
               if current then Inr () else Inl PolicyEpochAuthorityUnavailable))) (\<lambda>_.
       record_unsupported provenance))))"

text \<open>\<open>_close_authorization_decision\<close>.\<close>

definition close_authorization_decision :: "AuthorizationDecision \<Rightarrow> (kernel_state, unit) exec" where
  "close_authorization_decision d = (\<lambda>s.
     case ad_projection_scope d of None \<Rightarrow> (s, Inr ())
     | Some token \<Rightarrow>
         (case close_authorization_kernel_scope (ks_scopes s) token of
            Inl e \<Rightarrow> (s, Inl e) | Inr h \<Rightarrow> (s\<lparr>ks_scopes := h\<rparr>, Inr ())))"

section \<open>Selection and the final gate\<close>

definition select_for_delivery ::
  "seal_authority \<Rightarrow> scope_heap \<Rightarrow> AuthorizationDecision \<Rightarrow> CandidateRankEvidence list
    \<Rightarrow> (str \<times> pyval) list option \<Rightarrow> SealedPackageSelection res"
where
  "select_for_delivery authority h d rank_evidence ranker_weights =
     bnd (decision_integrity_material authority d) (\<lambda>material.
       if \<not> verify_selection_authority_seal authority (ad_integrity_seal d) material then Inl ValueError
       else
         let ranked_refs = set (map ce_candidate_ref rank_evidence);
             eligible = filter (\<lambda>p. ap_candidate_ref p |\<notin>| ad_expanded_candidate_refs d
                                   \<or> ap_candidate_ref p \<in> ranked_refs) (ad_projections d) in
         bnd (join_authorized_ranking h eligible rank_evidence ranker_weights) (\<lambda>joined.
         bnd (select_authorized_ranking joined (ad_effective_budget d)) (\<lambda>selected.
         bnd (construct_package_content h (map ri_projection selected)) (\<lambda>content.
         bnd (selection_integrity_material authority d content (ad_effective_budget_limits d)) (\<lambda>sealed.
           Inr \<lparr>sp_decision = d, sp_content = content,
                sp_effective_budget_limits = ad_effective_budget_limits d,
                sp_integrity_seal = issue_selection_authority_seal authority sealed\<rparr>)))))"

definition evidence_bound_to_decision :: "DecisionProvenanceReceipt \<Rightarrow> Evidence \<Rightarrow> bool" where
  "evidence_bound_to_decision provenance e \<longleftrightarrow>
     (let l = ev_lineage e in
      el_run_ref l = dp_run_ref provenance \<and> el_decision_ref l = dp_decision_ref provenance
      \<and> el_principal_ref l = dp_principal_ref provenance \<and> el_purpose l = dp_purpose provenance
      \<and> dt_eq (el_as_of l) (dp_as_of provenance)
      \<and> el_policy_snapshot_ref l = dp_policy_snapshot_ref provenance
      \<and> el_policy_epoch l = dp_policy_epoch provenance
      \<and> el_source_acl_decision_ref l = dp_source_acl_decision_ref provenance)"

definition decision_bound_to_invocation ::
  "PolicyReceipt \<Rightarrow> DecisionProvenanceReceipt \<Rightarrow> AuthenticatedInvocation \<Rightarrow> bool"
where
  "decision_bound_to_invocation receipt provenance invocation \<longleftrightarrow>
     (let actor = iv_user_actor invocation in
      dp_organization_id provenance = ua_organization_id actor \<and> dp_user_id provenance = ua_user_id actor
      \<and> dp_membership_id provenance = ua_membership_id actor
      \<and> dp_membership_version provenance = ua_membership_version actor
      \<and> dp_principal_ref provenance = iv_principal_ref invocation
      \<and> dp_agent_version_ref provenance = iv_agent_version_ref invocation
      \<and> dp_authenticated_application_ref provenance = iv_authenticated_application_ref invocation
      \<and> dp_authentication_binding_ref provenance = iv_authentication_binding_ref invocation
      \<and> pr_policy_epoch receipt = dp_policy_epoch provenance
      \<and> dp_policy_epoch provenance = iv_policy_epoch invocation
      \<and> iv_policy_epoch invocation = ua_policy_epoch actor
      \<and> pr_request_id receipt = dp_request_id provenance \<and> dp_request_id provenance = iv_request_id invocation
      \<and> pr_purpose receipt = dp_purpose provenance
      \<and> dp_effective_scope_digest provenance = es_digest (pr_effective_scope receipt))"

text \<open>\<open>sum(len(block.body.encode("utf-8")) for block in content.blocks)\<close>.\<close>

definition content_bytes :: "PackageContent \<Rightarrow> int res" where
  "content_bytes content =
     bnd (mapr (\<lambda>b. utf8_encode (pb_body b)) (pc_blocks content)) (\<lambda>bs.
       Inr (\<Sum>b \<leftarrow> bs. int (length b)))"

text \<open>\<open>final_epoch_is_current\<close>: the authority is asked only if both bindings hold.\<close>

definition final_epoch_is_current ::
  "scope_heap \<Rightarrow> AuthenticatedInvocation \<Rightarrow> bool \<Rightarrow> (uuid \<Rightarrow> pyval res) \<Rightarrow> bool res"
where
  "final_epoch_is_current h invocation bindings_match read_epoch =
     (if bindings_match then epoch_gate_is_current h (actor_epoch invocation) read_epoch else Inr False)"

text \<open>The receipt, provenance and content that leave the gate.\<close>

definition delivery_outcome ::
  "scope_heap \<Rightarrow> bool \<Rightarrow> bool \<Rightarrow> PolicyReceipt \<Rightarrow> DecisionProvenanceReceipt \<Rightarrow> PackageContent
    \<Rightarrow> (PolicyReceipt \<times> DecisionProvenanceReceipt \<times> PackageContent) res"
where
  "delivery_outcome h bindings_match current receipt provenance content =
     (if bindings_match \<and> current then Inr (receipt, provenance, content)
      else
        bnd (construct_package_content h []) (\<lambda>nothing.
          Inr (receipt\<lparr>pr_effective_scope := empty_scope\<rparr>,
               (if bindings_match \<and> \<not> current
                then provenance\<lparr>dp_effective_scope_digest := es_digest empty_scope\<rparr> else provenance),
               nothing)))"

definition finalize_for_delivery ::
  "seal_authority \<Rightarrow> scope_heap \<Rightarrow> AuthenticatedInvocation \<Rightarrow> SealedPackageSelection \<Rightarrow> (uuid \<Rightarrow> pyval res)
    \<Rightarrow> FinalizedAuthorizationResult res"
where
  "finalize_for_delivery authority h invocation selection read_epoch =
     (let d = sp_decision selection; receipt = ad_policy_receipt d; provenance = ad_provenance_receipt d in
      bnd (package_budget_limits (ad_effective_budget d)) (\<lambda>limits.
      bnd (selection_integrity_material authority d (sp_content selection)
             (sp_effective_budget_limits selection)) (\<lambda>material.
        if limits \<noteq> ad_effective_budget_limits d \<or> limits \<noteq> sp_effective_budget_limits selection
           \<or> sp_integrity_seal selection \<noteq> issue_selection_authority_seal authority material
        then Inl ValueError
        else
          bnd (content_bytes (sp_content selection)) (\<lambda>total.
            if total > fst limits then Inl ValueError
            else
              bnd (require_active_user_actor h (iv_user_actor invocation)) (\<lambda>_.
              bnd (require_effective_scope_integrity (pr_effective_scope receipt)) (\<lambda>_.
                let bindings_match =
                      list_all (evidence_bound_to_decision provenance) (pc_evidence (sp_content selection))
                      \<and> decision_bound_to_invocation receipt provenance invocation in
                bnd (final_epoch_is_current h invocation bindings_match read_epoch) (\<lambda>current.
                bnd (delivery_outcome h bindings_match current receipt provenance (sp_content selection))
                  (\<lambda>(receipt', provenance', content).
                bnd (audit_record provenance' (int (length (pc_evidence content)))) (\<lambda>audit.
                  if da_decision_ref audit \<noteq> dp_decision_ref provenance' then Inl RuntimeConfigurationError
                  else Inr \<lparr>fr_policy_receipt = receipt', fr_provenance_receipt = provenance',
                            fr_content = content, fr_audit_receipt = audit\<rparr>)))))))))"

section \<open>Lemmas\<close>

lemma lift_apply [simp]: "lift r s = (s, r)"
  by (simp add: lift_def)

lemma reading_apply [simp]: "reading f s = (s, f s)"
  by (simp add: reading_def)

lemma xbnd_eq_Inr [simp]:
  "xbnd m f s = (s', Inr y) \<longleftrightarrow> (\<exists>s1 x. m s = (s1, Inr x) \<and> f x s1 = (s', Inr y))"
  by (cases "m s"; cases "snd (m s)") (auto simp: xbnd_def)

lemma xbnd_eq_Inl:
  "xbnd m f s = (s', Inl e) \<longleftrightarrow> m s = (s', Inl e) \<or> (\<exists>s1 x. m s = (s1, Inr x) \<and> f x s1 = (s', Inl e))"
  by (cases "m s"; cases "snd (m s)") (auto simp: xbnd_def)

lemma mapr_mem_iff: "mapr f xs = Inr ys \<Longrightarrow> y \<in> set ys \<longleftrightarrow> (\<exists>x \<in> set xs. f x = Inr y)"
  by (induction xs arbitrary: ys) auto

lemma mapr_runs: "mapr f xs = Inr ys \<Longrightarrow> x \<in> set xs \<Longrightarrow> \<exists>y. f x = Inr y"
  by (induction xs arbitrary: ys) auto

lemma mapr_map: "mapr f (map g xs) = mapr (\<lambda>x. f (g x)) xs"
  by (induction xs) simp_all

lemma somes_set: "x \<in> set (somes xs) \<longleftrightarrow> Some x \<in> set xs"
  by (force simp: somes_def)

lemma ordered_candidates_set [simp]: "set (ordered_candidates cs) = set cs"
  by (simp add: ordered_candidates_def)

lemma ordered_candidates_distinct [simp]: "distinct (ordered_candidates cs)"
  by (simp add: ordered_candidates_def)

text \<open>The order and the multiplicity of the submitted candidates are forgotten.\<close>

lemma inj_candidate_key: "inj candidate_sort_key"
  by (auto intro!: injI CandidateRef.equality simp: candidate_sort_key_def uuid_bytes_inject)

lemma ordered_candidates_cong:
  assumes "set xs = set ys"
  shows "ordered_candidates xs = ordered_candidates ys"
proof -
  have "mset (remdups xs) = mset (remdups ys)"
    using assms by (simp add: set_eq_iff_mset_eq_distinct [symmetric])
  then show ?thesis
    unfolding ordered_candidates_def by (intro sort_key_sorted_list inj_on_subset [OF inj_candidate_key]) auto
qed

text \<open>What it takes for one candidate to become a projection.\<close>

definition locator_target :: "MaterializedFragmentLocator \<Rightarrow> ScopeTarget" where
  "locator_target l = \<lparr>st_organization_id = ml_organization_id l, st_source_ref = ml_source_ref l,
     st_resource_ref = Some (ml_resource_ref l)\<rparr>"

definition admitted_as ::
  "scope_heap \<Rightarrow> EffectiveScope \<Rightarrow> transaction \<Rightarrow> CandidateRef \<Rightarrow> MaterializedFragmentLocator
    \<Rightarrow> MaterializedFragmentProjection \<Rightarrow> bool"
where
  "admitted_as h scope transaction c l f \<longleftrightarrow>
     locate_materialized_fragment h (fst transaction) (snd transaction) c = Inr (Some l)
     \<and> locator_matches_candidate l c
     \<and> locator_target l |\<in>| es_targets scope
     \<and> project_materialized_fragment h (fst transaction) (snd transaction) l = Inr (Some f)"

lemma project_candidate_Some:
  "project_candidate h k iv receipt prov t c = Inr (Some p) \<longleftrightarrow>
     (\<exists>l f lin. admitted_as h (pr_effective_scope receipt) t c l f
        \<and> \<not> blank (ml_source_ref l) \<and> \<not> blank (ml_resource_ref l)
        \<and> decision_lineage iv prov l = Inr lin
        \<and> construct_authorized_projection h k c (PStr (rendered_body f))
            (PTuple (map PStr (projected_field_refs f))) lin = Inr p)"
proof (cases t)
  case (Pair session port)
  show ?thesis
    unfolding Pair project_candidate_def admitted_as_def locator_target_def prod.case fst_conv snd_conv
    by (auto split: option.splits if_splits simp: ScopeTarget_init_eq)
qed

lemma admitted_not_skipped:
  assumes "admitted_as h (pr_effective_scope receipt) t c l f"
    and "project_candidate h k iv receipt prov t c = Inr r"
  shows "r \<noteq> None"
proof (cases t)
  case (Pair session port)
  show ?thesis
    using assms unfolding Pair project_candidate_def admitted_as_def locator_target_def prod.case fst_conv snd_conv
    by (auto split: if_splits simp: ScopeTarget_init_eq)
qed

lemma project_all_mem:
  assumes "project_all h k iv receipt prov t cs = Inr ps"
  shows "p \<in> set ps \<longleftrightarrow> (\<exists>c \<in> set cs. project_candidate h k iv receipt prov t c = Inr (Some p))"
proof -
  from assms obtain rs where rs: "mapr (project_candidate h k iv receipt prov t) (ordered_candidates cs) = Inr rs"
    "ps = somes rs"
    by (auto simp: project_all_def)
  have "Some p \<in> set rs \<longleftrightarrow> (\<exists>c \<in> set cs. project_candidate h k iv receipt prov t c = Inr (Some p))"
    using mapr_mem_iff [OF rs(1)] by simp
  with rs(2) show ?thesis by (simp add: somes_set)
qed

lemma project_all_runs:
  assumes "project_all h k iv receipt prov t cs = Inr ps" "c \<in> set cs"
  shows "\<exists>r. project_candidate h k iv receipt prov t c = Inr r"
proof -
  from assms(1) obtain rs where "mapr (project_candidate h k iv receipt prov t) (ordered_candidates cs) = Inr rs"
    by (auto simp: project_all_def)
  from mapr_runs [OF this] assms(2) show ?thesis by simp
qed

lemma subseq_distinct: "subseq xs ys \<Longrightarrow> distinct ys \<Longrightarrow> distinct xs"
  by (induction rule: list_emb.induct) (auto dest: list_emb_set)

lemma sorted_subseq: "subseq xs ys \<Longrightarrow> sorted ys \<Longrightarrow> sorted xs"
  by (induction rule: list_emb.induct) (auto dest: list_emb_set)

lemma project_all_refs:
  assumes "project_all h k iv receipt prov t cs = Inr ps"
  shows "distinct (map ap_candidate_ref ps)" "sorted (map (candidate_sort_key \<circ> ap_candidate_ref) ps)"
proof -
  from assms obtain rs where rs: "mapr (project_candidate h k iv receipt prov t) (ordered_candidates cs) = Inr rs"
    "ps = somes rs"
    by (auto simp: project_all_def)
  have ref: "ap_candidate_ref p = c" if "project_candidate h k iv receipt prov t c = Inr (Some p)" for c p
    using that by (auto simp: project_candidate_Some construct_authorized_projection_eq)
  have sub: "subseq (map ap_candidate_ref (somes rs)) xs"
    if "mapr (project_candidate h k iv receipt prov t) xs = Inr rs" for xs rs
    using that
  proof (induction xs arbitrary: rs)
    case (Cons x xs)
    then obtain r rs' where r: "rs = r # rs'" "project_candidate h k iv receipt prov t x = Inr r"
      and sub: "subseq (map ap_candidate_ref (somes rs')) xs" by auto
    show ?case
    proof (cases r)
      case None
      with r(1) sub show ?thesis by (simp add: somes_def list_emb_Cons)
    next
      case (Some p)
      with r(2) have "ap_candidate_ref p = x" by (intro ref) simp
      with r(1) Some sub show ?thesis by (simp add: somes_def)
    qed
  qed (simp add: somes_def)
  have ord: "sorted (map candidate_sort_key (ordered_candidates cs))"
    by (simp add: ordered_candidates_def)
  from sub [OF rs(1)] rs(2) have sub': "subseq (map ap_candidate_ref ps) (ordered_candidates cs)" by simp
  then show "distinct (map ap_candidate_ref ps)"
    by (rule subseq_distinct) simp
  have "subseq (map candidate_sort_key (map ap_candidate_ref ps)) (map candidate_sort_key (ordered_candidates cs))"
    by (rule subseq_map [OF sub'])
  then show "sorted (map (candidate_sort_key \<circ> ap_candidate_ref) ps)"
    using ord by (metis map_map sorted_subseq)
qed

text \<open>The two ways a run of \<open>authorize_and_project\<close> returns.\<close>

lemma authorize_and_project_Inr:
  assumes "authorize_and_project iv receipt prov cs t k s = (s', Inr (ps, scope))"
  shows "(cs = [] \<or> es_targets (pr_effective_scope receipt) = {||}) \<and> ps = [] \<and> scope = None \<and> s' = s
    \<or> (\<exists>tr token. t = Some tr \<and> scope = Some token
         \<and> project_all (ks_scopes s') token iv receipt prov tr cs = Inr ps
         \<and> (k = Some token \<and> s' = s
            \<or> k = None \<and> open_authorization_kernel_scope (ks_scopes s) = (ks_scopes s', token)
              \<and> s' = s\<lparr>ks_scopes := ks_scopes s'\<rparr>))"
  using assms
  by (auto simp: authorize_and_project_def split: if_splits option.splits prod.splits sum.splits)

lemma projected_in_scope:
  assumes "project_all h token iv receipt prov t cs = Inr ps" "p \<in> set ps"
  shows "\<exists>l f. ap_candidate_ref p \<in> set cs
    \<and> admitted_as h (pr_effective_scope receipt) t (ap_candidate_ref p) l f
    \<and> ap_projected_body p = rendered_body f \<and> ap_projected_field_refs p = projected_field_refs f
    \<and> set (projected_field_refs f) \<subseteq> fset (mp_projection_ceiling f)
    \<and> decision_lineage iv prov l = Inr (ap_lineage p) \<and> ap_kernel_scope p = token
    \<and> require_active_authorized_projection h p = Inr ()"
proof -
  from assms obtain c l f lin where c: "c \<in> set cs" "admitted_as h (pr_effective_scope receipt) t c l f"
    "decision_lineage iv prov l = Inr lin"
    and p: "construct_authorized_projection h token c (PStr (rendered_body f))
            (PTuple (map PStr (projected_field_refs f))) lin = Inr p"
    by (auto simp: project_all_mem project_candidate_Some)
  have "set (projected_field_refs f) \<subseteq> fset (mp_projection_ceiling f)"
    using c(2)
    by (auto simp: admitted_as_def project_materialized_fragment_def MaterializedFragmentProjection_post_init_eq
        split: option.splits)
  moreover from p have "ap_candidate_ref p = c" "ap_projected_body p = rendered_body f"
    "ap_projected_field_refs p = projected_field_refs f" "ap_lineage p = lin" "ap_kernel_scope p = token"
    by (simp_all add: construct_authorized_projection_eq validate_projected_field_refs_eq)
  ultimately show ?thesis using c constructed_projection_active [OF p] by blast
qed

lemma seal_decision_fields:
  assumes "seal_decision authority i budget policy prov ps scope expanded = Inr d"
  shows "ad_projections d = ps" "ad_projection_scope d = scope" "ad_policy_receipt d = policy"
    "ad_provenance_receipt d = prov" "ad_effective_budget d = budget" "ad_expanded_candidate_refs d = expanded"
    "package_budget_limits budget = Inr (ad_effective_budget_limits d)"
    "\<exists>m. decision_integrity_material authority d = Inr m
       \<and> ad_integrity_seal d = issue_selection_authority_seal authority m"
  using assms
  by (auto simp: seal_decision_def Let_def decision_integrity_material_def decision_integrity_snapshot_def)

lemma package_budget_limits_valid:
  "valid_budget b \<Longrightarrow> package_budget_limits b = Inr (max_tokens b, max_provider_calls b, max_cost_microunits b, max_elapsed_ms b)"
  by (simp add: package_budget_limits_def PackageBudget_init_def valid_budget_def)

lemma package_budget_limits_Inr:
  "package_budget_limits b = Inr l \<Longrightarrow> valid_budget b \<and> fst l = max_tokens b"
  by (auto simp: package_budget_limits_def PackageBudget_init_eq valid_budget_def)

lemma seal_decision_total: "valid_budget budget \<Longrightarrow> \<exists>d. seal_decision authority i budget policy prov ps scope expanded = Inr d"
  by (simp add: seal_decision_def decision_integrity_material_def decision_integrity_snapshot_def
      package_budget_limits_valid Let_def)

lemma scope_active_closed_slot: "scope_active k (h @ [False]) t \<longleftrightarrow> scope_active k h t"
  by (auto simp: scope_active_def nth_append less_Suc_eq)

text \<open>What the selector packs comes from the decision.\<close>

lemma join_projections:
  assumes "join_authorized_ranking h ps ev w = Inr items" "i \<in> set items"
  shows "ri_projection i \<in> set ps"
proof -
  have "ri_projection j = p" if "AuthorizedRerankItem_init h p e = Inr j" for p e j
    using that by (auto simp: AuthorizedRerankItem_init_def split: option.splits)
  with assms show ?thesis
    by (auto simp: join_authorized_ranking_def Let_def dest!: mapr_mem)
qed

lemma epoch_gate_confirms:
  assumes "epoch_gate_is_current h v rd = Inr True"
  shows "rd (pv_organization_id v) = Inr (PInt (pv_policy_epoch v))"
proof -
  from assms have "policy_epoch_is_current h v rd = Inr True"
    by (auto simp: epoch_gate_is_current_def split: sum.splits if_splits)
  then show ?thesis
    by (auto simp: policy_epoch_is_current_def validators simp del: require_policy_epoch.simps)
qed

lemma empty_content: "construct_package_content h [] = Inr \<lparr>pc_blocks = [], pc_evidence = []\<rparr>"
  by (simp add: construct_package_content_def require_one_decision_def construct_validated_package_content_def
      validate_package_content_def Let_def)

lemma audit_record_Inr:
  "audit_record prov n = Inr a \<Longrightarrow> da_reason a = (if n = 0 then Some NO_AUTHORIZED_EVIDENCE else None)"
  by (auto simp: audit_record_def split: if_splits)

lemma select_for_delivery_Inr:
  assumes "select_for_delivery authority h d ev w = Inr sel"
  obtains selected m where "construct_package_content h (map ri_projection selected) = Inr (sp_content sel)"
    "\<And>i. i \<in> set selected \<Longrightarrow> ri_projection i \<in> set (ad_projections d)"
    "list_all encodes selected"
    "selected \<noteq> [] \<Longrightarrow> sum_list (map body_tokens selected) \<le> max_tokens (ad_effective_budget d)"
    "sp_decision sel = d" "sp_effective_budget_limits sel = ad_effective_budget_limits d"
    "selection_integrity_material authority d (sp_content sel) (ad_effective_budget_limits d) = Inr m"
    "sp_integrity_seal sel = issue_selection_authority_seal authority m"
proof -
  from assms obtain eligible joined selected m where
    e: "set eligible \<subseteq> set (ad_projections d)" and j: "join_authorized_ranking h eligible ev w = Inr joined"
    and l: "select_loop (max_tokens (ad_effective_budget d)) joined 0 = Inr selected"
    and c: "construct_package_content h (map ri_projection selected) = Inr (sp_content sel)"
      "sp_decision sel = d" "sp_effective_budget_limits sel = ad_effective_budget_limits d"
      "selection_integrity_material authority d (sp_content sel) (ad_effective_budget_limits d) = Inr m"
      "sp_integrity_seal sel = issue_selection_authority_seal authority m"
    unfolding select_for_delivery_def Let_def select_authorized_ranking_def
    by (auto intro: that [of "filter _ (ad_projections d)"])
  note sel = select_loop_Inr [OF l]
  have sub: "set selected \<subseteq> set joined" using sel(2) by (auto dest: list_emb_set)
  show ?thesis
  proof (rule that [OF c(1) _ _ _ c(2-5)])
    show "ri_projection i \<in> set (ad_projections d)" if "i \<in> set selected" for i
      using join_projections [OF j, of i] e sub that by blast
    show "list_all encodes selected" using sel(1) sub by (auto simp: list_all_iff)
    show "sum_list (map body_tokens selected) \<le> max_tokens (ad_effective_budget d)" if "selected \<noteq> []"
      using sel(3) [OF that] by simp
  qed
qed

lemma selected_content_bytes:
  assumes "construct_package_content h (map ri_projection selected) = Inr content" "list_all encodes selected"
  shows "content_bytes content = Inr (sum_list (map body_tokens selected))"
proof -
  have items: "length (pc_blocks content) = length selected"
    "\<And>i. i < length selected \<Longrightarrow> pb_body (pc_blocks content ! i) = ap_projected_body (ri_projection (selected ! i))"
    using construct_package_content_items(1,2,3) [OF assms(1)]
    by (auto simp: list_all2_conv_all_nth item_of_def)
  then have "map pb_body (pc_blocks content) = map (\<lambda>i. ap_projected_body (ri_projection i)) selected"
    by (intro nth_equalityI) simp_all
  moreover have "mapr (\<lambda>b. utf8_encode (pb_body b)) (pc_blocks content) = mapr utf8_encode (map pb_body (pc_blocks content))"
    by (simp only: mapr_map)
  moreover have "mapr utf8_encode (map (\<lambda>i. ap_projected_body (ri_projection i)) selected)
      = Inr (map (\<lambda>i. utf8_surrogatepass (ap_projected_body (ri_projection i))) selected)"
    using assms(2) by (induction selected) (simp_all add: utf8_encode_def encodes_def)
  ultimately show ?thesis
    by (simp add: content_bytes_def body_tokens_def [abs_def] comp_def)
qed

lemma content_evidence_lineage:
  assumes "construct_package_content h ps = Inr content" "e \<in> set (pc_evidence content)"
  shows "\<exists>p \<in> set ps. ev_lineage e = ap_lineage p \<and> ev_source_ref e = cr_source_ref (ap_candidate_ref p)
    \<and> ev_resource_ref e = cr_resource_ref (ap_candidate_ref p) \<and> ev_revision_ref e = cr_revision_ref (ap_candidate_ref p)
    \<and> ev_fragment_ref e = cr_fragment_ref (ap_candidate_ref p)"
proof -
  from assms(2) obtain i where "i < length (pc_evidence content)" "e = pc_evidence content ! i"
    by (auto simp: in_set_conv_nth)
  moreover note construct_package_content_items(1,2,3) [OF assms(1)]
  ultimately have "item_of (ps ! i) (pc_blocks content ! i) e" "i < length ps"
    by (auto simp: list_all2_conv_all_nth)
  then show ?thesis by (auto simp: item_of_def)
qed

lemma decision_lineage_bound:
  assumes "decision_lineage iv prov l = Inr lin" "dp_principal_ref prov = iv_principal_ref iv" "ev_lineage e = lin"
  shows "evidence_bound_to_decision prov e"
proof -
  from assms(1) have "el_run_ref lin = dp_run_ref prov \<and> el_decision_ref lin = dp_decision_ref prov
      \<and> el_principal_ref lin = iv_principal_ref iv \<and> el_purpose lin = dp_purpose prov
      \<and> el_as_of lin = dp_as_of prov \<and> el_policy_snapshot_ref lin = dp_policy_snapshot_ref prov
      \<and> el_policy_epoch lin = dp_policy_epoch prov
      \<and> el_source_acl_decision_ref lin = dp_source_acl_decision_ref prov"
    by (auto simp: decision_lineage_def EvidenceLineage_init_def validators
        simp del: require_opaque_ref.simps require_int_range.simps)
  with assms(2,3) show ?thesis by (simp add: evidence_bound_to_decision_def)
qed

lemma authorize_acquire_Inr:
  assumes "authorize_acquire authority i iv prep cs t s = (s', Inr d)"
  shows "authorize_and_project iv (pa_policy_receipt prep) (pa_provenance_receipt prep) cs t None s
      = (s', Inr (ad_projections d, ad_projection_scope d))"
    and "seal_decision authority i (pa_effective_budget prep) (pa_policy_receipt prep) (pa_provenance_receipt prep)
      (ad_projections d) (ad_projection_scope d) {||} = Inr d"
    and "require_effective_scope_integrity (pr_effective_scope (pa_policy_receipt prep)) = Inr ()"
proof -
  from assms obtain ps scope where
    run: "authorize_and_project iv (pa_policy_receipt prep) (pa_provenance_receipt prep) cs t None s = (s', Inr (ps, scope))"
    and seal: "seal_decision authority i (pa_effective_budget prep) (pa_policy_receipt prep) (pa_provenance_receipt prep)
      ps scope {||} = Inr d"
    and ok: "require_effective_scope_integrity (pr_effective_scope (pa_policy_receipt prep)) = Inr ()"
    by (auto simp: authorize_acquire_def)
  from seal_decision_fields [OF seal] run seal ok show
    "authorize_and_project iv (pa_policy_receipt prep) (pa_provenance_receipt prep) cs t None s
      = (s', Inr (ad_projections d, ad_projection_scope d))"
    "seal_decision authority i (pa_effective_budget prep) (pa_policy_receipt prep) (pa_provenance_receipt prep)
      (ad_projections d) (ad_projection_scope d) {||} = Inr d"
    "require_effective_scope_integrity (pr_effective_scope (pa_policy_receipt prep)) = Inr ()"
    by simp_all
qed

text \<open>The final gate returns on an honest selection, whatever the epoch authority answers.\<close>

lemma honest_selection_finalizes:
  assumes "authorize_acquire authority i iv prep cs t s = (s', Inr d)"
    and "select_for_delivery authority (ks_scopes s') d ev w = Inr sel"
    and "decision_bound_to_invocation (pa_policy_receipt prep) (pa_provenance_receipt prep) iv"
    and "require_active_user_actor (ks_scopes s') (iv_user_actor iv) = Inr ()"
    and "epoch_gate_is_current (ks_scopes s') (actor_epoch iv) read_epoch = Inr current"
  shows "\<exists>r. finalize_for_delivery authority (ks_scopes s') iv sel read_epoch = Inr r
    \<and> (current \<longrightarrow> fr_content r = sp_content sel \<and> fr_policy_receipt r = pa_policy_receipt prep
      \<and> da_authorized_evidence_count (fr_audit_receipt r) = int (length (pc_evidence (sp_content sel))))"
proof -
  note acq = authorize_acquire_Inr [OF assms(1)]
  note d = seal_decision_fields [OF acq(2)]
  from assms(2) obtain selected m where
    content: "construct_package_content (ks_scopes s') (map ri_projection selected) = Inr (sp_content sel)"
    and mem: "\<And>i. i \<in> set selected \<Longrightarrow> ri_projection i \<in> set (ad_projections d)"
    and enc: "list_all encodes selected"
    and fit: "selected \<noteq> [] \<Longrightarrow> sum_list (map body_tokens selected) \<le> max_tokens (ad_effective_budget d)"
    and sel: "sp_decision sel = d" "sp_effective_budget_limits sel = ad_effective_budget_limits d"
      "selection_integrity_material authority d (sp_content sel) (ad_effective_budget_limits d) = Inr m"
      "sp_integrity_seal sel = issue_selection_authority_seal authority m"
    by (rule select_for_delivery_Inr) blast
  have lim: "package_budget_limits (ad_effective_budget d) = Inr (ad_effective_budget_limits d)"
    using d(5,7) by simp
  then have "0 < max_tokens (ad_effective_budget d)" "fst (ad_effective_budget_limits d) = max_tokens (ad_effective_budget d)"
    by (auto simp: valid_budget_def dest!: package_budget_limits_Inr)
  then have total: "content_bytes (sp_content sel) = Inr (sum_list (map body_tokens selected))"
    "sum_list (map body_tokens selected) \<le> fst (ad_effective_budget_limits d)"
    using fit selected_content_bytes [OF content enc] by (cases selected; simp)+
  have lineage: "\<exists>l. decision_lineage iv (pa_provenance_receipt prep) l = Inr (ap_lineage p)"
    if "p \<in> set (ad_projections d)" for p
    using authorize_and_project_Inr [OF acq(1)] that by (auto dest: projected_in_scope)
  have bound: "list_all (evidence_bound_to_decision (pa_provenance_receipt prep)) (pc_evidence (sp_content sel))"
  proof (unfold list_all_iff, rule ballI)
    fix e assume "e \<in> set (pc_evidence (sp_content sel))"
    with content_evidence_lineage [OF content] mem obtain p where
      "p \<in> set (ad_projections d)" "ev_lineage e = ap_lineage p" by fastforce
    moreover have "dp_principal_ref (pa_provenance_receipt prep) = iv_principal_ref iv"
      using assms(3) by (simp add: decision_bound_to_invocation_def Let_def)
    ultimately show "evidence_bound_to_decision (pa_provenance_receipt prep) e"
      using lineage decision_lineage_bound by blast
  qed
  show ?thesis
    using lim sel total assms(3-5) bound acq(3)
    by (cases current) (simp_all add: finalize_for_delivery_def Let_def d(3,4) audit_record_def
        final_epoch_is_current_def delivery_outcome_def empty_content)
qed

text \<open>The two outcomes of the final gate.\<close>

lemma final_gate_cases:
  assumes "finalize_for_delivery authority h iv sel read_epoch = Inr r"
  shows "fr_content r = sp_content sel
      \<and> fr_policy_receipt r = ad_policy_receipt (sp_decision sel)
      \<and> fr_provenance_receipt r = ad_provenance_receipt (sp_decision sel)
      \<and> read_epoch (pv_organization_id (actor_epoch iv)) = Inr (PInt (pv_policy_epoch (actor_epoch iv)))
      \<and> require_active_user_actor h (iv_user_actor iv) = Inr ()
      \<and> list_all (evidence_bound_to_decision (fr_provenance_receipt r)) (pc_evidence (fr_content r))
      \<and> decision_bound_to_invocation (fr_policy_receipt r) (fr_provenance_receipt r) iv
      \<and> (\<exists>n. content_bytes (fr_content r) = Inr n \<and> n \<le> max_tokens (ad_effective_budget (sp_decision sel)))
    \<or> fr_content r = \<lparr>pc_blocks = [], pc_evidence = []\<rparr>
      \<and> fr_policy_receipt r = (ad_policy_receipt (sp_decision sel))\<lparr>pr_effective_scope := empty_scope\<rparr>
      \<and> da_reason (fr_audit_receipt r) = Some NO_AUTHORIZED_EVIDENCE"
proof -
  let ?d = "sp_decision sel"
  define ok where "ok \<longleftrightarrow> list_all (evidence_bound_to_decision (ad_provenance_receipt ?d)) (pc_evidence (sp_content sel))
    \<and> decision_bound_to_invocation (ad_policy_receipt ?d) (ad_provenance_receipt ?d) iv"
  from assms obtain total current where
    lim: "package_budget_limits (ad_effective_budget ?d) = Inr (ad_effective_budget_limits ?d)" and
    tot: "content_bytes (sp_content sel) = Inr total" "total \<le> fst (ad_effective_budget_limits ?d)" and
    act: "require_active_user_actor h (iv_user_actor iv) = Inr ()" and
    cur: "final_epoch_is_current h iv ok read_epoch = Inr current" and
    res: "delivery_outcome h ok current (ad_policy_receipt ?d) (ad_provenance_receipt ?d) (sp_content sel)
         = Inr (fr_policy_receipt r, fr_provenance_receipt r, fr_content r)" and
    audit: "audit_record (fr_provenance_receipt r) (int (length (pc_evidence (fr_content r)))) = Inr (fr_audit_receipt r)"
    unfolding finalize_for_delivery_def Let_def ok_def [symmetric] by (auto simp del: split_paired_Ex)
  show ?thesis
  proof (cases "ok \<and> current")
    case True
    with cur have "epoch_gate_is_current h (actor_epoch iv) read_epoch = Inr True"
      by (simp add: final_epoch_is_current_def)
    moreover have "fst (ad_effective_budget_limits ?d) = max_tokens (ad_effective_budget ?d)"
      using lim by (simp add: package_budget_limits_Inr)
    moreover have "fr_content r = sp_content sel" "fr_policy_receipt r = ad_policy_receipt ?d"
      "fr_provenance_receipt r = ad_provenance_receipt ?d"
      using True res by (simp_all add: delivery_outcome_def)
    ultimately show ?thesis using True act tot epoch_gate_confirms unfolding ok_def by auto
  next
    case False
    with res have "fr_content r = \<lparr>pc_blocks = [], pc_evidence = []\<rparr>"
      and "fr_policy_receipt r = (ad_policy_receipt ?d)\<lparr>pr_effective_scope := empty_scope\<rparr>"
      unfolding delivery_outcome_def by (auto simp: empty_content)
    with audit_record_Inr [OF audit] show ?thesis by simp
  qed
qed

text \<open>A decision on one projection can be packed and selected.\<close>

lemma single_projection_content:
  assumes "wf_candidate (ap_candidate_ref p)" "wf_lineage (ap_lineage p)"
    and active: "require_active_authorized_projection h p = Inr ()"
  obtains b e where "construct_package_content h [p] = Inr \<lparr>pc_blocks = [b], pc_evidence = [e]\<rparr>" "item_of p b e"
    "validate_package_content [b] [e] = Inr ()"
proof -
  from content_item_total [OF assms] obtain b e where "content_item p = Inr (b, e)" by blast
  then have items: "mapr content_item [p] = Inr [(b, e)]" by simp
  have valid: "validate_package_content [b] [e] = Inr ()"
    using items_validate [OF items] by (simp add: same_lineage_binding_def)
  with items active have c: "construct_package_content h [p] = Inr \<lparr>pc_blocks = [b], pc_evidence = [e]\<rparr>"
    by (simp add: construct_package_content_def construct_validated_package_content_def require_one_decision_def)
  from construct_package_content_items(1) [OF c] have "item_of p b e" by simp
  with c valid show ?thesis by (intro that)
qed

lemma single_selection:
  assumes seal: "seal_decision authority i budget receipt prov [p] scope {||} = Inr d"
    and content: "construct_package_content h [p] = Inr content"
    and active: "require_active_authorized_projection h p = Inr ()"
    and ev: "distinct (map ce_candidate_ref ev)" "\<forall>e \<in> set ev. wf_rank_evidence e"
    and fit: "utf8_encode (ap_projected_body p) = Inr bs" "int (length bs) \<le> max_tokens budget"
  obtains sel where "select_for_delivery authority h d ev None = Inr sel" "sp_content sel = content" "sp_decision sel = d"
proof -
  let ?ev = "filter (\<lambda>e. ce_candidate_ref e \<in> ap_candidate_ref ` set [p]) ev"
  let ?item = "item_spec ?ev None p"
  have item: "ri_projection (item_spec A None p) = p" for A by (simp add: item_spec_def)
  have join: "join_authorized_ranking h [p] ev None = Inr [?item]"
    using join_authorized_ranking_eq [OF ev(1) refl, of "[p]" h None] ev(2) active by (simp add: weights_check_def)
  have pick: "select_loop (max_tokens budget) [?item] 0 = Inr [?item]" using fit by (simp add: item)
  note d = seal_decision_fields [OF seal]
  from d(8) obtain m where m: "decision_integrity_material authority d = Inr m"
    "ad_integrity_seal d = issue_selection_authority_seal authority m" by blast
  from m(1) obtain m' where
    m': "selection_integrity_material authority d content (ad_effective_budget_limits d) = Inr m'"
    by (cases "decision_integrity_snapshot d")
      (simp_all add: selection_integrity_material_def decision_integrity_material_def)
  have "select_for_delivery authority h d ev None
      = bnd (select_authorized_ranking [?item] budget) (\<lambda>selected.
        bnd (construct_package_content h (map ri_projection selected)) (\<lambda>content.
        bnd (selection_integrity_material authority d content (ad_effective_budget_limits d)) (\<lambda>sealed.
          Inr \<lparr>sp_decision = d, sp_content = content, sp_effective_budget_limits = ad_effective_budget_limits d,
               sp_integrity_seal = issue_selection_authority_seal authority sealed\<rparr>)))"
    unfolding select_for_delivery_def m(1) bnd_Inr verify_selection_authority_seal_def m(2) Let_def
    by (simp add: d join)
  then obtain sel where "select_for_delivery authority h d ev None = Inr sel" "sp_content sel = content" "sp_decision sel = d"
    unfolding select_authorized_ranking_def pick bnd_Inr list.map item content m' by simp
  then show ?thesis by (rule that)
qed

section \<open>A concrete call\<close>

definition example_locator :: MaterializedFragmentLocator where
  "example_locator = \<lparr>ml_organization_id = 1, ml_source_ref = u ''src'', ml_resource_ref = u ''res'',
     ml_revision_ref = u ''rev'', ml_fragment_ref = u ''frag'', ml_source_acl_projection_ref = u ''b'',
     ml_source_acl_as_of = example_datetime,
     ml_source_acl_freshness_profile_ref = FILE_SOURCE_ACL_FRESHNESS_PROFILE_REF\<rparr>"

definition example_body_fields :: MaterializedFragmentProjection where
  "example_body_fields = \<lparr>mp_kind = LEGACY_BODY, mp_fields = [example_field ''body'' (u ''text'') 0],
     mp_projection_ceiling = {|u ''body''|}\<rparr>"

definition example_transaction :: transaction where
  "example_transaction =
     (\<lparr>ss_id = 0, ss_scope = example_token MaterializedProjectionScope 3, ss_port_complete = True\<rparr>,
      example_port\<lparr>port_locate := \<lambda>c. Inr (Exact (if c = example_candidate then Some example_locator else None)),
        port_project := \<lambda>_. Inr (Exact (Some example_body_fields))\<rparr>)"

definition example_policy :: PolicyReceipt where
  "example_policy = \<lparr>pr_request_id = u ''r'', pr_purpose = u ''ask'', pr_policy_epoch = 7,
     pr_effective_scope = EffectiveScope_init {|locator_target example_locator|}\<rparr>"

definition example_provenance :: DecisionProvenanceReceipt where
  "example_provenance = \<lparr>dp_decision_ref = u ''d'', dp_package_id = u ''pkg'', dp_organization_id = 1,
     dp_user_id = 2, dp_membership_id = 3, dp_membership_version = 1, dp_principal_ref = u ''p'',
     dp_agent_version_ref = u ''a'', dp_authenticated_application_ref = u ''app'',
     dp_authentication_binding_ref = u ''b'',
     dp_effective_scope_digest = es_digest (pr_effective_scope example_policy),
     dp_request_id = u ''r'', dp_purpose = u ''ask'', dp_as_of = example_datetime, dp_run_ref = u ''run'',
     dp_policy_snapshot_ref = u ''s'', dp_policy_epoch = 7, dp_source_acl_decision_ref = u ''a''\<rparr>"

definition example_preparation :: PreparedAcquireAuthorization where
  "example_preparation = \<lparr>pa_effective_budget = example_budget, pa_policy_receipt = example_policy,
     pa_provenance_receipt = example_provenance\<rparr>"

definition example_kernel :: kernel_state where
  "example_kernel = \<lparr>ks_scopes = example_heap, ks_sequence = 0, ks_unsupported = 0\<rparr>"

definition example_authority :: seal_authority where
  "example_authority = \<lparr>seal_secret = [], repr_decision = \<lambda>_. [], repr_selection = \<lambda>_. []\<rparr>"

definition kernel_lineage :: EvidenceLineage where
  "kernel_lineage = example_lineage\<lparr>el_policy_epoch := 7\<rparr>"

definition kernel_projection :: AuthorizedProjection where
  "kernel_projection = \<lparr>ap_candidate_ref = example_candidate, ap_projected_body = u ''text'',
     ap_projected_field_refs = [u ''body''], ap_lineage = kernel_lineage,
     ap_construction_provenance = Some AUTHORIZATION_KERNEL,
     ap_kernel_scope = example_token AuthorizationKernelScope 4,
     ap_integrity_digest = projection_integrity_digest example_candidate (u ''text'') [u ''body''] kernel_lineage\<rparr>"

lemma example_admitted:
  "admitted_as (example_heap @ [True]) (pr_effective_scope example_policy) example_transaction example_candidate
     example_locator example_body_fields"
proof -
  have "MaterializedFragmentProjection_post_init example_body_fields = Inr ()"
    by (simp add: MaterializedFragmentProjection_post_init_eq example_body_fields_def example_field_def
        projected_field_refs_def u_def field_ref_text_def field_ref_char_def is_lower_def is_digit_def
        MAX_PROJECTED_FIELD_REFS_def MAX_PROJECTED_FIELD_REF_LENGTH_def)
  then show ?thesis
    by (simp add: admitted_as_def locate_materialized_fragment_def project_materialized_fragment_def
        example_transaction_def require_active_materialized_projection_session_def require_session_scope_def
        scope_active_def example_heap_def example_token_def locator_matches_candidate_def example_locator_def
        example_candidate_def example_policy_def)
qed

lemma example_decision_lineage: "decision_lineage example_invocation example_provenance example_locator = Inr kernel_lineage"
  by (simp add: decision_lineage_def EvidenceLineage_init_def example_provenance_def example_locator_def
      example_invocation_def kernel_lineage_def example_lineage_def require_opaque_ref.simps opaque_text_def
      MAX_OPAQUE_REF_LENGTH_def u_def is_space_def require_int_range.simps max_signed64_def
      require_utc_as_of_def is_aware_utc_def example_datetime_def FILE_SOURCE_ACL_FRESHNESS_PROFILE_REF_def)

lemma kernel_projection_constructed:
  "construct_authorized_projection (example_heap @ [True]) (example_token AuthorizationKernelScope 4)
     example_candidate (PStr (u ''text'')) (PTuple [PStr (u ''body'')]) kernel_lineage = Inr kernel_projection"
  by (simp add: construct_authorized_projection_eq scope_active_def kernel_projection_def example_heap_def
      example_token_def
      validate_projected_field_refs_eq field_ref_text_def u_def blank_iff is_space_def is_lower_def
      field_ref_char_def MAX_PROJECTED_FIELD_REFS_def MAX_PROJECTED_FIELD_REF_LENGTH_def)

lemma example_project_all:
  "project_all (example_heap @ [True]) (example_token AuthorizationKernelScope 4) example_invocation example_policy
     example_provenance example_transaction [example_candidate] = Inr [kernel_projection]"
proof -
  have "project_candidate (example_heap @ [True]) (example_token AuthorizationKernelScope 4) example_invocation
      example_policy example_provenance example_transaction example_candidate = Inr (Some kernel_projection)"
    unfolding project_candidate_Some
    using example_admitted example_decision_lineage kernel_projection_constructed
    by (intro exI [of _ example_locator] exI [of _ example_body_fields] exI [of _ kernel_lineage])
      (simp add: example_locator_def example_body_fields_def example_field_def projected_field_refs_def
        rendered_body_def u_def blank_iff is_space_def)
  then show ?thesis by (simp add: project_all_def ordered_candidates_def somes_def)
qed

lemma example_authorize:
  obtains d where "authorize_acquire example_authority i example_invocation example_preparation [example_candidate]
      (Some example_transaction) example_kernel
      = (example_kernel\<lparr>ks_scopes := example_heap @ [True]\<rparr>, Inr d)"
    "ad_projections d = [kernel_projection]" "ad_effective_budget d = example_budget"
proof -
  have budget: "valid_budget example_budget" by (simp add: valid_budget_def example_budget_def)
  obtain d where d: "seal_decision example_authority i example_budget example_policy example_provenance
      [kernel_projection] (Some (example_token AuthorizationKernelScope 4)) {||} = Inr d"
    using seal_decision_total [OF budget] by blast
  have "open_authorization_kernel_scope example_heap
      = (example_heap @ [True], example_token AuthorizationKernelScope 4)"
    by (simp add: open_authorization_kernel_scope_def open_scope_def example_heap_def example_token_def)
  then have "authorize_and_project example_invocation example_policy example_provenance [example_candidate]
      (Some example_transaction) None example_kernel
      = (example_kernel\<lparr>ks_scopes := example_heap @ [True]\<rparr>,
         Inr ([kernel_projection], Some (example_token AuthorizationKernelScope 4)))"
    by (simp add: authorize_and_project_def example_project_all example_kernel_def)
      (simp add: example_policy_def)
  with d have "authorize_acquire example_authority i example_invocation example_preparation [example_candidate]
      (Some example_transaction) example_kernel
      = (example_kernel\<lparr>ks_scopes := example_heap @ [True]\<rparr>, Inr d)"
    by (simp add: authorize_acquire_def example_preparation_def) (simp add: example_policy_def validators)
  then show ?thesis using that seal_decision_fields [OF d] by blast
qed

lemma kernel_projection_wf:
  "wf_candidate (ap_candidate_ref kernel_projection)" "wf_lineage (ap_lineage kernel_projection)"
  using example_projection_wf by (simp_all add: kernel_projection_def kernel_lineage_def wf_lineage_def max_signed64_def)

lemma example_select:
  assumes "authorize_acquire example_authority i example_invocation example_preparation [example_candidate]
      (Some example_transaction) s = (s', Inr d)"
    and "ad_projections d = [kernel_projection]" "ad_effective_budget d = example_budget"
  obtains sel where "select_for_delivery example_authority (example_heap @ [True]) d [] None = Inr sel"
    "map pb_body (pc_blocks (sp_content sel)) = [u ''text'']"
proof -
  note active = constructed_projection_active [OF kernel_projection_constructed]
  obtain b e where content: "construct_package_content (example_heap @ [True]) [kernel_projection]
      = Inr \<lparr>pc_blocks = [b], pc_evidence = [e]\<rparr>" "item_of kernel_projection b e"
    by (rule single_projection_content [OF kernel_projection_wf active])
  have seal: "seal_decision example_authority i example_budget example_policy example_provenance [kernel_projection]
      (ad_projection_scope d) {||} = Inr d"
    using authorize_acquire_Inr(2) [OF assms(1)] assms(2) by (simp add: example_preparation_def)
  have "utf8_encode (ap_projected_body kernel_projection) = Inr (utf8_surrogatepass (u ''text''))"
    "int (length (utf8_surrogatepass (u ''text''))) \<le> max_tokens example_budget"
    by (simp_all add: kernel_projection_def example_budget_def u_def utf8_encode_def utf8_surrogatepass_def
      utf8_char_def utf8_units_def is_surrogate_def)
  then obtain sel where sel: "select_for_delivery example_authority (example_heap @ [True]) d [] None = Inr sel"
    "sp_content sel = \<lparr>pc_blocks = [b], pc_evidence = [e]\<rparr>" "sp_decision sel = d"
    by (rule single_selection [OF seal content(1) active, of "[]", rotated 2]) simp_all
  moreover have "pb_body b = u ''text''" using content(2) by (simp add: item_of_def kernel_projection_def)
  ultimately show ?thesis using that by simp
qed

section \<open>Properties\<close>

text \<open>
  C2. Exact authorization: the decision of the Kernel holds a projection for exactly those submitted
  candidates that the retained transaction locates under the candidate's own identity, whose
  Resource is in the effective scope, and whose fields it projects. Every projection carries the
  rendering of those fields, all of them within the trusted ceiling, the lineage of this
  decision, and is active; no candidate has two.
\<close>

theorem kernel_projects_exactly_the_authorized:
  assumes "authorize_acquire authority i iv prep cs (Some t) s = (s', Inr d)"
  shows "(\<forall>p \<in> set (ad_projections d). \<exists>l f. ap_candidate_ref p \<in> set cs
      \<and> admitted_as (ks_scopes s') (pr_effective_scope (pa_policy_receipt prep)) t (ap_candidate_ref p) l f
      \<and> ap_projected_body p = rendered_body f \<and> ap_projected_field_refs p = projected_field_refs f
      \<and> set (projected_field_refs f) \<subseteq> fset (mp_projection_ceiling f)
      \<and> decision_lineage iv (pa_provenance_receipt prep) l = Inr (ap_lineage p)
      \<and> require_active_authorized_projection (ks_scopes s') p = Inr ())
    \<and> (\<forall>c \<in> set cs. (\<exists>l f. admitted_as (ks_scopes s') (pr_effective_scope (pa_policy_receipt prep)) t c l f)
         \<longrightarrow> (\<exists>p \<in> set (ad_projections d). ap_candidate_ref p = c))
    \<and> distinct (map ap_candidate_ref (ad_projections d))"
proof -
  let ?r = "pa_policy_receipt prep" and ?pv = "pa_provenance_receipt prep"
  note run = authorize_acquire_Inr [OF assms]
  from authorize_and_project_Inr [OF run(1)] consider
    "cs = [] \<or> es_targets (pr_effective_scope ?r) = {||}" "ad_projections d = []"
    | token where "project_all (ks_scopes s') token iv ?r ?pv t cs = Inr (ad_projections d)"
    by auto
  then show ?thesis
  proof cases
    case 1
    then show ?thesis by (auto simp: admitted_as_def)
  next
    case 2
    have "\<exists>p \<in> set (ad_projections d). ap_candidate_ref p = c"
      if c: "c \<in> set cs" and adm: "admitted_as (ks_scopes s') (pr_effective_scope ?r) t c l f" for c l f
    proof -
      from project_all_runs [OF 2 c] obtain r where r: "project_candidate (ks_scopes s') token iv ?r ?pv t c = Inr r" ..
      with admitted_not_skipped [OF adm r] obtain p where p: "r = Some p" by auto
      from r p have "ap_candidate_ref p = c"
        by (auto simp: project_candidate_Some construct_authorized_projection_eq)
      with r p c project_all_mem [OF 2] show ?thesis by blast
    qed
    moreover have "\<exists>l f. ap_candidate_ref p \<in> set cs
        \<and> admitted_as (ks_scopes s') (pr_effective_scope ?r) t (ap_candidate_ref p) l f
        \<and> ap_projected_body p = rendered_body f \<and> ap_projected_field_refs p = projected_field_refs f
        \<and> set (projected_field_refs f) \<subseteq> fset (mp_projection_ceiling f)
        \<and> decision_lineage iv ?pv l = Inr (ap_lineage p)
        \<and> require_active_authorized_projection (ks_scopes s') p = Inr ()" if "p \<in> set (ad_projections d)" for p
      using projected_in_scope [OF 2 that] by blast
    ultimately show ?thesis using project_all_refs(1) [OF 2] by blast
  qed
qed

theorem kernel_projects_exactly_the_authorized_witness:
  "\<exists>s' d. authorize_acquire example_authority 0 example_invocation example_preparation [example_candidate]
      (Some example_transaction) example_kernel = (s', Inr d)
    \<and> map ap_candidate_ref (ad_projections d) = [example_candidate]
    \<and> require_active_authorized_projection (ks_scopes s') (hd (ad_projections d)) = Inr ()"
proof -
  obtain d where d: "authorize_acquire example_authority 0 example_invocation example_preparation [example_candidate]
      (Some example_transaction) example_kernel
      = (example_kernel\<lparr>ks_scopes := example_heap @ [True]\<rparr>, Inr d)" "ad_projections d = [kernel_projection]"
    by (rule example_authorize)
  with kernel_projects_exactly_the_authorized [OF d(1)] show ?thesis
    by (auto simp: kernel_projection_def)
qed

text \<open>
  C23. The Kernel is blind to ranks: the decision, the state it leaves and any exception are the
  same for two submissions with the same set of candidates, whatever their order and
  multiplicity, so a candidate index cannot influence authorization through positions.
\<close>

theorem kernel_is_rank_blind:
  assumes "set xs = set ys"
  shows "authorize_acquire authority i iv prep xs t s = authorize_acquire authority i iv prep ys t s"
proof -
  have "xs = [] \<longleftrightarrow> ys = []" using assms by auto
  moreover have "project_all h token iv receipt prov tr xs = project_all h token iv receipt prov tr ys"
    for h token receipt prov tr
    by (simp add: project_all_def ordered_candidates_cong [OF assms])
  ultimately have "authorize_and_project iv receipt prov xs t k = authorize_and_project iv receipt prov ys t k"
    for receipt prov k
    unfolding authorize_and_project_def by presburger
  then show ?thesis by (simp add: authorize_acquire_def)
qed

theorem kernel_is_rank_blind_witness:
  "authorize_acquire example_authority 0 example_invocation example_preparation
     [example_candidate, example_candidate\<lparr>cr_fragment_ref := u ''next''\<rparr>] (Some example_transaction) example_kernel
   = authorize_acquire example_authority 0 example_invocation example_preparation
     [example_candidate\<lparr>cr_fragment_ref := u ''next''\<rparr>, example_candidate, example_candidate]
     (Some example_transaction) example_kernel"
  by (rule kernel_is_rank_blind) auto

text \<open>
  C13. A failed authorization leaves no scope open: when it raises on a valid effective budget,
  exactly the scopes that were active before are active afterwards, so no projection can
  outlive the failure.
\<close>

theorem failed_authorization_leaves_no_open_scope:
  assumes "authorize_acquire authority i iv prep cs t s = (s', Inl e)" "valid_budget (pa_effective_budget prep)"
  shows "scope_active k (ks_scopes s') token \<longleftrightarrow> scope_active k (ks_scopes s) token"
proof -
  let ?run = "authorize_and_project iv (pa_policy_receipt prep) (pa_provenance_receipt prep) cs t None s"
  have "seal_decision authority i (pa_effective_budget prep) policy prov ps scope {||} \<noteq> Inl x" for policy prov ps scope x
    using seal_decision_total [OF assms(2), of authority i policy prov ps scope "{||}"] by auto
  with assms(1) have "s' = s \<or> ?run = (s', Inl e)"
    by (auto simp: authorize_acquire_def xbnd_eq_Inl)
  moreover have "ks_scopes s' = ks_scopes s \<or> ks_scopes s' = ks_scopes s @ [False]" if "?run = (s', Inl e)"
    using that
    by (auto simp: authorize_and_project_def open_authorization_kernel_scope_def open_scope_def
        close_authorization_kernel_scope_def close_scope_def split: if_splits option.splits sum.splits)
  ultimately show ?thesis by (auto simp: scope_active_closed_slot)
qed

theorem failed_authorization_leaves_no_open_scope_witness:
  "\<exists>s'. authorize_acquire example_authority 0 example_invocation example_preparation [example_candidate]
      (Some (map_prod id (port_locate_update (\<lambda>_ _. Inr WrongType)) example_transaction)) example_kernel
      = (s', Inl TypeError)
    \<and> \<not> scope_active AuthorizationKernelScope (ks_scopes s') (example_token AuthorizationKernelScope 4)"
proof -
  let ?t = "map_prod id (port_locate_update (\<lambda>_ _. Inr WrongType)) example_transaction"
  let ?s = "example_kernel\<lparr>ks_scopes := example_heap @ [False]\<rparr>"
  have "project_candidate (example_heap @ [True]) k example_invocation example_policy example_provenance ?t
      example_candidate = Inl TypeError" for k
    by (simp add: project_candidate_def locate_materialized_fragment_def example_transaction_def
        require_active_materialized_projection_session_def require_session_scope_def scope_active_def
        example_heap_def example_token_def)
  then have "project_all (example_heap @ [True]) k example_invocation example_policy example_provenance ?t
      [example_candidate] = Inl TypeError" for k
    by (simp add: project_all_def ordered_candidates_def)
  then have run: "authorize_acquire example_authority 0 example_invocation example_preparation [example_candidate]
      (Some ?t) example_kernel = (?s, Inl TypeError)"
    by (simp add: authorize_acquire_def authorize_and_project_def example_preparation_def example_policy_def
        xbnd_eq_Inl validators open_authorization_kernel_scope_def open_scope_def example_kernel_def
        close_authorization_kernel_scope_def close_scope_def)
  have "valid_budget (pa_effective_budget example_preparation)"
    by (simp add: example_preparation_def valid_budget_def example_budget_def)
  from failed_authorization_leaves_no_open_scope [OF run this, of AuthorizationKernelScope
      "example_token AuthorizationKernelScope 4"] run show ?thesis
    by (simp add: scope_active_def example_token_def example_kernel_def example_heap_def)
qed

text \<open>
  C3. The final veto: content leaves the Kernel only if, at that moment, the authority reads the
  epoch the actor observed, the actor is active, every Evidence carries the lineage of this
  decision, the decision belongs to this invocation and its bytes fit the effective budget; in
  every other case that does not raise, the result is empty: no block, no Evidence, no scope
  target, and the audit says so.
\<close>

theorem final_veto_empties_or_confirms:
  assumes "finalize_for_delivery authority h iv sel read_epoch = Inr r"
  shows "fr_content r = sp_content sel
      \<and> fr_policy_receipt r = ad_policy_receipt (sp_decision sel)
      \<and> fr_provenance_receipt r = ad_provenance_receipt (sp_decision sel)
      \<and> read_epoch (pv_organization_id (actor_epoch iv)) = Inr (PInt (pv_policy_epoch (actor_epoch iv)))
      \<and> require_active_user_actor h (iv_user_actor iv) = Inr ()
      \<and> list_all (evidence_bound_to_decision (fr_provenance_receipt r)) (pc_evidence (fr_content r))
      \<and> decision_bound_to_invocation (fr_policy_receipt r) (fr_provenance_receipt r) iv
      \<and> (\<exists>n. content_bytes (fr_content r) = Inr n \<and> n \<le> max_tokens (ad_effective_budget (sp_decision sel)))
    \<or> fr_content r = \<lparr>pc_blocks = [], pc_evidence = []\<rparr>
      \<and> es_targets (pr_effective_scope (fr_policy_receipt r)) = {||}
      \<and> da_reason (fr_audit_receipt r) = Some NO_AUTHORIZED_EVIDENCE"
  using final_gate_cases [OF assms] by (auto simp: empty_scope_def)

lemma example_bound: "decision_bound_to_invocation example_policy example_provenance example_invocation"
  by (simp add: decision_bound_to_invocation_def Let_def example_policy_def example_provenance_def
      example_invocation_def example_actor_def)

lemma example_actor_active: "require_active_user_actor (example_heap @ [True]) (iv_user_actor example_invocation) = Inr ()"
proof -
  have "construct_user_actor (example_heap @ [True]) example_membership = Inr example_actor"
    by (simp add: construct_user_actor_def require_active_current_membership_verification_def validators
        example_membership_def example_call_epoch_def example_epoch_def example_epoch_session_def
        example_token_def example_heap_def scope_active_def max_signed64_def example_actor_def example_snapshot_def)
  then show ?thesis by (simp add: constructed_actor_active example_invocation_def)
qed

lemma example_epoch_answer:
  assumes "n = 7 \<or> n = 8"
  shows "epoch_gate_is_current (example_heap @ [True]) (actor_epoch example_invocation) (\<lambda>_. Inr (PInt n)) = Inr (n = 7)"
proof -
  have "require_active_policy_epoch_verification (example_heap @ [True]) (actor_epoch example_invocation) = Inr ()"
    by (simp add: actor_epoch_def example_invocation_def example_actor_def validators example_call_epoch_def
        example_epoch_def example_epoch_session_def example_token_def example_heap_def scope_active_def max_signed64_def)
  moreover have "pv_policy_epoch (actor_epoch example_invocation) = 7"
    by (simp add: actor_epoch_def example_invocation_def example_actor_def example_call_epoch_def example_epoch_def)
  ultimately show ?thesis
    using assms by (auto simp: epoch_gate_is_current_def policy_epoch_is_current_def max_signed64_def)
qed

theorem final_veto_empties_or_confirms_witness:
  "\<exists>d sel r. select_for_delivery example_authority (example_heap @ [True]) d [] None = Inr sel
    \<and> map pb_body (pc_blocks (sp_content sel)) = [u ''text'']
    \<and> finalize_for_delivery example_authority (example_heap @ [True]) example_invocation sel (\<lambda>_. Inr (PInt 8))
       = Inr r
    \<and> pc_blocks (fr_content r) = []"
proof -
  obtain d where d: "authorize_acquire example_authority 0 example_invocation example_preparation [example_candidate]
      (Some example_transaction) example_kernel
      = (example_kernel\<lparr>ks_scopes := example_heap @ [True]\<rparr>, Inr d)" "ad_projections d = [kernel_projection]"
      "ad_effective_budget d = example_budget"
    by (rule example_authorize)
  obtain sel where sel: "select_for_delivery example_authority (example_heap @ [True]) d [] None = Inr sel"
    "map pb_body (pc_blocks (sp_content sel)) = [u ''text'']"
    by (rule example_select [OF d])
  obtain r where r: "finalize_for_delivery example_authority (example_heap @ [True]) example_invocation sel
      (\<lambda>_. Inr (PInt 8)) = Inr r"
    using honest_selection_finalizes [OF d(1), of "[]" None sel "\<lambda>_. Inr (PInt 8)" False] sel(1) example_bound
      example_actor_active example_epoch_answer [of 8]
    by (auto simp: example_preparation_def)
  have "pc_blocks (fr_content r) = []"
    using final_veto_empties_or_confirms [OF r]
    by (auto simp: actor_epoch_def example_invocation_def example_actor_def example_call_epoch_def example_epoch_def)
  with sel r show ?thesis by (intro exI [of _ d] exI [of _ sel] exI [of _ r]) simp
qed

text \<open>
  C12. An honest flow is never vetoed: a selection that the sealed selector makes from the Kernel's own
  decision is accepted by the final gate with its content unchanged, when the decision belongs
  to the invocation, the actor is active and the epoch is still current; in particular the
  two seals agree and the budget the selector packed to is the one the gate checks.
\<close>

theorem honest_selection_is_delivered:
  assumes "authorize_acquire authority i iv prep cs t s = (s', Inr d)"
    and "select_for_delivery authority (ks_scopes s') d ev w = Inr sel"
    and "decision_bound_to_invocation (pa_policy_receipt prep) (pa_provenance_receipt prep) iv"
    and "require_active_user_actor (ks_scopes s') (iv_user_actor iv) = Inr ()"
    and "epoch_gate_is_current (ks_scopes s') (actor_epoch iv) read_epoch = Inr True"
  shows "\<exists>r. finalize_for_delivery authority (ks_scopes s') iv sel read_epoch = Inr r
    \<and> fr_content r = sp_content sel \<and> fr_policy_receipt r = pa_policy_receipt prep
    \<and> da_authorized_evidence_count (fr_audit_receipt r) = int (length (pc_evidence (sp_content sel)))"
  using honest_selection_finalizes [OF assms] by simp

theorem honest_selection_is_delivered_witness:
  "\<exists>d sel r. authorize_acquire example_authority 0 example_invocation example_preparation [example_candidate]
      (Some example_transaction) example_kernel = (example_kernel\<lparr>ks_scopes := example_heap @ [True]\<rparr>, Inr d)
    \<and> select_for_delivery example_authority (example_heap @ [True]) d [] None = Inr sel
    \<and> finalize_for_delivery example_authority (example_heap @ [True]) example_invocation sel (\<lambda>_. Inr (PInt 7))
       = Inr r
    \<and> map pb_body (pc_blocks (fr_content r)) = [u ''text'']"
proof -
  obtain d where d: "authorize_acquire example_authority 0 example_invocation example_preparation [example_candidate]
      (Some example_transaction) example_kernel
      = (example_kernel\<lparr>ks_scopes := example_heap @ [True]\<rparr>, Inr d)" "ad_projections d = [kernel_projection]"
      "ad_effective_budget d = example_budget"
    by (rule example_authorize)
  obtain sel where sel: "select_for_delivery example_authority (example_heap @ [True]) d [] None = Inr sel"
    "map pb_body (pc_blocks (sp_content sel)) = [u ''text'']"
    by (rule example_select [OF d])
  have "\<exists>r. finalize_for_delivery example_authority (example_heap @ [True]) example_invocation sel
      (\<lambda>_. Inr (PInt 7)) = Inr r \<and> fr_content r = sp_content sel"
    using honest_selection_is_delivered [OF d(1), of "[]" None sel "\<lambda>_. Inr (PInt 7)"] sel(1) example_bound
      example_actor_active example_epoch_answer [of 7]
    by (auto simp: example_preparation_def)
  with d(1) sel show ?thesis by auto
qed

end
