(* ===== verification/Fragment_Window.thy ===== *)
theory Fragment_Window
  imports Materialized
begin

text \<open>
  \<open>src/engine/runtime/fragment_window.py\<close> and \<open>AuthorizationKernel.expand_fragment_window\<close> of
  \<open>construction.py\<close>: the neighbourhood of an authorized fragment. The window is read in the retained
  transaction; a replaceable reader sees it through a session and its answer is accepted only if
  it equals the authoritative read.
\<close>

section \<open>Requests and sessions\<close>

record FragmentWindowRequest =
  fq_anchor :: AuthorizedProjection
  fq_before :: int
  fq_after :: int
  fq_expansion_candidates :: "CandidateRef list"

definition FragmentWindowRequest_init ::
  "AuthorizedProjection \<Rightarrow> pyval \<Rightarrow> pyval \<Rightarrow> CandidateRef list \<Rightarrow> FragmentWindowRequest res"
where
  "FragmentWindowRequest_init anchor before after expansion_candidates =
     bnd (require_int_range 0 32 before) (\<lambda>b.
     bnd (require_int_range 0 32 after) (\<lambda>a.
       if length expansion_candidates > 64 then Inl ValueError
       else Inr \<lparr>fq_anchor = anchor, fq_before = b, fq_after = a,
                 fq_expansion_candidates = expansion_candidates\<rparr>))"

record FragmentWindowResult =
  fw_projections :: "AuthorizedProjection list"
  fw_reauthorization_refs :: "CandidateRef list"

record FragmentWindowSession =
  fs_active :: bool
  fs_read :: MaterializedFragmentWindowRead

definition construct_fragment_window_session :: "MaterializedFragmentWindowRead \<Rightarrow> FragmentWindowSession" where
  "construct_fragment_window_session rd = \<lparr>fs_active = True, fs_read = rd\<rparr>"

definition read_fragment_window_session :: "FragmentWindowSession \<Rightarrow> MaterializedFragmentWindowRead res" where
  "read_fragment_window_session session = (if \<not> fs_active session then Inl ValueError else Inr (fs_read session))"

definition close_fragment_window_session :: "FragmentWindowSession \<Rightarrow> FragmentWindowSession" where
  "close_fragment_window_session session =
     session\<lparr>fs_active := False, fs_read := \<lparr>wr_items = [], wr_reauthorization_refs = []\<rparr>\<rparr>"

section \<open>Snapshots\<close>

fun projection_kind_value :: "MaterializedProjectionKind \<Rightarrow> str" where
  "projection_kind_value LEGACY_BODY = u ''body''"
| "projection_kind_value STRUCTURED_FIELDS = u ''fields''"

type_synonym item_snapshot =
  "bytes \<times> str \<times> str \<times> str \<times> str \<times> str \<times> str \<times> str \<times> str \<times> (str \<times> str \<times> int) list \<times> str list"

definition item_snapshot :: "MaterializedFragmentWindowItem \<Rightarrow> item_snapshot" where
  "item_snapshot i =
     (let l = wi_locator i; p = wi_projection i in
      (uuid_bytes (ml_organization_id l), ml_source_ref l, ml_resource_ref l, ml_revision_ref l,
       ml_fragment_ref l, ml_source_acl_projection_ref l, isoformat_us (ml_source_acl_as_of l),
       ml_source_acl_freshness_profile_ref l, projection_kind_value (mp_kind p),
       map (\<lambda>f. (fv_field_ref f, fv_field_value f, fv_ordinal f)) (mp_fields p),
       sorted_list_of_set (fset (mp_projection_ceiling p))))"

definition fragment_window_read_snapshot ::
  "MaterializedFragmentWindowRead \<Rightarrow> item_snapshot list \<times> (bytes \<times> str \<times> str \<times> str \<times> str) list"
where
  "fragment_window_read_snapshot rd =
     (map item_snapshot (wr_items rd), map candidate_sort_key (wr_reauthorization_refs rd))"

section \<open>Expansion\<close>

text \<open>The locator rebuilt from the anchor; its constructor checks run again.\<close>

definition anchor_locator :: "AuthorizedProjection \<Rightarrow> MaterializedFragmentLocator res" where
  "anchor_locator p =
     (let c = ap_candidate_ref p; l = ap_lineage p in
      MaterializedFragmentLocator_init (PUuid (cr_organization_id c)) (PStr (cr_source_ref c))
        (PStr (cr_resource_ref c)) (PStr (cr_revision_ref c)) (PStr (cr_fragment_ref c))
        (PStr (el_source_acl_projection_ref l)) (PDatetime (el_source_acl_as_of l))
        (PStr (el_source_acl_freshness_profile_ref l)))"

definition inherit_item ::
  "scope_heap \<Rightarrow> AuthorizedProjection \<Rightarrow> MaterializedFragmentWindowItem \<Rightarrow> AuthorizedProjection res"
where
  "inherit_item h anchor i =
     (let l = wi_locator i in
      bnd (CandidateRef_init (PUuid (ml_organization_id l)) (PStr (ml_source_ref l)) (PStr (ml_resource_ref l))
             (PStr (ml_revision_ref l)) (PStr (ml_fragment_ref l))) (\<lambda>candidate.
        construct_inherited_authorized_projection h anchor candidate
          (PStr (rendered_body (wi_projection i)))
          (PTuple (map PStr (projected_field_refs (wi_projection i))))))"

type_synonym window_reader =
  "FragmentWindowRequest \<Rightarrow> FragmentWindowSession \<Rightarrow> MaterializedFragmentWindowRead foreign res"

text \<open>What is left after the reader answered.\<close>

definition accept_window ::
  "scope_heap \<Rightarrow> FragmentWindowRequest \<Rightarrow> MaterializedFragmentWindowRead \<Rightarrow> MaterializedFragmentWindowRead foreign
    \<Rightarrow> FragmentWindowResult res"
where
  "accept_window h request authoritative answer =
     bnd (require_exact answer) (\<lambda>rd.
       if fragment_window_read_snapshot rd \<noteq> fragment_window_read_snapshot authoritative then Inl ValueError
       else
         bnd (mapr (inherit_item h (fq_anchor request)) (wr_items rd)) (\<lambda>projections.
           let a = ap_candidate_ref (fq_anchor request) in
           if list_ex (\<lambda>c. cr_organization_id c = cr_organization_id a \<and> cr_source_ref c = cr_source_ref a
                          \<and> cr_resource_ref c = cr_resource_ref a) (wr_reauthorization_refs rd)
           then Inl ValueError
           else Inr \<lparr>fw_projections = projections, fw_reauthorization_refs = wr_reauthorization_refs rd\<rparr>))"

text \<open>The first component is the session the reader was given, as the call leaves it.\<close>

definition expand_fragment_window ::
  "scope_heap \<Rightarrow> window_reader option \<Rightarrow> FragmentWindowRequest \<Rightarrow> authority_session \<Rightarrow> materialized_port
    \<Rightarrow> FragmentWindowSession option \<times> FragmentWindowResult res"
where
  "expand_fragment_window h reader request session port =
     (case reader of
        None \<Rightarrow> (None, Inl RuntimeConfigurationError)
      | Some read_window \<Rightarrow>
          (case bnd (anchor_locator (fq_anchor request)) (\<lambda>l.
                  read_materialized_fragment_window h session port l (PInt (fq_before request))
                    (PInt (fq_after request)) (fq_expansion_candidates request)) of
             Inl e \<Rightarrow> (None, Inl e)
           | Inr authoritative \<Rightarrow>
               let window_session = construct_fragment_window_session authoritative in
               (Some (close_fragment_window_session window_session),
                bnd (read_window request window_session) (accept_window h request authoritative))))"

section \<open>Lemmas\<close>

lemma projection_kind_value_inject: "projection_kind_value a = projection_kind_value b \<Longrightarrow> a = b"
  by (cases a; cases b) (simp_all add: u_def)

lemma inj_field_tuple: "inj (\<lambda>f :: MaterializedFieldValue. (fv_field_ref f, fv_field_value f, fv_ordinal f))"
  by (auto intro!: injI MaterializedFieldValue.equality)

lemma item_snapshot_inherit:
  assumes "item_snapshot i = item_snapshot j"
  shows "inherit_item h a i = inherit_item h a j"
proof -
  from assms have "mp_kind (wi_projection i) = mp_kind (wi_projection j)"
    and "mp_fields (wi_projection i) = mp_fields (wi_projection j)"
    by (auto simp: item_snapshot_def Let_def inj_map_eq_map [OF inj_field_tuple] dest: projection_kind_value_inject)
  then have "rendered_body (wi_projection i) = rendered_body (wi_projection j)"
    "projected_field_refs (wi_projection i) = projected_field_refs (wi_projection j)"
    by (simp_all only: rendered_body_def projected_field_refs_def)
  with assms show ?thesis
    by (simp add: inherit_item_def item_snapshot_def Let_def uuid_bytes_inject)
qed

lemma inj_candidate_sort_key: "inj candidate_sort_key"
  by (auto intro!: injI CandidateRef.equality simp: candidate_sort_key_def uuid_bytes_inject)

lemma snapshot_reauthorization_refs:
  "fragment_window_read_snapshot a = fragment_window_read_snapshot b \<Longrightarrow>
     wr_reauthorization_refs a = wr_reauthorization_refs b"
  by (simp add: fragment_window_read_snapshot_def inj_map_eq_map [OF inj_candidate_sort_key])

lemma mapr_same:
  assumes "map k xs = map k ys" "\<And>x y. k x = k y \<Longrightarrow> f x = f y"
  shows "mapr f xs = mapr f ys"
  using assms(1)
proof (induction xs arbitrary: ys)
  case (Cons x xs)
  then obtain y ys' where "ys = y # ys'" "k x = k y" "map k xs = map k ys'" by (cases ys) auto
  with Cons.IH assms(2) [of x y] show ?case by simp
qed simp

lemma accept_window_answer:
  assumes "accept_window h request authoritative answer = Inr r"
  shows "accept_window h request authoritative (Exact authoritative) = Inr r"
proof -
  from assms obtain rd where rd: "answer = Exact rd"
    and snap: "fragment_window_read_snapshot rd = fragment_window_read_snapshot authoritative"
    by (auto simp: accept_window_def validators)
  have "map item_snapshot (wr_items rd) = map item_snapshot (wr_items authoritative)"
    using snap by (simp add: fragment_window_read_snapshot_def)
  then have "mapr (inherit_item h (fq_anchor request)) (wr_items rd)
      = mapr (inherit_item h (fq_anchor request)) (wr_items authoritative)"
    by (rule mapr_same) (rule item_snapshot_inherit)
  with assms rd snap snapshot_reauthorization_refs [OF snap] show ?thesis
    unfolding accept_window_def rd require_exact.simps bnd_Inr snap by (simp only: refl if_False not_True_eq_False)
qed

text \<open>The reader that hands back what its session holds.\<close>

definition honest_reader :: window_reader where
  "honest_reader request session = bnd (read_fragment_window_session session) (\<lambda>rd. Inr (Exact rd))"

lemma inherit_item_fields:
  assumes "inherit_item h a i = Inr p"
  shows "ap_lineage p = ap_lineage a" "ap_kernel_scope p = ap_kernel_scope a"
    "ap_projected_body p = rendered_body (wi_projection i)"
    "cr_organization_id (ap_candidate_ref p) = cr_organization_id (ap_candidate_ref a)"
    "cr_source_ref (ap_candidate_ref p) = cr_source_ref (ap_candidate_ref a)"
    "cr_resource_ref (ap_candidate_ref p) = cr_resource_ref (ap_candidate_ref a)"
    "cr_revision_ref (ap_candidate_ref p) = cr_revision_ref (ap_candidate_ref a)"
    "require_active_authorized_projection h a = Inr ()" "require_active_authorized_projection h p = Inr ()"
  using assms
  by (auto simp: inherit_item_def Let_def construct_inherited_authorized_projection_def
      construct_authorized_projection_eq intro: constructed_projection_active)

definition same_article_and_revision :: "CandidateRef \<Rightarrow> CandidateRef \<Rightarrow> bool" where
  "same_article_and_revision c a \<longleftrightarrow>
     cr_organization_id c = cr_organization_id a \<and> cr_source_ref c = cr_source_ref a
     \<and> cr_resource_ref c = cr_resource_ref a \<and> cr_revision_ref c = cr_revision_ref a"

section \<open>Properties\<close>

text \<open>
  C29. A hostile window reader gains nothing: whatever reader is composed, an expansion that returns
  gives exactly what it gives with the reader that hands back the authoritative read. Every
  inherited projection is of the anchor's Organization, Source, Article and Revision, carries
  the anchor's lineage and Kernel scope and a rendered body of the authoritative window; the
  references left for reauthorization are of other Articles; and the session the reader was
  given no longer answers.
\<close>

theorem window_reader_cannot_influence_expansion:
  assumes "expand_fragment_window h (Some reader) request session port = (left, Inr r)"
  shows "snd (expand_fragment_window h (Some honest_reader) request session port) = Inr r
    \<and> (\<forall>p \<in> set (fw_projections r).
         same_article_and_revision (ap_candidate_ref p) (ap_candidate_ref (fq_anchor request))
         \<and> ap_lineage p = ap_lineage (fq_anchor request)
         \<and> ap_kernel_scope p = ap_kernel_scope (fq_anchor request)
         \<and> require_active_authorized_projection h p = Inr ())
    \<and> (\<forall>c \<in> set (fw_reauthorization_refs r). \<not> (cr_organization_id c = cr_organization_id (ap_candidate_ref (fq_anchor request))
         \<and> cr_source_ref c = cr_source_ref (ap_candidate_ref (fq_anchor request))
         \<and> cr_resource_ref c = cr_resource_ref (ap_candidate_ref (fq_anchor request))))
    \<and> (\<exists>s. left = Some s \<and> read_fragment_window_session s = Inl ValueError)"
proof -
  from assms obtain l auth answer where
    read: "anchor_locator (fq_anchor request) = Inr l"
      "read_materialized_fragment_window h session port l (PInt (fq_before request)) (PInt (fq_after request))
         (fq_expansion_candidates request) = Inr auth"
    and left: "left = Some (close_fragment_window_session (construct_fragment_window_session auth))"
    and acc: "accept_window h request auth answer = Inr r"
    by (auto simp: expand_fragment_window_def Let_def split: sum.splits)
  note honest = accept_window_answer [OF acc]
  have "snd (expand_fragment_window h (Some honest_reader) request session port) = Inr r"
    using read honest
    by (simp add: expand_fragment_window_def honest_reader_def read_fragment_window_session_def
        construct_fragment_window_session_def)
  moreover from honest have m: "mapr (inherit_item h (fq_anchor request)) (wr_items auth) = Inr (fw_projections r)"
    and refs: "fw_reauthorization_refs r = wr_reauthorization_refs auth"
      "\<not> list_ex (\<lambda>c. cr_organization_id c = cr_organization_id (ap_candidate_ref (fq_anchor request))
         \<and> cr_source_ref c = cr_source_ref (ap_candidate_ref (fq_anchor request))
         \<and> cr_resource_ref c = cr_resource_ref (ap_candidate_ref (fq_anchor request))) (wr_reauthorization_refs auth)"
    by (auto simp: accept_window_def Let_def)
  have "\<exists>i. inherit_item h (fq_anchor request) i = Inr p" if "p \<in> set (fw_projections r)" for p
    using mapr_mem [OF m that] by blast
  then have "same_article_and_revision (ap_candidate_ref p) (ap_candidate_ref (fq_anchor request))
         \<and> ap_lineage p = ap_lineage (fq_anchor request)
         \<and> ap_kernel_scope p = ap_kernel_scope (fq_anchor request)
         \<and> require_active_authorized_projection h p = Inr ()" if "p \<in> set (fw_projections r)" for p
    using inherit_item_fields that unfolding same_article_and_revision_def by metis
  moreover have "read_fragment_window_session (close_fragment_window_session (construct_fragment_window_session auth))
      = Inl ValueError"
    by (simp add: read_fragment_window_session_def close_fragment_window_session_def)
  ultimately show ?thesis using left refs by (auto simp: list_ex_iff)
qed

definition example_window :: MaterializedFragmentWindowRead where
  "example_window = \<lparr>wr_items = [\<lparr>wi_locator = \<lparr>ml_organization_id = 1, ml_source_ref = u ''src'',
       ml_resource_ref = u ''res'', ml_revision_ref = u ''rev'', ml_fragment_ref = u ''next'',
       ml_source_acl_projection_ref = u ''b'', ml_source_acl_as_of = example_datetime,
       ml_source_acl_freshness_profile_ref = u ''f''\<rparr>,
     wi_projection = \<lparr>mp_kind = LEGACY_BODY, mp_fields = [example_field ''body'' (u ''more'') 0],
       mp_projection_ceiling = {|u ''body''|}\<rparr>\<rparr>], wr_reauthorization_refs = []\<rparr>"

definition example_window_port :: materialized_port where
  "example_window_port = example_port\<lparr>port_read_fragment_window := Some (\<lambda>_ _ _ _. Inr (Exact example_window))\<rparr>"

definition example_window_request :: FragmentWindowRequest where
  "example_window_request = \<lparr>fq_anchor = example_projection, fq_before = 1, fq_after = 1, fq_expansion_candidates = []\<rparr>"

lemma example_window_expands:
  "\<exists>p left. expand_fragment_window [True, True] (Some honest_reader) example_window_request
      example_projection_session example_window_port = (left, Inr \<lparr>fw_projections = [p], fw_reauthorization_refs = []\<rparr>)
    \<and> ap_projected_body p = u ''more''"
proof -
  have texts: "\<not> blank (u ''src'')" "\<not> blank (u ''res'')" "\<not> blank (u ''rev'')" "\<not> blank (u ''frag'')"
    "\<not> blank (u ''b'')" "\<not> blank FILE_SOURCE_ACL_FRESHNESS_PROFILE_REF" "\<not> blank (u ''more'')"
    "is_aware_utc example_datetime"
    by (simp_all add: u_def blank_iff is_space_def FILE_SOURCE_ACL_FRESHNESS_PROFILE_REF_def is_aware_utc_def
        example_datetime_def)
  have cand: "ap_candidate_ref example_projection = example_candidate" "ap_lineage example_projection = example_lineage"
    "ap_kernel_scope example_projection = \<lparr>tok_kind = AuthorizationKernelScope, tok_sealed = True, tok_id = 0\<rparr>"
    by (simp_all add: example_projection_def)
  obtain l where loc: "anchor_locator example_projection = Inr l" "ml_organization_id l = 1"
    "ml_source_ref l = u ''src''" "ml_resource_ref l = u ''res''" "ml_revision_ref l = u ''rev''"
    by (simp add: anchor_locator_def Let_def MaterializedFragmentLocator_init_def cand example_candidate_def
        example_lineage_def texts)
  have rd: "read_materialized_fragment_window [True, True] example_projection_session example_window_port l (PInt 1)
      (PInt 1) [] = Inr example_window"
    by (simp add: read_materialized_fragment_window_def require_active_materialized_projection_session_def
        require_session_scope_def scope_active_def example_projection_session_def example_window_port_def
        require_int_range.simps example_window_def require_same_article_def loc)
  have "CandidateRef_init (PUuid 1) (PStr (u ''src'')) (PStr (u ''res'')) (PStr (u ''rev'')) (PStr (u ''next''))
      = Inr (example_candidate\<lparr>cr_fragment_ref := u ''next''\<rparr>)"
    by (simp add: CandidateRef_init_def example_candidate_def opaque_text_def MAX_OPAQUE_REF_LENGTH_def u_def
        is_space_def)
  moreover obtain p where "construct_inherited_authorized_projection [True, True] example_projection
      (example_candidate\<lparr>cr_fragment_ref := u ''next''\<rparr>) (PStr (u ''more'')) (PTuple [PStr (u ''body'')]) = Inr p"
    "ap_projected_body p = u ''more''"
    by (simp add: construct_inherited_authorized_projection_def example_projection_active cand Let_def
        construct_authorized_projection_def require_active_authorization_kernel_scope_def scope_active_def
        require_nonblank_body_def texts validate_projected_field_refs.simps require_field_ref.simps
        MAX_PROJECTED_FIELD_REFS_def MAX_PROJECTED_FIELD_REF_LENGTH_def is_lower_def field_ref_char_def u_def
        blank_iff is_space_def)
  ultimately have "inherit_item [True, True] example_projection (hd (wr_items example_window)) = Inr p"
    "ap_projected_body p = u ''more''"
    by (simp_all add: inherit_item_def example_window_def rendered_body_def example_field_def projected_field_refs_def)
  moreover have "mapr f (wr_items example_window) = bnd (f (hd (wr_items example_window))) (\<lambda>p. Inr [p])"
    "wr_reauthorization_refs example_window = []" for f :: "MaterializedFragmentWindowItem \<Rightarrow> AuthorizedProjection res"
    by (simp_all add: example_window_def)
  ultimately show ?thesis
    by (simp add: expand_fragment_window_def example_window_request_def loc(1) rd honest_reader_def
        read_fragment_window_session_def construct_fragment_window_session_def accept_window_def)
qed

theorem window_reader_cannot_influence_expansion_witness:
  "\<exists>p left. expand_fragment_window [True, True] (Some honest_reader) example_window_request
      example_projection_session example_window_port = (left, Inr \<lparr>fw_projections = [p], fw_reauthorization_refs = []\<rparr>)
    \<and> ap_lineage p = example_lineage \<and> cr_resource_ref (ap_candidate_ref p) = u ''res''"
proof -
  obtain p left where run: "expand_fragment_window [True, True] (Some honest_reader) example_window_request
      example_projection_session example_window_port = (left, Inr \<lparr>fw_projections = [p], fw_reauthorization_refs = []\<rparr>)"
    using example_window_expands by blast
  from window_reader_cannot_influence_expansion [OF run] run show ?thesis
    by (auto simp: same_article_and_revision_def example_window_request_def example_projection_def
        example_candidate_def)
qed

end
