(* ===== verification/Timedelta.thy ===== *)
theory Timedelta
  imports Pyval
begin

text \<open>
  Durations and the arithmetic of aware datetimes: \<open>timedelta\<close> values are integers in
  microseconds, \<open>+\<close> goes through the proleptic Gregorian ordinal and overflows outside of the
  years 1 to 9999, and \<open>isoformat()\<close> without a \<open>timespec\<close> leaves out zero microseconds.
\<close>

section \<open>Ordinals\<close>

function month_from :: "nat \<Rightarrow> int \<Rightarrow> nat \<Rightarrow> nat" where
  "month_from y r m = (if 12 \<le> m \<or> r < days_before_month y (Suc m) then m else month_from y r (Suc m))"
  by pat_completeness auto
termination by (relation "measure (\<lambda>(y, r, m). 12 - m)") auto

declare month_from.simps [simp del]

definition ord2ymd :: "int \<Rightarrow> nat \<times> nat \<times> nat" where
  "ord2ymd n =
     (let a = (n - 1) div 146097; r = (n - 1) mod 146097;
          b = r div 36524; r1 = r mod 36524;
          c = r1 div 1461; r2 = r1 mod 1461;
          d = r2 div 365; r3 = r2 mod 365;
          y = nat (400 * a + 100 * b + 4 * c + d + 1)
      in if d = 4 \<or> b = 4 then (y - 1, 12, 31)
         else let m = month_from y r3 1 in (y, m, nat (r3 - days_before_month y m + 1)))"

lemma days_before_month_one [simp]: "days_before_month y (Suc 0) = 0"
  by (simp add: days_before_month_def)

lemma days_before_month_Suc: "1 \<le> m \<Longrightarrow> days_before_month y (Suc m) = days_before_month y m + int (days_in_month y m)"
  by (simp add: days_before_month_def)

lemma month_from_le: "days_before_month y m \<le> r \<Longrightarrow> days_before_month y (month_from y r m) \<le> r"
  by (induction y r m rule: month_from.induct) (simp add: month_from.simps)

lemma month_from_bounds: "m \<le> 12 \<Longrightarrow> m \<le> month_from y r m \<and> month_from y r m \<le> 12"
proof (induction y r m rule: month_from.induct)
  case (1 y r m)
  then show ?case by (subst (1 2) month_from.simps) (auto simp: not_le)
qed

lemma month_from_less:
  "m \<le> 12 \<Longrightarrow> r < days_before_month y 13 \<Longrightarrow> r < days_before_month y (Suc (month_from y r m))"
proof (induction y r m rule: month_from.induct)
  case (1 y r m)
  show ?case
  proof (cases "12 \<le> m \<or> r < days_before_month y (Suc m)")
    case True
    moreover have "m = 12" if "12 \<le> m" using that "1.prems"(1) by simp
    ultimately show ?thesis using "1.prems" by (subst month_from.simps) auto
  next
    case False
    with "1.IH" "1.prems" show ?thesis by (subst month_from.simps) auto
  qed
qed

lemma days_of_year: "days_before_month y 13 = (if is_leap y then 366 else 365)"
  by (simp add: days_before_month_def upt_rec days_in_month_def)

lemma days_before_cycle:
  assumes "0 \<le> b" "b \<le> 3" "0 \<le> c" "c \<le> 24" "0 \<le> d" "d \<le> 3" "int y = 400 * a + 100 * b + 4 * c + d + 1"
  shows "days_before_year y = 146097 * a + 36524 * b + 1461 * c + 365 * d"
proof -
  have y: "int y - 1 = 400 * a + 100 * b + 4 * c + d" using assms(7) by simp
  have "(400 * a + 100 * b + 4 * c + d) div 4 = 100 * a + 25 * b + c"
    by (rule int_div_pos_eq [of _ _ _ d]) (use assms in simp_all)
  moreover have "(400 * a + 100 * b + 4 * c + d) div 100 = 4 * a + b"
    by (rule int_div_pos_eq [of _ _ _ "4 * c + d"]) (use assms in simp_all)
  moreover have "(400 * a + 100 * b + 4 * c + d) div 400 = a"
    by (rule int_div_pos_eq [of _ _ _ "100 * b + 4 * c + d"]) (use assms in simp_all)
  ultimately show ?thesis by (simp add: days_before_year_def y Let_def)
qed

lemma ord2ymd_cases:
  assumes "1 \<le> n" "ord2ymd n = (y, m, d)"
  obtains (leap_end) "is_leap y" "m = 12" "d = 31" "n = days_before_year y + 366" "1 \<le> y"
    | (inside) r where "0 \<le> r" "r < 365" "m = month_from y r 1" "d = nat (r - days_before_month y m + 1)"
      "n = days_before_year y + r + 1" "1 \<le> y"
proof -
  define a r b r1 c r2 e r3 where
    parts: "a = (n - 1) div 146097" "r = (n - 1) mod 146097" "b = r div 36524" "r1 = r mod 36524"
    "c = r1 div 1461" "r2 = r1 mod 1461" "e = r2 div 365" "r3 = r2 mod 365"
  have eqs: "n - 1 = 146097 * a + r" "r = 36524 * b + r1" "r1 = 1461 * c + r2" "r2 = 365 * e + r3"
    unfolding parts by simp_all
  have rems: "0 \<le> r" "r < 146097" "0 \<le> r1" "r1 < 36524" "0 \<le> r2" "r2 < 1461" "0 \<le> r3" "r3 < 365"
    unfolding parts by simp_all
  have n: "n - 1 = 146097 * a + 36524 * b + 1461 * c + 365 * e + r3"
    using eqs by simp
  have "0 \<le> a" unfolding parts using assms(1) by (simp add: pos_imp_zdiv_nonneg_iff)
  then have bounds: "0 \<le> a" "0 \<le> b" "b \<le> 4" "0 \<le> c" "c \<le> 24" "0 \<le> e" "e \<le> 4" "0 \<le> r3"
    using eqs rems by linarith+
  have last: "b = 4 \<Longrightarrow> c = 0 \<and> e = 0 \<and> r3 = 0" "e = 4 \<Longrightarrow> r3 = 0" "e = 4 \<Longrightarrow> c \<le> 23"
    using eqs rems bounds by linarith+
  define Y where "Y = nat (400 * a + 100 * b + 4 * c + e + 1)"
  have Y: "int Y = 400 * a + 100 * b + 4 * c + e + 1" using bounds by (simp add: Y_def)
  consider "b = 4" | "b \<le> 3" "e = 4" | "b \<le> 3" "e \<le> 3" using bounds by linarith
  then show thesis
  proof cases
    case 1
    with last(1) have z: "c = 0" "e = 0" "r3 = 0" by auto
    from assms(2) 1 have ymd: "y = Y - 1" "m = 12" "d = 31"
      by (simp_all add: ord2ymd_def Let_def parts [symmetric] Y_def)
    have y: "int y = 400 * a + 100 * 3 + 4 * 24 + 3 + 1" using Y 1 z ymd(1) bounds(1) by linarith
    then have "y = 400 * (nat a + 1)" using bounds(1) by simp
    then have "is_leap y" by (simp add: is_leap_def)
    with ymd y n z 1 bounds(1) show ?thesis
      using days_before_cycle [of 3 24 3 y a] by (intro leap_end) simp_all
  next
    case 2
    with assms(2) have ymd: "y = Y - 1" "m = 12" "d = 31"
      by (simp_all add: ord2ymd_def Let_def parts [symmetric] Y_def)
    have y: "int y = 400 * a + 100 * b + 4 * c + 3 + 1" using Y 2 ymd(1) bounds by linarith
    then have "y = 100 * (4 * nat a + nat b) + 4 * (nat c + 1)" using bounds by simp
    moreover have "4 * (nat c + 1) < 100" "4 * (nat c + 1) > 0" using last(3) [OF 2(2)] by simp_all
    ultimately have "y mod 100 = 4 * (nat c + 1)" by (metis mod_mult_self4 mod_less)
    moreover have "y = 4 * (25 * (4 * nat a + nat b) + (nat c + 1))"
      using \<open>y = 100 * (4 * nat a + nat b) + 4 * (nat c + 1)\<close> by simp
    then have "y mod 4 = 0" by (metis mod_mult_self1_is_0)
    ultimately have "y mod 100 \<noteq> 0" "y mod 4 = 0" by simp_all
    then have "is_leap y" by (simp add: is_leap_def)
    with ymd y n 2 last(2) [OF 2(2)] bounds show ?thesis
      using days_before_cycle [of b c 3 y a] by (intro leap_end) simp_all
  next
    case 3
    with assms(2) have ymd: "y = Y" "m = month_from Y r3 1" "d = nat (r3 - days_before_month Y m + 1)"
      by (auto simp add: ord2ymd_def Let_def parts [symmetric] Y_def)
    with Y n 3 bounds rems days_before_cycle [of b c e Y a] show ?thesis
      by (intro inside [of r3]) simp_all
  qed
qed

lemma toordinal_ord2ymd:
  assumes "1 \<le> n" "ord2ymd n = (y, m, d)"
  shows "days_before_year y + days_before_month y m + int d = n"
  using assms
proof (cases rule: ord2ymd_cases)
  case leap_end
  then show ?thesis
    using days_of_year [of y] days_before_month_Suc [of 12 y] by (simp add: days_in_month_def)
next
  case (inside r)
  then have "days_before_month y m \<le> r" by (simp add: month_from_le)
  with inside show ?thesis by simp
qed

lemma ord2ymd_valid:
  assumes "1 \<le> n" "ord2ymd n = (y, m, d)"
  shows "1 \<le> y \<and> 1 \<le> m \<and> m \<le> 12 \<and> 1 \<le> d \<and> d \<le> days_in_month y m"
  using assms
proof (cases rule: ord2ymd_cases)
  case (inside r)
  have m: "1 \<le> m" "m \<le> 12" using month_from_bounds [of 1 y r] inside(3) by simp_all
  have "days_before_month y m \<le> r" using inside by (simp add: month_from_le)
  moreover have "r < days_before_month y 13" using inside(2) by (simp add: days_of_year)
  with inside(3) have "r < days_before_month y (Suc m)" by (simp add: month_from_less)
  with m have "r < days_before_month y m + int (days_in_month y m)" by (simp add: days_before_month_Suc)
  ultimately show ?thesis unfolding inside(4) using inside(6) m by linarith
qed (simp add: days_in_month_def)

section \<open>Arithmetic\<close>

text \<open>A duration in microseconds; \<open>timedelta(seconds=n)\<close> holds at most 999999999 days.\<close>

definition timedelta_seconds :: "int \<Rightarrow> int res" where
  "timedelta_seconds n = (if \<bar>n div 86400\<bar> > 999999999 then Inl OverflowError else Inr (n * 1000000))"

definition ordinal_of_us :: "int \<Rightarrow> int" where
  "ordinal_of_us us = us div 86400000000"

definition from_local_us :: "int option \<Rightarrow> int \<Rightarrow> datetime" where
  "from_local_us off us =
     (case ord2ymd (ordinal_of_us us) of (y, m, d) \<Rightarrow>
        let t = us mod 86400000000 in
        \<lparr>year = y, month = m, day = d, hour = nat (t div 3600000000), minute = nat (t div 60000000 mod 60),
         second = nat (t div 1000000 mod 60), microsecond = nat (t mod 1000000), utc_offset = off\<rparr>)"

text \<open>The ordinal of 9999-12-31.\<close>

definition MAXORDINAL :: int where
  "MAXORDINAL = 3652059"

definition dt_add :: "datetime \<Rightarrow> int \<Rightarrow> datetime res" where
  "dt_add d us =
     (let t = local_us d + us in
      if 1 \<le> ordinal_of_us t \<and> ordinal_of_us t \<le> MAXORDINAL
      then Inr (from_local_us (utc_offset d) t) else Inl OverflowError)"

text \<open>\<open>a - b\<close>, \<open>a < b\<close> and \<open>a <= b\<close> of aware values.\<close>

definition dt_diff :: "datetime \<Rightarrow> datetime \<Rightarrow> int" where
  "dt_diff a b = instant_us a - instant_us b"

definition dt_less :: "datetime \<Rightarrow> datetime \<Rightarrow> bool" where
  "dt_less a b \<longleftrightarrow> instant_us a < instant_us b"

definition dt_le :: "datetime \<Rightarrow> datetime \<Rightarrow> bool" where
  "dt_le a b \<longleftrightarrow> instant_us a \<le> instant_us b"

lemma time_parts:
  "q * 1000000 + s = t \<Longrightarrow> q' * 60 + m = q \<Longrightarrow> h * 60 + m' = q'
    \<Longrightarrow> h * 3600000000 + m' * 60000000 + m * 1000000 + s = (t :: int)"
  by linarith

lemma local_us_from_local:
  assumes "1 \<le> ordinal_of_us us"
  shows "local_us (from_local_us off us) = us"
proof -
  obtain y m d where ymd: "ord2ymd (ordinal_of_us us) = (y, m, d)" by (cases "ord2ymd (ordinal_of_us us)")
  define t where "t = us mod 86400000000"
  have t: "0 \<le> t" "t < 86400000000" by (simp_all add: t_def)
  have "toordinal (from_local_us off us) = ordinal_of_us us"
    using toordinal_ord2ymd [OF assms ymd] by (simp add: toordinal_def from_local_us_def ymd Let_def)
  moreover have "local_us x = toordinal x * 86400000000 + int (hour x) * 3600000000 + int (minute x) * 60000000
      + int (second x) * 1000000 + int (microsecond x)" for x
    by (simp add: local_us_def algebra_simps)
  moreover have "(t div 3600000000) * 3600000000 + (t div 60000000 mod 60) * 60000000 + (t div 1000000 mod 60) * 1000000
      + t mod 1000000 = t"
  proof -
    define q q' where "q = t div 1000000" and "q' = q div 60"
    have "t div 60000000 = q'" "t div 3600000000 = q' div 60"
      by (simp_all add: q_def q'_def zdiv_zmult2_eq [symmetric])
    moreover have "q * 1000000 + t mod 1000000 = t" "q' * 60 + q mod 60 = q" "q' div 60 * 60 + q' mod 60 = q'"
      by (simp_all add: q_def q'_def)
    ultimately show ?thesis unfolding q_def [symmetric] by (simp only: time_parts)
  qed
  moreover have "us = ordinal_of_us us * 86400000000 + t"
    by (simp add: ordinal_of_us_def t_def)
  moreover have "int (hour (from_local_us off us)) = t div 3600000000"
    "int (minute (from_local_us off us)) = t div 60000000 mod 60"
    "int (second (from_local_us off us)) = t div 1000000 mod 60"
    "int (microsecond (from_local_us off us)) = t mod 1000000"
    using t(1) by (simp_all add: from_local_us_def ymd Let_def t_def [symmetric] pos_imp_zdiv_nonneg_iff)
  ultimately show ?thesis by (simp only: add.assoc)
qed

lemma dt_add_diff: "dt_add d us = Inr e \<Longrightarrow> dt_diff e d = us \<and> utc_offset e = utc_offset d"
proof -
  assume "dt_add d us = Inr e"
  then have "1 \<le> ordinal_of_us (local_us d + us)" and e: "e = from_local_us (utc_offset d) (local_us d + us)"
    by (auto simp: dt_add_def Let_def split: if_splits)
  from local_us_from_local [OF this(1)] e have "local_us e = local_us d + us" by simp
  moreover have "utc_offset e = utc_offset d" by (simp add: e from_local_us_def Let_def split: prod.splits)
  ultimately show ?thesis by (simp add: dt_diff_def instant_us_def)
qed

lemma days_before_year_mono:
  assumes "y \<le> z"
  shows "days_before_year y \<le> days_before_year z"
  using assms
proof (induction z rule: dec_induct)
  case (step z)
  let ?p = "int z - 1"
  have "?p div 4 \<le> (?p + 1) div 4" "?p div 400 \<le> (?p + 1) div 400" by (simp_all add: zdiv_mono1)
  moreover have "(?p + 1) div 100 \<le> (?p + 100) div 100" by (rule zdiv_mono1) simp_all
  then have "(?p + 1) div 100 \<le> ?p div 100 + 1" by simp
  ultimately have "days_before_year z \<le> days_before_year (Suc z)"
    unfolding days_before_year_def Let_def by (simp add: algebra_simps)
  with step.IH show ?case by simp
qed simp

lemma dt_add_valid:
  assumes "dt_add d us = Inr e" "valid_datetime d"
  shows "valid_datetime e"
proof -
  let ?t = "local_us d + us"
  obtain y m dd where ymd: "ord2ymd (ordinal_of_us ?t) = (y, m, dd)" by (cases "ord2ymd (ordinal_of_us ?t)")
  from assms(1) have ord: "1 \<le> ordinal_of_us ?t" "ordinal_of_us ?t \<le> MAXORDINAL"
    and e: "e = from_local_us (utc_offset d) ?t"
    by (auto simp: dt_add_def Let_def split: if_splits)
  have "y \<le> 9999"
  proof (rule ccontr)
    assume "\<not> y \<le> 9999"
    then have "days_before_year 10000 \<le> days_before_year y" by (intro days_before_year_mono) auto
    moreover have "days_before_year 10000 = 3652059" by (simp add: days_before_year_def)
    moreover have "0 \<le> days_before_month y m" unfolding days_before_month_def by (rule sum_list_nonneg) auto
    ultimately
    show False
      using toordinal_ord2ymd [OF ord(1) ymd] ord(2) ord2ymd_valid [OF ord(1) ymd] by (simp add: MAXORDINAL_def)
  qed
  moreover have "?t mod 86400000000 div 3600000000 \<le> 86399999999 div 3600000000"
    by (rule zdiv_mono1) simp_all
  ultimately show ?thesis
    using assms(2) ord2ymd_valid [OF ord(1) ymd]
    by (simp add: e from_local_us_def ymd Let_def valid_datetime_def nat_less_iff)
qed

section \<open>\<open>isoformat()\<close>\<close>

definition isoformat :: "datetime \<Rightarrow> str" where
  "isoformat d =
     dec_pad 4 (year d) @ u ''-'' @ dec_pad 2 (month d) @ u ''-'' @ dec_pad 2 (day d) @ u ''T''
     @ dec_pad 2 (hour d) @ u '':'' @ dec_pad 2 (minute d) @ u '':'' @ dec_pad 2 (second d)
     @ (if microsecond d = 0 then [] else u ''.'' @ dec_pad 6 (microsecond d))
     @ (case utc_offset d of None \<Rightarrow> [] | Some off \<Rightarrow> iso_offset off)"

end
