(* ===== verification/Package.thy ===== *)
theory Package
  imports Kernel Release Timedelta "HOL-Library.Countable"
begin

text \<open>
  The deliverable: \<open>ContextPackage\<close> and its contract (\<open>src/engine/runtime/contracts.py\<close>), its canonical
  digest (\<open>src/context_engine_contracts/__init__.py\<close>) and the keyed digest of a query
  (\<open>src/engine/runtime/package_digest.py\<close>). \<open>canon\<close> is the text of the RFC 8785 serialiser, as in the
  release lineage. A package is a typed record that \<open>ContextPackage_post_init\<close> checks and
  completes, so the tests of exact scalar types are discharged by typing.
\<close>

section \<open>Canonical JSON\<close>

definition require_unicode_scalars :: "str \<Rightarrow> str res" where
  "require_unicode_scalars s = (if list_ex is_surrogate s then Inl ValueError else Inr s)"

text \<open>\<open>float(integer)\<close> and the comparison \<open>int(binary64) != integer\<close>.\<close>

definition json_int :: "int \<Rightarrow> json res" where
  "json_int i =
     (if - (2 ^ 53) < i \<and> i < 2 ^ 53 then Inr (JInt i)
      else case round64 (of_int i) of
             Fin r \<Rightarrow> if r \<noteq> of_int i then Inl ValueError else Inr (JFloat (Fin r))
           | _ \<Rightarrow> Inl ValueError)"

text \<open>\<open>_json_value\<close>; the values of the model are trees, so the test for cycles never fires.\<close>

fun json_value :: "json \<Rightarrow> json res"
  and json_values :: "json list \<Rightarrow> json list res"
  and json_items :: "(str \<times> json) list \<Rightarrow> (str \<times> json) list res"
where
  "json_value JNull = Inr JNull"
| "json_value (JBool b) = Inr (JBool b)"
| "json_value (JFloat f) = Inr (JFloat f)"
| "json_value (JInt i) = json_int i"
| "json_value (JStr s) = bnd (require_unicode_scalars s) (\<lambda>s. Inr (JStr s))"
| "json_value (JArr vs) = bnd (json_values vs) (\<lambda>vs. Inr (JArr vs))"
| "json_value (JObj kvs) = bnd (json_items kvs) (\<lambda>kvs. Inr (JObj kvs))"
| "json_values [] = Inr []"
| "json_values (v # vs) = bnd (json_value v) (\<lambda>v'. bnd (json_values vs) (\<lambda>vs'. Inr (v' # vs')))"
| "json_items [] = Inr []"
| "json_items ((k, v) # kvs) =
     bnd (require_unicode_scalars k) (\<lambda>k.
       if k = u ''packageDigest'' then Inl ValueError
       else bnd (json_value v) (\<lambda>v'. bnd (json_items kvs) (\<lambda>kvs'. Inr ((k, v') # kvs'))))"

definition canonicalize_context_package :: "(json \<Rightarrow> str) \<Rightarrow> json \<Rightarrow> bytes res" where
  "canonicalize_context_package canon document =
     (case document of
        JObj _ \<Rightarrow> bnd (json_value document) (\<lambda>j. Inr (utf8_surrogatepass (canon j)))
      | _ \<Rightarrow> Inl TypeError)"

definition context_package_digest :: "(json \<Rightarrow> str) \<Rightarrow> json \<Rightarrow> str res" where
  "context_package_digest canon document =
     bnd (canonicalize_context_package canon document) (\<lambda>bs. Inr (sha256_hexdigest bs))"

definition verify_context_package_digest :: "(json \<Rightarrow> str) \<Rightarrow> json \<Rightarrow> json option \<Rightarrow> bool res" where
  "verify_context_package_digest canon document expected =
     (case expected of
        Some (JStr e) \<Rightarrow>
          if \<not> is_sha256_hex e then Inr False
          else bnd (context_package_digest canon document) (\<lambda>d. Inr (d = e))
      | _ \<Rightarrow> Inr False)"

definition verify_context_package_public_document :: "(json \<Rightarrow> str) \<Rightarrow> json \<Rightarrow> bool" where
  "verify_context_package_public_document canon document =
     (case document of
        JObj kvs \<Rightarrow>
          (case verify_context_package_digest canon
                  (JObj (filter (\<lambda>(k, v). k \<noteq> u ''packageDigest'') kvs)) (map_of kvs (u ''packageDigest'')) of
             Inl e \<Rightarrow> False | Inr b \<Rightarrow> b)
      | _ \<Rightarrow> False)"

section \<open>The package contract\<close>

datatype CoverageStatus = EMPTY | SUFFICIENT

record Coverage =
  cv_status :: CoverageStatus
  cv_reason :: "CoverageReason option"

definition Coverage_init :: "CoverageStatus \<Rightarrow> CoverageReason option \<Rightarrow> Coverage res" where
  "Coverage_init status reason =
     (if status = EMPTY \<and> reason \<noteq> Some NO_AUTHORIZED_EVIDENCE then Inl ValueError
      else if status = SUFFICIENT \<and> reason \<noteq> None then Inl ValueError
      else Inr \<lparr>cv_status = status, cv_reason = reason\<rparr>)"

record ContextPackage =
  cp_package_id :: str
  cp_purpose :: str
  cp_audience_digest :: str
  cp_policy_epoch :: int
  cp_policy_snapshot_ref :: str
  cp_run_ref :: str
  cp_release_manifest_ref :: str
  cp_retention_policy_ref :: str
  cp_tokenizer_ref :: str
  cp_package_schema_ref :: str
  cp_ttl_seconds :: int
  cp_as_of :: datetime
  cp_expires_at :: datetime
  cp_decision_ref :: str
  cp_package_digest :: str
  cp_blocks :: "PackageBlock list"
  cp_evidence :: "Evidence list"
  cp_gaps :: "pyval list"
  cp_budget_usage :: BudgetUsage
  cp_coverage :: Coverage
  cp_tokenizer_profile_digest :: str

text \<open>\<open>str.replace\<close> for a nonempty pattern, and \<open>str.removeprefix\<close>.\<close>

function str_replace :: "str \<Rightarrow> str \<Rightarrow> str \<Rightarrow> str" where
  "str_replace old new s =
     (if s = [] \<or> old = [] then s
      else if str_startswith s old then new @ str_replace old new (drop (length old) s)
      else hd s # str_replace old new (tl s))"
  by pat_completeness auto
termination by (relation "measure (\<lambda>(old, new, s). length s)") auto

declare str_replace.simps [simp del]

definition removeprefix :: "str \<Rightarrow> str \<Rightarrow> str" where
  "removeprefix s p = (if str_startswith s p then drop (length p) s else s)"

definition wire_datetime :: "datetime \<Rightarrow> str" where
  "wire_datetime d = str_replace (u ''+00:00'') (u ''Z'') (isoformat d)"

fun coverage_status_value :: "CoverageStatus \<Rightarrow> str" where
  "coverage_status_value EMPTY = u ''empty''"
| "coverage_status_value SUFFICIENT = u ''sufficient''"

fun coverage_reason_value :: "CoverageReason \<Rightarrow> str" where
  "coverage_reason_value NO_AUTHORIZED_EVIDENCE = u ''no_authorized_evidence''"

definition block_document :: "PackageBlock \<Rightarrow> json" where
  "block_document b = JObj
     [(u ''blockId'', JStr (u ''block_'' @ removeprefix (pb_evidence_ref b) (u ''ev_''))),
      (u ''text'', JStr (pb_body b)),
      (u ''evidenceRefs'', JArr [JStr (pb_evidence_ref b)])]"

definition evidence_document :: "Evidence \<Rightarrow> json" where
  "evidence_document e =
     (let l = ev_lineage e in JObj
      [(u ''evidenceRef'', JStr (ev_evidence_ref e)),
       (u ''sourceRef'', JStr (ev_source_ref e)),
       (u ''resourceRef'', JStr (ev_resource_ref e)),
       (u ''revisionRef'', JStr (ev_revision_ref e)),
       (u ''fragmentRef'', JStr (ev_fragment_ref e)),
       (u ''projectedFields'', JArr (map JStr (ev_projected_field_refs e))),
       (u ''citationOpenRef'', case ev_citation_open_ref e of None \<Rightarrow> JNull | Some c \<Rightarrow> JStr (citation_value c)),
       (u ''runRef'', JStr (el_run_ref l)),
       (u ''purpose'', JStr (el_purpose l)),
       (u ''authorizationAsOf'', JStr (wire_datetime (el_as_of l))),
       (u ''decisionRef'', JStr (el_decision_ref l)),
       (u ''policySnapshotRef'', JStr (el_policy_snapshot_ref l)),
       (u ''policyEpoch'', JInt (el_policy_epoch l)),
       (u ''sourceAclEvidence'', JObj
          [(u ''kind'', JStr (u ''mirrored'')),
           (u ''projectionRef'', JStr (el_source_acl_projection_ref l)),
           (u ''aclAsOf'', JStr (wire_datetime (el_source_acl_as_of l))),
           (u ''freshnessProfileRef'', JStr (el_source_acl_freshness_profile_ref l))])])"

text \<open>
  \<open>context_package_digest_document\<close>; every Evidence document already has its
  \<open>citationOpenRef\<close>, so completing the nullable fields only adds \<open>continuation\<close>.
\<close>

definition context_package_digest_document :: "ContextPackage \<Rightarrow> json" where
  "context_package_digest_document p = JObj
     ([(u ''packageId'', JStr (cp_package_id p)),
       (u ''purpose'', JStr (cp_purpose p)),
       (u ''audienceDigest'', JStr (cp_audience_digest p)),
       (u ''policyEpoch'', JInt (cp_policy_epoch p)),
       (u ''policySnapshotRef'', JStr (cp_policy_snapshot_ref p)),
       (u ''runRef'', JStr (cp_run_ref p)),
       (u ''releaseManifestRef'', JStr (cp_release_manifest_ref p)),
       (u ''retentionPolicyRef'', JStr (cp_retention_policy_ref p)),
       (u ''ttlSeconds'', JInt (cp_ttl_seconds p)),
       (u ''asOf'', JStr (wire_datetime (cp_as_of p))),
       (u ''expiresAt'', JStr (wire_datetime (cp_expires_at p))),
       (u ''decisionRef'', JStr (cp_decision_ref p)),
       (u ''tokenizerRef'', JStr (cp_tokenizer_ref p)),
       (u ''packageSchemaRef'', JStr (cp_package_schema_ref p)),
       (u ''blocks'', JArr (map block_document (cp_blocks p))),
       (u ''evidence'', JArr (map evidence_document (cp_evidence p))),
       (u ''gaps'', JArr []),
       (u ''budgetUsage'', JObj
          [(u ''tokens'', JInt (tokens (cp_budget_usage p))),
           (u ''providerCalls'', JInt (provider_calls (cp_budget_usage p))),
           (u ''costMicrounits'', JInt (cost_microunits (cp_budget_usage p))),
           (u ''elapsedMs'', JInt (elapsed_ms (cp_budget_usage p)))]),
       (u ''coverage'', JObj ((u ''status'', JStr (coverage_status_value (cv_status (cp_coverage p))))
          # (case cv_reason (cp_coverage p) of None \<Rightarrow> []
             | Some r \<Rightarrow> [(u ''reason'', JStr (coverage_reason_value r))])))]
      @ (if cp_package_schema_ref p = PACKAGE_SCHEMA_REF_V1
         then [(u ''tokenizerProfileDigest'', JStr (cp_tokenizer_profile_digest p))] else [])
      @ [(u ''continuation'', JNull)])"

definition json_fields :: "json \<Rightarrow> (str \<times> json) list" where
  "json_fields j = (case j of JObj kvs \<Rightarrow> kvs | _ \<Rightarrow> [])"

definition context_package_public_document :: "ContextPackage \<Rightarrow> json" where
  "context_package_public_document p =
     JObj (json_fields (context_package_digest_document p)
           @ [(u ''packageDigest'', JStr (cp_package_digest p))])"

section \<open>\<open>ContextPackage.__post_init__\<close>\<close>

definition require_package_ref :: "str \<Rightarrow> unit res" where
  "require_package_ref v =
     bnd (require_nonblank (PStr v)) (\<lambda>_.
       if \<not> stripped v \<or> list_ex is_space v then Inl ValueError else Inr ())"

definition check_lifetime :: "ContextPackage \<Rightarrow> unit res" where
  "check_lifetime p =
     (let lifetime = dt_diff (cp_expires_at p) (cp_as_of p) in
      if lifetime \<le> 0 then Inl ValueError
      else if lifetime mod 1000000 \<noteq> 0 then Inl ValueError
      else bnd (timedelta_seconds (cp_ttl_seconds p)) (\<lambda>ttl. if lifetime \<noteq> ttl then Inl ValueError else Inr ()))"

definition is_v1 :: "ContextPackage \<Rightarrow> bool" where
  "is_v1 p \<longleftrightarrow> cp_package_schema_ref p = PACKAGE_SCHEMA_REF_V1"

definition check_tokenizer_lineage :: "(json \<Rightarrow> str) \<Rightarrow> ContextPackage \<Rightarrow> unit res" where
  "check_tokenizer_lineage canon p =
     (if \<not> is_v1 p \<and> cp_tokenizer_profile_digest p \<noteq> HISTORICAL_UTF8_BYTE_TOKENIZER_PROFILE_DIGEST
      then Inl ValueError
      else if is_v1 p
      then (case registered_tokenizer_profile_by_identity canon (cp_tokenizer_ref p)
                   (cp_tokenizer_profile_digest p) of
              Inl TokenizerUnavailable \<Rightarrow> Inl ValueError
            | Inl e \<Rightarrow> Inl e
            | Inr profile \<Rightarrow>
                if profile_ref profile \<noteq> cp_tokenizer_ref p then Inl ValueError else Inr ())
      else Inr ())"

definition check_usage_and_coverage :: "ContextPackage \<Rightarrow> unit res" where
  "check_usage_and_coverage p =
     (let usage = cp_budget_usage p in
      if cp_blocks p \<noteq> [] \<or> cp_evidence p \<noteq> [] then
        if cp_blocks p = [] \<or> cp_evidence p = [] then Inl ValueError
        else if cv_status (cp_coverage p) \<noteq> SUFFICIENT then Inl ValueError
        else
          bnd (mapr (\<lambda>b. utf8_encode (pb_body b)) (cp_blocks p)) (\<lambda>bodies.
            let expected_tokens = (\<Sum>b \<leftarrow> bodies. int (length b)) in
            if \<not> is_v1 p \<and> tokens usage \<noteq> expected_tokens then Inl ValueError
            else if is_v1 p \<and> tokens usage = 0 then Inl ValueError
            else if \<not> is_v1 p \<and> (provider_calls usage \<noteq> 0 \<or> cost_microunits usage \<noteq> 0 \<or> elapsed_ms usage \<noteq> 0)
            then Inl ValueError
            else Inr ())
      else if cv_status (cp_coverage p) \<noteq> EMPTY then Inl ValueError
      else if \<not> is_v1 p \<and> (tokens usage \<noteq> 0 \<or> provider_calls usage \<noteq> 0 \<or> cost_microunits usage \<noteq> 0
                           \<or> elapsed_ms usage \<noteq> 0)
      then Inl ValueError
      else Inr ())"

definition ContextPackage_post_init :: "(json \<Rightarrow> str) \<Rightarrow> ContextPackage \<Rightarrow> ContextPackage res" where
  "ContextPackage_post_init canon p =
     bnd (require_closed_opaque_ref (u ''pkg'') (PStr (cp_package_id p))) (\<lambda>_.
     bnd (require_nonblank (PStr (cp_purpose p))) (\<lambda>_.
     bnd (require_sha256_hex (PStr (cp_audience_digest p))) (\<lambda>_.
       if cp_policy_epoch p < 1 then Inl ValueError else
     bnd (each require_package_ref
            [cp_policy_snapshot_ref p, cp_run_ref p, cp_release_manifest_ref p, cp_retention_policy_ref p,
             cp_tokenizer_ref p, cp_package_schema_ref p]) (\<lambda>_.
     bnd (require_closed_opaque_ref (u ''dec'') (PStr (cp_decision_ref p))) (\<lambda>_.
       if cp_ttl_seconds p \<le> 0 then Inl ValueError else
     bnd (require_utc (PDatetime (cp_as_of p))) (\<lambda>_.
     bnd (require_utc (PDatetime (cp_expires_at p))) (\<lambda>_.
     bnd (check_lifetime p) (\<lambda>_.
       if cp_gaps p \<noteq> [] then Inl ValueError else
     bnd (validate_package_content (cp_blocks p) (cp_evidence p)) (\<lambda>_.
     bnd (require_sha256_hex (PStr (cp_tokenizer_profile_digest p))) (\<lambda>_.
     bnd (check_tokenizer_lineage canon p) (\<lambda>_.
     bnd (check_usage_and_coverage p) (\<lambda>_.
     bnd (context_package_digest canon (context_package_digest_document p)) (\<lambda>digest.
       Inr (p\<lparr>cp_package_digest := digest\<rparr>))))))))))))))"

section \<open>Query digests\<close>

definition QUERY_DIGEST_PROFILE :: str where
  "QUERY_DIGEST_PROFILE = u ''context-query-json-hmac-sha256-v1''"

definition QUERY_DIGEST_DOMAIN :: bytes where
  "QUERY_DIGEST_DOMAIN = ascii ''context-engine.query-digest.v1'' @ [0]"

record QueryDigestKeyring =
  qk_active_version :: int
  qk_keys :: "(int \<times> bytes) list"

definition require_key_version :: "pyval \<Rightarrow> int res" where
  "require_key_version v = require_int_range 1 max_signed64 v"

text \<open>The mapping of keys is a dict: an association list with distinct keys.\<close>

definition QueryDigestKeyring_init :: "pyval \<Rightarrow> (pyval \<times> bytes) list \<Rightarrow> QueryDigestKeyring res" where
  "QueryDigestKeyring_init active_version keys =
     bnd (require_key_version active_version) (\<lambda>version.
       if keys = [] then Inl ValueError else
       bnd (mapr (\<lambda>(v, k). bnd (require_key_version v) (\<lambda>cv. if length k < 32 then Inl ValueError else Inr (cv, k)))
              keys) (\<lambda>copied.
         if version \<notin> set (map fst copied) then Inl ValueError
         else Inr \<lparr>qk_active_version = version, qk_keys = copied\<rparr>))"

definition active_key :: "QueryDigestKeyring \<Rightarrow> bytes res" where
  "active_key k = dict_index (qk_keys k) (qk_active_version k)"

record QueryDigest =
  qd_value :: str
  qd_profile :: str
  qd_key_version :: int

text \<open>\<open>json.dumps(query, ensure_ascii=True)\<close> of one string.\<close>

definition json_char :: "nat \<Rightarrow> str" where
  "json_char c =
     (if c = 34 then [92, 34]
      else if c = 92 then [92, 92]
      else if c = 10 then [92, 110]
      else if c = 13 then [92, 114]
      else if c = 9 then [92, 116]
      else if c = 12 then [92, 102]
      else if c = 8 then [92, 98]
      else if 32 \<le> c \<and> c \<le> 126 then [c]
      else if c < 65536 then [92, 117] @ hex4 c
      else [92, 117] @ hex4 (55296 + (c - 65536) div 1024) @ [92, 117] @ hex4 (56320 + (c - 65536) mod 1024))"

definition json_string :: "str \<Rightarrow> str" where
  "json_string s = [34] @ concat (map json_char s) @ [34]"

definition query_preimage :: "uuid \<Rightarrow> str \<Rightarrow> bytes" where
  "query_preimage organization_id q =
     QUERY_DIGEST_DOMAIN @ uuid_bytes organization_id @ utf8_surrogatepass (json_string q)"

definition QueryDigest_post_init :: "QueryDigest \<Rightarrow> unit res" where
  "QueryDigest_post_init d =
     (if \<not> is_sha256_hex (qd_value d) then Inl ValueError
      else if qd_profile d \<noteq> QUERY_DIGEST_PROFILE then Inl ValueError
      else bnd (require_key_version (PInt (qd_key_version d))) (\<lambda>_. Inr ()))"

definition query_digest :: "QueryDigestKeyring \<Rightarrow> uuid \<Rightarrow> str \<Rightarrow> QueryDigest res" where
  "query_digest keyring organization_id q =
     bnd (active_key keyring) (\<lambda>key.
       let d = \<lparr>qd_value = hmac_hexdigest key (query_preimage organization_id q),
                qd_profile = QUERY_DIGEST_PROFILE, qd_key_version = qk_active_version keyring\<rparr>
       in bnd (QueryDigest_post_init d) (\<lambda>_. Inr d))"

section \<open>Lemmas on canonical documents\<close>

declare require_utc.simps [simp del] require_sha256_hex.simps [simp del] require_nonblank.simps [simp del]
  require_int_range.simps [simp del] require_closed_opaque_ref.simps [simp del]

lemma json_items_keys:
  "json_items kvs = Inr r \<Longrightarrow> map fst r = map fst kvs \<and> u ''packageDigest'' \<notin> fst ` set kvs"
  by (induction kvs arbitrary: r) (force simp: require_unicode_scalars_def split: if_splits)+

lemma digest_document_update [simp]:
  "context_package_digest_document (p\<lparr>cp_package_digest := d\<rparr>) = context_package_digest_document p"
  by (simp add: context_package_digest_document_def)

lemma digest_document_obj: "context_package_digest_document p = JObj (json_fields (context_package_digest_document p))"
  by (simp add: context_package_digest_document_def json_fields_def)

lemma context_package_digest_Inr:
  "context_package_digest canon (JObj kvs) = Inr d \<longleftrightarrow>
     (\<exists>r. json_items kvs = Inr r \<and> d = sha256_hexdigest (utf8_surrogatepass (canon (JObj r))))"
  by (auto simp: context_package_digest_def canonicalize_context_package_def)

lemma post_init_Inr:
  assumes "ContextPackage_post_init canon p = Inr q"
  shows "q = p\<lparr>cp_package_digest := cp_package_digest q\<rparr>"
    "context_package_digest canon (context_package_digest_document p) = Inr (cp_package_digest q)"
    "check_lifetime p = Inr ()" "check_usage_and_coverage p = Inr ()"
    "validate_package_content (cp_blocks p) (cp_evidence p) = Inr ()"
    "is_aware_utc (cp_as_of p)" "is_aware_utc (cp_expires_at p)"
  using assms by (auto simp: ContextPackage_post_init_def validators)

section \<open>Documents up to serialisation\<close>







text \<open>The conversion before serialisation changes nothing up to that equivalence.\<close>

lemma json_values_mapr: "json_values vs = mapr json_value vs"
  by (induction vs) simp_all










section \<open>Properties\<close>

text \<open>
  C30. A published package verifies: the public document of every package that the contract
  accepts passes the check a recipient runs on it, with the digest recomputed from the decoded
  document alone.
\<close>

theorem published_package_verifies:
  assumes "ContextPackage_post_init canon p = Inr q"
  shows "verify_context_package_public_document canon (context_package_public_document q)"
proof -
  let ?kvs = "json_fields (context_package_digest_document p)"
  note init = post_init_Inr [OF assms]
  have doc: "context_package_digest_document q = JObj ?kvs"
    using init(1) digest_document_obj [of p] by (metis digest_document_update)
  from init(2) digest_document_obj [of p] obtain r where
    r: "json_items ?kvs = Inr r" and d: "cp_package_digest q = sha256_hexdigest (utf8_surrogatepass (canon (JObj r)))"
    by (metis context_package_digest_Inr)
  from json_items_keys [OF r] have fresh: "u ''packageDigest'' \<notin> fst ` set ?kvs" by simp
  then have "filter (\<lambda>(k, v). k \<noteq> u ''packageDigest'') ?kvs = ?kvs"
    by (force simp: filter_id_conv)
  moreover from fresh have "map_of (?kvs @ [(u ''packageDigest'', v)]) (u ''packageDigest'') = Some v" for v
    by (simp add: map_add_Some_iff map_of_eq_None_iff)
  moreover have "context_package_digest canon (JObj ?kvs) = Inr (cp_package_digest q)"
    using r d by (simp add: context_package_digest_Inr)
  moreover have "is_sha256_hex (cp_package_digest q)"
    by (simp add: d sha256_hexdigest_shape)
  ultimately show ?thesis
    by (simp add: verify_context_package_public_document_def context_package_public_document_def doc
        verify_context_package_digest_def json_fields_def)
qed





lemma wire_datetime_utc:
  assumes "is_aware_utc d"
  shows "wire_datetime d =
    dec_pad 4 (year d) @ u ''-'' @ dec_pad 2 (month d) @ u ''-'' @ dec_pad 2 (day d) @ u ''T''
     @ dec_pad 2 (hour d) @ u '':'' @ dec_pad 2 (minute d) @ u '':'' @ dec_pad 2 (second d)
     @ (if microsecond d = 0 then [] else u ''.'' @ dec_pad 6 (microsecond d)) @ u ''Z''"
proof -
  let ?p = "dec_pad 4 (year d) @ u ''-'' @ dec_pad 2 (month d) @ u ''-'' @ dec_pad 2 (day d) @ u ''T''
     @ dec_pad 2 (hour d) @ u '':'' @ dec_pad 2 (minute d) @ u '':'' @ dec_pad 2 (second d)
     @ (if microsecond d = 0 then [] else u ''.'' @ dec_pad 6 (microsecond d))"
  have keep: "str_replace (u ''+00:00'') new (p @ u ''+00:00'') = p @ new" if "43 \<notin> set p" for new p
    using that
    by (induction p) (subst str_replace.simps, simp add: str_startswith_def u_def str_replace.simps [of _ _ "[]"])+
  have "43 \<notin> set (dec_pad n v)" for n v
    by (induction n arbitrary: v) auto
  then have p: "43 \<notin> set ?p" by (simp add: u_def)
  have "dec_pad 2 0 = [48, 48]" by (simp add: numeral_2_eq_2)
  then have "iso_offset 0 = u ''+00:00''" by (simp add: iso_offset_def Let_def u_def)
  with assms have i: "isoformat d = ?p @ u ''+00:00''"
    unfolding isoformat_def is_aware_utc_def by (simp del: dec_pad.simps)
  have "wire_datetime d = ?p @ u ''Z''" unfolding wire_datetime_def i by (rule keep [OF p])
  then show ?thesis by (simp del: dec_pad.simps)
qed












text \<open>An empty package, and an injective serialiser.\<close>

definition example_package :: ContextPackage where
  "example_package = \<lparr>cp_package_id = u ''pkg_'' @ replicate 32 48, cp_purpose = u ''ask'',
     cp_audience_digest = replicate 64 48, cp_policy_epoch = 7, cp_policy_snapshot_ref = u ''s'', cp_run_ref = u ''run'',
     cp_release_manifest_ref = u ''rel'', cp_retention_policy_ref = u ''ret'', cp_tokenizer_ref = u ''t'',
     cp_package_schema_ref = PACKAGE_SCHEMA_REF_V0, cp_ttl_seconds = 300, cp_as_of = example_datetime,
     cp_expires_at = example_datetime\<lparr>minute := 5\<rparr>, cp_decision_ref = u ''dec_'' @ replicate 32 48,
     cp_package_digest = [], cp_blocks = [], cp_evidence = [], cp_gaps = [],
     cp_budget_usage = EMPTY_USAGE, cp_coverage = \<lparr>cv_status = EMPTY, cv_reason = Some NO_AUTHORIZED_EVIDENCE\<rparr>,
     cp_tokenizer_profile_digest = HISTORICAL_UTF8_BYTE_TOKENIZER_PROFILE_DIGEST\<rparr>"

instance pyfloat :: countable
  by countable_datatype

instance json :: countable
  by countable_datatype

definition unary_canon :: "json \<Rightarrow> str" where
  "unary_canon j = replicate (to_nat j) 97"


text \<open>Documents that the conversion leaves alone.\<close>

fun json_plain :: "json \<Rightarrow> bool" where
  "json_plain (JStr s) = (\<not> list_ex is_surrogate s)"
| "json_plain (JInt i) = (- (2 ^ 53) < i \<and> i < 2 ^ 53)"
| "json_plain (JArr vs) = list_all json_plain vs"
| "json_plain (JObj kvs) =
     list_all (\<lambda>(k, v). \<not> list_ex is_surrogate k \<and> k \<noteq> u ''packageDigest'' \<and> json_plain v) kvs"
| "json_plain _ = True"

lemma json_value_plain: "json_plain j \<Longrightarrow> json_value j = Inr j"
proof (induction j rule: json_plain.induct)
  case (3 vs)
  then have "mapr json_value vs = Inr vs" by (induction vs) auto
  then show ?case by (simp add: json_values_mapr)
next
  case (4 kvs)
  then have "\<forall>(k, v) \<in> set kvs. \<not> list_ex is_surrogate k \<and> k \<noteq> u ''packageDigest'' \<and> json_value v = Inr v"
    by (fastforce simp: list_all_iff)
  then have "json_items kvs = Inr kvs"
    by (induction kvs) (auto simp: require_unicode_scalars_def)
  then show ?case by simp
qed (auto simp: require_unicode_scalars_def json_int_def)

lemma u_no_surrogate [simp]: "\<not> list_ex is_surrogate (u s)"
proof -
  have "\<not> is_surrogate (of_char c)" for c :: char
    unfolding is_surrogate_def using nat_of_char_less_256 [of c] by linarith
  then show ?thesis by (simp add: u_def list_ex_iff)
qed

lemma u_inject [simp]: "u s = u t \<longleftrightarrow> s = t"
  by (auto simp: u_def inj_map_eq_map inj_def)

lemma replicate_no_surrogate [simp]: "\<not> is_surrogate c \<Longrightarrow> \<not> list_ex is_surrogate (replicate n c)"
  by (simp add: list_ex_iff)

lemma wire_datetime_no_surrogate: "is_aware_utc d \<Longrightarrow> \<not> list_ex is_surrogate (wire_datetime d)"
proof -
  have "\<not> list_ex is_surrogate (dec_pad n v)" for n v
    by (induction n arbitrary: v) (auto simp: is_surrogate_def)
  then show "is_aware_utc d \<Longrightarrow> \<not> list_ex is_surrogate (wire_datetime d)"
    by (simp add: wire_datetime_utc del: dec_pad.simps)
qed

lemma require_package_ref_eq [validators]: "require_package_ref v = Inr x \<longleftrightarrow> unspaced v"
  by (cases v) (auto simp: require_package_ref_def validators blank_iff stripped_def unspaced_def list_ex_iff list_all_iff)

lemma plain_document_digest: "json_plain (JObj kvs) \<Longrightarrow> \<exists>d. context_package_digest canon (JObj kvs) = Inr d"
  by (simp add: context_package_digest_def canonicalize_context_package_def json_value_plain
      del: json_plain.simps json_value.simps)

lemma example_package_accepted: "\<exists>q. ContextPackage_post_init canon example_package = Inr q"
proof -
  have utc: "is_aware_utc example_datetime" "is_aware_utc (example_datetime\<lparr>minute := 5\<rparr>)"
    by (simp_all add: is_aware_utc_def example_datetime_def)
  have "json_plain (context_package_digest_document example_package)"
    by (simp add: context_package_digest_document_def example_package_def EMPTY_USAGE_def
        wire_datetime_no_surrogate utc PACKAGE_SCHEMA_REF_V0_def PACKAGE_SCHEMA_REF_V1_def is_surrogate_def)
  then have digest: "\<exists>d. context_package_digest canon (context_package_digest_document example_package) = Inr d"
    using plain_document_digest digest_document_obj [of example_package] by metis
  have "\<exists>x. require_closed_opaque_ref (u p) (PStr (u p @ u ''_'' @ replicate 32 48)) = Inr x" for p
    by (simp add: require_closed_opaque_ref.simps str_startswith_def is_hex_def is_digit_def list_all_iff)
  from this [of "''pkg''"] this [of "''dec''"]
  have "\<exists>x. require_closed_opaque_ref (u ''pkg'') (PStr (cp_package_id example_package)) = Inr x"
    "\<exists>x. require_closed_opaque_ref (u ''dec'') (PStr (cp_decision_ref example_package)) = Inr x"
    by (simp_all add: u_def example_package_def)
  moreover have "\<not> blank (cp_purpose example_package)" "is_sha256_hex (cp_audience_digest example_package)"
    "is_sha256_hex (cp_tokenizer_profile_digest example_package)"
    "list_all unspaced [cp_policy_snapshot_ref example_package, cp_run_ref example_package,
       cp_release_manifest_ref example_package, cp_retention_policy_ref example_package,
       cp_tokenizer_ref example_package, cp_package_schema_ref example_package]"
    by (simp add: example_package_def u_def blank_iff is_space_def)
      (simp add: example_package_def is_sha256_hex_def is_hex_def is_digit_def list_all_iff,
       simp add: example_package_def HISTORICAL_UTF8_BYTE_TOKENIZER_PROFILE_DIGEST_def profile_digest_of_def,
       simp add: example_package_def unspaced_def u_def is_space_def PACKAGE_SCHEMA_REF_V0_def)
  moreover have "cp_policy_epoch example_package = 7" "cp_ttl_seconds example_package = 300"
    "cp_as_of example_package = example_datetime" "cp_expires_at example_package = example_datetime\<lparr>minute := 5\<rparr>"
    "cp_gaps example_package = []" "cp_blocks example_package = []" "cp_evidence example_package = []"
    by (simp_all add: example_package_def)
  moreover have "check_lifetime example_package = Inr ()"
    by (simp add: check_lifetime_def example_package_def dt_diff_def instant_us_def local_us_def toordinal_def
        example_datetime_def timedelta_seconds_def)
  moreover have "check_tokenizer_lineage canon example_package = Inr ()"
    "check_usage_and_coverage example_package = Inr ()" "validate_package_content [] [] = Inr ()"
    by (simp_all add: check_tokenizer_lineage_def check_usage_and_coverage_def is_v1_def example_package_def
        PACKAGE_SCHEMA_REF_V0_def PACKAGE_SCHEMA_REF_V1_def EMPTY_USAGE_def validate_package_content_def Let_def)
  ultimately show ?thesis
    using digest utc by (simp add: ContextPackage_post_init_def validators)
qed


theorem published_package_verifies_witness:
  "\<exists>q. ContextPackage_post_init unary_canon example_package = Inr q
    \<and> verify_context_package_public_document unary_canon (context_package_public_document q)"
  using example_package_accepted [of unary_canon] published_package_verifies by blast

text \<open>The escapes of a JSON string form a prefix code on Unicode scalar values.\<close>

definition unicode_scalar :: "nat \<Rightarrow> bool" where
  "unicode_scalar c \<longleftrightarrow> c < 1114112 \<and> \<not> is_surrogate c"

lemma hex4_inject:
  assumes "c < 65536" "d < 65536"
  shows "hex4 c = hex4 d \<longleftrightarrow> c = d"
proof -
  have split: "n = ((n div 4096 * 16 + n div 256 mod 16) * 16 + n div 16 mod 16) * 16 + n mod 16" for n :: nat
  proof -
    have "n div 256 = n div 16 div 16" "n div 4096 = n div 16 div 16 div 16" by (simp_all add: div_mult2_eq [symmetric])
    then show ?thesis
      using div_mult_mod_eq [of n 16] div_mult_mod_eq [of "n div 16" 16] div_mult_mod_eq [of "n div 16 div 16" 16]
      by simp
  qed
  have "c div 4096 < 16" "d div 4096 < 16" using assms by (simp_all add: less_mult_imp_div_less)
  then have "c div 4096 = d div 4096 \<and> c div 256 mod 16 = d div 256 mod 16 \<and> c div 16 mod 16 = d div 16 mod 16
      \<and> c mod 16 = d mod 16" if "hex4 c = hex4 d"
    using that unfolding hex4_def by (auto intro!: hex_digit_inject)
  then show ?thesis using split [of c] split [of d] by auto
qed

text \<open>The two halves of an astral character.\<close>

lemma surrogate_halves:
  assumes "65536 \<le> c" "c < 1114112"
  shows "is_surrogate (55296 + (c - 65536) div 1024)" "55296 + (c - 65536) div 1024 < 65536"
    "56320 + (c - 65536) mod 1024 < 65536"
proof -
  have "(c - 65536) div 1024 < 1024" using assms by (intro less_mult_imp_div_less) simp
  moreover have "(c - 65536) mod 1024 < 1024" by simp
  ultimately show "is_surrogate (55296 + (c - 65536) div 1024)" "55296 + (c - 65536) div 1024 < 65536"
    "56320 + (c - 65536) mod 1024 < 65536" unfolding is_surrogate_def by linarith+
qed

lemma astral_inject:
  assumes "65536 \<le> c" "65536 \<le> d" "(c - 65536) div 1024 = (d - 65536) div 1024"
    "(c - 65536) mod 1024 = (d - 65536) mod (1024 :: nat)"
  shows "c = d"
proof -
  have "c - 65536 = d - 65536" using assms(3,4) by (metis div_mult_mod_eq)
  with assms(1,2) show ?thesis by simp
qed

lemma json_char_unicode:
  assumes "x < 65536" "json_char x @ r = 92 # 117 # t"
  shows "json_char x = [92, 117] @ hex4 x"
  using assms by (simp add: json_char_def split: if_splits)

lemma json_char_mixed:
  assumes "x < 65536" "\<not> is_surrogate x" "65536 \<le> y" "y < 1114112"
  shows "json_char x @ r \<noteq> json_char y @ s"
proof
  assume eq: "json_char x @ r = json_char y @ s"
  let ?h = "55296 + (y - 65536) div 1024"
  have y: "json_char y = [92, 117] @ hex4 ?h @ [92, 117] @ hex4 (56320 + (y - 65536) mod 1024)"
    using assms(3) by (simp add: json_char_def)
  then have "json_char x = [92, 117] @ hex4 x"
    using eq by (intro json_char_unicode [OF assms(1)]) simp
  with eq y have "hex4 x = hex4 ?h" by simp
  with surrogate_halves [OF assms(3,4)] assms(1,2) show False
    using hex4_inject [of x ?h] by simp
qed

interpretation jsonq: self_delimiting json_char unicode_scalar
proof
  show "json_char x \<noteq> []" for x
    by (simp add: json_char_def)
next
  fix x y and r s :: str
  assume ok: "unicode_scalar x" "unicode_scalar y" and eq: "json_char x @ r = json_char y @ s"
  have "x < 65536 \<longleftrightarrow> y < 65536"
    using json_char_mixed [of x y r s] json_char_mixed [of y x s r] eq ok unfolding unicode_scalar_def
    by (metis not_less)
  then consider "x < 65536" "y < 65536" | "65536 \<le> x" "65536 \<le> y" by linarith
  then show "x = y \<and> r = s"
  proof cases
    case 1
    with eq show ?thesis by (auto simp: json_char_def hex4_inject split: if_splits)
  next
    case 2
    with eq ok surrogate_halves [of x] surrogate_halves [of y] show ?thesis
      by (auto simp: json_char_def hex4_inject unicode_scalar_def intro: astral_inject)
  qed
qed

lemma hex4_code_points: "c < 65536 \<Longrightarrow> list_all code_point (hex4 c)"
proof -
  have "code_point (hex_digit n)" if "n < 16" for n using that by (simp add: hex_digit_def code_point_def)
  then show "c < 65536 \<Longrightarrow> list_all code_point (hex4 c)" by (simp add: hex4_def less_mult_imp_div_less)
qed

lemma json_string_code_points: "list_all unicode_scalar q \<Longrightarrow> list_all code_point (json_string q)"
proof -
  have "list_all code_point (json_char c)" if "unicode_scalar c" for c
  proof (cases "c < 65536")
    case True
    then show ?thesis using hex4_code_points [of c] by (simp add: json_char_def code_point_def)
  next
    case False
    with that have b: "65536 \<le> c" "c < 1114112" by (simp_all add: unicode_scalar_def)
    from surrogate_halves [OF b] have "list_all code_point (hex4 (55296 + (c - 65536) div 1024))"
      "list_all code_point (hex4 (56320 + (c - 65536) mod 1024))" by (simp_all add: hex4_code_points)
    with b show ?thesis by (simp add: json_char_def code_point_def)
  qed
  then show "list_all unicode_scalar q \<Longrightarrow> list_all code_point (json_string q)"
    by (auto simp: json_string_def list_all_iff code_point_def)
qed

lemma query_preimage_inject:
  assumes "query_preimage org q = query_preimage org' q'" "list_all unicode_scalar q" "list_all unicode_scalar q'"
  shows "org = org' \<and> q = q'"
proof -
  from assms(1) have "uuid_bytes org = uuid_bytes org'"
    "utf8_surrogatepass (json_string q) = utf8_surrogatepass (json_string q')"
    by (simp_all add: query_preimage_def append_eq_append_conv)
  then have "org = org'" "json_string q = json_string q'"
    using utf8_surrogatepass_inject json_string_code_points assms(2,3) by (auto simp: uuid_bytes_inject)
  then show ?thesis using jsonq.concat_inject [OF assms(2,3)] by (simp add: json_string_def)
qed

lemma query_digest_returns:
  assumes "QueryDigestKeyring_init version keys = Inr keyring"
  obtains key where "\<forall>org q. query_digest keyring org q
      = Inr \<lparr>qd_value = hmac_hexdigest key (query_preimage org q), qd_profile = QUERY_DIGEST_PROFILE,
             qd_key_version = qk_active_version keyring\<rparr>"
    "version = PInt (qk_active_version keyring)" "active_key keyring = Inr key"
proof -
  from assms have v: "version = PInt (qk_active_version keyring)" "1 \<le> qk_active_version keyring"
    "qk_active_version keyring \<le> max_signed64" "qk_active_version keyring \<in> fst ` set (qk_keys keyring)"
    by (force simp: QueryDigestKeyring_init_def require_key_version_def validators)+
  then obtain key where "active_key keyring = Inr key"
    by (auto simp: active_key_def dict_index_def split: option.splits dest: weak_map_of_SomeI)
  with v that [of key] show ?thesis
    by (simp add: query_digest_def QueryDigest_post_init_def Let_def require_key_version_def validators
        is_sha256_hex_def hmac_hexdigest_hex require_int_range.simps)
qed

text \<open>An HMAC collision of two given messages under the active key.\<close>

definition query_digests_collide :: "QueryDigestKeyring \<Rightarrow> bytes \<Rightarrow> bytes \<Rightarrow> bool" where
  "query_digests_collide keyring m m' \<longleftrightarrow>
     (\<exists>key. active_key keyring = Inr key \<and> m \<noteq> m' \<and> hmac_sha256 key m = hmac_sha256 key m')"

text \<open>
  A query digest binds the Organization and the query: under one keyring, two queries of
  Unicode scalar values have the same digest only if they are equal and asked in the same
  Organization, or their own preimages collide under the active key; the digest never fails on a well-formed keyring and
  carries the version of the active key.
\<close>

theorem query_digest_binds_query:
  assumes "QueryDigestKeyring_init version keys = Inr keyring"
    and "list_all unicode_scalar q" "list_all unicode_scalar q'"
  shows "\<exists>d d'. query_digest keyring org q = Inr d \<and> query_digest keyring org' q' = Inr d'
    \<and> version = PInt (qd_key_version d)
    \<and> (qd_value d = qd_value d' \<longrightarrow> org = org' \<and> q = q'
       \<or> query_digests_collide keyring (query_preimage org q) (query_preimage org' q'))"
proof -
  obtain key where key: "\<forall>org q. query_digest keyring org q
      = Inr \<lparr>qd_value = hmac_hexdigest key (query_preimage org q), qd_profile = QUERY_DIGEST_PROFILE,
             qd_key_version = qk_active_version keyring\<rparr>" "version = PInt (qk_active_version keyring)" "active_key keyring = Inr key"
    by (rule query_digest_returns [OF assms(1)])
  have "org = org' \<and> q = q' \<or> query_digests_collide keyring (query_preimage org q) (query_preimage org' q')"
    if "hmac_hexdigest key (query_preimage org q) = hmac_hexdigest key (query_preimage org' q')"
    using that query_preimage_inject [OF _ assms(2,3)] hex_bytes_inject key(3)
    unfolding hmac_hexdigest_def query_digests_collide_def by blast
  with key show ?thesis by simp
qed

theorem query_digest_binds_query_witness:
  "\<exists>keyring d d'. QueryDigestKeyring_init (PInt 1) [(PInt 1, replicate 32 0)] = Inr keyring
    \<and> query_digest keyring 1 (u ''who'') = Inr d \<and> query_digest keyring 1 [128512] = Inr d' \<and> qd_key_version d = 1"
proof -
  obtain keyring where k: "QueryDigestKeyring_init (PInt 1) [(PInt 1, replicate 32 0)] = Inr keyring"
    by (simp add: QueryDigestKeyring_init_def require_key_version_def require_int_range.simps max_signed64_def)
  have "list_all unicode_scalar (u ''who'')" "list_all unicode_scalar [128512]"
    by (simp_all add: unicode_scalar_def is_surrogate_def u_def)
  from query_digest_binds_query [OF k this, of 1 1] k show ?thesis by auto
qed

text \<open>
  Outside of Unicode scalar values the digest is not injective: a surrogate pair and the
  character it stands for have the same escaped text, so they have the same digest although
  the strings differ.
\<close>

lemma query_digest_confuses_surrogate_pair:
  "query_digest keyring org [55357, 56832] = query_digest keyring org [128512]
   \<and> [55357, 56832] \<noteq> ([128512] :: str)"
  by (simp add: query_digest_def query_preimage_def json_string_def json_char_def)

end
