(* ===== verification/Citation.thy ===== *)
theory Citation
  imports Package
begin

text \<open>
  \<open>src/engine/runtime/citation.py\<close>: opaque locators for the Evidence of a delivered package. A
  locator grants nothing; it names lineage that is authorized again when it is opened. The
  persistence port is what its two methods answer at the moment of the call, and the locator
  itself, drawn at random, is the answer of \<open>reference_factory\<close>.
\<close>

section \<open>Values\<close>

definition CITATION_OPEN_DIGEST_PROFILE :: str where
  "CITATION_OPEN_DIGEST_PROFILE = u ''citation-open-ref-sha256-v1''"

definition CITATION_OPEN_RETENTION_CLASS :: str where
  "CITATION_OPEN_RETENTION_CLASS = u ''restricted_citation_locator_lineage''"

text \<open>\<open>fullmatch(prefix + "_[0-9a-f]{n}", value)\<close>.\<close>

definition hex_ref :: "str \<Rightarrow> nat \<Rightarrow> str \<Rightarrow> bool" where
  "hex_ref p n s \<longleftrightarrow>
     length s = length p + 1 + n \<and> str_startswith s (p @ u ''_'') \<and> list_all is_hex (drop (length p + 1) s)"

definition is_citation_open_ref :: "str \<Rightarrow> bool" where
  "is_citation_open_ref s \<longleftrightarrow> hex_ref (u ''cor'') 64 s"

text \<open>Durations are in microseconds.\<close>

record CitationOpenProfile =
  co_profile_ref :: str
  co_retention_policy_ref :: str
  co_maximum_ttl :: int
  co_retention_period :: int
  co_retention_class :: str

definition CitationOpenProfile_post_init :: "CitationOpenProfile \<Rightarrow> unit res" where
  "CitationOpenProfile_post_init p =
     bnd (require_nonblank (PStr (co_profile_ref p))) (\<lambda>_.
     bnd (require_nonblank (PStr (co_retention_policy_ref p))) (\<lambda>_.
       if co_maximum_ttl p \<le> 0 then Inl ValueError
       else if co_retention_period p < co_maximum_ttl p then Inl ValueError
       else if co_retention_class p \<noteq> CITATION_OPEN_RETENTION_CLASS then Inl ValueError
       else Inr ()))"

definition PRIVATE_FILE_CITATION_OPEN_PROFILE :: CitationOpenProfile where
  "PRIVATE_FILE_CITATION_OPEN_PROFILE = \<lparr>co_profile_ref = u ''private-citation-open-v1'',
     co_retention_policy_ref = u ''citation-locator-retention-v1'', co_maximum_ttl = 10 * 60 * 1000000,
     co_retention_period = 30 * 86400 * 1000000, co_retention_class = CITATION_OPEN_RETENTION_CLASS\<rparr>"

record CitationOpenIssue =
  ci_organization_id :: uuid
  ci_package_ref :: str
  ci_evidence_ref :: str
  ci_resource_ref :: str
  ci_revision_id :: uuid
  ci_fragment_ref :: str
  ci_issued_at :: datetime
  ci_expires_at :: datetime

definition CitationOpenIssue_post_init :: "CitationOpenIssue \<Rightarrow> unit res" where
  "CitationOpenIssue_post_init i =
     (if \<not> hex_ref (u ''pkg'') 32 (ci_package_ref i) then Inl ValueError
      else if \<not> hex_ref (u ''ev'') 64 (ci_evidence_ref i) then Inl ValueError
      else
        bnd (require_nonblank (PStr (ci_resource_ref i))) (\<lambda>_.
        bnd (require_nonblank (PStr (ci_fragment_ref i))) (\<lambda>_.
        bnd (require_utc (PDatetime (ci_issued_at i))) (\<lambda>_.
        bnd (require_utc (PDatetime (ci_expires_at i))) (\<lambda>_.
          if dt_le (ci_expires_at i) (ci_issued_at i) then Inl ValueError else Inr ())))))"

record CitationOpenRedemption =
  cx_citation_open_ref :: CitationOpenRef
  cx_organization_id :: uuid
  cx_opened_at :: datetime

definition CitationOpenRedemption_post_init :: "CitationOpenRedemption \<Rightarrow> unit res" where
  "CitationOpenRedemption_post_init r = bnd (require_utc (PDatetime (cx_opened_at r))) (\<lambda>_. Inr ())"

record CitationOpenTargetLineage =
  cl_package_ref :: str
  cl_evidence_ref :: str

definition CitationOpenTargetLineage_post_init :: "CitationOpenTargetLineage \<Rightarrow> unit res" where
  "CitationOpenTargetLineage_post_init l =
     (if \<not> hex_ref (u ''pkg'') 32 (cl_package_ref l) then Inl ValueError
      else if \<not> hex_ref (u ''ev'') 64 (cl_evidence_ref l) then Inl ValueError
      else Inr ())"

record CitationOpenTarget =
  ct_candidate_ref :: CandidateRef
  ct_lineage :: CitationOpenTargetLineage

section \<open>Operations\<close>

text \<open>\<open>except CitationAuthorityUnavailable: raise\<close>, \<open>except Exception\<close>: every failure becomes one class.\<close>

definition as_citation_authority :: "'a res \<Rightarrow> 'a res" where
  "as_citation_authority r = (case r of Inl e \<Rightarrow> Inl CitationAuthorityUnavailable | Inr x \<Rightarrow> Inr x)"

text \<open>The record a port persists for a locator.\<close>

record citation_write =
  cw_request :: CitationOpenIssue
  cw_locator_digest :: bytes
  cw_digest_profile :: str
  cw_profile :: CitationOpenProfile
  cw_retain_until :: datetime

fun require_issued_reference :: "pyval \<Rightarrow> str res" where
  "require_issued_reference (PStr r) = (if \<not> is_citation_open_ref r then Inl CitationAuthorityUnavailable else Inr r)"
| "require_issued_reference _ = Inl CitationAuthorityUnavailable"

definition issue_citation_open_ref ::
  "scope_heap \<Rightarrow> authority_session \<Rightarrow> (citation_write \<Rightarrow> pyval res) \<Rightarrow> CitationOpenIssue \<Rightarrow> CitationOpenProfile
    \<Rightarrow> pyval res \<Rightarrow> CitationOpenRef res"
where
  "issue_citation_open_ref h session port_issue request profile reference_factory =
     bnd (require_active_citation_open_session h session) (\<lambda>_.
       if dt_diff (ci_expires_at request) (ci_issued_at request) > co_maximum_ttl profile
       then Inl CitationLocatorNotAvailable
       else
         bnd (as_citation_authority reference_factory) (\<lambda>reference.
         bnd (require_issued_reference reference) (\<lambda>r.
         bnd (CitationOpenRef_init (PStr r)) (\<lambda>locator.
         bnd (as_citation_authority
                (bnd (utf8_encode r) (\<lambda>bs.
                 bnd (dt_add (ci_issued_at request) (co_retention_period profile)) (\<lambda>retain_until.
                   port_issue \<lparr>cw_request = request, cw_locator_digest = sha256 bs,
                     cw_digest_profile = CITATION_OPEN_DIGEST_PROFILE, cw_profile = profile,
                     cw_retain_until = retain_until\<rparr>)))) (\<lambda>persisted.
           if persisted \<noteq> PBool True then Inl CitationAuthorityUnavailable else Inr locator)))))"

definition redeem_citation_open_ref ::
  "scope_heap \<Rightarrow> authority_session \<Rightarrow> (CitationOpenRedemption \<Rightarrow> CitationOpenTarget foreign res)
    \<Rightarrow> CitationOpenRedemption \<Rightarrow> CitationOpenTarget res"
where
  "redeem_citation_open_ref h session port_redeem request =
     bnd (require_active_citation_open_session h session) (\<lambda>_.
       if \<not> is_citation_open_ref (citation_value (cx_citation_open_ref request))
       then Inl CitationLocatorNotAvailable
       else case port_redeem request of
         Inl CitationLocatorNotAvailable \<Rightarrow> Inl CitationLocatorNotAvailable
       | Inl _ \<Rightarrow> Inl CitationAuthorityUnavailable
       | Inr WrongType \<Rightarrow> Inl CitationLocatorNotAvailable
       | Inr (Exact target) \<Rightarrow>
           if cr_organization_id (ct_candidate_ref target) \<noteq> cx_organization_id request
           then Inl CitationLocatorNotAvailable
           else Inr target)"

text \<open>\<open>CitationOpenRetention.delete_expired\<close>.\<close>

definition delete_expired :: "(uuid \<Rightarrow> pyval res) \<Rightarrow> pyval \<Rightarrow> int res" where
  "delete_expired port_delete organization_id =
     bnd (require_uuid organization_id) (\<lambda>org.
     bnd (as_citation_authority (port_delete org)) (\<lambda>deleted.
       case deleted of
         PInt n \<Rightarrow> if n < 0 then Inl CitationAuthorityUnavailable else Inr n
       | _ \<Rightarrow> Inl CitationAuthorityUnavailable))"

section \<open>Properties\<close>

lemma require_issued_reference_eq [validators]:
  "require_issued_reference v = Inr r \<longleftrightarrow> v = PStr r \<and> is_citation_open_ref r"
  by (cases v) auto

lemma as_citation_authority_Inr [simp]: "as_citation_authority r = Inr x \<longleftrightarrow> r = Inr x"
  by (auto simp: as_citation_authority_def split: sum.splits)

text \<open>
  C32. A locator is issued only as a durable, bounded record: its value is fresh text of the closed
  format, the port acknowledged a record holding the SHA-256 digest of that value (never the
  value), the locator lives at most as long as the profile allows, and the record is retained
  at least until the locator expires.
\<close>

theorem issued_locator_is_durable:
  assumes "issue_citation_open_ref h session port_issue request profile factory = Inr locator"
    and "CitationOpenProfile_post_init profile = Inr ()"
  shows "\<exists>bs write. factory = Inr (PStr (citation_value locator)) \<and> is_citation_open_ref (citation_value locator)
    \<and> utf8_encode (citation_value locator) = Inr bs \<and> port_issue write = Inr (PBool True)
    \<and> cw_request write = request \<and> cw_locator_digest write = sha256 bs
    \<and> dt_diff (ci_expires_at request) (ci_issued_at request) \<le> co_maximum_ttl profile
    \<and> dt_le (ci_expires_at request) (cw_retain_until write)
    \<and> scope_active CitationAuthorityScope h (ss_scope session)"
proof -
  from assms(1) obtain r bs t where
    act: "scope_active CitationAuthorityScope h (ss_scope session)" and
    ttl: "dt_diff (ci_expires_at request) (ci_issued_at request) \<le> co_maximum_ttl profile" and
    r: "factory = Inr (PStr r)" "is_citation_open_ref r" "CitationOpenRef_init (PStr r) = Inr locator" and
    w: "utf8_encode r = Inr bs" "dt_add (ci_issued_at request) (co_retention_period profile) = Inr t" and
    p: "port_issue \<lparr>cw_request = request, cw_locator_digest = sha256 bs,
          cw_digest_profile = CITATION_OPEN_DIGEST_PROFILE, cw_profile = profile, cw_retain_until = t\<rparr> = Inr (PBool True)"
    by (auto simp: issue_citation_open_ref_def validators split: if_splits)
  have "citation_value locator = r" using r(3) by (auto simp: CitationOpenRef_init_def)
  moreover have "co_maximum_ttl profile \<le> co_retention_period profile"
    using assms(2) by (auto simp: CitationOpenProfile_post_init_def)
  then have "dt_le (ci_expires_at request) t"
    using dt_add_diff [OF w(2)] ttl by (simp add: dt_le_def dt_diff_def)
  ultimately show ?thesis using act ttl r w(1) p by (intro exI [of _ bs] exI) auto
qed


definition example_issue :: CitationOpenIssue where
  "example_issue = \<lparr>ci_organization_id = 1, ci_package_ref = u ''pkg_'' @ replicate 32 48,
     ci_evidence_ref = u ''ev_'' @ replicate 64 48, ci_resource_ref = u ''res'', ci_revision_id = 5,
     ci_fragment_ref = u ''frag'', ci_issued_at = example_datetime, ci_expires_at = example_datetime\<lparr>minute := 5\<rparr>\<rparr>"

definition example_open_ref :: str where
  "example_open_ref = u ''cor_'' @ replicate 64 48"

lemma example_open_ref_ok: "is_citation_open_ref example_open_ref"
  by (simp add: is_citation_open_ref_def hex_ref_def example_open_ref_def str_startswith_def u_def is_hex_def
      is_digit_def list_all_iff)

lemma example_citation_session:
  "require_active_citation_open_session [True] \<lparr>ss_id = 0, ss_scope = example_token CitationAuthorityScope 0,
     ss_port_complete = True\<rparr> = Inr ()"
  by (simp add: validators scope_active_def example_token_def)

theorem issued_locator_is_durable_witness:
  "\<exists>locator. issue_citation_open_ref [True] \<lparr>ss_id = 0, ss_scope = example_token CitationAuthorityScope 0,
       ss_port_complete = True\<rparr> (\<lambda>_. Inr (PBool True)) example_issue PRIVATE_FILE_CITATION_OPEN_PROFILE
       (Inr (PStr example_open_ref)) = Inr locator
     \<and> citation_value locator = example_open_ref"
proof -
  let ?issue = "issue_citation_open_ref [True] \<lparr>ss_id = 0, ss_scope = example_token CitationAuthorityScope 0,
       ss_port_complete = True\<rparr> (\<lambda>_. Inr (PBool True)) example_issue PRIVATE_FILE_CITATION_OPEN_PROFILE
       (Inr (PStr example_open_ref))"
  have plain: "\<not> list_ex is_surrogate example_open_ref" "\<not> list_ex is_space example_open_ref"
    "length example_open_ref = 68" "example_open_ref \<noteq> []"
    by (simp_all add: example_open_ref_def is_surrogate_def u_def is_space_def list_ex_iff)
  obtain t where "dt_add example_datetime (30 * 86400 * 1000000) = Inr t"
    by (simp add: dt_add_def Let_def local_us_def toordinal_def days_before_year_def days_before_month_def
        example_datetime_def ordinal_of_us_def MAXORDINAL_def days_in_month_def is_leap_def upt_rec)
  moreover have "dt_diff (example_datetime\<lparr>minute := 5\<rparr>) example_datetime = 300000000"
    by (simp add: dt_diff_def instant_us_def local_us_def toordinal_def example_datetime_def)
  ultimately have run: "?issue = Inr (CitationOpenRef example_open_ref)"
    using example_citation_session example_open_ref_ok plain
    by (simp add: issue_citation_open_ref_def example_issue_def PRIVATE_FILE_CITATION_OPEN_PROFILE_def
        CitationOpenRef_init_def require_opaque_capability_value.simps MAX_OPAQUE_CAPABILITY_LENGTH_def utf8_encode_def as_citation_authority_def)
  have "CitationOpenProfile_post_init PRIVATE_FILE_CITATION_OPEN_PROFILE = Inr ()"
    by (simp add: CitationOpenProfile_post_init_def PRIVATE_FILE_CITATION_OPEN_PROFILE_def validators u_def blank_iff
        is_space_def)
  from issued_locator_is_durable [OF run this] run show ?thesis by auto
qed

text \<open>
  C33. Opening a locator never crosses Organizations and never reveals why it failed: a redemption
  that returns names a candidate of the opener's own Organization and a locator of the closed
  format; with an active session every other outcome is one of the two closed errors, whatever
  the port answers or raises.
\<close>

theorem redeemed_locator_is_tenant_bound:
  assumes "scope_active CitationAuthorityScope h (ss_scope session)"
  shows "(\<exists>target. redeem_citation_open_ref h session port_redeem request = Inr target
      \<and> cr_organization_id (ct_candidate_ref target) = cx_organization_id request
      \<and> is_citation_open_ref (citation_value (cx_citation_open_ref request))
      \<and> port_redeem request = Inr (Exact target))
    \<or> redeem_citation_open_ref h session port_redeem request = Inl CitationLocatorNotAvailable
    \<or> redeem_citation_open_ref h session port_redeem request = Inl CitationAuthorityUnavailable"
proof -
  have "require_active_citation_open_session h session = Inr ()" using assms by (simp add: validators)
  then show ?thesis
    by (auto simp: redeem_citation_open_ref_def split: sum.splits exn.splits foreign.splits)
qed

theorem redeemed_locator_is_tenant_bound_witness:
  "redeem_citation_open_ref [True] \<lparr>ss_id = 0, ss_scope = example_token CitationAuthorityScope 0, ss_port_complete = True\<rparr>
     (\<lambda>_. Inl OtherException) \<lparr>cx_citation_open_ref = CitationOpenRef example_open_ref, cx_organization_id = 1,
       cx_opened_at = example_datetime\<rparr> \<noteq> Inl OtherException"
proof -
  let ?s = "\<lparr>ss_id = 0, ss_scope = example_token CitationAuthorityScope 0, ss_port_complete = True\<rparr>"
  have "scope_active CitationAuthorityScope [True] (ss_scope ?s)"
    by (simp add: scope_active_def example_token_def)
  from redeemed_locator_is_tenant_bound [OF this, of "\<lambda>_. Inl OtherException"
      "\<lparr>cx_citation_open_ref = CitationOpenRef example_open_ref, cx_organization_id = 1, cx_opened_at = example_datetime\<rparr>"]
  show ?thesis by auto
qed

end
