(* ===== verification/Egress.thy ===== *)
theory Egress
  imports Package
begin

text \<open>
  One-hop egress grants: \<open>src/engine/runtime/egress.py\<close>, the payload digests of
  \<open>src/engine/runtime/egress_payload.py\<close> and the final egress gate of \<open>src/engine/runtime/construction.py\<close>.
  \<open>dumps\<close> is the RFC 8785 serialiser applied to a document that was not converted before, so it
  may raise; the random bearer value is the answer of the reference factory, the persistence
  port is what its method answers.
\<close>

section \<open>Values\<close>

definition MODEL_EGRESS_GRANT_PREFIX :: str where
  "MODEL_EGRESS_GRANT_PREFIX = u ''egrm''"

definition CHANNEL_EGRESS_GRANT_PREFIX :: str where
  "CHANNEL_EGRESS_GRANT_PREFIX = u ''egrc''"

definition EGRESS_GRANT_PROFILE_LINEAGE :: str where
  "EGRESS_GRANT_PROFILE_LINEAGE = u ''egress-grant-v1''"

fun require_opaque_grant :: "str \<Rightarrow> pyval \<Rightarrow> str res" where
  "require_opaque_grant pre (PStr s) =
     (if \<not> str_startswith s (pre @ u ''_'') \<or> length s \<noteq> length pre + 1 + 64 \<or> \<not> list_all is_hex (drop 5 s)
      then Inl ValueError else Inr s)"
| "require_opaque_grant pre _ = Inl ValueError"

definition direct_egress_audience_digest ::
  "(json \<Rightarrow> bytes res) \<Rightarrow> uuid \<Rightarrow> uuid \<Rightarrow> int \<Rightarrow> str \<Rightarrow> str \<Rightarrow> str res"
where
  "direct_egress_audience_digest dumps organization_id membership_id membership_version application_ref binding_ref =
     (if membership_version < 1 then Inl ValueError
      else
        bnd (require_nonblank (PStr application_ref)) (\<lambda>_.
        bnd (require_nonblank (PStr binding_ref)) (\<lambda>_.
        bnd (dumps (JObj
          [(u ''applicationRef'', JStr application_ref),
           (u ''deliveryBindingRef'', JStr binding_ref),
           (u ''membershipId'', JStr (uuid_str membership_id)),
           (u ''membershipVersion'', JInt membership_version),
           (u ''organizationId'', JStr (uuid_str organization_id)),
           (u ''profile'', JStr (u ''direct-egress-audience-rfc8785-sha256-v1''))])) (\<lambda>document.
          Inr (sha256_hexdigest (ascii ''context-engine.direct-egress-audience.v1'' @ [0] @ document))))))"

datatype EgressGrant = ModelEgressGrant (grant_value: str) | ChannelEgressGrant (grant_value: str)

definition grant_digest :: "EgressGrant \<Rightarrow> bytes res" where
  "grant_digest g = bnd (utf8_encode (grant_value g)) (\<lambda>bs. Inr (sha256 bs))"

text \<open>The fields that both external profiles have come first.\<close>

record egress_policy =
  eg_profile_ref :: str
  eg_retention_policy_ref :: str
  eg_sensitivity_policy_ref :: str
  eg_issuer_ref :: str
  eg_consumer_ref :: str
  eg_region_ref :: str
  eg_maximum_ttl :: int

record ModelEgressProfile = egress_policy +
  eg_provider_ref :: str
  eg_model_ref :: str

record ChannelEgressProfile = egress_policy +
  eg_channel_ref :: str
  eg_destination_ref :: str

definition ModelEgressProfile_post_init :: "ModelEgressProfile \<Rightarrow> unit res" where
  "ModelEgressProfile_post_init p =
     bnd (each (\<lambda>v. require_nonblank (PStr v))
       [eg_profile_ref p, eg_retention_policy_ref p, eg_sensitivity_policy_ref p, eg_issuer_ref p, eg_consumer_ref p,
        eg_provider_ref p, eg_model_ref p, eg_region_ref p]) (\<lambda>_.
       if eg_maximum_ttl p \<le> 0 then Inl ValueError else Inr ())"

definition ChannelEgressProfile_post_init :: "ChannelEgressProfile \<Rightarrow> unit res" where
  "ChannelEgressProfile_post_init p =
     bnd (each (\<lambda>v. require_nonblank (PStr v))
       [eg_profile_ref p, eg_retention_policy_ref p, eg_sensitivity_policy_ref p, eg_issuer_ref p, eg_consumer_ref p,
        eg_channel_ref p, eg_destination_ref p, eg_region_ref p]) (\<lambda>_.
       if eg_maximum_ttl p \<le> 0 then Inl ValueError else Inr ())"

datatype EgressProfile =
    InternalOnlyEgressProfile
  | ModelProfile ModelEgressProfile
  | ChannelProfile ChannelEgressProfile

text \<open>What an issue and its redemption both bind.\<close>

record egress_binding =
  eb_hop_kind :: str
  eb_organization_id :: uuid
  eb_package_digest :: str
  eb_payload_digest :: str
  eb_purpose :: str
  eb_audience_digest :: str
  eb_policy_epoch :: int
  eb_retention_policy_ref :: str
  eb_sensitivity_policy_ref :: str
  eb_issuer_ref :: str
  eb_consumer_ref :: str
  eb_provider_ref :: "str option"
  eb_model_ref :: "str option"
  eb_channel_ref :: "str option"
  eb_destination_ref :: "str option"
  eb_region_ref :: str
  eb_profile_ref :: str

definition check_binding :: "egress_binding \<Rightarrow> unit res" where
  "check_binding b =
     bnd (require_sha256_hex (PStr (eb_package_digest b))) (\<lambda>_.
     bnd (require_sha256_hex (PStr (eb_payload_digest b))) (\<lambda>_.
     bnd (require_sha256_hex (PStr (eb_audience_digest b))) (\<lambda>_.
       if eb_policy_epoch b < 1 then Inl ValueError
       else
         bnd (each (\<lambda>v. require_nonblank (PStr v))
           [eb_purpose b, eb_retention_policy_ref b, eb_sensitivity_policy_ref b, eb_issuer_ref b, eb_consumer_ref b,
            eb_region_ref b, eb_profile_ref b]) (\<lambda>_. Inr ()))))"

definition check_hop :: "egress_binding \<Rightarrow> unit res" where
  "check_hop b =
     (if eb_hop_kind b = u ''model'' then
        (case (eb_provider_ref b, eb_model_ref b, eb_channel_ref b, eb_destination_ref b) of
           (Some p, Some m, None, None) \<Rightarrow>
             bnd (require_nonblank (PStr p)) (\<lambda>_. bnd (require_nonblank (PStr m)) (\<lambda>_. Inr ()))
         | _ \<Rightarrow> Inl ValueError)
      else if eb_hop_kind b = u ''channel'' then
        (case (eb_channel_ref b, eb_destination_ref b, eb_provider_ref b, eb_model_ref b) of
           (Some c, Some d, None, None) \<Rightarrow>
             bnd (require_nonblank (PStr c)) (\<lambda>_. bnd (require_nonblank (PStr d)) (\<lambda>_. Inr ()))
         | _ \<Rightarrow> Inl ValueError)
      else Inl ValueError)"

record EgressGrantIssue =
  ei_binding :: egress_binding
  ei_issued_at :: datetime
  ei_expires_at :: datetime

text \<open>\<open>EgressGrantIssue.__post_init__\<close>; lineage and category always have their defaults.\<close>

definition EgressGrantIssue_post_init :: "EgressGrantIssue \<Rightarrow> EgressGrantIssue res" where
  "EgressGrantIssue_post_init i =
     bnd (check_binding (ei_binding i)) (\<lambda>_.
     bnd (require_utc (PDatetime (ei_issued_at i))) (\<lambda>_.
     bnd (require_utc (PDatetime (ei_expires_at i))) (\<lambda>_.
       if dt_le (ei_expires_at i) (ei_issued_at i) then Inl ValueError
       else bnd (check_hop (ei_binding i)) (\<lambda>_. Inr i))))"

definition model_binding ::
  "uuid \<Rightarrow> str \<Rightarrow> str \<Rightarrow> str \<Rightarrow> str \<Rightarrow> int \<Rightarrow> ModelEgressProfile \<Rightarrow> egress_binding"
where
  "model_binding organization_id package_digest payload_digest purpose audience_digest policy_epoch p =
     \<lparr>eb_hop_kind = u ''model'', eb_organization_id = organization_id, eb_package_digest = package_digest,
      eb_payload_digest = payload_digest, eb_purpose = purpose, eb_audience_digest = audience_digest,
      eb_policy_epoch = policy_epoch, eb_retention_policy_ref = eg_retention_policy_ref p,
      eb_sensitivity_policy_ref = eg_sensitivity_policy_ref p, eb_issuer_ref = eg_issuer_ref p,
      eb_consumer_ref = eg_consumer_ref p, eb_provider_ref = Some (eg_provider_ref p),
      eb_model_ref = Some (eg_model_ref p), eb_channel_ref = None, eb_destination_ref = None,
      eb_region_ref = eg_region_ref p, eb_profile_ref = eg_profile_ref p\<rparr>"

definition channel_binding ::
  "uuid \<Rightarrow> str \<Rightarrow> str \<Rightarrow> str \<Rightarrow> str \<Rightarrow> int \<Rightarrow> ChannelEgressProfile \<Rightarrow> egress_binding"
where
  "channel_binding organization_id package_digest payload_digest purpose audience_digest policy_epoch p =
     \<lparr>eb_hop_kind = u ''channel'', eb_organization_id = organization_id, eb_package_digest = package_digest,
      eb_payload_digest = payload_digest, eb_purpose = purpose, eb_audience_digest = audience_digest,
      eb_policy_epoch = policy_epoch, eb_retention_policy_ref = eg_retention_policy_ref p,
      eb_sensitivity_policy_ref = eg_sensitivity_policy_ref p, eb_issuer_ref = eg_issuer_ref p,
      eb_consumer_ref = eg_consumer_ref p, eb_provider_ref = None, eb_model_ref = None,
      eb_channel_ref = Some (eg_channel_ref p), eb_destination_ref = Some (eg_destination_ref p),
      eb_region_ref = eg_region_ref p, eb_profile_ref = eg_profile_ref p\<rparr>"

definition issue_for_model ::
  "uuid \<Rightarrow> str \<Rightarrow> str \<Rightarrow> str \<Rightarrow> str \<Rightarrow> int \<Rightarrow> datetime \<Rightarrow> datetime \<Rightarrow> ModelEgressProfile \<Rightarrow> EgressGrantIssue res"
where
  "issue_for_model organization_id package_digest payload_digest purpose audience_digest policy_epoch issued_at
      expires_at profile =
     (if dt_diff expires_at issued_at > eg_maximum_ttl profile then Inl ValueError
      else EgressGrantIssue_post_init
        \<lparr>ei_binding = model_binding organization_id package_digest payload_digest purpose audience_digest policy_epoch
           profile, ei_issued_at = issued_at, ei_expires_at = expires_at\<rparr>)"

definition issue_for_channel ::
  "uuid \<Rightarrow> str \<Rightarrow> str \<Rightarrow> str \<Rightarrow> str \<Rightarrow> int \<Rightarrow> datetime \<Rightarrow> datetime \<Rightarrow> ChannelEgressProfile \<Rightarrow> EgressGrantIssue res"
where
  "issue_for_channel organization_id package_digest payload_digest purpose audience_digest policy_epoch issued_at
      expires_at profile =
     (if dt_diff expires_at issued_at > eg_maximum_ttl profile then Inl ValueError
      else EgressGrantIssue_post_init
        \<lparr>ei_binding = channel_binding organization_id package_digest payload_digest purpose audience_digest policy_epoch
           profile, ei_issued_at = issued_at, ei_expires_at = expires_at\<rparr>)"

record EgressGrantRedemption =
  er_grant_digest :: bytes
  er_binding :: egress_binding

definition EgressGrantRedemption_post_init :: "EgressGrantRedemption \<Rightarrow> EgressGrantRedemption res" where
  "EgressGrantRedemption_post_init r =
     (if length (er_grant_digest r) \<noteq> 32 then Inl ValueError
      else bnd (check_binding (er_binding r)) (\<lambda>_. bnd (check_hop (er_binding r)) (\<lambda>_. Inr r)))"

definition redemption_for_model ::
  "EgressGrant \<Rightarrow> uuid \<Rightarrow> str \<Rightarrow> str \<Rightarrow> str \<Rightarrow> str \<Rightarrow> int \<Rightarrow> ModelEgressProfile \<Rightarrow> EgressGrantRedemption res"
where
  "redemption_for_model grant organization_id package_digest payload_digest purpose audience_digest policy_epoch profile =
     (case grant of
        ModelEgressGrant v \<Rightarrow>
          bnd (grant_digest grant) (\<lambda>d. EgressGrantRedemption_post_init
            \<lparr>er_grant_digest = d, er_binding = model_binding organization_id package_digest payload_digest purpose
               audience_digest policy_epoch profile\<rparr>)
      | ChannelEgressGrant v \<Rightarrow> Inl TypeError)"

definition redemption_for_channel ::
  "EgressGrant \<Rightarrow> uuid \<Rightarrow> str \<Rightarrow> str \<Rightarrow> str \<Rightarrow> str \<Rightarrow> int \<Rightarrow> ChannelEgressProfile \<Rightarrow> EgressGrantRedemption res"
where
  "redemption_for_channel grant organization_id package_digest payload_digest purpose audience_digest policy_epoch
      profile =
     (case grant of
        ChannelEgressGrant v \<Rightarrow>
          bnd (grant_digest grant) (\<lambda>d. EgressGrantRedemption_post_init
            \<lparr>er_grant_digest = d, er_binding = channel_binding organization_id package_digest payload_digest purpose
               audience_digest policy_epoch profile\<rparr>)
      | ModelEgressGrant v \<Rightarrow> Inl TypeError)"

section \<open>Issuance\<close>

definition as_issuance_unavailable :: "'a res \<Rightarrow> 'a res" where
  "as_issuance_unavailable r = (case r of Inl e \<Rightarrow> Inl EgressGrantIssuanceUnavailable | Inr x \<Rightarrow> Inr x)"

definition issue_egress_grant ::
  "scope_heap \<Rightarrow> authority_session \<Rightarrow> (EgressGrantIssue \<Rightarrow> bytes \<Rightarrow> pyval res) \<Rightarrow> (str \<Rightarrow> pyval res)
    \<Rightarrow> EgressGrantIssue \<Rightarrow> EgressGrant res"
where
  "issue_egress_grant h session port_issue factory request =
     bnd (require_active_egress_grant_issuance_session h session) (\<lambda>_.
       let model = (eb_hop_kind (ei_binding request) = u ''model'');
           pre = (if model then MODEL_EGRESS_GRANT_PREFIX else CHANNEL_EGRESS_GRANT_PREFIX) in
       bnd (factory pre) (\<lambda>value'.
       bnd (require_opaque_grant pre value') (\<lambda>v.
         let grant = (if model then ModelEgressGrant v else ChannelEgressGrant v) in
         bnd (as_issuance_unavailable (bnd (grant_digest grant) (port_issue request))) (\<lambda>persisted.
           if persisted \<noteq> PBool True then Inl EgressGrantIssuanceUnavailable else Inr grant))))"

section \<open>Payload digests\<close>

definition canonical_package_payload :: "(json \<Rightarrow> bytes res) \<Rightarrow> ContextPackage \<Rightarrow> bytes res" where
  "canonical_package_payload dumps package = dumps (context_package_public_document package)"

definition model_input_digest :: "(json \<Rightarrow> bytes res) \<Rightarrow> ContextPackage \<Rightarrow> str res" where
  "model_input_digest dumps package =
     bnd (canonical_package_payload dumps package) (\<lambda>payload.
       Inr (sha256_hexdigest (ascii ''context-engine.authorized-model-input.v1'' @ [0] @ payload)))"

definition channel_payload_digest :: "(json \<Rightarrow> bytes res) \<Rightarrow> ContextPackage \<Rightarrow> str res" where
  "channel_payload_digest dumps package =
     bnd (canonical_package_payload dumps package) (\<lambda>payload.
       Inr (sha256_hexdigest (ascii ''context-engine.authorized-channel-payload.v1'' @ [0] @ payload)))"

section \<open>The final egress gate\<close>

text \<open>\<open>delivery_context.audience_digest or direct_egress_audience_digest(...)\<close>.\<close>

definition audience_or_direct ::
  "(json \<Rightarrow> bytes res) \<Rightarrow> AuthenticatedInvocation \<Rightarrow> TrustedDeliveryContext \<Rightarrow> str res"
where
  "audience_or_direct dumps invocation delivery =
     (let actor = iv_user_actor invocation in
      case dc_audience_digest delivery of
        Some a \<Rightarrow> if a \<noteq> [] then Inr a
                 else direct_egress_audience_digest dumps (ua_organization_id actor) (ua_membership_id actor)
                        (ua_membership_version actor) (dc_authenticated_application_ref delivery)
                        (dc_delivery_binding_ref delivery)
      | None \<Rightarrow> direct_egress_audience_digest dumps (ua_organization_id actor) (ua_membership_id actor)
                 (ua_membership_version actor) (dc_authenticated_application_ref delivery)
                 (dc_delivery_binding_ref delivery))"

text \<open>The comparisons of the gate before and after the audience digest.\<close>

definition package_bound_before ::
  "AuthenticatedInvocation \<Rightarrow> TrustedDeliveryContext \<Rightarrow> DecisionProvenanceReceipt \<Rightarrow> ContextPackage \<Rightarrow> str \<Rightarrow> bool"
where
  "package_bound_before invocation delivery provenance package digest \<longleftrightarrow>
     cp_package_digest package = digest
     \<and> dp_organization_id provenance = ua_organization_id (iv_user_actor invocation)
     \<and> dp_package_id provenance = cp_package_id package \<and> dp_decision_ref provenance = cp_decision_ref package
     \<and> dp_purpose provenance = cp_purpose package \<and> dp_purpose provenance = dc_purpose delivery
     \<and> dp_policy_epoch provenance = iv_policy_epoch invocation
     \<and> iv_policy_epoch invocation = ua_policy_epoch (iv_user_actor invocation)
     \<and> dt_eq (dp_as_of provenance) (cp_as_of package)"

definition package_bound_after :: "DecisionProvenanceReceipt \<Rightarrow> ContextPackage \<Rightarrow> datetime \<Rightarrow> bool" where
  "package_bound_after provenance package issued_at \<longleftrightarrow>
     cp_policy_epoch package = dp_policy_epoch provenance
     \<and> cp_policy_snapshot_ref package = dp_policy_snapshot_ref provenance
     \<and> cp_run_ref package = dp_run_ref provenance \<and> dt_eq issued_at (cp_as_of package)
     \<and> dt_less issued_at (cp_expires_at package)"

definition require_bound_package ::
  "(json \<Rightarrow> str) \<Rightarrow> (json \<Rightarrow> bytes res) \<Rightarrow> AuthenticatedInvocation \<Rightarrow> TrustedDeliveryContext
    \<Rightarrow> DecisionProvenanceReceipt \<Rightarrow> ContextPackage \<Rightarrow> datetime \<Rightarrow> unit res"
where
  "require_bound_package canon dumps invocation delivery provenance package issued_at =
     bnd (context_package_digest canon (context_package_digest_document package)) (\<lambda>digest.
       if \<not> package_bound_before invocation delivery provenance package digest
       then Inl EgressGrantIssuanceUnavailable
       else
         bnd (audience_or_direct dumps invocation delivery) (\<lambda>audience.
           if cp_audience_digest package \<noteq> audience \<or> \<not> package_bound_after provenance package issued_at
           then Inl EgressGrantIssuanceUnavailable else Inr ()))"

text \<open>\<open>min(package.expires_at, issued_at + profile.maximum_ttl)\<close>.\<close>

definition grant_expiry :: "ContextPackage \<Rightarrow> datetime \<Rightarrow> int \<Rightarrow> datetime res" where
  "grant_expiry package issued_at maximum_ttl =
     bnd (dt_add issued_at maximum_ttl) (\<lambda>t.
       Inr (if dt_less t (cp_expires_at package) then t else cp_expires_at package))"

fun egress_issue ::
  "(json \<Rightarrow> bytes res) \<Rightarrow> AuthenticatedInvocation \<Rightarrow> ContextPackage \<Rightarrow> datetime \<Rightarrow> EgressProfile \<Rightarrow> EgressGrantIssue res"
where
  "egress_issue dumps invocation package issued_at (ModelProfile p) =
     bnd (grant_expiry package issued_at (eg_maximum_ttl p)) (\<lambda>expires_at.
     bnd (model_input_digest dumps package) (\<lambda>payload.
       issue_for_model (ua_organization_id (iv_user_actor invocation)) (cp_package_digest package) payload
         (cp_purpose package) (cp_audience_digest package) (iv_policy_epoch invocation) issued_at expires_at p))"
| "egress_issue dumps invocation package issued_at (ChannelProfile p) =
     bnd (grant_expiry package issued_at (eg_maximum_ttl p)) (\<lambda>expires_at.
     bnd (channel_payload_digest dumps package) (\<lambda>payload.
       issue_for_channel (ua_organization_id (iv_user_actor invocation)) (cp_package_digest package) payload
         (cp_purpose package) (cp_audience_digest package) (iv_policy_epoch invocation) issued_at expires_at p))"
| "egress_issue dumps invocation package issued_at InternalOnlyEgressProfile = Inl RuntimeConfigurationError"

fun delivery_allows :: "TrustedDeliveryContext \<Rightarrow> EgressProfile \<Rightarrow> bool" where
  "delivery_allows delivery (ChannelProfile p) \<longleftrightarrow>
     dc_construction_provenance delivery = Some REDEEMED_PRIVATE_DELIVERY_EVIDENCE
     \<and> dc_destination_ref delivery = Some (eg_destination_ref p)
     \<and> dc_consumer_ref delivery = Some (eg_consumer_ref p)"
| "delivery_allows delivery _ \<longleftrightarrow> True"

text \<open>What the gate reaches outside of the process.\<close>

record egress_world =
  ew_dumps :: "json \<Rightarrow> bytes res"
  ew_issue :: "EgressGrantIssue \<Rightarrow> bytes \<Rightarrow> pyval res"
  ew_factory :: "str \<Rightarrow> pyval res"

definition finalize_egress ::
  "(json \<Rightarrow> str) \<Rightarrow> egress_world \<Rightarrow> scope_heap \<Rightarrow> AuthenticatedInvocation \<Rightarrow> TrustedDeliveryContext
    \<Rightarrow> DecisionProvenanceReceipt \<Rightarrow> ContextPackage \<Rightarrow> EgressProfile \<Rightarrow> datetime \<Rightarrow> EgressGrant option res"
where
  "finalize_egress canon world h invocation delivery provenance package profile issued_at =
     bnd (require_active_user_actor h (iv_user_actor invocation)) (\<lambda>_.
     bnd (require_bound_package canon (ew_dumps world) invocation delivery provenance package issued_at) (\<lambda>_.
       if profile = InternalOnlyEgressProfile then Inr None
       else if \<not> delivery_allows delivery profile then Inl EgressGrantIssuanceUnavailable
       else case ua_egress_grant_issuance_session (iv_user_actor invocation) of
         None \<Rightarrow> Inl EgressGrantIssuanceUnavailable
       | Some session \<Rightarrow>
           bnd (egress_issue (ew_dumps world) invocation package issued_at profile) (\<lambda>issue.
           bnd (issue_egress_grant h session (ew_issue world) (ew_factory world) issue) (\<lambda>grant. Inr (Some grant)))))"

section \<open>Properties\<close>

lemma require_opaque_grant_eq [validators]:
  "require_opaque_grant pre v = Inr s \<longleftrightarrow> v = PStr s \<and> str_startswith s (pre @ u ''_'')
     \<and> length s = length pre + 1 + 64 \<and> list_all is_hex (drop 5 s)"
  by (cases v) auto

lemma as_issuance_unavailable_Inr [simp]: "as_issuance_unavailable r = Inr x \<longleftrightarrow> r = Inr x"
  by (auto simp: as_issuance_unavailable_def split: sum.splits)

fun profile_ttl :: "EgressProfile \<Rightarrow> int" where
  "profile_ttl (ModelProfile p) = eg_maximum_ttl p"
| "profile_ttl (ChannelProfile p) = eg_maximum_ttl p"
| "profile_ttl InternalOnlyEgressProfile = 0"

text \<open>The redemption a consumer of the package builds for a grant.\<close>

fun redemption_for ::
  "(json \<Rightarrow> bytes res) \<Rightarrow> AuthenticatedInvocation \<Rightarrow> ContextPackage \<Rightarrow> EgressGrant \<Rightarrow> EgressProfile
    \<Rightarrow> EgressGrantRedemption res"
where
  "redemption_for dumps invocation package grant (ModelProfile p) =
     bnd (model_input_digest dumps package) (\<lambda>payload.
       redemption_for_model grant (ua_organization_id (iv_user_actor invocation)) (cp_package_digest package) payload
         (cp_purpose package) (cp_audience_digest package) (iv_policy_epoch invocation) p)"
| "redemption_for dumps invocation package grant (ChannelProfile p) =
     bnd (channel_payload_digest dumps package) (\<lambda>payload.
       redemption_for_channel grant (ua_organization_id (iv_user_actor invocation)) (cp_package_digest package) payload
         (cp_purpose package) (cp_audience_digest package) (iv_policy_epoch invocation) p)"
| "redemption_for dumps invocation package grant InternalOnlyEgressProfile = Inl TypeError"

lemma issue_post_init_Inr:
  "EgressGrantIssue_post_init i = Inr j \<longleftrightarrow> j = i \<and> check_binding (ei_binding i) = Inr () \<and> check_hop (ei_binding i) = Inr ()
     \<and> is_aware_utc (ei_issued_at i) \<and> is_aware_utc (ei_expires_at i) \<and> \<not> dt_le (ei_expires_at i) (ei_issued_at i)"
  by (auto simp: EgressGrantIssue_post_init_def validators)

lemma grant_expiry_bounds:
  assumes "grant_expiry package issued_at ttl = Inr t"
  shows "dt_le t (cp_expires_at package)" "dt_diff t issued_at \<le> ttl"
proof -
  from assms obtain e where "dt_add issued_at ttl = Inr e"
    and t: "t = (if dt_less e (cp_expires_at package) then e else cp_expires_at package)"
    by (auto simp: grant_expiry_def)
  with dt_add_diff have "dt_diff e issued_at = ttl" by blast
  with t show "dt_le t (cp_expires_at package)" "dt_diff t issued_at \<le> ttl"
    by (auto simp: dt_le_def dt_less_def dt_diff_def)
qed

lemma issue_for_model_Inr:
  "issue_for_model o_id digest payload purpose audience epoch issued_at t p = Inr issue \<Longrightarrow>
   ei_binding issue = model_binding o_id digest payload purpose audience epoch p \<and> ei_issued_at issue = issued_at
   \<and> ei_expires_at issue = t \<and> dt_less issued_at t"
  by (auto simp: issue_for_model_def issue_post_init_Inr dt_le_def dt_less_def split: if_splits)

lemma issue_for_channel_Inr:
  "issue_for_channel o_id digest payload purpose audience epoch issued_at t p = Inr issue \<Longrightarrow>
   ei_binding issue = channel_binding o_id digest payload purpose audience epoch p \<and> ei_issued_at issue = issued_at
   \<and> ei_expires_at issue = t \<and> dt_less issued_at t"
  by (auto simp: issue_for_channel_def issue_post_init_Inr dt_le_def dt_less_def split: if_splits)

lemma egress_issue_Inr:
  assumes "egress_issue dumps invocation package issued_at profile = Inr issue"
  shows "eb_organization_id (ei_binding issue) = ua_organization_id (iv_user_actor invocation)
    \<and> eb_package_digest (ei_binding issue) = cp_package_digest package
    \<and> eb_purpose (ei_binding issue) = cp_purpose package
    \<and> eb_audience_digest (ei_binding issue) = cp_audience_digest package
    \<and> eb_policy_epoch (ei_binding issue) = iv_policy_epoch invocation
    \<and> ei_issued_at issue = issued_at \<and> dt_less issued_at (ei_expires_at issue)
    \<and> dt_le (ei_expires_at issue) (cp_expires_at package)
    \<and> dt_diff (ei_expires_at issue) issued_at \<le> profile_ttl profile"
proof (cases profile)
  case (ModelProfile p)
  with assms obtain t payload where t: "grant_expiry package issued_at (eg_maximum_ttl p) = Inr t"
    and i: "issue_for_model (ua_organization_id (iv_user_actor invocation)) (cp_package_digest package) payload
         (cp_purpose package) (cp_audience_digest package) (iv_policy_epoch invocation) issued_at t p = Inr issue"
    by (auto simp: bnd_eq_Inr)
  from issue_for_model_Inr [OF i] grant_expiry_bounds [OF t] ModelProfile show ?thesis
    by (simp add: model_binding_def)
next
  case (ChannelProfile p)
  with assms obtain t payload where t: "grant_expiry package issued_at (eg_maximum_ttl p) = Inr t"
    and i: "issue_for_channel (ua_organization_id (iv_user_actor invocation)) (cp_package_digest package) payload
         (cp_purpose package) (cp_audience_digest package) (iv_policy_epoch invocation) issued_at t p = Inr issue"
    by (auto simp: bnd_eq_Inr)
  from issue_for_channel_Inr [OF i] grant_expiry_bounds [OF t] ChannelProfile show ?thesis
    by (simp add: channel_binding_def)
qed (use assms in simp)

lemma issued_grant_redeems:
  assumes "egress_issue dumps invocation package issued_at profile = Inr issue"
    and "issue_egress_grant h session port_issue factory issue = Inr grant"
  shows "\<exists>d r. grant_digest grant = Inr d \<and> port_issue issue d = Inr (PBool True)
    \<and> redemption_for dumps invocation package grant profile = Inr r
    \<and> er_grant_digest r = d \<and> er_binding r = ei_binding issue"
proof -
  from assms(2) obtain v d where
    v: "grant = (if eb_hop_kind (ei_binding issue) = u ''model'' then ModelEgressGrant v else ChannelEgressGrant v)"
    and d: "grant_digest grant = Inr d" "port_issue issue d = Inr (PBool True)"
    by (auto simp: issue_egress_grant_def Let_def)
  have len: "length d = 32" using d(1) by (auto simp: grant_digest_def)
  show ?thesis
  proof (cases profile)
    case (ModelProfile p)
    with assms(1) v d len show ?thesis
      by (auto simp: issue_for_model_def issue_post_init_Inr redemption_for_model_def model_binding_def
          EgressGrantRedemption_post_init_def)
  next
    case (ChannelProfile p)
    with assms(1) v d len show ?thesis
      by (auto simp: issue_for_channel_def issue_post_init_Inr redemption_for_channel_def channel_binding_def
          EgressGrantRedemption_post_init_def)
  qed (use assms(1) in simp)
qed

text \<open>
  C34. An egress grant is bound to one package and one hop: when the final gate hands out a grant, the
  port acknowledged the digest of that grant together with a binding to the package digest,
  which still is the digest of the package, to the Organization, epoch, purpose and audience of
  the call; the grant expires no later than the package and within the lifetime of the profile,
  a channel hop has the redeemed private delivery to its destination, and the redemption a
  consumer of the package builds presents exactly the persisted binding. The internal-only
  profile never hands out a grant.
\<close>

theorem egress_grant_is_bound_to_package:
  assumes "finalize_egress canon world h invocation delivery provenance package profile issued_at = Inr (Some grant)"
  shows "\<exists>issue d r. grant_digest grant = Inr d \<and> ew_issue world issue d = Inr (PBool True)
    \<and> redemption_for (ew_dumps world) invocation package grant profile = Inr r
    \<and> er_grant_digest r = d \<and> er_binding r = ei_binding issue
    \<and> eb_package_digest (ei_binding issue) = cp_package_digest package
    \<and> context_package_digest canon (context_package_digest_document package) = Inr (cp_package_digest package)
    \<and> eb_organization_id (ei_binding issue) = ua_organization_id (iv_user_actor invocation)
    \<and> eb_policy_epoch (ei_binding issue) = ua_policy_epoch (iv_user_actor invocation)
    \<and> eb_purpose (ei_binding issue) = dc_purpose delivery
    \<and> audience_or_direct (ew_dumps world) invocation delivery = Inr (eb_audience_digest (ei_binding issue))
    \<and> dt_less (ei_issued_at issue) (ei_expires_at issue)
    \<and> dt_le (ei_expires_at issue) (cp_expires_at package)
    \<and> dt_diff (ei_expires_at issue) (ei_issued_at issue) \<le> profile_ttl profile
    \<and> profile \<noteq> InternalOnlyEgressProfile \<and> delivery_allows delivery profile
    \<and> require_active_user_actor h (iv_user_actor invocation) = Inr ()"
proof -
  from assms obtain session issue where
    act: "require_active_user_actor h (iv_user_actor invocation) = Inr ()" and
    pkg: "require_bound_package canon (ew_dumps world) invocation delivery provenance package issued_at = Inr ()" and
    prof: "profile \<noteq> InternalOnlyEgressProfile" "delivery_allows delivery profile" and
    issue: "egress_issue (ew_dumps world) invocation package issued_at profile = Inr issue" and
    grant: "issue_egress_grant h session (ew_issue world) (ew_factory world) issue = Inr grant"
    by (auto simp: finalize_egress_def split: option.splits if_splits)
  from pkg have "context_package_digest canon (context_package_digest_document package) = Inr (cp_package_digest package)"
    "audience_or_direct (ew_dumps world) invocation delivery = Inr (cp_audience_digest package)"
    "cp_purpose package = dc_purpose delivery" "iv_policy_epoch invocation = ua_policy_epoch (iv_user_actor invocation)"
    by (auto simp: require_bound_package_def package_bound_before_def)
  with egress_issue_Inr [OF issue] issued_grant_redeems [OF issue grant] act prof show ?thesis by metis
qed

text \<open>A model hop of at most ten minutes for the package of five minutes.\<close>

definition egress_session :: authority_session where
  "egress_session = \<lparr>ss_id = 0, ss_scope = example_token EgressGrantIssuanceScope 4, ss_port_complete = True\<rparr>"

definition egress_membership :: CurrentMembershipVerification where
  "egress_membership = example_membership\<lparr>mv_egress_grant_issuance_session := Some egress_session\<rparr>"

definition egress_invocation :: AuthenticatedInvocation where
  "egress_invocation = example_invocation\<lparr>iv_user_actor := example_actor
     \<lparr>ua_egress_grant_issuance_session := Some egress_session,
      ua_current_membership_verification := egress_membership\<rparr>\<rparr>"

definition egress_delivery :: TrustedDeliveryContext where
  "egress_delivery = example_delivery\<lparr>dc_audience_digest := Some (replicate 64 48)\<rparr>"

definition egress_provenance :: DecisionProvenanceReceipt where
  "egress_provenance = example_provenance\<lparr>dp_package_id := cp_package_id example_package,
     dp_decision_ref := cp_decision_ref example_package\<rparr>"

definition example_model_profile :: ModelEgressProfile where
  "example_model_profile = \<lparr>eg_profile_ref = u ''p'', eg_retention_policy_ref = u ''ret'',
     eg_sensitivity_policy_ref = u ''s'', eg_issuer_ref = u ''i'', eg_consumer_ref = u ''c'', eg_region_ref = u ''r'',
     eg_maximum_ttl = 600000000, eg_provider_ref = u ''pr'', eg_model_ref = u ''m''\<rparr>"

definition egress_example_world :: egress_world where
  "egress_example_world = \<lparr>ew_dumps = \<lambda>_. Inr [], ew_issue = \<lambda>_ _. Inr (PBool True),
     ew_factory = \<lambda>pre. Inr (PStr (pre @ u ''_'' @ replicate 64 48))\<rparr>"

lemma egress_actor_active:
  "require_active_user_actor (example_heap @ [True]) (iv_user_actor egress_invocation) = Inr ()"
proof -
  have "construct_user_actor (example_heap @ [True]) egress_membership = Inr (iv_user_actor egress_invocation)"
    by (simp add: construct_user_actor_def require_active_current_membership_verification_def validators
        egress_membership_def egress_invocation_def egress_session_def
        example_membership_def example_call_epoch_def example_epoch_def example_epoch_session_def
        example_token_def example_heap_def scope_active_def max_signed64_def example_actor_def example_snapshot_def)
  then show ?thesis by (rule constructed_actor_active)
qed

lemma egress_package_bound:
  assumes "ContextPackage_post_init canon example_package = Inr q"
  shows "require_bound_package canon dumps egress_invocation egress_delivery egress_provenance q example_datetime = Inr ()"
proof -
  have q: "q = example_package\<lparr>cp_package_digest := cp_package_digest q\<rparr>" by (rule post_init_Inr [OF assms])
  have "context_package_digest_document q = context_package_digest_document example_package"
    by (subst q) (simp add: context_package_digest_document_def is_v1_def)
  with post_init_Inr(2) [OF assms]
  have d: "context_package_digest canon (context_package_digest_document q) = Inr (cp_package_digest q)" by simp
  have "package_bound_before egress_invocation egress_delivery egress_provenance q (cp_package_digest q)"
    "cp_audience_digest q = replicate 64 48" "package_bound_after egress_provenance q example_datetime"
    by (subst q, simp add: package_bound_before_def package_bound_after_def egress_invocation_def egress_delivery_def
        egress_provenance_def example_delivery_def example_invocation_def example_actor_def example_package_def
        example_provenance_def dt_eq_def dt_less_def instant_us_def local_us_def toordinal_def example_datetime_def)+
  with d show ?thesis
    by (simp add: require_bound_package_def audience_or_direct_def egress_delivery_def)
qed

lemma example_grant_issued:
  assumes "is_sha256_hex (cp_package_digest q)" "cp_expires_at q = example_datetime\<lparr>minute := 5\<rparr>"
    "cp_purpose q = u ''ask''" "cp_audience_digest q = replicate 64 48"
  shows "\<exists>issue. egress_issue (ew_dumps egress_example_world) egress_invocation q example_datetime
      (ModelProfile example_model_profile) = Inr issue \<and> eb_hop_kind (ei_binding issue) = u ''model''"
proof -
  obtain t where t: "dt_add example_datetime 600000000 = Inr t"
    by (simp add: dt_add_def Let_def local_us_def toordinal_def days_before_year_def days_before_month_def
        example_datetime_def ordinal_of_us_def MAXORDINAL_def days_in_month_def is_leap_def upt_rec)
  have five: "dt_diff (example_datetime\<lparr>minute := 5\<rparr>) example_datetime = 300000000"
    by (simp add: dt_diff_def instant_us_def local_us_def toordinal_def example_datetime_def)
  with dt_add_diff [OF t] t have "grant_expiry q example_datetime 600000000 = Inr (example_datetime\<lparr>minute := 5\<rparr>)"
    using assms(2) by (simp add: grant_expiry_def dt_diff_def dt_less_def)
  moreover have "is_aware_utc example_datetime" "is_aware_utc (example_datetime\<lparr>minute := 5\<rparr>)"
    by (simp_all add: is_aware_utc_def example_datetime_def)
  moreover have "is_sha256_hex (replicate 64 48)" by (simp add: is_sha256_hex_def is_hex_def is_digit_def list_all_iff)
  moreover have "\<not> dt_le (example_datetime\<lparr>minute := 5\<rparr>) example_datetime"
    using five by (simp add: dt_le_def dt_diff_def)
  ultimately show ?thesis
    using assms five
    by (simp add: model_input_digest_def canonical_package_payload_def egress_example_world_def issue_for_model_def
        example_model_profile_def issue_post_init_Inr model_binding_def check_binding_def check_hop_def validators
        u_def blank_iff is_space_def egress_invocation_def example_invocation_def)
qed

theorem egress_grant_is_bound_to_package_witness:
  "\<exists>q grant r. ContextPackage_post_init unary_canon example_package = Inr q
    \<and> finalize_egress unary_canon egress_example_world (example_heap @ [True]) egress_invocation egress_delivery
        egress_provenance q (ModelProfile example_model_profile) example_datetime = Inr (Some grant)
    \<and> redemption_for (ew_dumps egress_example_world) egress_invocation q grant (ModelProfile example_model_profile) = Inr r
    \<and> eb_package_digest (er_binding r) = cp_package_digest q"
proof -
  obtain q where q: "ContextPackage_post_init unary_canon example_package = Inr q"
    using example_package_accepted by blast
  have eq: "q = example_package\<lparr>cp_package_digest := cp_package_digest q\<rparr>"
    and "is_sha256_hex (cp_package_digest q)"
    using post_init_Inr(1,2) [OF q] sha256_hexdigest_shape by (auto simp: context_package_digest_def, metis)
  then obtain issue where issue: "egress_issue (ew_dumps egress_example_world) egress_invocation q example_datetime
      (ModelProfile example_model_profile) = Inr issue" "eb_hop_kind (ei_binding issue) = u ''model''"
    using example_grant_issued [of q] by (metis (no_types) example_package_def ContextPackage.select_convs ContextPackage.update_convs)
  have "\<exists>g. issue_egress_grant (example_heap @ [True]) egress_session (ew_issue egress_example_world)
      (ew_factory egress_example_world) issue = Inr g"
    using issue(2)
    by (simp add: issue_egress_grant_def validators egress_session_def example_token_def example_heap_def scope_active_def
        egress_example_world_def MODEL_EGRESS_GRANT_PREFIX_def str_startswith_def is_hex_def is_digit_def
        grant_digest_def utf8_encode_def as_issuance_unavailable_def is_surrogate_def list_ex_iff u_def list_all_iff)
  then obtain g where g: "finalize_egress unary_canon egress_example_world (example_heap @ [True]) egress_invocation
      egress_delivery egress_provenance q (ModelProfile example_model_profile) example_datetime = Inr (Some g)"
    using egress_actor_active egress_package_bound [OF q] issue(1)
    by (auto simp: finalize_egress_def egress_invocation_def)
  from egress_grant_is_bound_to_package [OF g] obtain r where
    "redemption_for (ew_dumps egress_example_world) egress_invocation q g (ModelProfile example_model_profile) = Inr r"
    "eb_package_digest (er_binding r) = cp_package_digest q" by auto
  with q g show ?thesis by (intro exI [of _ q] exI [of _ g] exI [of _ r] conjI)
qed

end
