(* ===== verification/Context_Run.thy ===== *)
theory Context_Run
  imports Citation
begin

text \<open>
  \<open>src/engine/runtime/context_run.py\<close>: the durable record of a delivery, the restricted audit
  record of an empty one, their construction from the finalized package and their persistence
  through the actor's session. The persistence port is what \<open>persist\<close> does when it is called.
\<close>

section \<open>Records\<close>

definition PACKAGE_RETENTION_MODE :: str where
  "PACKAGE_RETENTION_MODE = u ''digest_only''"

definition PACKAGE_RETENTION_POLICY_REF :: str where
  "PACKAGE_RETENTION_POLICY_REF = u ''package-digest-only-retention-v1''"

definition PACKAGE_DIGEST_PROFILE :: str where
  "PACKAGE_DIGEST_PROFILE = u ''context-package-canonical-json-v3''"

datatype ContextRunOutcome = DELIVERED_AUTHORIZED | DELIVERED_EMPTY

datatype DecisionAuditCategory = AUDIT_NO_AUTHORIZED_EVIDENCE

record ContextRunRecord =
  rn_organization_id :: uuid
  rn_run_ref :: str
  rn_decision_ref :: str
  rn_user_id :: uuid
  rn_membership_id :: uuid
  rn_membership_version :: int
  rn_principal_ref :: str
  rn_agent_version_ref :: str
  rn_authenticated_application_ref :: str
  rn_authentication_binding_ref :: str
  rn_request_id :: str
  rn_purpose :: str
  rn_policy_snapshot_ref :: str
  rn_policy_epoch :: int
  rn_effective_scope_digest :: str
  rn_query_digest_profile :: str
  rn_query_digest_key_version :: int
  rn_query_digest :: str
  rn_outcome :: ContextRunOutcome
  rn_package_ref :: str
  rn_package_digest_profile :: str
  rn_package_digest :: str
  rn_release_ref :: str
  rn_release_generation :: int
  rn_package_retention_mode :: str
  rn_authorized_evidence_refs :: "str list"
  rn_authorized_citation_lineage :: "(str \<times> str) list list"
  rn_effective_max_tokens :: int
  rn_effective_max_provider_calls :: int
  rn_effective_max_cost_microunits :: int
  rn_effective_max_elapsed_ms :: int
  rn_usage_tokens :: int
  rn_usage_provider_calls :: int
  rn_usage_cost_microunits :: int
  rn_usage_elapsed_ms :: int
  rn_accepted_at :: datetime
  rn_finalized_at :: datetime
  rn_package_as_of :: datetime
  rn_package_expires_at :: datetime

text \<open>The checks of \<open>ContextRunRecord.__post_init__\<close>, in four groups in the order of the code.\<close>

definition check_run_lineage :: "ContextRunRecord \<Rightarrow> unit res" where
  "check_run_lineage r =
     bnd (each (\<lambda>v. require_nonblank (PStr v))
       [rn_run_ref r, rn_decision_ref r, rn_principal_ref r, rn_agent_version_ref r,
        rn_authenticated_application_ref r, rn_authentication_binding_ref r, rn_request_id r, rn_purpose r,
        rn_policy_snapshot_ref r]) (\<lambda>_.
     bnd (each (\<lambda>v. require_int_range 1 max_signed64 (PInt v)) [rn_membership_version r, rn_policy_epoch r]) (\<lambda>_.
     bnd (each (\<lambda>v. require_sha256_hex (PStr v))
       [rn_effective_scope_digest r, rn_query_digest r, rn_package_digest r]) (\<lambda>_.
       if rn_query_digest_profile r \<noteq> QUERY_DIGEST_PROFILE then Inl ValueError else
     bnd (require_int_range 1 max_signed64 (PInt (rn_query_digest_key_version r))) (\<lambda>_.
       if rn_package_digest_profile r \<noteq> PACKAGE_DIGEST_PROFILE then Inl ValueError
       else if \<not> hex_ref (u ''pkg'') 32 (rn_package_ref r) then Inl ValueError
       else if \<not> hex_ref (u ''rel'') 64 (rn_release_ref r) then Inl ValueError
       else bnd (require_int_range 1 max_signed64 (PInt (rn_release_generation r))) (\<lambda>_.
         if rn_package_retention_mode r \<noteq> PACKAGE_RETENTION_MODE then Inl ValueError else Inr ())))))"

definition citation_fields :: "str set" where
  "citation_fields = {u ''evidenceRef'', u ''fragmentRef'', u ''resourceRef'', u ''revisionRef'', u ''sourceRef''}"

text \<open>One dict of the citation lineage; a missing key cannot occur once the key set is right.\<close>

definition citation_entry_ok :: "str list \<Rightarrow> (str \<times> str) list \<Rightarrow> bool" where
  "citation_entry_ok refs v \<longleftrightarrow>
     fst ` set v = citation_fields \<and> the (map_of v (u ''evidenceRef'')) \<in> set refs \<and> list_all (\<lambda>(_, x). x \<noteq> []) v"

definition check_run_evidence :: "ContextRunRecord \<Rightarrow> unit res" where
  "check_run_evidence r =
     (let refs = rn_authorized_evidence_refs r; lineage = rn_authorized_citation_lineage r in
      if list_ex (\<lambda>v. length v \<noteq> 67 \<or> \<not> str_startswith v (u ''ev_'') \<or> \<not> list_all is_hex (drop 3 v)) refs
      then Inl ValueError
      else if \<not> distinct refs then Inl ValueError
      else if \<not> list_all (citation_entry_ok refs) lineage then Inl ValueError
      else if map (\<lambda>v. the (map_of v (u ''evidenceRef''))) lineage \<noteq> refs \<or> \<not> distinct (map sort lineage)
      then Inl ValueError
      else if rn_outcome r = DELIVERED_EMPTY \<and> refs \<noteq> [] then Inl ValueError
      else if rn_outcome r \<noteq> DELIVERED_EMPTY \<and> refs = [] then Inl ValueError
      else Inr ())"

definition check_run_budget :: "ContextRunRecord \<Rightarrow> unit res" where
  "check_run_budget r =
     (if list_ex (\<lambda>v. v \<le> 0) [rn_effective_max_tokens r, rn_effective_max_provider_calls r,
        rn_effective_max_cost_microunits r, rn_effective_max_elapsed_ms r] then Inl ValueError
      else if list_ex (\<lambda>v. v < 0) [rn_usage_tokens r, rn_usage_provider_calls r, rn_usage_cost_microunits r,
        rn_usage_elapsed_ms r] then Inl ValueError
      else if list_ex (\<lambda>(used, most). used > most)
        [(rn_usage_tokens r, rn_effective_max_tokens r), (rn_usage_provider_calls r, rn_effective_max_provider_calls r),
         (rn_usage_cost_microunits r, rn_effective_max_cost_microunits r),
         (rn_usage_elapsed_ms r, rn_effective_max_elapsed_ms r)] then Inl ValueError
      else Inr ())"

definition check_run_times :: "ContextRunRecord \<Rightarrow> unit res" where
  "check_run_times r =
     bnd (each (\<lambda>d. require_utc (PDatetime d))
       [rn_accepted_at r, rn_finalized_at r, rn_package_as_of r, rn_package_expires_at r]) (\<lambda>_.
       if dt_less (rn_finalized_at r) (rn_accepted_at r) then Inl ValueError
       else if \<not> dt_eq (rn_package_as_of r) (rn_finalized_at r) then Inl ValueError
       else if dt_le (rn_package_expires_at r) (rn_package_as_of r) then Inl ValueError
       else Inr ())"

definition ContextRunRecord_post_init :: "ContextRunRecord \<Rightarrow> ContextRunRecord res" where
  "ContextRunRecord_post_init r =
     bnd (check_run_lineage r) (\<lambda>_. bnd (check_run_evidence r) (\<lambda>_.
     bnd (check_run_budget r) (\<lambda>_. bnd (check_run_times r) (\<lambda>_. Inr r))))"

record DecisionAuditRecord =
  au_organization_id :: uuid
  au_run_ref :: str
  au_decision_ref :: str
  au_policy_snapshot_ref :: str
  au_policy_epoch :: int
  au_category :: DecisionAuditCategory
  au_recorded_at :: datetime

definition DecisionAuditRecord_post_init :: "DecisionAuditRecord \<Rightarrow> DecisionAuditRecord res" where
  "DecisionAuditRecord_post_init a =
     bnd (each (\<lambda>v. require_nonblank (PStr v)) [au_run_ref a, au_decision_ref a, au_policy_snapshot_ref a]) (\<lambda>_.
     bnd (require_int_range 1 max_signed64 (PInt (au_policy_epoch a))) (\<lambda>_.
     bnd (require_utc (PDatetime (au_recorded_at a))) (\<lambda>_. Inr a)))"

section \<open>Persistence\<close>

definition audit_matches_run :: "DecisionAuditRecord \<Rightarrow> ContextRunRecord \<Rightarrow> bool" where
  "audit_matches_run a r \<longleftrightarrow>
     au_organization_id a = rn_organization_id r \<and> au_run_ref a = rn_run_ref r
     \<and> au_decision_ref a = rn_decision_ref r \<and> au_policy_snapshot_ref a = rn_policy_snapshot_ref r
     \<and> au_policy_epoch a = rn_policy_epoch r \<and> rn_outcome r = DELIVERED_EMPTY"

text \<open>Every exception of the port becomes the one closed class.\<close>

definition persist_context_run ::
  "scope_heap \<Rightarrow> authority_session \<Rightarrow> (ContextRunRecord \<Rightarrow> DecisionAuditRecord option \<Rightarrow> unit res)
    \<Rightarrow> ContextRunRecord \<Rightarrow> DecisionAuditRecord option \<Rightarrow> unit res"
where
  "persist_context_run h session port_persist run audit =
     bnd (require_active_context_run_persistence_session h session) (\<lambda>_.
     bnd (case audit of
            Some a \<Rightarrow> if \<not> audit_matches_run a run then Inl ValueError else Inr ()
          | None \<Rightarrow> if rn_outcome run = DELIVERED_EMPTY then Inl ValueError else Inr ()) (\<lambda>_.
       case port_persist run audit of
         Inl e \<Rightarrow> Inl ContextRunPersistenceUnavailable
       | Inr _ \<Rightarrow> Inr ()))"

section \<open>Projection of a finalized package\<close>

definition request_narrowing :: "RuntimeRequest \<Rightarrow> RequestNarrowing option" where
  "request_narrowing request = (case request of Acquire need' budget restriction \<Rightarrow> restriction | _ \<Rightarrow> None)"

definition request_query :: "RuntimeRequest \<Rightarrow> str" where
  "request_query request =
     (case request of Acquire need' budget restriction \<Rightarrow> query need' | _ \<Rightarrow> u ''citation.open'')"

text \<open>\<open>authorized_scope\<close>: the operands are read before the epoch is compared.\<close>

definition run_authorized_scope :: "scope_heap \<Rightarrow> AuthenticatedInvocation \<Rightarrow> RuntimeRequest \<Rightarrow> EffectiveScope res" where
  "run_authorized_scope h invocation request =
     (let snapshot = iv_trusted_scope_snapshot invocation in
      bnd (trusted_operands_from_snapshot h snapshot) (\<lambda>operands.
        Inr (if ts_policy_epoch snapshot \<noteq> iv_policy_epoch invocation then empty_scope
             else compute_effective_scope operands (request_narrowing request))))"

definition run_matches_invocation ::
  "AuthenticatedInvocation \<Rightarrow> DecisionProvenanceReceipt \<Rightarrow> ContextPackage \<Rightarrow> EffectiveScope \<Rightarrow> ActiveRuntimeRelease
    \<Rightarrow> bool"
where
  "run_matches_invocation invocation provenance package scope release \<longleftrightarrow>
     (let actor = iv_user_actor invocation; purpose = ts_purpose (iv_trusted_scope_snapshot invocation) in
      dp_organization_id provenance = ua_organization_id actor \<and> dp_user_id provenance = ua_user_id actor
      \<and> dp_membership_id provenance = ua_membership_id actor
      \<and> dp_membership_version provenance = ua_membership_version actor
      \<and> dp_principal_ref provenance = iv_principal_ref invocation
      \<and> dp_agent_version_ref provenance = iv_agent_version_ref invocation
      \<and> dp_authenticated_application_ref provenance = iv_authenticated_application_ref invocation
      \<and> dp_authentication_binding_ref provenance = iv_authentication_binding_ref invocation
      \<and> dp_request_id provenance = iv_request_id invocation \<and> dp_purpose provenance = purpose
      \<and> dt_eq (dp_as_of provenance) (cp_as_of package) \<and> dp_package_id provenance = cp_package_id package
      \<and> dp_decision_ref provenance = cp_decision_ref package
      \<and> dp_policy_epoch provenance = iv_policy_epoch invocation
      \<and> dp_effective_scope_digest provenance = es_digest scope \<and> cp_purpose package = purpose
      \<and> cp_policy_epoch package = dp_policy_epoch provenance
      \<and> cp_policy_snapshot_ref package = dp_policy_snapshot_ref provenance
      \<and> cp_run_ref package = dp_run_ref provenance \<and> cp_release_manifest_ref package = ar_manifest_ref release
      \<and> cp_tokenizer_ref package = ar_tokenizer_ref release
      \<and> cp_tokenizer_profile_digest package = ar_tokenizer_profile_digest release
      \<and> cp_package_schema_ref package = ar_package_schema_ref release
      \<and> cp_retention_policy_ref package = PACKAGE_RETENTION_POLICY_REF
      \<and> \<not> dt_less (cp_as_of package) (iv_received_at invocation))"

definition citation_entry :: "Evidence \<Rightarrow> (str \<times> str) list" where
  "citation_entry e =
     [(u ''evidenceRef'', ev_evidence_ref e), (u ''fragmentRef'', ev_fragment_ref e),
      (u ''resourceRef'', ev_resource_ref e), (u ''revisionRef'', ev_revision_ref e),
      (u ''sourceRef'', ev_source_ref e)]"

definition run_record ::
  "AuthenticatedInvocation \<Rightarrow> DecisionProvenanceReceipt \<Rightarrow> ContextPackage \<Rightarrow> PackageBudget \<Rightarrow> QueryDigest
    \<Rightarrow> ActiveRuntimeRelease \<Rightarrow> ContextRunRecord"
where
  "run_record invocation provenance package budget query_receipt release =
     (let actor = iv_user_actor invocation; usage = cp_budget_usage package in
      \<lparr>rn_organization_id = ua_organization_id actor, rn_run_ref = dp_run_ref provenance,
       rn_decision_ref = dp_decision_ref provenance, rn_user_id = ua_user_id actor,
       rn_membership_id = ua_membership_id actor, rn_membership_version = ua_membership_version actor,
       rn_principal_ref = iv_principal_ref invocation, rn_agent_version_ref = iv_agent_version_ref invocation,
       rn_authenticated_application_ref = iv_authenticated_application_ref invocation,
       rn_authentication_binding_ref = iv_authentication_binding_ref invocation,
       rn_request_id = iv_request_id invocation, rn_purpose = cp_purpose package,
       rn_policy_snapshot_ref = dp_policy_snapshot_ref provenance, rn_policy_epoch = dp_policy_epoch provenance,
       rn_effective_scope_digest = dp_effective_scope_digest provenance,
       rn_query_digest_profile = qd_profile query_receipt, rn_query_digest_key_version = qd_key_version query_receipt,
       rn_query_digest = qd_value query_receipt,
       rn_outcome = (if cv_status (cp_coverage package) = SUFFICIENT then DELIVERED_AUTHORIZED else DELIVERED_EMPTY),
       rn_package_ref = cp_package_id package, rn_package_digest_profile = PACKAGE_DIGEST_PROFILE,
       rn_package_digest = cp_package_digest package, rn_release_ref = ar_manifest_ref release,
       rn_release_generation = ar_active_generation release, rn_package_retention_mode = PACKAGE_RETENTION_MODE,
       rn_authorized_evidence_refs = map ev_evidence_ref (cp_evidence package),
       rn_authorized_citation_lineage = map citation_entry (cp_evidence package),
       rn_effective_max_tokens = max_tokens budget, rn_effective_max_provider_calls = max_provider_calls budget,
       rn_effective_max_cost_microunits = max_cost_microunits budget,
       rn_effective_max_elapsed_ms = max_elapsed_ms budget, rn_usage_tokens = tokens usage,
       rn_usage_provider_calls = provider_calls usage, rn_usage_cost_microunits = cost_microunits usage,
       rn_usage_elapsed_ms = elapsed_ms usage, rn_accepted_at = iv_received_at invocation,
       rn_finalized_at = cp_as_of package, rn_package_as_of = cp_as_of package,
       rn_package_expires_at = cp_expires_at package\<rparr>)"

definition run_audit :: "ContextRunRecord \<Rightarrow> DecisionAuditRecord option res" where
  "run_audit run =
     (if rn_outcome run = DELIVERED_EMPTY then
        bnd (DecisionAuditRecord_post_init
          \<lparr>au_organization_id = rn_organization_id run, au_run_ref = rn_run_ref run,
           au_decision_ref = rn_decision_ref run, au_policy_snapshot_ref = rn_policy_snapshot_ref run,
           au_policy_epoch = rn_policy_epoch run, au_category = AUDIT_NO_AUTHORIZED_EVIDENCE,
           au_recorded_at = rn_finalized_at run\<rparr>) (\<lambda>a. Inr (Some a))
      else Inr None)"

definition build_context_run_records ::
  "(json \<Rightarrow> str) \<Rightarrow> scope_heap \<Rightarrow> AuthenticatedInvocation \<Rightarrow> RuntimeRequest \<Rightarrow> DecisionProvenanceReceipt
    \<Rightarrow> ContextPackage \<Rightarrow> EffectiveScope \<Rightarrow> PackageBudget \<Rightarrow> QueryDigestKeyring \<Rightarrow> ActiveRuntimeRelease
    \<Rightarrow> (ContextRunRecord \<times> DecisionAuditRecord option) res"
where
  "build_context_run_records canon h invocation request provenance package scope budget keyring release =
     (case request of Continue token limits \<Rightarrow> Inl TypeError | _ \<Rightarrow>
      case ua_active_runtime_release (iv_user_actor invocation) of None \<Rightarrow> Inl ValueError
      | Some invocation_release \<Rightarrow>
        if release \<noteq> snd invocation_release then Inl ValueError
        else
          bnd (verify_context_package_digest canon (context_package_digest_document package)
                 (Some (JStr (cp_package_digest package)))) (\<lambda>verified.
          if \<not> verified then Inl ValueError
          else
            bnd (run_authorized_scope h invocation request) (\<lambda>authorized_scope.
            if scope \<noteq> authorized_scope \<and> scope \<noteq> empty_scope then Inl ValueError
            else if es_targets scope = {||} \<and> cp_evidence package \<noteq> [] then Inl ValueError
            else if \<not> run_matches_invocation invocation provenance package scope release then Inl ValueError
            else if \<not> list_all (evidence_bound_to_decision provenance) (cp_evidence package) then Inl ValueError
            else
              bnd (query_digest keyring (ua_organization_id (iv_user_actor invocation)) (request_query request))
                (\<lambda>query_receipt.
              bnd (ContextRunRecord_post_init
                     (run_record invocation provenance package budget query_receipt release)) (\<lambda>run.
              bnd (run_audit run) (\<lambda>audit. Inr (run, audit)))))))"

end
