(* ===== verification/Runtime.thy ===== *)
theory Runtime
  imports Context_Run Egress
begin

text \<open>
  \<open>Runtime.resolve\<close> of \<open>src/engine/runtime/construction.py\<close>, the single entry point: capability
  check, Acquire or OpenCitation through the Kernel, one-hop expansion, selection and the final
  gate, citation locators, budget accounting, the package, the egress gate and persistence. The
  Kernel's state is threaded through; the meter, the discovery session and the decision are local
  to one call. \<open>runtime_world\<close> is everything the call reaches outside of the runtime: the clock,
  the epoch authority, the database port, the replaceable candidate index, the citation, egress
  and persistence ports, and the library functions that are parameters of the components.
\<close>

section \<open>The candidate index\<close>

text \<open>
  \<open>src/engine/runtime/content_io.py\<close>. An index gets the meter of the resolve, on which it performs
  operations, and the discovery scope, an object that it could tamper with; it answers the
  operations it performed, the scope as it leaves it, and a request or an exception.
\<close>

type_synonym index_answer = "meter_op list \<times> CandidateDiscoveryScope \<times> CandidateDiscoveryRequest foreign res"

record candidate_index =
  ix_id :: nat
  ix_complete :: bool
  ix_generation_bound :: bool
  ix_prepare :: "RuntimeRequest \<Rightarrow> CandidateDiscoveryScope \<Rightarrow> PackageBudgetMeter \<Rightarrow> str \<Rightarrow> index_answer"
  ix_prepare_generation ::
    "RuntimeRequest \<Rightarrow> CandidateDiscoveryScope \<Rightarrow> PackageBudgetMeter \<Rightarrow> str \<Rightarrow> int \<Rightarrow> index_answer"
  ix_discover ::
    "RuntimeRequest \<Rightarrow> CandidateDiscoverySession \<Rightarrow> CandidateDiscoveryScope
      \<Rightarrow> CandidateDiscoveryScope \<times> CandidateQuery foreign res"

text \<open>\<open>prohibited_empty_path_content_io\<close>: an index that refuses every call with \<open>RuntimeError\<close>.\<close>

definition prohibited_candidate_index :: "nat \<Rightarrow> candidate_index" where
  "prohibited_candidate_index i =
     \<lparr>ix_id = i, ix_complete = True, ix_generation_bound = True,
      ix_prepare = \<lambda>request scope meter digest. ([], scope, Inl OtherException),
      ix_prepare_generation = \<lambda>request scope meter digest generation. ([], scope, Inl OtherException),
      ix_discover = \<lambda>request session scope. (scope, Inl OtherException)\<rparr>"

definition exact_phrase_digest :: "pyval \<Rightarrow> str res" where
  "exact_phrase_digest v =
     bnd (require_nonblank v) (\<lambda>s.
     bnd (utf8_encode s) (\<lambda>bs. Inr (sha256_hexdigest (ascii ''context-engine.exact-phrase.v1'' @ [0] @ bs))))"

section \<open>Construction of the runtime\<close>

record Runtime =
  rt_package_ttl_seconds :: int
  rt_server_budget :: PackageBudget
  rt_index :: candidate_index
  rt_candidate_discovery_enabled :: bool
  rt_candidate_submission_limit :: int
  rt_one_hop_scanned_page_limit :: int
  rt_ranker_weights :: "(str \<times> pyfloat) list option"
  rt_acquire_capability :: RuntimeCapability
  rt_query_digest_keyring :: "QueryDigestKeyring option"
  rt_egress_profile :: EgressProfile
  rt_citation_profile :: "CitationOpenProfile option"
  rt_issuer_secret :: bytes
  rt_authority :: seal_authority

definition MAX_ONE_HOP_SCANNED_PAGE_CEILING :: int where
  "MAX_ONE_HOP_SCANNED_PAGE_CEILING = 64"

definition require_one_hop_scanned_page_limit :: "pyval \<Rightarrow> int res" where
  "require_one_hop_scanned_page_limit = require_int_range 1 MAX_ONE_HOP_SCANNED_PAGE_CEILING"

definition as_configuration_error :: "'a res \<Rightarrow> 'a res" where
  "as_configuration_error r =
     (case r of Inl e \<Rightarrow> if is_value_error e then Inl RuntimeConfigurationError else Inl e | Inr x \<Rightarrow> Inr x)"

text \<open>
  \<open>Runtime.__init__\<close>: of the content dependencies only the index matters here; the other two seams
  are never called. The secret of the reference issuer and the authority of the seals are drawn
  at random. Arguments of the wrong nominal type are excluded by typing.
\<close>

definition Runtime_init ::
  "pyval \<Rightarrow> PackageBudget \<Rightarrow> nat \<Rightarrow> candidate_index option \<Rightarrow> candidate_index option \<Rightarrow> pyval \<Rightarrow> pyval
    \<Rightarrow> (str \<times> pyfloat) list option \<Rightarrow> RuntimeCapability \<Rightarrow> QueryDigestKeyring option \<Rightarrow> EgressProfile
    \<Rightarrow> CitationOpenProfile option \<Rightarrow> bytes \<Rightarrow> seal_authority \<Rightarrow> Runtime res"
where
  "Runtime_init ttl server_budget fresh_id content_io index submission_limit page_limit weights capability keyring
      egress citation secret authority =
     bnd (case ttl of PInt n \<Rightarrow> if n \<le> 0 then Inl ValueError else Inr n | _ \<Rightarrow> Inl ValueError) (\<lambda>package_ttl.
     bnd (case (content_io, index) of
            (Some io, Some ix) \<Rightarrow> if ix_id io \<noteq> ix_id ix then Inl RuntimeConfigurationError else Inr io
          | (Some io, None) \<Rightarrow> Inr io
          | (None, Some ix) \<Rightarrow> Inr ix
          | (None, None) \<Rightarrow> Inr (prohibited_candidate_index fresh_id)) (\<lambda>selected.
       if \<not> ix_complete selected then Inl RuntimeConfigurationError
       else
         bnd (as_configuration_error (require_candidate_submission_limit submission_limit)) (\<lambda>limit.
         bnd (as_configuration_error (require_one_hop_scanned_page_limit page_limit)) (\<lambda>pages.
           if capability \<notin> {MATERIALIZED_ACQUIRE, FEDERATED_DISCOVERY, SOURCE_NATIVE_AUTHORIZATION}
           then Inl RuntimeConfigurationError
           else
             bnd (case citation of None \<Rightarrow> Inr ()
                  | Some profile \<Rightarrow>
                      bnd (timedelta_seconds package_ttl) (\<lambda>lifetime.
                        if lifetime > co_maximum_ttl profile then Inl RuntimeConfigurationError else Inr ())) (\<lambda>_.
               Inr \<lparr>rt_package_ttl_seconds = package_ttl, rt_server_budget = server_budget, rt_index = selected,
                    rt_candidate_discovery_enabled = (index \<noteq> None), rt_candidate_submission_limit = limit,
                    rt_one_hop_scanned_page_limit = pages, rt_ranker_weights = weights,
                    rt_acquire_capability = capability, rt_query_digest_keyring = keyring,
                    rt_egress_profile = egress, rt_citation_profile = citation, rt_issuer_secret = secret,
                    rt_authority = authority\<rparr>)))))"

section \<open>The world of one call\<close>

record runtime_world =
  rw_clock :: "pyval res"
  rw_epoch_prepare :: "uuid \<Rightarrow> pyval res"
  rw_epoch_final :: "uuid \<Rightarrow> pyval res"
  rw_port :: materialized_port
  rw_hop_port :: "nat \<Rightarrow> materialized_port"
  rw_redeem :: "CitationOpenRedemption \<Rightarrow> CitationOpenTarget foreign res"
  rw_citation_issue :: "citation_write \<Rightarrow> pyval res"
  rw_citation_reference :: "nat \<Rightarrow> pyval res"
  rw_persist :: "ContextRunRecord \<Rightarrow> DecisionAuditRecord option \<Rightarrow> unit res"
  rw_egress :: egress_world
  rw_decision_id :: "nat \<Rightarrow> nat"
  rw_meter_id :: nat
  rw_load :: "TokenizerProfile \<Rightarrow> TokenizerProfile res"
  rw_canon :: "json \<Rightarrow> str"
  rw_tokens_of :: "str \<Rightarrow> str list"
  rw_unicode_digit :: "nat \<Rightarrow> nat option"

section \<open>UUID parsing\<close>

text \<open>
  \<open>UUID(text)\<close> strips decorations and reads 32 characters with \<open>int(text, 16)\<close>, which allows
  surrounding space, a sign, a \<open>0x\<close> prefix, single underscores between digits and the decimal
  digits of every script; \<open>digit\<close> gives the value of a decimal digit outside of ASCII.
\<close>

definition digit16 :: "nat \<Rightarrow> nat option" where
  "digit16 c =
     (if is_digit c then Some (c - 48) else if 97 \<le> c \<and> c \<le> 102 then Some (c - 87)
      else if 65 \<le> c \<and> c \<le> 70 then Some (c - 55) else None)"

fun digits16 :: "nat \<Rightarrow> str \<Rightarrow> nat option" where
  "digits16 acc [] = Some acc"
| "digits16 acc (c # s) =
     (if c = 95 then
        (case s of [] \<Rightarrow> None | d # s' \<Rightarrow>
           (case digit16 d of None \<Rightarrow> None | Some v \<Rightarrow> digits16 (16 * acc + v) s'))
      else case digit16 c of None \<Rightarrow> None | Some v \<Rightarrow> digits16 (16 * acc + v) s)"

definition strip_by :: "(nat \<Rightarrow> bool) \<Rightarrow> str \<Rightarrow> str" where
  "strip_by f s = rev (dropWhile f (rev (dropWhile f s)))"

definition ascii_digit :: "(nat \<Rightarrow> nat option) \<Rightarrow> nat \<Rightarrow> nat" where
  "ascii_digit digit c = (if c < 128 then c else case digit c of None \<Rightarrow> c | Some v \<Rightarrow> 48 + v)"

definition int16 :: "(nat \<Rightarrow> nat option) \<Rightarrow> str \<Rightarrow> int option" where
  "int16 digit s =
     (let t = map (ascii_digit digit) (strip_by is_space s);
          negative = (t \<noteq> [] \<and> hd t = 45);
          unsigned = (if t \<noteq> [] \<and> (hd t = 43 \<or> hd t = 45) then tl t else t);
          prefixed = (case unsigned of c # x # rest \<Rightarrow> c = 48 \<and> (x = 120 \<or> x = 88) | _ \<Rightarrow> False);
          body = (if prefixed then drop 2 unsigned else unsigned);
          body' = (if prefixed \<and> body \<noteq> [] \<and> hd body = 95 then tl body else body) in
      if body' = [] \<or> hd body' = 95 then None
      else map_option (\<lambda>n. if negative then - int n else int n) (digits16 0 body'))"

definition parse_uuid :: "(nat \<Rightarrow> nat option) \<Rightarrow> str \<Rightarrow> uuid res" where
  "parse_uuid digit s =
     (let hex = str_replace (u ''-'') [] (strip_by (\<lambda>c. c = 123 \<or> c = 125)
                  (str_replace (u ''uuid:'') [] (str_replace (u ''urn:'') [] s))) in
      if length hex \<noteq> 32 then Inl ValueError
      else case int16 digit hex of None \<Rightarrow> Inl ValueError
        | Some n \<Rightarrow> if n < 0 \<or> n \<ge> 2 ^ 128 then Inl ValueError else Inr (word_of_int n))"

section \<open>Outcomes\<close>

record ScopeDecisionReceipt =
  sd_digest :: str
  sd_target_count :: int
  sd_is_empty :: bool

definition ScopeDecisionReceipt_init :: "str \<Rightarrow> int \<Rightarrow> bool \<Rightarrow> ScopeDecisionReceipt res" where
  "ScopeDecisionReceipt_init digest target_count is_empty =
     bnd (require_sha256_hex (PStr digest)) (\<lambda>_.
       if target_count < 0 then Inl ValueError
       else if is_empty \<noteq> (target_count = 0) then Inl ValueError
       else Inr \<lparr>sd_digest = digest, sd_target_count = target_count, sd_is_empty = is_empty\<rparr>)"

record Resolved =
  rs_package :: ContextPackage
  rs_effective_budget :: PackageBudget
  rs_scope_decision :: ScopeDecisionReceipt
  rs_egress_grant :: "EgressGrant option"

datatype ResolutionOutcome = Delivered Resolved | RequestNotAvailable | CitationNotAvailable

section \<open>Resolve\<close>

text \<open>\<open>_resolve_budget_meter\<close>.\<close>

definition is_v1_release :: "ActiveRuntimeRelease \<Rightarrow> bool" where
  "is_v1_release release \<longleftrightarrow> ar_package_schema_ref release = u ''context-package-openapi-v1''"

definition resolve_budget_meter ::
  "runtime_world \<Rightarrow> PackageBudget \<Rightarrow> ActiveRuntimeRelease \<Rightarrow> PackageBudgetMeter res"
where
  "resolve_budget_meter w budget release =
     (if is_v1_release release then
        bnd (registered_tokenizer_profile (rw_canon w) (ar_tokenizer_profile_document release)
               (ar_tokenizer_profile_digest release)) (\<lambda>profile.
          PackageBudgetMeter_init (rw_load w) (rw_meter_id w) budget EMPTY_USAGE (Some profile)
            (PInt (ar_active_generation release)))
      else PackageBudgetMeter_init (rw_load w) (rw_meter_id w) budget EMPTY_USAGE None PNone)"

text \<open>The prepared plan of the index, with the meter after its operations.\<close>

definition prepare_discovery ::
  "Runtime \<Rightarrow> RuntimeRequest \<Rightarrow> ActiveRuntimeRelease \<Rightarrow> CandidateDiscoveryScope \<Rightarrow> ledger
    \<Rightarrow> (ledger \<times> CandidateDiscoveryScope \<times> CandidateDiscoveryRequest foreign) res"
where
  "prepare_discovery rt request release scope ledger =
     (let index = rt_index rt in
      if is_v1_release release \<and> \<not> ix_generation_bound index then Inl CandidateIndexUnavailable
      else
        (case (if is_v1_release release
               then ix_prepare_generation index request scope (fst ledger) (ar_embedding_profile_digest release)
                      (ar_active_generation release)
               else ix_prepare index request scope (fst ledger) (ar_embedding_profile_digest release)) of
           (ops, scope', answer) \<Rightarrow>
             bnd answer (\<lambda>plan. Inr (foldl meter_step ledger ops, scope', plan))))"

definition as_index_unavailable :: "'a res \<Rightarrow> 'a res" where
  "as_index_unavailable r =
     (case r of Inl MaterializedCandidateDiscoveryUnavailable \<Rightarrow> Inl CandidateIndexUnavailable | _ \<Rightarrow> r)"

text \<open>
  Discovery: the candidates in the order in which the Kernel gets them, the rank evidence that it
  does not get, and the meter. The discovery session is closed whatever the index does; the index
  sees it only during its call.
\<close>

definition discover_candidates ::
  "Runtime \<Rightarrow> runtime_world \<Rightarrow> scope_heap \<Rightarrow> AuthenticatedInvocation \<Rightarrow> RuntimeRequest
    \<Rightarrow> PreparedAcquireAuthorization \<Rightarrow> ActiveRuntimeRelease \<Rightarrow> ledger
    \<Rightarrow> (CandidateRef list \<times> CandidateRankEvidence list \<times> ledger) res"
where
  "discover_candidates rt w h invocation request preparation release ledger =
     (let effective_scope = pr_effective_scope (pa_policy_receipt preparation) in
      if es_targets effective_scope = {||} \<or> \<not> rt_candidate_discovery_enabled rt then Inr ([], [], ledger)
      else case ua_materialized_projection_session (iv_user_actor invocation) of
        None \<Rightarrow> Inl RuntimeConfigurationError
      | Some session \<Rightarrow>
          bnd (candidate_discovery_scope effective_scope) (\<lambda>scope.
          bnd (prepare_discovery rt request release scope ledger) (\<lambda>(ledger', scope', answer).
          bnd (require_candidate_discovery_scope_integrity scope') (\<lambda>_.
          bnd (require_exact answer) (\<lambda>discovery_request.
          bnd (require_bounded_discovery_request discovery_request (PInt (rt_candidate_submission_limit rt))) (\<lambda>plan.
          bnd (as_index_unavailable
                 (construct_candidate_discovery_session h session (rw_port w) plan effective_scope)) (\<lambda>discovery.
            case ix_discover (rt_index rt) request discovery scope' of (scope'', result) \<Rightarrow>
            bnd result (\<lambda>answered.
            bnd (require_candidate_discovery_scope_integrity scope'') (\<lambda>_.
            bnd (require_exact answered) (\<lambda>discovered.
            bnd (require_bounded_candidate_submission discovered (PInt (rt_candidate_submission_limit rt))) (\<lambda>_.
            bnd (fuse_candidate_evidence discovered) (\<lambda>fused.
              Inr (sort_key candidate_sort_key (fc_candidate_refs fused), fc_rank_evidence fused, ledger')))))))))))))"

section \<open>One-hop expansion\<close>

definition graph_limit :: "Runtime \<Rightarrow> int" where
  "graph_limit rt = min 64 (rt_candidate_submission_limit rt)"

text \<open>
  The loop over pages: \<open>scanned\<close> counts them and is bounded by the configured limit, which is why
  the loop ends. A page whose candidates are all in the main submission is scanned for nothing.
\<close>

function one_hop_loop ::
  "Runtime \<Rightarrow> runtime_world \<Rightarrow> AuthenticatedInvocation \<Rightarrow> PreparedAcquireAuthorization \<Rightarrow> authority_session
    \<Rightarrow> AuthorizedProjection list \<Rightarrow> CandidateRef list \<Rightarrow> AuthorizationDecision \<Rightarrow> int \<Rightarrow> nat
    \<Rightarrow> (kernel_state, AuthorizationDecision) exec"
where
  "one_hop_loop rt w invocation preparation session main_projections main_refs d offset scanned =
     (if int (fcard (ad_expanded_candidate_refs d)) < graph_limit rt
         \<and> int scanned < rt_one_hop_scanned_page_limit rt
      then
        let page_limit = graph_limit rt - int (fcard (ad_expanded_candidate_refs d)) in
        xbnd (reading (\<lambda>s. discover_materialized_one_hop (ks_scopes s) session (rw_hop_port w scanned)
                main_projections (PInt page_limit) (PInt offset))) (\<lambda>page.
          if page = [] then lift (Inr d)
          else
            let one_hop = filter (\<lambda>item. oh_candidate_ref item \<notin> set main_refs) page in
            xbnd (if one_hop = [] then lift (Inr d)
                  else authorize_one_hop (rt_authority rt) (rw_decision_id w (Suc scanned)) invocation preparation d
                         one_hop (session, rw_hop_port w scanned)) (\<lambda>d'.
              if int (length page) < page_limit then lift (Inr d')
              else one_hop_loop rt w invocation preparation session main_projections main_refs d'
                     (offset + int (length page)) (Suc scanned)))
      else lift (Inr d))"
  by pat_completeness auto
termination
  by (relation "measure (\<lambda>(rt, w, invocation, preparation, session, main_projections, main_refs, d, offset, scanned).
      nat (rt_one_hop_scanned_page_limit rt) - scanned)") auto

declare one_hop_loop.simps [simp del]

definition expand_one_hop ::
  "Runtime \<Rightarrow> runtime_world \<Rightarrow> AuthenticatedInvocation \<Rightarrow> RuntimeRequest \<Rightarrow> PreparedAcquireAuthorization
    \<Rightarrow> CandidateRef list \<Rightarrow> CandidateRankEvidence list \<Rightarrow> AuthorizationDecision
    \<Rightarrow> (kernel_state, AuthorizationDecision \<times> CandidateRankEvidence list) exec"
where
  "expand_one_hop rt w invocation request preparation candidate_refs rank_evidence d =
     (case ua_materialized_projection_session (iv_user_actor invocation) of
        None \<Rightarrow> lift (Inr (d, rank_evidence))
      | Some session \<Rightarrow>
          if ad_projections d = [] then lift (Inr (d, rank_evidence))
          else
            xbnd (one_hop_loop rt w invocation preparation session (ad_projections d) candidate_refs d 0 0) (\<lambda>d'.
              if ad_expanded_candidate_refs d' = {||} then lift (Inr (d', rank_evidence))
              else
                xbnd (reading (\<lambda>s. rank_authorized_one_hop (rw_tokens_of w) (ks_scopes s)
                        (PStr (request_query request))
                        (filter (\<lambda>p. ap_candidate_ref p |\<in>| ad_expanded_candidate_refs d') (ad_projections d'))))
                  (\<lambda>graph_evidence. lift (Inr (d', rank_evidence @ graph_evidence)))))"

section \<open>The two carriers\<close>

definition actor_transaction :: "runtime_world \<Rightarrow> AuthenticatedInvocation \<Rightarrow> transaction option" where
  "actor_transaction w invocation =
     map_option (\<lambda>session. (session, rw_port w)) (ua_materialized_projection_session (iv_user_actor invocation))"

definition resolve_acquire ::
  "Runtime \<Rightarrow> runtime_world \<Rightarrow> AuthenticatedInvocation \<Rightarrow> TrustedDeliveryContext \<Rightarrow> RuntimeRequest
    \<Rightarrow> ActiveRuntimeRelease \<Rightarrow> datetime
    \<Rightarrow> (kernel_state, AuthorizationDecision \<times> CandidateRankEvidence list \<times> ledger) exec"
where
  "resolve_acquire rt w invocation delivery request release as_of =
     xbnd (prepare_acquire (rt_issuer_secret rt) invocation delivery request (rt_server_budget rt) (PDatetime as_of)
             (rw_epoch_prepare w)) (\<lambda>preparation.
     xbnd (lift (resolve_budget_meter w (pa_effective_budget preparation) release)) (\<lambda>meter.
     xbnd (reading (\<lambda>s. discover_candidates rt w (ks_scopes s) invocation request preparation release (meter, [])))
       (\<lambda>(candidate_refs, rank_evidence, ledger).
     xbnd (authorize_acquire (rt_authority rt) (rw_decision_id w 0) invocation preparation candidate_refs
             (actor_transaction w invocation)) (\<lambda>decision.
     xbnd (expand_one_hop rt w invocation request preparation candidate_refs rank_evidence decision)
       (\<lambda>(decision', rank_evidence'). lift (Inr (decision', rank_evidence', ledger)))))))"

text \<open>A locator that is not available is authorized as the absence of a candidate.\<close>

definition redeemed_candidate ::
  "runtime_world \<Rightarrow> scope_heap \<Rightarrow> AuthenticatedInvocation \<Rightarrow> CitationOpenRef \<Rightarrow> datetime \<Rightarrow> CandidateRef option res"
where
  "redeemed_candidate w h invocation ref as_of =
     (case ua_citation_open_session (iv_user_actor invocation) of
        None \<Rightarrow> Inl CitationAuthorityUnavailable
      | Some session \<Rightarrow>
          let redemption = \<lparr>cx_citation_open_ref = ref,
                cx_organization_id = ua_organization_id (iv_user_actor invocation), cx_opened_at = as_of\<rparr> in
          (case bnd (CitationOpenRedemption_post_init redemption) (\<lambda>_.
                  redeem_citation_open_ref h session (rw_redeem w) redemption) of
             Inl CitationLocatorNotAvailable \<Rightarrow> Inr None
           | Inl e \<Rightarrow> Inl e
           | Inr target \<Rightarrow> Inr (Some (ct_candidate_ref target))))"

definition resolve_open_citation ::
  "Runtime \<Rightarrow> runtime_world \<Rightarrow> AuthenticatedInvocation \<Rightarrow> TrustedDeliveryContext \<Rightarrow> RuntimeRequest
    \<Rightarrow> CitationOpenRef \<Rightarrow> ActiveRuntimeRelease \<Rightarrow> datetime
    \<Rightarrow> (kernel_state, AuthorizationDecision \<times> CandidateRankEvidence list \<times> ledger) exec"
where
  "resolve_open_citation rt w invocation delivery request ref release as_of =
     xbnd (reading (\<lambda>s. redeemed_candidate w (ks_scopes s) invocation ref as_of)) (\<lambda>candidate.
     xbnd (authorize_open_citation (rt_authority rt) (rw_decision_id w 0) (rt_issuer_secret rt) invocation delivery
             request candidate (rt_server_budget rt) (PDatetime as_of) (actor_transaction w invocation)
             (rw_epoch_prepare w)) (\<lambda>decision.
     xbnd (lift (resolve_budget_meter w (ad_effective_budget decision) release)) (\<lambda>meter.
       lift (Inr (decision, [], (meter, []))))))"

section \<open>Delivery\<close>

text \<open>\<open>try: select; finalize finally: close\<close>: an exception of the closing replaces the result.\<close>

definition select_and_finalize ::
  "Runtime \<Rightarrow> runtime_world \<Rightarrow> AuthenticatedInvocation \<Rightarrow> AuthorizationDecision \<Rightarrow> CandidateRankEvidence list
    \<Rightarrow> (kernel_state, FinalizedAuthorizationResult) exec"
where
  "select_and_finalize rt w invocation d rank_evidence = (\<lambda>s.
     let result =
           bnd (select_for_delivery (rt_authority rt) (ks_scopes s) d rank_evidence
                  (map_option (map (map_prod id PFloat)) (rt_ranker_weights rt))) (\<lambda>selection.
             finalize_for_delivery (rt_authority rt) (ks_scopes s) invocation selection (rw_epoch_final w)) in
     (case close_authorization_decision d s of
        (s', Inl e) \<Rightarrow> (s', Inl e)
      | (s', Inr _) \<Rightarrow> (s', result)))"

definition package_expiry :: "Runtime \<Rightarrow> DecisionProvenanceReceipt \<Rightarrow> datetime res" where
  "package_expiry rt provenance =
     bnd (timedelta_seconds (rt_package_ttl_seconds rt)) (\<lambda>ttl. dt_add (dp_as_of provenance) ttl)"

text \<open>The locator of the \<open>i\<close>-th Evidence value.\<close>

definition citation_reference ::
  "Runtime \<Rightarrow> runtime_world \<Rightarrow> scope_heap \<Rightarrow> AuthenticatedInvocation \<Rightarrow> DecisionProvenanceReceipt
    \<Rightarrow> CitationOpenProfile \<Rightarrow> authority_session \<Rightarrow> nat \<times> Evidence \<Rightarrow> (str \<times> CitationOpenRef) res"
where
  "citation_reference rt w h invocation provenance profile session = (\<lambda>(i, item).
     bnd (case parse_uuid (rw_unicode_digit w) (ev_revision_ref item) of
            Inl e \<Rightarrow> if is_value_error e then Inl CitationAuthorityUnavailable else Inl e
          | Inr r \<Rightarrow> Inr r) (\<lambda>revision_id.
     bnd (package_expiry rt provenance) (\<lambda>expires_at.
       let issue = \<lparr>ci_organization_id = ua_organization_id (iv_user_actor invocation),
             ci_package_ref = dp_package_id provenance, ci_evidence_ref = ev_evidence_ref item,
             ci_resource_ref = ev_resource_ref item, ci_revision_id = revision_id,
             ci_fragment_ref = ev_fragment_ref item, ci_issued_at = dp_as_of provenance,
             ci_expires_at = expires_at\<rparr> in
       bnd (CitationOpenIssue_post_init issue) (\<lambda>_.
       bnd (issue_citation_open_ref h session (rw_citation_issue w) issue profile (rw_citation_reference w i)) (\<lambda>ref.
         Inr (ev_evidence_ref item, ref))))))"

definition attach_citations ::
  "Runtime \<Rightarrow> runtime_world \<Rightarrow> scope_heap \<Rightarrow> AuthenticatedInvocation \<Rightarrow> DecisionProvenanceReceipt
    \<Rightarrow> PackageContent \<Rightarrow> PackageContent res"
where
  "attach_citations rt w h invocation provenance content =
     (case rt_citation_profile rt of None \<Rightarrow> Inr content
      | Some profile \<Rightarrow>
          if pc_evidence content = [] then Inr content
          else case ua_citation_open_session (iv_user_actor invocation) of
            None \<Rightarrow> Inl CitationAuthorityUnavailable
          | Some session \<Rightarrow>
              bnd (mapr (citation_reference rt w h invocation provenance profile session)
                     (enumerate 0 (pc_evidence content))) (\<lambda>references.
                attach_citation_open_refs content references))"

text \<open>\<open>delivery_context.audience_digest\<close>, or the digest of a direct delivery if there is none.\<close>

definition package_audience ::
  "runtime_world \<Rightarrow> AuthenticatedInvocation \<Rightarrow> TrustedDeliveryContext \<Rightarrow> str res"
where
  "package_audience w invocation delivery =
     (let actor = iv_user_actor invocation in
      case dc_audience_digest delivery of Some a \<Rightarrow> Inr a
      | None \<Rightarrow> direct_egress_audience_digest (ew_dumps (rw_egress w)) (ua_organization_id actor)
          (ua_membership_id actor) (ua_membership_version actor) (dc_authenticated_application_ref delivery)
          (dc_delivery_binding_ref delivery))"

text \<open>The tokens of the delivered blocks are reserved and committed in full.\<close>

definition account_assembly :: "ledger \<Rightarrow> PackageContent \<Rightarrow> ledger res" where
  "account_assembly ledger content =
     (case ledger of (m, rs) \<Rightarrow>
        bnd (mapr (\<lambda>b. count_tokens m (pb_body b)) (pc_blocks content)) (\<lambda>counts.
          let assembly_tokens = sum_list counts in
          if assembly_tokens = 0 then Inr ledger
          else
            bnd (BudgetUsage_init (PInt (int assembly_tokens)) (PInt 0) (PInt 0) (PInt 0)) (\<lambda>usage.
            bnd (case meter_reserve m rs usage of
                   Inl PackageBudgetExceeded \<Rightarrow> Inl CandidateIndexUnavailable | r \<Rightarrow> r) (\<lambda>(m', rs', rid).
              meter_commit m' rs' rid usage))))"

definition delivered_usage :: "ActiveRuntimeRelease \<Rightarrow> ledger \<Rightarrow> PackageContent \<Rightarrow> BudgetUsage res" where
  "delivered_usage release ledger content =
     (if is_v1_release release then Inr (m_usage (fst ledger))
      else bnd (content_bytes content) (\<lambda>total. BudgetUsage_init (PInt total) (PInt 0) (PInt 0) (PInt 0)))"

definition build_package ::
  "Runtime \<Rightarrow> runtime_world \<Rightarrow> FinalizedAuthorizationResult \<Rightarrow> PackageContent \<Rightarrow> str \<Rightarrow> ActiveRuntimeRelease
    \<Rightarrow> ledger \<Rightarrow> ContextPackage res"
where
  "build_package rt w finalized content audience release ledger =
     (let provenance = fr_provenance_receipt finalized in
      bnd (package_expiry rt provenance) (\<lambda>expires_at.
      bnd (delivered_usage release ledger content) (\<lambda>usage.
      bnd (Coverage_init (if pc_evidence content \<noteq> [] then SUFFICIENT else EMPTY)
             (da_reason (fr_audit_receipt finalized))) (\<lambda>coverage.
        ContextPackage_post_init (rw_canon w)
          \<lparr>cp_package_id = dp_package_id provenance, cp_purpose = pr_purpose (fr_policy_receipt finalized),
           cp_audience_digest = audience, cp_policy_epoch = dp_policy_epoch provenance,
           cp_policy_snapshot_ref = dp_policy_snapshot_ref provenance, cp_run_ref = dp_run_ref provenance,
           cp_release_manifest_ref = ar_manifest_ref release, cp_retention_policy_ref = PACKAGE_RETENTION_POLICY_REF,
           cp_tokenizer_ref = ar_tokenizer_ref release, cp_package_schema_ref = ar_package_schema_ref release,
           cp_ttl_seconds = rt_package_ttl_seconds rt, cp_as_of = dp_as_of provenance, cp_expires_at = expires_at,
           cp_decision_ref = dp_decision_ref provenance, cp_package_digest = [], cp_blocks = pc_blocks content,
           cp_evidence = pc_evidence content, cp_gaps = [], cp_budget_usage = usage, cp_coverage = coverage,
           cp_tokenizer_profile_digest = ar_tokenizer_profile_digest release\<rparr>))))"

definition persist_delivery ::
  "Runtime \<Rightarrow> runtime_world \<Rightarrow> scope_heap \<Rightarrow> AuthenticatedInvocation \<Rightarrow> RuntimeRequest
    \<Rightarrow> FinalizedAuthorizationResult \<Rightarrow> ContextPackage \<Rightarrow> PackageBudget \<Rightarrow> ActiveRuntimeRelease \<Rightarrow> unit res"
where
  "persist_delivery rt w h invocation request finalized package budget release =
     (case ua_context_run_persistence_session (iv_user_actor invocation) of
        None \<Rightarrow> Inl ContextRunPersistenceUnavailable
      | Some session \<Rightarrow>
          case rt_query_digest_keyring rt of None \<Rightarrow> Inl ContextRunPersistenceUnavailable
          | Some keyring \<Rightarrow>
              bnd (build_context_run_records (rw_canon w) h invocation request (fr_provenance_receipt finalized) package
                     (pr_effective_scope (fr_policy_receipt finalized)) budget keyring release) (\<lambda>(run, audit).
                persist_context_run h session (rw_persist w) run audit))"

fun is_open_citation :: "RuntimeRequest \<Rightarrow> bool" where
  "is_open_citation (OpenCitation c) = True"
| "is_open_citation _ = False"

text \<open>Everything after the final gate; the Kernel's state is only read.\<close>

definition deliver ::
  "Runtime \<Rightarrow> runtime_world \<Rightarrow> scope_heap \<Rightarrow> AuthenticatedInvocation \<Rightarrow> TrustedDeliveryContext \<Rightarrow> RuntimeRequest
    \<Rightarrow> ActiveRuntimeRelease \<Rightarrow> datetime \<Rightarrow> PackageBudget \<Rightarrow> ledger \<Rightarrow> FinalizedAuthorizationResult
    \<Rightarrow> ResolutionOutcome res"
where
  "deliver rt w h invocation delivery request release as_of budget ledger finalized =
     bnd (attach_citations rt w h invocation (fr_provenance_receipt finalized) (fr_content finalized)) (\<lambda>content.
     bnd (package_audience w invocation delivery) (\<lambda>audience.
     bnd (account_assembly ledger content) (\<lambda>ledger'.
     bnd (build_package rt w finalized content audience release ledger') (\<lambda>package.
     bnd (if \<not> is_open_citation request \<or> cp_evidence package \<noteq> []
          then finalize_egress (rw_canon w) (rw_egress w) h invocation delivery (fr_provenance_receipt finalized)
                 package (rt_egress_profile rt) as_of
          else Inr None) (\<lambda>grant.
     bnd (persist_delivery rt w h invocation request finalized package budget release) (\<lambda>_.
       if is_open_citation request \<and> cp_evidence package = [] then Inr CitationNotAvailable
       else
         let scope = pr_effective_scope (fr_policy_receipt finalized) in
         bnd (ScopeDecisionReceipt_init (es_digest scope) (int (fcard (es_targets scope))) (es_targets scope = {||}))
           (\<lambda>scope_decision.
           Inr (Delivered \<lparr>rs_package = package, rs_effective_budget = budget, rs_scope_decision = scope_decision,
                  rs_egress_grant = grant\<rparr>))))))))"

section \<open>The entry point\<close>

definition resolve_available ::
  "Runtime \<Rightarrow> runtime_world \<Rightarrow> AuthenticatedInvocation \<Rightarrow> TrustedDeliveryContext \<Rightarrow> RuntimeRequest
    \<Rightarrow> (kernel_state, ResolutionOutcome) exec"
where
  "resolve_available rt w invocation delivery request =
     (case ua_active_runtime_release (iv_user_actor invocation) of
        None \<Rightarrow> lift (Inl ActiveReleaseUnavailable)
      | Some (i, release) \<Rightarrow>
          if ar_organization_id release \<noteq> ua_organization_id (iv_user_actor invocation)
          then lift (Inl ActiveReleaseUnavailable)
          else
            xbnd (lift (bnd (rw_clock w) require_utc)) (\<lambda>as_of.
            xbnd (case request of
                    Acquire need' budget restriction \<Rightarrow> resolve_acquire rt w invocation delivery request release as_of
                  | OpenCitation ref \<Rightarrow> resolve_open_citation rt w invocation delivery request ref release as_of
                  | Continue token budget \<Rightarrow> lift (Inl RuntimeConfigurationError))
              (\<lambda>(decision, rank_evidence, ledger).
            xbnd (select_and_finalize rt w invocation decision rank_evidence) (\<lambda>finalized.
              reading (\<lambda>s. deliver rt w (ks_scopes s) invocation delivery request release as_of
                (ad_effective_budget decision) ledger finalized)))))"

definition resolve ::
  "Runtime \<Rightarrow> runtime_world \<Rightarrow> AuthenticatedInvocation \<Rightarrow> TrustedDeliveryContext \<Rightarrow> RuntimeRequest
    \<Rightarrow> (kernel_state, ResolutionOutcome) exec"
where
  "resolve rt w invocation delivery request =
     (let capability = required_capability_for_request request (rt_acquire_capability rt) in
      case require_available capability (rt_citation_profile rt \<noteq> None) of
        Inl _ \<Rightarrow>
          xbnd (lift (bnd (rw_clock w) require_utc)) (\<lambda>as_of.
          xbnd (preflight_unavailable_request (rt_issuer_secret rt) invocation delivery request (rt_server_budget rt)
                  (PDatetime as_of) (rw_epoch_prepare w)) (\<lambda>_.
            lift (Inr (if is_open_citation request then CitationNotAvailable else RequestNotAvailable))))
      | Inr _ \<Rightarrow>
          if capability \<notin> {MATERIALIZED_ACQUIRE, OPEN_CITATION} then lift (Inl RuntimeConfigurationError)
          else resolve_available rt w invocation delivery request)"

text \<open>\<open>_required_capability\<close> and \<open>_requires_active_scope_authority\<close>.\<close>

definition requires_active_scope_authority :: "Runtime \<Rightarrow> RuntimeRequest \<Rightarrow> bool" where
  "requires_active_scope_authority rt request \<longleftrightarrow>
     returns (require_available (required_capability_for_request request (rt_acquire_capability rt))
       (rt_citation_profile rt \<noteq> None))"

end
