(* ===== verification/Resolution.thy ===== *)
theory Resolution
  imports Runtime
begin

text \<open>
  What one call of \<open>Runtime.resolve\<close> guarantees end to end: the lemmas follow the stages of the
  call, the properties combine the contracts of the components.
\<close>

section \<open>Preparation\<close>

lemma provenance_issue_Inr:
  assumes "provenance_issue secret iv receipt as_of s = (s', Inr prov)"
  shows "s' = s\<lparr>ks_sequence := Suc (ks_sequence s)\<rparr>"
    "dp_effective_scope_digest prov = es_digest (pr_effective_scope receipt)"
    "dp_policy_epoch prov = pr_policy_epoch receipt" "PDatetime (dp_as_of prov) = as_of"
  using assms by (auto simp: provenance_issue_def issue_references_def Let_def validators split: if_splits)

definition gated_receipt :: "bool \<Rightarrow> PolicyReceipt \<Rightarrow> PolicyReceipt" where
  "gated_receipt current receipt = (if current then receipt else receipt\<lparr>pr_effective_scope := empty_scope\<rparr>)"

lemma prepare_acquire_Inr:
  assumes "prepare_acquire secret iv dl rq budget as_of rd s = (s', Inr prep)"
  shows "s' = s\<lparr>ks_sequence := Suc (ks_sequence s)\<rparr>"
    "budget_gate_intersect budget rq = Inr (pa_effective_budget prep)"
    "\<exists>receipt current. validate_acquire (ks_scopes s) iv dl rq = Inr receipt
       \<and> epoch_gate_is_current (ks_scopes s) (actor_epoch iv) rd = Inr current
       \<and> pa_policy_receipt prep = gated_receipt current receipt"
proof -
  from assms obtain receipt current prov where
    v: "validate_acquire (ks_scopes s) iv dl rq = Inr receipt"
    "epoch_gate_is_current (ks_scopes s) (actor_epoch iv) rd = Inr current"
    "budget_gate_intersect budget rq = Inr (pa_effective_budget prep)"
    "pa_policy_receipt prep = gated_receipt current receipt"
    and prov: "provenance_issue secret iv (gated_receipt current receipt) as_of s = (s', Inr prov)"
    unfolding prepare_acquire_def Let_def gated_receipt_def [symmetric] by auto
  from v show "budget_gate_intersect budget rq = Inr (pa_effective_budget prep)"
    "\<exists>receipt current. validate_acquire (ks_scopes s) iv dl rq = Inr receipt
       \<and> epoch_gate_is_current (ks_scopes s) (actor_epoch iv) rd = Inr current
       \<and> pa_policy_receipt prep = gated_receipt current receipt" by auto
  from provenance_issue_Inr(1) [OF prov] show "s' = s\<lparr>ks_sequence := Suc (ks_sequence s)\<rparr>" .
qed

section \<open>Decisions\<close>

definition candidate_target :: "CandidateRef \<Rightarrow> ScopeTarget" where
  "candidate_target c = \<lparr>st_organization_id = cr_organization_id c, st_source_ref = cr_source_ref c,
     st_resource_ref = Some (cr_resource_ref c)\<rparr>"

definition kernel_token :: "scope_heap \<Rightarrow> scope_token" where
  "kernel_token h = \<lparr>tok_kind = AuthorizationKernelScope, tok_sealed = True, tok_id = length h\<rparr>"

text \<open>
  The invariant of a decision between authorization and delivery: it keeps its receipt and budget,
  every projection lies in the effective scope, and its own Kernel scope is the only one that is
  open in addition to the scopes \<open>h\<close> that the call started with.
\<close>

definition decided :: "PolicyReceipt \<Rightarrow> PackageBudget \<Rightarrow> scope_heap \<Rightarrow> kernel_state \<Rightarrow> AuthorizationDecision \<Rightarrow> bool" where
  "decided receipt budget h s d \<longleftrightarrow>
     ad_policy_receipt d = receipt \<and> ad_effective_budget d = budget
     \<and> (\<forall>p \<in> set (ad_projections d). candidate_target (ap_candidate_ref p) |\<in>| es_targets (pr_effective_scope receipt))
     \<and> (ad_projections d = [] \<and> ad_projection_scope d = None \<and> ks_scopes s = h
        \<or> ad_projection_scope d = Some (kernel_token h) \<and> ks_scopes s = h @ [True])"

lemma admitted_target:
  "admitted_as h scope t c l f \<Longrightarrow> candidate_target c |\<in>| es_targets scope"
  by (auto simp: admitted_as_def candidate_target_def locator_target_def locator_matches_candidate_def)

lemma projected_targets:
  assumes "project_all h token iv receipt prov t cs = Inr ps" "p \<in> set ps"
  shows "candidate_target (ap_candidate_ref p) |\<in>| es_targets (pr_effective_scope receipt)"
  using projected_in_scope [OF assms] by (blast intro: admitted_target)

lemma open_kernel_scope: "open_authorization_kernel_scope h = (h @ [True], kernel_token h)"
  by (simp add: open_authorization_kernel_scope_def open_scope_def kernel_token_def)

lemma sealed_decided:
  assumes "authorize_and_project iv receipt prov cs t None s = (s', Inr (ps, scope))"
    and "seal_decision authority i budget receipt prov ps scope {||} = Inr d"
  shows "decided receipt budget (ks_scopes s) s' d" "ad_expanded_candidate_refs d = {||}"
    "s' = s\<lparr>ks_scopes := ks_scopes s'\<rparr>"
proof -
  note d = seal_decision_fields [OF assms(2)]
  from authorize_and_project_Inr [OF assms(1)]
  show "decided receipt budget (ks_scopes s) s' d"
    by (auto simp: decided_def d open_kernel_scope intro: projected_targets)
  from authorize_and_project_Inr [OF assms(1)] show "s' = s\<lparr>ks_scopes := ks_scopes s'\<rparr>" by auto
  show "ad_expanded_candidate_refs d = {||}" by (simp add: d)
qed

lemma acquire_decided:
  assumes "authorize_acquire authority i iv prep cs t s = (s', Inr d)"
  shows "decided (pa_policy_receipt prep) (pa_effective_budget prep) (ks_scopes s) s' d"
    "ad_expanded_candidate_refs d = {||}" "s' = s\<lparr>ks_scopes := ks_scopes s'\<rparr>"
  using sealed_decided [OF authorize_acquire_Inr(1,2) [OF assms]] by blast+

lemma open_citation_decided:
  assumes "authorize_open_citation authority i secret iv dl rq c budget as_of t rd s = (s', Inr d)"
  shows "\<exists>receipt current eff. validate_open_citation (ks_scopes s) iv dl rq = Inr receipt
      \<and> epoch_gate_is_current (ks_scopes s) (actor_epoch iv) rd = Inr current
      \<and> budget_gate_intersect budget rq = Inr eff
      \<and> decided (gated_receipt current receipt) eff (ks_scopes s) s' d"
    "ks_sequence s' = Suc (ks_sequence s)"
proof -
  from assms obtain receipt current eff prov s1 ps scope where
    v: "validate_open_citation (ks_scopes s) iv dl rq = Inr receipt"
    "epoch_gate_is_current (ks_scopes s) (actor_epoch iv) rd = Inr current"
    "budget_gate_intersect budget rq = Inr eff"
    and prov: "provenance_issue secret iv (gated_receipt current receipt) as_of s = (s1, Inr prov)"
    and run: "authorize_and_project iv (gated_receipt current receipt) prov
        (case c of None \<Rightarrow> [] | Some c \<Rightarrow> [c]) t None s1 = (s', Inr (ps, scope))"
    and seal: "seal_decision authority i eff (gated_receipt current receipt) prov ps scope {||} = Inr d"
    unfolding authorize_open_citation_def Let_def gated_receipt_def [symmetric] by auto
  have s1: "ks_scopes s1 = ks_scopes s" "ks_sequence s1 = Suc (ks_sequence s)"
    using provenance_issue_Inr(1) [OF prov] by simp_all
  from sealed_decided [OF run seal] s1 v
  show "\<exists>receipt current eff. validate_open_citation (ks_scopes s) iv dl rq = Inr receipt
      \<and> epoch_gate_is_current (ks_scopes s) (actor_epoch iv) rd = Inr current
      \<and> budget_gate_intersect budget rq = Inr eff
      \<and> decided (gated_receipt current receipt) eff (ks_scopes s) s' d" by auto
  have "s' = s1\<lparr>ks_scopes := ks_scopes s'\<rparr>" by (rule sealed_decided(3) [OF run seal])
  then have "ks_sequence s' = ks_sequence s1" by (metis kernel_state.select_convs(2) kernel_state.surjective kernel_state.update_convs(1))
  with s1 show "ks_sequence s' = Suc (ks_sequence s)" by simp
qed

section \<open>One-hop expansion\<close>

lemma inherited_ref:
  assumes "construct_inherited_authorized_projection h anchor c body refs = Inr p"
  shows "ap_candidate_ref p = c"
  using assms
  by (auto simp: construct_inherited_authorized_projection_def Let_def construct_authorized_projection_eq split: if_splits)

lemma classify_inherit:
  assumes "classify_one_hop h t d item = Inr (Inherit p)"
  shows "ap_candidate_ref p = oh_candidate_ref item
    \<and> (\<exists>anchor \<in> set (ad_projections d). candidate_target (ap_candidate_ref p) = candidate_target (ap_candidate_ref anchor))"
proof -
  from assms obtain anchor where anchor: "anchor_of d (oh_anchor_ref item) = Some anchor"
    "same_article (oh_candidate_ref item) (oh_anchor_ref item)" and p: "ap_candidate_ref p = oh_candidate_ref item"
    by (auto simp: classify_one_hop_def Let_def split: prod.splits option.splits if_splits dest!: inherited_ref)
  from anchor(1) have "anchor \<in> set (ad_projections d)" "ap_candidate_ref anchor = oh_anchor_ref item"
    by (auto simp: anchor_of_def dest!: map_of_SomeD)
  moreover have "candidate_target (oh_candidate_ref item) = candidate_target (oh_anchor_ref item)"
    using anchor(2) by (simp add: same_article_def candidate_target_def)
  ultimately show ?thesis using p by metis
qed

lemma classify_reauthorize: "classify_one_hop h t d item = Inr (Reauthorize c) \<Longrightarrow> c = oh_candidate_ref item"
  by (auto simp: classify_one_hop_def Let_def split: prod.splits option.splits if_splits)

lemma classified_steps:
  assumes "mapr (classify_one_hop h t d) items = Inr steps"
  shows "p \<in> set (inherited_of steps) \<Longrightarrow>
      \<exists>anchor \<in> set (ad_projections d). candidate_target (ap_candidate_ref p) = candidate_target (ap_candidate_ref anchor)"
    and "card (set (map ap_candidate_ref (inherited_of steps)) \<union> set (reauthorize_of steps)) \<le> length items"
proof -
  have mem: "x \<in> set steps \<Longrightarrow> \<exists>item \<in> set items. classify_one_hop h t d item = Inr x" for x
    using mapr_mem [OF assms] .
  then show "p \<in> set (inherited_of steps) \<Longrightarrow>
      \<exists>anchor \<in> set (ad_projections d). candidate_target (ap_candidate_ref p) = candidate_target (ap_candidate_ref anchor)"
    by (fastforce simp: inherited_of_def dest: classify_inherit split: graph_step.splits)
  have "set (map ap_candidate_ref (inherited_of steps)) \<union> set (reauthorize_of steps) \<subseteq> oh_candidate_ref ` set items"
  proof (intro subsetI)
    fix c assume "c \<in> set (map ap_candidate_ref (inherited_of steps)) \<union> set (reauthorize_of steps)"
    then consider p where "Inherit p \<in> set steps" "c = ap_candidate_ref p" | "Reauthorize c \<in> set steps"
      by (auto simp: inherited_of_def reauthorize_of_def split: graph_step.splits)
    then show "c \<in> oh_candidate_ref ` set items"
      by cases (use mem classify_inherit classify_reauthorize in blast)+
  qed
  then have "card (set (map ap_candidate_ref (inherited_of steps)) \<union> set (reauthorize_of steps))
      \<le> card (oh_candidate_ref ` set items)"
    by (intro card_mono) auto
  also have "\<dots> \<le> length items" using card_image_le [of "set items" oh_candidate_ref] card_length [of items] by simp
  finally show "card (set (map ap_candidate_ref (inherited_of steps)) \<union> set (reauthorize_of steps)) \<le> length items" .
qed

lemma one_hop_decided:
  assumes run: "authorize_one_hop authority i iv prep d items t s = (s', Inr d')"
    and inv: "decided receipt budget h s d" "ad_projections d \<noteq> []" "pa_policy_receipt prep = receipt"
  shows "decided receipt budget h s' d'" "s' = s" "ad_projections d' \<noteq> []"
    "fcard (ad_expanded_candidate_refs d') \<le> fcard (ad_expanded_candidate_refs d) + length items"
proof -
  from inv(1,2) have scope: "ad_projection_scope d = Some (kernel_token h)" "ks_scopes s = h @ [True]"
    by (auto simp: decided_def)
  from run obtain steps ps tok where
    steps: "mapr (classify_one_hop (ks_scopes s) t d) items = Inr steps"
    and ps: "authorize_and_project iv receipt (pa_provenance_receipt prep) (reauthorize_of steps) (Some t)
        (Some (kernel_token h)) s = (s', Inr (ps, tok))"
    and seal: "seal_decision authority i (ad_effective_budget d) (ad_policy_receipt d) (ad_provenance_receipt d)
        (ad_projections d @ inherited_of steps @ ps) (ad_projection_scope d)
        (ad_expanded_candidate_refs d |\<union>| fset_of_list (map ap_candidate_ref (inherited_of steps @ ps))) = Inr d'"
    by (auto simp: authorize_one_hop_def Let_def inv(3) scope(1) simp del: fset_of_list_map map_append)
  note d' = seal_decision_fields [OF seal]
  from authorize_and_project_Inr [OF ps] show s': "s' = s" by auto
  from authorize_and_project_Inr [OF ps]
  have new: "\<forall>p \<in> set ps. ap_candidate_ref p \<in> set (reauthorize_of steps)
      \<and> candidate_target (ap_candidate_ref p) |\<in>| es_targets (pr_effective_scope receipt)"
    by (auto dest: projected_in_scope projected_targets)
  moreover have "\<forall>p \<in> set (inherited_of steps). candidate_target (ap_candidate_ref p) |\<in>| es_targets (pr_effective_scope receipt)"
    using classified_steps(1) [OF steps] inv(1) unfolding decided_def by metis
  ultimately show "decided receipt budget h s' d'" "ad_projections d' \<noteq> []"
    using inv(1,2) scope s' by (auto simp: decided_def d' ball_Un)
  let ?new = "map ap_candidate_ref (inherited_of steps @ ps)"
  have "set ?new \<subseteq> set (map ap_candidate_ref (inherited_of steps)) \<union> set (reauthorize_of steps)" using new by auto
  then have "card (set ?new) \<le> card (set (map ap_candidate_ref (inherited_of steps)) \<union> set (reauthorize_of steps))"
    by (intro card_mono) auto
  also note classified_steps(2) [OF steps]
  finally have "fcard (fset_of_list ?new) \<le> length items" by (simp add: fcard.rep_eq fset_of_list.rep_eq)
  moreover have "fcard (ad_expanded_candidate_refs d |\<union>| fset_of_list ?new)
      \<le> fcard (ad_expanded_candidate_refs d) + fcard (fset_of_list ?new)"
    by (simp add: fcard.rep_eq card_Un_le)
  ultimately show "fcard (ad_expanded_candidate_refs d') \<le> fcard (ad_expanded_candidate_refs d) + length items"
    unfolding d' by linarith
qed

text \<open>The expansion stays within its bound and keeps the invariant of the decision.\<close>

lemma one_hop_page_length:
  assumes "discover_materialized_one_hop h session port anchors (PInt limit) offset = Inr page"
  shows "int (length page) \<le> limit \<or> page = []"
  using assms
  by (auto simp: discover_materialized_one_hop_def Let_def validators split: option.splits if_splits)

definition one_hop_page ::
  "Runtime \<Rightarrow> runtime_world \<Rightarrow> AuthenticatedInvocation \<Rightarrow> PreparedAcquireAuthorization \<Rightarrow> authority_session
    \<Rightarrow> CandidateRef list \<Rightarrow> AuthorizationDecision \<Rightarrow> nat \<Rightarrow> MaterializedOneHopCandidate list
    \<Rightarrow> (kernel_state, AuthorizationDecision) exec"
where
  "one_hop_page rt w iv prep session refs d scanned page =
     (let one_hop = filter (\<lambda>item. oh_candidate_ref item \<notin> set refs) page in
      if one_hop = [] then lift (Inr d)
      else authorize_one_hop (rt_authority rt) (rw_decision_id w (Suc scanned)) iv prep d one_hop
             (session, rw_hop_port w scanned))"

text \<open>A returning loop stops at once, or processes one page and then stops or goes on.\<close>

lemma one_hop_loop_cases:
  assumes "one_hop_loop rt w iv prep session main refs d offset scanned s = (s', Inr d')"
  obtains (stop) "s' = s" "d' = d"
  | (page) page s1 d1 where
      "int (fcard (ad_expanded_candidate_refs d)) < graph_limit rt" "int scanned < rt_one_hop_scanned_page_limit rt"
      "discover_materialized_one_hop (ks_scopes s) session (rw_hop_port w scanned) main
         (PInt (graph_limit rt - int (fcard (ad_expanded_candidate_refs d)))) (PInt offset) = Inr page" "page \<noteq> []"
      "one_hop_page rt w iv prep session refs d scanned page s = (s1, Inr d1)"
      "int (length page) < graph_limit rt - int (fcard (ad_expanded_candidate_refs d)) \<and> s' = s1 \<and> d' = d1
       \<or> \<not> int (length page) < graph_limit rt - int (fcard (ad_expanded_candidate_refs d))
         \<and> one_hop_loop rt w iv prep session main refs d1 (offset + int (length page)) (Suc scanned) s1 = (s', Inr d')"
proof -
  note run = assms [unfolded one_hop_loop.simps [of rt w iv prep session main refs d offset scanned] Let_def
      one_hop_page_def [unfolded Let_def, symmetric]]
  show thesis
  proof (cases "int (fcard (ad_expanded_candidate_refs d)) < graph_limit rt \<and> int scanned < rt_one_hop_scanned_page_limit rt")
    case True
    with run obtain page where p: "discover_materialized_one_hop (ks_scopes s) session (rw_hop_port w scanned) main
         (PInt (graph_limit rt - int (fcard (ad_expanded_candidate_refs d)))) (PInt offset) = Inr page"
      and rest: "(if page = [] then lift (Inr d)
         else xbnd (one_hop_page rt w iv prep session refs d scanned page) (\<lambda>d'.
           if int (length page) < graph_limit rt - int (fcard (ad_expanded_candidate_refs d)) then lift (Inr d')
           else one_hop_loop rt w iv prep session main refs d' (offset + int (length page)) (Suc scanned))) s = (s', Inr d')"
      by auto
    show thesis
    proof (cases "page = []")
      case False
      with rest True p page show thesis by (auto split: if_splits)
    qed (use rest stop in simp)
  qed (use run stop in auto)
qed

lemma one_hop_page_decided:
  assumes run: "one_hop_page rt w iv prep session refs d scanned page s = (s', Inr d')"
    and inv: "decided receipt budget h s d" "ad_projections d \<noteq> []" "pa_policy_receipt prep = receipt"
  shows "decided receipt budget h s' d' \<and> s' = s \<and> ad_projections d' \<noteq> []
    \<and> fcard (ad_expanded_candidate_refs d') \<le> fcard (ad_expanded_candidate_refs d) + length page"
proof (cases "filter (\<lambda>item. oh_candidate_ref item \<notin> set refs) page = []")
  case True
  with run have "s' = s" "d' = d" by (simp_all add: one_hop_page_def)
  with inv show ?thesis by simp
next
  case False
  with run have "authorize_one_hop (rt_authority rt) (rw_decision_id w (Suc scanned)) iv prep d
      (filter (\<lambda>item. oh_candidate_ref item \<notin> set refs) page) (session, rw_hop_port w scanned) s = (s', Inr d')"
    by (simp add: one_hop_page_def)
  note step = one_hop_decided [OF this inv]
  from step(4) length_filter_le [of "\<lambda>item. oh_candidate_ref item \<notin> set refs" page]
  have "fcard (ad_expanded_candidate_refs d') \<le> fcard (ad_expanded_candidate_refs d) + length page" by linarith
  with step(1-3) show ?thesis by simp
qed

lemma one_hop_loop_decided:
  assumes "one_hop_loop rt w iv prep session main refs d offset scanned s = (s', Inr d')"
    and "decided receipt budget h s d" "ad_projections d \<noteq> []" "pa_policy_receipt prep = receipt"
    and "int (fcard (ad_expanded_candidate_refs d)) \<le> max 0 (graph_limit rt)"
  shows "decided receipt budget h s' d' \<and> s' = s \<and> int (fcard (ad_expanded_candidate_refs d')) \<le> max 0 (graph_limit rt)"
  using assms
proof (induction "nat (rt_one_hop_scanned_page_limit rt) - scanned" arbitrary: scanned offset d s rule: less_induct)
  case less
  from less.prems(1) show ?case
  proof (cases rule: one_hop_loop_cases)
    case stop
    with less.prems show ?thesis by simp
  next
    case (page page s1 d1)
    have "int (length page) \<le> graph_limit rt - int (fcard (ad_expanded_candidate_refs d))"
      using one_hop_page_length [OF page(3)] page(4) by simp
    with one_hop_page_decided [OF page(5) less.prems(2-4)]
    have step: "decided receipt budget h s1 d1" "s1 = s" "ad_projections d1 \<noteq> []"
      "int (fcard (ad_expanded_candidate_refs d1)) \<le> max 0 (graph_limit rt)" by auto
    have "nat (rt_one_hop_scanned_page_limit rt) - Suc scanned < nat (rt_one_hop_scanned_page_limit rt) - scanned"
      using page(2) by simp
    from page(6) step less.hyps [OF this _ step(1,3) less.prems(4) step(4)] show ?thesis by blast
  qed
qed

text \<open>Ports that agree on the pages within the bound cannot be told apart by the loop.\<close>

lemma one_hop_loop_reads_bounded:
  assumes "\<And>i. int i < rt_one_hop_scanned_page_limit rt \<Longrightarrow> other i = rw_hop_port w i"
  shows "one_hop_loop rt (w\<lparr>rw_hop_port := other\<rparr>) iv prep session main refs d offset scanned
    = one_hop_loop rt w iv prep session main refs d offset scanned"
proof (induction "nat (rt_one_hop_scanned_page_limit rt) - scanned" arbitrary: scanned offset d rule: less_induct)
  case less
  show ?case
  proof (cases "int scanned < rt_one_hop_scanned_page_limit rt")
    case True
    then have "one_hop_loop rt (w\<lparr>rw_hop_port := other\<rparr>) iv prep session main refs d' offset' (Suc scanned)
        = one_hop_loop rt w iv prep session main refs d' offset' (Suc scanned)" for d' offset'
      by (intro less) simp
    with True assms show ?thesis
      by (subst (1 2) one_hop_loop.simps) (simp add: Let_def cong: if_cong)
  next
    case False
    then show ?thesis by (subst (1 2) one_hop_loop.simps) simp
  qed
qed

lemma expand_one_hop_decided:
  assumes "expand_one_hop rt w iv rq prep refs ev d s = (s', Inr (d', ev'))"
    and "decided receipt budget h s d" "pa_policy_receipt prep = receipt" "ad_expanded_candidate_refs d = {||}"
  shows "decided receipt budget h s' d'" "s' = s"
proof -
  from assms(1) consider "s' = s" "d' = d"
    | session where "ad_projections d \<noteq> []"
        "one_hop_loop rt w iv prep session (ad_projections d) refs d 0 0 s = (s', Inr d')"
    by (auto simp: expand_one_hop_def split: option.splits if_splits)
  then have "decided receipt budget h s' d' \<and> s' = s"
  proof cases
    case 2
    from one_hop_loop_decided [OF 2(2) assms(2) 2(1) assms(3)] assms(4) show ?thesis by (auto simp: fcard.rep_eq)
  qed (use assms(2) in simp)
  then show "decided receipt budget h s' d'" "s' = s" by blast+
qed

section \<open>The two carriers\<close>

text \<open>What the policy gate admits of a request: the receipt a decision is made under.\<close>

definition admitted_receipt ::
  "scope_heap \<Rightarrow> AuthenticatedInvocation \<Rightarrow> TrustedDeliveryContext \<Rightarrow> RuntimeRequest \<Rightarrow> (uuid \<Rightarrow> pyval res)
    \<Rightarrow> PolicyReceipt \<Rightarrow> bool"
where
  "admitted_receipt h iv dl rq rd receipt \<longleftrightarrow>
     validate_trusted_invocation_and_delivery h iv dl = Inr ()
     \<and> (\<exists>scope current. current_scope h iv (request_narrowing rq) = Inr scope
          \<and> epoch_gate_is_current h (actor_epoch iv) rd = Inr current
          \<and> receipt = policy_receipt iv dl (if current then scope else empty_scope))"

lemma gated_policy_receipt:
  "gated_receipt current (policy_receipt iv dl scope) = policy_receipt iv dl (if current then scope else empty_scope)"
  by (simp add: gated_receipt_def policy_receipt_def)

lemma admitted_receipt_acquire:
  assumes "validate_acquire h iv dl rq = Inr receipt" "epoch_gate_is_current h (actor_epoch iv) rd = Inr current"
  shows "admitted_receipt h iv dl rq rd (gated_receipt current receipt)"
  using assms by (auto simp: validate_acquire_def admitted_receipt_def request_narrowing_def gated_policy_receipt
      split: RuntimeRequest.splits)

lemma admitted_receipt_open_citation:
  assumes "validate_open_citation h iv dl rq = Inr receipt" "epoch_gate_is_current h (actor_epoch iv) rd = Inr current"
  shows "admitted_receipt h iv dl rq rd (gated_receipt current receipt)"
  using assms by (auto simp: validate_open_citation_def admitted_receipt_def request_narrowing_def gated_policy_receipt
      split: RuntimeRequest.splits)

lemma resolve_acquire_decided:
  assumes "resolve_acquire rt w iv dl rq release as_of s = (s', Inr (d, ev, ledger))"
  shows "\<exists>receipt budget. admitted_receipt (ks_scopes s) iv dl rq (rw_epoch_prepare w) receipt
      \<and> budget_gate_intersect (rt_server_budget rt) rq = Inr budget \<and> decided receipt budget (ks_scopes s) s' d"
    "ks_sequence s' = Suc (ks_sequence s)"
proof -
  from assms obtain s1 prep meter refs ev1 s2 d1 where
    prep: "prepare_acquire (rt_issuer_secret rt) iv dl rq (rt_server_budget rt) (PDatetime as_of) (rw_epoch_prepare w) s
      = (s1, Inr prep)"
    and acq: "authorize_acquire (rt_authority rt) (rw_decision_id w 0) iv prep refs (actor_transaction w iv) s1 = (s2, Inr d1)"
    and hop: "expand_one_hop rt w iv rq prep refs ev1 d1 s2 = (s', Inr (d, ev))"
    unfolding resolve_acquire_def by auto
  note p = prepare_acquire_Inr [OF prep] and a = acquire_decided [OF acq]
  note e = expand_one_hop_decided [OF hop a(1) refl a(2)]
  from p(3) obtain receipt current where r: "validate_acquire (ks_scopes s) iv dl rq = Inr receipt"
    "epoch_gate_is_current (ks_scopes s) (actor_epoch iv) (rw_epoch_prepare w) = Inr current"
    "pa_policy_receipt prep = gated_receipt current receipt" by blast
  from admitted_receipt_acquire [OF r(1,2)] r(3) p(1,2) e(1)
  show "\<exists>receipt budget. admitted_receipt (ks_scopes s) iv dl rq (rw_epoch_prepare w) receipt
      \<and> budget_gate_intersect (rt_server_budget rt) rq = Inr budget \<and> decided receipt budget (ks_scopes s) s' d"
    by auto
  have "ks_sequence s2 = ks_sequence s1" by (subst a(3)) simp
  with e(2) p(1) show "ks_sequence s' = Suc (ks_sequence s)" by simp
qed

lemma resolve_open_citation_decided:
  assumes "resolve_open_citation rt w iv dl rq ref release as_of s = (s', Inr (d, ev, ledger))"
  shows "\<exists>receipt budget. admitted_receipt (ks_scopes s) iv dl rq (rw_epoch_prepare w) receipt
      \<and> budget_gate_intersect (rt_server_budget rt) rq = Inr budget \<and> decided receipt budget (ks_scopes s) s' d"
    "ks_sequence s' = Suc (ks_sequence s)"
proof -
  from assms obtain c where
    "authorize_open_citation (rt_authority rt) (rw_decision_id w 0) (rt_issuer_secret rt) iv dl rq c
       (rt_server_budget rt) (PDatetime as_of) (actor_transaction w iv) (rw_epoch_prepare w) s = (s', Inr d)"
    unfolding resolve_open_citation_def by auto
  from open_citation_decided [OF this] admitted_receipt_open_citation
  show "\<exists>receipt budget. admitted_receipt (ks_scopes s) iv dl rq (rw_epoch_prepare w) receipt
      \<and> budget_gate_intersect (rt_server_budget rt) rq = Inr budget \<and> decided receipt budget (ks_scopes s) s' d"
    "ks_sequence s' = Suc (ks_sequence s)" by blast+
qed

section \<open>Delivery\<close>

text \<open>After \<open>finally\<close> the decision's scope is closed and the rest of the heap is as it was.\<close>

lemma select_and_finalize_Inr:
  assumes "select_and_finalize rt w iv d ev s = (s', Inr r)" "decided receipt budget h s d"
  shows "\<exists>sel. select_for_delivery (rt_authority rt) (ks_scopes s) d ev
        (map_option (map (map_prod id PFloat)) (rt_ranker_weights rt)) = Inr sel
      \<and> finalize_for_delivery (rt_authority rt) (ks_scopes s) iv sel (rw_epoch_final w) = Inr r"
    "ks_scopes s' = h \<or> ks_scopes s' = h @ [False]" "ks_sequence s' = ks_sequence s"
proof -
  let ?h = "if ad_projection_scope d = None then h else h @ [False]"
  have close: "close_authorization_decision d s = (s\<lparr>ks_scopes := ?h\<rparr>, Inr ())"
    using assms(2)
    by (auto simp: decided_def close_authorization_decision_def close_authorization_kernel_scope_def close_scope_def
        kernel_token_def)
  with assms(1) show "\<exists>sel. select_for_delivery (rt_authority rt) (ks_scopes s) d ev
        (map_option (map (map_prod id PFloat)) (rt_ranker_weights rt)) = Inr sel
      \<and> finalize_for_delivery (rt_authority rt) (ks_scopes s) iv sel (rw_epoch_final w) = Inr r"
    by (auto simp: select_and_finalize_def Let_def)
  from assms(1) close have "s' = s\<lparr>ks_scopes := ?h\<rparr>" by (auto simp: select_and_finalize_def Let_def)
  then show "ks_scopes s' = h \<or> ks_scopes s' = h @ [False]" "ks_sequence s' = ks_sequence s" by auto
qed

text \<open>Attaching locators changes nothing else of the content.\<close>

lemma rebuilt_evidence:
  assumes "mapr (\<lambda>e. Evidence_init (PStr (ev_evidence_ref e)) (PStr (ev_source_ref e))
                  (PStr (ev_resource_ref e)) (PStr (ev_revision_ref e)) (PStr (ev_fragment_ref e))
                  (PTuple (map PStr (ev_projected_field_refs e))) (ev_lineage e)
                  (map_of refs (ev_evidence_ref e))) es = Inr es'"
  shows "map ev_source_ref es' = map ev_source_ref es" "map ev_resource_ref es' = map ev_resource_ref es"
  using assms by (induction es arbitrary: es') (auto dest: Evidence_init_fields(2,3))

lemma attach_citation_open_refs_Inr:
  assumes "attach_citation_open_refs content refs = Inr content'"
  shows "map ev_source_ref (pc_evidence content') = map ev_source_ref (pc_evidence content)
      \<and> map ev_resource_ref (pc_evidence content') = map ev_resource_ref (pc_evidence content)"
proof -
  from assms obtain es' where es': "mapr (\<lambda>e. Evidence_init (PStr (ev_evidence_ref e)) (PStr (ev_source_ref e))
                  (PStr (ev_resource_ref e)) (PStr (ev_revision_ref e)) (PStr (ev_fragment_ref e))
                  (PTuple (map PStr (ev_projected_field_refs e))) (ev_lineage e)
                  (map_of refs (ev_evidence_ref e))) (pc_evidence content) = Inr es'"
    and "pc_evidence content' = es'"
    by (auto simp: attach_citation_open_refs_def construct_validated_package_content_def)
  then show ?thesis using rebuilt_evidence [OF es'] by simp
qed

lemma attach_citations_Inr:
  assumes "attach_citations rt w h iv prov content = Inr content'"
  shows "map ev_source_ref (pc_evidence content') = map ev_source_ref (pc_evidence content)
      \<and> map ev_resource_ref (pc_evidence content') = map ev_resource_ref (pc_evidence content)"
proof -
  have "content' = content \<or> (\<exists>refs. attach_citation_open_refs content refs = Inr content')"
    using assms unfolding attach_citations_def by (simp split: option.splits if_split_asm) blast
  then show ?thesis using attach_citation_open_refs_Inr by fastforce
qed

text \<open>The record that accounts for a package.\<close>

definition run_accounts_for :: "ContextRunRecord \<Rightarrow> DecisionAuditRecord option \<Rightarrow> ContextPackage \<Rightarrow> PackageBudget \<Rightarrow> bool" where
  "run_accounts_for run audit package budget \<longleftrightarrow>
     rn_package_digest run = cp_package_digest package \<and> rn_package_ref run = cp_package_id package
     \<and> rn_authorized_evidence_refs run = map ev_evidence_ref (cp_evidence package)
     \<and> (audit = None \<longleftrightarrow> cp_evidence package \<noteq> [])"

lemma build_records_Inr:
  assumes "build_context_run_records canon h iv rq prov package scope budget keyring release = Inr (run, audit)"
  shows "run_accounts_for run audit package budget" "fits budget (cp_budget_usage package)"
    "scope = empty_scope \<or> run_authorized_scope h iv rq = Inr scope" "run_audit run = Inr audit"
proof -
  from assms obtain q where
    run: "ContextRunRecord_post_init (run_record iv prov package budget q release) = Inr run"
    and audit: "run_audit run = Inr audit"
    and scope: "scope = empty_scope \<or> run_authorized_scope h iv rq = Inr scope"
    unfolding build_context_run_records_def by (auto split: RuntimeRequest.splits option.splits if_splits)
  from run have eq: "run = run_record iv prov package budget q release"
    and e: "check_run_evidence run = Inr ()" and b: "check_run_budget run = Inr ()"
    by (auto simp: ContextRunRecord_post_init_def)
  from b show "fits budget (cp_budget_usage package)"
    by (simp add: check_run_budget_def fits_def eq run_record_def Let_def)
  from audit have "audit = None \<longleftrightarrow> rn_outcome run \<noteq> DELIVERED_EMPTY"
    by (auto simp: run_audit_def split: if_splits)
  moreover from e have "rn_outcome run = DELIVERED_EMPTY \<longleftrightarrow> rn_authorized_evidence_refs run = []"
    by (auto simp: check_run_evidence_def Let_def)
  ultimately show "run_accounts_for run audit package budget"
    by (simp add: run_accounts_for_def eq run_record_def Let_def)
  from scope show "scope = empty_scope \<or> run_authorized_scope h iv rq = Inr scope" .
  from audit show "run_audit run = Inr audit" .
qed

lemma build_package_content:
  assumes "build_package rt w finalized content audience release ledger = Inr package"
  shows "cp_evidence package = pc_evidence content" "cp_blocks package = pc_blocks content"
proof -
  from assms obtain p where "ContextPackage_post_init (rw_canon w) p = Inr package"
    "cp_evidence p = pc_evidence content" "cp_blocks p = pc_blocks content"
    by (auto simp: build_package_def Let_def)
  moreover have "cp_evidence (p\<lparr>cp_package_digest := x\<rparr>) = cp_evidence p" "cp_blocks (p\<lparr>cp_package_digest := x\<rparr>) = cp_blocks p" for x
    by simp_all
  ultimately show "cp_evidence package = pc_evidence content" "cp_blocks package = pc_blocks content"
    using post_init_Inr(1) by metis+
qed

lemma scope_decision_digest: "ScopeDecisionReceipt_init digest n e = Inr r \<Longrightarrow> sd_digest r = digest"
  by (auto simp: ScopeDecisionReceipt_init_def)

lemma deliver_Inr:
  assumes "deliver rt w h iv dl rq release as_of budget ledger finalized = Inr (Delivered r)"
  shows "rs_effective_budget r = budget"
    "\<exists>run audit. rw_persist w run audit = Inr () \<and> run_accounts_for run audit (rs_package r) budget"
    "fits budget (cp_budget_usage (rs_package r))"
    "map ev_source_ref (cp_evidence (rs_package r)) = map ev_source_ref (pc_evidence (fr_content finalized))"
    "map ev_resource_ref (cp_evidence (rs_package r)) = map ev_resource_ref (pc_evidence (fr_content finalized))"
    "sd_digest (rs_scope_decision r) = es_digest (pr_effective_scope (fr_policy_receipt finalized))"
proof -
  from assms obtain content audience ledger' where
    c: "attach_citations rt w h iv (fr_provenance_receipt finalized) (fr_content finalized) = Inr content"
    and p: "build_package rt w finalized content audience release ledger' = Inr (rs_package r)"
    and pd: "persist_delivery rt w h iv rq finalized (rs_package r) budget release = Inr ()"
    and b: "rs_effective_budget r = budget"
    and sd: "ScopeDecisionReceipt_init (es_digest (pr_effective_scope (fr_policy_receipt finalized)))
        (int (fcard (es_targets (pr_effective_scope (fr_policy_receipt finalized)))))
        (es_targets (pr_effective_scope (fr_policy_receipt finalized)) = {||}) = Inr (rs_scope_decision r)"
    unfolding deliver_def Let_def by (auto split: if_splits)
  from pd obtain session keyring run audit where
    records: "build_context_run_records (rw_canon w) h iv rq (fr_provenance_receipt finalized) (rs_package r)
      (pr_effective_scope (fr_policy_receipt finalized)) budget keyring release = Inr (run, audit)"
    and persist: "persist_context_run h session (rw_persist w) run audit = Inr ()"
    by (auto simp: persist_delivery_def split: option.splits)
  from persist have "rw_persist w run audit = Inr ()"
    by (auto simp: persist_context_run_def split: sum.splits)
  with build_records_Inr [OF records] b
  show "rs_effective_budget r = budget" "fits budget (cp_budget_usage (rs_package r))"
    "\<exists>run audit. rw_persist w run audit = Inr () \<and> run_accounts_for run audit (rs_package r) budget" by blast+
  from attach_citations_Inr [OF c] build_package_content [OF p]
  show "map ev_source_ref (cp_evidence (rs_package r)) = map ev_source_ref (pc_evidence (fr_content finalized))"
    "map ev_resource_ref (cp_evidence (rs_package r)) = map ev_resource_ref (pc_evidence (fr_content finalized))" by simp_all
  from scope_decision_digest [OF sd]
  show "sd_digest (rs_scope_decision r) = es_digest (pr_effective_scope (fr_policy_receipt finalized))" .
qed

text \<open>A returning call of an available carrier, stage by stage.\<close>

lemma resolve_available_Inr:
  assumes "resolve_available rt w iv dl rq s = (s', Inr outcome)"
  obtains receipt budget s1 d ev ledger finalized release as_of where
    "admitted_receipt (ks_scopes s) iv dl rq (rw_epoch_prepare w) receipt"
    "budget_gate_intersect (rt_server_budget rt) rq = Inr budget"
    "decided receipt budget (ks_scopes s) s1 d" "ks_sequence s1 = Suc (ks_sequence s)"
    "select_and_finalize rt w iv d ev s1 = (s', Inr finalized)"
    "deliver rt w (ks_scopes s') iv dl rq release as_of budget ledger finalized = Inr outcome"
proof -
  from assms obtain release as_of s1 d ev ledger finalized where
    run: "(case rq of
        Acquire need' budget restriction \<Rightarrow> resolve_acquire rt w iv dl rq release as_of
      | OpenCitation ref \<Rightarrow> resolve_open_citation rt w iv dl rq ref release as_of
      | Continue token budget \<Rightarrow> lift (Inl RuntimeConfigurationError)) s = (s1, Inr (d, ev, ledger))"
    and fin: "select_and_finalize rt w iv d ev s1 = (s', Inr finalized)"
    and del: "deliver rt w (ks_scopes s') iv dl rq release as_of (ad_effective_budget d) ledger finalized = Inr outcome"
    unfolding resolve_available_def by (auto split: option.splits if_splits)
  have "(\<exists>receipt budget. admitted_receipt (ks_scopes s) iv dl rq (rw_epoch_prepare w) receipt
      \<and> budget_gate_intersect (rt_server_budget rt) rq = Inr budget \<and> decided receipt budget (ks_scopes s) s1 d)
      \<and> ks_sequence s1 = Suc (ks_sequence s)"
    using run resolve_acquire_decided resolve_open_citation_decided by (cases rq) auto
  then obtain receipt budget where "admitted_receipt (ks_scopes s) iv dl rq (rw_epoch_prepare w) receipt"
    "budget_gate_intersect (rt_server_budget rt) rq = Inr budget" "decided receipt budget (ks_scopes s) s1 d"
    "ks_sequence s1 = Suc (ks_sequence s)" by blast
  moreover from this(3) have "ad_effective_budget d = budget" by (simp add: decided_def)
  ultimately show thesis using that fin del by blast
qed

lemma scopes_closed:
  assumes "ks_scopes s' = h \<or> ks_scopes s' = h @ [False]"
  shows "scope_active k (ks_scopes s') token \<longleftrightarrow> scope_active k h token"
  using assms scope_active_closed_slot by metis

lemma preflight_Inr:
  assumes "preflight_unavailable_request secret iv dl rq budget as_of rd s = (s', Inr ())"
  shows "ks_scopes s' = ks_scopes s" "ks_sequence s' = Suc (ks_sequence s)"
    "ks_unsupported s' = ks_unsupported s + 1"
  using assms
  by (auto simp: preflight_unavailable_request_def record_unsupported_def Let_def dest!: provenance_issue_Inr(1)
      split: if_splits)

lemma provenance_issue_scopes: "provenance_issue secret iv receipt as_of s = (s', r) \<Longrightarrow> ks_scopes s' = ks_scopes s"
  by (auto simp: provenance_issue_def issue_references_def xbnd_def Let_def split: sum.splits prod.splits if_splits)

lemma preflight_scopes:
  "preflight_unavailable_request secret iv dl rq budget as_of rd s = (s', r) \<Longrightarrow> ks_scopes s' = ks_scopes s"
  by (auto simp: preflight_unavailable_request_def record_unsupported_def xbnd_def Let_def
      split: sum.splits prod.splits if_splits dest: provenance_issue_scopes)

lemma resolve_Inr:
  assumes "resolve rt w iv dl rq s = (s', Inr outcome)"
  shows "(\<exists>as_of. preflight_unavailable_request (rt_issuer_secret rt) iv dl rq (rt_server_budget rt) (PDatetime as_of)
        (rw_epoch_prepare w) s = (s', Inr ())) \<and> (\<forall>r. outcome \<noteq> Delivered r)
    \<or> resolve_available rt w iv dl rq s = (s', Inr outcome)"
  using assms by (auto simp: resolve_def Let_def split: sum.splits if_splits)

text \<open>What the selector may pack lies in the scope of the decision.\<close>

lemma same_images_member:
  assumes "map f xs = map f ys" "map g xs = map g ys" "x \<in> set xs"
  shows "\<exists>y \<in> set ys. f y = f x \<and> g y = g x"
proof -
  from assms(1) have "length xs = length ys" by (rule map_eq_imp_length_eq)
  from this assms show ?thesis by (induction xs ys rule: list_induct2) auto
qed

lemma finalized_in_scope:
  assumes "select_for_delivery authority h d ev weights = Inr sel" "decided receipt budget h0 s d"
    and "finalize_for_delivery authority h iv sel rd = Inr r" "e \<in> set (pc_evidence (fr_content r))"
  shows "\<exists>target. target |\<in>| es_targets (pr_effective_scope receipt) \<and> st_source_ref target = ev_source_ref e
      \<and> st_resource_ref target = Some (ev_resource_ref e)"
    "rd (pv_organization_id (actor_epoch iv)) = Inr (PInt (pv_policy_epoch (actor_epoch iv)))"
proof -
  from assms(1) obtain selected m where
    content: "construct_package_content h (map ri_projection selected) = Inr (sp_content sel)"
    and mem: "\<And>i. i \<in> set selected \<Longrightarrow> ri_projection i \<in> set (ad_projections d)"
    and "list_all encodes selected"
    and "selected \<noteq> [] \<Longrightarrow> sum_list (map body_tokens selected) \<le> max_tokens (ad_effective_budget d)"
    and "sp_decision sel = d" "sp_effective_budget_limits sel = ad_effective_budget_limits d"
    and "selection_integrity_material authority d (sp_content sel) (ad_effective_budget_limits d) = Inr m"
    and "sp_integrity_seal sel = issue_selection_authority_seal authority m"
    by (rule select_for_delivery_Inr) blast
  from final_gate_cases [OF assms(3)] assms(4) have same: "fr_content r = sp_content sel"
    and epoch: "rd (pv_organization_id (actor_epoch iv)) = Inr (PInt (pv_policy_epoch (actor_epoch iv)))" by auto
  show "rd (pv_organization_id (actor_epoch iv)) = Inr (PInt (pv_policy_epoch (actor_epoch iv)))" by (rule epoch)
  from content_evidence_lineage [OF content] assms(4) same mem obtain p where p: "p \<in> set (ad_projections d)"
    "ev_source_ref e = cr_source_ref (ap_candidate_ref p)" "ev_resource_ref e = cr_resource_ref (ap_candidate_ref p)"
    by fastforce
  with assms(2) have "candidate_target (ap_candidate_ref p) |\<in>| es_targets (pr_effective_scope receipt)"
    by (simp add: decided_def)
  with p(2,3) show "\<exists>target. target |\<in>| es_targets (pr_effective_scope receipt) \<and> st_source_ref target = ev_source_ref e
      \<and> st_resource_ref target = Some (ev_resource_ref e)"
    by (intro exI [of _ "candidate_target (ap_candidate_ref p)"]) (simp add: candidate_target_def)
qed

text \<open>A target of an admitted receipt is in the scope that the trusted operands give.\<close>

lemma admitted_receipt_target:
  assumes "admitted_receipt h iv dl rq rd receipt" "target |\<in>| es_targets (pr_effective_scope receipt)"
  shows "target |\<in>| es_targets (compute_effective_scope (ts_operands (iv_trusted_scope_snapshot iv)) (request_narrowing rq))"
    "st_organization_id target = ua_organization_id (iv_user_actor iv)"
    "rd (pv_organization_id (actor_epoch iv)) = Inr (PInt (pv_policy_epoch (actor_epoch iv)))"
proof -
  let ?snap = "iv_trusted_scope_snapshot iv"
  from assms obtain scope where scope: "current_scope h iv (request_narrowing rq) = Inr scope"
    and epoch: "epoch_gate_is_current h (actor_epoch iv) rd = Inr True"
    and v: "validate_trusted_invocation_and_delivery h iv dl = Inr ()"
    and target: "target |\<in>| es_targets scope"
    by (auto simp: admitted_receipt_def policy_receipt_def empty_scope_def split: if_splits)
  from scope target have ops: "trusted_operands_from_snapshot h ?snap = Inr (ts_operands ?snap)"
    and eq: "scope = compute_effective_scope (ts_operands ?snap) (request_narrowing rq)"
    by (auto simp: current_scope_def Let_def empty_scope_def trusted_operands_from_snapshot_def split: if_splits)
  from target eq show "target |\<in>| es_targets (compute_effective_scope (ts_operands ?snap) (request_narrowing rq))" by simp
  from snapshot_targets_in_organization [OF ops] target eq have "st_organization_id target = ts_organization_id ?snap"
    by blast
  with v show "st_organization_id target = ua_organization_id (iv_user_actor iv)"
    by (simp add: validate_trusted_eq snapshot_matches_def)
  from epoch_gate_confirms [OF epoch]
  show "rd (pv_organization_id (actor_epoch iv)) = Inr (PInt (pv_policy_epoch (actor_epoch iv)))" .
qed

text \<open>Only the expansion reads the pages.\<close>

lemma hop_port_unused:
  "resolve_budget_meter (w\<lparr>rw_hop_port := p\<rparr>) = resolve_budget_meter w"
  "discover_candidates rt (w\<lparr>rw_hop_port := p\<rparr>) = discover_candidates rt w"
  "actor_transaction (w\<lparr>rw_hop_port := p\<rparr>) = actor_transaction w"
  "redeemed_candidate (w\<lparr>rw_hop_port := p\<rparr>) = redeemed_candidate w"
  "select_and_finalize rt (w\<lparr>rw_hop_port := p\<rparr>) = select_and_finalize rt w"
  "citation_reference rt (w\<lparr>rw_hop_port := p\<rparr>) = citation_reference rt w"
  "attach_citations rt (w\<lparr>rw_hop_port := p\<rparr>) = attach_citations rt w"
  "package_audience (w\<lparr>rw_hop_port := p\<rparr>) = package_audience w"
  "build_package rt (w\<lparr>rw_hop_port := p\<rparr>) = build_package rt w"
  "persist_delivery rt (w\<lparr>rw_hop_port := p\<rparr>) = persist_delivery rt w"
proof -
  show cite: "citation_reference rt (w\<lparr>rw_hop_port := p\<rparr>) = citation_reference rt w"
    by (intro ext) (simp add: citation_reference_def Let_def)
  show "attach_citations rt (w\<lparr>rw_hop_port := p\<rparr>) = attach_citations rt w"
    by (intro ext) (simp add: attach_citations_def cite cong: option.case_cong if_cong)
  show "resolve_budget_meter (w\<lparr>rw_hop_port := p\<rparr>) = resolve_budget_meter w"
    by (intro ext) (simp add: resolve_budget_meter_def cong: if_cong)
  show "discover_candidates rt (w\<lparr>rw_hop_port := p\<rparr>) = discover_candidates rt w"
    by (intro ext) (simp add: discover_candidates_def Let_def cong: if_cong option.case_cong)
  show "actor_transaction (w\<lparr>rw_hop_port := p\<rparr>) = actor_transaction w"
    by (intro ext) (simp add: actor_transaction_def)
  show "redeemed_candidate (w\<lparr>rw_hop_port := p\<rparr>) = redeemed_candidate w"
    by (intro ext) (simp add: redeemed_candidate_def Let_def cong: option.case_cong)
  show "select_and_finalize rt (w\<lparr>rw_hop_port := p\<rparr>) = select_and_finalize rt w"
    by (intro ext) (simp add: select_and_finalize_def)
  show "package_audience (w\<lparr>rw_hop_port := p\<rparr>) = package_audience w"
    by (intro ext) (simp add: package_audience_def Let_def cong: option.case_cong)
  show "build_package rt (w\<lparr>rw_hop_port := p\<rparr>) = build_package rt w"
    by (intro ext) (simp add: build_package_def Let_def)
  show "persist_delivery rt (w\<lparr>rw_hop_port := p\<rparr>) = persist_delivery rt w"
    by (intro ext) (simp add: persist_delivery_def cong: option.case_cong)
qed

end
