(* ===== verification/Concrete_Run.thy ===== *)
theory Concrete_Run
  imports Resolution
begin

text \<open>
  One complete call of \<open>Runtime.resolve\<close> that delivers a package with one Evidence: the theorems
  about the entry point are instantiated on it. The Organization is a parameter, because the
  reference issuer refuses a package reference that happens to contain the Organization's own
  identifier; \<open>suitable_organization\<close> finds one that does not.
\<close>

section \<open>The call\<close>

definition run_candidate :: "uuid \<Rightarrow> CandidateRef" where
  "run_candidate org = example_candidate\<lparr>cr_organization_id := org\<rparr>"

definition run_locator :: "uuid \<Rightarrow> MaterializedFragmentLocator" where
  "run_locator org = example_locator\<lparr>ml_organization_id := org\<rparr>"

definition run_operands :: "uuid \<Rightarrow> TrustedScopeOperands" where
  "run_operands org = (let s = ScopeSet {|locator_target (run_locator org)|} in
     \<lparr>organization_boundary = s, membership_rights = s, principal_grants = s, agent_ceiling = s,
      source_native_acl = s, resource_acl = s, purpose_policy = s\<rparr>)"

definition run_snapshot :: "uuid \<Rightarrow> TrustedScopeSnapshot" where
  "run_snapshot org = example_snapshot\<lparr>ts_organization_id := org, ts_operands := run_operands org\<rparr>"

definition run_release :: "uuid \<Rightarrow> ActiveRuntimeRelease" where
  "run_release org = (example_release 1)\<lparr>ar_organization_id := org, ar_package_schema_ref := PACKAGE_SCHEMA_REF_V0,
     ar_tokenizer_profile_digest := HISTORICAL_UTF8_BYTE_TOKENIZER_PROFILE_DIGEST\<rparr>"

definition run_epoch :: "uuid \<Rightarrow> PolicyEpochVerification" where
  "run_epoch org = example_call_epoch\<lparr>pv_organization_id := org,
     pv_validation_session := (pv_validation_session example_call_epoch)\<lparr>ps_organization_id := org\<rparr>\<rparr>"

definition run_persistence :: authority_session where
  "run_persistence = \<lparr>ss_id = 1, ss_scope = example_token ContextRunPersistenceScope 4, ss_port_complete = True\<rparr>"

definition run_membership :: "uuid \<Rightarrow> CurrentMembershipVerification" where
  "run_membership org = example_membership\<lparr>mv_organization_id := org,
     mv_policy_epoch_verification := (0, run_epoch org),
     mv_context_run_persistence_session := Some run_persistence,
     mv_active_runtime_release := Some (0, run_release org)\<rparr>"

definition run_organization :: "uuid \<Rightarrow> ExistingOrganizationVerification" where
  "run_organization org = example_organization\<lparr>ov_organization_id := org\<rparr>"

definition run_actor :: "uuid \<Rightarrow> UserActor" where
  "run_actor org = example_actor\<lparr>ua_organization_id := org, ua_policy_epoch_verification := (0, run_epoch org),
     ua_context_run_persistence_session := Some run_persistence,
     ua_active_runtime_release := Some (0, run_release org),
     ua_current_membership_verification := run_membership org\<rparr>"

definition run_invocation :: "uuid \<Rightarrow> AuthenticatedInvocation" where
  "run_invocation org = example_invocation\<lparr>iv_organization_ref := uuid_str org,
     iv_organization_verification := run_organization org, iv_user_actor := run_actor org,
     iv_trusted_scope_snapshot := run_snapshot org\<rparr>"

definition run_heap :: scope_heap where
  "run_heap = example_heap @ [True]"

definition run_kernel :: kernel_state where
  "run_kernel = \<lparr>ks_scopes = run_heap, ks_sequence = 0, ks_unsupported = 0\<rparr>"

definition run_request :: RuntimeRequest where
  "run_request = Acquire \<lparr>query = u ''q''\<rparr> None None"

section \<open>The call is valid\<close>

text \<open>The first five scopes are those of the call; the Kernel opens and closes a sixth.\<close>

lemma run_actor_active: "require_active_user_actor (run_heap @ t) (run_actor org) = Inr ()"
proof -
  have "construct_user_actor (run_heap @ t) (run_membership org) = Inr (run_actor org)"
    by (simp add: construct_user_actor_def require_active_current_membership_verification_def validators
        run_membership_def run_epoch_def run_persistence_def run_actor_def run_release_def run_heap_def example_release_def
        example_membership_def example_call_epoch_def example_epoch_def example_epoch_session_def
        example_token_def example_heap_def scope_active_def max_signed64_def example_actor_def example_snapshot_def)
  then show ?thesis by (rule constructed_actor_active)
qed

lemma run_snapshot_active: "require_active_trusted_scope_snapshot (run_heap @ t) (run_snapshot org) = Inr ()"
  by (simp add: validators run_snapshot_def run_heap_def example_snapshot_def example_heap_def scope_active_def
      max_signed64_def)

lemma run_call_valid: "validate_trusted_invocation_and_delivery run_heap (run_invocation org) example_delivery = Inr ()"
proof -
  have "require_active_user_actor run_heap (iv_user_actor (run_invocation org)) = Inr ()"
    "require_active_trusted_scope_snapshot run_heap (iv_trusted_scope_snapshot (run_invocation org)) = Inr ()"
    using run_actor_active [of "[]"] run_snapshot_active [of "[]"] by (simp_all add: run_invocation_def)
  then show ?thesis
    unfolding validate_trusted_eq
    by (simp add: organization_matches_def actor_matches_def snapshot_matches_def delivery_matches_def)
      (simp add: run_invocation_def run_organization_def run_actor_def run_snapshot_def
        example_invocation_def example_organization_def example_actor_def example_snapshot_def example_delivery_def
        canonical_uuid_eq)
qed

text \<open>Only finitely many Organizations occur in a given reference.\<close>

lemma contained_organizations: "card {org. str_contains whole (uuid_hex org)} \<le> Suc (length whole)"
proof -
  let ?at = "\<lambda>org. LEAST i. i < Suc (length whole) \<and> str_startswith (drop i whole) (uuid_hex org)"
  have at: "?at org < Suc (length whole) \<and> str_startswith (drop (?at org) whole) (uuid_hex org)"
    if "str_contains whole (uuid_hex org)" for org
  proof (rule LeastI_ex)
    from that show "\<exists>i. i < Suc (length whole) \<and> str_startswith (drop i whole) (uuid_hex org)"
      unfolding str_contains_def list_ex_iff set_upt by auto
  qed
  have "inj_on ?at {org. str_contains whole (uuid_hex org)}"
  proof (rule inj_onI)
    fix a b assume "a \<in> {org. str_contains whole (uuid_hex org)}" "b \<in> {org. str_contains whole (uuid_hex org)}"
      and same: "?at a = ?at b"
    then have "str_startswith (drop (?at a) whole) (uuid_hex a)" "str_startswith (drop (?at a) whole) (uuid_hex b)"
      using at [of a] at [of b] by simp_all
    then have "uuid_hex a = uuid_hex b" by (simp add: str_startswith_def uuid_hex_def)
    then show "a = b" by (rule uuid_hex_inject)
  qed
  moreover have "?at ` {org. str_contains whole (uuid_hex org)} \<subseteq> {..<Suc (length whole)}" using at by blast
  ultimately have "card {org. str_contains whole (uuid_hex org)} \<le> card {..<Suc (length whole)}"
    by (intro card_inj_on_le) auto
  then show ?thesis by simp
qed

lemma suitable_organization:
  assumes "length p + length d < 1000"
  obtains org :: uuid where "\<not> str_contains p (uuid_hex org)" "\<not> str_contains d (uuid_hex org)"
proof -
  let ?bad = "{org. str_contains p (uuid_hex org)} \<union> {org. str_contains d (uuid_hex org)}"
  have "card ?bad \<le> Suc (length p) + Suc (length d)"
    using card_Un_le contained_organizations by (meson add_mono le_trans)
  also have "\<dots> < 2 ^ 128" using assms by simp
  also have "(2 :: nat) ^ 128 = CARD(uuid)" by (simp add: card_word)
  finally have "?bad \<noteq> UNIV" by auto
  then show ?thesis using that by blast
qed

text \<open>The references that the first call of a fresh Kernel issues.\<close>

definition run_references :: IssuedReferences where
  "run_references = \<lparr>ir_package_id = u ''pkg_'' @ reference_entropy [] 1 ''package'',
     ir_decision_ref = u ''dec_'' @ reference_entropy [] 1 ''decision'',
     ir_run_ref = u ''run_'' @ reference_entropy [] 1 ''run'',
     ir_policy_snapshot_ref = u ''policy_'' @ reference_entropy [] 1 ''policy'',
     ir_source_acl_decision_ref = u ''sourceacl_'' @ reference_entropy [] 1 ''source-acl''\<rparr>"

definition suitable :: "uuid \<Rightarrow> bool" where
  "suitable org \<longleftrightarrow> \<not> str_contains (ir_package_id run_references) (uuid_hex org)
     \<and> \<not> str_contains (ir_decision_ref run_references) (uuid_hex org)"

lemma length_entropy [simp]: "length (reference_entropy secret n label) = 32"
  by (simp add: reference_entropy_def)

lemma entropy_hex: "list_all is_hex (reference_entropy secret n label)"
  using hmac_hexdigest_hex [of secret "ascii label @ ascii '':'' @ to_bytes 16 n"]
  by (auto simp: reference_entropy_def list_all_iff dest: in_set_takeD)

lemma suitable_exists: obtains org where "suitable org"
  by (rule suitable_organization [of "ir_package_id run_references" "ir_decision_ref run_references"])
    (simp_all add: suitable_def run_references_def u_def)

lemma run_closed_refs:
  "require_closed_opaque_ref (u ''pkg'') (PStr (ir_package_id run_references)) = Inr (ir_package_id run_references)"
  "require_closed_opaque_ref (u ''dec'') (PStr (ir_decision_ref run_references)) = Inr (ir_decision_ref run_references)"
  using entropy_hex by (simp_all add: require_closed_opaque_ref.simps run_references_def str_startswith_def u_def)

lemma run_issue: "issue_references [] run_kernel = (run_kernel\<lparr>ks_sequence := 1\<rparr>, Inr run_references)"
  by (simp add: issue_references_def run_kernel_def run_references_def)

section \<open>Preparation\<close>

definition run_policy :: "uuid \<Rightarrow> PolicyReceipt" where
  "run_policy org = \<lparr>pr_request_id = u ''r'', pr_purpose = u ''ask'', pr_policy_epoch = 7,
     pr_effective_scope = EffectiveScope_init {|locator_target (run_locator org)|}\<rparr>"

definition run_provenance :: "uuid \<Rightarrow> PolicyReceipt \<Rightarrow> DecisionProvenanceReceipt" where
  "run_provenance org receipt = example_provenance\<lparr>dp_decision_ref := ir_decision_ref run_references,
     dp_package_id := ir_package_id run_references, dp_organization_id := org,
     dp_effective_scope_digest := es_digest (pr_effective_scope receipt), dp_run_ref := ir_run_ref run_references,
     dp_policy_snapshot_ref := ir_policy_snapshot_ref run_references,
     dp_source_acl_decision_ref := ir_source_acl_decision_ref run_references\<rparr>"

lemma run_provenance_issued:
  assumes "suitable org" "pr_request_id receipt = u ''r''" "pr_purpose receipt = u ''ask''" "pr_policy_epoch receipt = 7"
  shows "provenance_issue [] (run_invocation org) receipt (PDatetime example_datetime) run_kernel
    = (run_kernel\<lparr>ks_sequence := 1\<rparr>, Inr (run_provenance org receipt))"
proof -
  have "require_utc (PDatetime example_datetime) = Inr example_datetime"
    by (simp add: validators is_aware_utc_def example_datetime_def)
  with assms show ?thesis
    by (simp add: provenance_issue_def run_issue run_closed_refs suitable_def Let_def)
      (simp add: run_invocation_def run_organization_def run_provenance_def run_actor_def example_provenance_def
        example_invocation_def example_actor_def)
qed

lemma run_epoch_current:
  "epoch_gate_is_current (run_heap @ t) (actor_epoch (run_invocation org)) (\<lambda>_. Inr (PInt 7)) = Inr True"
proof -
  let ?v = "actor_epoch (run_invocation org)"
  have "require_active_policy_epoch_verification (run_heap @ t) ?v = Inr ()"
    unfolding require_active_policy_epoch_verification_eq
    by (auto simp: actor_epoch_def run_invocation_def run_actor_def run_epoch_def run_heap_def
      example_call_epoch_def example_epoch_def example_epoch_session_def example_token_def example_heap_def
      scope_active_def max_signed64_def)
  moreover have "pv_policy_epoch ?v = 7"
    by (simp add: actor_epoch_def run_invocation_def run_actor_def run_epoch_def example_call_epoch_def example_epoch_def)
  ultimately show ?thesis
    by (simp add: epoch_gate_is_current_def policy_epoch_is_current_def max_signed64_def)
qed

lemma run_scope:
  "compute_effective_scope (run_operands org) None = EffectiveScope_init {|locator_target (run_locator org)|}"
  by (simp add: compute_effective_scope_def run_operands_def operand_list_def Let_def narrow_targets_def)

lemma run_trusted_operands: "trusted_operands_from_snapshot (run_heap @ t) (run_snapshot org) = Inr (run_operands org)"
  using run_snapshot_active [of t org]
  by (simp add: trusted_operands_from_snapshot_def as_invalid_snapshot_def)
    (simp add: run_snapshot_def example_snapshot_def,
     simp add: run_operands_def operand_list_def Let_def require_operand_organization_def locator_target_def
       run_locator_def)

lemma run_current_scope:
  "current_scope run_heap (run_invocation org) None = Inr (EffectiveScope_init {|locator_target (run_locator org)|})"
  using run_trusted_operands [of "[]" org] run_scope [of org]
  by (simp add: current_scope_def Let_def run_invocation_def)
    (simp add: run_snapshot_def example_snapshot_def example_invocation_def)

definition run_preparation :: "uuid \<Rightarrow> PreparedAcquireAuthorization" where
  "run_preparation org = \<lparr>pa_effective_budget = example_budget, pa_policy_receipt = run_policy org,
     pa_provenance_receipt = run_provenance org (run_policy org)\<rparr>"

lemma run_prepared:
  assumes "suitable org"
  shows "prepare_acquire [] (run_invocation org) example_delivery run_request example_budget (PDatetime example_datetime)
      (\<lambda>_. Inr (PInt 7)) run_kernel = (run_kernel\<lparr>ks_sequence := 1\<rparr>, Inr (run_preparation org))"
proof -
  have "policy_receipt (run_invocation org) example_delivery (EffectiveScope_init {|locator_target (run_locator org)|})
      = run_policy org"
    by (simp add: policy_receipt_def run_policy_def run_invocation_def example_invocation_def example_delivery_def)
  then have v: "validate_acquire run_heap (run_invocation org) example_delivery run_request = Inr (run_policy org)"
    by (simp add: validate_acquire_def run_request_def run_call_valid run_current_scope)
  have b: "budget_gate_intersect example_budget run_request = Inr example_budget"
    by (simp add: budget_gate_intersect_def run_request_def effective_package_budget_def)
  have p: "provenance_issue [] (run_invocation org) (run_policy org) (PDatetime example_datetime) run_kernel
    = (run_kernel\<lparr>ks_sequence := 1\<rparr>, Inr (run_provenance org (run_policy org)))"
    by (intro run_provenance_issued assms) (simp_all add: run_policy_def)
  show ?thesis
    using v b p run_epoch_current [of "[]"]
    by (auto simp: prepare_acquire_def run_kernel_def run_preparation_def Let_def)
qed

section \<open>Authorization\<close>

definition run_session :: authority_session where
  "run_session = \<lparr>ss_id = 0, ss_scope = example_token MaterializedProjectionScope 3, ss_port_complete = True\<rparr>"

definition run_port :: "uuid \<Rightarrow> materialized_port" where
  "run_port org = example_port\<lparr>
     port_locate := \<lambda>c. Inr (Exact (if c = run_candidate org then Some (run_locator org) else None)),
     port_project := \<lambda>_. Inr (Exact (Some example_body_fields)),
     port_discover_fts := Some (\<lambda>_ _ _ _ _. Inr (Exact [run_candidate org])), port_discover_one_hop := None\<rparr>"

definition run_lineage :: EvidenceLineage where
  "run_lineage = kernel_lineage\<lparr>el_run_ref := ir_run_ref run_references, el_decision_ref := ir_decision_ref run_references,
     el_policy_snapshot_ref := ir_policy_snapshot_ref run_references,
     el_source_acl_decision_ref := ir_source_acl_decision_ref run_references\<rparr>"

definition run_projection :: "uuid \<Rightarrow> AuthorizedProjection" where
  "run_projection org = \<lparr>ap_candidate_ref = run_candidate org, ap_projected_body = u ''text'',
     ap_projected_field_refs = [u ''body''], ap_lineage = run_lineage,
     ap_construction_provenance = Some AUTHORIZATION_KERNEL,
     ap_kernel_scope = kernel_token run_heap,
     ap_integrity_digest = projection_integrity_digest (run_candidate org) (u ''text'') [u ''body''] run_lineage\<rparr>"

lemma run_admitted:
  "admitted_as (run_heap @ [True]) (pr_effective_scope (run_policy org)) (run_session, run_port org) (run_candidate org)
     (run_locator org) example_body_fields"
proof -
  have "MaterializedFragmentProjection_post_init example_body_fields = Inr ()"
    by (simp add: MaterializedFragmentProjection_post_init_eq example_body_fields_def example_field_def
        projected_field_refs_def u_def field_ref_text_def field_ref_char_def is_lower_def is_digit_def
        MAX_PROJECTED_FIELD_REFS_def MAX_PROJECTED_FIELD_REF_LENGTH_def)
  then show ?thesis
    by (simp add: admitted_as_def locate_materialized_fragment_def project_materialized_fragment_def
        run_session_def run_port_def require_active_materialized_projection_session_def require_session_scope_def
        scope_active_def run_heap_def example_heap_def example_token_def locator_matches_candidate_def run_locator_def
        example_locator_def run_candidate_def example_candidate_def run_policy_def)
qed

lemma entropy_text: "opaque_text (u p @ reference_entropy secret n label)" if "opaque_text (u p)" "length p < 100"
proof -
  have "\<not> is_space c" if "is_hex c" for c using that by (auto simp: is_hex_def is_digit_def is_space_def)
  with that entropy_hex [of secret n label] show ?thesis
    by (auto simp: opaque_text_def MAX_OPAQUE_REF_LENGTH_def list_ex_iff list_all_iff u_def)
qed

lemma run_reference_texts:
  "opaque_text (ir_run_ref run_references)" "opaque_text (ir_decision_ref run_references)"
  "opaque_text (ir_policy_snapshot_ref run_references)" "opaque_text (ir_source_acl_decision_ref run_references)"
  unfolding run_references_def IssuedReferences.select_convs
  by (intro entropy_text; simp add: opaque_text_def MAX_OPAQUE_REF_LENGTH_def u_def is_space_def)+

lemma run_decision_lineage:
  "decision_lineage (run_invocation org) (run_provenance org receipt) (run_locator org) = Inr run_lineage"
  using run_reference_texts
  by (simp add: decision_lineage_def EvidenceLineage_init_def run_provenance_def run_locator_def run_invocation_def
      run_lineage_def example_provenance_def example_locator_def
      example_invocation_def kernel_lineage_def example_lineage_def require_opaque_ref.simps)
    (simp add: opaque_text_def
      MAX_OPAQUE_REF_LENGTH_def u_def is_space_def require_int_range.simps max_signed64_def
      require_utc.simps require_utc_as_of_def is_aware_utc_def example_datetime_def FILE_SOURCE_ACL_FRESHNESS_PROFILE_REF_def)

lemma run_projection_constructed:
  "construct_authorized_projection (run_heap @ [True]) (kernel_token run_heap)
     (run_candidate org) (PStr (u ''text'')) (PTuple [PStr (u ''body'')]) run_lineage = Inr (run_projection org)"
  by (simp add: construct_authorized_projection_eq scope_active_def run_projection_def run_heap_def example_heap_def
      kernel_token_def validate_projected_field_refs_eq field_ref_text_def u_def blank_iff is_space_def is_lower_def
      field_ref_char_def MAX_PROJECTED_FIELD_REFS_def MAX_PROJECTED_FIELD_REF_LENGTH_def)

lemma run_project_all:
  "project_all (run_heap @ [True]) (kernel_token run_heap) (run_invocation org) (run_policy org)
     (run_provenance org (run_policy org)) (run_session, run_port org) [run_candidate org] = Inr [run_projection org]"
proof -
  have "project_candidate (run_heap @ [True]) (kernel_token run_heap) (run_invocation org) (run_policy org)
      (run_provenance org (run_policy org)) (run_session, run_port org) (run_candidate org) = Inr (Some (run_projection org))"
    unfolding project_candidate_Some
    using run_admitted run_decision_lineage run_projection_constructed
    by (intro exI [of _ "run_locator org"] exI [of _ example_body_fields] exI [of _ run_lineage])
      (simp add: run_locator_def example_locator_def example_body_fields_def example_field_def projected_field_refs_def
        rendered_body_def u_def blank_iff is_space_def)
  then show ?thesis by (simp add: project_all_def ordered_candidates_def somes_def)
qed

lemma run_authorized:
  obtains d where "authorize_acquire example_authority i (run_invocation org) (run_preparation org) [run_candidate org]
      (Some (run_session, run_port org)) (run_kernel\<lparr>ks_sequence := 1\<rparr>)
      = (run_kernel\<lparr>ks_sequence := 1, ks_scopes := run_heap @ [True]\<rparr>, Inr d)"
    "seal_decision example_authority i example_budget (run_policy org) (run_provenance org (run_policy org))
      [run_projection org] (Some (kernel_token run_heap)) {||} = Inr d"
proof -
  have budget: "valid_budget example_budget" by (simp add: valid_budget_def example_budget_def)
  obtain d where d: "seal_decision example_authority i example_budget (run_policy org) (run_provenance org (run_policy org))
      [run_projection org] (Some (kernel_token run_heap)) {||} = Inr d"
    using seal_decision_total [OF budget] by blast
  have "authorize_and_project (run_invocation org) (run_policy org) (run_provenance org (run_policy org))
      [run_candidate org] (Some (run_session, run_port org)) None (run_kernel\<lparr>ks_sequence := 1\<rparr>)
      = (run_kernel\<lparr>ks_sequence := 1, ks_scopes := run_heap @ [True]\<rparr>,
         Inr ([run_projection org], Some (kernel_token run_heap)))"
    by (simp add: authorize_and_project_def run_project_all run_kernel_def open_kernel_scope)
      (simp add: run_policy_def)
  with d have "authorize_acquire example_authority i (run_invocation org) (run_preparation org) [run_candidate org]
      (Some (run_session, run_port org)) (run_kernel\<lparr>ks_sequence := 1\<rparr>)
      = (run_kernel\<lparr>ks_sequence := 1, ks_scopes := run_heap @ [True]\<rparr>, Inr d)"
    by (simp add: authorize_acquire_def run_preparation_def) (simp add: run_policy_def validators)
  then show ?thesis using that d by blast
qed

section \<open>Selection and the final gate\<close>

definition run_evidence :: "uuid \<Rightarrow> CandidateRankEvidence" where
  "run_evidence org = \<lparr>ce_candidate_ref = run_candidate org,
     ce_per_ranker = [\<lparr>re_ranker_ref = u ''fts'', re_position = 1, re_score = PNone\<rparr>], ce_fused_rank = 1\<rparr>"

lemma run_projection_wf:
  "wf_candidate (ap_candidate_ref (run_projection org))" "wf_lineage (ap_lineage (run_projection org))"
  using example_projection_wf run_reference_texts
  by (simp_all add: run_projection_def run_candidate_def run_lineage_def wf_candidate_def kernel_lineage_def wf_lineage_def
      max_signed64_def)

lemma run_bound: "decision_bound_to_invocation (run_policy org) (run_provenance org (run_policy org)) (run_invocation org)"
  by (simp add: decision_bound_to_invocation_def Let_def run_policy_def run_provenance_def run_invocation_def run_actor_def
      run_snapshot_def run_organization_def example_provenance_def example_invocation_def example_actor_def
      example_snapshot_def example_organization_def)

section \<open>The runtime and its world\<close>

definition run_query :: "uuid \<Rightarrow> CandidateQuery" where
  "run_query org = \<lparr>cq_ranked_lists = [\<lparr>rl_ranker_ref = u ''fts'',
     rl_candidates = [\<lparr>rc_candidate_ref = run_candidate org, rc_score = PNone\<rparr>]\<rparr>]\<rparr>"

definition run_plan :: CandidateDiscoveryRequest where
  "run_plan = Fts \<lparr>fd_query_text = PStr (u ''q''), fd_limit = PInt 4, fd_source_refs = PNone, fd_resource_refs = PNone\<rparr>"

definition run_index :: "uuid \<Rightarrow> candidate_index" where
  "run_index org = \<lparr>ix_id = 0, ix_complete = True, ix_generation_bound = True,
     ix_prepare = \<lambda>_ scope _ _. ([], scope, Inr (Exact run_plan)),
     ix_prepare_generation = \<lambda>_ scope _ _ _. ([], scope, Inr (Exact run_plan)),
     ix_discover = \<lambda>_ session scope. (scope, Inr (Exact (run_query org)))\<rparr>"

definition run_runtime :: "uuid \<Rightarrow> Runtime" where
  "run_runtime org = \<lparr>rt_package_ttl_seconds = 300, rt_server_budget = example_budget, rt_index = run_index org,
     rt_candidate_discovery_enabled = True, rt_candidate_submission_limit = 8, rt_one_hop_scanned_page_limit = 4,
     rt_ranker_weights = None, rt_acquire_capability = MATERIALIZED_ACQUIRE,
     rt_query_digest_keyring = Some \<lparr>qk_active_version = 1, qk_keys = [(1, replicate 32 0)]\<rparr>,
     rt_egress_profile = InternalOnlyEgressProfile, rt_citation_profile = None, rt_issuer_secret = [],
     rt_authority = example_authority\<rparr>"

definition run_world :: "uuid \<Rightarrow> runtime_world" where
  "run_world org = \<lparr>rw_clock = Inr (PDatetime example_datetime), rw_epoch_prepare = \<lambda>_. Inr (PInt 7),
     rw_epoch_final = \<lambda>_. Inr (PInt 7), rw_port = run_port org, rw_hop_port = \<lambda>_. run_port org,
     rw_redeem = \<lambda>_. Inl CitationLocatorNotAvailable, rw_citation_issue = \<lambda>_. Inr (PBool True),
     rw_citation_reference = \<lambda>_. Inr PNone, rw_persist = \<lambda>_ _. Inr (), rw_egress = egress_example_world,
     rw_decision_id = id, rw_meter_id = 0, rw_load = Inr, rw_canon = \<lambda>_. [], rw_tokens_of = \<lambda>_. [],
     rw_unicode_digit = \<lambda>_. None\<rparr>"

lemma run_fused: "fuse_candidate_evidence (run_query org)
    = Inr \<lparr>fc_candidate_refs = [run_candidate org], fc_rank_evidence = [run_evidence org]\<rparr>"
  by (simp add: fuse_candidate_evidence_def run_query_def CandidateQuery_post_init_def RankedCandidateList_post_init_def
      RankedCandidate_post_init_def require_ranker_ref.simps ranker_text_def u_def is_lower_def Let_def
      run_evidence_def dict_index_def dict_get_def RankerEvidence_init_def CandidateRankEvidence_init_def
      FusedCandidates_init_def is_digit_def)

lemma run_session_of: "ua_materialized_projection_session (iv_user_actor (run_invocation org)) = Some run_session"
  by (simp add: run_invocation_def run_actor_def example_actor_def example_membership_def run_session_def)

lemma run_discovered:
  "discover_candidates (run_runtime org) (run_world org) run_heap (run_invocation org) run_request (run_preparation org)
     (run_release org) ledger = Inr ([run_candidate org], [run_evidence org], ledger)"
proof -
  let ?scope = "EffectiveScope_init {|locator_target (run_locator org)|}"
  let ?plan = "FtsPlan \<lparr>fp_query_text = u ''q'', fp_limit = 4, fp_source_refs = None, fp_resource_refs = None\<rparr>"
  let ?session = "\<lparr>cd_active = True, cd_candidate_sets = [(u ''fts'', [run_candidate org])]\<rparr>"
  obtain scope where scope: "candidate_discovery_scope ?scope = Inr scope"
    "require_candidate_discovery_scope_integrity scope = Inr ()"
    by (auto simp: candidate_discovery_scope_def CandidateDiscoveryScope_new_def validators
        require_candidate_discovery_scope_integrity_def require_effective_scope_integrity_def effective_scope_digest_def)
  have prep: "prepare_discovery (run_runtime org) run_request (run_release org) scope ledger
      = Inr (ledger, scope, Exact run_plan)"
    by (simp add: prepare_discovery_def run_runtime_def run_index_def Let_def)
  have plan: "require_bounded_discovery_request run_plan (PInt 8) = Inr ?plan"
    by (simp add: run_plan_def require_bounded_discovery_request_def FtsDiscoveryRequest_post_init_def
        require_bounded_discovery_limit_def require_candidate_submission_limit_def require_int_range.simps
        require_optional_refs.simps require_nonblank.simps MAX_CANDIDATE_SUBMISSION_CEILING_def u_def blank_iff
        is_space_def)
  have session: "construct_candidate_discovery_session run_heap run_session (run_port org) ?plan ?scope = Inr ?session"
    by (simp add: construct_candidate_discovery_session_def discover_fts_candidates_def
        require_active_materialized_projection_session_def require_session_scope_def scope_active_def
        run_session_def run_port_def run_heap_def example_heap_def example_token_def)
  have bounded: "require_bounded_candidate_submission (run_query org) (PInt 8) = Inr (run_query org)"
    by (simp add: require_bounded_candidate_submission_def run_query_def CandidateQuery_post_init_def
        RankedCandidateList_post_init_def RankedCandidate_post_init_def require_ranker_ref.simps ranker_text_def u_def
        is_lower_def require_candidate_submission_limit_def require_int_range.simps MAX_CANDIDATE_SUBMISSION_CEILING_def
        MAX_SUBMITTED_RANKED_LISTS_def)
  have rt: "rt_candidate_discovery_enabled (run_runtime org)" "rt_candidate_submission_limit (run_runtime org) = 8"
    "rw_port (run_world org) = run_port org" "pr_effective_scope (pa_policy_receipt (run_preparation org)) = ?scope"
    "ix_discover (rt_index (run_runtime org)) rq session' scope' = (scope', Inr (Exact (run_query org)))" for rq session' scope'
    by (simp_all add: run_runtime_def run_world_def run_preparation_def run_policy_def run_index_def)
  show ?thesis
    unfolding discover_candidates_def Let_def run_session_of rt option.case scope(1) bnd_Inr prep prod.case scope(2)
      require_exact.simps plan session as_index_unavailable_def sum.case rt bounded run_fused
    using rt(1) by simp
qed

definition run_meter :: PackageBudgetMeter where
  "run_meter = \<lparr>meter_id = 0, m_budget = example_budget, m_reserved = EMPTY_USAGE, m_usage = EMPTY_USAGE,
     m_tokenizer_ref = None, m_tokenizer_profile_digest = None, m_release_generation = None, m_tokenizer = None\<rparr>"

lemma run_v0: "\<not> is_v1_release (run_release org)"
  by (simp add: is_v1_release_def run_release_def PACKAGE_SCHEMA_REF_V0_def u_def)

lemma run_metered: "resolve_budget_meter (run_world org) example_budget (run_release org) = Inr run_meter"
  by (simp add: resolve_budget_meter_def run_v0 PackageBudgetMeter_init_unbound [OF example_fits] run_world_def run_meter_def)

text \<open>The database has no neighbours of the projection, so the first page ends the expansion.\<close>

lemma run_expanded:
  assumes "seal_decision example_authority i example_budget (run_policy org) (run_provenance org (run_policy org))
      [run_projection org] (Some (kernel_token run_heap)) {||} = Inr d"
  shows "expand_one_hop (run_runtime org) (run_world org) (run_invocation org) run_request (run_preparation org)
      [run_candidate org] ev d (s\<lparr>ks_scopes := run_heap @ [True]\<rparr>) = (s\<lparr>ks_scopes := run_heap @ [True]\<rparr>, Inr (d, ev))"
proof -
  note d = seal_decision_fields [OF assms]
  have page: "discover_materialized_one_hop (run_heap @ [True]) run_session (run_port org) [run_projection org]
      (PInt 8) (PInt 0) = Inr []"
    using constructed_projection_active [OF run_projection_constructed, of org]
    by (simp add: discover_materialized_one_hop_def require_active_materialized_projection_session_def
        require_session_scope_def scope_active_def require_int_range.simps run_session_def run_port_def run_heap_def
        example_heap_def example_token_def require_nonnegative_exact_integer.simps)
  have "one_hop_loop (run_runtime org) (run_world org) (run_invocation org) (run_preparation org) run_session
      [run_projection org] [run_candidate org] d 0 0 (s\<lparr>ks_scopes := run_heap @ [True]\<rparr>)
      = (s\<lparr>ks_scopes := run_heap @ [True]\<rparr>, Inr d)"
    using page by (subst one_hop_loop.simps)
      (auto simp: d graph_limit_def run_runtime_def run_world_def fcard.rep_eq bot_fset.rep_eq)
  then show ?thesis by (simp add: expand_one_hop_def run_session_of d)
qed

lemma run_wiring:
  "rt_issuer_secret (run_runtime org) = []" "rt_server_budget (run_runtime org) = example_budget"
  "rt_authority (run_runtime org) = example_authority" "rw_epoch_prepare (run_world org) = (\<lambda>_. Inr (PInt 7))"
  "rw_decision_id (run_world org) 0 = 0" "actor_transaction (run_world org) (run_invocation org) = Some (run_session, run_port org)"
  "pa_effective_budget (run_preparation org) = example_budget"
  "ks_scopes run_kernel = run_heap"
  by (simp_all add: run_runtime_def run_world_def actor_transaction_def run_session_of run_preparation_def run_kernel_def)

lemma run_acquired:
  assumes "suitable org"
  obtains d where "resolve_acquire (run_runtime org) (run_world org) (run_invocation org) example_delivery run_request
      (run_release org) example_datetime run_kernel
      = (run_kernel\<lparr>ks_sequence := 1, ks_scopes := run_heap @ [True]\<rparr>, Inr (d, [run_evidence org], (run_meter, [])))"
    "authorize_acquire example_authority 0 (run_invocation org) (run_preparation org) [run_candidate org]
      (Some (run_session, run_port org)) (run_kernel\<lparr>ks_sequence := 1\<rparr>)
      = (run_kernel\<lparr>ks_sequence := 1, ks_scopes := run_heap @ [True]\<rparr>, Inr d)"
    "seal_decision example_authority 0 example_budget (run_policy org) (run_provenance org (run_policy org))
      [run_projection org] (Some (kernel_token run_heap)) {||} = Inr d"
proof -
  obtain d where d: "authorize_acquire example_authority 0 (run_invocation org) (run_preparation org) [run_candidate org]
      (Some (run_session, run_port org)) (run_kernel\<lparr>ks_sequence := 1\<rparr>)
      = (run_kernel\<lparr>ks_sequence := 1, ks_scopes := run_heap @ [True]\<rparr>, Inr d)"
    and seal: "seal_decision example_authority 0 example_budget (run_policy org) (run_provenance org (run_policy org))
      [run_projection org] (Some (kernel_token run_heap)) {||} = Inr d" by (rule run_authorized)
  have "resolve_acquire (run_runtime org) (run_world org) (run_invocation org) example_delivery run_request
      (run_release org) example_datetime run_kernel
      = (run_kernel\<lparr>ks_sequence := 1, ks_scopes := run_heap @ [True]\<rparr>, Inr (d, [run_evidence org], (run_meter, [])))"
    using run_prepared [OF assms] run_metered run_discovered d run_expanded [OF seal, of _ "run_kernel\<lparr>ks_sequence := 1\<rparr>"]
    unfolding resolve_acquire_def run_wiring
    by (simp add: run_wiring del: kernel_state.update_convs)
  from this d seal show ?thesis by (rule that)
qed

lemma run_finalized:
  assumes "authorize_acquire example_authority 0 (run_invocation org) (run_preparation org) [run_candidate org]
      (Some (run_session, run_port org)) s0 = (s\<lparr>ks_scopes := run_heap @ [True]\<rparr>, Inr d)"
    and seal: "seal_decision example_authority 0 example_budget (run_policy org) (run_provenance org (run_policy org))
      [run_projection org] (Some (kernel_token run_heap)) {||} = Inr d"
  obtains b e fin where "select_and_finalize (run_runtime org) (run_world org) (run_invocation org) d [run_evidence org]
      (s\<lparr>ks_scopes := run_heap @ [True]\<rparr>) = (s\<lparr>ks_scopes := run_heap @ [False]\<rparr>, Inr fin)"
    "fr_content fin = \<lparr>pc_blocks = [b], pc_evidence = [e]\<rparr>" "item_of (run_projection org) b e"
    "validate_package_content [b] [e] = Inr ()" "fr_policy_receipt fin = run_policy org"
    "fr_provenance_receipt fin = run_provenance org (run_policy org)" "da_reason (fr_audit_receipt fin) = None"
proof -
  let ?h = "run_heap @ [True]"
  note active = constructed_projection_active [OF run_projection_constructed, of org]
  obtain b e where content: "construct_package_content ?h [run_projection org] = Inr \<lparr>pc_blocks = [b], pc_evidence = [e]\<rparr>"
    and item: "item_of (run_projection org) b e" "validate_package_content [b] [e] = Inr ()"
    by (rule single_projection_content [OF run_projection_wf active])
  have body: "utf8_encode (ap_projected_body (run_projection org)) = Inr (ascii ''text'')"
    by (simp add: run_projection_def u_def utf8_encode_def utf8_surrogatepass_def utf8_char_def utf8_units_def
        is_surrogate_def ascii_def)
  have ev: "distinct (map ce_candidate_ref [run_evidence org])" "\<forall>e \<in> set [run_evidence org]. wf_rank_evidence e"
    by (simp_all add: run_evidence_def wf_rank_evidence_def ranker_text_def score_ok_def u_def is_lower_def)
  have fit: "int (length (ascii ''text'')) \<le> max_tokens example_budget"
    by (simp add: example_budget_def ascii_def utf8_surrogatepass_def utf8_char_def utf8_units_def u_def)
  obtain sel where sel: "select_for_delivery example_authority ?h d [run_evidence org] None = Inr sel"
    "sp_content sel = \<lparr>pc_blocks = [b], pc_evidence = [e]\<rparr>" "sp_decision sel = d"
    by (rule single_selection [OF seal content active ev body fit])
  have "pa_policy_receipt (run_preparation org) = run_policy org"
    "pa_provenance_receipt (run_preparation org) = run_provenance org (run_policy org)"
    by (simp_all add: run_preparation_def)
  with honest_selection_finalizes [OF assms(1), of "[run_evidence org]" None sel "\<lambda>_. Inr (PInt 7)" True]
  obtain fin where fin: "finalize_for_delivery example_authority ?h (run_invocation org) sel (\<lambda>_. Inr (PInt 7)) = Inr fin"
    "fr_content fin = sp_content sel" "fr_policy_receipt fin = run_policy org"
    "da_authorized_evidence_count (fr_audit_receipt fin) = 1"
    using sel run_bound run_actor_active run_epoch_current by (auto simp: run_invocation_def)
  note d = seal_decision_fields [OF seal]
  have prov: "fr_provenance_receipt fin = run_provenance org (run_policy org)"
    using final_gate_cases [OF fin(1)] fin(2) sel(2,3) d(4) by auto
  have reason: "da_reason (fr_audit_receipt fin) = None"
    using fin(1,4) by (auto simp: finalize_for_delivery_def Let_def audit_record_def split: if_splits)
  have "select_and_finalize (run_runtime org) (run_world org) (run_invocation org) d [run_evidence org]
      (s\<lparr>ks_scopes := run_heap @ [True]\<rparr>) = (s\<lparr>ks_scopes := run_heap @ [False]\<rparr>, Inr fin)"
    using sel(1) fin(1)
    by (simp add: select_and_finalize_def Let_def close_authorization_decision_def d(2)
        close_authorization_kernel_scope_def close_scope_def kernel_token_def)
      (simp add: run_runtime_def run_world_def)
  from that [OF this _ item fin(3) prov reason] fin(2) sel(2) show ?thesis by simp
qed

section \<open>The package\<close>

definition run_package :: "uuid \<Rightarrow> str \<Rightarrow> PackageBlock \<Rightarrow> Evidence \<Rightarrow> ContextPackage" where
  "run_package org audience b e = \<lparr>cp_package_id = ir_package_id run_references, cp_purpose = u ''ask'',
     cp_audience_digest = audience, cp_policy_epoch = 7, cp_policy_snapshot_ref = ir_policy_snapshot_ref run_references,
     cp_run_ref = ir_run_ref run_references, cp_release_manifest_ref = ar_manifest_ref (run_release org),
     cp_retention_policy_ref = PACKAGE_RETENTION_POLICY_REF, cp_tokenizer_ref = ar_tokenizer_ref (run_release org),
     cp_package_schema_ref = PACKAGE_SCHEMA_REF_V0, cp_ttl_seconds = 300, cp_as_of = example_datetime,
     cp_expires_at = example_datetime\<lparr>minute := 5\<rparr>, cp_decision_ref = ir_decision_ref run_references,
     cp_package_digest = [], cp_blocks = [b], cp_evidence = [e], cp_gaps = [],
     cp_budget_usage = \<lparr>tokens = 4, provider_calls = 0, cost_microunits = 0, elapsed_ms = 0\<rparr>,
     cp_coverage = \<lparr>cv_status = SUFFICIENT, cv_reason = None\<rparr>,
     cp_tokenizer_profile_digest = HISTORICAL_UTF8_BYTE_TOKENIZER_PROFILE_DIGEST\<rparr>"

lemma hex_no_surrogate: "list_all is_hex s \<Longrightarrow> \<not> list_ex is_surrogate s"
  by (auto simp: list_all_iff list_ex_iff is_hex_def is_digit_def is_surrogate_def)

lemma hex_no_space: "list_all is_hex s \<Longrightarrow> \<not> list_ex is_space s"
  by (auto simp: list_all_iff list_ex_iff is_hex_def is_digit_def is_space_def)

lemma run_reference_scalars:
  "\<not> list_ex is_surrogate (ir_package_id run_references)" "\<not> list_ex is_surrogate (ir_decision_ref run_references)"
  "\<not> list_ex is_surrogate (ir_run_ref run_references)" "\<not> list_ex is_surrogate (ir_policy_snapshot_ref run_references)"
  "\<not> list_ex is_surrogate (ar_manifest_ref (run_release org))" "\<not> list_ex is_surrogate (ar_tokenizer_ref (run_release org))"
  "\<not> list_ex is_surrogate (evidence_ref_for_projection p)" "is_sha256_hex a \<Longrightarrow> \<not> list_ex is_surrogate a"
  using entropy_hex sha256_hexdigest_shape
  by (simp_all add: run_references_def run_release_def example_release_def hex_no_surrogate is_sha256_hex_def
      RUNTIME_TOKENIZER_REF_V1_def REGISTERED_V1_TOKENIZER_PROFILES_def unicode_scalar_descriptor_def
      evidence_ref_for_projection_def EVIDENCE_REF_PREFIX_def del: sha256_hexdigest_shape)

lemma run_package_plain:
  assumes "item_of (run_projection org) b e" "is_sha256_hex audience"
  shows "json_plain (context_package_digest_document (run_package org audience b e))"
proof -
  have utc: "is_aware_utc example_datetime" "is_aware_utc (example_datetime\<lparr>minute := 5\<rparr>)"
    by (simp_all add: is_aware_utc_def example_datetime_def)
  note item = assms(1) [unfolded item_of_def]
  have drop: "\<not> list_ex is_surrogate s \<Longrightarrow> \<not> list_ex is_surrogate (removeprefix s p)" for s p
    by (auto simp: removeprefix_def list_ex_iff dest: in_set_dropD)
  have block: "json_plain (block_document b)"
    using item run_reference_scalars(7) by (simp add: block_document_def run_projection_def drop)
  have "json_plain (evidence_document e)"
    using item run_reference_scalars
    by (simp add: evidence_document_def Let_def run_projection_def run_lineage_def kernel_lineage_def example_lineage_def
        run_candidate_def example_candidate_def wire_datetime_no_surrogate utc FILE_SOURCE_ACL_FRESHNESS_PROFILE_REF_def)
  with block show ?thesis
    using run_reference_scalars assms(2)
    by (simp add: context_package_digest_document_def run_package_def wire_datetime_no_surrogate utc
        PACKAGE_SCHEMA_REF_V0_def PACKAGE_SCHEMA_REF_V1_def PACKAGE_RETENTION_POLICY_REF_def)
qed

lemma run_refs_unspaced:
  "list_all unspaced [ir_policy_snapshot_ref run_references, ir_run_ref run_references, ar_manifest_ref (run_release org),
     PACKAGE_RETENTION_POLICY_REF, ar_tokenizer_ref (run_release org), PACKAGE_SCHEMA_REF_V0]"
  using run_reference_texts sha256_hexdigest_shape
  by (simp add: unspaced_def opaque_text_def run_release_def example_release_def hex_no_space is_sha256_hex_def
      RUNTIME_TOKENIZER_REF_V1_def REGISTERED_V1_TOKENIZER_PROFILES_def unicode_scalar_descriptor_def
      PACKAGE_RETENTION_POLICY_REF_def PACKAGE_SCHEMA_REF_V0_def u_def is_space_def del: sha256_hexdigest_shape)

lemma run_package_accepted:
  assumes "item_of (run_projection org) b e" "is_sha256_hex audience" "validate_package_content [b] [e] = Inr ()"
  shows "\<exists>q. ContextPackage_post_init canon (run_package org audience b e) = Inr q"
proof -
  let ?p = "run_package org audience b e"
  have utc: "is_aware_utc example_datetime" "is_aware_utc (example_datetime\<lparr>minute := 5\<rparr>)"
    by (simp_all add: is_aware_utc_def example_datetime_def)
  have digest: "\<exists>d. context_package_digest canon (context_package_digest_document ?p) = Inr d"
    using plain_document_digest run_package_plain [OF assms(1,2)] digest_document_obj [of ?p] by metis
  have body: "pb_body b = u ''text''" using assms(1) by (simp add: item_of_def run_projection_def)
  have "check_lifetime ?p = Inr ()"
    by (simp add: check_lifetime_def run_package_def dt_diff_def instant_us_def local_us_def toordinal_def
        example_datetime_def timedelta_seconds_def)
  moreover have "check_tokenizer_lineage canon ?p = Inr ()"
    by (simp add: check_tokenizer_lineage_def is_v1_def run_package_def PACKAGE_SCHEMA_REF_V0_def PACKAGE_SCHEMA_REF_V1_def)
  moreover have "check_usage_and_coverage ?p = Inr ()"
    by (simp add: check_usage_and_coverage_def is_v1_def run_package_def body PACKAGE_SCHEMA_REF_V0_def
        PACKAGE_SCHEMA_REF_V1_def utf8_encode_def utf8_surrogatepass_def utf8_char_def utf8_units_def u_def is_surrogate_def)
  moreover have "is_sha256_hex HISTORICAL_UTF8_BYTE_TOKENIZER_PROFILE_DIGEST" "\<not> blank (u ''ask'')"
    by (simp_all add: HISTORICAL_UTF8_BYTE_TOKENIZER_PROFILE_DIGEST_def profile_digest_of_def u_def blank_iff is_space_def)
  ultimately show ?thesis
    using digest utc assms(2,3) run_closed_refs run_refs_unspaced [of org]
    unfolding ContextPackage_post_init_def
    by (simp add: validators) (simp add: run_package_def validators)
qed

section \<open>Delivery\<close>

lemma run_expiry: "package_expiry (run_runtime org) (run_provenance org receipt) = Inr (example_datetime\<lparr>minute := 5\<rparr>)"
proof -
  have "dt_add example_datetime 300000000 = Inr (example_datetime\<lparr>minute := 5\<rparr>)" by code_simp
  then show ?thesis
    by (simp add: package_expiry_def run_runtime_def run_provenance_def example_provenance_def timedelta_seconds_def)
qed

lemma run_package_built:
  assumes "item_of (run_projection org) b e" "fr_policy_receipt fin = run_policy org"
    "fr_provenance_receipt fin = run_provenance org (run_policy org)" "da_reason (fr_audit_receipt fin) = None"
  shows "build_package (run_runtime org) (run_world org) fin \<lparr>pc_blocks = [b], pc_evidence = [e]\<rparr> audience
      (run_release org) ledger = ContextPackage_post_init (\<lambda>_. []) (run_package org audience b e)"
proof -
  have "pb_body b = u ''text''" using assms(1) by (simp add: item_of_def run_projection_def)
  then have "content_bytes \<lparr>pc_blocks = [b], pc_evidence = [e]\<rparr> = Inr 4"
    by (simp add: content_bytes_def utf8_encode_def utf8_surrogatepass_def utf8_char_def utf8_units_def u_def is_surrogate_def)
  then have "delivered_usage (run_release org) ledger \<lparr>pc_blocks = [b], pc_evidence = [e]\<rparr>
      = Inr \<lparr>tokens = 4, provider_calls = 0, cost_microunits = 0, elapsed_ms = 0\<rparr>"
    by (simp add: delivered_usage_def run_v0 BudgetUsage_init_def)
  with assms(2-4) show ?thesis
    by (simp add: build_package_def Let_def run_expiry Coverage_init_def)
      (simp add: run_package_def run_provenance_def run_policy_def example_provenance_def run_runtime_def run_world_def
        run_release_def)
qed

lemma opaque_not_blank: "opaque_text s \<Longrightarrow> \<not> blank s"
  by (auto simp: opaque_text_def blank_iff list_ex_iff list_all_iff)

lemma run_ref_shapes:
  "hex_ref (u ''pkg'') 32 (ir_package_id run_references)" "hex_ref (u ''rel'') 64 (ar_manifest_ref (run_release org))"
  using entropy_hex sha256_hexdigest_shape
  by (simp_all add: hex_ref_def run_references_def run_release_def example_release_def is_sha256_hex_def u_def
      str_startswith_def del: sha256_hexdigest_shape)

lemma run_record_accepted:
  assumes item: "item_of (run_projection org) b e" and "is_sha256_hex digest" "is_sha256_hex (qd_value query_receipt)"
    "qd_profile query_receipt = QUERY_DIGEST_PROFILE" "qd_key_version query_receipt = 1"
  shows "ContextRunRecord_post_init (run_record (run_invocation org) (run_provenance org (run_policy org))
      ((run_package org audience b e)\<lparr>cp_package_digest := digest\<rparr>) example_budget query_receipt (run_release org))
    = Inr (run_record (run_invocation org) (run_provenance org (run_policy org))
      ((run_package org audience b e)\<lparr>cp_package_digest := digest\<rparr>) example_budget query_receipt (run_release org))"
    (is "_ ?r = Inr ?r")
proof -
  have "is_sha256_hex (es_digest (pr_effective_scope (run_policy org)))"
    by (simp add: run_policy_def EffectiveScope_init_def effective_scope_digest_def)
  then have "check_run_lineage ?r = Inr ()"
    using assms(2-5) run_ref_shapes run_reference_texts [THEN opaque_not_blank]
    by (simp add: check_run_lineage_def run_record_def Let_def run_package_def run_provenance_def run_invocation_def
        run_actor_def example_invocation_def example_actor_def example_provenance_def validators)
      (simp add: run_release_def example_release_def u_def blank_iff is_space_def max_signed64_def)
  moreover have "ev_evidence_ref e = evidence_ref_for_projection (run_projection org)" "ev_source_ref e = u ''src''"
    "ev_resource_ref e = u ''res''" "ev_revision_ref e = u ''rev''" "ev_fragment_ref e = u ''frag''"
    using item by (simp_all add: item_of_def run_projection_def run_candidate_def example_candidate_def)
  then have "check_run_evidence ?r = Inr ()"
    using sha256_hexdigest_shape
    by (simp add: check_run_evidence_def run_record_def Let_def run_package_def citation_entry_ok_def citation_entry_def
        citation_fields_def evidence_ref_for_projection_def EVIDENCE_REF_PREFIX_def is_sha256_hex_def str_startswith_def u_def
        insert_commute del: sha256_hexdigest_shape)
  moreover have "check_run_budget ?r = Inr ()"
    by (simp add: check_run_budget_def run_record_def Let_def run_package_def example_budget_def)
  moreover have "check_run_times ?r = Inr ()"
    by (simp add: check_run_times_def run_record_def Let_def run_package_def run_invocation_def example_invocation_def
      example_snapshot_def validators is_aware_utc_def example_datetime_def dt_less_def dt_eq_def dt_le_def instant_us_def
      local_us_def toordinal_def)
  ultimately show ?thesis by (simp add: ContextRunRecord_post_init_def)
qed

lemma run_request_case: "case_RuntimeRequest f g k run_request = f \<lparr>query = u ''q''\<rparr> None None"
  by (simp add: run_request_def)

lemma run_recorded:
  assumes item: "item_of (run_projection org) b e"
    and q: "ContextPackage_post_init canon (run_package org audience b e) = Inr q"
  shows "\<exists>run. build_context_run_records canon (run_heap @ t) (run_invocation org) run_request
      (run_provenance org (run_policy org)) q (pr_effective_scope (run_policy org)) example_budget
      \<lparr>qk_active_version = 1, qk_keys = [(1, replicate 32 0)]\<rparr> (run_release org) = Inr (run, None)
    \<and> rn_outcome run = DELIVERED_AUTHORIZED"
proof -
  let ?prov = "run_provenance org (run_policy org)" and ?keyring = "\<lparr>qk_active_version = 1, qk_keys = [(1, replicate 32 0)]\<rparr>"
  have q_eq: "q = (run_package org audience b e)\<lparr>cp_package_digest := cp_package_digest q\<rparr>" by (rule post_init_Inr(1) [OF q])
  then have doc: "context_package_digest_document q = context_package_digest_document (run_package org audience b e)"
    by (metis digest_document_update)
  have shape: "is_sha256_hex (cp_package_digest q)"
    using post_init_Inr(2) [OF q] sha256_hexdigest_shape by (auto simp: context_package_digest_def, metis)
  with post_init_Inr(2) [OF q] doc have digest: "verify_context_package_digest canon (context_package_digest_document q)
      (Some (JStr (cp_package_digest q))) = Inr True" by (simp add: verify_context_package_digest_def)
  have scope: "run_authorized_scope (run_heap @ t) (run_invocation org) run_request = Inr (pr_effective_scope (run_policy org))"
    using run_trusted_operands [of t org] run_scope [of org]
    by (simp add: run_authorized_scope_def Let_def run_invocation_def request_narrowing_def run_request_def run_policy_def)
      (simp add: run_snapshot_def example_snapshot_def example_invocation_def)
  have match: "run_matches_invocation (run_invocation org) ?prov q (pr_effective_scope (run_policy org)) (run_release org)"
    by (subst q_eq) (simp add: run_matches_invocation_def Let_def run_invocation_def run_actor_def run_snapshot_def
        run_package_def run_release_def run_provenance_def example_provenance_def example_invocation_def example_actor_def
        example_snapshot_def dt_eq_def dt_less_def instant_us_def local_us_def toordinal_def example_datetime_def)
  have "ev_lineage e = run_lineage" using item by (simp add: item_of_def run_projection_def)
  then have bound: "list_all (evidence_bound_to_decision ?prov) (cp_evidence q)"
    by (subst q_eq) (simp add: run_package_def evidence_bound_to_decision_def Let_def run_lineage_def kernel_lineage_def
        example_lineage_def run_provenance_def example_provenance_def dt_eq_def)
  obtain r where r: "query_digest ?keyring org (u ''q'') = Inr r" "qd_profile r = QUERY_DIGEST_PROFILE"
    "qd_key_version r = 1" "is_sha256_hex (qd_value r)"
    by (auto simp: query_digest_def active_key_def dict_index_def QueryDigest_post_init_def Let_def is_sha256_hex_def
        hmac_hexdigest_hex require_key_version_def require_int_range.simps max_signed64_def)
  let ?run = "run_record (run_invocation org) ?prov q example_budget r (run_release org)"
  have run: "ContextRunRecord_post_init ?run = Inr ?run"
    using run_record_accepted [OF item shape r(4,2,3), of audience] q_eq by metis
  have "rn_outcome ?run = DELIVERED_AUTHORIZED"
    by (subst q_eq) (simp add: run_record_def Let_def run_package_def)
  moreover have "ua_active_runtime_release (iv_user_actor (run_invocation org)) = Some (0, run_release org)"
    "ua_organization_id (iv_user_actor (run_invocation org)) = org" "request_query run_request = u ''q''"
    "es_targets (pr_effective_scope (run_policy org)) \<noteq> {||}"
    by (simp_all add: run_invocation_def run_actor_def request_query_def run_request_def run_policy_def EffectiveScope_init_def)
  ultimately show ?thesis
    using digest scope match bound r(1) run
    by (intro exI [of _ ?run]) (simp add: build_context_run_records_def run_audit_def run_request_case)
qed

lemma run_bound_package:
  assumes q: "ContextPackage_post_init canon (run_package org audience b e) = Inr q"
    and audience: "direct_egress_audience_digest dumps org 3 1 (u ''app'') (u ''b'') = Inr audience"
  shows "require_bound_package canon dumps (run_invocation org) example_delivery (run_provenance org (run_policy org)) q
      example_datetime = Inr ()"
proof -
  have q_eq: "q = (run_package org audience b e)\<lparr>cp_package_digest := cp_package_digest q\<rparr>" by (rule post_init_Inr(1) [OF q])
  then have doc: "context_package_digest_document q = context_package_digest_document (run_package org audience b e)"
    by (metis digest_document_update)
  have "package_bound_before (run_invocation org) example_delivery (run_provenance org (run_policy org)) q (cp_package_digest q)"
    "cp_audience_digest q = audience" "package_bound_after (run_provenance org (run_policy org)) q example_datetime"
    by (subst q_eq, simp add: package_bound_before_def package_bound_after_def run_invocation_def run_actor_def
        run_provenance_def run_package_def example_delivery_def example_invocation_def example_actor_def
        example_provenance_def dt_eq_def dt_less_def instant_us_def local_us_def toordinal_def example_datetime_def)+
  moreover have "audience_or_direct dumps (run_invocation org) example_delivery = Inr audience"
    using audience by (simp add: audience_or_direct_def Let_def example_delivery_def run_invocation_def run_actor_def example_actor_def)
  ultimately show ?thesis
    using post_init_Inr(2) [OF q] doc by (simp add: require_bound_package_def)
qed

lemma run_delivered:
  assumes content: "fr_content fin = \<lparr>pc_blocks = [b], pc_evidence = [e]\<rparr>" "item_of (run_projection org) b e"
    "validate_package_content [b] [e] = Inr ()"
    and fin: "fr_policy_receipt fin = run_policy org" "fr_provenance_receipt fin = run_provenance org (run_policy org)"
      "da_reason (fr_audit_receipt fin) = None"
  shows "\<exists>r. deliver (run_runtime org) (run_world org) (run_heap @ t) (run_invocation org) example_delivery run_request
      (run_release org) example_datetime example_budget (run_meter, []) fin = Inr (Delivered r)
    \<and> cp_evidence (rs_package r) = [e]"
proof -
  let ?dumps = "ew_dumps egress_example_world"
  obtain audience where audience: "direct_egress_audience_digest ?dumps org 3 1 (u ''app'') (u ''b'') = Inr audience"
    "is_sha256_hex audience"
    by (auto simp: direct_egress_audience_digest_def egress_example_world_def validators u_def blank_iff is_space_def
        require_nonblank.simps)
  obtain q where q: "ContextPackage_post_init (\<lambda>_. []) (run_package org audience b e) = Inr q"
    using run_package_accepted [OF content(2) audience(2) content(3)] by blast
  have q_eq: "q = (run_package org audience b e)\<lparr>cp_package_digest := cp_package_digest q\<rparr>" by (rule post_init_Inr(1) [OF q])
  then have ev: "cp_evidence q = [e]" by (metis (no_types) run_package_def ContextPackage.select_convs(17) ContextPackage.update_convs(15))
  have "attach_citations (run_runtime org) (run_world org) (run_heap @ t) (run_invocation org) prov c = Inr c" for prov c
    by (simp add: attach_citations_def run_runtime_def)
  moreover have "package_audience (run_world org) (run_invocation org) example_delivery = Inr audience"
    using audience by (simp add: package_audience_def Let_def example_delivery_def run_invocation_def run_actor_def
        example_actor_def run_world_def)
  moreover have "account_assembly (run_meter, []) \<lparr>pc_blocks = [b], pc_evidence = [e]\<rparr> = Inr (run_meter, [])"
    by (simp add: account_assembly_def count_tokens_def run_meter_def)
  moreover have "finalize_egress (rw_canon (run_world org)) (rw_egress (run_world org)) (run_heap @ t) (run_invocation org)
      example_delivery (run_provenance org (run_policy org)) q (rt_egress_profile (run_runtime org)) example_datetime = Inr None"
    using run_bound_package [OF q audience(1)] run_actor_active [of t org]
    by (simp add: finalize_egress_def run_world_def run_runtime_def) (simp add: run_invocation_def)
  moreover have "persist_delivery (run_runtime org) (run_world org) (run_heap @ t) (run_invocation org) run_request fin q
      example_budget (run_release org) = Inr ()"
  proof -
    obtain run where "build_context_run_records (\<lambda>_. []) (run_heap @ t) (run_invocation org) run_request
      (run_provenance org (run_policy org)) q (pr_effective_scope (run_policy org)) example_budget
      \<lparr>qk_active_version = 1, qk_keys = [(1, replicate 32 0)]\<rparr> (run_release org) = Inr (run, None)"
      "rn_outcome run = DELIVERED_AUTHORIZED"
      using run_recorded [OF content(2) q] by blast
    moreover have "require_active_context_run_persistence_session (run_heap @ t) run_persistence = Inr ()"
      by (simp add: validators run_persistence_def run_heap_def example_heap_def example_token_def scope_active_def)
    moreover have "ua_context_run_persistence_session (iv_user_actor (run_invocation org)) = Some run_persistence"
      by (simp add: run_invocation_def run_actor_def)
    ultimately show ?thesis
      by (simp add: persist_delivery_def fin persist_context_run_def run_runtime_def run_world_def)
  qed
  moreover have "ScopeDecisionReceipt_init (es_digest (pr_effective_scope (run_policy org)))
      (int (fcard (es_targets (pr_effective_scope (run_policy org))))) False
      = Inr \<lparr>sd_digest = es_digest (pr_effective_scope (run_policy org)), sd_target_count = 1, sd_is_empty = False\<rparr>"
    "es_targets (pr_effective_scope (run_policy org)) \<noteq> {||}"
    by (simp_all add: ScopeDecisionReceipt_init_def run_policy_def EffectiveScope_init_def effective_scope_digest_def
        validators fcard.rep_eq)
  moreover have "\<not> is_open_citation run_request" by (simp add: run_request_def)
  ultimately show ?thesis
    using run_package_built [OF content(2) fin] q ev
    by (simp add: deliver_def Let_def content(1) fin run_world_def)
qed

text \<open>The whole call.\<close>

lemma run_clock: "bnd (rw_clock (run_world org)) require_utc = Inr example_datetime"
  by (simp add: run_world_def require_utc.simps is_aware_utc_def example_datetime_def)

lemma run_active_release:
  "ua_active_runtime_release (iv_user_actor (run_invocation org)) = Some (0, run_release org)"
  "ar_organization_id (run_release org) = ua_organization_id (iv_user_actor (run_invocation org))"
  by (simp_all add: run_invocation_def run_actor_def run_release_def)

lemma run_available:
  "resolve (run_runtime org) w iv dl run_request = resolve_available (run_runtime org) w iv dl run_request"
  by (simp add: resolve_def Let_def run_request_def run_runtime_def require_available_def
      M0_RUNTIME_CAPABILITY_DECLARATION_def)

lemma run_resolves:
  assumes "suitable org"
  obtains s r e where "resolve (run_runtime org) (run_world org) (run_invocation org) example_delivery run_request run_kernel
      = (s, Inr (Delivered r))" "cp_evidence (rs_package r) = [e]" "ks_scopes s = run_heap @ [False]"
proof -
  obtain d where acq: "resolve_acquire (run_runtime org) (run_world org) (run_invocation org) example_delivery run_request
      (run_release org) example_datetime run_kernel
      = (run_kernel\<lparr>ks_sequence := 1, ks_scopes := run_heap @ [True]\<rparr>, Inr (d, [run_evidence org], (run_meter, [])))"
    and d: "authorize_acquire example_authority 0 (run_invocation org) (run_preparation org) [run_candidate org]
      (Some (run_session, run_port org)) (run_kernel\<lparr>ks_sequence := 1\<rparr>)
      = (run_kernel\<lparr>ks_sequence := 1, ks_scopes := run_heap @ [True]\<rparr>, Inr d)"
    and seal: "seal_decision example_authority 0 example_budget (run_policy org) (run_provenance org (run_policy org))
      [run_projection org] (Some (kernel_token run_heap)) {||} = Inr d"
    by (rule run_acquired [OF assms])
  obtain b e fin where fin: "select_and_finalize (run_runtime org) (run_world org) (run_invocation org) d [run_evidence org]
      (run_kernel\<lparr>ks_sequence := 1, ks_scopes := run_heap @ [True]\<rparr>)
      = (run_kernel\<lparr>ks_sequence := 1, ks_scopes := run_heap @ [False]\<rparr>, Inr fin)"
    "fr_content fin = \<lparr>pc_blocks = [b], pc_evidence = [e]\<rparr>" "item_of (run_projection org) b e"
    "validate_package_content [b] [e] = Inr ()" "fr_policy_receipt fin = run_policy org"
    "fr_provenance_receipt fin = run_provenance org (run_policy org)" "da_reason (fr_audit_receipt fin) = None"
    by (rule run_finalized [OF d seal])
  obtain r where r: "deliver (run_runtime org) (run_world org) (run_heap @ [False]) (run_invocation org) example_delivery
      run_request (run_release org) example_datetime example_budget (run_meter, []) fin = Inr (Delivered r)"
    "cp_evidence (rs_package r) = [e]"
    using run_delivered [OF fin(2-7)] by blast
  have budget: "ad_effective_budget d = example_budget" by (rule seal_decision_fields(5) [OF seal])
  have "resolve_available (run_runtime org) (run_world org) (run_invocation org) example_delivery run_request run_kernel
      = (run_kernel\<lparr>ks_sequence := 1, ks_scopes := run_heap @ [False]\<rparr>, Inr (Delivered r))"
    using acq fin(1) r(1)
    by (simp add: resolve_available_def run_active_release run_clock run_request_case budget del: kernel_state.update_convs)
  then have "resolve (run_runtime org) (run_world org) (run_invocation org) example_delivery run_request run_kernel
      = (run_kernel\<lparr>ks_sequence := 1, ks_scopes := run_heap @ [False]\<rparr>, Inr (Delivered r))"
    by (simp add: run_available)
  from that [OF this r(2)] show ?thesis by simp
qed

end
