(* ===== verification/History.thy ===== *)
theory History
  imports Concrete_Run
begin

text \<open>
  Sequences of calls of one runtime, as a step relation on the state that its calls share: whatever
  a call does and however it ends, the counter of the reference issuer never goes back, so the
  packages of a history carry references of strictly increasing numbers.
\<close>

section \<open>Computations that never rewind the issuer\<close>

named_theorems advancing

definition advances :: "(kernel_state, 'a) exec \<Rightarrow> bool" where
  "advances m \<longleftrightarrow> (\<forall>s. ks_sequence s \<le> ks_sequence (fst (m s)))"

lemma advances_lift [advancing]: "advances (lift r)"
  by (simp add: advances_def)

lemma advances_reading [advancing]: "advances (reading f)"
  by (simp add: advances_def)

lemma advances_xbnd [advancing]:
  assumes "advances m" "\<And>x. advances (f x)"
  shows "advances (xbnd m f)"
  unfolding advances_def
proof
  fix s
  from assms(1) have "ks_sequence s \<le> ks_sequence (fst (m s))" by (simp add: advances_def)
  moreover have "ks_sequence s1 \<le> ks_sequence (fst (f x s1))" for x s1 using assms(2) by (simp add: advances_def)
  ultimately show "ks_sequence s \<le> ks_sequence (fst (xbnd m f s))"
    by (auto simp: xbnd_def split: prod.splits sum.splits) (metis order_trans)
qed

lemma advances_if [advancing]:
  "(b \<Longrightarrow> advances m) \<Longrightarrow> (\<not> b \<Longrightarrow> advances n) \<Longrightarrow> advances (if b then m else n)"
  by simp

lemma advances_Let [advancing]: "(\<And>x. advances (f x)) \<Longrightarrow> advances (let y = x in f y)"
  by simp

lemma advances_option [advancing]:
  "advances m \<Longrightarrow> (\<And>x. advances (f x)) \<Longrightarrow> advances (case v of None \<Rightarrow> m | Some x \<Rightarrow> f x)"
  by (cases v) simp_all

lemma advances_prod [advancing]: "(\<And>a b. advances (f a b)) \<Longrightarrow> advances (case v of (a, b) \<Rightarrow> f a b)"
  by (cases v) simp

lemma advances_sum [advancing]:
  "(\<And>e. advances (f e)) \<Longrightarrow> (\<And>x. advances (g x)) \<Longrightarrow> advances (case v of Inl e \<Rightarrow> f e | Inr x \<Rightarrow> g x)"
  by (cases v) simp_all

lemma advances_request [advancing]:
  "(\<And>n b r. advances (f n b r)) \<Longrightarrow> (\<And>t b. advances (g t b)) \<Longrightarrow> (\<And>c. advances (k c))
    \<Longrightarrow> advances (case rq of Acquire n b r \<Rightarrow> f n b r | Continue t b \<Rightarrow> g t b | OpenCitation c \<Rightarrow> k c)"
  by (cases rq) simp_all

lemma advances_issue [advancing]: "advances (issue_references secret)"
  by (simp add: advances_def issue_references_def Let_def)

lemma advances_record [advancing]: "advances (record_unsupported prov)"
  unfolding record_unsupported_def by (intro advancing) (simp add: advances_def)

lemma advances_project [advancing]: "advances (authorize_and_project iv receipt prov cs t scope)"
  by (auto simp: advances_def authorize_and_project_def split: option.splits sum.splits prod.splits)

lemma advances_finalize [advancing]: "advances (select_and_finalize rt w iv d ev)"
  by (auto simp: advances_def select_and_finalize_def close_authorization_decision_def Let_def
      split: option.splits sum.splits prod.splits)

lemma advances_provenance [advancing]: "advances (provenance_issue secret iv receipt as_of)"
  unfolding provenance_issue_def Let_def by (intro advancing)

lemma advances_prepare [advancing]: "advances (prepare_acquire secret iv dl rq budget as_of rd)"
  unfolding prepare_acquire_def Let_def by (intro advancing)

lemma advances_acquire [advancing]: "advances (authorize_acquire authority i iv prep cs t)"
  unfolding authorize_acquire_def Let_def by (intro advancing)

lemma advances_open [advancing]: "advances (authorize_open_citation authority i secret iv dl rq c budget as_of t rd)"
  unfolding authorize_open_citation_def Let_def by (intro advancing)

lemma advances_one_hop [advancing]: "advances (authorize_one_hop authority i iv prep d items t)"
  unfolding authorize_one_hop_def Let_def by (intro advancing)

lemma advances_preflight [advancing]: "advances (preflight_unavailable_request secret iv dl rq budget as_of rd)"
  unfolding preflight_unavailable_request_def Let_def by (intro advancing)

lemma advances_loop [advancing]: "advances (one_hop_loop rt w iv prep session main refs d offset scanned)"
proof (induction rt w iv prep session main refs d offset scanned rule: one_hop_loop.induct)
  case (1 rt w iv prep session main refs d offset scanned)
  then show ?case
    by (subst one_hop_loop.simps) (auto simp: Let_def intro!: advancing)
qed

lemma advances_expand [advancing]: "advances (expand_one_hop rt w iv rq prep refs ev d)"
  unfolding expand_one_hop_def Let_def by (intro advancing)

lemma advances_resolve: "advances (resolve rt w iv dl rq)"
  unfolding resolve_def resolve_available_def resolve_acquire_def resolve_open_citation_def Let_def
  by (intro advancing)

section \<open>The reference of a delivered package\<close>

definition package_reference :: "bytes \<Rightarrow> nat \<Rightarrow> str" where
  "package_reference secret n = u ''pkg_'' @ reference_entropy secret n ''package''"

lemma provenance_reference:
  assumes "provenance_issue secret iv receipt as_of s = (s', Inr prov)"
  shows "dp_package_id prov = package_reference secret (Suc (ks_sequence s))"
  using assms by (auto simp: provenance_issue_def issue_references_def Let_def validators package_reference_def
      require_closed_opaque_ref.simps split: if_splits)

lemma one_hop_page_provenance:
  assumes "one_hop_page rt w iv prep session refs d scanned page s = (s', Inr d')"
  shows "ad_provenance_receipt d' = ad_provenance_receipt d"
  using assms
  by (auto simp: one_hop_page_def authorize_one_hop_def Let_def split: if_splits dest!: seal_decision_fields(4)
      simp del: fset_of_list_map map_append)

lemma one_hop_loop_provenance:
  assumes "one_hop_loop rt w iv prep session main refs d offset scanned s = (s', Inr d')"
  shows "ad_provenance_receipt d' = ad_provenance_receipt d"
  using assms
proof (induction "nat (rt_one_hop_scanned_page_limit rt) - scanned" arbitrary: scanned offset d s rule: less_induct)
  case less
  from less.prems show ?case
  proof (cases rule: one_hop_loop_cases)
    case (page page s1 d1)
    have "nat (rt_one_hop_scanned_page_limit rt) - Suc scanned < nat (rt_one_hop_scanned_page_limit rt) - scanned"
      using page(2) by simp
    from page(6) less.hyps [OF this] one_hop_page_provenance [OF page(5)] show ?thesis by auto
  qed simp
qed

lemma resolve_acquire_reference:
  assumes "resolve_acquire rt w iv dl rq release as_of s = (s', Inr (d, ev, ledger))"
  shows "dp_package_id (ad_provenance_receipt d) = package_reference (rt_issuer_secret rt) (Suc (ks_sequence s))"
proof -
  from assms obtain s1 prep refs ev1 s2 d1 where
    prep: "prepare_acquire (rt_issuer_secret rt) iv dl rq (rt_server_budget rt) (PDatetime as_of) (rw_epoch_prepare w) s
      = (s1, Inr prep)"
    and acq: "authorize_acquire (rt_authority rt) (rw_decision_id w 0) iv prep refs (actor_transaction w iv) s1 = (s2, Inr d1)"
    and hop: "expand_one_hop rt w iv rq prep refs ev1 d1 s2 = (s', Inr (d, ev))"
    unfolding resolve_acquire_def by auto
  from hop have "ad_provenance_receipt d = ad_provenance_receipt d1"
    by (auto simp: expand_one_hop_def split: option.splits if_splits dest: one_hop_loop_provenance)
  also have "\<dots> = pa_provenance_receipt prep" by (rule seal_decision_fields(4) [OF authorize_acquire_Inr(2) [OF acq]])
  finally show ?thesis
    using prep unfolding prepare_acquire_def Let_def gated_receipt_def [symmetric] by (auto dest!: provenance_reference)
qed

lemma resolve_open_citation_reference:
  assumes "resolve_open_citation rt w iv dl rq ref release as_of s = (s', Inr (d, ev, ledger))"
  shows "dp_package_id (ad_provenance_receipt d) = package_reference (rt_issuer_secret rt) (Suc (ks_sequence s))"
proof -
  from assms obtain c where
    "authorize_open_citation (rt_authority rt) (rw_decision_id w 0) (rt_issuer_secret rt) iv dl rq c
       (rt_server_budget rt) (PDatetime as_of) (actor_transaction w iv) (rw_epoch_prepare w) s = (s', Inr d)"
    unfolding resolve_open_citation_def by auto
  then show ?thesis
    unfolding authorize_open_citation_def Let_def gated_receipt_def [symmetric]
    by (auto dest!: provenance_reference seal_decision_fields(4))
qed

lemma finalized_reference:
  assumes "finalize_for_delivery authority h iv sel rd = Inr r"
  shows "dp_package_id (fr_provenance_receipt r) = dp_package_id (ad_provenance_receipt (sp_decision sel))"
proof -
  from assms obtain ok current where
    "delivery_outcome h ok current (ad_policy_receipt (sp_decision sel)) (ad_provenance_receipt (sp_decision sel)) (sp_content sel)
         = Inr (fr_policy_receipt r, fr_provenance_receipt r, fr_content r)"
    unfolding finalize_for_delivery_def Let_def by (auto simp del: split_paired_Ex)
  then have "fr_provenance_receipt r = ad_provenance_receipt (sp_decision sel) \<or> fr_provenance_receipt r
      = (ad_provenance_receipt (sp_decision sel))\<lparr>dp_effective_scope_digest := es_digest empty_scope\<rparr>"
    by (auto simp: delivery_outcome_def split: if_splits)
  then show ?thesis by auto
qed

lemma delivered_reference:
  assumes "deliver rt w h iv dl rq release as_of budget ledger finalized = Inr (Delivered r)"
  shows "cp_package_id (rs_package r) = dp_package_id (fr_provenance_receipt finalized)"
proof -
  from assms obtain content audience ledger' where
    "build_package rt w finalized content audience release ledger' = Inr (rs_package r)"
    unfolding deliver_def Let_def by (auto split: if_splits)
  then obtain p where p: "ContextPackage_post_init (rw_canon w) p = Inr (rs_package r)"
    "cp_package_id p = dp_package_id (fr_provenance_receipt finalized)"
    by (auto simp: build_package_def Let_def)
  from post_init_Inr(1) [OF p(1)] have "cp_package_id (rs_package r) = cp_package_id p"
    by (metis ContextPackage.select_convs(1) ContextPackage.surjective ContextPackage.update_convs(15))
  with p(2) show ?thesis by simp
qed

lemma resolved_reference:
  assumes "resolve rt w iv dl rq s = (s', Inr (Delivered r))"
  shows "cp_package_id (rs_package r) = package_reference (rt_issuer_secret rt) (Suc (ks_sequence s))"
    "ks_sequence s' = Suc (ks_sequence s)"
proof -
  from assms have run: "resolve_available rt w iv dl rq s = (s', Inr (Delivered r))" by (auto dest!: resolve_Inr)
  then obtain release as_of s1 d ev ledger finalized where
    d: "(case rq of
        Acquire need' budget restriction \<Rightarrow> resolve_acquire rt w iv dl rq release as_of
      | OpenCitation ref \<Rightarrow> resolve_open_citation rt w iv dl rq ref release as_of
      | Continue token budget \<Rightarrow> lift (Inl RuntimeConfigurationError)) s = (s1, Inr (d, ev, ledger))"
    and fin: "select_and_finalize rt w iv d ev s1 = (s', Inr finalized)"
    and del: "deliver rt w (ks_scopes s') iv dl rq release as_of (ad_effective_budget d) ledger finalized = Inr (Delivered r)"
    unfolding resolve_available_def by (auto split: option.splits if_splits)
  from d have ref: "dp_package_id (ad_provenance_receipt d) = package_reference (rt_issuer_secret rt) (Suc (ks_sequence s))"
    by (cases rq) (auto dest: resolve_acquire_reference resolve_open_citation_reference)
  have "(\<exists>receipt budget. admitted_receipt (ks_scopes s) iv dl rq (rw_epoch_prepare w) receipt
      \<and> budget_gate_intersect (rt_server_budget rt) rq = Inr budget \<and> decided receipt budget (ks_scopes s) s1 d)
      \<and> ks_sequence s1 = Suc (ks_sequence s)"
    using d resolve_acquire_decided resolve_open_citation_decided by (cases rq) auto
  then obtain receipt budget where dec: "decided receipt budget (ks_scopes s) s1 d" and seq: "ks_sequence s1 = Suc (ks_sequence s)"
    by blast
  note f = select_and_finalize_Inr [OF fin dec]
  from f(1) obtain sel where sel: "select_for_delivery (rt_authority rt) (ks_scopes s1) d ev
      (map_option (map (map_prod id PFloat)) (rt_ranker_weights rt)) = Inr sel"
    "finalize_for_delivery (rt_authority rt) (ks_scopes s1) iv sel (rw_epoch_final w) = Inr finalized" by blast
  have "sp_decision sel = d" using sel(1) by (rule select_for_delivery_Inr)
  with finalized_reference [OF sel(2)] delivered_reference [OF del] ref
  show "cp_package_id (rs_package r) = package_reference (rt_issuer_secret rt) (Suc (ks_sequence s))" by simp
  from f(3) seq show "ks_sequence s' = Suc (ks_sequence s)" by simp
qed

section \<open>Histories\<close>

text \<open>The calls of one runtime from a state: the packages delivered, in order, and the state reached.\<close>

inductive history :: "Runtime \<Rightarrow> kernel_state \<Rightarrow> ContextPackage list \<Rightarrow> kernel_state \<Rightarrow> bool" for rt s where
  history_start: "history rt s [] s"
| history_delivery:
    "history rt s ps s1 \<Longrightarrow> resolve rt w iv dl rq s1 = (s2, Inr (Delivered r)) \<Longrightarrow> history rt s (ps @ [rs_package r]) s2"
| history_other:
    "history rt s ps s1 \<Longrightarrow> resolve rt w iv dl rq s1 = (s2, outcome) \<Longrightarrow> \<forall>r. outcome \<noteq> Inr (Delivered r)
      \<Longrightarrow> history rt s ps s2"

lemma history_references:
  assumes "history rt s ps s'"
  shows "\<exists>ns. map cp_package_id ps = map (package_reference (rt_issuer_secret rt)) ns \<and> sorted_wrt (<) ns
    \<and> (\<forall>n \<in> set ns. ks_sequence s < n \<and> n \<le> ks_sequence s')" "ks_sequence s \<le> ks_sequence s'"
  using assms
proof induction
  case history_start
  { case 1 show ?case by (intro exI [of _ "[]"]) simp next case 2 show ?case by simp }
next
  case (history_delivery ps s1 w iv dl rq s2 r)
  note ref = resolved_reference [OF history_delivery.hyps(2)]
  { case 1
    from history_delivery.IH(1) obtain ns where "map cp_package_id ps = map (package_reference (rt_issuer_secret rt)) ns"
      "sorted_wrt (<) ns" "\<forall>n \<in> set ns. ks_sequence s < n \<and> n \<le> ks_sequence s1" by blast
    with ref history_delivery.IH(2) show ?case
      by (intro exI [of _ "ns @ [Suc (ks_sequence s1)]"]) (auto simp: sorted_wrt_append)
  next
    case 2
    from ref(2) history_delivery.IH(2) show ?case by simp
  }
next
  case (history_other ps s1 w iv dl rq s2 outcome)
  have "ks_sequence s1 \<le> ks_sequence s2"
    using advances_resolve [of rt w iv dl rq] history_other.hyps(2) by (metis advances_def fst_conv)
  { case 1 from history_other.IH(1) \<open>ks_sequence s1 \<le> ks_sequence s2\<close> show ?case by (meson order_trans)
  next case 2 from history_other.IH(2) \<open>ks_sequence s1 \<le> ks_sequence s2\<close> show ?case by simp }
qed

section \<open>Properties\<close>

text \<open>
  C5. References are fresh over the whole life of a runtime: whatever calls are made, in whatever
  order and with whatever outcome, exceptions included, the packages delivered carry the
  references of strictly increasing numbers of the issuer, none of which was used before the
  history began, so two packages share a reference only if the keyed digest of two different
  numbers coincides.
\<close>

theorem delivered_references_are_fresh:
  assumes "history rt s ps s'"
  shows "\<exists>ns. map cp_package_id ps = map (package_reference (rt_issuer_secret rt)) ns \<and> sorted_wrt (<) ns
    \<and> (\<forall>n \<in> set ns. ks_sequence s < n \<and> n \<le> ks_sequence s')"
  by (rule history_references(1) [OF assms])

theorem delivered_references_are_fresh_witness:
  "\<exists>org p s. history (run_runtime org) run_kernel [p] s \<and> cp_package_id p = package_reference [] 1"
proof -
  obtain org where "suitable org" by (rule suitable_exists)
  then obtain s r e where run: "resolve (run_runtime org) (run_world org) (run_invocation org) example_delivery run_request
      run_kernel = (s, Inr (Delivered r))" by (rule run_resolves)
  have h: "history (run_runtime org) run_kernel [rs_package r] s"
    using history_delivery [OF history_start run] by simp
  have "ks_sequence s = 1" "ks_sequence run_kernel = 0" "rt_issuer_secret (run_runtime org) = []"
    using resolved_reference(2) [OF run] by (simp_all add: run_kernel_def run_runtime_def)
  with delivered_references_are_fresh [OF h] obtain n where "cp_package_id (rs_package r) = package_reference [] n" "0 < n" "n \<le> 1"
    by (auto simp: Cons_eq_map_conv)
  then have "cp_package_id (rs_package r) = package_reference [] 1" by (cases "n = 1") simp_all
  with h show ?thesis by (intro exI [of _ org] exI [of _ "rs_package r"] exI [of _ s]) simp
qed

end
