(* ===== verification/Json_Text.thy ===== *)
theory Json_Text
  imports Package
begin

text \<open>
  JSON text as \<open>json.loads\<close> reads it: the encoding of the bytes, strings with their escapes,
  numbers, arrays and objects, with the \<open>object_pairs_hook\<close> as an argument. The components use it on
  signed documents (\<open>src/engine/runtime/_ticket_signing.py\<close>), on the answers of a model
  (\<open>src/engine/runtime/model_inference.py\<close>) and on tokenizer artifacts
  (\<open>src/engine/tokenizer_accounting.py\<close>). Every error of the decoder is a \<open>ValueError\<close>; the readers
  answer \<open>None\<close> for it.
\<close>

section \<open>Bytes to text\<close>

text \<open>The first character of UTF-8 bytes; \<open>lone\<close> admits surrogates, as \<open>surrogatepass\<close> does.\<close>

definition utf8_width :: "nat \<Rightarrow> nat" where
  "utf8_width a = (if a < 128 then 1 else if a < 194 then 0 else if a < 224 then 2 else if a < 240 then 3
     else if a < 245 then 4 else 0)"

definition utf8_first :: "bool \<Rightarrow> nat list \<Rightarrow> (nat \<times> nat list) option" where
  "utf8_first lone s =
     (let k = utf8_width (hd s); w = take k s; c = utf8_value w
      in if k = 0 \<or> length w < k \<or> \<not> list_all (\<lambda>b. 128 \<le> b \<and> b < 192) (tl w) \<or> \<not> code_point c
            \<or> utf8_units c \<noteq> w \<or> \<not> lone \<and> is_surrogate c
         then None else Some (c, drop k s))"

function utf8_decode :: "bool \<Rightarrow> nat list \<Rightarrow> str option" where
  "utf8_decode lone [] = Some []"
| "utf8_decode lone (a # s) =
     (case utf8_first lone (a # s) of
        None \<Rightarrow> None
      | Some (c, r) \<Rightarrow> map_option ((#) c) (utf8_decode lone r))"
  by pat_completeness auto
termination
  by (relation "measure (\<lambda>(lone, s). length s)") (auto simp: utf8_first_def Let_def split: if_splits)

declare utf8_decode.simps(2) [simp del]

fun units16 :: "bool \<Rightarrow> nat list \<Rightarrow> nat list option" where
  "units16 big [] = Some []"
| "units16 big [a] = None"
| "units16 big (a # b # r) = map_option ((#) (if big then a * 256 + b else b * 256 + a)) (units16 big r)"

fun join_surrogates :: "nat list \<Rightarrow> str" where
  "join_surrogates (x # y # r) =
     (if 55296 \<le> x \<and> x \<le> 56319 \<and> 56320 \<le> y \<and> y \<le> 57343
      then (65536 + (x - 55296) * 1024 + (y - 56320)) # join_surrogates r
      else x # join_surrogates (y # r))"
| "join_surrogates s = s"

fun units32 :: "bool \<Rightarrow> nat list \<Rightarrow> str option" where
  "units32 big [] = Some []"
| "units32 big (a # b # c # d # r) =
     (let v = (if big then ((a * 256 + b) * 256 + c) * 256 + d else ((d * 256 + c) * 256 + b) * 256 + a)
      in if code_point v then map_option ((#) v) (units32 big r) else None)"
| "units32 big _ = None"

text \<open>\<open>raw.decode(json.detect_encoding(raw), "surrogatepass")\<close>\<close>

definition decode_json_bytes :: "bytes \<Rightarrow> str option" where
  "decode_json_bytes raw =
     (let b = map unat raw;
          utf16 = (\<lambda>big s. map_option join_surrogates (units16 big s))
      in if take 4 b = [0, 0, 254, 255] then units32 True (drop 4 b)
         else if take 4 b = [255, 254, 0, 0] then units32 False (drop 4 b)
         else if take 2 b = [254, 255] then utf16 True (drop 2 b)
         else if take 2 b = [255, 254] then utf16 False (drop 2 b)
         else if take 3 b = [239, 187, 191] then utf8_decode True (drop 3 b)
         else if 4 \<le> length b \<and> b ! 0 = 0 then (if b ! 1 \<noteq> 0 then utf16 True b else units32 True b)
         else if 4 \<le> length b \<and> b ! 1 = 0 then
           (if b ! 2 \<noteq> 0 \<or> b ! 3 \<noteq> 0 then utf16 False b else units32 False b)
         else if length b = 2 \<and> b ! 0 = 0 then utf16 True b
         else if length b = 2 \<and> b ! 1 = 0 then utf16 False b
         else utf8_decode True b)"

section \<open>Strings and integers\<close>

text \<open>A string is read from behind its opening quote.\<close>

definition hex_fold :: "nat \<Rightarrow> nat" where
  "hex_fold c = (if 65 \<le> c \<and> c \<le> 70 then c + 32 else c)"

definition hex4_read :: "str \<Rightarrow> (nat \<times> str) option" where
  "hex4_read s =
     (let ds = map hex_fold (take 4 s)
      in if 4 \<le> length s \<and> list_all is_hex ds then Some (hex_number ds, drop 4 s) else None)"

definition low_half_read :: "str \<Rightarrow> (nat \<times> str) option" where
  "low_half_read s =
     (if take 2 s = [92, 117]
      then (case hex4_read (drop 2 s) of
              Some (v, r) \<Rightarrow> if 56320 \<le> v \<and> v \<le> 57343 then Some (v, r) else None
            | None \<Rightarrow> None)
      else None)"

definition json_escape_read :: "str \<Rightarrow> (nat \<times> str) option" where
  "json_escape_read s =
     (case s of
        [] \<Rightarrow> None
      | e # r \<Rightarrow>
          if e = 34 \<or> e = 92 \<or> e = 47 then Some (e, r)
          else if e = 98 then Some (8, r)
          else if e = 102 then Some (12, r)
          else if e = 110 then Some (10, r)
          else if e = 114 then Some (13, r)
          else if e = 116 then Some (9, r)
          else if e = 117 then
            (case hex4_read r of
               None \<Rightarrow> None
             | Some (v, r1) \<Rightarrow>
                 if 55296 \<le> v \<and> v \<le> 56319
                 then (case low_half_read r1 of
                         None \<Rightarrow> Some (v, r1)
                       | Some (w, r2) \<Rightarrow> Some (65536 + (v - 55296) * 1024 + (w - 56320), r2))
                 else Some (v, r1))
          else None)"

lemma hex4_read_shorter: "hex4_read s = Some (v, r) \<Longrightarrow> length r \<le> length s"
  by (auto simp: hex4_read_def Let_def split: if_splits)

lemma low_half_read_shorter: "low_half_read s = Some (v, r) \<Longrightarrow> length r \<le> length s"
  using hex4_read_shorter [of "drop 2 s"] by (fastforce simp: low_half_read_def split: if_splits option.splits)

lemma json_escape_read_shorter: "json_escape_read s = Some (v, r) \<Longrightarrow> length r < length s"
  by (auto simp: json_escape_read_def less_Suc_eq_le split: list.splits if_splits option.splits
      dest!: hex4_read_shorter low_half_read_shorter)

function json_string_read :: "str \<Rightarrow> (str \<times> str) option" where
  "json_string_read [] = None"
| "json_string_read (c # r) =
     (if c = 34 then Some ([], r)
      else if c < 32 then None
      else if c = 92
      then (case json_escape_read r of
              None \<Rightarrow> None
            | Some (x, r1) \<Rightarrow> map_option (apfst ((#) x)) (json_string_read r1))
      else map_option (apfst ((#) c)) (json_string_read r))"
  by pat_completeness auto
termination
  by (relation "measure length") (auto dest: json_escape_read_shorter)

definition json_int_read :: "str \<Rightarrow> (int \<times> str) option" where
  "json_int_read s =
     (let neg = take 1 s = [45]; t = (if neg then drop 1 s else s); ds = takeWhile is_digit t
      in if ds = [] \<or> (1 < length ds \<and> hd ds = 48) then None
         else Some (if neg then - int (dec_value ds) else int (dec_value ds), dropWhile is_digit t))"

section \<open>Values\<close>

definition skip_space :: "str \<Rightarrow> str" where
  "skip_space s = dropWhile (\<lambda>c. c = 32 \<or> c = 9 \<or> c = 10 \<or> c = 13) s"

text \<open>A fraction and an exponent belong to a number only when they have digits.\<close>

definition fraction_read :: "str \<Rightarrow> str \<times> str" where
  "fraction_read s =
     (if take 1 s = [46] then (takeWhile is_digit (drop 1 s),
        if takeWhile is_digit (drop 1 s) = [] then s else dropWhile is_digit (drop 1 s))
      else ([], s))"

definition exponent_read :: "str \<Rightarrow> int option \<times> str" where
  "exponent_read s =
     (let t = drop 1 s; neg = take 1 t = [45];
          t' = (if neg \<or> take 1 t = [43] then drop 1 t else t); ds = takeWhile is_digit t'
      in if (take 1 s = [101] \<or> take 1 s = [69]) \<and> ds \<noteq> []
         then (Some (if neg then - int (dec_value ds) else int (dec_value ds)), dropWhile is_digit t')
         else (None, s))"

definition pow10 :: "int \<Rightarrow> rat" where
  "pow10 e = (if 0 \<le> e then 10 ^ nat e else 1 / 10 ^ nat (- e))"

definition json_number_read :: "str \<Rightarrow> (json \<times> str) option" where
  "json_number_read s =
     (case json_int_read s of
        None \<Rightarrow> None
      | Some (i, r) \<Rightarrow>
          let (ds, r1) = fraction_read r; (e, r2) = exponent_read r1
          in if ds = [] \<and> e = None then Some (JInt i, r)
             else let m = of_int \<bar>i\<bar> + of_nat (dec_value ds) / 10 ^ length ds;
                      v = m * pow10 (case e of None \<Rightarrow> 0 | Some k \<Rightarrow> k)
                  in Some (JFloat (round64 (if take 1 s = [45] then - v else v)), r2))"

type_synonym pairs_hook = "(str \<times> json) list \<Rightarrow> json option"

text \<open>\<open>_reject_duplicate_keys\<close> of the model responses.\<close>

definition reject_duplicates :: pairs_hook where
  "reject_duplicates kvs = (if distinct (map fst kvs) then Some (JObj kvs) else None)"

text \<open>
  \<open>scan_once\<close> and the readers of arrays and objects behind their bracket. The constants \<open>NaN\<close> and
  \<open>Infinity\<close> are refused, as every caller's \<open>parse_constant\<close> or comparison does. The natural number
  bounds the depth of the calls; twice the length of the text is always enough (\<open>json_readers_fuel\<close>).
\<close>

fun scan_value :: "pairs_hook \<Rightarrow> nat \<Rightarrow> str \<Rightarrow> (json \<times> str) option"
  and scan_items :: "pairs_hook \<Rightarrow> nat \<Rightarrow> str \<Rightarrow> (json list \<times> str) option"
  and scan_pairs :: "pairs_hook \<Rightarrow> nat \<Rightarrow> str \<Rightarrow> ((str \<times> json) list \<times> str) option"
where
  "scan_value hook 0 s = None"
| "scan_value hook (Suc n) s =
     (if take 1 s = [34] then map_option (apfst JStr) (json_string_read (drop 1 s))
      else if take 1 s = [123] then
        (let t = skip_space (drop 1 s)
         in case (if take 1 t = [125] then Some ([], drop 1 t) else scan_pairs hook n t) of
              None \<Rightarrow> None
            | Some (kvs, r) \<Rightarrow> map_option (\<lambda>v. (v, r)) (hook kvs))
      else if take 1 s = [91] then
        (let t = skip_space (drop 1 s)
         in if take 1 t = [93] then Some (JArr [], drop 1 t) else map_option (apfst JArr) (scan_items hook n t))
      else if take 4 s = u ''null'' then Some (JNull, drop 4 s)
      else if take 4 s = u ''true'' then Some (JBool True, drop 4 s)
      else if take 5 s = u ''false'' then Some (JBool False, drop 5 s)
      else json_number_read s)"
| "scan_items hook 0 s = None"
| "scan_items hook (Suc n) s =
     (case scan_value hook n s of
        None \<Rightarrow> None
      | Some (v, r) \<Rightarrow>
          let t = skip_space r
          in if take 1 t = [93] then Some ([v], drop 1 t)
             else if take 1 t = [44] then map_option (apfst ((#) v)) (scan_items hook n (skip_space (drop 1 t)))
             else None)"
| "scan_pairs hook 0 s = None"
| "scan_pairs hook (Suc n) s =
     (if take 1 s \<noteq> [34] then None
      else case json_string_read (drop 1 s) of
        None \<Rightarrow> None
      | Some (k, r) \<Rightarrow>
          let t = skip_space r
          in if take 1 t \<noteq> [58] then None
             else case scan_value hook n (skip_space (drop 1 t)) of
               None \<Rightarrow> None
             | Some (v, r1) \<Rightarrow>
                 let t1 = skip_space r1
                 in if take 1 t1 = [125] then Some ([(k, v)], drop 1 t1)
                    else if take 1 t1 = [44]
                    then map_option (apfst ((#) (k, v))) (scan_pairs hook n (skip_space (drop 1 t1)))
                    else None)"

definition loads :: "pairs_hook \<Rightarrow> bytes \<Rightarrow> json res" where
  "loads hook raw =
     (case decode_json_bytes raw of
        None \<Rightarrow> Inl ValueError
      | Some text' \<Rightarrow>
          (case scan_value hook (2 * length text' + 1) (skip_space text') of
             Some (v, r) \<Rightarrow> if skip_space r = [] then Inr v else Inl ValueError
           | None \<Rightarrow> Inl ValueError))"

section \<open>Lemmas on strings and integers\<close>

lemma json_string_read_shorter: "json_string_read s = Some (v, r) \<Longrightarrow> length r < length s"
proof (induction s arbitrary: v r rule: json_string_read.induct)
  case (2 c s)
  then show ?case
    by (auto split: if_splits option.splits dest!: json_escape_read_shorter) fastforce+
qed simp

lemma dropWhile_shorter: "takeWhile P s \<noteq> [] \<Longrightarrow> length (dropWhile P s) < length s"
  by (metis add_less_cancel_right add_0 length_append length_greater_0_conv takeWhile_dropWhile_id)

lemma json_int_read_shorter: "json_int_read s = Some (v, r) \<Longrightarrow> length r < length s"
  using dropWhile_shorter [of is_digit s] dropWhile_shorter [of is_digit "drop 1 s"]
  by (auto simp: json_int_read_def Let_def split: if_splits)

lemma hex4_read_hex4:
  assumes "c < 65536"
  shows "hex4_read (hex4 c @ r) = Some (c, r)"
proof -
  have "c div 4096 < 16" using assms by (simp add: less_mult_imp_div_less)
  then have "list_all is_hex (hex4 c)" "hex_number (hex4 c)
      = ((c div 4096 * 16 + c div 256 mod 16) * 16 + c div 16 mod 16) * 16 + c mod 16"
    by (simp_all add: hex4_def is_hex_hex_digit hex_number_def hex_value_digit)
  moreover have "((c div 4096 * 16 + c div 256 mod 16) * 16 + c div 16 mod 16) * 16 + c mod 16 = c"
  proof -
    have "c div 256 = c div 16 div 16" "c div 4096 = c div 16 div 16 div 16" by (simp_all add: div_mult2_eq [symmetric])
    then show ?thesis
      using div_mult_mod_eq [of c 16] div_mult_mod_eq [of "c div 16" 16] div_mult_mod_eq [of "c div 16 div 16" 16]
      by simp
  qed
  moreover have "map hex_fold (hex4 c) = hex4 c"
    using \<open>list_all is_hex (hex4 c)\<close> by (auto simp: list_all_iff is_hex_def is_digit_def hex_fold_def intro!: map_idI)
  ultimately show ?thesis by (simp add: hex4_read_def Let_def)
qed

lemma low_half_read_pair:
  "56320 \<le> v \<Longrightarrow> v \<le> 57343 \<Longrightarrow> low_half_read ([92, 117] @ hex4 v @ r) = Some (v, r)"
  by (simp add: low_half_read_def hex4_read_hex4)

lemma json_escape_read_basic:
  assumes "c < 65536" "\<not> is_surrogate c"
  shows "json_escape_read (117 # hex4 c @ r) = Some (c, r)"
  using assms by (auto simp: json_escape_read_def hex4_read_hex4 is_surrogate_def)

lemma json_escape_read_astral:
  assumes "65536 \<le> c" "c < 1114112"
  shows "json_escape_read (117 # hex4 (55296 + (c - 65536) div 1024) @ 92 # 117 # hex4 (56320 + (c - 65536) mod 1024) @ r)
    = Some (c, r)"
proof -
  let ?q = "(c - 65536) div 1024" and ?m = "(c - 65536) mod 1024"
  have b: "?q < 1024" "?m < 1024" using assms(2) by (simp_all add: less_mult_imp_div_less)
  have "?q * 1024 + ?m = c - 65536" by (rule div_mult_mod_eq)
  then have c: "65536 + ?q * 1024 + ?m = c" using assms(1) by linarith
  have "low_half_read (92 # 117 # hex4 (56320 + ?m) @ r) = Some (56320 + ?m, r)"
    using low_half_read_pair [of "56320 + ?m" r] b(2) by simp
  then show ?thesis using b(1) c by (simp add: json_escape_read_def hex4_read_hex4)
qed

lemma json_string_read_char:
  assumes "unicode_scalar c" "json_string_read t = Some (s, r)"
  shows "json_string_read (json_char c @ t) = Some (c # s, r)"
proof (cases "c < 65536")
  case True
  with assms json_escape_read_basic [of c t] show ?thesis
    by (auto simp: json_char_def unicode_scalar_def json_escape_read_def)
next
  case False
  then have "json_char c @ t = 92 # 117 # hex4 (55296 + (c - 65536) div 1024) @ 92 # 117 # hex4 (56320 + (c - 65536) mod 1024) @ t"
    by (simp add: json_char_def)
  with False assms json_escape_read_astral [of c t] show ?thesis
    by (simp add: unicode_scalar_def)
qed

lemma json_string_read_string:
  "list_all unicode_scalar s \<Longrightarrow> json_string_read (concat (map json_char s) @ 34 # r) = Some (s, r)"
  by (induction s) (simp_all add: json_string_read_char)

lemma dec_nat_head: "0 < n \<Longrightarrow> hd (dec_nat n) \<noteq> 48"
proof (induction n rule: dec_nat.induct)
  case (1 n)
  then show ?case by (cases "n < 10") (simp_all add: dec_nat.simps [of n] dec_nat_nonempty)
qed

lemma dec_nat_canonical: "\<not> (1 < length (dec_nat n) \<and> hd (dec_nat n) = 48)"
  using dec_nat_head [of n] by (cases "n = 0") (simp_all add: dec_nat.simps [of 0])

definition ends_number :: "str \<Rightarrow> bool" where
  "ends_number r \<longleftrightarrow> r = [] \<or> \<not> is_digit (hd r)"

lemma digits_split:
  assumes "ends_number r"
  shows "takeWhile is_digit (dec_nat n @ r) = dec_nat n" "dropWhile is_digit (dec_nat n @ r) = r"
proof -
  have "\<forall>c \<in> set (dec_nat n). is_digit c" using dec_nat_digits [of n] by (simp add: list_all_iff)
  moreover have "takeWhile is_digit r = []" "dropWhile is_digit r = r"
    using assms by (cases r; simp add: ends_number_def)+
  ultimately show "takeWhile is_digit (dec_nat n @ r) = dec_nat n" "dropWhile is_digit (dec_nat n @ r) = r"
    by simp_all
qed

lemma json_int_read_dec:
  assumes "ends_number r"
  shows "json_int_read (dec_int i @ r) = Some (i, r)"
proof (cases "i < 0")
  case True
  then show ?thesis
    using dec_nat_canonical [of "nat (- i)"]
    by (auto simp: json_int_read_def dec_int_def digits_split [OF assms] dec_nat_nonempty dec_value_nat)
next
  case False
  obtain c cs where c: "dec_nat (nat i) = c # cs" "is_digit c"
    using dec_nat_digits [of "nat i"] dec_nat_nonempty [of "nat i"] by (cases "dec_nat (nat i)") auto
  then have "take 1 (dec_nat (nat i) @ r) \<noteq> [45]" by (auto simp: is_digit_def)
  with False show ?thesis
    using dec_nat_canonical [of "nat i"] unfolding json_int_read_def dec_int_def
    by (auto simp: Let_def digits_split [OF assms] dec_nat_nonempty dec_value_nat)
qed

lemma dec_int_head:
  obtains c cs where "dec_int i = c # cs" "c = 45 \<or> is_digit c"
  using dec_nat_digits [of "nat i"] dec_nat_nonempty [of "nat i"]
  by (cases "i < 0"; cases "dec_nat (nat i)") (auto simp: dec_int_def)

section \<open>Lemmas on values\<close>

lemma skip_space_le: "length (skip_space s) \<le> length s"
  by (simp add: skip_space_def length_dropWhile_le)

lemma fraction_read_le: "fraction_read s = (ds, r) \<Longrightarrow> length r \<le> length s"
  using length_dropWhile_le [of is_digit "drop 1 s"] by (auto simp: fraction_read_def split: if_splits)

lemma exponent_read_le: "exponent_read s = (e, r) \<Longrightarrow> length r \<le> length s"
  using length_dropWhile_le [of is_digit "drop 1 s"] length_dropWhile_le [of is_digit "drop 1 (drop 1 s)"]
  by (auto simp: exponent_read_def Let_def split: if_splits)

lemma json_number_read_shorter: "json_number_read s = Some (v, r) \<Longrightarrow> length r < length s"
  by (fastforce simp: json_number_read_def Let_def split: option.splits prod.splits if_splits
      dest!: json_int_read_shorter fraction_read_le exponent_read_le)

lemma take1_cons: "take 1 s = [c] \<longleftrightarrow> (\<exists>t. s = c # t)"
  by (cases s) auto

lemma take_eq_length: "take k s = w \<Longrightarrow> length w = k \<Longrightarrow> 0 < k \<Longrightarrow> length (drop k s) < length s"
  by (metis diff_less length_drop length_take min.bounded_iff order_less_le_trans order_refl)

lemma skip_drop_le:
  "length (drop 1 (skip_space s)) \<le> length s" "length (skip_space (drop 1 (skip_space s))) \<le> length s"
  "length (skip_space (drop 1 s)) \<le> length s - 1"
  using skip_space_le [of s] skip_space_le [of "drop 1 (skip_space s)"] skip_space_le [of "drop 1 s"] by simp_all

text \<open>Every reader consumes text.\<close>

lemma json_readers_shorter:
  "scan_value hook n s = Some (v, r) \<Longrightarrow> length r < length s"
  "scan_items hook n s = Some (vs, r) \<Longrightarrow> length r < length s"
  "scan_pairs hook n s = Some (kvs, r) \<Longrightarrow> length r < length s"
proof (induction hook n s and hook n s and hook n s arbitrary: v r and vs r and kvs r
    rule: scan_value_scan_items_scan_pairs.induct)
  case (2 hook n s)
  then show ?case
    using skip_drop_le(3) [of s]
    by (auto simp: Let_def take1_cons length_u split: if_splits option.splits
      dest!: json_string_read_shorter json_number_read_shorter take_eq_length) fastforce+
next
  case (4 hook n s)
  then obtain x b where x: "scan_value hook n s = Some (x, b)" by (auto split: option.splits)
  with 4 have "length b < length s" by blast
  moreover have "length r \<le> length b"
    using 4(2)[OF x refl refl] 4(3) x skip_drop_le [of b] by (auto simp: Let_def split: if_splits)
  ultimately show ?case by simp
next
  case (6 hook n s)
  then obtain k b x c where x: "json_string_read (drop 1 s) = Some (k, b)" "take 1 s = [34]"
    "take 1 (skip_space b) = [58]" "scan_value hook n (skip_space (drop 1 (skip_space b))) = Some (x, c)"
    by (auto simp: Let_def split: option.splits if_splits)
  then have "length b < length s" "length c < length b"
    using json_string_read_shorter [OF x(1)] skip_drop_le [of b] 6(1) [OF _ x(1) refl refl _] by (auto simp: take1_cons) 
  moreover have "length r \<le> length c"
    using 6(3) x skip_drop_le [of c] 6(2) [OF _ x(1) refl refl _ x(4) refl refl]
    by (auto simp: Let_def split: if_splits)
  ultimately show ?case by simp
qed simp_all

text \<open>Fuel of twice the length of the text is enough, and more changes nothing.\<close>

lemma json_readers_fuel:
  "\<lbrakk>2 * length s + 1 \<le> n; 2 * length s + 1 \<le> m\<rbrakk> \<Longrightarrow> scan_value hook n s = scan_value hook m s"
  "\<lbrakk>2 * length s + 2 \<le> n; 2 * length s + 2 \<le> m\<rbrakk> \<Longrightarrow> scan_items hook n s = scan_items hook m s"
  "\<lbrakk>2 * length s + 2 \<le> n; 2 * length s + 2 \<le> m\<rbrakk> \<Longrightarrow> scan_pairs hook n s = scan_pairs hook m s"
proof (induction n arbitrary: s m)
  case (Suc n)
  { fix s :: str and m assume "2 * length s + 1 \<le> Suc n" "2 * length s + 1 \<le> m"
    then obtain k where m: "m = Suc k" "2 * length s \<le> n" "2 * length s \<le> k" by (cases m) auto
    let ?t = "skip_space (drop 1 s)"
    have "scan_items hook n ?t = scan_items hook k ?t \<and> scan_pairs hook n ?t = scan_pairs hook k ?t" if "s \<noteq> []"
    proof -
      have "2 * length ?t + 2 \<le> 2 * length s" using that skip_drop_le(3) [of s] by (cases s) auto
      with m(2,3) show ?thesis using Suc.IH(2,3) [of ?t k] by simp
    qed
    then show "scan_value hook (Suc n) s = scan_value hook m s"
      unfolding m(1) scan_value.simps by (cases "s = []") (simp_all add: Let_def)
  }
  { fix s :: str and m assume "2 * length s + 2 \<le> Suc n" "2 * length s + 2 \<le> m"
    then obtain k where m: "m = Suc k" "2 * length s + 1 \<le> n" "2 * length s + 1 \<le> k" by (cases m) auto
    have "scan_items hook n (skip_space (drop 1 (skip_space r))) = scan_items hook k (skip_space (drop 1 (skip_space r)))"
      if "scan_value hook k s = Some (v, r)" for v r
      using m(2,3) skip_drop_le(2) [of r] json_readers_shorter(1) [OF that] by (intro Suc.IH(2)) simp_all
    then show "scan_items hook (Suc n) s = scan_items hook m s"
      using Suc.IH(1) [OF m(2,3)] unfolding m(1) scan_items.simps by (simp add: Let_def split: option.split)
  }
  { fix s :: str and m assume "2 * length s + 2 \<le> Suc n" "2 * length s + 2 \<le> m"
    then obtain k where m: "m = Suc k" "2 * length s + 1 \<le> n" "2 * length s + 1 \<le> k" by (cases m) auto
    have "scan_value hook n (skip_space (drop 1 (skip_space r))) = scan_value hook k (skip_space (drop 1 (skip_space r)))"
      if "json_string_read (drop 1 s) = Some (key, r)" for key r
      using m(2,3) skip_drop_le(2) [of r] json_string_read_shorter [OF that] by (intro Suc.IH(1)) simp_all
    moreover have "scan_pairs hook n (skip_space (drop 1 (skip_space r'))) = scan_pairs hook k (skip_space (drop 1 (skip_space r')))"
      if "json_string_read (drop 1 s) = Some (key, r)" "scan_value hook k (skip_space (drop 1 (skip_space r))) = Some (v, r')"
      for key r v r'
      using m(2,3) skip_drop_le(2) [of r] skip_drop_le(2) [of r'] json_string_read_shorter [OF that(1)]
        json_readers_shorter(1) [OF that(2)] by (intro Suc.IH(3)) simp_all
    ultimately show "scan_pairs hook (Suc n) s = scan_pairs hook m s"
      unfolding m(1) scan_pairs.simps by (simp add: Let_def split: option.split)
  }
qed simp_all


declare scan_value.simps [simp del] scan_items.simps [simp del] scan_pairs.simps [simp del]

text \<open>The readers without fuel.\<close>

definition value_read :: "pairs_hook \<Rightarrow> str \<Rightarrow> (json \<times> str) option" where
  "value_read hook s = scan_value hook (2 * length s + 1) s"

definition items_read :: "pairs_hook \<Rightarrow> str \<Rightarrow> (json list \<times> str) option" where
  "items_read hook s = scan_items hook (2 * length s + 2) s"

definition pairs_read :: "pairs_hook \<Rightarrow> str \<Rightarrow> ((str \<times> json) list \<times> str) option" where
  "pairs_read hook s = scan_pairs hook (2 * length s + 2) s"

lemma value_read_Suc: "value_read hook s = scan_value hook (Suc (2 * length s)) s"
  by (simp add: value_read_def)

lemma items_read_at: "2 * length s + 2 \<le> n \<Longrightarrow> scan_items hook n s = items_read hook s"
  and pairs_read_at: "2 * length s + 2 \<le> n \<Longrightarrow> scan_pairs hook n s = pairs_read hook s"
  and value_read_at: "2 * length s + 1 \<le> n \<Longrightarrow> scan_value hook n s = value_read hook s"
  unfolding items_read_def pairs_read_def value_read_def by (rule json_readers_fuel; simp)+

lemma two_Suc: "n + 2 = Suc (n + 1)" by simp

lemma value_read_array:
  "value_read hook (91 # s) =
     (let t = skip_space s
      in if take 1 t = [93] then Some (JArr [], drop 1 t) else map_option (apfst JArr) (items_read hook t))"
  using skip_space_le [of s] by (simp add: value_read_Suc scan_value.simps Let_def items_read_at)

lemma value_read_object:
  "value_read hook (123 # s) =
     (let t = skip_space s
      in case (if take 1 t = [125] then Some ([], drop 1 t) else pairs_read hook t) of
           None \<Rightarrow> None
         | Some (kvs, r) \<Rightarrow> map_option (\<lambda>v. (v, r)) (hook kvs))"
  using skip_space_le [of s] by (simp add: value_read_Suc scan_value.simps Let_def pairs_read_at)

lemma value_read_string: "value_read hook (34 # s) = map_option (apfst JStr) (json_string_read s)"
  by (simp add: value_read_Suc scan_value.simps)

lemma items_read_next:
  assumes "value_read hook s = Some (v, r)"
  shows "items_read hook s =
     (let t = skip_space r
      in if take 1 t = [93] then Some ([v], drop 1 t)
         else if take 1 t = [44] then map_option (apfst ((#) v)) (items_read hook (skip_space (drop 1 t)))
         else None)"
proof -
  have "length r < length s" using assms json_readers_shorter(1) unfolding value_read_def by blast
  then have "2 * length (skip_space (drop 1 (skip_space r))) + 2 \<le> 2 * length s + 1" using skip_drop_le(2) [of r] by simp
  with assms show ?thesis
    unfolding items_read_def [of _ s] two_Suc scan_items.simps(2) by (simp add: value_read_at items_read_at Let_def)
qed

lemma pairs_read_next:
  assumes "json_string_read s = Some (k, 58 # r)" "value_read hook (skip_space r) = Some (v, r')"
  shows "pairs_read hook (34 # s) =
     (let t = skip_space r'
      in if take 1 t = [125] then Some ([(k, v)], drop 1 t)
         else if take 1 t = [44] then map_option (apfst ((#) (k, v))) (pairs_read hook (skip_space (drop 1 t)))
         else None)"
proof -
  have "length (58 # r) < length s" using json_string_read_shorter [OF assms(1)] .
  moreover have "length r' < length (skip_space r)" using assms(2) json_readers_shorter(1) unfolding value_read_def by blast
  ultimately have "2 * length (skip_space (drop 1 (skip_space r'))) + 2 \<le> 2 * length (34 # s) + 1"
    "2 * length (skip_space r) + 1 \<le> 2 * length (34 # s) + 1"
    using skip_drop_le(2) [of r'] skip_space_le [of r] by simp_all
  with assms show ?thesis
    unfolding pairs_read_def [of _ "34 # s"] two_Suc scan_pairs.simps(2)
    by (simp add: value_read_at pairs_read_at Let_def skip_space_def [of "58 # r"])
qed

section \<open>Reading back what was written\<close>

text \<open>The compact text of a value without floats, and that it is read back.\<close>

fun comma_joined :: "str list \<Rightarrow> str" where
  "comma_joined [] = []"
| "comma_joined [t] = t"
| "comma_joined (t # ts) = t @ 44 # comma_joined ts"

fun json_text :: "json \<Rightarrow> str" where
  "json_text JNull = u ''null''"
| "json_text (JBool b) = (if b then u ''true'' else u ''false'')"
| "json_text (JInt i) = dec_int i"
| "json_text (JFloat f) = []"
| "json_text (JStr s) = json_string s"
| "json_text (JArr vs) = 91 # comma_joined (map json_text vs) @ [93]"
| "json_text (JObj kvs) = 123 # comma_joined (map (\<lambda>(k, v). json_string k @ 58 # json_text v) kvs) @ [125]"

fun writable_json :: "json \<Rightarrow> bool" where
  "writable_json (JFloat f) = False"
| "writable_json (JStr s) = list_all unicode_scalar s"
| "writable_json (JArr vs) = list_all writable_json vs"
| "writable_json (JObj kvs) \<longleftrightarrow> distinct (map fst kvs) \<and> list_all (\<lambda>(k, v). list_all unicode_scalar k \<and> writable_json v) kvs"
| "writable_json _ = True"

definition ends_value :: "str \<Rightarrow> bool" where
  "ends_value r \<longleftrightarrow> r = [] \<or> hd r \<in> {44, 93, 125}"

lemma skip_space_visible: "\<lbrakk>s \<noteq> []; hd s \<notin> {32, 9, 10, 13}\<rbrakk> \<Longrightarrow> skip_space s = s"
  by (cases s) (auto simp: skip_space_def)

lemma ends_value_cases [simp]: "ends_value []" "ends_value (44 # r)" "ends_value (93 # r)" "ends_value (125 # r)"
  by (simp_all add: ends_value_def)

lemma ends_value_skip: "ends_value r \<Longrightarrow> skip_space r = r"
  by (cases r) (auto simp: ends_value_def skip_space_def)

lemma json_text_visible: "writable_json v \<Longrightarrow> \<exists>c t. json_text v = c # t \<and> c \<notin> {32, 9, 10, 13, 93, 125}"
proof (cases v)
  case (JInt i)
  obtain c cs where "dec_int i = c # cs" "c = 45 \<or> is_digit c" by (rule dec_int_head)
  with JInt show ?thesis by (auto simp: is_digit_def)
qed (auto simp: u_def json_string_def)

lemma ends_value_number: "ends_value r \<Longrightarrow> ends_number r \<and> fraction_read r = ([], r) \<and> exponent_read r = (None, r)"
  by (cases r) (auto simp: ends_value_def ends_number_def is_digit_def fraction_read_def exponent_read_def Let_def)

lemma value_read_int: "ends_value r \<Longrightarrow> value_read hook (dec_int i @ r) = Some (JInt i, r)"
proof -
  assume r: "ends_value r"
  obtain c cs where "dec_int i = c # cs" "c = 45 \<or> is_digit c" by (rule dec_int_head)
  with json_int_read_dec [of r i] ends_value_number [OF r] show ?thesis
    by (auto simp: value_read_Suc scan_value.simps json_number_read_def is_digit_def u_def)
qed

lemma value_read_literals:
  "value_read hook (u ''null'' @ r) = Some (JNull, r)" "value_read hook (u ''true'' @ r) = Some (JBool True, r)"
  "value_read hook (u ''false'' @ r) = Some (JBool False, r)"
  by (simp_all add: value_read_Suc scan_value.simps u_def)


lemma comma_joined_Cons: "comma_joined (t # ts) @ r = t @ (if ts = [] then r else 44 # comma_joined ts @ r)"
  by (cases ts) simp_all

lemma items_read_text:
  assumes "\<And>v r. v \<in> set vs \<Longrightarrow> ends_value r \<Longrightarrow> value_read hook (json_text v @ r) = Some (v, r)"
    and "vs \<noteq> []" "list_all writable_json vs"
  shows "items_read hook (comma_joined (map json_text vs) @ 93 # r) = Some (vs, r)"
  using assms
proof (induction vs)
  case (Cons v vs)
  show ?case
  proof (cases "vs = []")
    case True
    with Cons.prems items_read_next [of hook "json_text v @ 93 # r" v "93 # r"] show ?thesis
      by (simp add: ends_value_skip)
  next
    case False
    let ?t = "comma_joined (map json_text vs) @ 93 # r"
    obtain w ws where w: "vs = w # ws" using False by (cases vs) auto
    then have "skip_space ?t = ?t"
      using Cons.prems(3) json_text_visible [of w] by (auto simp: comma_joined_Cons intro!: skip_space_visible)
    moreover have "items_read hook ?t = Some (vs, r)" using Cons False by simp
    ultimately show ?thesis
      using Cons.prems(1) [of v "44 # ?t"] items_read_next [of hook "json_text v @ 44 # ?t" v "44 # ?t"] False
      by (simp add: comma_joined_Cons ends_value_skip)
  qed
qed simp

lemma pairs_read_text:
  assumes "\<And>k v r. (k, v) \<in> set kvs \<Longrightarrow> ends_value r \<Longrightarrow> value_read hook (json_text v @ r) = Some (v, r)"
    and "kvs \<noteq> []" "list_all (\<lambda>(k, v). list_all unicode_scalar k \<and> writable_json v) kvs"
  shows "pairs_read hook (comma_joined (map (\<lambda>(k, v). json_string k @ 58 # json_text v) kvs) @ 125 # r) = Some (kvs, r)"
  using assms
proof (induction kvs)
  case (Cons kv kvs)
  obtain k v where kv: "kv = (k, v)" by fastforce
  have key: "json_string_read (concat (map json_char k) @ 34 # 58 # t) = Some (k, 58 # t)" for t
    using Cons.prems(3) kv by (intro json_string_read_string) simp
  have visible: "skip_space (json_text v @ t) = json_text v @ t" for t
    using Cons.prems(3) kv json_text_visible [of v] by (auto intro!: skip_space_visible)
  have next_pair: "pairs_read hook (json_string k @ 58 # json_text v @ t) =
     (if take 1 t = [125] then Some ([(k, v)], drop 1 t)
      else if take 1 t = [44] then map_option (apfst ((#) (k, v))) (pairs_read hook (skip_space (drop 1 t))) else None)"
    if "ends_value t" for t
    using pairs_read_next [OF key [of "json_text v @ t"], of hook v t] visible [of t] Cons.prems(1) [of k v t] kv that
    by (simp add: json_string_def ends_value_skip Let_def)
  show ?case
  proof (cases "kvs = []")
    case True
    with Cons.prems kv next_pair [of "125 # r"] show ?thesis
      by (simp add: ends_value_skip json_string_def)
  next
    case False
    let ?t = "comma_joined (map (\<lambda>(k, v). json_string k @ 58 # json_text v) kvs) @ 125 # r"
    obtain w ws where "kvs = w # ws" using False by (cases kvs) auto
    then have "skip_space ?t = ?t"
      by (auto simp: comma_joined_Cons json_string_def split: prod.splits intro!: skip_space_visible)
    moreover have "pairs_read hook ?t = Some (kvs, r)"
      using Cons.prems False by (intro Cons.IH) auto
    ultimately show ?thesis
      using Cons.prems(1) [of k v "44 # ?t"] next_pair [of "44 # ?t"] False kv
      by (simp add: comma_joined_Cons ends_value_skip json_string_def)
  qed
qed simp

lemma value_read_text:
  "writable_json v \<Longrightarrow> ends_value r \<Longrightarrow> value_read reject_duplicates (json_text v @ r) = Some (v, r)"
proof (induction v arbitrary: r)
  case (JArr vs)
  show ?case
  proof (cases "vs = []")
    case False
    let ?t = "comma_joined (map json_text vs) @ 93 # r"
    obtain c t where t: "?t = c # t" "c \<notin> {32, 9, 10, 13, 93}"
      using False JArr.prems(1) json_text_visible [of "hd vs"] by (cases vs) (auto simp: comma_joined_Cons)
    then have "skip_space ?t = ?t" "take 1 ?t \<noteq> [93]" by (simp_all add: skip_space_def)
    with False JArr items_read_text [of vs reject_duplicates r] show ?thesis
      by (simp add: value_read_array Let_def list_all_iff del: take_append)
  qed (simp add: value_read_array skip_space_def)
next
  case (JObj kvs)
  show ?case
  proof (cases "kvs = []")
    case False
    let ?t = "comma_joined (map (\<lambda>(k, v). json_string k @ 58 # json_text v) kvs) @ 125 # r"
    obtain t where t: "?t = 34 # t"
      using False by (cases kvs) (auto simp: comma_joined_Cons json_string_def split: prod.splits)
    then have "skip_space ?t = ?t" "take 1 ?t \<noteq> [125]" by (simp_all add: skip_space_def)
    moreover have "pairs_read reject_duplicates ?t = Some (kvs, r)"
      using False JObj by (intro pairs_read_text) (fastforce simp: list_all_iff snds.simps)+
    ultimately show ?thesis
      using JObj.prems(1) by (simp add: value_read_object Let_def reject_duplicates_def [of kvs] del: take_append)
  qed (simp add: value_read_object skip_space_def reject_duplicates_def)
qed (auto simp: value_read_int value_read_literals value_read_string json_string_def json_string_read_string)


text \<open>Text without surrogates survives its UTF-8 encoding.\<close>

lemma utf8_first_units:
  assumes "code_point c" "lone \<or> \<not> is_surrogate c"
  shows "utf8_first lone (utf8_units c @ r) = Some (c, r)"
proof -
  have bounds: "c div 64 < 17408" "c div 4096 < 272" "c div 262144 < 5"
    using assms(1) by (simp_all add: code_point_def less_mult_imp_div_less)
  have ranges: "128 \<le> c \<Longrightarrow> 2 \<le> c div 64" "c < 2048 \<Longrightarrow> c div 64 < 32" "c < 65536 \<Longrightarrow> c div 4096 < 16"
    using div_le_mono [of 128 c 64] by (simp_all add: less_mult_imp_div_less)
  let ?k = "utf8_width (hd (utf8_units c @ r))"
  have k: "?k = length (utf8_units c)" "length (utf8_units c) \<noteq> 0"
    using bounds ranges by (auto simp: utf8_width_def utf8_units_def)
  have "list_all (\<lambda>b. 128 \<le> b \<and> b < 192) (tl (utf8_units c))" by (simp add: utf8_units_def)
  with k assms utf8_value_units [of c "[]"] show ?thesis by (simp add: utf8_first_def Let_def)
qed

lemma utf8_decode_units:
  "list_all code_point s \<Longrightarrow> lone \<or> \<not> list_ex is_surrogate s \<Longrightarrow> utf8_decode lone (concat (map utf8_units s)) = Some s"
proof (induction s)
  case (Cons c s)
  have "utf8_units c \<noteq> []" by (simp add: utf8_units_def)
  then obtain a t where a: "utf8_units c @ concat (map utf8_units s) = a # t" by (cases "utf8_units c") auto
  with Cons utf8_first_units [of c lone "concat (map utf8_units s)"] show ?case
    by (simp add: utf8_decode.simps(2)) (auto simp: utf8_decode.simps(2))
qed simp

lemma unat_utf8: "list_all code_point s \<Longrightarrow> map unat (utf8_surrogatepass s) = concat (map utf8_units s)"
  unfolding utf8_surrogatepass_def by (induction s) (simp_all add: utf8_char_units)


definition visible_ascii :: "nat \<Rightarrow> bool" where
  "visible_ascii c \<longleftrightarrow> 32 \<le> c \<and> c < 127"

lemma visible_asciiI [simp]: "32 \<le> c \<Longrightarrow> c < 127 \<Longrightarrow> visible_ascii c"
  by (simp add: visible_ascii_def)

lemma hex_digit_visible: "n < 16 \<Longrightarrow> visible_ascii (hex_digit n)"
  using is_hex_hex_digit [of n] by (auto simp: visible_ascii_def is_hex_def is_digit_def)

lemma hex4_visible: "c < 65536 \<Longrightarrow> list_all visible_ascii (hex4 c)"
  by (simp add: hex4_def hex_digit_visible less_mult_imp_div_less)

lemma json_char_visible: "code_point c \<Longrightarrow> list_all visible_ascii (json_char c)"
proof -
  assume "code_point c"
  then have "(c - 65536) div 1024 < 1024" "(c - 65536) mod 1024 < 1024"
    by (simp_all add: code_point_def less_mult_imp_div_less)
  then show ?thesis
    using hex4_visible [of c] hex4_visible [of "55296 + (c - 65536) div 1024"] hex4_visible [of "56320 + (c - 65536) mod 1024"]
    by (simp add: json_char_def)
qed

lemma json_string_visible: "list_all unicode_scalar s \<Longrightarrow> list_all visible_ascii (json_string s)"
  by (induction s) (auto simp: json_string_def unicode_scalar_def code_point_def json_char_visible)

lemma dec_int_visible: "list_all visible_ascii (dec_int i)"
  using dec_nat_digits [of "nat i"] dec_nat_digits [of "nat (- i)"]
  by (auto simp: dec_int_def list_all_iff is_digit_def visible_ascii_def)

lemma comma_joined_visible: "list_all (list_all visible_ascii) ts \<Longrightarrow> list_all visible_ascii (comma_joined ts)"
  by (induction ts rule: comma_joined.induct) (auto simp: visible_ascii_def)

lemma json_text_visible_ascii: "writable_json v \<Longrightarrow> list_all visible_ascii (json_text v)"
proof (induction v)
  case (JArr vs)
  then have "list_all visible_ascii (comma_joined (map json_text vs))"
    by (intro comma_joined_visible) (auto simp: list_all_iff)
  then show ?case by simp
next
  case (JObj kvs)
  have "list_all visible_ascii (comma_joined (map (\<lambda>(k, v). json_string k @ 58 # json_text v) kvs))"
  proof (intro comma_joined_visible, unfold list_all_iff [of "list_all visible_ascii"], safe)
    fix t assume "t \<in> set (map (\<lambda>(k, v). json_string k @ 58 # json_text v) kvs)"
    then obtain k v where kv: "(k, v) \<in> set kvs" "t = json_string k @ 58 # json_text v" by auto
    with JObj have "list_all visible_ascii (json_text v)" "list_all unicode_scalar k"
      by (fastforce simp: list_all_iff snds.simps)+
    with kv(2) show "list_all visible_ascii t" using json_string_visible [of k] by simp
  qed
  then show ?case by simp
qed (auto simp: u_def dec_int_visible json_string_visible)

lemma decode_visible_ascii:
  assumes "list_all visible_ascii s" "s \<noteq> []"
  shows "decode_json_bytes (utf8_surrogatepass s) = Some s"
proof -
  have range: "c \<in> set s \<Longrightarrow> 32 \<le> c \<and> c < 127" for c using assms(1) by (auto simp: list_all_iff visible_ascii_def)
  then have units: "utf8_units c = [c]" if "c \<in> set s" for c using that by (fastforce simp: utf8_units_def)
  have b: "map unat (utf8_surrogatepass s) = s"
    using range units by (subst unat_utf8) (auto simp: list_all_iff code_point_def concat_map_singleton dest!: range cong: map_cong)
  have "utf8_decode True s = Some s"
    using utf8_decode_units [of s True] units range
    by (fastforce simp: list_all_iff code_point_def concat_map_singleton cong: map_cong)
  moreover have nz: "s ! i \<noteq> 0" "s ! i < 127" if "i < length s" for i using range [of "s ! i"] that by auto
  have "hd s < 127" using assms(2) range by simp
  then have "take k s \<noteq> x # xs" if "127 \<le> x" for k x xs using that assms(2) by (cases s; cases k) auto
  moreover have "take 4 s \<noteq> 0 # xs" for xs using range [of "hd s"] assms(2) by (cases s) auto
  moreover have "length s = 2 \<or> 4 \<le> length s \<Longrightarrow> s ! 0 \<noteq> 0 \<and> s ! 1 \<noteq> 0" using nz(1) [of 0] nz(1) [of 1] by linarith
  ultimately show ?thesis by (auto simp: decode_json_bytes_def b Let_def)
qed

lemma loads_json_text: "writable_json v \<Longrightarrow> loads reject_duplicates (utf8_surrogatepass (json_text v)) = Inr v"
proof -
  assume v: "writable_json v"
  then obtain c t where "json_text v = c # t" "c \<notin> {32, 9, 10, 13}" using json_text_visible by blast
  then have "skip_space (json_text v) = json_text v" "json_text v \<noteq> []" by (simp_all add: skip_space_def)
  with decode_visible_ascii [OF json_text_visible_ascii [OF v]] value_read_text [OF v, of "[]"] show ?thesis
    by (simp add: loads_def value_read_def skip_space_def [of "[]"])
qed

end
