(* ===== verification/Ticket_Signing.thy ===== *)
theory Ticket_Signing
  imports Json_Text
begin

text \<open>
  \<open>src/engine/runtime/_ticket_signing.py\<close>: what the two ticket protocols share. Unpadded base64url,
  the canonical JSON text of a flat document and its strict reader, whole-second timestamps, the
  versioned keyring, and the functions that mint and verify a ticket of three dotted parts.

  A ticket document maps field names to strings, integers and \<open>None\<close>. \<open>json.loads\<close> reads more:
  insignificant space, floats, arrays and objects. The strict reader compares the canonical text of
  what was read with what was received, so a text with space in it is refused; a value of another
  kind is refused by the type test of its field. Both raise a \<open>ValueError\<close>, as the modelled reader
  does at once.
\<close>

section \<open>Validators\<close>

definition identifier_text :: "nat \<Rightarrow> str \<Rightarrow> bool" where
  "identifier_text maximum_length s \<longleftrightarrow>
     s \<noteq> [] \<and> \<not> str_isspace s \<and> length s \<le> maximum_length \<and> \<not> list_ex is_space s"

fun require_identifier :: "nat \<Rightarrow> pyval \<Rightarrow> str res" where
  "require_identifier maximum_length (PStr s) =
     (if identifier_text maximum_length s then Inr s else Inl ValueError)"
| "require_identifier _ _ = Inl ValueError"

fun require_whole_second_utc :: "pyval \<Rightarrow> datetime res" where
  "require_whole_second_utc (PDatetime d) =
     (if is_aware_utc d \<and> microsecond d = 0 then Inr d else Inl ValueError)"
| "require_whole_second_utc _ = Inl ValueError"

definition MAX_TOKEN_LENGTH :: nat where
  "MAX_TOKEN_LENGTH = 8192"

definition token_text :: "str \<Rightarrow> bool" where
  "token_text s \<longleftrightarrow> s \<noteq> [] \<and> length s \<le> MAX_TOKEN_LENGTH \<and> \<not> list_ex is_space s"

fun require_opaque_ticket_value :: "pyval \<Rightarrow> str res" where
  "require_opaque_ticket_value (PStr s) = (if token_text s then Inr s else Inl ValueError)"
| "require_opaque_ticket_value _ = Inl ValueError"

text \<open>What the clause \<open>except _EXPECTED_DECODING_ERRORS\<close> catches.\<close>

definition expected_decoding_error :: "exn \<Rightarrow> bool" where
  "expected_decoding_error e \<longleftrightarrow> is_value_error e \<or> e = TypeError"

section \<open>Keys\<close>

record TicketSigningKeyring =
  tk_active_version :: int
  tk_keys :: "(int \<times> bytes) list"

definition TicketSigningKeyring_init :: "pyval \<Rightarrow> (pyval \<times> bytes foreign) list \<Rightarrow> TicketSigningKeyring res" where
  "TicketSigningKeyring_init active_version keys =
     bnd (require_int_range 1 max_signed64 active_version) (\<lambda>version.
       if keys = [] then Inl ValueError else
       bnd (mapr (\<lambda>(key_version, secret).
              bnd (require_int_range 1 max_signed64 key_version) (\<lambda>canonical_version.
                case secret of
                  WrongType \<Rightarrow> Inl ValueError
                | Exact k \<Rightarrow> if length k < 32 then Inl ValueError else Inr (canonical_version, k))) keys) (\<lambda>copied.
         if version \<notin> set (map fst copied) then Inl ValueError
         else Inr \<lparr>tk_active_version = version, tk_keys = copied\<rparr>))"

definition key_for :: "TicketSigningKeyring \<Rightarrow> int \<Rightarrow> bytes option" where
  "key_for keyring version = map_of (tk_keys keyring) version"

section \<open>Unpadded base64url\<close>

definition sextet_char :: "nat \<Rightarrow> nat" where
  "sextet_char v =
     (if v < 26 then 65 + v else if v < 52 then 71 + v else if v < 62 then v - 4
      else if v = 62 then 45 else 95)"

definition is_sextet_char :: "nat \<Rightarrow> bool" where
  "is_sextet_char c \<longleftrightarrow> 65 \<le> c \<and> c \<le> 90 \<or> is_lower c \<or> is_digit c \<or> c = 45 \<or> c = 95"

definition sextet_value :: "nat \<Rightarrow> nat" where
  "sextet_value c =
     (if is_digit c then c + 4 else if c = 45 then 62 else if c = 95 then 63
      else if c \<le> 90 then c - 65 else c - 71)"

text \<open>Three bytes are four sextets; one or two bytes at the end leave two or three.\<close>

fun sextets_of :: "nat list \<Rightarrow> nat list" where
  "sextets_of [] = []"
| "sextets_of [a] = [a div 4, a mod 4 * 16]"
| "sextets_of [a, b] = [a div 4, a mod 4 * 16 + b div 16, b mod 16 * 4]"
| "sextets_of (a # b # c # r) =
     a div 4 # (a mod 4 * 16 + b div 16) # (b mod 16 * 4 + c div 64) # c mod 64 # sextets_of r"

fun octets_of :: "nat list \<Rightarrow> nat list res" where
  "octets_of [] = Inr []"
| "octets_of [p] = Inl ValueError"
| "octets_of [p, q] = Inr [p * 4 + q div 16]"
| "octets_of [p, q, r] = Inr [p * 4 + q div 16, q mod 16 * 16 + r div 4]"
| "octets_of (p # q # r # s # t) =
     bnd (octets_of t) (\<lambda>os. Inr ((p * 4 + q div 16) # (q mod 16 * 16 + r div 4) # (r mod 4 * 64 + s) # os))"

definition base64url_encode :: "bytes \<Rightarrow> str" where
  "base64url_encode bs = map sextet_char (sextets_of (map unat bs))"

fun base64url_decode :: "pyval \<Rightarrow> bytes res" where
  "base64url_decode (PStr s) =
     (if s = [] \<or> 61 \<in> set s then Inl ValueError
      else if \<not> list_all is_sextet_char s then Inl ValueError
      else bnd (octets_of (map sextet_value s)) (\<lambda>os.
        let decoded = map word_of_nat os
        in if base64url_encode decoded \<noteq> s then Inl ValueError else Inr decoded))"
| "base64url_decode _ = Inl ValueError"

section \<open>Canonical JSON of flat documents\<close>

type_synonym document = "(str \<times> pyval) list"

text \<open>\<open>json.dumps\<close> of a value; what has no JSON form raises \<open>TypeError\<close>.\<close>

fun json_scalar :: "pyval \<Rightarrow> str res" where
  "json_scalar PNone = Inr (u ''null'')"
| "json_scalar (PBool b) = Inr (if b then u ''true'' else u ''false'')"
| "json_scalar (PInt i) = Inr (dec_int i)"
| "json_scalar (PStr s) = Inr (json_string s)"
| "json_scalar _ = Inl TypeError"

definition json_member :: "str \<times> pyval \<Rightarrow> str res" where
  "json_member kv = bnd (json_scalar (snd kv)) (\<lambda>v. Inr (json_string (fst kv) @ u '':'' @ v))"

fun json_joined :: "str list \<Rightarrow> str" where
  "json_joined [] = u ''}''"
| "json_joined [m] = m @ u ''}''"
| "json_joined (m # ms) = m @ u '','' @ json_joined ms"

text \<open>\<open>text.encode("ascii")\<close> of a text that \<open>ensure_ascii\<close> or base64url produced.\<close>

definition ascii_bytes :: "str \<Rightarrow> bytes" where
  "ascii_bytes s = map word_of_nat s"

definition canonical_json :: "document \<Rightarrow> bytes res" where
  "canonical_json d =
     bnd (mapr json_member (sort_key fst d)) (\<lambda>members.
       Inr (ascii_bytes (u ''{'' @ json_joined members)))"

text \<open>The reader of flat documents, on the readers of strings and integers.\<close>

definition json_scalar_read :: "str \<Rightarrow> (pyval \<times> str) option" where
  "json_scalar_read s =
     (if take 1 s = [34] then map_option (apfst PStr) (json_string_read (drop 1 s))
      else if take 4 s = u ''null'' then Some (PNone, drop 4 s)
      else if take 4 s = u ''true'' then Some (PBool True, drop 4 s)
      else if take 5 s = u ''false'' then Some (PBool False, drop 5 s)
      else map_option (apfst PInt) (json_int_read s))"

definition json_member_read :: "str \<Rightarrow> ((str \<times> pyval) \<times> str) option" where
  "json_member_read s =
     (if take 1 s \<noteq> [34] then None
      else case json_string_read (drop 1 s) of
             None \<Rightarrow> None
           | Some (k, r) \<Rightarrow>
               if take 1 r \<noteq> [58] then None
               else map_option (\<lambda>(v, r1). ((k, v), r1)) (json_scalar_read (drop 1 r)))"

lemma json_scalar_read_shorter: "json_scalar_read s = Some (v, r) \<Longrightarrow> length r \<le> length s"
  by (auto simp: json_scalar_read_def split: if_splits dest!: json_string_read_shorter json_int_read_shorter)

lemma json_member_read_shorter: "json_member_read s = Some (v, r) \<Longrightarrow> length r < length s"
  by (fastforce simp: json_member_read_def split: if_splits option.splits
      dest!: json_string_read_shorter json_scalar_read_shorter)

text \<open>The members of an object, from behind its opening brace.\<close>

function json_members_read :: "str \<Rightarrow> (document \<times> str) option" where
  "json_members_read s =
     (case json_member_read s of
        None \<Rightarrow> None
      | Some (kv, r) \<Rightarrow>
          if take 1 r = [125] then Some ([kv], drop 1 r)
          else if take 1 r = [44] then map_option (apfst ((#) kv)) (json_members_read (drop 1 r))
          else None)"
  by pat_completeness auto
termination
  by (relation "measure length") (auto dest: json_member_read_shorter)

declare json_members_read.simps [simp del]

text \<open>\<open>_reject_duplicate_pairs\<close>\<close>

fun reject_duplicate_pairs :: "document \<Rightarrow> document \<Rightarrow> document res" where
  "reject_duplicate_pairs d [] = Inr d"
| "reject_duplicate_pairs d ((k, v) # pairs) =
     (if k \<in> set (map fst d) then Inl ValueError else reject_duplicate_pairs (d @ [(k, v)]) pairs)"

definition json_loads :: "bytes \<Rightarrow> document res" where
  "json_loads raw =
     (let t = map unat raw
      in if list_ex (\<lambda>c. 128 \<le> c) t \<or> take 1 t \<noteq> [123] then Inl ValueError
         else case json_members_read (drop 1 t) of
                Some (pairs, []) \<Rightarrow> reject_duplicate_pairs [] pairs
              | _ \<Rightarrow> Inl ValueError)"

definition decode_document :: "str \<Rightarrow> str list \<Rightarrow> document res" where
  "decode_document encoded expected_fields =
     bnd (base64url_decode (PStr encoded)) (\<lambda>raw.
     bnd (json_loads raw) (\<lambda>d.
       if set (map fst d) \<noteq> set expected_fields then Inl ValueError
       else bnd (canonical_json d) (\<lambda>c. if c \<noteq> raw then Inl ValueError else Inr d)))"

section \<open>Minting and verifying\<close>

definition HEADER_FIELDS :: "str list" where
  "HEADER_FIELDS = [u ''alg'', u ''dom'', u ''kid'', u ''typ'', u ''v'']"

definition ticket_header :: "str \<Rightarrow> str \<Rightarrow> int \<Rightarrow> document" where
  "ticket_header domain token_type version =
     [(u ''alg'', PStr (u ''HS256'')), (u ''dom'', PStr domain), (u ''kid'', PInt version),
      (u ''typ'', PStr token_type), (u ''v'', PInt 1)]"

definition signing_input :: "str \<Rightarrow> str \<Rightarrow> str" where
  "signing_input encoded_header encoded_claims = encoded_header @ u ''.'' @ encoded_claims"

definition ticket_text :: "bytes \<Rightarrow> bytes \<Rightarrow> bytes \<Rightarrow> str" where
  "ticket_text key header claims =
     (let signed = signing_input (base64url_encode header) (base64url_encode claims)
      in signed @ u ''.'' @ base64url_encode (hmac_sha256 key (ascii_bytes signed)))"

definition mint_signed_ticket :: "TicketSigningKeyring \<Rightarrow> str \<Rightarrow> str \<Rightarrow> document \<Rightarrow> str res" where
  "mint_signed_ticket keyring domain token_type claims =
     (case key_for keyring (tk_active_version keyring) of
        None \<Rightarrow> Inl ValueError
      | Some key \<Rightarrow>
          bnd (canonical_json (ticket_header domain token_type (tk_active_version keyring))) (\<lambda>header.
          bnd (canonical_json claims) (\<lambda>body.
            Inr (ticket_text key header body))))"

text \<open>\<open>value.split(".")\<close>\<close>

fun split_dots :: "str \<Rightarrow> str list" where
  "split_dots [] = [[]]"
| "split_dots (c # r) =
     (if c = 46 then [] # split_dots r else (c # hd (split_dots r)) # tl (split_dots r))"

definition verify_signed_ticket ::
  "pyval \<Rightarrow> TicketSigningKeyring \<Rightarrow> str \<Rightarrow> str \<Rightarrow> str list \<Rightarrow> document res"
where
  "verify_signed_ticket value keyring domain token_type claim_fields =
     bnd (require_opaque_ticket_value value) (\<lambda>text.
       case split_dots text of
         [encoded_header, encoded_claims, encoded_signature] \<Rightarrow>
           bnd (decode_document encoded_header HEADER_FIELDS) (\<lambda>header.
           bnd (dict_index header (u ''v'')) (\<lambda>v.
             if v \<noteq> PInt 1 then Inl ValueError else
           bnd (dict_index header (u ''kid'')) (\<lambda>kid.
           bnd (require_int_range 1 max_signed64 kid) (\<lambda>key_version.
             if set header \<noteq> set (ticket_header domain token_type key_version) then Inl ValueError
             else case key_for keyring key_version of
               None \<Rightarrow> Inl ValueError
             | Some key \<Rightarrow>
                 bnd (base64url_decode (PStr encoded_signature)) (\<lambda>supplied_signature.
                   if length supplied_signature \<noteq> 32 then Inl ValueError
                   else if supplied_signature
                      \<noteq> hmac_sha256 key (ascii_bytes (signing_input encoded_header encoded_claims))
                   then Inl ValueError
                   else
                 bnd (decode_document encoded_claims claim_fields) (\<lambda>claims.
                 bnd (dict_index claims (u ''signing_key_version'')) (\<lambda>signing_key_version.
                   if signing_key_version \<noteq> PInt key_version then Inl ValueError
                   else Inr claims)))))))
       | _ \<Rightarrow> Inl ValueError)"

section \<open>Field codecs\<close>

text \<open>\<open>_timestamp\<close> of a UTC value, and the reader that compares the text it would write.\<close>

definition timestamp :: "datetime \<Rightarrow> str" where
  "timestamp d =
     dec_pad 4 (year d) @ u ''-'' @ dec_pad 2 (month d) @ u ''-'' @ dec_pad 2 (day d) @ u ''T''
     @ dec_pad 2 (hour d) @ u '':'' @ dec_pad 2 (minute d) @ u '':'' @ dec_pad 2 (second d) @ u ''Z''"

fun parse_timestamp :: "pyval \<Rightarrow> datetime res" where
  "parse_timestamp (PStr s) =
     (let part = (\<lambda>i n. dec_value (take n (drop i s)));
          d = \<lparr>year = part 0 4, month = part 5 2, day = part 8 2, hour = part 11 2, minute = part 14 2,
               second = part 17 2, microsecond = 0, utc_offset = Some 0\<rparr>
      in if valid_datetime d \<and> timestamp d = s then Inr d else Inl ValueError)"
| "parse_timestamp _ = Inl ValueError"

fun parse_uuid :: "pyval \<Rightarrow> uuid res" where
  "parse_uuid (PStr s) = (case canonical_uuid s of None \<Rightarrow> Inl ValueError | Some v \<Rightarrow> Inr v)"
| "parse_uuid _ = Inl ValueError"

fun require_nonce :: "bytes foreign \<Rightarrow> bytes res" where
  "require_nonce (Exact b) = (if length b \<noteq> 32 then Inl ValueError else Inr b)"
| "require_nonce WrongType = Inl ValueError"

definition parse_nonce :: "pyval \<Rightarrow> bytes res" where
  "parse_nonce v = bnd (base64url_decode v) (\<lambda>b. require_nonce (Exact b))"

definition nonce_document :: "bytes foreign \<Rightarrow> str res" where
  "nonce_document v = bnd (require_nonce v) (\<lambda>b. Inr (base64url_encode b))"

section \<open>Lemmas on validators\<close>

lemma dict_index_eq [validators]: "dict_index d k = Inr v \<longleftrightarrow> map_of d k = Some v"
  by (simp add: dict_index_def split: option.splits)

lemma case_option_raise [validators]:
  "(case x of None \<Rightarrow> Inl e | Some y \<Rightarrow> f y) = Inr z \<longleftrightarrow> (\<exists>y. x = Some y \<and> f y = Inr z)"
  by (simp split: option.splits)

lemma case_three_parts [validators]:
  "(case xs of [a, b, c] \<Rightarrow> f a b c | _ \<Rightarrow> Inl e) = Inr z \<longleftrightarrow> (\<exists>a b c. xs = [a, b, c] \<and> f a b c = Inr z)"
  by (auto split: list.splits)

lemma require_identifier_eq [validators]:
  "require_identifier n v = Inr s \<longleftrightarrow> v = PStr s \<and> identifier_text n s"
  by (cases v) auto

lemma require_whole_second_utc_eq [validators]:
  "require_whole_second_utc v = Inr d \<longleftrightarrow> v = PDatetime d \<and> is_aware_utc d \<and> microsecond d = 0"
  by (cases v) auto

lemma require_opaque_ticket_value_eq [validators]:
  "require_opaque_ticket_value v = Inr s \<longleftrightarrow> v = PStr s \<and> token_text s"
  by (cases v) auto

lemma require_nonce_eq [validators]: "require_nonce v = Inr b \<longleftrightarrow> v = Exact b \<and> length b = 32"
  by (cases v) auto

declare require_identifier.simps [simp del] require_whole_second_utc.simps [simp del]
  require_opaque_ticket_value.simps [simp del] require_nonce.simps [simp del]

section \<open>Lemmas on base64url\<close>

lemma sextet_char_value: "v < 64 \<Longrightarrow> sextet_value (sextet_char v) = v"
  by (auto simp: sextet_value_def sextet_char_def is_digit_def)

lemma sextet_char_shape: "v < 64 \<Longrightarrow> is_sextet_char (sextet_char v)"
  by (auto simp: is_sextet_char_def sextet_char_def is_lower_def is_digit_def)

lemma sextet_bounds:
  assumes "a < 256" "b < (256 :: nat)"
  shows "a div 4 < 64" "a mod 4 * 16 + b div 16 < 64" "a mod 16 * 4 + b div 64 < 64" "a mod 64 < 64"
    "a mod 4 * 16 < 64" "a mod 16 * 4 < 64"
proof -
  have "a mod 4 < 4" "a mod 16 < 16" "b div 16 < 16" "b div 64 < 4" "a div 4 < 64"
    using assms by (simp_all add: less_mult_imp_div_less)
  then show "a div 4 < 64" "a mod 4 * 16 + b div 16 < 64" "a mod 16 * 4 + b div 64 < 64" "a mod 64 < 64"
    "a mod 4 * 16 < 64" "a mod 16 * 4 < 64" by (linarith | simp)+
qed

lemma octet_parts:
  assumes "b < 256" "c < (256 :: nat)"
  shows "a div 4 * 4 + (a mod 4 * 16 + b div 16) div 16 = a \<and> b div 16 mod 16 * 16 + b mod 16 = b
    \<and> c div 64 mod 4 * 64 + c mod 64 = c \<and> (b mod 16 * 4 + c div 64) div 4 = b mod 16"
proof -
  have "b div 16 < 16" "c div 64 < 4" using assms by (simp_all add: less_mult_imp_div_less)
  then show ?thesis by simp
qed

lemma sextets_of_less: "list_all (\<lambda>n. n < 256) bs \<Longrightarrow> list_all (\<lambda>n. n < 64) (sextets_of bs)"
  by (induction bs rule: sextets_of.induct) (simp_all add: sextet_bounds less_mult_imp_div_less)

lemma octets_of_sextets: "list_all (\<lambda>n. n < 256) bs \<Longrightarrow> octets_of (sextets_of bs) = Inr bs"
proof (induction bs rule: sextets_of.induct)
  case (4 a b c r)
  then show ?case using octet_parts [of b c a] by simp
next
  case (3 a b)
  then show ?case using octet_parts [of b 0 a] by simp
qed simp_all

lemma length_sextets_of: "length (sextets_of bs) = (4 * length bs + 2) div 3"
  by (induction bs rule: sextets_of.induct) simp_all

lemma bytes_less: "list_all (\<lambda>n. n < 256) (map unat (bs :: bytes))"
  using byte_less by (simp add: list_all_iff)

lemma map_word_of_unat [simp]: "map word_of_nat (map unat bs) = (bs :: bytes)"
  by (simp add: comp_def)

lemma base64url_shape: "list_all is_sextet_char (base64url_encode bs)"
  using sextets_of_less [OF bytes_less [of bs]] by (auto simp: base64url_encode_def list_all_iff sextet_char_shape)

lemma base64url_sextets: "map sextet_value (base64url_encode bs) = sextets_of (map unat bs)"
  using sextets_of_less [OF bytes_less [of bs]]
  by (auto simp: base64url_encode_def list_all_iff sextet_char_value intro!: map_idI)

lemma length_base64url: "length (base64url_encode bs) = (4 * length bs + 2) div 3"
  by (simp add: base64url_encode_def length_sextets_of)

lemma base64url_nonempty: "bs \<noteq> [] \<Longrightarrow> base64url_encode bs \<noteq> []"
  using length_base64url [of bs] by (cases bs) auto

text \<open>A character of the alphabet is neither a pad, a dot nor a space.\<close>

lemma is_sextet_char_plain:
  assumes "is_sextet_char c"
  shows "c \<noteq> 61" "c \<noteq> 46" "\<not> is_space c" "c < 128"
  using assms by (auto simp: is_sextet_char_def is_lower_def is_digit_def is_space_def)

lemma base64url_plain:
  "61 \<notin> set (base64url_encode bs)" "46 \<notin> set (base64url_encode bs)"
  "\<not> list_ex is_space (base64url_encode bs)" "list_all (\<lambda>c. c < 128) (base64url_encode bs)"
  using base64url_shape [of bs] is_sextet_char_plain by (fastforce simp: list_all_iff list_ex_iff)+

lemma base64url_round_trip: "bs \<noteq> [] \<Longrightarrow> base64url_decode (PStr (base64url_encode bs)) = Inr bs"
  using base64url_plain(1) [of bs] base64url_shape [of bs]
  by (simp add: base64url_nonempty base64url_sextets octets_of_sextets [OF bytes_less] Let_def del: map_map)

text \<open>Only one text decodes to given bytes.\<close>

lemma base64url_decode_canonical:
  "base64url_decode v = Inr bs \<Longrightarrow> v = PStr (base64url_encode bs)"
  by (cases v) (auto simp: Let_def split: if_splits)

declare base64url_decode.simps [simp del]

lemma base64url_encode_inject:
  assumes "base64url_encode a = base64url_encode b"
  shows "a = b"
proof -
  from assms have "octets_of (sextets_of (map unat a)) = octets_of (sextets_of (map unat b))"
    by (simp add: base64url_sextets [symmetric])
  then have "map unat a = map unat b"
    by (simp add: octets_of_sextets [OF bytes_less])
  then show ?thesis by (metis map_word_of_unat)
qed

section \<open>Lemmas on the JSON reader\<close>

text \<open>The values of a ticket document.\<close>

fun plain_scalar :: "pyval \<Rightarrow> bool" where
  "plain_scalar PNone = True"
| "plain_scalar (PBool b) = True"
| "plain_scalar (PInt i) = True"
| "plain_scalar (PStr s) = list_all unicode_scalar s"
| "plain_scalar _ = False"

lemma json_scalar_read_scalar:
  assumes "plain_scalar v" "json_scalar v = Inr t" "ends_number r"
  shows "json_scalar_read (t @ r) = Some (v, r)"
proof (cases v)
  case (PInt i)
  obtain c cs where "dec_int i = c # cs" "c = 45 \<or> is_digit c" by (rule dec_int_head)
  with PInt assms json_int_read_dec [OF assms(3), of i] show ?thesis
    by (auto simp: json_scalar_read_def u_def is_digit_def)
next
  case (PStr s)
  with assms json_string_read_string [of s r] show ?thesis
    by (auto simp: json_scalar_read_def json_string_def)
qed (use assms in \<open>auto simp: json_scalar_read_def u_def split: if_splits\<close>)

lemma json_member_read_member:
  assumes "list_all unicode_scalar (fst kv)" "plain_scalar (snd kv)" "json_member kv = Inr m" "ends_number r"
  shows "json_member_read (m @ r) = Some (kv, r)"
proof -
  from assms(3) obtain t where t: "json_scalar (snd kv) = Inr t" "m = json_string (fst kv) @ u '':'' @ t"
    by (auto simp: json_member_def)
  have "json_string_read (concat (map json_char (fst kv)) @ 34 # 58 # t @ r) = Some (fst kv, 58 # t @ r)"
    by (rule json_string_read_string [OF assms(1)])
  moreover have "json_scalar_read (t @ r) = Some (snd kv, r)"
    by (rule json_scalar_read_scalar [OF assms(2) t(1) assms(4)])
  ultimately show ?thesis
    by (simp add: json_member_read_def t(2) json_string_def u_def)
qed

definition plain_document :: "document \<Rightarrow> bool" where
  "plain_document d \<longleftrightarrow> list_all (\<lambda>kv. list_all unicode_scalar (fst kv) \<and> plain_scalar (snd kv)) d"

lemma json_members_read_members:
  "\<lbrakk>plain_document d; d \<noteq> []; mapr json_member d = Inr ms\<rbrakk> \<Longrightarrow> json_members_read (json_joined ms) = Some (d, [])"
proof (induction d arbitrary: ms)
  case (Cons kv d)
  from Cons.prems(3) obtain m ms' where m: "json_member kv = Inr m" "mapr json_member d = Inr ms'" "ms = m # ms'"
    by auto
  from Cons.prems(1) have kv: "list_all unicode_scalar (fst kv)" "plain_scalar (snd kv)" "plain_document d"
    by (simp_all add: plain_document_def)
  show ?case
  proof (cases d)
    case Nil
    with m(2) have "ms' = []" by simp
    moreover have "json_member_read (m @ u ''}'') = Some (kv, u ''}'')"
      by (rule json_member_read_member [OF kv(1,2) m(1)]) (simp add: ends_number_def u_def is_digit_def)
    ultimately show ?thesis using Nil m(3) by (simp add: json_members_read.simps u_def)
  next
    case (Cons kv' d')
    with m(2) obtain m' ms'' where ms': "ms' = m' # ms''" by auto
    have "json_member_read (m @ 44 # json_joined ms') = Some (kv, 44 # json_joined ms')"
      by (rule json_member_read_member [OF kv(1,2) m(1)]) (simp add: ends_number_def is_digit_def)
    moreover have "json_members_read (json_joined ms') = Some (d, [])"
      using Cons.IH Cons kv(3) m(2) by simp
    ultimately show ?thesis
      using m(3) ms' by (subst json_members_read.simps) (simp add: u_def)
  qed
qed simp

section \<open>Lemmas on documents\<close>

lemma hex4_ascii: "c < 65536 \<Longrightarrow> list_all (\<lambda>c. c < 128) (hex4 c)"
proof -
  have "hex_digit n < 128" if "n < 16" for n using that by (simp add: hex_digit_def)
  then show "c < 65536 \<Longrightarrow> list_all (\<lambda>c. c < 128) (hex4 c)" by (simp add: hex4_def less_mult_imp_div_less)
qed

lemma json_char_ascii:
  assumes "unicode_scalar c"
  shows "list_all (\<lambda>c. c < 128) (json_char c)"
proof (cases "c < 65536")
  case True
  then show ?thesis using hex4_ascii [of c] by (simp add: json_char_def)
next
  case False
  with assms have b: "65536 \<le> c" "c < 1114112" by (simp_all add: unicode_scalar_def)
  with surrogate_halves [OF b] show ?thesis by (simp add: json_char_def hex4_ascii)
qed

lemma json_string_ascii: "list_all unicode_scalar s \<Longrightarrow> list_all (\<lambda>c. c < 128) (json_string s)"
  using json_char_ascii by (fastforce simp: json_string_def list_all_iff)

lemma dec_int_ascii: "list_all (\<lambda>c. c < 128) (dec_int i)"
  using dec_nat_digits by (fastforce simp: dec_int_def list_all_iff is_digit_def)

lemma json_member_ascii:
  assumes "list_all unicode_scalar (fst kv)" "plain_scalar (snd kv)" "json_member kv = Inr m"
  shows "list_all (\<lambda>c. c < 128) m"
proof -
  from assms(3) obtain t where t: "json_scalar (snd kv) = Inr t" "m = json_string (fst kv) @ u '':'' @ t"
    by (auto simp: json_member_def)
  have "list_all (\<lambda>c. c < 128) t"
    using assms(2) t(1) dec_int_ascii json_string_ascii
    by (cases "snd kv") (auto simp: u_def split: if_splits)
  with t(2) json_string_ascii [OF assms(1)] show ?thesis by (simp add: u_def)
qed

lemma json_joined_ascii:
  "list_all (list_all (\<lambda>c. c < 128)) ms \<Longrightarrow> list_all (\<lambda>c. c < 128) (json_joined ms)"
  by (induction ms rule: json_joined.induct) (simp_all add: u_def)

lemma json_members_ascii:
  assumes "plain_document d" "mapr json_member d = Inr ms"
  shows "list_all (\<lambda>c. c < 128) (json_joined ms)"
proof (rule json_joined_ascii)
  show "list_all (list_all (\<lambda>c. c < 128)) ms"
    using assms json_member_ascii by (auto simp: plain_document_def list_all_iff dest!: mapr_mem)
qed

lemma unat_ascii_bytes: "list_all (\<lambda>c. c < 128) t \<Longrightarrow> map unat (ascii_bytes t) = t"
  by (auto simp: ascii_bytes_def list_all_iff unat_byte_of_nat intro!: map_idI)

lemma plain_scalar_json: "plain_scalar v \<Longrightarrow> \<exists>t. json_scalar v = Inr t"
  by (cases v) simp_all

lemma plain_document_sort [simp]: "plain_document (sort_key f d) = plain_document d"
  by (simp add: plain_document_def list_all_iff)

lemma plain_members:
  assumes "plain_document d"
  obtains ms where "mapr json_member d = Inr ms"
proof -
  have "\<exists>ms. mapr json_member d = Inr ms"
    using assms
  proof (induction d)
    case (Cons kv d)
    moreover from Cons.prems obtain t where "json_scalar (snd kv) = Inr t"
      using plain_scalar_json by (auto simp: plain_document_def)
    ultimately show ?case by (auto simp: plain_document_def json_member_def)
  qed simp
  with that show thesis by blast
qed

lemma canonical_json_plain: "plain_document d \<Longrightarrow> \<exists>raw. canonical_json d = Inr raw"
  using plain_members [of "sort_key fst d"] by (force simp: canonical_json_def)

lemma inj_on_keys: "distinct (map fst d) \<Longrightarrow> inj_on fst (set d)"
  by (simp add: distinct_map)

lemma canonical_json_order:
  assumes "distinct (map fst d)" "distinct (map fst e)" "set d = set e"
  shows "canonical_json d = canonical_json e"
proof -
  have "mset d = mset e"
    using assms by (metis distinct_map set_eq_iff_mset_eq_distinct)
  then have "sort_key fst d = sort_key fst e"
    using assms(1) by (intro sort_key_sorted_list inj_on_keys)
  then show ?thesis by (simp add: canonical_json_def)
qed

lemma canonical_json_sorted: "distinct (map fst d) \<Longrightarrow> canonical_json (sort_key fst d) = canonical_json d"
proof (rule canonical_json_order)
  assume "distinct (map fst d)"
  then show "distinct (map fst (sort_key fst d))" by (simp add: distinct_map)
qed simp_all

lemma reject_duplicate_pairs_eq:
  "distinct (map fst d) \<Longrightarrow>
     reject_duplicate_pairs d ps = (if distinct (map fst (d @ ps)) then Inr (d @ ps) else Inl ValueError)"
  by (induction d ps rule: reject_duplicate_pairs.induct) auto

lemma json_loads_distinct: "json_loads raw = Inr d \<Longrightarrow> distinct (map fst d)"
  by (auto simp: json_loads_def Let_def reject_duplicate_pairs_eq split: if_splits option.splits list.splits)

lemma json_loads_canonical:
  assumes "plain_document d" "d \<noteq> []" "distinct (map fst d)" "canonical_json d = Inr raw"
  shows "json_loads raw = Inr (sort_key fst d)"
proof -
  let ?s = "sort_key fst d"
  from assms(4) obtain ms where ms: "mapr json_member ?s = Inr ms" "raw = ascii_bytes (123 # json_joined ms)"
    by (auto simp: canonical_json_def u_def)
  have asc: "list_all (\<lambda>c. c < 128) (123 # json_joined ms)"
    using json_members_ascii [OF _ ms(1)] assms(1) by simp
  have "?s \<noteq> []" using assms(2) by (metis length_0_conv length_sort)
  then have "json_members_read (json_joined ms) = Some (?s, [])"
    using assms(1) ms(1) by (intro json_members_read_members) simp_all
  moreover have "reject_duplicate_pairs [] ?s = Inr ?s"
    using assms(3) by (simp add: reject_duplicate_pairs_eq distinct_map)
  moreover have "\<not> list_ex (\<lambda>c. 128 \<le> c) (123 # json_joined ms)"
    using asc by (auto simp: list_all_iff list_ex_iff)
  ultimately show ?thesis by (simp add: json_loads_def ms(2) unat_ascii_bytes [OF asc] Let_def)
qed

lemma decode_document_encoded:
  assumes "plain_document d" "distinct (map fst d)" "set (map fst d) = set names" "names \<noteq> []"
    "canonical_json d = Inr raw"
  shows "decode_document (base64url_encode raw) names = Inr (sort_key fst d)"
proof -
  have "d \<noteq> []" using assms(3,4) by (metis list.map_disc_iff set_empty)
  then have loads: "json_loads raw = Inr (sort_key fst d)"
    using assms by (intro json_loads_canonical) simp_all
  have "raw \<noteq> []" using assms(5) by (auto simp: canonical_json_def ascii_bytes_def u_def)
  then show ?thesis
    using loads assms by (simp add: decode_document_def base64url_round_trip canonical_json_sorted)
qed

lemma decode_document_Inr:
  assumes "decode_document e names = Inr d"
  obtains raw where "distinct (map fst d)" "set (map fst d) = set names" "canonical_json d = Inr raw"
    "e = base64url_encode raw"
  using assms by (auto simp: decode_document_def dest!: base64url_decode_canonical json_loads_distinct)

section \<open>Lemmas on tickets\<close>

fun join_dots :: "str list \<Rightarrow> str" where
  "join_dots [] = []"
| "join_dots [s] = s"
| "join_dots (s # ss) = s @ 46 # join_dots ss"

lemma split_dots_nonempty [simp]: "split_dots s \<noteq> []"
  by (cases s) simp_all

lemma join_split_dots: "join_dots (split_dots s) = s"
proof (induction s)
  case (Cons c s)
  obtain p ps where "split_dots s = p # ps" by (cases "split_dots s") simp_all
  with Cons show ?case by (cases ps) simp_all
qed simp

lemma split_dots_last: "46 \<notin> set s \<Longrightarrow> split_dots s = [s]"
  by (induction s) auto

lemma split_dots_part: "46 \<notin> set s \<Longrightarrow> split_dots (s @ 46 # t) = s # split_dots t"
  by (induction s) auto

lemma split_dots_text:
  "split_dots (base64url_encode a @ 46 # base64url_encode b @ 46 # base64url_encode c)
     = [base64url_encode a, base64url_encode b, base64url_encode c]"
  by (simp add: split_dots_part split_dots_last base64url_plain)

lemma keyring_active_key:
  assumes "TicketSigningKeyring_init v ks = Inr kr"
  shows "\<exists>key. key_for kr (tk_active_version kr) = Some key" "1 \<le> tk_active_version kr"
    "tk_active_version kr \<le> max_signed64"
  using assms by (auto simp: TicketSigningKeyring_init_def key_for_def validators weak_map_of_SomeI
      simp del: require_int_range.simps)

lemma ticket_header_keys:
  "map fst (ticket_header dm typ v) = HEADER_FIELDS" "distinct HEADER_FIELDS"
  by (simp_all add: ticket_header_def HEADER_FIELDS_def u_def)

lemma plain_literal [simp]: "list_all unicode_scalar (u s)"
proof -
  have "unicode_scalar (of_char c)" for c :: char
    unfolding unicode_scalar_def is_surrogate_def using nat_of_char_less_256 [of c] by linarith
  then show ?thesis by (simp add: u_def list_all_iff)
qed

lemma plain_header: "plain_document (ticket_header dm typ v) \<longleftrightarrow> list_all unicode_scalar dm \<and> list_all unicode_scalar typ"
  by (auto simp: plain_document_def ticket_header_def)

lemma plain_header_literal: "plain_document (ticket_header (u dm) (u typ) v)"
  by (simp add: plain_header)

lemma split_dots_eq3: "split_dots s = [a, b, c] \<Longrightarrow> s = a @ 46 # b @ 46 # c"
  using join_split_dots [of s] by simp

text \<open>
  Whatever text verifies is the text that minting writes for the claims it reads: same encoding of
  the same header and claims, signed with a key of the keyring.
\<close>

lemma verify_signed_ticket_Inr:
  assumes "verify_signed_ticket v kr dm typ names = Inr claims"
  obtains version key header body where
    "v = PStr (ticket_text key header body)" "key_for kr version = Some key"
    "1 \<le> version" "version \<le> max_signed64"
    "canonical_json (ticket_header dm typ version) = Inr header" "canonical_json claims = Inr body"
    "distinct (map fst claims)" "set (map fst claims) = set names"
    "map_of claims (u ''signing_key_version'') = Some (PInt version)"
proof -
  from assms obtain t eh ec es h version key sig where
    t: "v = PStr t" "split_dots t = [eh, ec, es]"
    and h: "decode_document eh HEADER_FIELDS = Inr h" "set h = set (ticket_header dm typ version)"
    and key: "key_for kr version = Some key" "1 \<le> version" "version \<le> max_signed64"
    and sig: "base64url_decode (PStr es) = Inr sig" "sig = hmac_sha256 key (ascii_bytes (signing_input eh ec))"
    and c: "decode_document ec names = Inr claims" "map_of claims (u ''signing_key_version'') = Some (PInt version)"
    unfolding verify_signed_ticket_def by (auto simp: validators simp del: require_int_range.simps)
  from h(1) obtain header where hd: "distinct (map fst h)" "canonical_json h = Inr header" "eh = base64url_encode header"
    by (rule decode_document_Inr)
  from c(1) obtain body where bd: "distinct (map fst claims)" "set (map fst claims) = set names"
    "canonical_json claims = Inr body" "ec = base64url_encode body"
    by (rule decode_document_Inr)
  have "canonical_json (ticket_header dm typ version) = Inr header"
    using canonical_json_order [of h "ticket_header dm typ version"] hd(1,2) h(2) ticket_header_keys by simp
  moreover from split_dots_eq3 [OF t(2)] base64url_decode_canonical [OF sig(1)]
  have "t = ticket_text key header body"
    by (simp add: ticket_text_def signing_input_def sig(2) hd(3) bd(4) u_def)
  ultimately show thesis using that t(1) key bd(1-3) c(2) by blast
qed

lemma ticket_text_parts:
  "split_dots (ticket_text key header body) =
     [base64url_encode header, base64url_encode body,
      base64url_encode (hmac_sha256 key (ascii_bytes (signing_input (base64url_encode header) (base64url_encode body))))]"
  unfolding ticket_text_def signing_input_def Let_def by (simp add: u_def split_dots_text)

lemma ticket_text_inject:
  assumes "ticket_text key header body = ticket_text key' header' body'"
  shows "header = header' \<and> body = body'"
  using arg_cong [OF assms, of split_dots] by (auto simp: ticket_text_parts dest: base64url_encode_inject)

text \<open>What a plain document says is determined by its canonical text.\<close>

lemma canonical_json_inject:
  assumes "plain_document d" "plain_document e" "d \<noteq> []" "e \<noteq> []" "distinct (map fst d)" "distinct (map fst e)"
    "canonical_json d = canonical_json e"
  shows "sort_key fst d = sort_key fst e"
proof -
  obtain raw where raw: "canonical_json d = Inr raw" using canonical_json_plain [OF assms(1)] by blast
  with assms json_loads_canonical [of d raw] json_loads_canonical [of e raw] show ?thesis by simp
qed

lemma map_of_sort_keys: "distinct (map fst d) \<Longrightarrow> map_of (sort_key fst d) = map_of d"
  by (rule map_of_inject_set [THEN iffD2]) (simp_all add: distinct_map)

text \<open>A minted ticket verifies to the claims it was minted for.\<close>

lemma verify_minted:
  assumes mint: "mint_signed_ticket kr dm typ claims = Inr t" and opaque: "token_text t"
    and ver: "1 \<le> tk_active_version kr" "tk_active_version kr \<le> max_signed64"
    and names: "list_all unicode_scalar dm" "list_all unicode_scalar typ"
    and claims: "plain_document claims" "distinct (map fst claims)" "set (map fst claims) = set names" "names \<noteq> []"
      "map_of claims (u ''signing_key_version'') = Some (PInt (tk_active_version kr))"
  shows "verify_signed_ticket (PStr t) kr dm typ names = Inr (sort_key fst claims)"
proof -
  let ?h = "ticket_header dm typ (tk_active_version kr)"
  from mint obtain key header body where key: "key_for kr (tk_active_version kr) = Some key"
    and header: "canonical_json ?h = Inr header" and body: "canonical_json claims = Inr body"
    and t: "t = ticket_text key header body"
    by (auto simp: mint_signed_ticket_def split: option.splits)
  have h: "plain_document ?h" "distinct (map fst ?h)" "set (map fst ?h) = set HEADER_FIELDS" "HEADER_FIELDS \<noteq> []"
    using names ticket_header_keys by (simp_all add: plain_header HEADER_FIELDS_def)
  have "map_of (sort_key fst ?h) = map_of ?h" by (rule map_of_sort_keys [OF h(2)])
  then have fields: "dict_index (sort_key fst ?h) (u ''v'') = Inr (PInt 1)"
    "dict_index (sort_key fst ?h) (u ''kid'') = Inr (PInt (tk_active_version kr))"
    "dict_index (sort_key fst claims) (u ''signing_key_version'') = Inr (PInt (tk_active_version kr))"
    using claims(2,5) by (simp_all add: dict_index_eq ticket_header_def u_def map_of_sort_keys)
  have sgn: "hmac_sha256 k m \<noteq> []" for k m
    using length_hmac_sha256 [of k m] by (metis list.size(3) zero_neq_numeral)
  show ?thesis
    using decode_document_encoded [OF h header] decode_document_encoded [OF claims(1-4) body]
      opaque ver key fields
    by (simp add: verify_signed_ticket_def t ticket_text_parts base64url_round_trip sgn require_int_range.simps
        require_opaque_ticket_value.simps del: bnd_eq_Inr)
qed

section \<open>Lemmas on field codecs\<close>

lemma parse_timestamp_round_trip:
  assumes "valid_datetime d" "microsecond d = 0" "utc_offset d = Some 0"
  shows "parse_timestamp (PStr (timestamp d)) = Inr d"
proof -
  note b = valid_datetime_digits [OF assms(1)]
  have "\<lparr>year = year d, month = month d, day = day d, hour = hour d, minute = minute d, second = second d,
      microsecond = 0, utc_offset = Some 0\<rparr> = d"
    using assms(2,3) by (intro datetime.equality) simp_all
  moreover have "take 4 (timestamp d) = dec_pad 4 (year d)" "take 2 (drop 5 (timestamp d)) = dec_pad 2 (month d)"
    "take 2 (drop 8 (timestamp d)) = dec_pad 2 (day d)" "take 2 (drop 11 (timestamp d)) = dec_pad 2 (hour d)"
    "take 2 (drop 14 (timestamp d)) = dec_pad 2 (minute d)" "take 2 (drop 17 (timestamp d)) = dec_pad 2 (second d)"
    by (simp_all add: timestamp_def u_def)
  ultimately show ?thesis
    using assms(1) b by (simp add: Let_def dec_value_pad)
qed

lemma parse_timestamp_Inr:
  assumes "parse_timestamp v = Inr d"
  shows "v = PStr (timestamp d)" "valid_datetime d" "microsecond d = 0" "utc_offset d = Some 0"
proof -
  from assms obtain a b c e f g where "d = \<lparr>year = a, month = b, day = c, hour = e, minute = f, second = g,
      microsecond = 0, utc_offset = Some 0\<rparr>"
    by (cases v) (auto 0 3 simp: Let_def split: if_splits dest: sym)
  then show "microsecond d = 0" "utc_offset d = Some 0" by simp_all
  from assms show "v = PStr (timestamp d)" "valid_datetime d"
    by (cases v; auto simp: Let_def split: if_splits)+
qed

declare parse_timestamp.simps [simp del]

lemma parse_uuid_eq [validators]: "parse_uuid v = Inr i \<longleftrightarrow> v = PStr (uuid_str i)"
proof (cases v)
  case (PStr s)
  then show ?thesis
    using canonical_uuid_eq [of s i] by (cases "canonical_uuid s") auto
qed auto

declare parse_uuid.simps [simp del]

lemma parse_nonce_eq [validators]:
  "parse_nonce v = Inr b \<longleftrightarrow> v = PStr (base64url_encode b) \<and> length b = 32"
proof
  assume v: "v = PStr (base64url_encode b) \<and> length b = 32"
  then have "b \<noteq> []" by auto
  with v show "parse_nonce v = Inr b" by (simp add: parse_nonce_def base64url_round_trip validators)
qed (auto simp: parse_nonce_def validators dest!: base64url_decode_canonical)

lemma plain_text_codecs:
  "list_all unicode_scalar (uuid_str i)" "list_all unicode_scalar (timestamp d)" "list_all unicode_scalar (base64url_encode b)"
proof -
  have small: "unicode_scalar c" if "c < 128" for c using that by (simp add: unicode_scalar_def is_surrogate_def)
  have "c < 128" if "is_hex c" for c using that by (auto simp: is_hex_def is_digit_def)
  then have "list_all unicode_scalar (hex_bytes bs)" for bs
    using hex_bytes_hex [of bs] small by (auto simp: list_all_iff)
  then have "\<forall>c \<in> set (uuid_hex i). unicode_scalar c" by (simp add: uuid_hex_def list_all_iff)
  then show "list_all unicode_scalar (uuid_str i)"
    by (auto simp: uuid_str_def Let_def list_all_iff u_def small dest: in_set_takeD in_set_dropD)
  have "list_all unicode_scalar (dec_pad n v)" for n v by (induction n arbitrary: v) (simp_all add: small)
  then show "list_all unicode_scalar (timestamp d)" by (simp add: timestamp_def)
  show "list_all unicode_scalar (base64url_encode b)"
    using base64url_plain(4) [of b] small by (auto simp: list_all_iff)
qed

section \<open>Sizes\<close>

definition json_member_size :: "str \<times> pyval \<Rightarrow> nat" where
  "json_member_size kv = (case json_member kv of Inl _ \<Rightarrow> 0 | Inr m \<Rightarrow> length m)"

lemma length_json_joined: "ms \<noteq> [] \<Longrightarrow> length (json_joined ms) = sum_list (map length ms) + length ms"
  by (induction ms rule: json_joined.induct) (simp_all add: u_def)

lemma mapr_json_member_size: "mapr json_member d = Inr ms \<Longrightarrow> map length ms = map json_member_size d"
  by (induction d arbitrary: ms) (auto simp: json_member_size_def)

lemma sum_list_sort_key: "sum_list (map f (sort_key k d)) = sum_list (map f d)"
  for f :: "'a \<Rightarrow> nat"
  by (metis mset_map mset_sort sum_mset_sum_list)

lemma length_canonical_json:
  assumes "canonical_json d = Inr raw" "d \<noteq> []"
  shows "length raw = Suc (sum_list (map json_member_size d) + length d)"
proof -
  from assms(1) obtain ms where ms: "mapr json_member (sort_key fst d) = Inr ms" "raw = ascii_bytes (u ''{'' @ json_joined ms)"
    by (auto simp: canonical_json_def)
  have "length ms = length d" using mapr_length [OF ms(1)] by simp
  moreover from this assms(2) have "ms \<noteq> []" by auto
  moreover have "sum_list (map length ms) = sum_list (map json_member_size d)"
    by (simp only: mapr_json_member_size [OF ms(1)] sum_list_sort_key)
  ultimately show ?thesis by (simp add: ms(2) ascii_bytes_def length_json_joined u_def)
qed

text \<open>Printable ASCII without quote and backslash is written as it is.\<close>

definition printable :: "nat \<Rightarrow> bool" where
  "printable c \<longleftrightarrow> 33 \<le> c \<and> c \<le> 126 \<and> c \<noteq> 34 \<and> c \<noteq> 92"

lemma length_json_string: "list_all printable s \<Longrightarrow> length (json_string s) = length s + 2"
proof -
  have "list_all printable s \<Longrightarrow> concat (map json_char s) = s"
    by (induction s) (auto simp: printable_def json_char_def)
  then show "list_all printable s \<Longrightarrow> length (json_string s) = length s + 2" by (simp add: json_string_def)
qed

lemma printable_scalar: "list_all printable s \<Longrightarrow> list_all unicode_scalar s"
  by (auto simp: list_all_iff printable_def unicode_scalar_def is_surrogate_def)

lemma length_dec_nat: "n < 10 ^ k \<Longrightarrow> 0 < k \<Longrightarrow> length (dec_nat n) \<le> k"
proof (induction n arbitrary: k rule: dec_nat.induct)
  case (1 n)
  show ?case
  proof (cases "n < 10")
    case False
    with "1.prems" obtain j where j: "k = Suc j" "0 < j" by (cases k; cases "k - 1") auto
    then have "n div 10 < 10 ^ j" using "1.prems" by (simp add: less_mult_imp_div_less mult.commute)
    with "1.IH" [OF False this j(2)] j(1) False show ?thesis by (simp add: dec_nat.simps [of n])
  qed (use "1.prems" in \<open>simp add: dec_nat.simps [of n]\<close>)
qed

lemma length_dec_int: "1 \<le> i \<Longrightarrow> i \<le> max_signed64 \<Longrightarrow> length (dec_int i) \<le> 19"
  using length_dec_nat [of "nat i" 19] by (simp add: dec_int_def max_signed64_def nat_less_iff)

lemma length_uuid_str: "length (uuid_str i) = 36"
  by (simp add: uuid_str_def Let_def u_def uuid_hex_def)

lemma length_timestamp: "length (timestamp d) = 20"
  by (simp add: timestamp_def)

lemma printable_codecs:
  "list_all printable (uuid_str i)" "list_all printable (timestamp d)" "list_all printable (base64url_encode b)"
proof -
  have "list_all printable (hex_bytes bs)" for bs
    using hex_bytes_hex [of bs] by (auto simp: list_all_iff is_hex_def is_digit_def printable_def)
  then have "\<forall>c \<in> set (uuid_hex i). printable c" by (simp add: uuid_hex_def list_all_iff)
  moreover have "printable 45" by (simp add: printable_def)
  ultimately show "list_all printable (uuid_str i)"
    by (auto simp: uuid_str_def Let_def list_all_iff u_def dest: in_set_takeD in_set_dropD)
  have "list_all printable (dec_pad n v)" for n v
  proof (induction n arbitrary: v)
    case (Suc n)
    have "v mod 10 < 10" by simp
    then have "printable (48 + v mod 10)" unfolding printable_def by linarith
    with Suc show ?case by simp
  qed simp
  then show "list_all printable (timestamp d)" by (simp add: timestamp_def u_def printable_def)
  show "list_all printable (base64url_encode b)"
    using base64url_shape [of b] by (auto simp: list_all_iff is_sextet_char_def is_lower_def is_digit_def printable_def)
qed

lemma json_member_size_str:
  "list_all printable k \<Longrightarrow> list_all printable s \<Longrightarrow> json_member_size (k, PStr s) = length k + length s + 5"
  by (simp add: json_member_size_def json_member_def length_json_string u_def)

lemma json_member_size_int:
  "list_all printable k \<Longrightarrow> 1 \<le> i \<Longrightarrow> i \<le> max_signed64 \<Longrightarrow> json_member_size (k, PInt i) \<le> length k + 22"
  using length_dec_int [of i] by (simp add: json_member_size_def json_member_def length_json_string u_def)

lemma json_member_size_none: "list_all printable k \<Longrightarrow> json_member_size (k, PNone) = length k + 7"
  by (simp add: json_member_size_def json_member_def length_json_string u_def)

lemma token_text_bounded:
  assumes "length header \<le> 400" "length body \<le> 5000"
  shows "token_text (ticket_text key header body)"
proof -
  let ?h = "base64url_encode header" and ?b = "base64url_encode body"
  have "length ?h \<le> 534" "length ?b \<le> 6667" using assms by (simp_all add: length_base64url)
  moreover have "length (base64url_encode (hmac_sha256 k m)) = 43" for k m by (simp add: length_base64url)
  ultimately show ?thesis
    using base64url_plain(3)
    by (simp add: token_text_def ticket_text_def signing_input_def Let_def MAX_TOKEN_LENGTH_def u_def is_space_def)
qed

end
