(* ===== verification/Ticket_Identity.thy ===== *)
theory Ticket_Identity
  imports Ticket_Signing
begin

text \<open>
  \<open>src/engine/runtime/ticket_identity.py\<close> and \<open>ticket_rejection.py\<close>: the identity a ticket is issued
  for and redeemed by, taken from the trusted invocation and delivery of a call and never from a
  ticket, and the single rejection both protocols answer with. The carrier keeps the actor of its
  invocation: the test \<open>actor is invocation.user_actor\<close> is equality of the frozen records.
\<close>

section \<open>Definitions\<close>

datatype TicketRejectionCategory = CAPABILITY_NOT_AVAILABLE

record TicketRejectionAuditReceipt =
  tr_category :: TicketRejectionCategory
  tr_denied_detail_count :: int

definition TicketRejectionAuditReceipt_post_init :: "TicketRejectionAuditReceipt \<Rightarrow> unit res" where
  "TicketRejectionAuditReceipt_post_init r =
     (if tr_category r \<noteq> CAPABILITY_NOT_AVAILABLE then Inl ValueError
      else if tr_denied_detail_count r \<noteq> 0 then Inl ValueError else Inr ())"

text \<open>The receipt that \<open>TicketNotAvailable\<close> carries.\<close>

definition ticket_not_available_receipt :: TicketRejectionAuditReceipt where
  "ticket_not_available_receipt = \<lparr>tr_category = CAPABILITY_NOT_AVAILABLE, tr_denied_detail_count = 0\<rparr>"

datatype TicketIdentityConstructionProvenance = TRUSTED_INVOCATION_AND_DELIVERY

record TicketExecutionIdentity =
  ti_organization_id :: uuid
  ti_subject_user_id :: uuid
  ti_subject_membership_id :: uuid
  ti_subject_membership_version :: int
  ti_actor_principal_ref :: str
  ti_agent_version_ref :: str
  ti_purpose :: str
  ti_policy_epoch :: int
  ti_policy_epoch_verification :: "nat \<times> PolicyEpochVerification"
  ti_user_actor :: UserActor
  ti_authenticated_invocation :: AuthenticatedInvocation
  ti_trusted_delivery_context :: TrustedDeliveryContext
  ti_construction_provenance :: "TicketIdentityConstructionProvenance option"

definition identity_matches_actor :: "TicketExecutionIdentity \<Rightarrow> bool" where
  "identity_matches_actor i \<longleftrightarrow>
     (let a = ti_user_actor i; iv = ti_authenticated_invocation i; d = ti_trusted_delivery_context i
      in ti_organization_id i = ua_organization_id a \<and> ti_subject_user_id i = ua_user_id a
         \<and> ti_subject_membership_id i = ua_membership_id a
         \<and> ti_subject_membership_version i = ua_membership_version a
         \<and> ti_actor_principal_ref i = ua_principal_ref a
         \<and> a = iv_user_actor iv
         \<and> ti_agent_version_ref i = iv_agent_version_ref iv
         \<and> ti_purpose i = dc_purpose d
         \<and> ti_policy_epoch i = ua_policy_epoch a
         \<and> fst (ti_policy_epoch_verification i) = fst (ua_policy_epoch_verification a))"

definition require_active_ticket_execution_identity :: "scope_heap \<Rightarrow> TicketExecutionIdentity \<Rightarrow> unit res" where
  "require_active_ticket_execution_identity h i =
     (if ti_construction_provenance i \<noteq> Some TRUSTED_INVOCATION_AND_DELIVERY then Inl ValueError
      else
        bnd (validate_trusted_invocation_and_delivery h (ti_authenticated_invocation i)
               (ti_trusted_delivery_context i)) (\<lambda>_.
        bnd (require_active_user_actor h (ti_user_actor i)) (\<lambda>_.
        bnd (require_int_range 1 max_signed64 (PInt (ti_subject_membership_version i))) (\<lambda>_.
        bnd (require_identifier 256 (PStr (ti_actor_principal_ref i))) (\<lambda>_.
        bnd (require_identifier 256 (PStr (ti_agent_version_ref i))) (\<lambda>_.
        bnd (require_identifier 256 (PStr (ti_purpose i))) (\<lambda>_.
        bnd (require_int_range 1 max_signed64 (PInt (ti_policy_epoch i))) (\<lambda>_.
          if \<not> identity_matches_actor i then Inl ValueError else Inr ()))))))))"

definition construct_ticket_execution_identity ::
  "scope_heap \<Rightarrow> AuthenticatedInvocation \<Rightarrow> TrustedDeliveryContext \<Rightarrow> TicketExecutionIdentity res"
where
  "construct_ticket_execution_identity h invocation delivery_context =
     bnd (validate_trusted_invocation_and_delivery h invocation delivery_context) (\<lambda>_.
       let a = iv_user_actor invocation in
       bnd (require_active_user_actor h a) (\<lambda>_.
       bnd (require_identifier 256 (PStr (iv_agent_version_ref invocation))) (\<lambda>_.
       bnd (require_identifier 256 (PStr (dc_purpose delivery_context))) (\<lambda>_.
         let identity = \<lparr>ti_organization_id = ua_organization_id a, ti_subject_user_id = ua_user_id a,
               ti_subject_membership_id = ua_membership_id a,
               ti_subject_membership_version = ua_membership_version a,
               ti_actor_principal_ref = ua_principal_ref a,
               ti_agent_version_ref = iv_agent_version_ref invocation,
               ti_purpose = dc_purpose delivery_context, ti_policy_epoch = ua_policy_epoch a,
               ti_policy_epoch_verification = ua_policy_epoch_verification a, ti_user_actor = a,
               ti_authenticated_invocation = invocation, ti_trusted_delivery_context = delivery_context,
               ti_construction_provenance = Some TRUSTED_INVOCATION_AND_DELIVERY\<rparr>
         in bnd (require_active_ticket_execution_identity h identity) (\<lambda>_. Inr identity)))))"

section \<open>Lemmas\<close>

lemma require_active_ticket_execution_identity_eq [validators]:
  "require_active_ticket_execution_identity h i = Inr x \<longleftrightarrow>
     ti_construction_provenance i = Some TRUSTED_INVOCATION_AND_DELIVERY
     \<and> validate_trusted_invocation_and_delivery h (ti_authenticated_invocation i) (ti_trusted_delivery_context i) = Inr ()
     \<and> require_active_user_actor h (ti_user_actor i) = Inr ()
     \<and> 1 \<le> ti_subject_membership_version i \<and> ti_subject_membership_version i \<le> max_signed64
     \<and> identifier_text 256 (ti_actor_principal_ref i) \<and> identifier_text 256 (ti_agent_version_ref i)
     \<and> identifier_text 256 (ti_purpose i)
     \<and> 1 \<le> ti_policy_epoch i \<and> ti_policy_epoch i \<le> max_signed64
     \<and> identity_matches_actor i"
  unfolding require_active_ticket_execution_identity_def
  by (auto simp: require_int_range_eq require_identifier_eq simp del: require_int_range.simps)

lemma constructed_identity_active:
  "construct_ticket_execution_identity h iv dl = Inr i \<Longrightarrow> require_active_ticket_execution_identity h i = Inr ()"
  by (auto simp: construct_ticket_execution_identity_def Let_def simp del: validators)

end
