(* ===== verification/Tickets.thy ===== *)
theory Tickets
  imports Ticket_Identity
begin

text \<open>
  \<open>src/engine/runtime/context_access_ticket.py\<close> and \<open>action_ticket.py\<close>: the two signed ticket
  protocols. What a call of an issuer or a handler observes of the world are its arguments: the
  answer of the clock, the nonce, the current policy epoch and the port of the actor's
  transaction. A handler returns the calls it made of its Provider or channel with its result.
\<close>

section \<open>Read tickets\<close>

definition CONTEXT_ACCESS_OPERATION :: str where
  "CONTEXT_ACCESS_OPERATION = u ''synthetic.provider.read''"

definition CONTEXT_READ_AUDIENCE_PREFIX :: str where
  "CONTEXT_READ_AUDIENCE_PREFIX = u ''context-read:''"

definition READ_DOMAIN :: str where
  "READ_DOMAIN = u ''context-engine.context-access-ticket''"

definition READ_TOKEN_TYPE :: str where
  "READ_TOKEN_TYPE = u ''CE-ContextAccessTicket''"

definition MAX_TTL_SECONDS :: int where
  "MAX_TTL_SECONDS = 300"

definition READ_CLAIM_FIELDS :: "str list" where
  "READ_CLAIM_FIELDS =
     [u ''actor_principal_ref'', u ''agent_version_ref'', u ''audience'', u ''expires_at'', u ''issued_at'',
      u ''nonce'', u ''operation'', u ''organization_id'', u ''policy_epoch'', u ''provider_ref'', u ''purpose'',
      u ''signing_key_version'', u ''source_ref'', u ''subject_membership_id'', u ''subject_membership_version'',
      u ''subject_user_id'']"

definition LEGACY_CLAIM_FIELDS :: "str list" where
  "LEGACY_CLAIM_FIELDS = filter (\<lambda>f. f \<noteq> u ''source_ref'') READ_CLAIM_FIELDS"

record ContextAccessTicket =
  ct_value :: str

record ContextAccessClaims =
  cc_signing_key_version :: int
  cc_organization_id :: uuid
  cc_subject_user_id :: uuid
  cc_subject_membership_id :: uuid
  cc_subject_membership_version :: int
  cc_actor_principal_ref :: str
  cc_agent_version_ref :: str
  cc_purpose :: str
  cc_policy_epoch :: int
  cc_provider_ref :: str
  cc_source_ref :: "uuid option"
  cc_audience :: str
  cc_issued_at :: datetime
  cc_expires_at :: datetime
  cc_nonce :: "bytes foreign"

definition read_claims_document :: "ContextAccessClaims \<Rightarrow> document res" where
  "read_claims_document c =
     bnd (nonce_document (cc_nonce c)) (\<lambda>nonce. Inr
       [(u ''actor_principal_ref'', PStr (cc_actor_principal_ref c)),
        (u ''agent_version_ref'', PStr (cc_agent_version_ref c)),
        (u ''audience'', PStr (cc_audience c)),
        (u ''expires_at'', PStr (timestamp (cc_expires_at c))),
        (u ''issued_at'', PStr (timestamp (cc_issued_at c))),
        (u ''nonce'', PStr nonce),
        (u ''operation'', PStr CONTEXT_ACCESS_OPERATION),
        (u ''organization_id'', PStr (uuid_str (cc_organization_id c))),
        (u ''policy_epoch'', PInt (cc_policy_epoch c)),
        (u ''provider_ref'', PStr (cc_provider_ref c)),
        (u ''purpose'', PStr (cc_purpose c)),
        (u ''signing_key_version'', PInt (cc_signing_key_version c)),
        (u ''source_ref'', case cc_source_ref c of None \<Rightarrow> PNone | Some s \<Rightarrow> PStr (uuid_str s)),
        (u ''subject_membership_id'', PStr (uuid_str (cc_subject_membership_id c))),
        (u ''subject_membership_version'', PInt (cc_subject_membership_version c)),
        (u ''subject_user_id'', PStr (uuid_str (cc_subject_user_id c)))])"

definition parse_optional_file_source_ref :: "pyval \<Rightarrow> uuid option res" where
  "parse_optional_file_source_ref v =
     (if v = PNone then Inr None else bnd (parse_uuid v) (\<lambda>i. Inr (Some i)))"

definition optional_file_source_ref :: "pyval \<Rightarrow> uuid option res" where
  "optional_file_source_ref v =
     (if v = PNone then Inr None else bnd (require_uuid v) (\<lambda>i. Inr (Some i)))"

text \<open>The lifetime of claims: positive and at most five minutes.\<close>

definition bounded_lifetime :: "datetime \<Rightarrow> datetime \<Rightarrow> bool" where
  "bounded_lifetime issued_at expires_at \<longleftrightarrow>
     0 < dt_diff expires_at issued_at \<and> dt_diff expires_at issued_at \<le> MAX_TTL_SECONDS * 1000000"

text \<open>\<open>document[name]\<close> handed to a reader.\<close>

definition field :: "document \<Rightarrow> string \<Rightarrow> (pyval \<Rightarrow> 'a res) \<Rightarrow> 'a res" where
  "field d name reader = bnd (dict_index d (u name)) reader"

definition read_claims_from_document :: "document \<Rightarrow> ContextAccessClaims res" where
  "read_claims_from_document d =
     bnd (dict_index d (u ''operation'')) (\<lambda>operation.
       if operation \<noteq> PStr CONTEXT_ACCESS_OPERATION then Inl ValueError else
     bnd (field d ''signing_key_version'' (require_int_range 1 max_signed64)) (\<lambda>version.
     bnd (field d ''organization_id'' parse_uuid) (\<lambda>org.
     bnd (field d ''subject_user_id'' parse_uuid) (\<lambda>usr.
     bnd (field d ''subject_membership_id'' parse_uuid) (\<lambda>mem.
     bnd (field d ''subject_membership_version'' (require_int_range 1 max_signed64)) (\<lambda>mver.
     bnd (field d ''actor_principal_ref'' (require_identifier 256)) (\<lambda>pr.
     bnd (field d ''agent_version_ref'' (require_identifier 256)) (\<lambda>ag.
     bnd (field d ''purpose'' (require_identifier 256)) (\<lambda>pu.
     bnd (field d ''policy_epoch'' (require_int_range 1 max_signed64)) (\<lambda>ep.
     bnd (field d ''provider_ref'' (require_identifier 128)) (\<lambda>prov.
     bnd (parse_optional_file_source_ref (dict_get d (u ''source_ref'') PNone)) (\<lambda>src.
     bnd (field d ''audience'' (require_identifier 256)) (\<lambda>aud.
     bnd (field d ''issued_at'' parse_timestamp) (\<lambda>ia.
     bnd (field d ''expires_at'' parse_timestamp) (\<lambda>ex.
     bnd (field d ''nonce'' parse_nonce) (\<lambda>nonce.
       if \<not> bounded_lifetime ia ex then Inl ValueError
       else Inr \<lparr>cc_signing_key_version = version, cc_organization_id = org, cc_subject_user_id = usr,
         cc_subject_membership_id = mem, cc_subject_membership_version = mver, cc_actor_principal_ref = pr,
         cc_agent_version_ref = ag, cc_purpose = pu, cc_policy_epoch = ep, cc_provider_ref = prov,
         cc_source_ref = src, cc_audience = aud, cc_issued_at = ia, cc_expires_at = ex,
         cc_nonce = Exact nonce\<rparr>))))))))))))))))"

text \<open>\<open>_verify_context_access_ticket\<close>: a document without \<open>source_ref\<close> is read as well.\<close>

definition verify_context_access_ticket :: "pyval \<Rightarrow> TicketSigningKeyring \<Rightarrow> document res" where
  "verify_context_access_ticket value keyring =
     (case verify_signed_ticket value keyring READ_DOMAIN READ_TOKEN_TYPE READ_CLAIM_FIELDS of
        Inr d \<Rightarrow> Inr d
      | Inl e \<Rightarrow>
          if expected_decoding_error e
          then verify_signed_ticket value keyring READ_DOMAIN READ_TOKEN_TYPE LEGACY_CLAIM_FIELDS
          else Inl e)"

definition construct_context_access_ticket :: "pyval \<Rightarrow> ContextAccessTicket res" where
  "construct_context_access_ticket value = bnd (require_opaque_ticket_value value) (\<lambda>v. Inr \<lparr>ct_value = v\<rparr>)"

text \<open>The conversion of every expected decoding error into the one rejection.\<close>

definition as_not_available :: "'a res \<Rightarrow> 'a res" where
  "as_not_available r =
     (case r of Inl e \<Rightarrow> if expected_decoding_error e then Inl TicketNotAvailable else Inl e | Inr x \<Rightarrow> Inr x)"

definition deserialize_context_access_ticket :: "pyval \<Rightarrow> TicketSigningKeyring \<Rightarrow> ContextAccessTicket res" where
  "deserialize_context_access_ticket value keyring =
     bnd (as_not_available (bnd (verify_context_access_ticket value keyring) read_claims_from_document)) (\<lambda>_.
       construct_context_access_ticket value)"

definition serialize_context_access_ticket :: "ContextAccessTicket \<Rightarrow> str" where
  "serialize_context_access_ticket = ct_value"

definition read_audience :: "str \<Rightarrow> str res" where
  "read_audience provider_ref =
     bnd (require_identifier 128 (PStr provider_ref)) (\<lambda>provider. Inr (CONTEXT_READ_AUDIENCE_PREFIX @ provider))"

record ContextAccessTicketIssuer =
  ci_keyring :: TicketSigningKeyring
  ci_organization_id :: uuid
  ci_provider_ref :: str
  ci_source_ref :: "uuid option"
  ci_ttl_seconds :: int

definition ContextAccessTicketIssuer_init ::
  "TicketSigningKeyring foreign \<Rightarrow> pyval \<Rightarrow> pyval \<Rightarrow> pyval \<Rightarrow> pyval \<Rightarrow> ContextAccessTicketIssuer res"
where
  "ContextAccessTicketIssuer_init keyring organization_id provider_ref source_ref ttl_seconds =
     bnd (require_exact keyring) (\<lambda>kr.
     bnd (require_int_range 1 MAX_TTL_SECONDS ttl_seconds) (\<lambda>ttl.
     bnd (require_uuid organization_id) (\<lambda>org.
     bnd (require_identifier 128 provider_ref) (\<lambda>provider.
     bnd (optional_file_source_ref source_ref) (\<lambda>src.
       Inr \<lparr>ci_keyring = kr, ci_organization_id = org, ci_provider_ref = provider, ci_source_ref = src,
            ci_ttl_seconds = ttl\<rparr>)))))"

text \<open>The epoch and source checks that issuing and reading share.\<close>

definition source_gate ::
  "exn \<Rightarrow> scope_heap \<Rightarrow> TicketExecutionIdentity \<Rightarrow> (uuid \<Rightarrow> pyval res) \<Rightarrow> materialized_port \<Rightarrow> uuid option \<Rightarrow> unit res"
where
  "source_gate refusal h identity read_epoch port source_ref =
     bnd (epoch_gate_is_current h (snd (ti_policy_epoch_verification identity)) read_epoch) (\<lambda>current.
       if \<not> current then Inl refusal
       else case source_ref of
              None \<Rightarrow> Inr ()
            | Some src \<Rightarrow>
                (case ua_materialized_projection_session (ti_user_actor identity) of
                   None \<Rightarrow> Inl refusal
                 | Some session \<Rightarrow>
                     bnd (is_materialized_source_active h session port (PUuid src)) (\<lambda>active.
                       if \<not> active then Inl refusal else Inr ())))"

definition as_gate_not_available :: "'a res \<Rightarrow> 'a res" where
  "as_gate_not_available r =
     (case r of
        Inl e \<Rightarrow> if e = PolicyEpochAuthorityUnavailable \<or> expected_decoding_error e then Inl TicketNotAvailable else Inl e
      | Inr x \<Rightarrow> Inr x)"

definition issue_context_access_ticket ::
  "ContextAccessTicketIssuer \<Rightarrow> scope_heap \<Rightarrow> TicketExecutionIdentity \<Rightarrow> (uuid \<Rightarrow> pyval res) \<Rightarrow> materialized_port
    \<Rightarrow> pyval \<Rightarrow> bytes foreign \<Rightarrow> ContextAccessTicket res"
where
  "issue_context_access_ticket issuer h identity read_epoch port now nonce =
     bnd (require_active_ticket_execution_identity h identity) (\<lambda>_.
       if ti_organization_id identity \<noteq> ci_organization_id issuer then Inl ValueError else
     bnd (as_gate_not_available (source_gate TicketNotAvailable h identity read_epoch port (ci_source_ref issuer))) (\<lambda>_.
     bnd (require_whole_second_utc now) (\<lambda>issued_at.
     bnd (read_audience (ci_provider_ref issuer)) (\<lambda>audience.
     bnd (dt_add issued_at (ci_ttl_seconds issuer * 1000000)) (\<lambda>expires_at.
     bnd (read_claims_document
            \<lparr>cc_signing_key_version = tk_active_version (ci_keyring issuer),
             cc_organization_id = ti_organization_id identity, cc_subject_user_id = ti_subject_user_id identity,
             cc_subject_membership_id = ti_subject_membership_id identity,
             cc_subject_membership_version = ti_subject_membership_version identity,
             cc_actor_principal_ref = ti_actor_principal_ref identity,
             cc_agent_version_ref = ti_agent_version_ref identity, cc_purpose = ti_purpose identity,
             cc_policy_epoch = ti_policy_epoch identity, cc_provider_ref = ci_provider_ref issuer,
             cc_source_ref = ci_source_ref issuer, cc_audience = audience, cc_issued_at = issued_at,
             cc_expires_at = expires_at, cc_nonce = nonce\<rparr>) (\<lambda>claims.
     bnd (mint_signed_ticket (ci_keyring issuer) READ_DOMAIN READ_TOKEN_TYPE claims) (\<lambda>text.
       construct_context_access_ticket (PStr text))))))))"

record ContextAccessTicketReadHandler =
  rh_keyring :: TicketSigningKeyring
  rh_organization_id :: uuid
  rh_provider_ref :: str
  rh_source_ref :: "uuid option"

definition ContextAccessTicketReadHandler_init ::
  "TicketSigningKeyring foreign \<Rightarrow> pyval \<Rightarrow> pyval \<Rightarrow> pyval \<Rightarrow> bool \<Rightarrow> ContextAccessTicketReadHandler res"
where
  "ContextAccessTicketReadHandler_init keyring organization_id provider_ref source_ref provider_complete =
     bnd (require_exact keyring) (\<lambda>kr.
       if \<not> provider_complete then Inl TypeError else
     bnd (require_uuid organization_id) (\<lambda>org.
     bnd (require_identifier 128 provider_ref) (\<lambda>provider.
     bnd (optional_file_source_ref source_ref) (\<lambda>src.
       Inr \<lparr>rh_keyring = kr, rh_organization_id = org, rh_provider_ref = provider, rh_source_ref = src\<rparr>))))"

definition read_claims_match ::
  "ContextAccessTicketReadHandler \<Rightarrow> TicketExecutionIdentity \<Rightarrow> datetime \<Rightarrow> str \<Rightarrow> ContextAccessClaims \<Rightarrow> bool"
where
  "read_claims_match handler identity checked_at audience c \<longleftrightarrow>
     cc_organization_id c = ti_organization_id identity \<and> cc_organization_id c = rh_organization_id handler
     \<and> cc_subject_user_id c = ti_subject_user_id identity
     \<and> cc_subject_membership_id c = ti_subject_membership_id identity
     \<and> cc_subject_membership_version c = ti_subject_membership_version identity
     \<and> cc_actor_principal_ref c = ti_actor_principal_ref identity
     \<and> cc_agent_version_ref c = ti_agent_version_ref identity \<and> cc_purpose c = ti_purpose identity
     \<and> cc_policy_epoch c = ti_policy_epoch identity \<and> cc_provider_ref c = rh_provider_ref handler
     \<and> cc_source_ref c = rh_source_ref handler \<and> cc_audience c = audience
     \<and> \<not> dt_less checked_at (cc_issued_at c) \<and> dt_less checked_at (cc_expires_at c)"

definition check_read_ticket ::
  "ContextAccessTicketReadHandler \<Rightarrow> scope_heap \<Rightarrow> str \<Rightarrow> TicketExecutionIdentity \<Rightarrow> (uuid \<Rightarrow> pyval res)
    \<Rightarrow> materialized_port \<Rightarrow> pyval \<Rightarrow> unit res"
where
  "check_read_ticket handler h text identity read_epoch port now =
     bnd (require_active_ticket_execution_identity h identity) (\<lambda>_.
     bnd (require_whole_second_utc now) (\<lambda>checked_at.
     bnd (verify_context_access_ticket (PStr text) (rh_keyring handler)) (\<lambda>d.
     bnd (read_claims_from_document d) (\<lambda>claims.
     bnd (read_audience (rh_provider_ref handler)) (\<lambda>audience.
       if \<not> read_claims_match handler identity checked_at audience claims then Inl ValueError
       else source_gate ValueError h identity read_epoch port (rh_source_ref handler))))))"

datatype SyntheticReadReceipt = SyntheticReadReceipt

text \<open>The calls of the Provider, and the result.\<close>

definition read_with_ticket ::
  "ContextAccessTicketReadHandler \<Rightarrow> scope_heap \<Rightarrow> ContextAccessTicket foreign \<Rightarrow> TicketExecutionIdentity
    \<Rightarrow> (uuid \<Rightarrow> pyval res) \<Rightarrow> materialized_port \<Rightarrow> pyval \<Rightarrow> (uuid \<Rightarrow> str \<Rightarrow> unit res)
    \<Rightarrow> (uuid \<times> str) list \<times> SyntheticReadReceipt res"
where
  "read_with_ticket handler h ticket identity read_epoch port now provider_read =
     (case ticket of
        WrongType \<Rightarrow> ([], Inl TicketNotAvailable)
      | Exact t \<Rightarrow>
          (case as_gate_not_available (check_read_ticket handler h (ct_value t) identity read_epoch port now) of
             Inl e \<Rightarrow> ([], Inl e)
           | Inr _ \<Rightarrow>
               ([(ti_organization_id identity, rh_provider_ref handler)],
                bnd (provider_read (ti_organization_id identity) (rh_provider_ref handler)) (\<lambda>_.
                  Inr SyntheticReadReceipt))))"

section \<open>Action tickets\<close>

definition ACTION_TICKET_OPERATION :: str where
  "ACTION_TICKET_OPERATION = u ''synthetic.channel.noop''"

definition ACTION_AUDIENCE_PREFIX :: str where
  "ACTION_AUDIENCE_PREFIX = u ''im-send:''"

definition ACTION_DOMAIN :: str where
  "ACTION_DOMAIN = u ''context-engine.action-ticket''"

definition ACTION_TOKEN_TYPE :: str where
  "ACTION_TOKEN_TYPE = u ''CE-ActionTicket''"

definition ACTION_CLAIM_FIELDS :: "str list" where
  "ACTION_CLAIM_FIELDS =
     [u ''actor_principal_ref'', u ''agent_version_ref'', u ''audience'', u ''channel_ref'', u ''expires_at'',
      u ''issued_at'', u ''nonce'', u ''operation'', u ''organization_id'', u ''policy_epoch'', u ''purpose'',
      u ''signing_key_version'', u ''subject_membership_id'', u ''subject_membership_version'',
      u ''subject_user_id'']"

record ActionTicket =
  at_value :: str

record ActionClaims =
  ac_signing_key_version :: int
  ac_organization_id :: uuid
  ac_subject_user_id :: uuid
  ac_subject_membership_id :: uuid
  ac_subject_membership_version :: int
  ac_actor_principal_ref :: str
  ac_agent_version_ref :: str
  ac_purpose :: str
  ac_policy_epoch :: int
  ac_channel_ref :: str
  ac_audience :: str
  ac_issued_at :: datetime
  ac_expires_at :: datetime
  ac_nonce :: "bytes foreign"

definition action_claims_document :: "ActionClaims \<Rightarrow> document res" where
  "action_claims_document c =
     bnd (nonce_document (ac_nonce c)) (\<lambda>nonce. Inr
       [(u ''actor_principal_ref'', PStr (ac_actor_principal_ref c)),
        (u ''agent_version_ref'', PStr (ac_agent_version_ref c)),
        (u ''audience'', PStr (ac_audience c)),
        (u ''channel_ref'', PStr (ac_channel_ref c)),
        (u ''expires_at'', PStr (timestamp (ac_expires_at c))),
        (u ''issued_at'', PStr (timestamp (ac_issued_at c))),
        (u ''nonce'', PStr nonce),
        (u ''operation'', PStr ACTION_TICKET_OPERATION),
        (u ''organization_id'', PStr (uuid_str (ac_organization_id c))),
        (u ''policy_epoch'', PInt (ac_policy_epoch c)),
        (u ''purpose'', PStr (ac_purpose c)),
        (u ''signing_key_version'', PInt (ac_signing_key_version c)),
        (u ''subject_membership_id'', PStr (uuid_str (ac_subject_membership_id c))),
        (u ''subject_membership_version'', PInt (ac_subject_membership_version c)),
        (u ''subject_user_id'', PStr (uuid_str (ac_subject_user_id c)))])"

definition action_claims_from_document :: "document \<Rightarrow> ActionClaims res" where
  "action_claims_from_document d =
     bnd (dict_index d (u ''operation'')) (\<lambda>operation.
       if operation \<noteq> PStr ACTION_TICKET_OPERATION then Inl ValueError else
     bnd (field d ''signing_key_version'' (require_int_range 1 max_signed64)) (\<lambda>version.
     bnd (field d ''organization_id'' parse_uuid) (\<lambda>org.
     bnd (field d ''subject_user_id'' parse_uuid) (\<lambda>usr.
     bnd (field d ''subject_membership_id'' parse_uuid) (\<lambda>mem.
     bnd (field d ''subject_membership_version'' (require_int_range 1 max_signed64)) (\<lambda>mver.
     bnd (field d ''actor_principal_ref'' (require_identifier 256)) (\<lambda>pr.
     bnd (field d ''agent_version_ref'' (require_identifier 256)) (\<lambda>ag.
     bnd (field d ''purpose'' (require_identifier 256)) (\<lambda>pu.
     bnd (field d ''policy_epoch'' (require_int_range 1 max_signed64)) (\<lambda>ep.
     bnd (field d ''channel_ref'' (require_identifier 128)) (\<lambda>ch.
     bnd (field d ''audience'' (require_identifier 256)) (\<lambda>aud.
     bnd (field d ''issued_at'' parse_timestamp) (\<lambda>ia.
     bnd (field d ''expires_at'' parse_timestamp) (\<lambda>ex.
     bnd (field d ''nonce'' parse_nonce) (\<lambda>nonce.
       if \<not> bounded_lifetime ia ex then Inl ValueError
       else Inr \<lparr>ac_signing_key_version = version, ac_organization_id = org, ac_subject_user_id = usr,
         ac_subject_membership_id = mem, ac_subject_membership_version = mver, ac_actor_principal_ref = pr,
         ac_agent_version_ref = ag, ac_purpose = pu, ac_policy_epoch = ep, ac_channel_ref = ch,
         ac_audience = aud, ac_issued_at = ia, ac_expires_at = ex, ac_nonce = Exact nonce\<rparr>)))))))))))))))"

definition verify_action_ticket :: "pyval \<Rightarrow> TicketSigningKeyring \<Rightarrow> document res" where
  "verify_action_ticket value keyring =
     verify_signed_ticket value keyring ACTION_DOMAIN ACTION_TOKEN_TYPE ACTION_CLAIM_FIELDS"

definition construct_action_ticket :: "pyval \<Rightarrow> ActionTicket res" where
  "construct_action_ticket value = bnd (require_opaque_ticket_value value) (\<lambda>v. Inr \<lparr>at_value = v\<rparr>)"

definition deserialize_action_ticket :: "pyval \<Rightarrow> TicketSigningKeyring \<Rightarrow> ActionTicket res" where
  "deserialize_action_ticket value keyring =
     bnd (as_not_available (bnd (verify_action_ticket value keyring) action_claims_from_document)) (\<lambda>_.
       construct_action_ticket value)"

definition serialize_action_ticket :: "ActionTicket \<Rightarrow> str" where
  "serialize_action_ticket = at_value"

definition action_audience :: "str \<Rightarrow> str res" where
  "action_audience channel_ref =
     bnd (require_identifier 128 (PStr channel_ref)) (\<lambda>channel. Inr (ACTION_AUDIENCE_PREFIX @ channel))"

record ActionTicketIssuer =
  ai_keyring :: TicketSigningKeyring
  ai_organization_id :: uuid
  ai_channel_ref :: str
  ai_ttl_seconds :: int

definition ActionTicketIssuer_init ::
  "TicketSigningKeyring foreign \<Rightarrow> pyval \<Rightarrow> pyval \<Rightarrow> pyval \<Rightarrow> ActionTicketIssuer res"
where
  "ActionTicketIssuer_init keyring organization_id channel_ref ttl_seconds =
     bnd (require_exact keyring) (\<lambda>kr.
     bnd (require_int_range 1 MAX_TTL_SECONDS ttl_seconds) (\<lambda>ttl.
     bnd (require_uuid organization_id) (\<lambda>org.
     bnd (require_identifier 128 channel_ref) (\<lambda>channel.
       Inr \<lparr>ai_keyring = kr, ai_organization_id = org, ai_channel_ref = channel, ai_ttl_seconds = ttl\<rparr>))))"

definition issue_action_ticket ::
  "ActionTicketIssuer \<Rightarrow> scope_heap \<Rightarrow> TicketExecutionIdentity \<Rightarrow> pyval \<Rightarrow> bytes foreign \<Rightarrow> ActionTicket res"
where
  "issue_action_ticket issuer h identity now nonce =
     bnd (require_active_ticket_execution_identity h identity) (\<lambda>_.
       if ti_organization_id identity \<noteq> ai_organization_id issuer then Inl ValueError else
     bnd (require_whole_second_utc now) (\<lambda>issued_at.
     bnd (action_audience (ai_channel_ref issuer)) (\<lambda>audience.
     bnd (dt_add issued_at (ai_ttl_seconds issuer * 1000000)) (\<lambda>expires_at.
     bnd (action_claims_document
            \<lparr>ac_signing_key_version = tk_active_version (ai_keyring issuer),
             ac_organization_id = ti_organization_id identity, ac_subject_user_id = ti_subject_user_id identity,
             ac_subject_membership_id = ti_subject_membership_id identity,
             ac_subject_membership_version = ti_subject_membership_version identity,
             ac_actor_principal_ref = ti_actor_principal_ref identity,
             ac_agent_version_ref = ti_agent_version_ref identity, ac_purpose = ti_purpose identity,
             ac_policy_epoch = ti_policy_epoch identity, ac_channel_ref = ai_channel_ref issuer,
             ac_audience = audience, ac_issued_at = issued_at, ac_expires_at = expires_at, ac_nonce = nonce\<rparr>) (\<lambda>claims.
     bnd (mint_signed_ticket (ai_keyring issuer) ACTION_DOMAIN ACTION_TOKEN_TYPE claims) (\<lambda>text.
       construct_action_ticket (PStr text)))))))"

record ActionTicketNoopHandler =
  ah_keyring :: TicketSigningKeyring
  ah_organization_id :: uuid
  ah_channel_ref :: str

definition ActionTicketNoopHandler_init ::
  "TicketSigningKeyring foreign \<Rightarrow> pyval \<Rightarrow> pyval \<Rightarrow> bool \<Rightarrow> ActionTicketNoopHandler res"
where
  "ActionTicketNoopHandler_init keyring organization_id channel_ref channel_complete =
     bnd (require_exact keyring) (\<lambda>kr.
       if \<not> channel_complete then Inl TypeError else
     bnd (require_uuid organization_id) (\<lambda>org.
     bnd (require_identifier 128 channel_ref) (\<lambda>channel.
       Inr \<lparr>ah_keyring = kr, ah_organization_id = org, ah_channel_ref = channel\<rparr>)))"

definition action_claims_match ::
  "ActionTicketNoopHandler \<Rightarrow> TicketExecutionIdentity \<Rightarrow> datetime \<Rightarrow> str \<Rightarrow> ActionClaims \<Rightarrow> bool"
where
  "action_claims_match handler identity checked_at audience c \<longleftrightarrow>
     ac_organization_id c = ti_organization_id identity \<and> ac_organization_id c = ah_organization_id handler
     \<and> ac_subject_user_id c = ti_subject_user_id identity
     \<and> ac_subject_membership_id c = ti_subject_membership_id identity
     \<and> ac_subject_membership_version c = ti_subject_membership_version identity
     \<and> ac_actor_principal_ref c = ti_actor_principal_ref identity
     \<and> ac_agent_version_ref c = ti_agent_version_ref identity \<and> ac_purpose c = ti_purpose identity
     \<and> ac_policy_epoch c = ti_policy_epoch identity \<and> ac_channel_ref c = ah_channel_ref handler
     \<and> ac_audience c = audience
     \<and> \<not> dt_less checked_at (ac_issued_at c) \<and> dt_less checked_at (ac_expires_at c)"

definition check_action_ticket ::
  "ActionTicketNoopHandler \<Rightarrow> scope_heap \<Rightarrow> str \<Rightarrow> TicketExecutionIdentity \<Rightarrow> (uuid \<Rightarrow> pyval res) \<Rightarrow> pyval \<Rightarrow> unit res"
where
  "check_action_ticket handler h text identity read_epoch now =
     bnd (require_active_ticket_execution_identity h identity) (\<lambda>_.
     bnd (require_whole_second_utc now) (\<lambda>checked_at.
     bnd (verify_action_ticket (PStr text) (ah_keyring handler)) (\<lambda>d.
     bnd (action_claims_from_document d) (\<lambda>claims.
     bnd (action_audience (ah_channel_ref handler)) (\<lambda>audience.
       if \<not> action_claims_match handler identity checked_at audience claims then Inl ValueError
       else
         bnd (epoch_gate_is_current h (snd (ti_policy_epoch_verification identity)) read_epoch) (\<lambda>current.
           if \<not> current then Inl ValueError else Inr ()))))))"

datatype SyntheticActionReceipt = SyntheticActionReceipt

definition perform_with_ticket ::
  "ActionTicketNoopHandler \<Rightarrow> scope_heap \<Rightarrow> ActionTicket foreign \<Rightarrow> TicketExecutionIdentity
    \<Rightarrow> (uuid \<Rightarrow> pyval res) \<Rightarrow> pyval \<Rightarrow> (uuid \<Rightarrow> str \<Rightarrow> unit res)
    \<Rightarrow> (uuid \<times> str) list \<times> SyntheticActionReceipt res"
where
  "perform_with_ticket handler h ticket identity read_epoch now perform_noop =
     (case ticket of
        WrongType \<Rightarrow> ([], Inl TicketNotAvailable)
      | Exact t \<Rightarrow>
          (case as_gate_not_available (check_action_ticket handler h (at_value t) identity read_epoch now) of
             Inl e \<Rightarrow> ([], Inl e)
           | Inr _ \<Rightarrow>
               ([(ti_organization_id identity, ah_channel_ref handler)],
                bnd (perform_noop (ti_organization_id identity) (ah_channel_ref handler)) (\<lambda>_.
                  Inr SyntheticActionReceipt))))"

section \<open>What the two protocols share\<close>

text \<open>
  A protocol writes its claims as a flat document with exactly its fields and reads them back from
  any document with the same entries. Then whatever it mints it verifies and reads back, and
  whatever it accepts is byte for byte what it would mint for the claims it reads.
\<close>

locale ticket_protocol =
  fixes dm :: str and tt :: str and names :: "str list" and write_doc :: "'c \<Rightarrow> document res" and read_doc :: "document \<Rightarrow> 'c res"
    and version_of :: "'c \<Rightarrow> int" and ok :: "'c \<Rightarrow> bool"
  assumes plain_names: "list_all unicode_scalar dm" "list_all unicode_scalar tt"
    and some_field: "names \<noteq> []"
    and written: "write_doc c = Inr d \<Longrightarrow> ok c \<Longrightarrow> plain_document d"
    and shape: "write_doc c = Inr d \<Longrightarrow>
      map fst d = names \<and> distinct names \<and> map_of d (u ''signing_key_version'') = Some (PInt (version_of c))"
    and read_written: "write_doc c = Inr d \<Longrightarrow> ok c \<Longrightarrow> map_of e = map_of d \<Longrightarrow> read_doc e = Inr c"
begin

lemma minted_reads_back:
  assumes "write_doc c = Inr d" "ok c" "version_of c = tk_active_version kr"
    "1 \<le> tk_active_version kr" "tk_active_version kr \<le> max_signed64"
    "mint_signed_ticket kr dm tt d = Inr t" "token_text t"
  shows "bnd (verify_signed_ticket (PStr t) kr dm tt names) read_doc = Inr c"
proof -
  from shape [OF assms(1)] have d: "map fst d = names" "distinct (map fst d)"
    "map_of d (u ''signing_key_version'') = Some (PInt (tk_active_version kr))" using assms(3) by simp_all
  then have "verify_signed_ticket (PStr t) kr dm tt names = Inr (sort_key fst d)"
    using verify_minted [OF assms(6,7,4,5) plain_names written [OF assms(1,2)], of names] some_field by simp
  with read_written [OF assms(1,2) map_of_sort_keys [OF d(2)]] show ?thesis by simp
qed

end

section \<open>Lemmas\<close>

lemma field_eq [validators]: "field d name r = Inr x \<longleftrightarrow> (\<exists>v. map_of d (u name) = Some v \<and> r v = Inr x)"
  by (simp add: field_def validators)

lemma nonce_document_eq [validators]:
  "nonce_document n = Inr t \<longleftrightarrow> (\<exists>b. n = Exact b \<and> length b = 32 \<and> t = base64url_encode b)"
  by (auto simp: nonce_document_def validators)

text \<open>The parts of claims that make them readable again.\<close>

definition writable_times :: "datetime \<Rightarrow> datetime \<Rightarrow> bool" where
  "writable_times ia ex \<longleftrightarrow> valid_datetime ia \<and> valid_datetime ex \<and> is_aware_utc ia \<and> is_aware_utc ex
     \<and> microsecond ia = 0 \<and> microsecond ex = 0 \<and> bounded_lifetime ia ex"

definition writable_ref :: "nat \<Rightarrow> str \<Rightarrow> bool" where
  "writable_ref n s \<longleftrightarrow> identifier_text n s \<and> list_all unicode_scalar s"

definition writable_version :: "int \<Rightarrow> bool" where
  "writable_version i \<longleftrightarrow> 1 \<le> i \<and> i \<le> max_signed64"

definition read_claims_ok :: "ContextAccessClaims \<Rightarrow> bool" where
  "read_claims_ok c \<longleftrightarrow>
     list_all writable_version [cc_signing_key_version c, cc_subject_membership_version c, cc_policy_epoch c]
     \<and> list_all (writable_ref 256) [cc_actor_principal_ref c, cc_agent_version_ref c, cc_purpose c, cc_audience c]
     \<and> writable_ref 128 (cc_provider_ref c) \<and> writable_times (cc_issued_at c) (cc_expires_at c)"

definition action_claims_ok :: "ActionClaims \<Rightarrow> bool" where
  "action_claims_ok c \<longleftrightarrow>
     list_all writable_version [ac_signing_key_version c, ac_subject_membership_version c, ac_policy_epoch c]
     \<and> list_all (writable_ref 256) [ac_actor_principal_ref c, ac_agent_version_ref c, ac_purpose c, ac_audience c]
     \<and> writable_ref 128 (ac_channel_ref c) \<and> writable_times (ac_issued_at c) (ac_expires_at c)"

lemma text_eq_iff: "uuid_str i = uuid_str j \<longleftrightarrow> i = j" "base64url_encode a = base64url_encode b \<longleftrightarrow> a = b"
  by (auto dest: uuid_str_inject base64url_encode_inject)

lemma parse_optional_source [simp]:
  "parse_optional_file_source_ref (case s of None \<Rightarrow> PNone | Some s \<Rightarrow> PStr (uuid_str s)) = Inr s"
  by (simp add: parse_optional_file_source_ref_def validators split: option.splits)

lemma read_written_claims:
  assumes "read_claims_document c = Inr d" "read_claims_ok c" "map_of e = map_of d"
  shows "read_claims_from_document e = Inr c"
proof -
  from assms(1) obtain b where b: "cc_nonce c = Exact b" "length b = 32"
    by (auto simp: read_claims_document_def validators)
  from assms(1) have e: "map_of e = map_of d" "dict_get e (u ''source_ref'') PNone
      = (case cc_source_ref c of None \<Rightarrow> PNone | Some s \<Rightarrow> PStr (uuid_str s))"
    using assms(3) by (auto simp: dict_get_def read_claims_document_def validators u_def)
  from assms(1) have d: "map_of d (u ''operation'') = Some (PStr CONTEXT_ACCESS_OPERATION)"
    "map_of d (u ''signing_key_version'') = Some (PInt (cc_signing_key_version c))"
    "map_of d (u ''organization_id'') = Some (PStr (uuid_str (cc_organization_id c)))"
    "map_of d (u ''subject_user_id'') = Some (PStr (uuid_str (cc_subject_user_id c)))"
    "map_of d (u ''subject_membership_id'') = Some (PStr (uuid_str (cc_subject_membership_id c)))"
    "map_of d (u ''subject_membership_version'') = Some (PInt (cc_subject_membership_version c))"
    "map_of d (u ''actor_principal_ref'') = Some (PStr (cc_actor_principal_ref c))"
    "map_of d (u ''agent_version_ref'') = Some (PStr (cc_agent_version_ref c))"
    "map_of d (u ''purpose'') = Some (PStr (cc_purpose c))"
    "map_of d (u ''policy_epoch'') = Some (PInt (cc_policy_epoch c))"
    "map_of d (u ''provider_ref'') = Some (PStr (cc_provider_ref c))"
    "map_of d (u ''audience'') = Some (PStr (cc_audience c))"
    "map_of d (u ''issued_at'') = Some (PStr (timestamp (cc_issued_at c)))"
    "map_of d (u ''expires_at'') = Some (PStr (timestamp (cc_expires_at c)))"
    "map_of d (u ''nonce'') = Some (PStr (base64url_encode b))"
    using b by (auto simp: read_claims_document_def validators u_def)
  show ?thesis
    using assms(2) b
    by (simp add: read_claims_from_document_def validators d e parse_timestamp_round_trip read_claims_ok_def
        writable_times_def writable_ref_def writable_version_def is_aware_utc_def text_eq_iff del: require_int_range.simps)
qed

lemma read_written_action_claims:
  assumes "action_claims_document c = Inr d" "action_claims_ok c" "map_of e = map_of d"
  shows "action_claims_from_document e = Inr c"
proof -
  from assms(1) obtain b where b: "ac_nonce c = Exact b" "length b = 32"
    by (auto simp: action_claims_document_def validators)
  from assms(1) have d: "map_of d (u ''operation'') = Some (PStr ACTION_TICKET_OPERATION)"
    "map_of d (u ''signing_key_version'') = Some (PInt (ac_signing_key_version c))"
    "map_of d (u ''organization_id'') = Some (PStr (uuid_str (ac_organization_id c)))"
    "map_of d (u ''subject_user_id'') = Some (PStr (uuid_str (ac_subject_user_id c)))"
    "map_of d (u ''subject_membership_id'') = Some (PStr (uuid_str (ac_subject_membership_id c)))"
    "map_of d (u ''subject_membership_version'') = Some (PInt (ac_subject_membership_version c))"
    "map_of d (u ''actor_principal_ref'') = Some (PStr (ac_actor_principal_ref c))"
    "map_of d (u ''agent_version_ref'') = Some (PStr (ac_agent_version_ref c))"
    "map_of d (u ''purpose'') = Some (PStr (ac_purpose c))"
    "map_of d (u ''policy_epoch'') = Some (PInt (ac_policy_epoch c))"
    "map_of d (u ''channel_ref'') = Some (PStr (ac_channel_ref c))"
    "map_of d (u ''audience'') = Some (PStr (ac_audience c))"
    "map_of d (u ''issued_at'') = Some (PStr (timestamp (ac_issued_at c)))"
    "map_of d (u ''expires_at'') = Some (PStr (timestamp (ac_expires_at c)))"
    "map_of d (u ''nonce'') = Some (PStr (base64url_encode b))"
    using b by (auto simp: action_claims_document_def validators u_def)
  show ?thesis
    using assms(2) b
    by (simp add: action_claims_from_document_def validators d assms(3) parse_timestamp_round_trip action_claims_ok_def
        writable_times_def writable_ref_def writable_version_def is_aware_utc_def text_eq_iff del: require_int_range.simps)
qed

interpretation read_protocol: ticket_protocol READ_DOMAIN READ_TOKEN_TYPE READ_CLAIM_FIELDS read_claims_document
  read_claims_from_document cc_signing_key_version read_claims_ok
proof unfold_locales
  show "plain_document d" if "read_claims_document c = Inr d" "read_claims_ok c" for c d
    using that plain_text_codecs
    by (auto simp: read_claims_document_def validators plain_document_def read_claims_ok_def writable_ref_def
        CONTEXT_ACCESS_OPERATION_def split: option.splits)
  show "map fst d = READ_CLAIM_FIELDS \<and> distinct READ_CLAIM_FIELDS
      \<and> map_of d (u ''signing_key_version'') = Some (PInt (cc_signing_key_version c))"
    if "read_claims_document c = Inr d" for c d
    using that by (auto simp: read_claims_document_def READ_CLAIM_FIELDS_def u_def)
qed (simp_all add: READ_DOMAIN_def READ_TOKEN_TYPE_def READ_CLAIM_FIELDS_def read_written_claims)

interpretation action_protocol: ticket_protocol ACTION_DOMAIN ACTION_TOKEN_TYPE ACTION_CLAIM_FIELDS action_claims_document
  action_claims_from_document ac_signing_key_version action_claims_ok
proof unfold_locales
  show "plain_document d" if "action_claims_document c = Inr d" "action_claims_ok c" for c d
    using that plain_text_codecs
    by (auto simp: action_claims_document_def validators plain_document_def action_claims_ok_def writable_ref_def
        ACTION_TICKET_OPERATION_def)
  show "map fst d = ACTION_CLAIM_FIELDS \<and> distinct ACTION_CLAIM_FIELDS
      \<and> map_of d (u ''signing_key_version'') = Some (PInt (ac_signing_key_version c))"
    if "action_claims_document c = Inr d" for c d
    using that by (auto simp: action_claims_document_def ACTION_CLAIM_FIELDS_def u_def)
qed (simp_all add: ACTION_DOMAIN_def ACTION_TOKEN_TYPE_def ACTION_CLAIM_FIELDS_def read_written_action_claims)

text \<open>Whole seconds stay whole.\<close>

lemma dt_add_whole_seconds:
  assumes "dt_add d (n * 1000000) = Inr e" "microsecond d = 0"
  shows "microsecond e = 0"
proof -
  let ?t = "local_us d + n * 1000000"
  have "local_us d = (((toordinal d * 24 + int (hour d)) * 60 + int (minute d)) * 60 + int (second d)) * 1000000"
    using assms(2) by (simp add: local_us_def)
  then have "?t mod 1000000 = 0" by simp
  then have "?t mod 86400000000 mod 1000000 = 0" by (simp add: mod_mod_cancel)
  then show ?thesis
    using assms(1) by (auto simp: dt_add_def from_local_us_def Let_def split: if_splits prod.splits)
qed

lemma issued_times_writable:
  assumes "dt_add t (ttl * 1000000) = Inr e" "valid_datetime t" "is_aware_utc t" "microsecond t = 0" "1 \<le> ttl" "ttl \<le> MAX_TTL_SECONDS"
  shows "writable_times t e"
  using assms dt_add_valid [OF assms(1,2)] dt_add_whole_seconds [OF assms(1,4)] dt_add_diff [OF assms(1)]
  by (simp add: writable_times_def is_aware_utc_def bounded_lifetime_def)

lemma prefixed_audience:
  assumes "identifier_text 128 r" "p \<noteq> []" "\<not> list_ex is_space p" "length p \<le> 128"
  shows "identifier_text 256 (p @ r)"
  using assms by (auto simp: identifier_text_def str_isspace_def list_ex_iff list_all_iff)

lemma audience_prefixes:
  "CONTEXT_READ_AUDIENCE_PREFIX \<noteq> []" "\<not> list_ex is_space CONTEXT_READ_AUDIENCE_PREFIX" "length CONTEXT_READ_AUDIENCE_PREFIX \<le> 128"
  "ACTION_AUDIENCE_PREFIX \<noteq> []" "\<not> list_ex is_space ACTION_AUDIENCE_PREFIX" "length ACTION_AUDIENCE_PREFIX \<le> 128"
  by (simp_all add: CONTEXT_READ_AUDIENCE_PREFIX_def ACTION_AUDIENCE_PREFIX_def u_def is_space_def)

lemma read_audience_eq [validators]:
  "read_audience r = Inr a \<longleftrightarrow> identifier_text 128 r \<and> a = CONTEXT_READ_AUDIENCE_PREFIX @ r"
  by (auto simp: read_audience_def validators)

lemma action_audience_eq [validators]:
  "action_audience r = Inr a \<longleftrightarrow> identifier_text 128 r \<and> a = ACTION_AUDIENCE_PREFIX @ r"
  by (auto simp: action_audience_def validators)

lemma epoch_gate_answer:
  "epoch_gate_is_current h v rd = Inr b \<Longrightarrow> b \<longleftrightarrow> rd (pv_organization_id v) = Inr (PInt (pv_policy_epoch v))"
  by (auto simp: epoch_gate_is_current_def policy_epoch_is_current_def validators bnd_def
      split: sum.splits if_splits simp del: bnd_eq_Inr)

lemma bool_answer: "(case v of PBool b \<Rightarrow> Inr b | _ \<Rightarrow> Inl TypeError) = Inr b \<longleftrightarrow> v = PBool b"
  by (cases v) auto

lemma source_active_answer:
  "is_materialized_source_active h session port (PUuid s) = Inr b \<Longrightarrow> port_source_is_active port s = Inr (PBool b)"
  by (auto simp: is_materialized_source_active_def bool_answer)

lemma source_gate_Inr:
  assumes "source_gate e h i rd port src = Inr x"
  shows "rd (pv_organization_id (snd (ti_policy_epoch_verification i)))
      = Inr (PInt (pv_policy_epoch (snd (ti_policy_epoch_verification i))))"
    "\<forall>s. src = Some s \<longrightarrow> port_source_is_active port s = Inr (PBool True)"
  using assms
  by (auto simp: source_gate_def dest!: epoch_gate_answer source_active_answer split: option.splits)

lemma as_gate_not_available_eq [simp]: "as_gate_not_available r = Inr x \<longleftrightarrow> r = Inr x"
  by (auto simp: as_gate_not_available_def split: sum.splits)

lemma as_not_available_eq [simp]: "as_not_available r = Inr x \<longleftrightarrow> r = Inr x"
  by (auto simp: as_not_available_def split: sum.splits)

lemma verify_context_access_ticket_Inr:
  assumes "verify_context_access_ticket v kr = Inr d"
  obtains names where "verify_signed_ticket v kr READ_DOMAIN READ_TOKEN_TYPE names = Inr d"
  using assms by (auto simp: verify_context_access_ticket_def split: sum.splits if_splits)

lemma read_claims_version:
  "read_claims_from_document d = Inr c \<Longrightarrow>
     map_of d (u ''signing_key_version'') = Some (PInt (cc_signing_key_version c))
     \<and> bounded_lifetime (cc_issued_at c) (cc_expires_at c)"
  by (auto simp: read_claims_from_document_def validators simp del: require_int_range.simps)

lemma action_claims_version:
  "action_claims_from_document d = Inr c \<Longrightarrow>
     map_of d (u ''signing_key_version'') = Some (PInt (ac_signing_key_version c))
     \<and> bounded_lifetime (ac_issued_at c) (ac_expires_at c)"
  by (auto simp: action_claims_from_document_def validators simp del: require_int_range.simps)

text \<open>A text that carries claims, signed for a protocol with a key of the keyring.\<close>

definition signed_for :: "str \<Rightarrow> str \<Rightarrow> TicketSigningKeyring \<Rightarrow> int \<Rightarrow> document \<Rightarrow> str \<Rightarrow> bool" where
  "signed_for dm tt kr version d text \<longleftrightarrow>
     (\<exists>key header body. key_for kr version = Some key \<and> canonical_json (ticket_header dm tt version) = Inr header
        \<and> canonical_json d = Inr body \<and> text = ticket_text key header body)"

lemma verified_is_signed:
  assumes "verify_signed_ticket (PStr t) kr dm tt names = Inr d"
  shows "\<exists>version. signed_for dm tt kr version d t \<and> map_of d (u ''signing_key_version'') = Some (PInt version)"
  using assms by (rule verify_signed_ticket_Inr) (auto simp: signed_for_def)

text \<open>One text is never signed for two protocols of different domains.\<close>

lemma signed_for_one_domain:
  assumes "signed_for dm tt kr version d t" "signed_for dm' tt' kr' version' d' t"
    "list_all unicode_scalar dm" "list_all unicode_scalar tt" "list_all unicode_scalar dm'" "list_all unicode_scalar tt'"
  shows "dm = dm' \<and> tt = tt' \<and> version = version' \<and> canonical_json d = canonical_json d'"
proof -
  let ?h = "ticket_header dm tt version" and ?h' = "ticket_header dm' tt' version'"
  from assms(1,2) have eq: "canonical_json ?h = canonical_json ?h'" "canonical_json d = canonical_json d'"
    unfolding signed_for_def by (auto dest: ticket_text_inject)
  have "sort_key fst ?h = sort_key fst ?h'"
    by (rule canonical_json_inject [OF _ _ _ _ _ _ eq(1)])
      (use assms(3-6) ticket_header_keys(2) in \<open>simp_all add: plain_header ticket_header_keys(1), simp_all add: ticket_header_def\<close>)
  then have "set ?h = set ?h'" by (metis set_sort)
  then have "map_of ?h = map_of ?h'"
    using ticket_header_keys by (subst map_of_inject_set) simp_all
  then have "map_of ?h k = map_of ?h' k" for k by simp
  from this [of "u ''dom''"] this [of "u ''typ''"] this [of "u ''kid''"] eq(2) show ?thesis
    by (simp add: ticket_header_def u_def)
qed

section \<open>Issued tickets\<close>

text \<open>The claims an issuer writes for an identity.\<close>

definition issued_read_claims :: "ContextAccessTicketIssuer \<Rightarrow> TicketExecutionIdentity \<Rightarrow> datetime \<Rightarrow> datetime \<Rightarrow> bytes \<Rightarrow> ContextAccessClaims" where
  "issued_read_claims issuer identity ia ex nonce =
     \<lparr>cc_signing_key_version = tk_active_version (ci_keyring issuer),
      cc_organization_id = ti_organization_id identity, cc_subject_user_id = ti_subject_user_id identity,
      cc_subject_membership_id = ti_subject_membership_id identity,
      cc_subject_membership_version = ti_subject_membership_version identity,
      cc_actor_principal_ref = ti_actor_principal_ref identity,
      cc_agent_version_ref = ti_agent_version_ref identity, cc_purpose = ti_purpose identity,
      cc_policy_epoch = ti_policy_epoch identity, cc_provider_ref = ci_provider_ref issuer,
      cc_source_ref = ci_source_ref issuer, cc_audience = CONTEXT_READ_AUDIENCE_PREFIX @ ci_provider_ref issuer,
      cc_issued_at = ia, cc_expires_at = ex, cc_nonce = Exact nonce\<rparr>"

definition scalar_refs :: "TicketExecutionIdentity \<Rightarrow> str \<Rightarrow> bool" where
  "scalar_refs i target \<longleftrightarrow> list_all (list_all unicode_scalar)
     [ti_actor_principal_ref i, ti_agent_version_ref i, ti_purpose i, target]"

lemma issue_context_access_ticket_Inr:
  assumes "issue_context_access_ticket issuer h i rd port now nonce = Inr ticket"
  obtains ia ex b d where "now = PDatetime ia" "is_aware_utc ia" "microsecond ia = 0" "nonce = Exact b"
    "dt_add ia (ci_ttl_seconds issuer * 1000000) = Inr ex" "identifier_text 128 (ci_provider_ref issuer)"
    "require_active_ticket_execution_identity h i = Inr ()" "ti_organization_id i = ci_organization_id issuer"
    "read_claims_document (issued_read_claims issuer i ia ex b) = Inr d"
    "mint_signed_ticket (ci_keyring issuer) READ_DOMAIN READ_TOKEN_TYPE d = Inr (ct_value ticket)"
    "token_text (ct_value ticket)"
proof -
  from assms obtain ia ex d t where *: "require_active_ticket_execution_identity h i = Inr ()"
    "ti_organization_id i = ci_organization_id issuer"
    "now = PDatetime ia" "is_aware_utc ia" "microsecond ia = 0"
    "dt_add ia (ci_ttl_seconds issuer * 1000000) = Inr ex" "identifier_text 128 (ci_provider_ref issuer)"
    and d: "read_claims_document
            \<lparr>cc_signing_key_version = tk_active_version (ci_keyring issuer),
             cc_organization_id = ti_organization_id i, cc_subject_user_id = ti_subject_user_id i,
             cc_subject_membership_id = ti_subject_membership_id i,
             cc_subject_membership_version = ti_subject_membership_version i,
             cc_actor_principal_ref = ti_actor_principal_ref i,
             cc_agent_version_ref = ti_agent_version_ref i, cc_purpose = ti_purpose i,
             cc_policy_epoch = ti_policy_epoch i, cc_provider_ref = ci_provider_ref issuer,
             cc_source_ref = ci_source_ref issuer, cc_audience = CONTEXT_READ_AUDIENCE_PREFIX @ ci_provider_ref issuer,
             cc_issued_at = ia, cc_expires_at = ex, cc_nonce = nonce\<rparr> = Inr d"
    and t: "mint_signed_ticket (ci_keyring issuer) READ_DOMAIN READ_TOKEN_TYPE d = Inr t" "token_text t" "ticket = \<lparr>ct_value = t\<rparr>"
    by (auto simp: issue_context_access_ticket_def construct_context_access_ticket_def read_audience_eq
        require_whole_second_utc_eq require_opaque_ticket_value_eq split: if_splits)
  from d obtain b where "nonce = Exact b" by (auto simp: read_claims_document_def nonce_document_eq)
  with * d t that show thesis by (auto simp: issued_read_claims_def)
qed

lemma issued_read_claims_ok:
  assumes "require_active_ticket_execution_identity h i = Inr ()" "scalar_refs i (ci_provider_ref issuer)"
    "identifier_text 128 (ci_provider_ref issuer)" "writable_times ia ex"
    "1 \<le> tk_active_version (ci_keyring issuer)" "tk_active_version (ci_keyring issuer) \<le> max_signed64"
  shows "read_claims_ok (issued_read_claims issuer i ia ex b)"
proof -
  have "writable_ref 256 (CONTEXT_READ_AUDIENCE_PREFIX @ ci_provider_ref issuer)"
    using prefixed_audience [OF assms(3) audience_prefixes(1-3)] assms(2)
    by (simp add: writable_ref_def scalar_refs_def CONTEXT_READ_AUDIENCE_PREFIX_def)
  with assms show ?thesis
    by (simp add: read_claims_ok_def issued_read_claims_def writable_ref_def writable_version_def scalar_refs_def
        require_active_ticket_execution_identity_eq)
qed

text \<open>The verification that accepts the current document shape is the one that answers.\<close>

lemma verify_context_access_ticket_current:
  "verify_signed_ticket v kr READ_DOMAIN READ_TOKEN_TYPE READ_CLAIM_FIELDS = Inr d \<Longrightarrow>
     verify_context_access_ticket v kr = Inr d"
  by (simp add: verify_context_access_ticket_def)

lemma issued_read_ticket_verifies:
  assumes issue: "issue_context_access_ticket issuer h i rd port (PDatetime ia) nonce = Inr ticket"
    and "valid_datetime ia" "1 \<le> ci_ttl_seconds issuer" "ci_ttl_seconds issuer \<le> MAX_TTL_SECONDS"
    and key: "1 \<le> tk_active_version (ci_keyring issuer)" "tk_active_version (ci_keyring issuer) \<le> max_signed64"
    and refs: "scalar_refs i (ci_provider_ref issuer)"
  shows "\<exists>d ex b. verify_context_access_ticket (PStr (ct_value ticket)) (ci_keyring issuer) = Inr d
    \<and> read_claims_from_document d = Inr (issued_read_claims issuer i ia ex b)
    \<and> dt_add ia (ci_ttl_seconds issuer * 1000000) = Inr ex"
proof -
  from issue obtain ex b d where t: "is_aware_utc ia" "microsecond ia = 0"
    "dt_add ia (ci_ttl_seconds issuer * 1000000) = Inr ex" "identifier_text 128 (ci_provider_ref issuer)"
    "require_active_ticket_execution_identity h i = Inr ()"
    and d: "read_claims_document (issued_read_claims issuer i ia ex b) = Inr d"
    and m: "mint_signed_ticket (ci_keyring issuer) READ_DOMAIN READ_TOKEN_TYPE d = Inr (ct_value ticket)"
      "token_text (ct_value ticket)"
    by (rule issue_context_access_ticket_Inr) simp
  have "writable_times ia ex" using assms t by (intro issued_times_writable)
  then have ok: "read_claims_ok (issued_read_claims issuer i ia ex b)"
    by (rule issued_read_claims_ok [OF t(5) refs t(4) _ key])
  have "cc_signing_key_version (issued_read_claims issuer i ia ex b) = tk_active_version (ci_keyring issuer)"
    by (simp add: issued_read_claims_def)
  from read_protocol.minted_reads_back [OF d ok this key m] t(3) show ?thesis
    by (auto dest: verify_context_access_ticket_current)
qed

text \<open>A ticket for printable references fits the bound on tokens.\<close>

lemma header_size:
  assumes "canonical_json (ticket_header dm tt version) = Inr header" "list_all printable dm" "list_all printable tt"
    "length dm \<le> 64" "length tt \<le> 64" "1 \<le> version" "version \<le> max_signed64"
  shows "length header \<le> 400"
proof -
  have "json_member_size (u ''kid'', PInt version) \<le> 25" "json_member_size (u ''v'', PInt 1) \<le> 23"
    using json_member_size_int [of "u ''kid''" version] json_member_size_int [of "u ''v''" 1] assms(6,7)
    by (simp_all add: u_def printable_def max_signed64_def)
  with assms show ?thesis
    by (simp add: length_canonical_json ticket_header_def json_member_size_str u_def printable_def)
qed

definition printable_refs :: "TicketExecutionIdentity \<Rightarrow> str \<Rightarrow> bool" where
  "printable_refs i target \<longleftrightarrow> list_all (list_all printable)
     [ti_actor_principal_ref i, ti_agent_version_ref i, ti_purpose i, target]"

lemma printable_refs_scalar: "printable_refs i target \<Longrightarrow> scalar_refs i target"
  by (simp add: printable_refs_def scalar_refs_def printable_scalar)

lemma issued_read_claims_size:
  assumes "read_claims_document (issued_read_claims issuer i ia ex b) = Inr d" "canonical_json d = Inr body"
    "printable_refs i (ci_provider_ref issuer)" "length b = 32"
    "read_claims_ok (issued_read_claims issuer i ia ex b)"
  shows "length body \<le> 5000"
proof -
  let ?c = "issued_read_claims issuer i ia ex b"
  note sizes = json_member_size_str json_member_size_none printable_codecs length_uuid_str length_timestamp
    length_base64url printable_def u_def
  have ints: "json_member_size (u ''policy_epoch'', PInt (ti_policy_epoch i)) \<le> 34"
    "json_member_size (u ''signing_key_version'', PInt (tk_active_version (ci_keyring issuer))) \<le> 41"
    "json_member_size (u ''subject_membership_version'', PInt (ti_subject_membership_version i)) \<le> 48"
    using assms(5) json_member_size_int [of "u ''policy_epoch''" "ti_policy_epoch i"]
      json_member_size_int [of "u ''signing_key_version''" "tk_active_version (ci_keyring issuer)"]
      json_member_size_int [of "u ''subject_membership_version''" "ti_subject_membership_version i"]
    by (simp_all add: read_claims_ok_def writable_version_def issued_read_claims_def u_def printable_def)
  have src: "json_member_size (u ''source_ref'', case ci_source_ref issuer of None \<Rightarrow> PNone | Some s \<Rightarrow> PStr (uuid_str s)) \<le> 51"
    by (simp add: sizes split: option.split)
  have refs: "length (ti_actor_principal_ref i) \<le> 256" "length (ti_agent_version_ref i) \<le> 256"
    "length (ti_purpose i) \<le> 256" "length (ci_provider_ref issuer) \<le> 128"
    using assms(5) by (simp_all add: read_claims_ok_def issued_read_claims_def writable_ref_def identifier_text_def)
  from assms(1,4) have "d \<noteq> []" by (auto simp: read_claims_document_def)
  with length_canonical_json [OF assms(2) this] assms(1,3,4) ints src refs show ?thesis
    by (auto simp: read_claims_document_def issued_read_claims_def nonce_document_eq printable_refs_def sizes
        CONTEXT_ACCESS_OPERATION_def CONTEXT_READ_AUDIENCE_PREFIX_def)
qed

lemma TicketIssuer_init_eq:
  assumes "ContextAccessTicketIssuer_init (Exact kr) org prov src ttl = Inr issuer"
  shows "ci_keyring issuer = kr" "identifier_text 128 (ci_provider_ref issuer)" "1 \<le> ci_ttl_seconds issuer"
    "ci_ttl_seconds issuer \<le> MAX_TTL_SECONDS"
  using assms by (auto simp: ContextAccessTicketIssuer_init_def validators simp del: require_int_range.simps)

lemma handler_of_issuer:
  assumes "ContextAccessTicketIssuer_init (Exact kr) org prov src ttl = Inr issuer"
    "ContextAccessTicketReadHandler_init (Exact kr) org prov src True = Inr handler"
  shows "rh_keyring handler = kr" "rh_organization_id handler = ci_organization_id issuer"
    "rh_provider_ref handler = ci_provider_ref issuer" "rh_source_ref handler = ci_source_ref issuer"
  using assms
  by (auto simp: ContextAccessTicketIssuer_init_def ContextAccessTicketReadHandler_init_def simp del: require_int_range.simps)

lemma printable_literals:
  "list_all printable READ_DOMAIN" "list_all printable READ_TOKEN_TYPE" "length READ_DOMAIN \<le> 64" "length READ_TOKEN_TYPE \<le> 64"
  "list_all printable ACTION_DOMAIN" "list_all printable ACTION_TOKEN_TYPE" "length ACTION_DOMAIN \<le> 64" "length ACTION_TOKEN_TYPE \<le> 64"
  by (simp_all add: READ_DOMAIN_def READ_TOKEN_TYPE_def ACTION_DOMAIN_def ACTION_TOKEN_TYPE_def u_def printable_def)

text \<open>For printable references nothing after the gates refuses.\<close>

lemma read_ticket_issued:
  assumes kr: "\<exists>key. key_for (ci_keyring issuer) (tk_active_version (ci_keyring issuer)) = Some key"
    "1 \<le> tk_active_version (ci_keyring issuer)" "tk_active_version (ci_keyring issuer) \<le> max_signed64"
    and prov: "identifier_text 128 (ci_provider_ref issuer)"
    and ttl: "1 \<le> ci_ttl_seconds issuer" "ci_ttl_seconds issuer \<le> MAX_TTL_SECONDS"
    and id: "require_active_ticket_execution_identity h i = Inr ()" "ti_organization_id i = ci_organization_id issuer"
    and gate: "source_gate TicketNotAvailable h i rd port (ci_source_ref issuer) = Inr ()"
    and ia: "valid_datetime ia" "is_aware_utc ia" "microsecond ia = 0"
    and ex: "dt_add ia (ci_ttl_seconds issuer * 1000000) = Inr ex"
    and b: "length b = 32" and refs: "printable_refs i (ci_provider_ref issuer)"
  shows "\<exists>ticket. issue_context_access_ticket issuer h i rd port (PDatetime ia) (Exact b) = Inr ticket"
proof -
  let ?c = "issued_read_claims issuer i ia ex b"
  have ok: "read_claims_ok ?c"
    using issued_read_claims_ok [OF id(1) printable_refs_scalar [OF refs] prov _ kr(2,3)]
      issued_times_writable [OF ex ia ttl] by blast
  obtain d where d: "read_claims_document ?c = Inr d"
    using b by (simp add: read_claims_document_def nonce_document_def require_nonce.simps issued_read_claims_def)
  obtain body where body: "canonical_json d = Inr body"
    using canonical_json_plain read_protocol.written [OF d ok] by blast
  obtain header where header: "canonical_json (ticket_header READ_DOMAIN READ_TOKEN_TYPE (tk_active_version (ci_keyring issuer))) = Inr header"
    using canonical_json_plain plain_header_literal unfolding READ_DOMAIN_def READ_TOKEN_TYPE_def by blast
  obtain key where key: "key_for (ci_keyring issuer) (tk_active_version (ci_keyring issuer)) = Some key" using kr(1) by blast
  have "token_text (ticket_text key header body)"
    using header_size [OF header printable_literals(1-4) kr(2,3)] issued_read_claims_size [OF d body refs b ok]
    by (rule token_text_bounded)
  moreover have "mint_signed_ticket (ci_keyring issuer) READ_DOMAIN READ_TOKEN_TYPE d = Inr (ticket_text key header body)"
    by (simp add: mint_signed_ticket_def key header body)
  ultimately show ?thesis
    using d id gate ia ex prov
    by (simp add: issue_context_access_ticket_def as_gate_not_available_def read_audience_eq
        require_whole_second_utc.simps issued_read_claims_def construct_context_access_ticket_def
        read_audience_def require_identifier.simps require_opaque_ticket_value.simps)
qed

text \<open>A ticket that was issued passes the checks of a handler of the same configuration until it expires.\<close>

lemma issued_read_ticket_accepted:
  assumes kr: "TicketSigningKeyring_init active keys = Inr kr"
    and issuer: "ContextAccessTicketIssuer_init (Exact kr) org prov src ttl = Inr issuer"
    and handler: "ContextAccessTicketReadHandler_init (Exact kr) org prov src True = Inr handler"
    and ticket: "issue_context_access_ticket issuer h i rd port (PDatetime ia) nonce = Inr ticket" "valid_datetime ia"
    and ex: "dt_add ia (ci_ttl_seconds issuer * 1000000) = Inr ex" and refs: "scalar_refs i (ci_provider_ref issuer)"
    and later: "require_active_ticket_execution_identity h' i = Inr ()"
      "source_gate ValueError h' i rd' port' (ci_source_ref issuer) = Inr ()"
      "is_aware_utc t" "microsecond t = 0" "dt_le ia t" "dt_less t ex"
  shows "check_read_ticket handler h' (ct_value ticket) i rd' port' (PDatetime t) = Inr ()"
proof -
  note iss = TicketIssuer_init_eq [OF issuer] and hd = handler_of_issuer [OF issuer handler]
  note key = keyring_active_key(2,3) [OF kr]
  from issued_read_ticket_verifies [OF ticket iss(3,4) _ _ refs] key iss(1) ex obtain d c where
    d: "verify_context_access_ticket (PStr (ct_value ticket)) kr = Inr d"
      "read_claims_from_document d = Inr (issued_read_claims issuer i ia ex c)" by auto
  from ticket(1) have org: "ti_organization_id i = ci_organization_id issuer"
    by (rule issue_context_access_ticket_Inr)
  have "read_audience (rh_provider_ref handler) = Inr (CONTEXT_READ_AUDIENCE_PREFIX @ rh_provider_ref handler)"
    using iss(2) hd(3) by (simp add: read_audience_eq)
  moreover have "read_claims_match handler i t (CONTEXT_READ_AUDIENCE_PREFIX @ rh_provider_ref handler) (issued_read_claims issuer i ia ex c)"
    using later(5,6) org hd by (simp add: read_claims_match_def issued_read_claims_def dt_le_def dt_less_def)
  ultimately show ?thesis
    using later(1-4) d hd by (simp add: check_read_ticket_def require_whole_second_utc.simps)
qed

lemma accepted_read:
  "check_read_ticket handler h (ct_value ticket) i rd port now = Inr () \<Longrightarrow>
     read_with_ticket handler h (Exact ticket) i rd port now provider_read
       = ([(ti_organization_id i, rh_provider_ref handler)],
          bnd (provider_read (ti_organization_id i) (rh_provider_ref handler)) (\<lambda>_. Inr SyntheticReadReceipt))"
  by (simp add: read_with_ticket_def as_gate_not_available_def)

section \<open>Issued action tickets\<close>

definition issued_action_claims :: "ActionTicketIssuer \<Rightarrow> TicketExecutionIdentity \<Rightarrow> datetime \<Rightarrow> datetime \<Rightarrow> bytes \<Rightarrow> ActionClaims" where
  "issued_action_claims issuer identity ia ex nonce =
     \<lparr>ac_signing_key_version = tk_active_version (ai_keyring issuer),
      ac_organization_id = ti_organization_id identity, ac_subject_user_id = ti_subject_user_id identity,
      ac_subject_membership_id = ti_subject_membership_id identity,
      ac_subject_membership_version = ti_subject_membership_version identity,
      ac_actor_principal_ref = ti_actor_principal_ref identity,
      ac_agent_version_ref = ti_agent_version_ref identity, ac_purpose = ti_purpose identity,
      ac_policy_epoch = ti_policy_epoch identity, ac_channel_ref = ai_channel_ref issuer,
      ac_audience = ACTION_AUDIENCE_PREFIX @ ai_channel_ref issuer,
      ac_issued_at = ia, ac_expires_at = ex, ac_nonce = Exact nonce\<rparr>"

lemma issued_action_claims_ok:
  assumes "require_active_ticket_execution_identity h i = Inr ()" "scalar_refs i (ai_channel_ref issuer)"
    "identifier_text 128 (ai_channel_ref issuer)" "writable_times ia ex"
    "1 \<le> tk_active_version (ai_keyring issuer)" "tk_active_version (ai_keyring issuer) \<le> max_signed64"
  shows "action_claims_ok (issued_action_claims issuer i ia ex b)"
proof -
  have "writable_ref 256 (ACTION_AUDIENCE_PREFIX @ ai_channel_ref issuer)"
    using prefixed_audience [OF assms(3) audience_prefixes(4-6)] assms(2)
    by (simp add: writable_ref_def scalar_refs_def ACTION_AUDIENCE_PREFIX_def)
  with assms show ?thesis
    by (simp add: action_claims_ok_def issued_action_claims_def writable_ref_def writable_version_def scalar_refs_def
        require_active_ticket_execution_identity_eq)
qed

lemma issued_action_claims_size:
  assumes "action_claims_document (issued_action_claims issuer i ia ex b) = Inr d" "canonical_json d = Inr body"
    "printable_refs i (ai_channel_ref issuer)" "length b = 32"
    "action_claims_ok (issued_action_claims issuer i ia ex b)"
  shows "length body \<le> 5000"
proof -
  note sizes = json_member_size_str json_member_size_none printable_codecs length_uuid_str length_timestamp
    length_base64url printable_def u_def
  have ints: "json_member_size (u ''policy_epoch'', PInt (ti_policy_epoch i)) \<le> 34"
    "json_member_size (u ''signing_key_version'', PInt (tk_active_version (ai_keyring issuer))) \<le> 41"
    "json_member_size (u ''subject_membership_version'', PInt (ti_subject_membership_version i)) \<le> 48"
    using assms(5) json_member_size_int [of "u ''policy_epoch''" "ti_policy_epoch i"]
      json_member_size_int [of "u ''signing_key_version''" "tk_active_version (ai_keyring issuer)"]
      json_member_size_int [of "u ''subject_membership_version''" "ti_subject_membership_version i"]
    by (simp_all add: action_claims_ok_def writable_version_def issued_action_claims_def u_def printable_def)
  have refs: "length (ti_actor_principal_ref i) \<le> 256" "length (ti_agent_version_ref i) \<le> 256"
    "length (ti_purpose i) \<le> 256" "length (ai_channel_ref issuer) \<le> 128"
    using assms(5) by (simp_all add: action_claims_ok_def issued_action_claims_def writable_ref_def identifier_text_def)
  from assms(1,4) have "d \<noteq> []" by (auto simp: action_claims_document_def)
  with length_canonical_json [OF assms(2) this] assms(1,3,4) ints refs show ?thesis
    by (auto simp: action_claims_document_def issued_action_claims_def nonce_document_eq printable_refs_def sizes
        ACTION_TICKET_OPERATION_def ACTION_AUDIENCE_PREFIX_def)
qed

lemma action_handler_of_issuer:
  assumes "ActionTicketIssuer_init (Exact kr) org ch ttl = Inr issuer"
    "ActionTicketNoopHandler_init (Exact kr) org ch True = Inr handler"
  shows "ai_keyring issuer = kr" "ah_keyring handler = kr" "ah_organization_id handler = ai_organization_id issuer"
    "ah_channel_ref handler = ai_channel_ref issuer" "identifier_text 128 (ai_channel_ref issuer)"
    "1 \<le> ai_ttl_seconds issuer" "ai_ttl_seconds issuer \<le> MAX_TTL_SECONDS"
  using assms by (auto simp: ActionTicketIssuer_init_def ActionTicketNoopHandler_init_def validators
      simp del: require_int_range.simps)

text \<open>For printable references an action ticket is issued and reads back as the claims of the issuer.\<close>

lemma action_ticket_issued:
  assumes kr: "TicketSigningKeyring_init active keys = Inr (ai_keyring issuer)"
    and ch: "identifier_text 128 (ai_channel_ref issuer)"
    and ttl: "1 \<le> ai_ttl_seconds issuer" "ai_ttl_seconds issuer \<le> MAX_TTL_SECONDS"
    and id: "require_active_ticket_execution_identity h i = Inr ()" "ti_organization_id i = ai_organization_id issuer"
    and ia: "valid_datetime ia" "is_aware_utc ia" "microsecond ia = 0"
    and ex: "dt_add ia (ai_ttl_seconds issuer * 1000000) = Inr ex"
    and b: "length b = 32" and refs: "printable_refs i (ai_channel_ref issuer)"
  shows "\<exists>ticket. issue_action_ticket issuer h i (PDatetime ia) (Exact b) = Inr ticket \<and> token_text (at_value ticket)
    \<and> bnd (verify_action_ticket (PStr (at_value ticket)) (ai_keyring issuer)) action_claims_from_document
        = Inr (issued_action_claims issuer i ia ex b)"
proof -
  let ?c = "issued_action_claims issuer i ia ex b" and ?v = "tk_active_version (ai_keyring issuer)"
  note key = keyring_active_key [OF kr]
  have ok: "action_claims_ok ?c"
    using issued_action_claims_ok [OF id(1) printable_refs_scalar [OF refs] ch _ key(2,3)]
      issued_times_writable [OF ex ia ttl] by blast
  obtain d where d: "action_claims_document ?c = Inr d"
    using b by (simp add: action_claims_document_def nonce_document_def require_nonce.simps issued_action_claims_def)
  obtain body where body: "canonical_json d = Inr body"
    using canonical_json_plain action_protocol.written [OF d ok] by blast
  obtain header where header: "canonical_json (ticket_header ACTION_DOMAIN ACTION_TOKEN_TYPE ?v) = Inr header"
    using canonical_json_plain plain_header_literal unfolding ACTION_DOMAIN_def ACTION_TOKEN_TYPE_def by blast
  obtain key' where key': "key_for (ai_keyring issuer) ?v = Some key'" using key(1) by blast
  have opaque: "token_text (ticket_text key' header body)"
    using header_size [OF header printable_literals(5-8) key(2,3)] issued_action_claims_size [OF d body refs b ok]
    by (rule token_text_bounded)
  have mint: "mint_signed_ticket (ai_keyring issuer) ACTION_DOMAIN ACTION_TOKEN_TYPE d = Inr (ticket_text key' header body)"
    by (simp add: mint_signed_ticket_def key' header body)
  have "issue_action_ticket issuer h i (PDatetime ia) (Exact b) = Inr \<lparr>at_value = ticket_text key' header body\<rparr>"
    using d id ia ex ch mint opaque
    by (simp add: issue_action_ticket_def require_whole_second_utc.simps issued_action_claims_def
        construct_action_ticket_def action_audience_def require_identifier.simps require_opaque_ticket_value.simps)
  moreover have "bnd (verify_action_ticket (PStr (ticket_text key' header body)) (ai_keyring issuer)) action_claims_from_document = Inr ?c"
    unfolding verify_action_ticket_def
    by (rule action_protocol.minted_reads_back [OF d ok _ key(2,3) mint opaque]) (simp add: issued_action_claims_def)
  ultimately show ?thesis using opaque by (intro exI) auto
qed

text \<open>Claims of the issuer pass the checks of a handler of the same configuration until they expire.\<close>

lemma accepted_action:
  assumes hd: "ai_keyring issuer = kr" "ah_keyring handler = kr" "ah_organization_id handler = ai_organization_id issuer"
    "ah_channel_ref handler = ai_channel_ref issuer" "identifier_text 128 (ai_channel_ref issuer)"
    "1 \<le> ai_ttl_seconds issuer" "ai_ttl_seconds issuer \<le> MAX_TTL_SECONDS"
    and d: "verify_action_ticket (PStr (at_value ticket)) kr = Inr d"
      "action_claims_from_document d = Inr (issued_action_claims issuer i ia ex b)"
    and org: "ti_organization_id i = ai_organization_id issuer"
    and later: "require_active_ticket_execution_identity h' i = Inr ()"
      "epoch_gate_is_current h' (snd (ti_policy_epoch_verification i)) rd' = Inr True"
      "is_aware_utc t" "microsecond t = 0" "dt_le ia t" "dt_less t ex"
  shows "perform_with_ticket handler h' (Exact ticket) i rd' (PDatetime t) perform_noop
    = ([(ti_organization_id i, ah_channel_ref handler)],
       bnd (perform_noop (ti_organization_id i) (ah_channel_ref handler)) (\<lambda>_. Inr SyntheticActionReceipt))"
proof -
  have "action_audience (ah_channel_ref handler) = Inr (ACTION_AUDIENCE_PREFIX @ ah_channel_ref handler)"
    using hd(4,5) by (simp add: action_audience_eq)
  moreover have "action_claims_match handler i t (ACTION_AUDIENCE_PREFIX @ ah_channel_ref handler) (issued_action_claims issuer i ia ex b)"
    using later(5,6) org hd by (simp add: action_claims_match_def issued_action_claims_def dt_le_def dt_less_def)
  ultimately have "check_action_ticket handler h' (at_value ticket) i rd' (PDatetime t) = Inr ()"
    using later(1-4) d hd by (simp add: check_action_ticket_def require_whole_second_utc.simps)
  then show ?thesis by (simp add: perform_with_ticket_def as_gate_not_available_def)
qed

section \<open>Properties\<close>

text \<open>
  C15. A read is authorized by its ticket: whenever the handler calls its Provider, it calls it
  once, for the configured Organization and Provider; the identity is a validated invocation and
  delivery; the presented text is byte for byte the canonical signed text, in the read domain and
  under a key of the keyring, of claims that name exactly this identity, Provider, source and
  audience, live at most five minutes and are alive now; and the policy epoch was confirmed and
  the source found active at this call.
\<close>

theorem read_effect_is_ticketed:
  assumes "read_with_ticket handler h ticket identity rd port now provider_read = (calls, r)" "calls \<noteq> []"
  shows "calls = [(rh_organization_id handler, rh_provider_ref handler)]
    \<and> validate_trusted_invocation_and_delivery h (ti_authenticated_invocation identity)
        (ti_trusted_delivery_context identity) = Inr ()
    \<and> (\<exists>t d claims checked_at. ticket = Exact t \<and> now = PDatetime checked_at
         \<and> read_claims_from_document d = Inr claims
         \<and> signed_for READ_DOMAIN READ_TOKEN_TYPE (rh_keyring handler) (cc_signing_key_version claims) d (ct_value t)
         \<and> cc_organization_id claims = ti_organization_id identity
         \<and> cc_organization_id claims = rh_organization_id handler
         \<and> cc_subject_user_id claims = ti_subject_user_id identity
         \<and> cc_subject_membership_id claims = ti_subject_membership_id identity
         \<and> cc_subject_membership_version claims = ti_subject_membership_version identity
         \<and> cc_actor_principal_ref claims = ti_actor_principal_ref identity
         \<and> cc_agent_version_ref claims = ti_agent_version_ref identity
         \<and> cc_purpose claims = ti_purpose identity \<and> cc_policy_epoch claims = ti_policy_epoch identity
         \<and> cc_provider_ref claims = rh_provider_ref handler
         \<and> cc_source_ref claims = rh_source_ref handler
         \<and> cc_audience claims = CONTEXT_READ_AUDIENCE_PREFIX @ rh_provider_ref handler
         \<and> \<not> dt_less checked_at (cc_issued_at claims) \<and> dt_less checked_at (cc_expires_at claims)
         \<and> dt_diff (cc_expires_at claims) (cc_issued_at claims) \<le> 300 * 1000000)
    \<and> rd (pv_organization_id (snd (ti_policy_epoch_verification identity)))
        = Inr (PInt (pv_policy_epoch (snd (ti_policy_epoch_verification identity))))
    \<and> (\<forall>src. rh_source_ref handler = Some src \<longrightarrow> port_source_is_active port src = Inr (PBool True))"
proof -
  from assms obtain t where t: "ticket = Exact t" "calls = [(ti_organization_id identity, rh_provider_ref handler)]"
    "check_read_ticket handler h (ct_value t) identity rd port now = Inr ()"
    by (auto simp: read_with_ticket_def split: foreign.splits sum.splits)
  from t(3) obtain checked_at d claims where
    v: "validate_trusted_invocation_and_delivery h (ti_authenticated_invocation identity)
      (ti_trusted_delivery_context identity) = Inr ()" "now = PDatetime checked_at"
    "verify_context_access_ticket (PStr (ct_value t)) (rh_keyring handler) = Inr d" "read_claims_from_document d = Inr claims"
    "read_claims_match handler identity checked_at (CONTEXT_READ_AUDIENCE_PREFIX @ rh_provider_ref handler) claims"
    "source_gate ValueError h identity rd port (rh_source_ref handler) = Inr ()"
    by (auto simp: check_read_ticket_def validators)
  from v(3) obtain names where "verify_signed_ticket (PStr (ct_value t)) (rh_keyring handler) READ_DOMAIN READ_TOKEN_TYPE names = Inr d"
    by (rule verify_context_access_ticket_Inr)
  from verified_is_signed [OF this] read_claims_version [OF v(4)]
  have "signed_for READ_DOMAIN READ_TOKEN_TYPE (rh_keyring handler) (cc_signing_key_version claims) d (ct_value t)" by auto
  moreover have "ti_organization_id identity = rh_organization_id handler" using v(5) unfolding read_claims_match_def by metis
  ultimately show ?thesis
    using t(1,2) v(1,2,4,5) source_gate_Inr [OF v(6)] read_claims_version [OF v(4)]
    unfolding read_claims_match_def bounded_lifetime_def by (auto simp: MAX_TTL_SECONDS_def)
qed

text \<open>
  An action is authorized by its ticket: whenever the handler calls its channel, it calls it
  once, for the configured Organization and channel, and the presented text is the canonical signed
  text, in the action domain and under a key of the keyring, of claims that name exactly this
  identity, channel and audience and are alive now, with the policy epoch confirmed at this call.
\<close>

theorem action_effect_is_ticketed:
  assumes "perform_with_ticket handler h ticket identity rd now perform_noop = (calls, r)" "calls \<noteq> []"
  shows "calls = [(ah_organization_id handler, ah_channel_ref handler)]
    \<and> validate_trusted_invocation_and_delivery h (ti_authenticated_invocation identity)
        (ti_trusted_delivery_context identity) = Inr ()
    \<and> (\<exists>t d claims checked_at. ticket = Exact t \<and> now = PDatetime checked_at
         \<and> action_claims_from_document d = Inr claims
         \<and> signed_for ACTION_DOMAIN ACTION_TOKEN_TYPE (ah_keyring handler) (ac_signing_key_version claims) d (at_value t)
         \<and> ac_organization_id claims = ti_organization_id identity
         \<and> ac_organization_id claims = ah_organization_id handler
         \<and> ac_subject_user_id claims = ti_subject_user_id identity
         \<and> ac_subject_membership_id claims = ti_subject_membership_id identity
         \<and> ac_subject_membership_version claims = ti_subject_membership_version identity
         \<and> ac_actor_principal_ref claims = ti_actor_principal_ref identity
         \<and> ac_agent_version_ref claims = ti_agent_version_ref identity
         \<and> ac_purpose claims = ti_purpose identity \<and> ac_policy_epoch claims = ti_policy_epoch identity
         \<and> ac_channel_ref claims = ah_channel_ref handler
         \<and> ac_audience claims = ACTION_AUDIENCE_PREFIX @ ah_channel_ref handler
         \<and> \<not> dt_less checked_at (ac_issued_at claims) \<and> dt_less checked_at (ac_expires_at claims)
         \<and> dt_diff (ac_expires_at claims) (ac_issued_at claims) \<le> 300 * 1000000)
    \<and> rd (pv_organization_id (snd (ti_policy_epoch_verification identity)))
        = Inr (PInt (pv_policy_epoch (snd (ti_policy_epoch_verification identity))))"
proof -
  from assms obtain t where t: "ticket = Exact t" "calls = [(ti_organization_id identity, ah_channel_ref handler)]"
    "check_action_ticket handler h (at_value t) identity rd now = Inr ()"
    by (auto simp: perform_with_ticket_def split: foreign.splits sum.splits)
  from t(3) obtain checked_at d claims where
    v: "validate_trusted_invocation_and_delivery h (ti_authenticated_invocation identity)
      (ti_trusted_delivery_context identity) = Inr ()" "now = PDatetime checked_at"
    "verify_action_ticket (PStr (at_value t)) (ah_keyring handler) = Inr d" "action_claims_from_document d = Inr claims"
    "action_claims_match handler identity checked_at (ACTION_AUDIENCE_PREFIX @ ah_channel_ref handler) claims"
    "epoch_gate_is_current h (snd (ti_policy_epoch_verification identity)) rd = Inr True"
    by (auto simp: check_action_ticket_def validators)
  from verified_is_signed [OF v(3) [unfolded verify_action_ticket_def]] action_claims_version [OF v(4)]
  have "signed_for ACTION_DOMAIN ACTION_TOKEN_TYPE (ah_keyring handler) (ac_signing_key_version claims) d (at_value t)" by auto
  moreover have "ti_organization_id identity = ah_organization_id handler" using v(5) unfolding action_claims_match_def by metis
  ultimately show ?thesis
    using t(1,2) v(1,2,4,5) epoch_gate_answer [OF v(6)] action_claims_version [OF v(4)]
    unfolding action_claims_match_def bounded_lifetime_def by (auto simp: MAX_TTL_SECONDS_def)
qed

text \<open>
  C16. The two protocols are separate: no text verifies both as a read ticket and as an action
  ticket, whatever the keyrings, even when they hold the same keys.
\<close>

theorem ticket_domains_are_disjoint:
  "\<not> (returns (verify_context_access_ticket (PStr t) kr) \<and> returns (verify_action_ticket (PStr t) kr'))"
proof
  assume "returns (verify_context_access_ticket (PStr t) kr) \<and> returns (verify_action_ticket (PStr t) kr')"
  then obtain d d' where "verify_context_access_ticket (PStr t) kr = Inr d" and a: "verify_action_ticket (PStr t) kr' = Inr d'"
    by (auto simp: returns_def)
  then obtain names where "verify_signed_ticket (PStr t) kr READ_DOMAIN READ_TOKEN_TYPE names = Inr d"
    by (blast elim: verify_context_access_ticket_Inr)
  with a obtain v v' where "signed_for READ_DOMAIN READ_TOKEN_TYPE kr v d t" "signed_for ACTION_DOMAIN ACTION_TOKEN_TYPE kr' v' d' t"
    unfolding verify_action_ticket_def by (blast dest: verified_is_signed)
  from signed_for_one_domain [OF this] have "READ_DOMAIN = ACTION_DOMAIN"
    by (simp add: READ_DOMAIN_def READ_TOKEN_TYPE_def ACTION_DOMAIN_def ACTION_TOKEN_TYPE_def)
  then show False by (simp add: READ_DOMAIN_def ACTION_DOMAIN_def u_def)
qed

text \<open>
  C17. Issued read tickets are honoured: with a keyring, an issuer and a handler that accepted the
  same configuration, an active identity with printable references, an epoch and source that
  pass, a 32-byte nonce and an expiry that does not leave the calendar, issuing returns a ticket;
  the text of the ticket deserializes to it; and whenever the identity is active, the gates pass
  and the clock is not before the issue and before the expiry, presenting it makes exactly one call
  of the Provider and returns what the Provider's answer gives.
\<close>

theorem issued_read_ticket_is_honoured:
  assumes kr: "TicketSigningKeyring_init active keys = Inr kr"
    and issuer: "ContextAccessTicketIssuer_init (Exact kr) org prov src ttl = Inr issuer"
    and handler: "ContextAccessTicketReadHandler_init (Exact kr) org prov src True = Inr handler"
    and id: "require_active_ticket_execution_identity h i = Inr ()" "ti_organization_id i = ci_organization_id issuer"
    and gate: "source_gate TicketNotAvailable h i rd port (ci_source_ref issuer) = Inr ()"
    and ia: "valid_datetime ia" "is_aware_utc ia" "microsecond ia = 0"
    and ex: "dt_add ia (ci_ttl_seconds issuer * 1000000) = Inr ex"
    and b: "length b = 32" and refs: "printable_refs i (ci_provider_ref issuer)"
  shows "\<exists>ticket. issue_context_access_ticket issuer h i rd port (PDatetime ia) (Exact b) = Inr ticket
    \<and> deserialize_context_access_ticket (PStr (serialize_context_access_ticket ticket)) kr = Inr ticket
    \<and> (\<forall>h' rd' port' t provider_read.
         require_active_ticket_execution_identity h' i = Inr ()
         \<and> source_gate ValueError h' i rd' port' (ci_source_ref issuer) = Inr ()
         \<and> is_aware_utc t \<and> microsecond t = 0 \<and> dt_le ia t \<and> dt_less t ex \<longrightarrow>
         read_with_ticket handler h' (Exact ticket) i rd' port' (PDatetime t) provider_read
           = ([(ci_organization_id issuer, ci_provider_ref issuer)],
              bnd (provider_read (ci_organization_id issuer) (ci_provider_ref issuer)) (\<lambda>_. Inr SyntheticReadReceipt)))"
proof -
  note iss = TicketIssuer_init_eq [OF issuer] and hd = handler_of_issuer [OF issuer handler]
  note key = keyring_active_key [OF kr]
  from iss(1) key id gate ia ex b refs iss obtain ticket where
    ticket: "issue_context_access_ticket issuer h i rd port (PDatetime ia) (Exact b) = Inr ticket"
    using read_ticket_issued [of issuer h i rd port ia ex b] by blast
  note accepted = issued_read_ticket_accepted [OF kr issuer handler ticket ia(1) ex printable_refs_scalar [OF refs]]
  from issued_read_ticket_verifies [OF ticket ia(1) iss(3,4) _ _ printable_refs_scalar [OF refs]] key iss(1)
  have "returns (bnd (verify_context_access_ticket (PStr (ct_value ticket)) kr) read_claims_from_document)"
    by (auto simp: returns_def)
  moreover from ticket have "token_text (ct_value ticket)" by (rule issue_context_access_ticket_Inr)
  ultimately have "deserialize_context_access_ticket (PStr (serialize_context_access_ticket ticket)) kr = Inr ticket"
    by (auto simp: returns_def deserialize_context_access_ticket_def as_not_available_def
        serialize_context_access_ticket_def construct_context_access_ticket_def require_opaque_ticket_value.simps)
  with ticket show ?thesis using accepted_read [OF accepted] hd(3) id(2) by auto
qed

text \<open>
  Issued action tickets are honoured: with a keyring, an issuer and a handler that accepted the
  same configuration and an active identity with printable references, issuing returns a ticket;
  its text deserializes to it; and whenever the identity is active, the policy epoch is confirmed
  and the clock is not before the issue and before the expiry, presenting it makes exactly one call
  of the channel and returns what the channel's answer gives.
\<close>

theorem issued_action_ticket_is_honoured:
  assumes kr: "TicketSigningKeyring_init active keys = Inr kr"
    and issuer: "ActionTicketIssuer_init (Exact kr) org ch ttl = Inr issuer"
    and handler: "ActionTicketNoopHandler_init (Exact kr) org ch True = Inr handler"
    and id: "require_active_ticket_execution_identity h i = Inr ()" "ti_organization_id i = ai_organization_id issuer"
    and ia: "valid_datetime ia" "is_aware_utc ia" "microsecond ia = 0"
    and ex: "dt_add ia (ai_ttl_seconds issuer * 1000000) = Inr ex"
    and b: "length b = 32" and refs: "printable_refs i (ai_channel_ref issuer)"
  shows "\<exists>ticket. issue_action_ticket issuer h i (PDatetime ia) (Exact b) = Inr ticket
    \<and> deserialize_action_ticket (PStr (serialize_action_ticket ticket)) kr = Inr ticket
    \<and> (\<forall>h' rd' t perform_noop.
         require_active_ticket_execution_identity h' i = Inr ()
         \<and> epoch_gate_is_current h' (snd (ti_policy_epoch_verification i)) rd' = Inr True
         \<and> is_aware_utc t \<and> microsecond t = 0 \<and> dt_le ia t \<and> dt_less t ex \<longrightarrow>
         perform_with_ticket handler h' (Exact ticket) i rd' (PDatetime t) perform_noop
           = ([(ai_organization_id issuer, ai_channel_ref issuer)],
              bnd (perform_noop (ai_organization_id issuer) (ai_channel_ref issuer)) (\<lambda>_. Inr SyntheticActionReceipt)))"
proof -
  note hd = action_handler_of_issuer [OF issuer handler]
  from action_ticket_issued [OF kr [folded hd(1)] hd(5-7) id ia ex b refs] obtain ticket d where
    ticket: "issue_action_ticket issuer h i (PDatetime ia) (Exact b) = Inr ticket" "token_text (at_value ticket)"
    and d: "verify_action_ticket (PStr (at_value ticket)) kr = Inr d"
      "action_claims_from_document d = Inr (issued_action_claims issuer i ia ex b)"
    using hd(1) by auto
  have "deserialize_action_ticket (PStr (serialize_action_ticket ticket)) kr = Inr ticket"
    using d ticket(2) by (simp add: deserialize_action_ticket_def as_not_available_def serialize_action_ticket_def
        construct_action_ticket_def require_opaque_ticket_value.simps)
  moreover note accepted_action [OF hd d id(2)]
  ultimately show ?thesis
    using ticket(1) hd(4) id(2) by auto
qed

section \<open>A concrete ticket\<close>

definition example_identity :: TicketExecutionIdentity where
  "example_identity = \<lparr>ti_organization_id = 1, ti_subject_user_id = 2, ti_subject_membership_id = 3,
     ti_subject_membership_version = 1, ti_actor_principal_ref = u ''p'', ti_agent_version_ref = u ''a'',
     ti_purpose = u ''ask'', ti_policy_epoch = 7, ti_policy_epoch_verification = (0, example_call_epoch),
     ti_user_actor = example_actor, ti_authenticated_invocation = example_invocation,
     ti_trusted_delivery_context = example_delivery,
     ti_construction_provenance = Some TRUSTED_INVOCATION_AND_DELIVERY\<rparr>"

definition example_keyring :: TicketSigningKeyring where
  "example_keyring = \<lparr>tk_active_version = 1, tk_keys = [(1, replicate 32 7)]\<rparr>"

definition example_issuer :: ContextAccessTicketIssuer where
  "example_issuer = \<lparr>ci_keyring = example_keyring, ci_organization_id = 1, ci_provider_ref = u ''notes'',
     ci_source_ref = None, ci_ttl_seconds = 60\<rparr>"

definition example_handler :: ContextAccessTicketReadHandler where
  "example_handler = \<lparr>rh_keyring = example_keyring, rh_organization_id = 1, rh_provider_ref = u ''notes'', rh_source_ref = None\<rparr>"

abbreviation example_now :: datetime where
  "example_now \<equiv> ts_checked_at example_snapshot"

abbreviation example_epoch_answer :: "uuid \<Rightarrow> pyval res" where
  "example_epoch_answer \<equiv> \<lambda>_. Inr (PInt 7)"

lemma example_keyring_constructed:
  "TicketSigningKeyring_init (PInt 1) [(PInt 1, Exact (replicate 32 7))] = Inr example_keyring"
  by (simp add: TicketSigningKeyring_init_def example_keyring_def max_signed64_def require_int_range.simps)

lemma example_provider: "require_identifier 128 (PStr (u ''notes'')) = Inr (u ''notes'')"
  by (simp add: require_identifier.simps identifier_text_def str_isspace_def u_def is_space_def)

lemma example_issuer_constructed:
  "ContextAccessTicketIssuer_init (Exact example_keyring) (PUuid 1) (PStr (u ''notes'')) PNone (PInt 60) = Inr example_issuer"
  by (simp add: ContextAccessTicketIssuer_init_def example_issuer_def MAX_TTL_SECONDS_def example_provider optional_file_source_ref_def
      require_int_range.simps)

lemma example_handler_constructed:
  "ContextAccessTicketReadHandler_init (Exact example_keyring) (PUuid 1) (PStr (u ''notes'')) PNone True = Inr example_handler"
  by (simp add: ContextAccessTicketReadHandler_init_def example_handler_def example_provider optional_file_source_ref_def)

lemma example_identity_active: "require_active_ticket_execution_identity example_heap example_identity = Inr ()"
proof -
  have "require_active_user_actor example_heap example_actor = Inr ()"
    by (rule constructed_actor_active [OF example_actor_constructed])
  with example_call_valid show ?thesis
    unfolding require_active_ticket_execution_identity_eq
    by (simp add: example_identity_def identity_matches_actor_def max_signed64_def identifier_text_def u_def
        str_isspace_def is_space_def)
      (simp add: example_actor_def example_invocation_def example_delivery_def u_def)
qed

lemma example_gate: "source_gate e example_heap example_identity example_epoch_answer port None = Inr ()"
proof -
  have "require_active_policy_epoch_verification example_heap example_call_epoch = Inr ()"
    by (simp add: validators example_call_epoch_def example_epoch_def example_epoch_session_def example_token_def
        example_heap_def scope_active_def max_signed64_def)
  moreover have "pv_policy_epoch example_call_epoch = 7" by (simp add: example_call_epoch_def example_epoch_def)
  ultimately show ?thesis
    by (simp add: source_gate_def epoch_gate_is_current_def policy_epoch_is_current_def example_identity_def
        max_signed64_def)
qed

lemma example_times:
  "valid_datetime example_now" "is_aware_utc example_now" "microsecond example_now = 0"
  "\<exists>ex. dt_add example_now (ci_ttl_seconds example_issuer * 1000000) = Inr ex \<and> dt_less example_now ex"
proof -
  show "valid_datetime example_now" "is_aware_utc example_now" "microsecond example_now = 0"
    by (simp_all add: example_snapshot_def valid_datetime_def days_in_month_def is_aware_utc_def)
  have "returns (dt_add example_now 60000000)"
    unfolding returns_def by (simp add: dt_add_def example_snapshot_def Let_def) code_simp
  then obtain ex where ex: "dt_add example_now 60000000 = Inr ex" by (auto simp: returns_def)
  with dt_add_diff [OF ex] show "\<exists>ex. dt_add example_now (ci_ttl_seconds example_issuer * 1000000) = Inr ex \<and> dt_less example_now ex"
    by (simp add: example_issuer_def dt_diff_def dt_less_def)
qed

lemma example_refs: "printable_refs example_identity (ci_provider_ref example_issuer)"
  by (simp add: printable_refs_def example_identity_def example_issuer_def u_def printable_def)

definition example_action_issuer :: ActionTicketIssuer where
  "example_action_issuer = \<lparr>ai_keyring = example_keyring, ai_organization_id = 1, ai_channel_ref = u ''notes'', ai_ttl_seconds = 60\<rparr>"

definition example_action_handler :: ActionTicketNoopHandler where
  "example_action_handler = \<lparr>ah_keyring = example_keyring, ah_organization_id = 1, ah_channel_ref = u ''notes''\<rparr>"

lemma example_action_constructed:
  "ActionTicketIssuer_init (Exact example_keyring) (PUuid 1) (PStr (u ''notes'')) (PInt 60) = Inr example_action_issuer"
  "ActionTicketNoopHandler_init (Exact example_keyring) (PUuid 1) (PStr (u ''notes'')) True = Inr example_action_handler"
  by (simp_all add: ActionTicketIssuer_init_def ActionTicketNoopHandler_init_def example_action_issuer_def
      example_action_handler_def MAX_TTL_SECONDS_def example_provider require_int_range.simps)

lemma example_nonce: "length (replicate 32 0 :: bytes) = 32"
  by simp

lemma example_organizations:
  "ti_organization_id example_identity = ci_organization_id example_issuer"
  "ti_organization_id example_identity = ai_organization_id example_action_issuer"
  "ci_source_ref example_issuer = None"
  by (simp_all add: example_identity_def example_issuer_def example_action_issuer_def)

lemma example_expiry:
  obtains ex where "dt_add example_now (ci_ttl_seconds example_issuer * 1000000) = Inr ex"
    "dt_add example_now (ai_ttl_seconds example_action_issuer * 1000000) = Inr ex" "dt_less example_now ex" "dt_le example_now example_now"
  using example_times(4) by (auto simp: example_issuer_def example_action_issuer_def dt_le_def)

lemma example_refs_action: "printable_refs example_identity (ai_channel_ref example_action_issuer)"
  using example_refs by (simp add: example_issuer_def example_action_issuer_def)

lemma example_epoch_gate:
  "epoch_gate_is_current example_heap (snd (ti_policy_epoch_verification example_identity)) example_epoch_answer = Inr True"
  using example_gate [of ValueError example_port] by (auto simp: source_gate_def split: if_splits)

lemma example_read:
  "\<exists>ticket. read_with_ticket example_handler example_heap (Exact ticket) example_identity example_epoch_answer example_port
     (PDatetime example_now) (\<lambda>_ _. Inr ()) = ([(1, u ''notes'')], Inr SyntheticReadReceipt)"
proof -
  obtain ex where ex: "dt_add example_now (ci_ttl_seconds example_issuer * 1000000) = Inr ex" "dt_less example_now ex"
    "dt_le example_now example_now" by (rule example_expiry)
  have kr: "TicketSigningKeyring_init (PInt 1) [(PInt 1, Exact (replicate 32 7))] = Inr (ci_keyring example_issuer)"
    using example_keyring_constructed by (simp add: example_issuer_def)
  note gate = example_gate [folded example_organizations(3)]
  note iss = TicketIssuer_init_eq(2-4) [OF example_issuer_constructed]
  obtain ticket where "issue_context_access_ticket example_issuer example_heap example_identity example_epoch_answer example_port
      (PDatetime example_now) (Exact (replicate 32 0)) = Inr ticket"
    using read_ticket_issued [OF keyring_active_key [OF kr] iss example_identity_active example_organizations(1)
        gate example_times(1-3) ex(1) example_nonce example_refs] by blast
  from issued_read_ticket_accepted [OF example_keyring_constructed example_issuer_constructed example_handler_constructed
      this example_times(1) ex(1) printable_refs_scalar [OF example_refs] example_identity_active gate example_times(2,3) ex(3,2)]
  show ?thesis
    by (intro exI [of _ ticket]) (simp add: accepted_read example_identity_def example_handler_def)
qed

lemma example_action:
  "\<exists>ticket. perform_with_ticket example_action_handler example_heap (Exact ticket) example_identity example_epoch_answer
     (PDatetime example_now) (\<lambda>_ _. Inr ()) = ([(1, u ''notes'')], Inr SyntheticActionReceipt)"
proof -
  obtain ex where ex: "dt_add example_now (ai_ttl_seconds example_action_issuer * 1000000) = Inr ex" "dt_less example_now ex"
    "dt_le example_now example_now" by (rule example_expiry)
  note hd = action_handler_of_issuer [OF example_action_constructed]
  from action_ticket_issued [OF example_keyring_constructed [folded hd(1)] hd(5-7) example_identity_active example_organizations(2)
      example_times(1-3) ex(1) example_nonce example_refs_action]
  obtain ticket :: ActionTicket and d where "verify_action_ticket (PStr (at_value ticket)) example_keyring = Inr d"
    "action_claims_from_document d = Inr (issued_action_claims example_action_issuer example_identity example_now ex (replicate 32 0))"
    using hd(1) by auto
  from accepted_action [OF hd this example_organizations(2) example_identity_active example_epoch_gate example_times(2,3) ex(3,2)]
  show ?thesis by (intro exI [of _ ticket]) (simp add: example_identity_def example_action_handler_def)
qed

theorem issued_read_ticket_is_honoured_witness:
  "\<exists>ticket. issue_context_access_ticket example_issuer example_heap example_identity example_epoch_answer example_port
      (PDatetime example_now) (Exact (replicate 32 0)) = Inr ticket
    \<and> read_with_ticket example_handler example_heap (Exact ticket) example_identity example_epoch_answer example_port
        (PDatetime example_now) (\<lambda>_ _. Inr ()) = ([(1, u ''notes'')], Inr SyntheticReadReceipt)"
proof -
  obtain ex where ex: "dt_add example_now (ci_ttl_seconds example_issuer * 1000000) = Inr ex" "dt_less example_now ex"
    using example_times(4) by blast
  have "dt_le example_now example_now" by (simp add: dt_le_def)
  then show ?thesis
    using issued_read_ticket_is_honoured [OF example_keyring_constructed example_issuer_constructed
        example_handler_constructed example_identity_active example_organizations(1) example_gate [folded example_organizations(3)]
        example_times(1-3) ex(1) example_nonce example_refs, of example_port]
      example_identity_active example_gate [folded example_organizations(3)] example_times(2,3) ex(2)
    by (force simp: example_issuer_def)
qed

theorem issued_action_ticket_is_honoured_witness:
  "\<exists>ticket. issue_action_ticket example_action_issuer example_heap example_identity
      (PDatetime example_now) (Exact (replicate 32 0)) = Inr ticket
    \<and> perform_with_ticket example_action_handler example_heap (Exact ticket) example_identity example_epoch_answer
        (PDatetime example_now) (\<lambda>_ _. Inr ()) = ([(1, u ''notes'')], Inr SyntheticActionReceipt)"
proof -
  obtain ex where ex: "dt_add example_now (ai_ttl_seconds example_action_issuer * 1000000) = Inr ex" "dt_less example_now ex"
    "dt_le example_now example_now" by (rule example_expiry)
  then show ?thesis
    using issued_action_ticket_is_honoured [OF example_keyring_constructed example_action_constructed
        example_identity_active example_organizations(2) example_times(1-3) ex(1) example_nonce example_refs_action]
      example_identity_active example_epoch_gate example_times(2,3)
    by (force simp: example_action_issuer_def)
qed

theorem read_effect_is_ticketed_witness:
  "\<exists>ticket d claims. read_with_ticket example_handler example_heap (Exact ticket) example_identity example_epoch_answer
      example_port (PDatetime example_now) (\<lambda>_ _. Inr ()) = ([(1, u ''notes'')], Inr SyntheticReadReceipt)
    \<and> read_claims_from_document d = Inr claims \<and> cc_subject_user_id claims = 2
    \<and> signed_for READ_DOMAIN READ_TOKEN_TYPE example_keyring (cc_signing_key_version claims) d (ct_value ticket)"
proof -
  obtain ticket where t: "read_with_ticket example_handler example_heap (Exact ticket) example_identity
      example_epoch_answer example_port (PDatetime example_now) (\<lambda>_ _. Inr ()) = ([(1, u ''notes'')], Inr SyntheticReadReceipt)"
    using example_read by blast
  from read_effect_is_ticketed [OF t] obtain d claims checked_at where c: "read_claims_from_document d = Inr claims"
    "signed_for READ_DOMAIN READ_TOKEN_TYPE (rh_keyring example_handler) (cc_signing_key_version claims) d (ct_value ticket)"
    "cc_subject_user_id claims = ti_subject_user_id example_identity" by auto
  from c(3) have "cc_subject_user_id claims = 2" by (simp add: example_identity_def)
  with t c(1,2) show ?thesis by (auto simp: example_handler_def)
qed

theorem action_effect_is_ticketed_witness:
  "\<exists>ticket d claims. perform_with_ticket example_action_handler example_heap (Exact ticket) example_identity
      example_epoch_answer (PDatetime example_now) (\<lambda>_ _. Inr ()) = ([(1, u ''notes'')], Inr SyntheticActionReceipt)
    \<and> action_claims_from_document d = Inr claims \<and> ac_subject_user_id claims = 2
    \<and> signed_for ACTION_DOMAIN ACTION_TOKEN_TYPE example_keyring (ac_signing_key_version claims) d (at_value ticket)"
proof -
  obtain ticket where t: "perform_with_ticket example_action_handler example_heap (Exact ticket) example_identity
      example_epoch_answer (PDatetime example_now) (\<lambda>_ _. Inr ()) = ([(1, u ''notes'')], Inr SyntheticActionReceipt)"
    using example_action by blast
  from action_effect_is_ticketed [OF t] obtain d claims checked_at where c: "action_claims_from_document d = Inr claims"
    "signed_for ACTION_DOMAIN ACTION_TOKEN_TYPE (ah_keyring example_action_handler) (ac_signing_key_version claims) d (at_value ticket)"
    "ac_subject_user_id claims = ti_subject_user_id example_identity" by auto
  from c(3) have "ac_subject_user_id claims = 2" by (simp add: example_identity_def)
  with t c(1,2) show ?thesis by (auto simp: example_action_handler_def)
qed

end
