(* ===== verification/Ticket_Rejection.thy ===== *)
theory Ticket_Rejection
  imports Tickets
begin

text \<open>
  The non-enumerating rejection of the ticket protocols (\<open>src/engine/runtime/ticket_rejection.py\<close>):
  what the checks of a handler may raise, and that a handler which makes no call answers every
  reason alike.
\<close>

section \<open>What the checks raise\<close>

text \<open>The exceptions that a handler turns into the one rejection.\<close>

definition gate_error :: "exn \<Rightarrow> bool" where
  "gate_error e \<longleftrightarrow> e = PolicyEpochAuthorityUnavailable \<or> expected_decoding_error e"

lemma gate_error_simps [simp]: "gate_error ValueError" "gate_error TypeError" "gate_error PolicyEpochAuthorityUnavailable"
  "gate_error InvalidTrustedScopeSnapshot" "gate_error UnicodeEncodeError"
  by (simp_all add: gate_error_def expected_decoding_error_def)





























section \<open>Properties\<close>



end
