(* ===== verification/Delivery_Evidence.thy ===== *)
theory Delivery_Evidence
  imports Ticket_Rejection
begin

text \<open>
  \<open>src/engine/runtime/delivery_evidence.py\<close>: opaque references to private deliveries, their issue,
  redemption and retention, and the place where the HTTP ingress turns a redeemed reference into the
  trusted delivery context of a call (\<open>src/adapters/http/app.py\<close>). The constructors of the
  dataclasses are called with typed values: a record and its \<open>__post_init__\<close>. The ports and the
  reference factories are arguments, as answers; \<open>dumps\<close> is the RFC 8785 serialiser.
\<close>

section \<open>Facts\<close>

definition PRIVATE_DELIVERY_EVIDENCE_PROFILE :: str where
  "PRIVATE_DELIVERY_EVIDENCE_PROFILE = u ''private-delivery-evidence-v1''"

definition DELIVERY_EVIDENCE_RETENTION_CLASS :: str where
  "DELIVERY_EVIDENCE_RETENTION_CLASS = u ''short_lived_digest_only''"

definition PRIVATE_DELIVERY_KIND :: str where
  "PRIVATE_DELIVERY_KIND = u ''private''"

definition PRIVATE_AUDIENCE_DIGEST_PROFILE :: str where
  "PRIVATE_AUDIENCE_DIGEST_PROFILE = u ''private-delivery-audience-rfc8785-sha256-v1''"

record DeliveryEvidenceProfile =
  dp_profile_ref :: str
  dp_maximum_ttl :: int
  dp_retention_class :: str

definition DeliveryEvidenceProfile_post_init :: "DeliveryEvidenceProfile \<Rightarrow> unit res" where
  "DeliveryEvidenceProfile_post_init p =
     bnd (require_nonblank (PStr (dp_profile_ref p))) (\<lambda>_.
       if dp_maximum_ttl p \<le> 0 then Inl ValueError
       else if dp_retention_class p \<noteq> DELIVERY_EVIDENCE_RETENTION_CLASS then Inl ValueError else Inr ())"

record PrivateDeliveryEvidenceIssue =
  di_organization_id :: uuid
  di_user_id :: uuid
  di_membership_id :: uuid
  di_membership_version :: int
  di_authenticated_service_ref :: str
  di_authentication_binding_ref :: str
  di_request_id :: str
  di_destination_ref :: str
  di_consumer_ref :: str
  di_purpose :: str
  di_policy_epoch :: int
  di_issued_at :: datetime
  di_expires_at :: datetime
  di_profile_ref :: str

abbreviation nonblank_text :: "str \<Rightarrow> str res" where
  "nonblank_text s \<equiv> require_nonblank (PStr s)"

definition PrivateDeliveryEvidenceIssue_post_init :: "PrivateDeliveryEvidenceIssue \<Rightarrow> unit res" where
  "PrivateDeliveryEvidenceIssue_post_init r =
     bnd (each nonblank_text
            [di_authenticated_service_ref r, di_authentication_binding_ref r, di_request_id r, di_destination_ref r,
             di_consumer_ref r, di_purpose r, di_profile_ref r]) (\<lambda>_.
       if di_membership_version r < 1 then Inl ValueError
       else if di_policy_epoch r < 1 then Inl ValueError
       else
         bnd (require_utc (PDatetime (di_issued_at r))) (\<lambda>_.
         bnd (require_utc (PDatetime (di_expires_at r))) (\<lambda>_.
           if dt_diff (di_expires_at r) (di_issued_at r) \<le> 0 then Inl ValueError
           else if di_profile_ref r \<noteq> PRIVATE_DELIVERY_EVIDENCE_PROFILE then Inl ValueError
           else Inr ())))"



definition private_delivery_audience_digest_for_binding ::
  "(json \<Rightarrow> bytes res) \<Rightarrow> uuid \<Rightarrow> uuid \<Rightarrow> int \<Rightarrow> str \<Rightarrow> str \<Rightarrow> str res"
where
  "private_delivery_audience_digest_for_binding dumps organization_id membership_id membership_version
      destination_ref consumer_ref =
     (if membership_version < 1 then Inl ValueError
      else
        bnd (nonblank_text destination_ref) (\<lambda>_.
        bnd (nonblank_text consumer_ref) (\<lambda>_.
        bnd (dumps (JObj
          [(u ''consumerRef'', JStr consumer_ref),
           (u ''destinationRef'', JStr destination_ref),
           (u ''membershipId'', JStr (uuid_str membership_id)),
           (u ''membershipVersion'', JInt membership_version),
           (u ''organizationId'', JStr (uuid_str organization_id)),
           (u ''profile'', JStr PRIVATE_AUDIENCE_DIGEST_PROFILE)])) (\<lambda>document.
          Inr (sha256_hexdigest (ascii ''context-engine.private-delivery-audience.v1'' @ [0] @ document))))))"

definition private_delivery_audience_digest :: "(json \<Rightarrow> bytes res) \<Rightarrow> PrivateDeliveryEvidenceIssue \<Rightarrow> str res" where
  "private_delivery_audience_digest dumps r =
     private_delivery_audience_digest_for_binding dumps (di_organization_id r) (di_membership_id r)
       (di_membership_version r) (di_destination_ref r) (di_consumer_ref r)"

section \<open>Issue and retention\<close>

text \<open>Whatever a port raises becomes the unavailability of the authority.\<close>

definition as_authority_unavailable :: "'a res \<Rightarrow> 'a res" where
  "as_authority_unavailable r =
     (case r of Inl e \<Rightarrow> Inl DeliveryEvidenceAuthorityUnavailable | Inr x \<Rightarrow> Inr x)"

definition delete_expired_delivery_evidence :: "(uuid \<Rightarrow> pyval res) \<Rightarrow> pyval \<Rightarrow> int res" where
  "delete_expired_delivery_evidence delete_expired_private organization_id =
     bnd (require_uuid organization_id) (\<lambda>org.
     bnd (as_authority_unavailable (delete_expired_private org)) (\<lambda>deleted.
       case deleted of
         PInt n \<Rightarrow> if n < 0 then Inl DeliveryEvidenceAuthorityUnavailable else Inr n
       | _ \<Rightarrow> Inl DeliveryEvidenceAuthorityUnavailable))"



section \<open>Redemption\<close>

record PrivateDeliveryEvidenceRedemption =
  dr_evidence_ref :: str
  dr_evidence_digest :: bytes
  dr_authenticated_service_ref :: str
  dr_authentication_binding_ref :: str
  dr_request_id :: str
  dr_organization_id :: uuid
  dr_user_id :: uuid
  dr_membership_id :: uuid
  dr_membership_version :: int
  dr_destination_ref :: str
  dr_consumer_ref :: str
  dr_delivery_kind :: str
  dr_audience_digest :: str
  dr_purpose :: str
  dr_policy_epoch :: int
  dr_redeemed_at :: datetime

definition PrivateDeliveryEvidenceRedemption_post_init :: "PrivateDeliveryEvidenceRedemption \<Rightarrow> unit res" where
  "PrivateDeliveryEvidenceRedemption_post_init r =
     bnd (nonblank_text (dr_evidence_ref r)) (\<lambda>_.
       if length (dr_evidence_digest r) \<noteq> 32 then Inl ValueError else
     bnd (utf8_encode (dr_evidence_ref r)) (\<lambda>raw.
       if dr_evidence_digest r \<noteq> sha256 raw then Inl ValueError else
     bnd (each nonblank_text
            [dr_authenticated_service_ref r, dr_authentication_binding_ref r, dr_request_id r, dr_destination_ref r,
             dr_consumer_ref r, dr_delivery_kind r, dr_purpose r]) (\<lambda>_.
       if dr_membership_version r < 1 then Inl ValueError
       else if dr_policy_epoch r < 1 then Inl ValueError
       else
         bnd (require_sha256_hex (PStr (dr_audience_digest r))) (\<lambda>_.
         bnd (require_utc (PDatetime (dr_redeemed_at r))) (\<lambda>_. Inr ())))))"

record RedeemedPrivateDeliveryEvidence =
  re_organization_id :: uuid
  re_user_id :: uuid
  re_membership_id :: uuid
  re_membership_version :: int
  re_authenticated_service_ref :: str
  re_authentication_binding_ref :: str
  re_request_id :: str
  re_destination_ref :: str
  re_consumer_ref :: str
  re_delivery_kind :: str
  re_purpose :: str
  re_audience_digest :: str
  re_policy_epoch :: int
  re_issued_at :: datetime
  re_expires_at :: datetime
  re_logical_resolution_ref :: str
  re_profile_ref :: str

definition RedeemedPrivateDeliveryEvidence_post_init :: "RedeemedPrivateDeliveryEvidence \<Rightarrow> unit res" where
  "RedeemedPrivateDeliveryEvidence_post_init r =
     bnd (each nonblank_text
            [re_authenticated_service_ref r, re_authentication_binding_ref r, re_request_id r, re_destination_ref r,
             re_consumer_ref r, re_delivery_kind r, re_purpose r, re_logical_resolution_ref r, re_profile_ref r]) (\<lambda>_.
       if re_delivery_kind r \<noteq> PRIVATE_DELIVERY_KIND then Inl ValueError else
     bnd (require_sha256_hex (PStr (re_audience_digest r))) (\<lambda>_.
       if re_membership_version r < 1 then Inl ValueError
       else if re_policy_epoch r < 1 then Inl ValueError
       else
         bnd (require_utc (PDatetime (re_issued_at r))) (\<lambda>_.
         bnd (require_utc (PDatetime (re_expires_at r))) (\<lambda>_.
           if dt_le (re_expires_at r) (re_issued_at r) then Inl ValueError else Inr ()))))"

definition redeemed_matches :: "RedeemedPrivateDeliveryEvidence \<Rightarrow> PrivateDeliveryEvidenceRedemption \<Rightarrow> bool" where
  "redeemed_matches e r \<longleftrightarrow>
     re_organization_id e = dr_organization_id r \<and> re_user_id e = dr_user_id r
     \<and> re_membership_id e = dr_membership_id r \<and> re_membership_version e = dr_membership_version r
     \<and> re_authenticated_service_ref e = dr_authenticated_service_ref r
     \<and> re_authentication_binding_ref e = dr_authentication_binding_ref r
     \<and> re_request_id e = dr_request_id r \<and> re_destination_ref e = dr_destination_ref r
     \<and> re_consumer_ref e = dr_consumer_ref r \<and> re_delivery_kind e = dr_delivery_kind r
     \<and> re_audience_digest e = dr_audience_digest r \<and> re_purpose e = dr_purpose r
     \<and> re_policy_epoch e = dr_policy_epoch r
     \<and> dt_le (re_issued_at e) (dr_redeemed_at r) \<and> dt_less (dr_redeemed_at r) (re_expires_at e)"

text \<open>
  The port builds the facts from a row, so it raises when \<open>__post_init__\<close> refuses them; a missing row
  is \<open>None\<close>, like any other value of the wrong type.
\<close>

type_synonym redemption_port = "PrivateDeliveryEvidenceRedemption \<Rightarrow> RedeemedPrivateDeliveryEvidence foreign res"

definition redeem_private_delivery_evidence ::
  "scope_heap \<Rightarrow> authority_session \<Rightarrow> redemption_port \<Rightarrow> PrivateDeliveryEvidenceRedemption
    \<Rightarrow> RedeemedPrivateDeliveryEvidence res"
where
  "redeem_private_delivery_evidence h session port request =
     bnd (require_active_delivery_evidence_redemption_session h session) (\<lambda>_.
     bnd (as_authority_unavailable (bnd (port request) (\<lambda>answer.
            case answer of
              WrongType \<Rightarrow> Inr WrongType
            | Exact e \<Rightarrow> bnd (RedeemedPrivateDeliveryEvidence_post_init e) (\<lambda>_. Inr (Exact e))))) (\<lambda>answer.
       case answer of
         WrongType \<Rightarrow> Inl DeliveryEvidenceNotAvailable
       | Exact result \<Rightarrow>
           if \<not> redeemed_matches result request then Inl DeliveryEvidenceNotAvailable else Inr result))"

section \<open>The trusted delivery of an HTTP call\<close>

record VerifiedPrivateDeliveryBinding =
  vb_destination_ref :: str
  vb_consumer_ref :: str
  vb_delivery_kind :: str

text \<open>The call goes on, or ends with the one answer for citations.\<close>

datatype 'a ingress = Proceed 'a | CitationNotAvailableResponse

definition delivery_admission ::
  "str option \<Rightarrow> VerifiedPrivateDeliveryBinding option \<Rightarrow> RuntimeRequest \<Rightarrow> unit ingress res"
where
  "delivery_admission delivery_evidence_ref private_binding request =
     (let refuse = (case request of OpenCitation _ \<Rightarrow> Inr CitationNotAvailableResponse | _ \<Rightarrow> Inl TransportAuthenticationFailed)
      in case delivery_evidence_ref of
           None \<Rightarrow> if private_binding \<noteq> None then refuse else Inr (Proceed ())
         | Some _ \<Rightarrow>
             if (case request of Continue _ _ \<Rightarrow> True | _ \<Rightarrow> False) \<or> private_binding = None then refuse
             else Inr (Proceed ()))"

definition redemption_request ::
  "(json \<Rightarrow> bytes res) \<Rightarrow> AuthenticatedInvocation \<Rightarrow> str \<Rightarrow> str \<Rightarrow> str \<Rightarrow> str \<Rightarrow> VerifiedPrivateDeliveryBinding
    \<Rightarrow> PrivateDeliveryEvidenceRedemption res"
where
  "redemption_request dumps invocation application binding purpose' evidence_ref vb =
     (let a = iv_user_actor invocation in
      bnd (utf8_encode evidence_ref) (\<lambda>raw.
      bnd (private_delivery_audience_digest_for_binding dumps (ua_organization_id a) (ua_membership_id a)
             (ua_membership_version a) (vb_destination_ref vb) (vb_consumer_ref vb)) (\<lambda>audience.
        let r = \<lparr>dr_evidence_ref = evidence_ref, dr_evidence_digest = sha256 raw,
             dr_authenticated_service_ref = application, dr_authentication_binding_ref = binding,
             dr_request_id = iv_request_id invocation, dr_organization_id = ua_organization_id a,
             dr_user_id = ua_user_id a, dr_membership_id = ua_membership_id a,
             dr_membership_version = ua_membership_version a, dr_destination_ref = vb_destination_ref vb,
             dr_consumer_ref = vb_consumer_ref vb, dr_delivery_kind = vb_delivery_kind vb,
             dr_audience_digest = audience, dr_purpose = purpose', dr_policy_epoch = iv_policy_epoch invocation,
             dr_redeemed_at = iv_received_at invocation\<rparr>
        in bnd (PrivateDeliveryEvidenceRedemption_post_init r) (\<lambda>_. Inr r))))"

definition as_transport_failure :: "'a res \<Rightarrow> 'a res" where
  "as_transport_failure r =
     (case r of Inl e \<Rightarrow> if e = TypeError \<or> is_value_error e then Inl TransportAuthenticationFailed else Inl e
      | Inr x \<Rightarrow> Inr x)"

definition establish_delivery ::
  "scope_heap \<Rightarrow> (json \<Rightarrow> bytes res) \<Rightarrow> redemption_port \<Rightarrow> AuthenticatedInvocation \<Rightarrow> authority_session option
    \<Rightarrow> str \<Rightarrow> str \<Rightarrow> str \<Rightarrow> str option \<Rightarrow> VerifiedPrivateDeliveryBinding option \<Rightarrow> RuntimeRequest
    \<Rightarrow> TrustedDeliveryContext ingress res"
where
  "establish_delivery h dumps port invocation redemption_session application binding purpose' delivery_evidence_ref
      private_binding request =
     (case delivery_evidence_ref of
        None \<Rightarrow>
          bnd (construct_direct_delivery_context (PStr purpose') (PStr application) (PStr binding)
                 (PDatetime (iv_received_at invocation))) (\<lambda>c. Inr (Proceed c))
      | Some evidence_ref \<Rightarrow>
          (case private_binding of
             None \<Rightarrow> Inl TransportAuthenticationFailed
           | Some vb \<Rightarrow>
               (case redemption_session of
                  None \<Rightarrow> Inl TrustedAuthorityUnavailable
                | Some session \<Rightarrow>
                    bnd (as_transport_failure
                           (redemption_request dumps invocation application binding purpose' evidence_ref vb)) (\<lambda>r.
                      case redeem_private_delivery_evidence h session port r of
                        Inl e \<Rightarrow>
                          if e = DeliveryEvidenceNotAvailable
                          then (case request of OpenCitation _ \<Rightarrow> Inr CitationNotAvailableResponse
                                | _ \<Rightarrow> Inl TransportAuthenticationFailed)
                          else if e = DeliveryEvidenceAuthorityUnavailable \<or> e = TypeError \<or> is_value_error e
                          then Inl TrustedAuthorityUnavailable
                          else Inl e
                      | Inr redeemed \<Rightarrow>
                          bnd (construct_private_delivery_context (PStr (re_purpose redeemed))
                                 (PStr (re_authenticated_service_ref redeemed))
                                 (PStr (re_authentication_binding_ref redeemed))
                                 (PDatetime (iv_received_at invocation)) (PStr (re_destination_ref redeemed))
                                 (PStr (re_consumer_ref redeemed)) (PStr (re_audience_digest redeemed))
                                 (PStr (re_logical_resolution_ref redeemed)) (PStr (re_profile_ref redeemed))) (\<lambda>c.
                            Inr (Proceed c))))))"

section \<open>Lemmas\<close>

lemma as_authority_unavailable_eq [simp]: "as_authority_unavailable r = Inr x \<longleftrightarrow> r = Inr x"
  by (auto simp: as_authority_unavailable_def split: sum.splits)

lemma as_transport_failure_eq [simp]: "as_transport_failure r = Inr x \<longleftrightarrow> r = Inr x"
  by (auto simp: as_transport_failure_def split: sum.splits)

lemma Issue_post_init_eq [validators]:
  "PrivateDeliveryEvidenceIssue_post_init r = Inr w \<longleftrightarrow>
     (\<forall>s \<in> {di_authenticated_service_ref r, di_authentication_binding_ref r, di_request_id r, di_destination_ref r,
             di_consumer_ref r, di_purpose r, di_profile_ref r}. \<not> blank s)
     \<and> 1 \<le> di_membership_version r \<and> 1 \<le> di_policy_epoch r
     \<and> is_aware_utc (di_issued_at r) \<and> is_aware_utc (di_expires_at r)
     \<and> 0 < dt_diff (di_expires_at r) (di_issued_at r) \<and> di_profile_ref r = PRIVATE_DELIVERY_EVIDENCE_PROFILE"
  by (auto simp: PrivateDeliveryEvidenceIssue_post_init_def validators)

lemma Redemption_post_init_eq [validators]:
  "PrivateDeliveryEvidenceRedemption_post_init r = Inr w \<longleftrightarrow>
     (\<exists>raw. utf8_encode (dr_evidence_ref r) = Inr raw \<and> dr_evidence_digest r = sha256 raw)
     \<and> (\<forall>s \<in> {dr_evidence_ref r, dr_authenticated_service_ref r, dr_authentication_binding_ref r, dr_request_id r,
               dr_destination_ref r, dr_consumer_ref r, dr_delivery_kind r, dr_purpose r}. \<not> blank s)
     \<and> 1 \<le> dr_membership_version r \<and> 1 \<le> dr_policy_epoch r \<and> is_sha256_hex (dr_audience_digest r)
     \<and> is_aware_utc (dr_redeemed_at r)"
  by (auto simp: PrivateDeliveryEvidenceRedemption_post_init_def validators)

lemma Redeemed_post_init_eq [validators]:
  "RedeemedPrivateDeliveryEvidence_post_init r = Inr w \<longleftrightarrow>
     (\<forall>s \<in> {re_authenticated_service_ref r, re_authentication_binding_ref r, re_request_id r, re_destination_ref r,
             re_consumer_ref r, re_delivery_kind r, re_purpose r, re_logical_resolution_ref r, re_profile_ref r}. \<not> blank s)
     \<and> re_delivery_kind r = PRIVATE_DELIVERY_KIND \<and> is_sha256_hex (re_audience_digest r)
     \<and> 1 \<le> re_membership_version r \<and> 1 \<le> re_policy_epoch r
     \<and> is_aware_utc (re_issued_at r) \<and> is_aware_utc (re_expires_at r) \<and> dt_less (re_issued_at r) (re_expires_at r)"
  by (auto simp: RedeemedPrivateDeliveryEvidence_post_init_def validators dt_le_def dt_less_def)

lemma redemption_session_eq [validators]:
  "require_active_delivery_evidence_redemption_session h s = Inr x \<longleftrightarrow>
     scope_active DeliveryEvidenceRedemptionScope h (ss_scope s) \<and> ss_port_complete s"
  by (auto simp: require_active_delivery_evidence_redemption_session_def require_session_scope_def)

lemma case_foreign_raise:
  "(case a of WrongType \<Rightarrow> Inl e | Exact x \<Rightarrow> f x) = Inr z \<longleftrightarrow> (\<exists>x. a = Exact x \<and> f x = Inr z)"
  "(case a of WrongType \<Rightarrow> Inr WrongType | Exact x \<Rightarrow> bnd (g x) (\<lambda>_. Inr (Exact x))) = Inr (Exact y)
     \<longleftrightarrow> a = Exact y \<and> (\<exists>w. g y = Inr w)"
  by (auto split: foreign.splits)

text \<open>Only a redemption lets the call go on.\<close>

lemma after_redemption:
  "(case m of
      Inl e \<Rightarrow> if P e then (case request of OpenCitation _ \<Rightarrow> Inr CitationNotAvailableResponse | _ \<Rightarrow> Inl x)
              else if Q e then Inl y else Inl e
    | Inr v \<Rightarrow> f v) = Inr (Proceed c) \<longleftrightarrow> (\<exists>v. m = Inr v \<and> f v = Inr (Proceed c))"
  by (cases m; cases request) auto

lemma redeem_eq [validators]:
  "redeem_private_delivery_evidence h s port r = Inr e \<longleftrightarrow>
     scope_active DeliveryEvidenceRedemptionScope h (ss_scope s) \<and> ss_port_complete s
     \<and> port r = Inr (Exact e) \<and> RedeemedPrivateDeliveryEvidence_post_init e = Inr () \<and> redeemed_matches e r"
  unfolding redeem_private_delivery_evidence_def
  by (auto simp: redemption_session_eq case_foreign_raise)

text \<open>What a redemption request says about the call.\<close>

lemma redemption_request_Inr:
  assumes "redemption_request dumps iv ap bi pu ref vb = Inr r"
  shows "PrivateDeliveryEvidenceRedemption_post_init r = Inr ()"
    "dr_evidence_ref r = ref" "dr_authenticated_service_ref r = ap" "dr_authentication_binding_ref r = bi"
    "dr_request_id r = iv_request_id iv" "dr_organization_id r = ua_organization_id (iv_user_actor iv)"
    "dr_user_id r = ua_user_id (iv_user_actor iv)" "dr_membership_id r = ua_membership_id (iv_user_actor iv)"
    "dr_membership_version r = ua_membership_version (iv_user_actor iv)"
    "dr_destination_ref r = vb_destination_ref vb" "dr_consumer_ref r = vb_consumer_ref vb"
    "dr_delivery_kind r = vb_delivery_kind vb" "dr_purpose r = pu" "dr_policy_epoch r = iv_policy_epoch iv"
    "dr_redeemed_at r = iv_received_at iv"
    "private_delivery_audience_digest_for_binding dumps (ua_organization_id (iv_user_actor iv))
       (ua_membership_id (iv_user_actor iv)) (ua_membership_version (iv_user_actor iv)) (vb_destination_ref vb)
       (vb_consumer_ref vb) = Inr (dr_audience_digest r)"
  using assms unfolding redemption_request_def Let_def by (auto simp del: validators)

text \<open>Redeemed facts always make a delivery context.\<close>

lemma private_context_of_redeemed:
  assumes "RedeemedPrivateDeliveryEvidence_post_init e = Inr ()" "is_aware t"
  shows "\<exists>c. construct_private_delivery_context (PStr (re_purpose e)) (PStr (re_authenticated_service_ref e))
      (PStr (re_authentication_binding_ref e)) (PDatetime t) (PStr (re_destination_ref e)) (PStr (re_consumer_ref e))
      (PStr (re_audience_digest e)) (PStr (re_logical_resolution_ref e)) (PStr (re_profile_ref e)) = Inr c"
  using assms unfolding construct_private_delivery_context_def construct_direct_delivery_context_def
  by (simp add: validators)

lemma private_context_Inr:
  assumes "construct_private_delivery_context (PStr pu) (PStr ap) (PStr bi) (PDatetime t) (PStr de) (PStr co) (PStr au)
      (PStr re) (PStr pr) = Inr c"
  shows "dc_purpose c = pu" "dc_authenticated_application_ref c = ap" "dc_delivery_binding_ref c = bi"
    "dc_established_at c = t" "dc_construction_provenance c = Some REDEEMED_PRIVATE_DELIVERY_EVIDENCE"
    "dc_destination_ref c = Some de" "dc_consumer_ref c = Some co" "dc_audience_digest c = Some au"
    "dc_logical_resolution_ref c = Some re"
  using assms unfolding construct_private_delivery_context_def construct_direct_delivery_context_def
  by (auto simp: validators)

text \<open>What the steps of the ingress raise.\<close>

lemma redemption_request_failure:
  assumes "\<And>j. raises_only (\<lambda>e. e = TypeError \<or> is_value_error e) (dumps j)"
    "as_transport_failure (redemption_request dumps iv ap bi pu ref vb) = Inl e"
  shows "e = TransportAuthenticationFailed"
proof -
  let ?P = "\<lambda>e. e = TypeError \<or> is_value_error e"
  have one: "raises_only ?P (nonblank_text s)" for s by (simp add: require_nonblank.simps)
  have all: "raises_only ?P (each nonblank_text ss)" for ss
    by (induction ss) (auto intro: raises one)
  have enc: "raises_only ?P (utf8_encode s)" for s by (simp add: utf8_encode_def)
  have "raises_only ?P (private_delivery_audience_digest_for_binding dumps o' m v d c)" for o' m v d c
    unfolding private_delivery_audience_digest_for_binding_def by (intro raises one assms(1)) simp_all
  then have "raises_only ?P (redemption_request dumps iv ap bi pu ref vb)"
    unfolding redemption_request_def Let_def PrivateDeliveryEvidenceRedemption_post_init_def
    by (intro raises one all enc) (auto simp: require_sha256_hex.simps require_utc.simps)
  with assms(2) show ?thesis
    by (auto simp: as_transport_failure_def raises_only_def split: sum.splits if_splits)
qed

lemma redeem_failure:
  assumes "redeem_private_delivery_evidence h s port r = Inl e"
  shows "e = DeliveryEvidenceNotAvailable \<or> e = DeliveryEvidenceAuthorityUnavailable \<or> e = TypeError \<or> is_value_error e"
  using assms
  by (auto simp: redeem_private_delivery_evidence_def bnd_eq_Inl as_authority_unavailable_def
      require_active_delivery_evidence_redemption_session_def require_session_scope_def
      split: sum.splits foreign.splits if_splits)

lemma redeemed_context:
  assumes "redemption_request dumps iv ap bi pu ref vb = Inr r" "redeem_private_delivery_evidence h s port r = Inr e"
  shows "\<exists>c. construct_private_delivery_context (PStr (re_purpose e)) (PStr (re_authenticated_service_ref e))
      (PStr (re_authentication_binding_ref e)) (PDatetime (iv_received_at iv)) (PStr (re_destination_ref e))
      (PStr (re_consumer_ref e)) (PStr (re_audience_digest e)) (PStr (re_logical_resolution_ref e))
      (PStr (re_profile_ref e)) = Inr c"
  using redemption_request_Inr(1,15) [OF assms(1)] assms(2)
  by (intro private_context_of_redeemed) (simp_all add: redeem_eq Redemption_post_init_eq is_aware_utc_def is_aware_def)

section \<open>Properties\<close>

text \<open>
  C18. A private delivery is a redeemed one: when the ingress establishes a delivery context from an
  evidence reference, the redemption scope of the call's transaction was active, the authority
  answered the exact request for the digest of the reference, and what it answered names the
  actor's Organization, user, Membership, Membership version and policy epoch, this request, the
  purpose, and the destination and consumer of the verified route; the reference is neither early
  nor expired; the context matches the invocation, so that the validation of trusted inputs accepts
  it, and carries the audience digest of exactly this Membership and route.
\<close>

theorem private_delivery_is_redeemed:
  assumes "establish_delivery h dumps port iv session (iv_authenticated_application_ref iv)
      (iv_authentication_binding_ref iv) pu (Some ref) pb request = Inr (Proceed c)"
  shows "delivery_matches c iv \<and> dc_purpose c = pu
    \<and> (\<exists>vb s r e raw. pb = Some vb \<and> session = Some s \<and> scope_active DeliveryEvidenceRedemptionScope h (ss_scope s)
        \<and> utf8_encode ref = Inr raw \<and> dr_evidence_digest r = sha256 raw \<and> port r = Inr (Exact e)
        \<and> re_organization_id e = ua_organization_id (iv_user_actor iv) \<and> re_user_id e = ua_user_id (iv_user_actor iv)
        \<and> re_membership_id e = ua_membership_id (iv_user_actor iv)
        \<and> re_membership_version e = ua_membership_version (iv_user_actor iv)
        \<and> re_policy_epoch e = iv_policy_epoch iv \<and> re_request_id e = iv_request_id iv \<and> re_purpose e = pu
        \<and> re_delivery_kind e = PRIVATE_DELIVERY_KIND
        \<and> dt_le (re_issued_at e) (iv_received_at iv) \<and> dt_less (iv_received_at iv) (re_expires_at e)
        \<and> dc_destination_ref c = Some (vb_destination_ref vb) \<and> dc_consumer_ref c = Some (vb_consumer_ref vb)
        \<and> dc_logical_resolution_ref c = Some (re_logical_resolution_ref e)
        \<and> (\<exists>audience. dc_audience_digest c = Some audience
             \<and> private_delivery_audience_digest_for_binding dumps (ua_organization_id (iv_user_actor iv))
                 (ua_membership_id (iv_user_actor iv)) (ua_membership_version (iv_user_actor iv))
                 (vb_destination_ref vb) (vb_consumer_ref vb) = Inr audience))"
proof -
  from assms obtain vb s r e where *: "pb = Some vb" "session = Some s"
    and r: "redemption_request dumps iv (iv_authenticated_application_ref iv) (iv_authentication_binding_ref iv) pu ref vb = Inr r"
    and e: "redeem_private_delivery_evidence h s port r = Inr e"
    and c: "construct_private_delivery_context (PStr (re_purpose e)) (PStr (re_authenticated_service_ref e))
      (PStr (re_authentication_binding_ref e)) (PDatetime (iv_received_at iv)) (PStr (re_destination_ref e))
      (PStr (re_consumer_ref e)) (PStr (re_audience_digest e)) (PStr (re_logical_resolution_ref e))
      (PStr (re_profile_ref e)) = Inr c"
    by (auto simp: establish_delivery_def after_redemption case_option_raise)
  note r = redemption_request_Inr [OF r] and c = private_context_Inr [OF c]
  from e have e: "scope_active DeliveryEvidenceRedemptionScope h (ss_scope s)" "port r = Inr (Exact e)"
    "RedeemedPrivateDeliveryEvidence_post_init e = Inr ()" "redeemed_matches e r"
    by (simp_all add: redeem_eq)
  from r(1,2) obtain raw where raw: "utf8_encode ref = Inr raw" "dr_evidence_digest r = sha256 raw"
    by (auto simp: Redemption_post_init_eq)
  note m = e(4) [unfolded redeemed_matches_def]
  have "delivery_matches c iv" using c m r by (simp add: delivery_matches_def)
  moreover have "re_delivery_kind e = PRIVATE_DELIVERY_KIND" using e(3) by (simp add: Redeemed_post_init_eq)
  ultimately show ?thesis
    using * e(1,2) raw m r(5-16) c by (intro conjI exI [of _ vb] exI [of _ s] exI [of _ r] exI [of _ e] exI [of _ raw]) simp_all
qed

text \<open>
  C38. Private delivery fails closed: provided the serialiser raises at most a \<open>TypeError\<close> or a
  \<open>ValueError\<close>, whatever the redemption port returns or raises, an evidence reference leads to a
  context, to the authentication failure, to the unavailability of the authority, or, for citations
  only, to the one citation answer. No other exception leaves this step and no context is made
  without a redemption session.
\<close>

theorem private_delivery_fails_closed:
  assumes "\<And>j. raises_only (\<lambda>e. e = TypeError \<or> is_value_error e) (dumps j)"
  shows "case establish_delivery h dumps port iv session ap bi pu (Some ref) pb request of
      Inr (Proceed c) \<Rightarrow> session \<noteq> None \<and> pb \<noteq> None
    | Inr CitationNotAvailableResponse \<Rightarrow> (\<exists>ref'. request = OpenCitation ref')
    | Inl e \<Rightarrow> e = TransportAuthenticationFailed \<or> e = TrustedAuthorityUnavailable"
proof (cases pb; cases session)
  fix vb s
  assume pb: "pb = Some vb" and s: "session = Some s"
  show ?thesis
  proof (cases "as_transport_failure (redemption_request dumps iv ap bi pu ref vb)")
    case (Inl e)
    with redemption_request_failure [OF assms Inl] show ?thesis by (simp add: establish_delivery_def pb s)
  next
    case (Inr r)
    then have r: "redemption_request dumps iv ap bi pu ref vb = Inr r" by simp
    show ?thesis
    proof (cases "redeem_private_delivery_evidence h s port r")
      case (Inl e)
      with Inr redeem_failure [OF Inl] show ?thesis
        by (cases request) (auto simp: establish_delivery_def pb s as_transport_failure_def)
    next
      case (Inr e)
      with redeemed_context [OF r this] r show ?thesis
        by (auto simp: establish_delivery_def pb s as_transport_failure_def)
    qed
  qed
qed (simp_all add: establish_delivery_def)

text \<open>The facts an accepted issue stands for, and an authority that keeps them.\<close>

definition evidence_row :: "PrivateDeliveryEvidenceIssue \<Rightarrow> str \<Rightarrow> str \<Rightarrow> RedeemedPrivateDeliveryEvidence" where
  "evidence_row r audience resolution =
     \<lparr>re_organization_id = di_organization_id r, re_user_id = di_user_id r, re_membership_id = di_membership_id r,
      re_membership_version = di_membership_version r, re_authenticated_service_ref = di_authenticated_service_ref r,
      re_authentication_binding_ref = di_authentication_binding_ref r, re_request_id = di_request_id r,
      re_destination_ref = di_destination_ref r, re_consumer_ref = di_consumer_ref r,
      re_delivery_kind = PRIVATE_DELIVERY_KIND, re_purpose = di_purpose r, re_audience_digest = audience,
      re_policy_epoch = di_policy_epoch r, re_issued_at = di_issued_at r, re_expires_at = di_expires_at r,
      re_logical_resolution_ref = resolution, re_profile_ref = di_profile_ref r\<rparr>"





lemma PRIVATE_DELIVERY_KIND_text: "\<not> blank PRIVATE_DELIVERY_KIND"
  by (simp add: PRIVATE_DELIVERY_KIND_def blank_iff u_def is_space_def)


section \<open>A concrete delivery\<close>

definition example_binding :: VerifiedPrivateDeliveryBinding where
  "example_binding = \<lparr>vb_destination_ref = u ''dm'', vb_consumer_ref = u ''bot'', vb_delivery_kind = PRIVATE_DELIVERY_KIND\<rparr>"

definition example_redemption_session :: authority_session where
  "example_redemption_session =
     \<lparr>ss_id = 1, ss_scope = example_token DeliveryEvidenceRedemptionScope 0, ss_port_complete = True\<rparr>"

abbreviation example_dumps :: "json \<Rightarrow> bytes res" where
  "example_dumps \<equiv> \<lambda>_. Inr []"

definition example_issue :: "datetime \<Rightarrow> PrivateDeliveryEvidenceIssue" where
  "example_issue ex = \<lparr>di_organization_id = 1, di_user_id = 2, di_membership_id = 3, di_membership_version = 1,
     di_authenticated_service_ref = u ''app'', di_authentication_binding_ref = u ''b'', di_request_id = u ''r'',
     di_destination_ref = u ''dm'', di_consumer_ref = u ''bot'', di_purpose = u ''ask'', di_policy_epoch = 7,
     di_issued_at = example_now, di_expires_at = ex, di_profile_ref = PRIVATE_DELIVERY_EVIDENCE_PROFILE\<rparr>"

definition example_audience :: str where
  "example_audience = sha256_hexdigest (ascii ''context-engine.private-delivery-audience.v1'' @ [0])"


definition example_redemption :: PrivateDeliveryEvidenceRedemption where
  "example_redemption = \<lparr>dr_evidence_ref = u ''der_1'', dr_evidence_digest = sha256 (utf8_surrogatepass (u ''der_1'')),
     dr_authenticated_service_ref = u ''app'', dr_authentication_binding_ref = u ''b'', dr_request_id = u ''r'',
     dr_organization_id = 1, dr_user_id = 2, dr_membership_id = 3, dr_membership_version = 1,
     dr_destination_ref = u ''dm'', dr_consumer_ref = u ''bot'', dr_delivery_kind = PRIVATE_DELIVERY_KIND,
     dr_audience_digest = example_audience, dr_purpose = u ''ask'', dr_policy_epoch = 7, dr_redeemed_at = example_now\<rparr>"


definition example_redemption_port :: "datetime \<Rightarrow> redemption_port" where
  "example_redemption_port ex = (\<lambda>_. Inr (Exact (evidence_row (example_issue ex) example_audience (u ''dlr_1''))))"

lemma example_texts:
  "\<not> blank (u ''app'')" "\<not> blank (u ''b'')" "\<not> blank (u ''r'')" "\<not> blank (u ''dm'')" "\<not> blank (u ''bot'')"
  "\<not> blank (u ''ask'')" "\<not> blank (u ''der_1'')" "\<not> blank (u ''dlr_1'')" "\<not> blank PRIVATE_DELIVERY_EVIDENCE_PROFILE"
  by (simp_all add: u_def blank_iff is_space_def PRIVATE_DELIVERY_EVIDENCE_PROFILE_def)

lemma example_ref_encoded: "utf8_encode (u ''der_1'') = Inr (utf8_surrogatepass (u ''der_1''))"
  by (simp add: utf8_encode_def)

lemma example_audience_digest:
  "private_delivery_audience_digest_for_binding example_dumps 1 3 1 (u ''dm'') (u ''bot'') = Inr example_audience"
  "private_delivery_audience_digest example_dumps (example_issue ex) = Inr example_audience"
  by (simp_all add: private_delivery_audience_digest_def private_delivery_audience_digest_for_binding_def
      example_texts example_audience_def example_issue_def require_nonblank.simps)

lemma example_redemption_ok: "PrivateDeliveryEvidenceRedemption_post_init example_redemption = Inr ()"
  using example_times(2) by (simp add: Redemption_post_init_eq example_redemption_def example_ref_encoded example_texts
      PRIVATE_DELIVERY_KIND_text example_audience_def)

lemma example_session_active: "require_active_delivery_evidence_redemption_session [True] example_redemption_session = Inr ()"
  by (simp add: redemption_session_eq example_redemption_session_def example_token_def scope_active_def)

lemma example_evidence_times:
  obtains ex where "is_aware_utc ex" "dt_diff ex example_now = 60000000" "dt_less example_now ex" "dt_le example_now example_now"
proof -
  obtain ex where ex: "dt_add example_now (ci_ttl_seconds example_issuer * 1000000) = Inr ex" "dt_less example_now ex"
    "dt_le example_now example_now" by (rule example_expiry)
  with dt_add_diff [OF ex(1)] example_times(2) have "is_aware_utc ex" "dt_diff ex example_now = 60000000"
    by (simp_all add: example_issuer_def is_aware_utc_def)
  with ex(2,3) show thesis by (intro that)
qed

lemma example_issue_ok:
  "is_aware_utc ex \<Longrightarrow> dt_diff ex example_now = 60000000 \<Longrightarrow> PrivateDeliveryEvidenceIssue_post_init (example_issue ex) = Inr ()"
  using example_times(2) by (simp add: Issue_post_init_eq example_issue_def example_texts)

lemma example_request:
  "redemption_request example_dumps example_invocation (u ''app'') (u ''b'') (u ''ask'') (u ''der_1'') example_binding
     = Inr example_redemption"
proof -
  have "redemption_request example_dumps example_invocation (u ''app'') (u ''b'') (u ''ask'') (u ''der_1'') example_binding
      = bnd (PrivateDeliveryEvidenceRedemption_post_init example_redemption) (\<lambda>_. Inr example_redemption)"
    unfolding redemption_request_def
    by (simp add: example_ref_encoded example_audience_digest example_binding_def example_invocation_def example_actor_def
        example_redemption_def Let_def)
  then show ?thesis by (simp add: example_redemption_ok)
qed

lemma example_redeemed:
  assumes "is_aware_utc ex" "dt_diff ex example_now = 60000000"
  shows "redeem_private_delivery_evidence [True] example_redemption_session (example_redemption_port ex) example_redemption
    = Inr (evidence_row (example_issue ex) example_audience (u ''dlr_1''))"
proof -
  have "RedeemedPrivateDeliveryEvidence_post_init (evidence_row (example_issue ex) example_audience (u ''dlr_1'')) = Inr ()"
    using example_issue_ok [OF assms] PRIVATE_DELIVERY_KIND_text
    by (auto simp: Redeemed_post_init_eq Issue_post_init_eq evidence_row_def dt_diff_def dt_less_def example_texts example_audience_def)
  moreover have "redeemed_matches (evidence_row (example_issue ex) example_audience (u ''dlr_1'')) example_redemption"
    using assms(2) by (simp add: redeemed_matches_def evidence_row_def example_issue_def example_redemption_def dt_le_def
        dt_less_def dt_diff_def)
  ultimately show ?thesis
    using example_session_active by (simp add: redeem_eq redemption_session_eq example_redemption_port_def)
qed

theorem private_delivery_is_redeemed_witness:
  "\<exists>ex c. establish_delivery [True] example_dumps (example_redemption_port ex) example_invocation
      (Some example_redemption_session) (u ''app'') (u ''b'') (u ''ask'') (Some (u ''der_1'')) (Some example_binding)
      (OpenCitation (CitationOpenRef (u ''cit''))) = Inr (Proceed c)
    \<and> delivery_matches c example_invocation \<and> dc_destination_ref c = Some (u ''dm'')"
proof -
  obtain ex where ex: "is_aware_utc ex" "dt_diff ex example_now = 60000000" by (rule example_evidence_times)
  note red = example_redeemed [OF ex]
  from redeemed_context [OF example_request red] obtain c where
    c: "establish_delivery [True] example_dumps (example_redemption_port ex) example_invocation
      (Some example_redemption_session) (u ''app'') (u ''b'') (u ''ask'') (Some (u ''der_1'')) (Some example_binding)
      (OpenCitation (CitationOpenRef (u ''cit''))) = Inr (Proceed c)"
    using red by (auto simp: establish_delivery_def example_request as_transport_failure_def)
  have "iv_authenticated_application_ref example_invocation = u ''app''" "iv_authentication_binding_ref example_invocation = u ''b''"
    by (simp_all add: example_invocation_def)
  with private_delivery_is_redeemed [of "[True]" example_dumps "example_redemption_port ex" example_invocation
      "Some example_redemption_session" "u ''ask''" "u ''der_1''" "Some example_binding"] c
  have "delivery_matches c example_invocation \<and> dc_destination_ref c = Some (u ''dm'')"
    by (auto simp: example_binding_def)
  with c show ?thesis by blast
qed

theorem private_delivery_fails_closed_witness:
  "\<not> (\<exists>c. establish_delivery [True] example_dumps (\<lambda>_. Inl OtherException) example_invocation None (u ''app'') (u ''b'')
       (u ''ask'') (Some (u ''der_1'')) (Some example_binding) (OpenCitation (CitationOpenRef (u ''cit''))) = Inr (Proceed c))"
  using private_delivery_fails_closed [where dumps = example_dumps and h = "[True]" and port = "\<lambda>_. Inl OtherException" and iv = example_invocation
      and session = None and ap = "u ''app''"
      and bi = "u ''b''" and pu = "u ''ask''" and ref = "u ''der_1''" and pb = "Some example_binding"
      and request = "OpenCitation (CitationOpenRef (u ''cit''))"]
  by (auto split: sum.splits)


end
