(* ===== verification/Model_Inference.thy ===== *)
theory Model_Inference
  imports Egress Json_Text
begin

text \<open>
  \<open>src/engine/runtime/model_inference.py\<close>: the single port through which the runtime asks a model to
  rewrite a query, to reorder projections or to select some of them. A call validates its profile
  and its request, reserves the most it can cost, redeems a one-hop grant, calls the gateway
  within a deadline, reads a closed JSON answer and settles the reservation; every end leaves a
  trace receipt.

  The egress authority, the gateway, the monotonic clock and the observer of receipts are the
  \<open>inference_world\<close> of a call: what each of them answers when it is called. The effects of a call
  are recorded in their order in \<open>ns_effects\<close>. \<open>canon\<close> and \<open>dumps\<close> are the RFC 8785 serialiser, as text
  and as bytes.
\<close>

section \<open>Constants and counting\<close>

definition MODEL_INFERENCE_DIGEST_PROFILE :: str where
  "MODEL_INFERENCE_DIGEST_PROFILE = u ''model-inference-rfc8785-sha256-v1''"

definition MODEL_INFERENCE_TOKENIZER_PROFILE :: "(json \<Rightarrow> str) \<Rightarrow> str" where
  "MODEL_INFERENCE_TOKENIZER_PROFILE canon = profile_ref (UNICODE_SCALAR_TOKENIZER_PROFILE canon)"

definition INFERENCE_DIGEST_DOMAIN :: bytes where
  "INFERENCE_DIGEST_DOMAIN = ascii ''context-engine.model-inference.v1'' @ [0]"

definition INFERENCE_OUTPUT_DIGEST_DOMAIN :: bytes where
  "INFERENCE_OUTPUT_DIGEST_DOMAIN = ascii ''context-engine.model-inference-output.v1'' @ [0]"

definition UNAVAILABLE_PROFILE_REF :: str where
  "UNAVAILABLE_PROFILE_REF = u ''model-inference-profile-unavailable-v1''"

text \<open>\<open>AccountingTokenizer.count\<close> of bytes, and \<open>PackageBudgetMeter.count_tokens\<close> of bytes.\<close>

definition tokenizer_count_bytes :: "bytes \<Rightarrow> nat res" where
  "tokenizer_count_bytes value =
     (case utf8_decode False (map unat value) of
        None \<Rightarrow> Inl TokenizerUnavailable
      | Some decoded \<Rightarrow> tokenizer_count decoded)"

definition count_token_bytes :: "PackageBudgetMeter \<Rightarrow> bytes \<Rightarrow> nat res" where
  "count_token_bytes m value = (case m_tokenizer m of None \<Rightarrow> Inr 0 | Some _ \<Rightarrow> tokenizer_count_bytes value)"

text \<open>\<open>load_registered_tokenizer\<close>: the lookup and then the artifact of the profile, as \<open>artifact\<close> holds it.\<close>

definition load_registered_tokenizer ::
  "(json \<Rightarrow> str) \<Rightarrow> (bytes \<Rightarrow> (str \<times> str) list option) \<Rightarrow> (TokenizerProfile \<Rightarrow> bytes option) \<Rightarrow> str \<Rightarrow> str \<Rightarrow> TokenizerProfile res"
where
  "load_registered_tokenizer canon json_loads artifact canonical_document digest =
     bnd (registered_tokenizer_profile canon canonical_document digest) (\<lambda>p. TokenizerProfile_load json_loads (artifact p) p)"

section \<open>Profiles\<close>

datatype ModelInferenceOperation = REWRITE | RERANK | SELECT

fun operation_value :: "ModelInferenceOperation \<Rightarrow> str" where
  "operation_value REWRITE = u ''rewrite''"
| "operation_value RERANK = u ''rerank''"
| "operation_value SELECT = u ''select''"

datatype ModelInferenceOutcomeCategory = SUCCEEDED | UNAVAILABLE

record ModelInferenceRetryPolicy =
  rp_maximum_attempts :: int
  rp_backoff_ms :: "int list"

definition ModelInferenceRetryPolicy_post_init :: "ModelInferenceRetryPolicy \<Rightarrow> unit res" where
  "ModelInferenceRetryPolicy_post_init p =
     (if rp_maximum_attempts p \<noteq> 1 \<or> rp_backoff_ms p \<noteq> [] then Inl ValueError else Inr ())"

record ModelInferenceProfile =
  im_profile_ref :: str
  im_profile_version :: int
  im_operation :: ModelInferenceOperation
  im_egress_profile :: ModelEgressProfile
  im_tokenizer_ref :: str
  im_tokenizer_profile_digest :: str
  im_maximum_input_tokens :: int
  im_maximum_output_tokens :: int
  im_maximum_input_items :: int
  im_maximum_output_items :: int
  im_maximum_provider_calls :: int
  im_maximum_cost_microunits :: int
  im_maximum_elapsed_ms :: int
  im_timeout_ms :: int
  im_retry_policy :: ModelInferenceRetryPolicy
  im_input_token_cost_microunits :: int
  im_output_token_cost_microunits :: int
  im_integrity_digest :: str

text \<open>
  \<open>int(ttl.total_seconds() * 1_000_000)\<close>: the quotient and the product are binary64 values. A
  \<open>timedelta\<close> is far below the range where they overflow.
\<close>

definition ttl_microseconds :: "int \<Rightarrow> int" where
  "ttl_microseconds ttl =
     (case round64 (of_int ttl / 1000000) of
        Fin seconds \<Rightarrow>
          (case round64 (seconds * 1000000) of Fin a \<Rightarrow> if 0 \<le> a then \<lfloor>a\<rfloor> else \<lceil>a\<rceil> | _ \<Rightarrow> 0)
      | _ \<Rightarrow> 0)"

definition profile_document :: "ModelInferenceProfile \<Rightarrow> json" where
  "profile_document p =
     (let e = im_egress_profile p in
      JObj
       [(u ''cost'', JObj
          [(u ''inputTokenMicrounits'', JInt (im_input_token_cost_microunits p)),
           (u ''outputTokenMicrounits'', JInt (im_output_token_cost_microunits p))]),
        (u ''egress'', JObj
          [(u ''consumerRef'', JStr (eg_consumer_ref e)),
           (u ''issuerRef'', JStr (eg_issuer_ref e)),
           (u ''maximumTtlMicroseconds'', JInt (ttl_microseconds (eg_maximum_ttl e))),
           (u ''modelRef'', JStr (eg_model_ref e)),
           (u ''profileRef'', JStr (eg_profile_ref e)),
           (u ''providerRef'', JStr (eg_provider_ref e)),
           (u ''regionRef'', JStr (eg_region_ref e)),
           (u ''retentionPolicyRef'', JStr (eg_retention_policy_ref e)),
           (u ''sensitivityPolicyRef'', JStr (eg_sensitivity_policy_ref e))]),
        (u ''limits'', JObj
          [(u ''elapsedMs'', JInt (im_maximum_elapsed_ms p)),
           (u ''inputItems'', JInt (im_maximum_input_items p)),
           (u ''inputTokens'', JInt (im_maximum_input_tokens p)),
           (u ''outputItems'', JInt (im_maximum_output_items p)),
           (u ''outputTokens'', JInt (im_maximum_output_tokens p)),
           (u ''providerCalls'', JInt (im_maximum_provider_calls p)),
           (u ''totalCostMicrounits'', JInt (im_maximum_cost_microunits p))]),
        (u ''operation'', JStr (operation_value (im_operation p))),
        (u ''profileRef'', JStr (im_profile_ref p)),
        (u ''profileVersion'', JInt (im_profile_version p)),
        (u ''retry'', JObj
          [(u ''backoffMs'', JArr (map JInt (rp_backoff_ms (im_retry_policy p)))),
           (u ''maximumAttempts'', JInt (rp_maximum_attempts (im_retry_policy p)))]),
        (u ''timeoutMs'', JInt (im_timeout_ms p)),
        (u ''tokenizerRef'', JStr (im_tokenizer_ref p)),
        (u ''tokenizerProfileDigest'', JStr (im_tokenizer_profile_digest p))])"

definition profile_integrity_digest :: "(json \<Rightarrow> bytes res) \<Rightarrow> ModelInferenceProfile \<Rightarrow> str res" where
  "profile_integrity_digest dumps p = bnd (dumps (profile_document p)) (\<lambda>document. Inr (sha256_hexdigest document))"

definition validate_profile_fields :: "(json \<Rightarrow> str) \<Rightarrow> ModelInferenceProfile \<Rightarrow> unit res" where
  "validate_profile_fields canon p =
     bnd (ModelEgressProfile_post_init (im_egress_profile p)) (\<lambda>_.
     bnd (ModelInferenceRetryPolicy_post_init (im_retry_policy p)) (\<lambda>_.
     bnd (require_nonblank (PStr (im_profile_ref p))) (\<lambda>_.
     bnd (require_positive_exact_integer (PInt (im_profile_version p))) (\<lambda>_.
       if eg_profile_ref (im_egress_profile p) \<noteq> im_profile_ref p then Inl ValueError
       else if im_tokenizer_ref p \<noteq> MODEL_INFERENCE_TOKENIZER_PROFILE canon then Inl ValueError
       else if im_tokenizer_profile_digest p \<noteq> profile_digest (UNICODE_SCALAR_TOKENIZER_PROFILE canon) then Inl ValueError
       else
     bnd (each (\<lambda>v. require_positive_exact_integer (PInt v))
       [im_maximum_input_tokens p, im_maximum_output_tokens p, im_maximum_input_items p, im_maximum_output_items p,
        im_maximum_provider_calls p, im_maximum_cost_microunits p, im_maximum_elapsed_ms p, im_timeout_ms p]) (\<lambda>_.
       if im_maximum_provider_calls p \<noteq> 1 then Inl ValueError
       else if im_timeout_ms p > im_maximum_elapsed_ms p then Inl ValueError
       else
     bnd (require_nonnegative_exact_integer (PInt (im_input_token_cost_microunits p))) (\<lambda>_.
     bnd (require_nonnegative_exact_integer (PInt (im_output_token_cost_microunits p))) (\<lambda>_.
       if im_maximum_input_tokens p * im_input_token_cost_microunits p
          + im_maximum_output_tokens p * im_output_token_cost_microunits p > im_maximum_cost_microunits p
       then Inl ValueError
       else if im_operation p = REWRITE \<and> im_maximum_input_items p \<noteq> 1 then Inl ValueError
       else if im_operation p = RERANK \<and> im_maximum_output_items p < im_maximum_input_items p then Inl ValueError
       else Inr ())))))))"

definition ModelInferenceProfile_post_init ::
  "(json \<Rightarrow> str) \<Rightarrow> (json \<Rightarrow> bytes res) \<Rightarrow> ModelInferenceProfile \<Rightarrow> ModelInferenceProfile res"
where
  "ModelInferenceProfile_post_init canon dumps p =
     bnd (validate_profile_fields canon p) (\<lambda>_.
     bnd (profile_integrity_digest dumps p) (\<lambda>digest. Inr (p\<lparr>im_integrity_digest := digest\<rparr>)))"

text \<open>\<open>except (TypeError, ValueError) as error: raise ValueError\<close>\<close>

definition as_invalid_profile :: "'a res \<Rightarrow> 'a res" where
  "as_invalid_profile r =
     (case r of Inl e \<Rightarrow> if e = TypeError \<or> is_value_error e then Inl ValueError else Inl e | Inr x \<Rightarrow> Inr x)"

definition require_profile_integrity ::
  "(json \<Rightarrow> str) \<Rightarrow> (json \<Rightarrow> bytes res) \<Rightarrow> ModelInferenceProfile \<Rightarrow> unit res"
where
  "require_profile_integrity canon dumps p =
     bnd (as_invalid_profile (validate_profile_fields canon p)) (\<lambda>_.
     bnd (profile_integrity_digest dumps p) (\<lambda>expected.
       if im_integrity_digest p \<noteq> expected then Inl ValueError else Inr ()))"

text \<open>The copy has the same fields; its constructor computes the digest anew.\<close>

definition snapshot_profile ::
  "(json \<Rightarrow> str) \<Rightarrow> (json \<Rightarrow> bytes res) \<Rightarrow> ModelInferenceProfile \<Rightarrow> ModelInferenceProfile res"
where
  "snapshot_profile canon dumps p =
     bnd (require_profile_integrity canon dumps p) (\<lambda>_.
     bnd (ModelEgressProfile_post_init (im_egress_profile p)) (\<lambda>_.
     bnd (ModelInferenceRetryPolicy_post_init (im_retry_policy p)) (\<lambda>_.
     bnd (ModelInferenceProfile_post_init canon dumps p) (\<lambda>snapshot.
       if im_integrity_digest snapshot \<noteq> im_integrity_digest p then Inl ValueError else Inr snapshot))))"

section \<open>Bindings and payloads\<close>

record ModelInferenceEgressBinding =
  ib_organization_id :: uuid
  ib_package_digest :: str
  ib_purpose :: str
  ib_audience_digest :: str
  ib_policy_epoch :: int
  ib_release_generation :: int

definition ModelInferenceEgressBinding_post_init :: "ModelInferenceEgressBinding \<Rightarrow> ModelInferenceEgressBinding res" where
  "ModelInferenceEgressBinding_post_init b =
     bnd (require_sha256_hex (PStr (ib_package_digest b))) (\<lambda>_.
     bnd (require_nonblank (PStr (ib_purpose b))) (\<lambda>_.
     bnd (require_sha256_hex (PStr (ib_audience_digest b))) (\<lambda>_.
     bnd (require_positive_exact_integer (PInt (ib_policy_epoch b))) (\<lambda>_.
     bnd (require_positive_exact_integer (PInt (ib_release_generation b))) (\<lambda>_. Inr b)))))"

fun snapshot_egress_binding :: "ModelInferenceEgressBinding foreign \<Rightarrow> ModelInferenceEgressBinding res" where
  "snapshot_egress_binding WrongType = Inl TypeError"
| "snapshot_egress_binding (Exact b) = ModelInferenceEgressBinding_post_init b"

definition model_payload ::
  "(json \<Rightarrow> bytes res) \<Rightarrow> ModelInferenceOperation \<Rightarrow> ModelInferenceProfile \<Rightarrow> (str \<times> json) list \<Rightarrow> bytes res"
where
  "model_payload dumps operation p input_document =
     dumps (JObj
       [(u ''input'', JObj input_document),
        (u ''operation'', JStr (operation_value operation)),
        (u ''profileRef'', JStr (im_profile_ref p)),
        (u ''profileVersion'', JInt (im_profile_version p))])"

definition rewrite_payload :: "(json \<Rightarrow> bytes res) \<Rightarrow> ModelInferenceProfile \<Rightarrow> str \<Rightarrow> bytes res" where
  "rewrite_payload dumps p q = model_payload dumps REWRITE p [(u ''query'', JStr q)]"

definition projection_payload ::
  "(json \<Rightarrow> bytes res) \<Rightarrow> ModelInferenceOperation \<Rightarrow> ModelInferenceProfile \<Rightarrow> str \<Rightarrow> AuthorizedProjection list
    \<Rightarrow> int option \<Rightarrow> bytes res"
where
  "projection_payload dumps operation p q projections maximum_items =
     model_payload dumps operation p
       ([(u ''items'', JArr (map (\<lambda>x. JObj
            [(u ''body'', JStr (ap_projected_body x)),
             (u ''projectedFieldRefs'', JArr (map JStr (ap_projected_field_refs x)))]) projections)),
         (u ''query'', JStr q)]
        @ (case maximum_items of None \<Rightarrow> [] | Some m \<Rightarrow> [(u ''maximumItems'', JInt m)]))"

definition payload_digest_of :: "bytes \<Rightarrow> str" where
  "payload_digest_of payload = sha256_hexdigest (INFERENCE_DIGEST_DOMAIN @ payload)"

section \<open>Requests\<close>

record RequestSnapshot =
  qs_operation :: ModelInferenceOperation
  qs_profile :: ModelInferenceProfile
  qs_payload :: bytes
  qs_payload_digest :: str
  qs_input_items :: int
  qs_projections :: "AuthorizedProjection list"
  qs_maximum_items :: "int option"

definition seal_request_snapshot ::
  "ModelInferenceOperation \<Rightarrow> ModelInferenceProfile \<Rightarrow> bytes \<Rightarrow> bytes foreign \<Rightarrow> str \<Rightarrow> int \<Rightarrow> AuthorizedProjection list
    \<Rightarrow> int option \<Rightarrow> RequestSnapshot res"
where
  "seal_request_snapshot operation p payload stored_payload stored_digest input_items projections maximum_items =
     (if stored_payload \<noteq> Exact payload \<or> stored_digest \<noteq> payload_digest_of payload then Inl ValueError
      else Inr \<lparr>qs_operation = operation, qs_profile = p, qs_payload = payload,
                qs_payload_digest = payload_digest_of payload, qs_input_items = input_items,
                qs_projections = projections, qs_maximum_items = maximum_items\<rparr>)"

record RewriteModelRequest =
  wq_profile :: ModelInferenceProfile
  wq_query :: str
  wq_payload_digest :: str
  wq_payload :: "bytes foreign"

definition RewriteModelRequest_init ::
  "(json \<Rightarrow> str) \<Rightarrow> (json \<Rightarrow> bytes res) \<Rightarrow> ModelInferenceProfile \<Rightarrow> str \<Rightarrow> RewriteModelRequest res"
where
  "RewriteModelRequest_init canon dumps p q =
     bnd (require_profile_integrity canon dumps p) (\<lambda>_.
       if im_operation p \<noteq> REWRITE then Inl ValueError else
     bnd (require_nonblank (PStr q)) (\<lambda>_.
     bnd (rewrite_payload dumps p q) (\<lambda>payload.
       Inr \<lparr>wq_profile = p, wq_query = q, wq_payload_digest = payload_digest_of payload, wq_payload = Exact payload\<rparr>)))"

definition rewrite_snapshot ::
  "(json \<Rightarrow> bytes res) \<Rightarrow> RewriteModelRequest \<Rightarrow> ModelInferenceProfile \<Rightarrow> RequestSnapshot res"
where
  "rewrite_snapshot dumps r p =
     (if im_operation p \<noteq> REWRITE then Inl ValueError else
      bnd (require_nonblank (PStr (wq_query r))) (\<lambda>q.
      bnd (rewrite_payload dumps p q) (\<lambda>payload.
        seal_request_snapshot REWRITE p payload (wq_payload r) (wq_payload_digest r) 1 [] None)))"

record RerankModelRequest =
  kq_profile :: ModelInferenceProfile
  kq_query :: str
  kq_projections :: "AuthorizedProjection list"
  kq_payload_digest :: str
  kq_payload :: "bytes foreign"

text \<open>\<open>type(projections) is not tuple or not projections\<close>, and that each of them is active.\<close>

definition require_projections :: "scope_heap \<Rightarrow> AuthorizedProjection list \<Rightarrow> unit res" where
  "require_projections h projections =
     (if projections = [] then Inl TypeError else each (require_active_authorized_projection h) projections)"

definition RerankModelRequest_init ::
  "(json \<Rightarrow> str) \<Rightarrow> (json \<Rightarrow> bytes res) \<Rightarrow> scope_heap \<Rightarrow> ModelInferenceProfile \<Rightarrow> str \<Rightarrow> AuthorizedProjection list
    \<Rightarrow> RerankModelRequest res"
where
  "RerankModelRequest_init canon dumps h p q projections =
     bnd (require_profile_integrity canon dumps p) (\<lambda>_.
       if im_operation p \<noteq> RERANK then Inl ValueError else
     bnd (require_nonblank (PStr q)) (\<lambda>_.
     bnd (require_projections h projections) (\<lambda>_.
     bnd (projection_payload dumps RERANK p q projections None) (\<lambda>payload.
       Inr \<lparr>kq_profile = p, kq_query = q, kq_projections = projections,
            kq_payload_digest = payload_digest_of payload, kq_payload = Exact payload\<rparr>))))"

definition rerank_snapshot ::
  "(json \<Rightarrow> bytes res) \<Rightarrow> scope_heap \<Rightarrow> RerankModelRequest \<Rightarrow> ModelInferenceProfile \<Rightarrow> RequestSnapshot res"
where
  "rerank_snapshot dumps h r p =
     (if im_operation p \<noteq> RERANK then Inl ValueError else
      bnd (require_nonblank (PStr (kq_query r))) (\<lambda>q.
      bnd (require_projections h (kq_projections r)) (\<lambda>_.
      bnd (projection_payload dumps RERANK p q (kq_projections r) None) (\<lambda>payload.
        seal_request_snapshot RERANK p payload (kq_payload r) (kq_payload_digest r) (int (length (kq_projections r)))
          (kq_projections r) None))))"

record SelectModelRequest =
  lq_profile :: ModelInferenceProfile
  lq_query :: str
  lq_projections :: "AuthorizedProjection list"
  lq_maximum_items :: int
  lq_payload_digest :: str
  lq_payload :: "bytes foreign"

definition SelectModelRequest_init ::
  "(json \<Rightarrow> str) \<Rightarrow> (json \<Rightarrow> bytes res) \<Rightarrow> scope_heap \<Rightarrow> ModelInferenceProfile \<Rightarrow> str \<Rightarrow> AuthorizedProjection list
    \<Rightarrow> int \<Rightarrow> SelectModelRequest res"
where
  "SelectModelRequest_init canon dumps h p q projections maximum_items =
     bnd (require_profile_integrity canon dumps p) (\<lambda>_.
       if im_operation p \<noteq> SELECT then Inl ValueError else
     bnd (require_nonblank (PStr q)) (\<lambda>_.
     bnd (require_projections h projections) (\<lambda>_.
     bnd (require_positive_exact_integer (PInt maximum_items)) (\<lambda>_.
       if maximum_items > im_maximum_output_items p then Inl ValueError else
     bnd (projection_payload dumps SELECT p q projections (Some maximum_items)) (\<lambda>payload.
       Inr \<lparr>lq_profile = p, lq_query = q, lq_projections = projections, lq_maximum_items = maximum_items,
            lq_payload_digest = payload_digest_of payload, lq_payload = Exact payload\<rparr>)))))"

definition select_snapshot ::
  "(json \<Rightarrow> bytes res) \<Rightarrow> scope_heap \<Rightarrow> SelectModelRequest \<Rightarrow> ModelInferenceProfile \<Rightarrow> RequestSnapshot res"
where
  "select_snapshot dumps h r p =
     (if im_operation p \<noteq> SELECT then Inl ValueError else
      bnd (require_nonblank (PStr (lq_query r))) (\<lambda>q.
      bnd (require_projections h (lq_projections r)) (\<lambda>_.
      bnd (require_positive_exact_integer (PInt (lq_maximum_items r))) (\<lambda>maximum_items.
        if maximum_items > im_maximum_output_items p then Inl ValueError else
      bnd (projection_payload dumps SELECT p q (lq_projections r) (Some maximum_items)) (\<lambda>payload.
        seal_request_snapshot SELECT p payload (lq_payload r) (lq_payload_digest r) (int (length (lq_projections r)))
          (lq_projections r) (Some maximum_items))))))"

datatype InferenceRequest =
    RewriteRequest RewriteModelRequest
  | RerankRequest RerankModelRequest
  | SelectRequest SelectModelRequest

fun request_operation :: "InferenceRequest \<Rightarrow> ModelInferenceOperation" where
  "request_operation (RewriteRequest r) = REWRITE"
| "request_operation (RerankRequest r) = RERANK"
| "request_operation (SelectRequest r) = SELECT"

fun request_profile :: "InferenceRequest \<Rightarrow> ModelInferenceProfile" where
  "request_profile (RewriteRequest r) = wq_profile r"
| "request_profile (RerankRequest r) = kq_profile r"
| "request_profile (SelectRequest r) = lq_profile r"

fun request_payload :: "InferenceRequest \<Rightarrow> bytes foreign" where
  "request_payload (RewriteRequest r) = wq_payload r"
| "request_payload (RerankRequest r) = kq_payload r"
| "request_payload (SelectRequest r) = lq_payload r"

fun request_projections :: "InferenceRequest \<Rightarrow> AuthorizedProjection list" where
  "request_projections (RewriteRequest r) = []"
| "request_projections (RerankRequest r) = kq_projections r"
| "request_projections (SelectRequest r) = lq_projections r"

fun request_snapshot ::
  "(json \<Rightarrow> bytes res) \<Rightarrow> scope_heap \<Rightarrow> InferenceRequest \<Rightarrow> ModelInferenceProfile \<Rightarrow> RequestSnapshot res"
where
  "request_snapshot dumps h (RewriteRequest r) p = rewrite_snapshot dumps r p"
| "request_snapshot dumps h (RerankRequest r) p = rerank_snapshot dumps h r p"
| "request_snapshot dumps h (SelectRequest r) p = select_snapshot dumps h r p"

section \<open>Receipts\<close>

record ModelInferenceTraceReceipt =
  it_operation :: ModelInferenceOperation
  it_outcome_category :: ModelInferenceOutcomeCategory
  it_profile_ref :: str
  it_profile_version :: int
  it_input_digest :: str
  it_output_digest :: "str option"
  it_budget_usage :: BudgetUsage
  it_digest_profile :: str

definition ModelInferenceTraceReceipt_post_init :: "ModelInferenceTraceReceipt \<Rightarrow> ModelInferenceTraceReceipt res" where
  "ModelInferenceTraceReceipt_post_init r =
     bnd (require_nonblank (PStr (it_profile_ref r))) (\<lambda>_.
     bnd (require_positive_exact_integer (PInt (it_profile_version r))) (\<lambda>_.
     bnd (require_sha256_hex (PStr (it_input_digest r))) (\<lambda>_.
     bnd (case it_output_digest r of None \<Rightarrow> Inr [] | Some d \<Rightarrow> require_sha256_hex (PStr d)) (\<lambda>_.
       if it_digest_profile r \<noteq> MODEL_INFERENCE_DIGEST_PROFILE then Inl ValueError else Inr r))))"

record RewriteModelResult =
  wr_rewrites :: "str list"
  wr_receipt :: ModelInferenceTraceReceipt

record RerankModelResult =
  kr_projections :: "AuthorizedProjection list"
  kr_receipt :: ModelInferenceTraceReceipt

record SelectModelResult =
  lr_projections :: "AuthorizedProjection list"
  lr_receipt :: ModelInferenceTraceReceipt

record TraceContext =
  tc_operation :: ModelInferenceOperation
  tc_profile_ref :: str
  tc_profile_version :: int
  tc_input_digest :: str

text \<open>
  The identity of a request whose validation may fail: profile and version only when they are
  intact. \<open>except (AttributeError, TypeError, ValueError)\<close>.
\<close>

definition fallback_trace_context ::
  "(json \<Rightarrow> str) \<Rightarrow> (json \<Rightarrow> bytes res) \<Rightarrow> InferenceRequest \<Rightarrow> TraceContext res"
where
  "fallback_trace_context canon dumps request =
     (let p = request_profile request;
          digest = payload_digest_of (case request_payload request of Exact payload \<Rightarrow> payload | WrongType \<Rightarrow> ascii ''invalid'');
          context_of = (\<lambda>ref version. \<lparr>tc_operation = request_operation request, tc_profile_ref = ref,
            tc_profile_version = version, tc_input_digest = digest\<rparr>)
      in case bnd (require_profile_integrity canon dumps p) (\<lambda>_.
                if im_operation p \<noteq> request_operation request then Inl ValueError else Inr ()) of
           Inl e \<Rightarrow>
             if e = AttributeError \<or> e = TypeError \<or> is_value_error e
             then Inr (context_of UNAVAILABLE_PROFILE_REF 1) else Inl e
         | Inr _ \<Rightarrow> Inr (context_of (im_profile_ref p) (im_profile_version p)))"

section \<open>Answers\<close>

definition parse_closed_document :: "bytes \<Rightarrow> (str \<times> json) list res" where
  "parse_closed_document raw_output =
     bnd (loads reject_duplicates raw_output) (\<lambda>v.
       case v of JObj document \<Rightarrow> Inr document | _ \<Rightarrow> Inl ValueError)"

fun json_ints :: "json list \<Rightarrow> int list option" where
  "json_ints [] = Some []"
| "json_ints (JInt i # vs) = map_option ((#) i) (json_ints vs)"
| "json_ints (_ # vs) = None"

fun json_texts :: "json list \<Rightarrow> str list option" where
  "json_texts [] = Some []"
| "json_texts (JStr s # vs) = map_option ((#) s) (json_texts vs)"
| "json_texts (_ # vs) = None"

text \<open>An object with one key only, whose value is a list.\<close>

definition only_list :: "str \<Rightarrow> (str \<times> json) list \<Rightarrow> json list res" where
  "only_list k document =
     (case document of
        [(k', JArr values)] \<Rightarrow> if k' = k then Inr values else Inl ValueError
      | _ \<Rightarrow> Inl ValueError)"

text \<open>The three closures that a public method hands to \<open>_execute\<close>.\<close>

definition parse_rewrites :: "bytes \<Rightarrow> RequestSnapshot \<Rightarrow> str list res" where
  "parse_rewrites raw_output snapshot =
     bnd (parse_closed_document raw_output) (\<lambda>document.
     bnd (only_list (u ''rewrites'') document) (\<lambda>raw_rewrites.
       if \<not> (1 \<le> length raw_rewrites \<and> int (length raw_rewrites) \<le> im_maximum_output_items (qs_profile snapshot))
       then Inl ValueError
       else case json_texts raw_rewrites of
              None \<Rightarrow> Inl ValueError
            | Some rewrites \<Rightarrow> if list_ex blank rewrites then Inl ValueError else Inr rewrites))"

definition parse_order :: "bytes \<Rightarrow> RequestSnapshot \<Rightarrow> AuthorizedProjection list res" where
  "parse_order raw_output snapshot =
     bnd (parse_closed_document raw_output) (\<lambda>document.
     bnd (only_list (u ''order'') document) (\<lambda>order.
       case json_ints order of
         None \<Rightarrow> Inl ValueError
       | Some indices \<Rightarrow>
           if sort indices \<noteq> map int [0..<length (qs_projections snapshot)] then Inl ValueError
           else Inr (map (\<lambda>i. qs_projections snapshot ! nat i) indices)))"

definition parse_selected :: "bytes \<Rightarrow> RequestSnapshot \<Rightarrow> AuthorizedProjection list res" where
  "parse_selected raw_output snapshot =
     bnd (parse_closed_document raw_output) (\<lambda>document.
     bnd (only_list (u ''selected'') document) (\<lambda>selected.
       case qs_maximum_items snapshot of
         None \<Rightarrow> Inl ValueError
       | Some maximum_items \<Rightarrow>
           if int (length selected) > maximum_items then Inl ValueError
           else (case json_ints selected of
                   None \<Rightarrow> Inl ValueError
                 | Some indices \<Rightarrow>
                     if \<not> distinct indices
                        \<or> list_ex (\<lambda>i. \<not> (0 \<le> i \<and> i < int (length (qs_projections snapshot)))) indices
                     then Inl ValueError
                     else Inr (map (\<lambda>i. qs_projections snapshot ! nat i) indices))))"

section \<open>The port and the world of a call\<close>

type_synonym profile_key = "ModelInferenceOperation \<times> str \<times> int"

record ModelInferencePort =
  ip_profiles :: "(profile_key \<times> ModelInferenceProfile) list"

definition profile_key :: "ModelInferenceProfile \<Rightarrow> profile_key" where
  "profile_key p = (im_operation p, im_profile_ref p, im_profile_version p)"

fun register_profiles ::
  "(json \<Rightarrow> str) \<Rightarrow> (json \<Rightarrow> bytes res) \<Rightarrow> (profile_key \<times> ModelInferenceProfile) list \<Rightarrow> ModelInferenceProfile list
    \<Rightarrow> (profile_key \<times> ModelInferenceProfile) list res"
where
  "register_profiles canon dumps registered [] = Inr registered"
| "register_profiles canon dumps registered (p # ps) =
     bnd (snapshot_profile canon dumps p) (\<lambda>snapshot.
       if profile_key snapshot \<in> set (map fst registered) then Inl ValueError
       else register_profiles canon dumps (registered @ [(profile_key snapshot, snapshot)]) ps)"

definition ModelInferencePort_init ::
  "(json \<Rightarrow> str) \<Rightarrow> (json \<Rightarrow> bytes res) \<Rightarrow> ModelInferenceProfile list \<Rightarrow> ModelInferencePort res"
where
  "ModelInferencePort_init canon dumps profiles =
     (if profiles = [] then Inl TypeError
      else bnd (register_profiles canon dumps [] profiles) (\<lambda>registered. Inr \<lparr>ip_profiles = registered\<rparr>))"

text \<open>A gateway that has not finished when the deadline passes is abandoned in its thread.\<close>

datatype gateway_answer = Finished "bytes foreign res" | Late

datatype inference_effect =
    Redeem EgressGrantRedemption
  | Call bytes int
  | Trace ModelInferenceTraceReceipt

record inference_world =
  iw_started_ms :: "pyval res"
  iw_redeem :: "EgressGrantRedemption \<Rightarrow> pyval res"
  iw_gateway :: "bytes \<Rightarrow> int \<Rightarrow> gateway_answer"
  iw_finished_ms :: "pyval res"
  iw_observe :: "inference_effect list \<Rightarrow> ModelInferenceTraceReceipt \<Rightarrow> unit res"

record inference_state =
  ns_ledger :: ledger
  ns_effects :: "inference_effect list"

text \<open>\<open>ModelInferenceUnavailable\<close> carries its receipt; other exceptions are known by their class.\<close>

datatype inference_error = Unavailable ModelInferenceTraceReceipt | Raised exn

type_synonym 'a nexec = "inference_state \<Rightarrow> inference_state \<times> (inference_error + 'a)"

definition nbnd :: "'a nexec \<Rightarrow> ('a \<Rightarrow> 'b nexec) \<Rightarrow> 'b nexec" where
  "nbnd m f s = (case m s of (s', Inl e) \<Rightarrow> (s', Inl e) | (s', Inr x) \<Rightarrow> f x s')"

definition nlift :: "'a res \<Rightarrow> 'a nexec" where
  "nlift r s = (s, case r of Inl e \<Rightarrow> Inl (Raised e) | Inr x \<Rightarrow> Inr x)"

definition record_effect :: "inference_effect \<Rightarrow> inference_state \<Rightarrow> inference_state" where
  "record_effect e s = s\<lparr>ns_effects := ns_effects s @ [e]\<rparr>"

definition receipt_for ::
  "TraceContext \<Rightarrow> ModelInferenceOutcomeCategory \<Rightarrow> str option \<Rightarrow> BudgetUsage \<Rightarrow> ModelInferenceTraceReceipt res"
where
  "receipt_for tc category output_digest usage =
     ModelInferenceTraceReceipt_post_init
       \<lparr>it_operation = tc_operation tc, it_outcome_category = category, it_profile_ref = tc_profile_ref tc,
        it_profile_version = tc_profile_version tc, it_input_digest = tc_input_digest tc,
        it_output_digest = output_digest, it_budget_usage = usage,
        it_digest_profile = MODEL_INFERENCE_DIGEST_PROFILE\<rparr>"

definition emit_unavailable :: "inference_world \<Rightarrow> TraceContext \<Rightarrow> BudgetUsage \<Rightarrow> 'a nexec" where
  "emit_unavailable w tc usage s =
     (case receipt_for tc UNAVAILABLE None usage of
        Inl e \<Rightarrow> (s, Inl (Raised e))
      | Inr receipt \<Rightarrow> (record_effect (Trace receipt) s, Inl (Unavailable receipt)))"

definition call_gateway_bounded :: "inference_world \<Rightarrow> bytes \<Rightarrow> int \<Rightarrow> bytes res" where
  "call_gateway_bounded w payload timeout_ms =
     (case iw_gateway w payload timeout_ms of
        Late \<Rightarrow> Inl OtherException
      | Finished (Inr (Exact output)) \<Rightarrow> Inr output
      | Finished _ \<Rightarrow> Inl ValueError)"

section \<open>One call\<close>

text \<open>The part of the first \<open>try\<close> before the trace context is exact.\<close>

definition identify ::
  "(json \<Rightarrow> str) \<Rightarrow> (json \<Rightarrow> bytes res) \<Rightarrow> scope_heap \<Rightarrow> InferenceRequest \<Rightarrow> RequestSnapshot res"
where
  "identify canon dumps h request =
     bnd (snapshot_profile canon dumps (request_profile request)) (\<lambda>p.
     bnd (request_snapshot dumps h request p) (\<lambda>snapshot.
       if qs_operation snapshot \<noteq> request_operation request then Inl ValueError else Inr snapshot))"

definition snapshot_context :: "RequestSnapshot \<Rightarrow> TraceContext" where
  "snapshot_context snapshot =
     \<lparr>tc_operation = qs_operation snapshot, tc_profile_ref = im_profile_ref (qs_profile snapshot),
      tc_profile_version = im_profile_version (qs_profile snapshot), tc_input_digest = qs_payload_digest snapshot\<rparr>"

record Admission =
  ia_redemption :: EgressGrantRedemption
  ia_input_tokens :: int
  ia_maximum :: BudgetUsage
  ia_reservation :: nat

definition reserve_maximum :: "BudgetUsage \<Rightarrow> nat nexec" where
  "reserve_maximum maximum s =
     (let (m, rs) = ns_ledger s
      in case meter_reserve m rs maximum of
           Inl e \<Rightarrow> (s, Inl (Raised e))
         | Inr (m', rs', rid) \<Rightarrow> (s\<lparr>ns_ledger := (m', rs')\<rparr>, Inr rid))"

text \<open>The rest of the first \<open>try\<close>, up to the reservation; first the part behind the test of the grant.\<close>

definition admit_granted ::
  "inference_world \<Rightarrow> TraceContext \<Rightarrow> RequestSnapshot \<Rightarrow> ModelInferenceEgressBinding \<Rightarrow> str \<Rightarrow> Admission nexec"
where
  "admit_granted w tc snapshot e v s =
     (let p = qs_profile snapshot; m = fst (ns_ledger s) in
      nbnd (nlift (require_opaque_grant MODEL_EGRESS_GRANT_PREFIX (PStr v))) (\<lambda>value'.
      nbnd (nlift (redemption_for_model (ModelEgressGrant value') (ib_organization_id e) (ib_package_digest e)
        (qs_payload_digest snapshot) (ib_purpose e) (ib_audience_digest e) (ib_policy_epoch e)
        (im_egress_profile p))) (\<lambda>redemption.
      nbnd (nlift (count_token_bytes m (qs_payload snapshot))) (\<lambda>n.
        let input_tokens = int n
        in if input_tokens > im_maximum_input_tokens p \<or> qs_input_items snapshot > im_maximum_input_items p
           then emit_unavailable w tc EMPTY_USAGE
           else
             nbnd (nlift (BudgetUsage_init
               (PInt (input_tokens + im_maximum_output_tokens p)) (PInt 1)
               (PInt (input_tokens * im_input_token_cost_microunits p
                  + im_maximum_output_tokens p * im_output_token_cost_microunits p))
               (PInt (im_maximum_elapsed_ms p)))) (\<lambda>maximum.
             nbnd (reserve_maximum maximum) (\<lambda>rid.
               nlift (Inr \<lparr>ia_redemption = redemption, ia_input_tokens = input_tokens,
                 ia_maximum = maximum, ia_reservation = rid\<rparr>)))))) s)"

definition admit ::
  "inference_world \<Rightarrow> ModelInferencePort \<Rightarrow> TraceContext \<Rightarrow> RequestSnapshot \<Rightarrow> EgressGrant foreign
    \<Rightarrow> ModelInferenceEgressBinding foreign \<Rightarrow> Admission nexec"
where
  "admit w port tc snapshot grant egress s =
     (let p = qs_profile snapshot; m = fst (ns_ledger s)
      in if map_of (ip_profiles port) (qs_operation snapshot, im_profile_ref p, im_profile_version p) \<noteq> Some p
         then (s, Inl (Raised ValueError))
         else
           nbnd (nlift (snapshot_egress_binding egress)) (\<lambda>e.
           nbnd (nlift (require_tokenizer m (im_tokenizer_ref p) (im_tokenizer_profile_digest p) (ib_release_generation e))) (\<lambda>_.
             case grant of
               Exact (ModelEgressGrant v) \<Rightarrow> admit_granted w tc snapshot e v
             | _ \<Rightarrow> emit_unavailable w tc EMPTY_USAGE)) s)"

text \<open>\<open>except ModelInferenceUnavailable: raise\<close>, then the other expected exceptions.\<close>

definition refusal :: "exn \<Rightarrow> bool" where
  "refusal e \<longleftrightarrow> e = PackageBudgetExceeded \<or> e = TokenizerUnavailable \<or> e = TypeError \<or> is_value_error e"

definition or_unavailable :: "inference_world \<Rightarrow> TraceContext \<Rightarrow> 'a nexec \<Rightarrow> 'a nexec" where
  "or_unavailable w tc f s =
     (case f s of
        (s', Inl (Raised e)) \<Rightarrow> if refusal e then emit_unavailable w tc EMPTY_USAGE s' else (s', Inl (Raised e))
      | r \<Rightarrow> r)"

definition cancel_and_emit :: "inference_world \<Rightarrow> TraceContext \<Rightarrow> Admission \<Rightarrow> 'a nexec" where
  "cancel_and_emit w tc a s =
     (let (m, rs) = ns_ledger s
      in case meter_cancel m rs (ia_reservation a) of
           Inl e \<Rightarrow> (s, Inl (Raised e))
         | Inr l \<Rightarrow> emit_unavailable w tc EMPTY_USAGE (s\<lparr>ns_ledger := l\<rparr>))"

definition redeem_grant :: "inference_world \<Rightarrow> TraceContext \<Rightarrow> Admission \<Rightarrow> pyval nexec" where
  "redeem_grant w tc a s =
     (case iw_started_ms w of
        Inl _ \<Rightarrow> cancel_and_emit w tc a s
      | Inr started_ms \<Rightarrow>
          let s1 = record_effect (Redeem (ia_redemption a)) s
          in case iw_redeem w (ia_redemption a) of
               Inl _ \<Rightarrow> cancel_and_emit w tc a s1
             | Inr accepted \<Rightarrow>
                 if accepted \<noteq> PBool True then cancel_and_emit w tc a s1 else (s1, Inr started_ms))"

text \<open>
  \<open>finished_ms - started_ms\<close>. Values that are not integers raise, here or when the usage is
  constructed from them, which the same handler catches.
\<close>

fun int_like :: "pyval \<Rightarrow> int option" where
  "int_like (PInt i) = Some i"
| "int_like (PBool b) = Some (if b then 1 else 0)"
| "int_like _ = None"

definition elapsed_between :: "pyval \<Rightarrow> pyval \<Rightarrow> int res" where
  "elapsed_between started_ms finished_ms =
     (case (int_like started_ms, int_like finished_ms) of
        (Some a, Some b) \<Rightarrow> Inr (b - a)
      | _ \<Rightarrow> Inl TypeError)"

definition charged_call ::
  "inference_world \<Rightarrow> PackageBudgetMeter \<Rightarrow> RequestSnapshot \<Rightarrow> Admission \<Rightarrow> pyval \<Rightarrow> (bytes \<Rightarrow> RequestSnapshot \<Rightarrow> 'a res)
    \<Rightarrow> ('a \<times> BudgetUsage \<times> bytes) res"
where
  "charged_call w m snapshot a started_ms parse_output =
     (let p = qs_profile snapshot in
      bnd (call_gateway_bounded w (qs_payload snapshot) (im_timeout_ms p)) (\<lambda>raw_output.
      bnd (iw_finished_ms w) (\<lambda>finished_ms.
      bnd (elapsed_between started_ms finished_ms) (\<lambda>elapsed.
        if elapsed < 0 \<or> elapsed > im_timeout_ms p then Inl ValueError else
      bnd (count_token_bytes m raw_output) (\<lambda>output_tokens.
        if int output_tokens > im_maximum_output_tokens p then Inl ValueError else
      bnd (parse_output raw_output snapshot) (\<lambda>parsed.
      bnd (BudgetUsage_init
             (PInt (ia_input_tokens a + int output_tokens)) (PInt 1)
             (PInt (ia_input_tokens a * im_input_token_cost_microunits p
                + int output_tokens * im_output_token_cost_microunits p))
             (PInt elapsed)) (\<lambda>actual.
        Inr (parsed, actual, raw_output))))))))"

text \<open>The second \<open>try\<close>, from the gateway to the trace of the result.\<close>

definition settle_call ::
  "inference_world \<Rightarrow> TraceContext \<Rightarrow> RequestSnapshot \<Rightarrow> Admission \<Rightarrow> pyval \<Rightarrow> (bytes \<Rightarrow> RequestSnapshot \<Rightarrow> 'a res)
    \<Rightarrow> ('a \<times> ModelInferenceTraceReceipt) nexec"
where
  "settle_call w tc snapshot a started_ms parse_output s =
     (let (m, rs) = ns_ledger s;
          s1 = record_effect (Call (qs_payload snapshot) (im_timeout_ms (qs_profile snapshot))) s
      in case bnd (charged_call w m snapshot a started_ms parse_output) (\<lambda>(parsed, actual, raw_output).
                bnd (meter_commit m rs (ia_reservation a) actual) (\<lambda>l. Inr (l, parsed, actual, raw_output))) of
           Inl _ \<Rightarrow>
             (case meter_commit m rs (ia_reservation a) (ia_maximum a) of
                Inl e \<Rightarrow> (s1, Inl (Raised e))
              | Inr l \<Rightarrow> emit_unavailable w tc (ia_maximum a) (s1\<lparr>ns_ledger := l\<rparr>))
         | Inr (l, parsed, actual, raw_output) \<Rightarrow>
             let s2 = s1\<lparr>ns_ledger := l\<rparr>
             in case receipt_for tc SUCCEEDED (Some (sha256_hexdigest (INFERENCE_OUTPUT_DIGEST_DOMAIN @ raw_output))) actual of
                  Inl e \<Rightarrow> (s2, Inl (Raised e))
                | Inr receipt \<Rightarrow>
                    let s3 = record_effect (Trace receipt) s2
                    in case iw_observe w (ns_effects s2) receipt of
                         Inl _ \<Rightarrow> emit_unavailable w tc actual s3
                       | Inr _ \<Rightarrow> (s3, Inr (parsed, receipt)))"

definition execute ::
  "(json \<Rightarrow> str) \<Rightarrow> (json \<Rightarrow> bytes res) \<Rightarrow> scope_heap \<Rightarrow> ModelInferencePort \<Rightarrow> inference_world \<Rightarrow> InferenceRequest
    \<Rightarrow> EgressGrant foreign \<Rightarrow> ModelInferenceEgressBinding foreign \<Rightarrow> (bytes \<Rightarrow> RequestSnapshot \<Rightarrow> 'a res)
    \<Rightarrow> ('a \<times> ModelInferenceTraceReceipt) nexec"
where
  "execute canon dumps h port w request grant egress parse_output =
     nbnd (nlift (fallback_trace_context canon dumps request)) (\<lambda>fallback.
     nbnd (or_unavailable w fallback (nlift (identify canon dumps h request))) (\<lambda>snapshot.
       let tc = snapshot_context snapshot in
     nbnd (or_unavailable w tc (admit w port tc snapshot grant egress)) (\<lambda>a.
     nbnd (redeem_grant w tc a) (\<lambda>started_ms.
       settle_call w tc snapshot a started_ms parse_output))))"

definition rewrite_query ::
  "(json \<Rightarrow> str) \<Rightarrow> (json \<Rightarrow> bytes res) \<Rightarrow> scope_heap \<Rightarrow> ModelInferencePort \<Rightarrow> inference_world \<Rightarrow> RewriteModelRequest
    \<Rightarrow> EgressGrant foreign \<Rightarrow> ModelInferenceEgressBinding foreign \<Rightarrow> RewriteModelResult nexec"
where
  "rewrite_query canon dumps h port w request grant egress =
     nbnd (execute canon dumps h port w (RewriteRequest request) grant egress parse_rewrites) (\<lambda>(parsed, receipt).
       nlift (Inr \<lparr>wr_rewrites = parsed, wr_receipt = receipt\<rparr>))"

definition rerank ::
  "(json \<Rightarrow> str) \<Rightarrow> (json \<Rightarrow> bytes res) \<Rightarrow> scope_heap \<Rightarrow> ModelInferencePort \<Rightarrow> inference_world \<Rightarrow> RerankModelRequest
    \<Rightarrow> EgressGrant foreign \<Rightarrow> ModelInferenceEgressBinding foreign \<Rightarrow> RerankModelResult nexec"
where
  "rerank canon dumps h port w request grant egress =
     nbnd (execute canon dumps h port w (RerankRequest request) grant egress parse_order) (\<lambda>(parsed, receipt).
       nlift (Inr \<lparr>kr_projections = parsed, kr_receipt = receipt\<rparr>))"

definition select_projections ::
  "(json \<Rightarrow> str) \<Rightarrow> (json \<Rightarrow> bytes res) \<Rightarrow> scope_heap \<Rightarrow> ModelInferencePort \<Rightarrow> inference_world \<Rightarrow> SelectModelRequest
    \<Rightarrow> EgressGrant foreign \<Rightarrow> ModelInferenceEgressBinding foreign \<Rightarrow> SelectModelResult nexec"
where
  "select_projections canon dumps h port w request grant egress =
     nbnd (execute canon dumps h port w (SelectRequest request) grant egress parse_selected) (\<lambda>(parsed, receipt).
       nlift (Inr \<lparr>lr_projections = parsed, lr_receipt = receipt\<rparr>))"

end
