(* ===== verification/Inference_Safety.thy ===== *)
theory Inference_Safety
  imports Model_Inference
begin

text \<open>
  What the model-inference port guarantees, whatever the gateway, the egress authority, the clock
  and the observer answer: a payload leaves only under a redeemed grant for exactly this payload,
  the meter is charged what the receipt says, every failure is the one content-free exception,
  and an answer can neither invent nor duplicate a projection.
\<close>

section \<open>Computations\<close>

lemma nlift_apply [simp]: "nlift (Inl e) s = (s, Inl (Raised e))" "nlift (Inr x) s = (s, Inr x)"
  by (simp_all add: nlift_def)

lemma nlift_eq [simp]:
  "nlift r s = (s', Inr x) \<longleftrightarrow> s' = s \<and> r = Inr x" "nlift r s = (s', Inl (Raised e)) \<longleftrightarrow> s' = s \<and> r = Inl e"
  "nlift r s \<noteq> (s', Inl (Unavailable rc))"
  by (auto simp: nlift_def split: sum.splits)

lemma nbnd_nlift [simp]: "nbnd (nlift (Inr x)) f = f x"
  by (simp add: nbnd_def fun_eq_iff)

lemma or_unavailable_nlift [simp]: "or_unavailable w tc (nlift (Inr x)) = nlift (Inr x)"
  by (simp add: or_unavailable_def fun_eq_iff)

lemma nbnd_eq_Inr: "nbnd m f s = (s', Inr y) \<longleftrightarrow> (\<exists>s1 x. m s = (s1, Inr x) \<and> f x s1 = (s', Inr y))"
  by (auto simp: nbnd_def split: prod.splits sum.splits)

lemma nbnd_eq_Inl:
  "nbnd m f s = (s', Inl e) \<longleftrightarrow> m s = (s', Inl e) \<or> (\<exists>s1 x. m s = (s1, Inr x) \<and> f x s1 = (s', Inl e))"
  by (auto simp: nbnd_def split: prod.splits sum.splits)

lemmas nbnd_eq = nbnd_eq_Inr nbnd_eq_Inl

section \<open>Profiles and snapshots\<close>

definition sound_profile :: "ModelInferenceProfile \<Rightarrow> bool" where
  "sound_profile p \<longleftrightarrow> \<not> blank (im_profile_ref p) \<and> 0 < im_profile_version p
     \<and> 0 < im_maximum_input_tokens p \<and> 0 < im_maximum_output_tokens p \<and> 0 < im_maximum_elapsed_ms p
     \<and> 0 < im_timeout_ms p \<and> im_timeout_ms p \<le> im_maximum_elapsed_ms p
     \<and> 0 \<le> im_input_token_cost_microunits p \<and> 0 \<le> im_output_token_cost_microunits p
     \<and> im_maximum_input_tokens p * im_input_token_cost_microunits p
        + im_maximum_output_tokens p * im_output_token_cost_microunits p \<le> im_maximum_cost_microunits p"

lemma each_positive: "each (\<lambda>v. require_positive_exact_integer (PInt v)) xs = Inr w \<longleftrightarrow> list_all (\<lambda>v. 0 < v) xs"
  by (induction xs) (auto simp: require_positive_exact_integer_eq)

lemma validated_profile_sound: "validate_profile_fields canon p = Inr w \<Longrightarrow> sound_profile p"
  by (auto simp: validate_profile_fields_def sound_profile_def each_positive validators
      simp del: require_positive_exact_integer.simps require_nonnegative_exact_integer.simps require_nonblank.simps
      split: if_splits)

lemma as_invalid_profile_eq [simp]: "as_invalid_profile r = Inr x \<longleftrightarrow> r = Inr x"
  by (auto simp: as_invalid_profile_def split: sum.splits if_splits)

lemma intact_profile_sound: "require_profile_integrity canon dumps p = Inr w \<Longrightarrow> sound_profile p"
  by (auto simp: require_profile_integrity_def dest: validated_profile_sound)

lemma snapshot_profile_Inr: "snapshot_profile canon dumps p = Inr q \<Longrightarrow> q = p \<and> sound_profile p"
  by (auto simp: snapshot_profile_def ModelInferenceProfile_post_init_def dest: intact_profile_sound split: if_splits)

text \<open>A snapshot repeats the request: its payload, its digest and its projections.\<close>

lemma seal_request_snapshot_eq [simp]:
  "seal_request_snapshot op p payload stored digest items projections maximum = Inr q \<longleftrightarrow>
     stored = Exact payload \<and> digest = payload_digest_of payload
     \<and> q = \<lparr>qs_operation = op, qs_profile = p, qs_payload = payload, qs_payload_digest = payload_digest_of payload,
            qs_input_items = items, qs_projections = projections, qs_maximum_items = maximum\<rparr>"
  by (auto simp: seal_request_snapshot_def)

definition faithful_snapshot :: "scope_heap \<Rightarrow> InferenceRequest \<Rightarrow> RequestSnapshot \<Rightarrow> bool" where
  "faithful_snapshot h request q \<longleftrightarrow> qs_operation q = request_operation request
     \<and> qs_profile q = request_profile request \<and> im_operation (qs_profile q) = qs_operation q
     \<and> request_payload request = Exact (qs_payload q) \<and> qs_payload_digest q = payload_digest_of (qs_payload q)
     \<and> qs_projections q = request_projections request
     \<and> (\<forall>x \<in> set (qs_projections q). require_active_authorized_projection h x = Inr ())
     \<and> (case request of SelectRequest r \<Rightarrow> qs_maximum_items q = Some (lq_maximum_items r) | _ \<Rightarrow> True)"

lemma identify_Inr:
  assumes "identify canon dumps h request = Inr q"
  shows "faithful_snapshot h request q \<and> sound_profile (qs_profile q)"
proof -
  from assms have "snapshot_profile canon dumps (request_profile request) = Inr (request_profile request)"
    "request_snapshot dumps h request (request_profile request) = Inr q" "qs_operation q = request_operation request"
    by (auto simp: identify_def dest: snapshot_profile_Inr)
  then show ?thesis
    using snapshot_profile_Inr [of canon dumps "request_profile request"]
    by (cases request)
      (auto simp: faithful_snapshot_def rewrite_snapshot_def rerank_snapshot_def select_snapshot_def
        require_projections_def validators simp del: require_nonblank.simps require_positive_exact_integer.simps
        split: if_splits)
qed

section \<open>Receipts\<close>

definition context_ok :: "TraceContext \<Rightarrow> bool" where
  "context_ok tc \<longleftrightarrow> \<not> blank (tc_profile_ref tc) \<and> 0 < tc_profile_version tc \<and> is_sha256_hex (tc_input_digest tc)"

lemma payload_digest_shape: "is_sha256_hex (payload_digest_of payload)"
  by (simp add: payload_digest_of_def sha256_hexdigest_shape)

lemma receipt_for_ok:
  assumes "context_ok tc" "\<forall>d. od = Some d \<longrightarrow> is_sha256_hex d"
  shows "\<exists>rc. receipt_for tc category od usage = Inr rc \<and> it_budget_usage rc = usage \<and> it_outcome_category rc = category
    \<and> it_input_digest rc = tc_input_digest tc"
  using assms by (cases od) (auto simp: receipt_for_def ModelInferenceTraceReceipt_post_init_def context_ok_def validators)

lemma snapshot_context_ok: "faithful_snapshot h request q \<Longrightarrow> sound_profile (qs_profile q) \<Longrightarrow> context_ok (snapshot_context q)"
  by (simp add: context_ok_def snapshot_context_def faithful_snapshot_def sound_profile_def payload_digest_shape)

lemma fallback_context_ok: "fallback_trace_context canon dumps request = Inr tc \<Longrightarrow> context_ok tc"
  by (auto simp: fallback_trace_context_def Let_def context_ok_def payload_digest_shape UNAVAILABLE_PROFILE_REF_def u_def
      blank_iff is_space_def sound_profile_def dest!: intact_profile_sound split: sum.splits if_splits)

text \<open>Emitting in a sound context traces one receipt and raises it.\<close>

lemma emit_unavailable_ok:
  assumes "context_ok tc"
  obtains rc where "emit_unavailable w tc usage s = (record_effect (Trace rc) s, Inl (Unavailable rc))"
    "it_budget_usage rc = usage" "it_outcome_category rc = UNAVAILABLE"
proof -
  from receipt_for_ok [OF assms, of None UNAVAILABLE usage] obtain rc where
    "receipt_for tc UNAVAILABLE None usage = Inr rc" "it_budget_usage rc = usage" "it_outcome_category rc = UNAVAILABLE" by auto
  then show thesis using that by (simp add: emit_unavailable_def)
qed

section \<open>The reservation\<close>

text \<open>A reservation that is cancelled leaves no trace in the meter; a commit leaves exactly its charge.\<close>

lemma reserve_and_release:
  assumes inv: "meter_inv (m, rs)" and "valid_usage maximum" and res: "meter_reserve m rs maximum = Inr (m1, rs1, rid)"
  shows "meter_inv (m1, rs1) \<and> meter_owns m1 rs1 rid \<and> r_active (rs1 ! rid) \<and> r_maximum (rs1 ! rid) = maximum
    \<and> m_tokenizer m1 = m_tokenizer m
    \<and> (\<exists>rs2. meter_cancel m1 rs1 rid = Inr (m, rs2) \<and> meter_inv (m, rs2))
    \<and> (\<forall>x. valid_usage x \<and> \<not> exceeds x maximum \<longrightarrow>
         (\<exists>rs2. meter_commit m1 rs1 rid x = Inr (m\<lparr>m_usage := usage_plus (m_usage m) x\<rparr>, rs2)
            \<and> meter_inv (m\<lparr>m_usage := usage_plus (m_usage m) x\<rparr>, rs2)))"
proof -
  let ?r = "\<lparr>r_meter = meter_id m, r_maximum = maximum, r_active = True\<rparr>"
  have eq: "m1 = m\<lparr>m_reserved := usage_plus (total_outstanding m rs) maximum\<rparr>" "rs1 = rs @ [?r]" "rid = length rs"
    using res by (simp_all add: meter_reserve_cases [OF assms(1,2)] split: if_splits)
  have inv1: "meter_inv (m1, rs1)" by (rule meter_reserve_inv [OF assms])
  have own: "meter_owns m1 rs1 rid" "r_active (rs1 ! rid)" "r_maximum (rs1 ! rid) = maximum"
    by (simp_all add: eq meter_owns_def)
  have "total_outstanding m1 (rs1[rid := (rs1 ! rid)\<lparr>r_active := False\<rparr>]) = m_reserved m"
    using inv by (simp add: eq total_outstanding_append owned_active_def meter_inv.simps)
  then have "meter_cancel m1 rs1 rid = Inr (m, rs1[rid := (rs1 ! rid)\<lparr>r_active := False\<rparr>])"
    "\<And>x. valid_usage x \<Longrightarrow> \<not> exceeds x maximum \<Longrightarrow> meter_commit m1 rs1 rid x
       = Inr (m\<lparr>m_usage := usage_plus (m_usage m) x\<rparr>, rs1[rid := (rs1 ! rid)\<lparr>r_active := False\<rparr>])"
    using own by (simp_all add: meter_cancel_cases [OF inv1] meter_commit_cases [OF inv1] Let_def)
      (simp_all add: eq)
  moreover have "m_tokenizer m1 = m_tokenizer m" by (simp add: eq)
  ultimately show ?thesis using inv1 own meter_cancel_inv [OF inv1] meter_commit_inv [OF inv1] by blast
qed

section \<open>The stages of a call\<close>

text \<open>What an admitted call has established.\<close>

definition admitted ::
  "ModelInferencePort \<Rightarrow> RequestSnapshot \<Rightarrow> EgressGrant foreign \<Rightarrow> ModelInferenceEgressBinding foreign \<Rightarrow> PackageBudgetMeter
    \<Rightarrow> Admission \<Rightarrow> bool"
where
  "admitted port q grant egress m a \<longleftrightarrow>
     (\<exists>v e n. grant = Exact (ModelEgressGrant v) \<and> egress = Exact e
        \<and> map_of (ip_profiles port) (profile_key (qs_profile q)) = Some (qs_profile q)
        \<and> redemption_for_model (ModelEgressGrant v) (ib_organization_id e) (ib_package_digest e) (qs_payload_digest q)
             (ib_purpose e) (ib_audience_digest e) (ib_policy_epoch e) (im_egress_profile (qs_profile q)) = Inr (ia_redemption a)
        \<and> m_tokenizer_ref m = Some (im_tokenizer_ref (qs_profile q))
        \<and> m_release_generation m = Some (ib_release_generation e)
        \<and> count_token_bytes m (qs_payload q) = Inr n \<and> ia_input_tokens a = int n
        \<and> int n \<le> im_maximum_input_tokens (qs_profile q) \<and> qs_input_items q \<le> im_maximum_input_items (qs_profile q)
        \<and> valid_usage (ia_maximum a)
        \<and> ia_maximum a = \<lparr>tokens = int n + im_maximum_output_tokens (qs_profile q), provider_calls = 1,
            cost_microunits = int n * im_input_token_cost_microunits (qs_profile q)
              + im_maximum_output_tokens (qs_profile q) * im_output_token_cost_microunits (qs_profile q),
            elapsed_ms = im_maximum_elapsed_ms (qs_profile q)\<rparr>)"

lemma reserve_maximum_eq:
  "reserve_maximum maximum s = (s', Inr rid) \<longleftrightarrow>
     (\<exists>m' rs'. meter_reserve (fst (ns_ledger s)) (snd (ns_ledger s)) maximum = Inr (m', rs', rid)
        \<and> s' = s\<lparr>ns_ledger := (m', rs')\<rparr>)"
  by (auto simp: reserve_maximum_def split: prod.splits sum.splits)

lemma emit_not_Inr: "emit_unavailable w tc usage s \<noteq> (s', Inr x)"
  by (simp add: emit_unavailable_def split: sum.splits)

lemma require_tokenizer_eq:
  "require_tokenizer m ref digest g = Inr w \<longleftrightarrow>
     m_tokenizer_ref m = Some ref \<and> m_tokenizer_profile_digest m = Some digest \<and> m_release_generation m = Some g"
  by (auto simp: require_tokenizer_def)

lemma opaque_grant_value: "require_opaque_grant pre (PStr v) = Inr v' \<Longrightarrow> v' = v"
  by (simp split: if_splits)

lemma admit_granted_Inr:
  assumes "admit_granted w tc q e v s = (s', Inr a)"
  shows "\<exists>n m' rs'. redemption_for_model (ModelEgressGrant v) (ib_organization_id e) (ib_package_digest e) (qs_payload_digest q)
        (ib_purpose e) (ib_audience_digest e) (ib_policy_epoch e) (im_egress_profile (qs_profile q)) = Inr (ia_redemption a)
    \<and> count_token_bytes (fst (ns_ledger s)) (qs_payload q) = Inr n \<and> ia_input_tokens a = int n
    \<and> int n \<le> im_maximum_input_tokens (qs_profile q) \<and> qs_input_items q \<le> im_maximum_input_items (qs_profile q)
    \<and> valid_usage (ia_maximum a)
    \<and> ia_maximum a = \<lparr>tokens = int n + im_maximum_output_tokens (qs_profile q), provider_calls = 1,
        cost_microunits = int n * im_input_token_cost_microunits (qs_profile q)
          + im_maximum_output_tokens (qs_profile q) * im_output_token_cost_microunits (qs_profile q),
        elapsed_ms = im_maximum_elapsed_ms (qs_profile q)\<rparr>
    \<and> meter_reserve (fst (ns_ledger s)) (snd (ns_ledger s)) (ia_maximum a) = Inr (m', rs', ia_reservation a)
    \<and> s' = s\<lparr>ns_ledger := (m', rs')\<rparr>"
  using assms
  by (auto simp: admit_granted_def Let_def nbnd_eq_Inr reserve_maximum_eq emit_not_Inr BudgetUsage_init_eq
      simp del: require_opaque_grant.simps dest!: opaque_grant_value split: if_splits)

lemma admit_Inr:
  assumes "admit w port tc q grant egress s = (s', Inr a)" "im_operation (qs_profile q) = qs_operation q"
  shows "admitted port q grant egress (fst (ns_ledger s)) a
    \<and> (\<exists>m' rs'. meter_reserve (fst (ns_ledger s)) (snd (ns_ledger s)) (ia_maximum a) = Inr (m', rs', ia_reservation a)
         \<and> s' = s\<lparr>ns_ledger := (m', rs')\<rparr>)"
proof -
  from assms obtain e where e: "snapshot_egress_binding egress = Inr e"
    "require_tokenizer (fst (ns_ledger s)) (im_tokenizer_ref (qs_profile q)) (im_tokenizer_profile_digest (qs_profile q))
      (ib_release_generation e) = Inr ()"
    "map_of (ip_profiles port) (profile_key (qs_profile q)) = Some (qs_profile q)"
    "(case grant of Exact (ModelEgressGrant v) \<Rightarrow> admit_granted w tc q e v | _ \<Rightarrow> emit_unavailable w tc EMPTY_USAGE) s = (s', Inr a)"
    by (auto simp: admit_def Let_def nbnd_eq_Inr profile_key_def split: if_splits)
  from e(4) obtain v where v: "grant = Exact (ModelEgressGrant v)" "admit_granted w tc q e v s = (s', Inr a)"
    by (auto simp: emit_not_Inr split: foreign.splits EgressGrant.splits)
  have "egress = Exact e" using e(1)
    by (cases egress) (auto simp: ModelInferenceEgressBinding_post_init_def)
  with admit_granted_Inr [OF v(2)] e(2,3) v(1) show ?thesis
    unfolding admitted_def require_tokenizer_eq by blast
qed

section \<open>Refusals\<close>

text \<open>A refusal traces one receipt without any charge, and changes nothing else.\<close>

definition refused :: "inference_state \<Rightarrow> inference_state \<Rightarrow> inference_error \<Rightarrow> bool" where
  "refused s s' x \<longleftrightarrow> (\<exists>rc. x = Unavailable rc \<and> s' = record_effect (Trace rc) s \<and> it_budget_usage rc = EMPTY_USAGE
     \<and> it_outcome_category rc = UNAVAILABLE)"

lemma emit_refused: "context_ok tc \<Longrightarrow> emit_unavailable w tc EMPTY_USAGE s = (s', Inl x) \<Longrightarrow> refused s s' x"
  using receipt_for_ok [of tc None UNAVAILABLE EMPTY_USAGE] by (auto simp: emit_unavailable_def refused_def)

lemma refusal_simps [simp]: "refusal ValueError" "refusal TypeError" "refusal TokenizerUnavailable" "refusal PackageBudgetExceeded"
  "refusal UnicodeEncodeError"
  by (simp_all add: refusal_def)

definition input_error :: "exn \<Rightarrow> bool" where
  "input_error e \<longleftrightarrow> e = TypeError \<or> is_value_error e"

lemma input_error_simps [simp]: "input_error ValueError" "input_error TypeError"
  by (simp_all add: input_error_def)

lemma input_error_refusal: "raises_only input_error r \<Longrightarrow> raises_only refusal r"
  by (auto simp: raises_only_def input_error_def refusal_def)

lemma check_input:
  "raises_only input_error (require_nonblank v)" "raises_only input_error (require_sha256_hex v)"
  "raises_only input_error (require_positive_exact_integer v)" "raises_only input_error (require_nonnegative_exact_integer v)"
  "raises_only input_error (require_opaque_grant pre v)"
  by (cases v; simp add: require_nonblank.simps require_sha256_hex.simps require_opaque_grant.simps
      require_positive_exact_integer.simps require_nonnegative_exact_integer.simps)+

lemmas check_raises = check_input [THEN input_error_refusal]

lemma each_raises: "(\<And>x. raises_only P (f x)) \<Longrightarrow> raises_only P (each f xs)"
  by (induction xs) (auto intro!: raises)

lemma usage_raises: "raises_only refusal (BudgetUsage_init a b c d)" "raises_only refusal (usage_sum x y)"
  "raises_only refusal (meter_reserve m rs x)"
  by (auto simp: BudgetUsage_init_def usage_sum_def meter_reserve_def intro!: raises check_raises)

lemma redemption_raises: "raises_only refusal (redemption_for_model g org pd payload purp ad ep p)"
  by (auto simp: redemption_for_model_def EgressGrantRedemption_post_init_def check_binding_def check_hop_def grant_digest_def
      utf8_encode_def intro!: raises check_raises each_raises split: EgressGrant.split option.split)

lemma admission_raises:
  "raises_only refusal (snapshot_egress_binding egress)" "raises_only refusal (require_tokenizer m r d g)"
  "raises_only refusal (count_token_bytes m b)"
  by (cases egress; auto simp: ModelInferenceEgressBinding_post_init_def require_tokenizer_def count_token_bytes_def
      tokenizer_count_bytes_def tokenizer_count_def intro!: raises check_raises split: option.split)+

text \<open>How a stage may end without a result: refused with a receipt, or with an expected exception.\<close>

definition declined :: "inference_state \<Rightarrow> inference_state \<times> (inference_error + 'a) \<Rightarrow> bool" where
  "declined s r \<longleftrightarrow> (\<forall>s' x. r = (s', Inl x) \<longrightarrow> refused s s' x \<or> s' = s \<and> (\<exists>e. x = Raised e \<and> refusal e))"

lemma declined_nbnd:
  "raises_only refusal r \<Longrightarrow> (\<And>x. r = Inr x \<Longrightarrow> declined s (f x s)) \<Longrightarrow> declined s (nbnd (nlift r) f s)"
  by (cases r) (auto simp: declined_def nbnd_def)

lemma declined_emit: "context_ok tc \<Longrightarrow> declined s (emit_unavailable w tc EMPTY_USAGE s)"
  by (simp add: declined_def emit_refused)

lemma declined_if: "(c \<Longrightarrow> declined s (f s)) \<Longrightarrow> (\<not> c \<Longrightarrow> declined s (g s)) \<Longrightarrow> declined s ((if c then f else g) s)"
  by simp

lemma declined_reserve: "declined s (nbnd (reserve_maximum x) (\<lambda>rid. nlift (Inr (g rid))) s)"
  using usage_raises(3) [of "fst (ns_ledger s)" "snd (ns_ledger s)" x]
  by (auto simp: declined_def nbnd_def reserve_maximum_def raises_only_def split: prod.splits sum.splits)

lemma declined_admit: "context_ok tc \<Longrightarrow> declined s (admit w port tc q grant egress s)"
proof -
  assume tc: "context_ok tc"
  have "declined s (admit_granted w tc q e v s)" for e v
    unfolding admit_granted_def Let_def
    by (intro declined_nbnd declined_if declined_reserve declined_emit tc check_raises redemption_raises admission_raises
        usage_raises)
  then have "declined s ((case grant of Exact (ModelEgressGrant v) \<Rightarrow> admit_granted w tc q e v
      | _ \<Rightarrow> emit_unavailable w tc EMPTY_USAGE) s)" for e
    using declined_emit [OF tc] by (auto split: foreign.split EgressGrant.split)
  then show ?thesis
    by (auto simp: admit_def Let_def intro!: declined_nbnd admission_raises) (simp add: declined_def)
qed

lemma or_unavailable_Inl:
  assumes "context_ok tc" "declined s (f s)" "or_unavailable w tc f s = (s', Inl x)"
  shows "refused s s' x"
  using assms emit_refused [OF assms(1)]
  by (auto simp: or_unavailable_def declined_def refused_def split: prod.splits sum.splits inference_error.splits if_splits)

lemma or_unavailable_Inr: "or_unavailable w tc f s = (s', Inr x) \<longleftrightarrow> f s = (s', Inr x)"
  by (auto simp: or_unavailable_def emit_not_Inr split: prod.splits sum.splits inference_error.splits if_splits)

text \<open>What the validation of a request may raise, when the serialiser raises value errors only.\<close>

lemma profile_input:
  assumes "\<And>d. raises_only is_value_error (dumps d)"
  shows "raises_only input_error (require_profile_integrity canon dumps p)" "raises_only input_error (snapshot_profile canon dumps p)"
proof -
  have d: "raises_only input_error (dumps x)" for x using assms [of x] by (auto simp: raises_only_def input_error_def)
  have v: "raises_only input_error (validate_profile_fields canon p)" for p
    unfolding validate_profile_fields_def ModelEgressProfile_post_init_def ModelInferenceRetryPolicy_post_init_def
    by (intro raises check_input each_raises) simp_all
  have a: "raises_only input_error (as_invalid_profile r)" if "raises_only input_error r" for r :: "unit res"
    using that by (auto simp: as_invalid_profile_def raises_only_def split: sum.splits if_splits)
  show r: "raises_only input_error (require_profile_integrity canon dumps p)"
    unfolding require_profile_integrity_def profile_integrity_digest_def by (intro raises a v d) simp_all
  show "raises_only input_error (snapshot_profile canon dumps p)"
    unfolding snapshot_profile_def ModelInferenceProfile_post_init_def ModelEgressProfile_post_init_def
      ModelInferenceRetryPolicy_post_init_def profile_integrity_digest_def
    by (intro raises r v d check_input each_raises) simp_all
qed

lemma projection_raises: "raises_only refusal (require_projections h xs)"
proof -
  have "raises_only refusal (require_active_authorized_projection h x)" for x
    using require_active_raises [of h x] by auto
  then show ?thesis unfolding require_projections_def by (intro raises each_raises) simp_all
qed

lemma identify_raises:
  assumes "\<And>d. raises_only is_value_error (dumps d)"
  shows "raises_only refusal (identify canon dumps h request)"
proof -
  have d: "raises_only refusal (dumps x)" for x using assms [of x] by (auto simp: raises_only_def refusal_def)
  have "raises_only refusal (request_snapshot dumps h request p)" for p
    unfolding rewrite_snapshot_def rerank_snapshot_def select_snapshot_def
    by (cases request; simp only: request_snapshot.simps rewrite_snapshot_def rerank_snapshot_def select_snapshot_def
        rewrite_payload_def projection_payload_def model_payload_def seal_request_snapshot_def;
        intro raises d check_raises projection_raises; simp)
  with profile_input(2) [OF assms, THEN input_error_refusal] show ?thesis
    unfolding identify_def by (intro raises) simp_all
qed

lemma fallback_returns:
  assumes "\<And>d. raises_only is_value_error (dumps d)"
  shows "\<exists>tc. fallback_trace_context canon dumps request = Inr tc"
proof -
  have "e = TypeError \<or> is_value_error e" if "require_profile_integrity canon dumps p = Inl e" for p e
    using profile_input(1) [where canon = canon and p = p, OF assms] that by (simp add: raises_only_def input_error_def)
  then show ?thesis by (auto simp: fallback_trace_context_def Let_def bnd_eq_Inl split: sum.splits if_splits)
qed

section \<open>Settlement\<close>

text \<open>
  The meter after a call is the meter before it plus the usage of a receipt: no reservation of
  the call is left, and the invariant of the meter holds.
\<close>

definition charged :: "inference_state \<Rightarrow> inference_state \<Rightarrow> ModelInferenceTraceReceipt \<Rightarrow> bool" where
  "charged s s' rc \<longleftrightarrow> meter_inv (ns_ledger s')
     \<and> fst (ns_ledger s') = (fst (ns_ledger s))\<lparr>m_usage := usage_plus (m_usage (fst (ns_ledger s))) (it_budget_usage rc)\<rparr>"

lemma usage_plus_empty [simp]: "usage_plus x EMPTY_USAGE = x"
  by (simp add: usage_plus_def EMPTY_USAGE_def)

lemma record_effect_simps [simp]:
  "ns_ledger (record_effect e s) = ns_ledger s" "ns_effects (record_effect e s) = ns_effects s @ [e]"
  by (simp_all add: record_effect_def)

lemma refused_charged: "refused s s' x \<Longrightarrow> meter_inv (ns_ledger s) \<Longrightarrow>
    \<exists>rc. x = Unavailable rc \<and> charged s s' rc \<and> it_budget_usage rc = EMPTY_USAGE
      \<and> ns_effects s' = ns_effects s @ [Trace rc]"
  by (auto simp: refused_def charged_def)

text \<open>The state of a call that holds a reservation: \<open>s\<close> is the state before it.\<close>

definition holds :: "inference_state \<Rightarrow> inference_state \<Rightarrow> Admission \<Rightarrow> bool" where
  "holds s s1 a \<longleftrightarrow> meter_inv (ns_ledger s) \<and> valid_usage (ia_maximum a)
     \<and> meter_reserve (fst (ns_ledger s)) (snd (ns_ledger s)) (ia_maximum a)
        = Inr (fst (ns_ledger s1), snd (ns_ledger s1), ia_reservation a)"

lemma holds_settles:
  assumes "holds s s1 a"
  shows "\<exists>rs2. meter_cancel (fst (ns_ledger s1)) (snd (ns_ledger s1)) (ia_reservation a) = Inr (fst (ns_ledger s), rs2)
      \<and> meter_inv (fst (ns_ledger s), rs2)"
    and "\<lbrakk>valid_usage x; \<not> exceeds x (ia_maximum a)\<rbrakk> \<Longrightarrow>
      \<exists>rs2. meter_commit (fst (ns_ledger s1)) (snd (ns_ledger s1)) (ia_reservation a) x
        = Inr ((fst (ns_ledger s))\<lparr>m_usage := usage_plus (m_usage (fst (ns_ledger s))) x\<rparr>, rs2)
      \<and> meter_inv ((fst (ns_ledger s))\<lparr>m_usage := usage_plus (m_usage (fst (ns_ledger s))) x\<rparr>, rs2)"
proof -
  have "meter_inv (fst (ns_ledger s), snd (ns_ledger s))" "valid_usage (ia_maximum a)"
    "meter_reserve (fst (ns_ledger s)) (snd (ns_ledger s)) (ia_maximum a)
      = Inr (fst (ns_ledger s1), snd (ns_ledger s1), ia_reservation a)"
    using assms by (simp_all add: holds_def)
  note r = reserve_and_release [OF this]
  then show "\<exists>rs2. meter_cancel (fst (ns_ledger s1)) (snd (ns_ledger s1)) (ia_reservation a) = Inr (fst (ns_ledger s), rs2)
      \<and> meter_inv (fst (ns_ledger s), rs2)" by blast
  show "\<exists>rs2. meter_commit (fst (ns_ledger s1)) (snd (ns_ledger s1)) (ia_reservation a) x
        = Inr ((fst (ns_ledger s))\<lparr>m_usage := usage_plus (m_usage (fst (ns_ledger s))) x\<rparr>, rs2)
      \<and> meter_inv ((fst (ns_ledger s))\<lparr>m_usage := usage_plus (m_usage (fst (ns_ledger s))) x\<rparr>, rs2)"
    if "valid_usage x" "\<not> exceeds x (ia_maximum a)" using r that by blast
qed

lemma cancel_and_emit_charged:
  assumes "holds s s1 a" "context_ok tc" "cancel_and_emit w tc a s1 = (s', r)"
  shows "\<exists>rc. r = Inl (Unavailable rc) \<and> charged s s' rc \<and> it_budget_usage rc = EMPTY_USAGE
    \<and> ns_effects s' = ns_effects s1 @ [Trace rc]"
proof -
  obtain rs2 where "meter_cancel (fst (ns_ledger s1)) (snd (ns_ledger s1)) (ia_reservation a) = Inr (fst (ns_ledger s), rs2)"
    "meter_inv (fst (ns_ledger s), rs2)" using holds_settles(1) [OF assms(1)] by blast
  with assms(3) receipt_for_ok [OF assms(2), of None UNAVAILABLE EMPTY_USAGE] show ?thesis
    by (auto simp: cancel_and_emit_def emit_unavailable_def charged_def split: prod.splits)
qed

lemma redeem_grant_Inl:
  assumes "holds s s1 a" "context_ok tc" "redeem_grant w tc a s1 = (s', Inl x)"
  shows "\<exists>rc redeems. x = Unavailable rc \<and> charged s s' rc \<and> it_budget_usage rc = EMPTY_USAGE
    \<and> (redeems = [] \<or> redeems = [Redeem (ia_redemption a)]) \<and> ns_effects s' = ns_effects s1 @ redeems @ [Trace rc]"
proof -
  have "holds s (record_effect (Redeem (ia_redemption a)) s1) a" using assms(1) by (simp add: holds_def)
  note c = cancel_and_emit_charged [OF assms(1,2)] cancel_and_emit_charged [OF this assms(2)]
  from assms(3) consider "cancel_and_emit w tc a s1 = (s', Inl x :: inference_error + pyval)"
    | "cancel_and_emit w tc a (record_effect (Redeem (ia_redemption a)) s1) = (s', Inl x :: inference_error + pyval)"
    by (auto simp: redeem_grant_def Let_def split: sum.splits if_splits)
  then show ?thesis
  proof cases
    case 1
    from c(1) [OF this] show ?thesis by auto
  next
    case 2
    from c(2) [OF this] show ?thesis by auto
  qed
qed

lemma redeem_grant_Inr:
  "redeem_grant w tc a s1 = (s', Inr t) \<Longrightarrow>
     iw_started_ms w = Inr t \<and> iw_redeem w (ia_redemption a) = Inr (PBool True)
     \<and> s' = record_effect (Redeem (ia_redemption a)) s1"
  by (auto simp: redeem_grant_def Let_def cancel_and_emit_def emit_not_Inr split: sum.splits if_splits prod.splits)

text \<open>What a successful call is charged never exceeds what was reserved for it.\<close>

lemma charged_call_Inr:
  assumes "charged_call w m q a t parse = Inr (y, actual, raw)" "admitted port q grant egress m0 a" "sound_profile (qs_profile q)"
  shows "valid_usage actual \<and> \<not> exceeds actual (ia_maximum a) \<and> parse raw q = Inr y
    \<and> iw_gateway w (qs_payload q) (im_timeout_ms (qs_profile q)) = Finished (Inr (Exact raw))"
proof -
  from assms(1) obtain k where c: "call_gateway_bounded w (qs_payload q) (im_timeout_ms (qs_profile q)) = Inr raw"
    "elapsed_ms actual \<le> im_timeout_ms (qs_profile q)" "int k \<le> im_maximum_output_tokens (qs_profile q)"
    "parse raw q = Inr y" "ia_input_tokens a + int k = tokens actual" "provider_calls actual = 1"
    "ia_input_tokens a * im_input_token_cost_microunits (qs_profile q)
       + int k * im_output_token_cost_microunits (qs_profile q) = cost_microunits actual" "valid_usage actual"
    by (auto simp: charged_call_def Let_def BudgetUsage_init_eq split: if_splits)
  have "int k * im_output_token_cost_microunits (qs_profile q)
      \<le> im_maximum_output_tokens (qs_profile q) * im_output_token_cost_microunits (qs_profile q)"
    using c(3) assms(3) by (intro mult_right_mono) (simp_all add: sound_profile_def)
  with c assms(2,3) have "\<not> exceeds actual (ia_maximum a)" by (auto simp: exceeds_def admitted_def sound_profile_def)
  moreover have "iw_gateway w (qs_payload q) (im_timeout_ms (qs_profile q)) = Finished (Inr (Exact raw))"
    using c(1) by (simp add: call_gateway_bounded_def split: gateway_answer.splits sum.splits foreign.splits)
  ultimately show ?thesis using c by blast
qed


lemma settle_call_charged:
  assumes "holds s s1 a" "context_ok tc" "admitted port q grant egress m0 a" "sound_profile (qs_profile q)"
    "settle_call w tc q a t parse s1 = (s', out)"
  shows "\<exists>rc traces. charged s s' rc
    \<and> ns_effects s' = ns_effects s1 @ Call (qs_payload q) (im_timeout_ms (qs_profile q)) # map Trace (traces @ [rc])
    \<and> (out = Inl (Unavailable rc)
       \<or> traces = [] \<and> (\<exists>y raw. out = Inr (y, rc) \<and> parse raw q = Inr y \<and> it_outcome_category rc = SUCCEEDED
            \<and> iw_gateway w (qs_payload q) (im_timeout_ms (qs_profile q)) = Finished (Inr (Exact raw))))"
proof -
  let ?m = "fst (ns_ledger s1)" and ?rs = "snd (ns_ledger s1)" and ?rid = "ia_reservation a"
  let ?call = "Call (qs_payload q) (im_timeout_ms (qs_profile q))"
  show ?thesis
  proof (cases "charged_call w ?m q a t parse")
    case (Inl e)
    have "valid_usage (ia_maximum a)" using assms(1) by (simp add: holds_def)
    then obtain rs2 where "meter_commit ?m ?rs ?rid (ia_maximum a)
        = Inr ((fst (ns_ledger s))\<lparr>m_usage := usage_plus (m_usage (fst (ns_ledger s))) (ia_maximum a)\<rparr>, rs2)"
      "meter_inv ((fst (ns_ledger s))\<lparr>m_usage := usage_plus (m_usage (fst (ns_ledger s))) (ia_maximum a)\<rparr>, rs2)"
      using holds_settles(2) [OF assms(1)] by (auto simp: exceeds_def)
    with assms(5) Inl receipt_for_ok [OF assms(2), of None UNAVAILABLE "ia_maximum a"] show ?thesis
      by (auto simp: settle_call_def Let_def emit_unavailable_def charged_def split: prod.splits intro!: exI [of _ "[]"])
  next
    case (Inr z)
    obtain y actual raw where z: "z = (y, actual, raw)" by (cases z) auto
    note c = charged_call_Inr [OF Inr [unfolded z] assms(3,4)]
    then obtain rs2 where commit: "meter_commit ?m ?rs ?rid actual
        = Inr ((fst (ns_ledger s))\<lparr>m_usage := usage_plus (m_usage (fst (ns_ledger s))) actual\<rparr>, rs2)"
      "meter_inv ((fst (ns_ledger s))\<lparr>m_usage := usage_plus (m_usage (fst (ns_ledger s))) actual\<rparr>, rs2)"
      using holds_settles(2) [OF assms(1)] by blast
    let ?od = "Some (sha256_hexdigest (INFERENCE_OUTPUT_DIGEST_DOMAIN @ raw))"
    obtain rc where rc: "receipt_for tc SUCCEEDED ?od actual = Inr rc" "it_budget_usage rc = actual" "it_outcome_category rc = SUCCEEDED"
      using receipt_for_ok [OF assms(2), of ?od SUCCEEDED actual] sha256_hexdigest_shape by auto
    let ?s2 = "(record_effect ?call s1)\<lparr>ns_ledger := ((fst (ns_ledger s))\<lparr>m_usage := usage_plus (m_usage (fst (ns_ledger s))) actual\<rparr>, rs2)\<rparr>"
    show ?thesis
    proof (cases "iw_observe w (ns_effects ?s2) rc")
      case Inl': (Inl e)
      with assms(5) Inr z commit rc receipt_for_ok [OF assms(2), of None UNAVAILABLE actual] show ?thesis
        by (auto simp: settle_call_def Let_def emit_unavailable_def charged_def split: prod.splits intro!: exI [of _ "[rc]"])
    next
      case Inr': (Inr e)
      with assms(5) Inr z commit rc c show ?thesis
        by (auto simp: settle_call_def Let_def charged_def split: prod.splits intro!: exI [of _ rc] exI [of _ "[]"])
    qed
  qed
qed


text \<open>
  The whole call. It ends before the gateway with at most a redemption and one receipt, or it
  has called the gateway once, right after the redemption, and traced one or two receipts.
\<close>

definition not_called ::
  "inference_state \<Rightarrow> inference_state \<Rightarrow> ModelInferenceTraceReceipt \<Rightarrow> inference_error + 'a \<Rightarrow> bool"
where
  "not_called s s' rc out \<longleftrightarrow> out = Inl (Unavailable rc) \<and> it_budget_usage rc = EMPTY_USAGE
     \<and> (ns_effects s' = ns_effects s @ [Trace rc] \<or> (\<exists>r. ns_effects s' = ns_effects s @ [Redeem r, Trace rc]))"

definition called ::
  "scope_heap \<Rightarrow> ModelInferencePort \<Rightarrow> inference_world \<Rightarrow> InferenceRequest \<Rightarrow> EgressGrant foreign
    \<Rightarrow> ModelInferenceEgressBinding foreign \<Rightarrow> (bytes \<Rightarrow> RequestSnapshot \<Rightarrow> 'a res) \<Rightarrow> inference_state \<Rightarrow> inference_state
    \<Rightarrow> ModelInferenceTraceReceipt \<Rightarrow> inference_error + 'a \<times> ModelInferenceTraceReceipt \<Rightarrow> bool"
where
  "called h port w request grant egress parse s s' rc out \<longleftrightarrow>
     (\<exists>q a traces. faithful_snapshot h request q \<and> sound_profile (qs_profile q)
        \<and> admitted port q grant egress (fst (ns_ledger s)) a
        \<and> iw_redeem w (ia_redemption a) = Inr (PBool True)
        \<and> ns_effects s' = ns_effects s @ Redeem (ia_redemption a)
            # Call (qs_payload q) (im_timeout_ms (qs_profile q)) # map Trace (traces @ [rc])
        \<and> (out = Inl (Unavailable rc)
           \<or> traces = [] \<and> (\<exists>y raw. out = Inr (y, rc) \<and> parse raw q = Inr y \<and> it_outcome_category rc = SUCCEEDED
                \<and> iw_gateway w (qs_payload q) (im_timeout_ms (qs_profile q)) = Finished (Inr (Exact raw)))))"

lemma admitted_outcome:
  assumes q: "faithful_snapshot h request q" "sound_profile (qs_profile q)"
    and a: "admit w port (snapshot_context q) q grant egress s = (s1, Inr a)" and inv: "meter_inv (ns_ledger s)"
    and run: "nbnd (redeem_grant w (snapshot_context q) a) (\<lambda>t. settle_call w (snapshot_context q) q a t parse) s1 = (s', out)"
  shows "\<exists>rc. charged s s' rc \<and> (not_called s s' rc out \<or> called h port w request grant egress parse s s' rc out)"
proof -
  have op: "im_operation (qs_profile q) = qs_operation q" using q(1) unfolding faithful_snapshot_def by metis
  note ad = admit_Inr [OF a op] and tc = snapshot_context_ok [OF q]
  then have holds: "holds s s1 a" "ns_effects s1 = ns_effects s" using inv by (auto simp: holds_def admitted_def)
  show ?thesis
  proof (cases "redeem_grant w (snapshot_context q) a s1")
    case (Pair s2 r)
    show ?thesis
    proof (cases r)
      case (Inl x)
      with run Pair have "redeem_grant w (snapshot_context q) a s1 = (s', Inl x)" "out = Inl x" by (simp_all add: nbnd_def)
      with redeem_grant_Inl [OF holds(1) tc] holds(2) show ?thesis unfolding not_called_def by fastforce
    next
      case (Inr t)
      note r = redeem_grant_Inr [OF Pair [unfolded Inr]]
      then have h2: "holds s s2 a" using holds(1) by (simp add: holds_def)
      from run Pair Inr have "settle_call w (snapshot_context q) q a t parse s2 = (s', out)" by (simp add: nbnd_def)
      from settle_call_charged [OF h2 tc conjunct1 [OF ad] q(2) this] r holds(2) q ad show ?thesis
        unfolding called_def by fastforce
    qed
  qed
qed

lemma execute_outcome:
  assumes run: "execute canon dumps h port w request grant egress parse s = (s', out)"
    and inv: "meter_inv (ns_ledger s)" and dumps: "\<And>d. raises_only is_value_error (dumps d)"
  shows "\<exists>rc. charged s s' rc \<and> (not_called s s' rc out \<or> called h port w request grant egress parse s s' rc out)"
proof -
  obtain fb where fb: "fallback_trace_context canon dumps request = Inr fb"
    using fallback_returns [where dumps = dumps, OF dumps] by blast
  note fb_ok = fallback_context_ok [OF fb]
  have refuse: ?thesis if "refused s s' x" "out = Inl x" for x
    using refused_charged [OF that(1) inv] that(2) unfolding not_called_def by blast
  show ?thesis
  proof (cases "identify canon dumps h request")
    case (Inl e)
    have "declined s (nlift (Inl e) s :: _ \<times> (_ + RequestSnapshot))"
      using identify_raises [where dumps = dumps and canon = canon and h = h and request = request, OF dumps] Inl
      by (simp add: declined_def)
    moreover from run fb Inl obtain x where x: "or_unavailable w fb (nlift (Inl e :: RequestSnapshot res)) s = (s', Inl x)" "out = Inl x"
      by (auto simp: execute_def nbnd_def or_unavailable_def nlift_def emit_not_Inr split: prod.splits sum.splits if_splits)
    ultimately show ?thesis using refuse or_unavailable_Inl [OF fb_ok] by blast
  next
    case (Inr q)
    note q = identify_Inr [OF Inr]
    let ?tc = "snapshot_context q"
    have tc: "context_ok ?tc" using snapshot_context_ok q by blast
    from run fb Inr have run1: "nbnd (or_unavailable w ?tc (admit w port ?tc q grant egress)) (\<lambda>a.
        nbnd (redeem_grant w ?tc a) (\<lambda>t. settle_call w ?tc q a t parse)) s = (s', out)"
      by (simp add: execute_def Let_def)
    show ?thesis
    proof (cases "\<exists>s1 a. admit w port ?tc q grant egress s = (s1, Inr a)")
      case False
      then obtain x where "or_unavailable w ?tc (admit w port ?tc q grant egress) s = (s', Inl x)" "out = Inl x"
        using run1 by (cases "or_unavailable w ?tc (admit w port ?tc q grant egress) s")
          (auto simp: nbnd_def or_unavailable_Inr split: sum.splits)
      then show ?thesis using refuse or_unavailable_Inl [where f = "admit w port ?tc q grant egress", OF tc declined_admit [OF tc]]
        by blast
    next
      case True
      then obtain s1 a where a: "admit w port ?tc q grant egress s = (s1, Inr a)" by blast
      with run1 have "nbnd (redeem_grant w ?tc a) (\<lambda>t. settle_call w ?tc q a t parse) s1 = (s', out)"
        by (simp add: nbnd_def or_unavailable_def)
      with admitted_outcome [OF conjunct1 [OF q] conjunct2 [OF q] a inv] show ?thesis by blast
    qed
  qed
qed


section \<open>Answers\<close>

lemma json_ints_eq: "json_ints vs = Some is \<longleftrightarrow> vs = map JInt is"
  by (induction vs arbitrary: "is" rule: json_ints.induct) (auto simp: Cons_eq_map_conv)

lemma only_list_eq: "only_list k document = Inr vs \<longleftrightarrow> document = [(k, JArr vs)]"
  by (auto simp: only_list_def split: list.splits json.splits if_splits)

lemma parse_order_Inr:
  assumes "parse_order raw q = Inr ys"
  shows "\<exists>is. mset is = mset [0..<length (qs_projections q)] \<and> ys = map (\<lambda>i. qs_projections q ! i) is"
proof -
  from assms obtain ks where ks: "sort ks = map int [0..<length (qs_projections q)]"
    "ys = map (\<lambda>i. qs_projections q ! nat i) ks"
    by (auto simp: parse_order_def split: option.splits if_splits)
  then have "mset ks = image_mset int (mset [0..<length (qs_projections q)])" by (metis mset_map mset_sort)
  then have "mset (map nat ks) = mset [0..<length (qs_projections q)]" by (simp add: image_mset.compositionality comp_def)
  with ks(2) show ?thesis by (intro exI [of _ "map nat ks"]) simp
qed

lemma parse_selected_Inr:
  assumes "parse_selected raw q = Inr ys"
  shows "\<exists>is n. distinct is \<and> set is \<subseteq> {..<length (qs_projections q)} \<and> qs_maximum_items q = Some n \<and> int (length is) \<le> n
    \<and> ys = map (\<lambda>i. qs_projections q ! i) is"
proof -
  from assms obtain ks n where ks: "distinct ks" "\<forall>i \<in> set ks. 0 \<le> i \<and> i < int (length (qs_projections q))"
    "qs_maximum_items q = Some n" "int (length ks) \<le> n" "ys = map (\<lambda>i. qs_projections q ! nat i) ks"
    by (auto simp: parse_selected_def json_ints_eq only_list_eq list_ex_iff split: option.splits if_splits)
  then have "distinct (map nat ks)" unfolding distinct_map inj_on_def by (metis eq_nat_nat_iff)
  moreover have "set (map nat ks) \<subseteq> {..<length (qs_projections q)}" using ks(2) by auto
  ultimately show ?thesis using ks(3-5) by (intro exI [of _ "map nat ks"] exI [of _ n]) simp
qed

lemma parse_rewrites_Inr:
  "parse_rewrites raw q = Inr ts \<Longrightarrow> ts \<noteq> [] \<and> int (length ts) \<le> im_maximum_output_items (qs_profile q) \<and> \<not> list_ex blank ts"
proof -
  have len: "json_texts vs = Some ts \<Longrightarrow> length ts = length vs" for vs ts
    by (induction vs arbitrary: ts rule: json_texts.induct) auto
  assume "parse_rewrites raw q = Inr ts"
  then obtain vs where "1 \<le> length vs" "int (length vs) \<le> im_maximum_output_items (qs_profile q)" "json_texts vs = Some ts"
    "\<not> list_ex blank ts"
    by (auto simp: parse_rewrites_def split: option.splits if_splits)
  with len [of vs ts] show ?thesis by auto
qed

text \<open>The text of an order is understood.\<close>

lemma parse_order_text:
  assumes "mset is = mset [0..<length (qs_projections q)]"
  shows "parse_order (utf8_surrogatepass (json_text (JObj [(u ''order'', JArr (map (\<lambda>i. JInt (int i)) is))]))) q
    = Inr (map (\<lambda>i. qs_projections q ! i) is)"
proof -
  let ?v = "JObj [(u ''order'', JArr (map (\<lambda>i. JInt (int i)) is))]"
  have "list_all unicode_scalar (u ''order'')" by (simp add: u_def unicode_scalar_def is_surrogate_def)
  then have "writable_json ?v" by (simp add: list_all_iff)
  then have "loads reject_duplicates (utf8_surrogatepass (json_text ?v)) = Inr ?v" by (rule loads_json_text)
  moreover have "sort (map int is) = map int [0..<length (qs_projections q)]"
  proof -
    have "mset (map int is) = mset (map int [0..<length (qs_projections q)])" using assms by (metis mset_map)
    moreover have "sorted (map int [0..<length (qs_projections q)])" by (simp add: sorted_iff_nth_mono)
    ultimately show ?thesis by (metis properties_for_sort mset_sort sorted_sort)
  qed
  moreover have "json_ints (map (\<lambda>i. JInt (int i)) is) = Some (map int is)" by (induction "is") simp_all
  ultimately show ?thesis by (simp add: parse_order_def parse_closed_document_def only_list_def comp_def del: json_text.simps)
qed

lemma count_visible: "list_all visible_ascii t \<Longrightarrow> tokenizer_count_bytes (utf8_surrogatepass t) = Inr (length t)"
proof -
  assume t: "list_all visible_ascii t"
  then have "list_all code_point t" "\<not> list_ex is_surrogate t"
    by (auto simp: list_all_iff list_ex_iff visible_ascii_def code_point_def is_surrogate_def)
  then show ?thesis
    using utf8_decode_units [of t False] by (simp add: tokenizer_count_bytes_def tokenizer_count_def unat_utf8)
qed


section \<open>A call that succeeds\<close>

lemma registered_profiles:
  "register_profiles canon dumps reg ps = Inr reg' \<Longrightarrow> distinct (map fst reg) \<Longrightarrow>
     reg' = reg @ map (\<lambda>p. (profile_key p, p)) ps \<and> distinct (map fst reg')"
proof (induction ps arbitrary: reg)
  case (Cons p ps)
  then have "profile_key p \<notin> set (map fst reg)" and run: "register_profiles canon dumps (reg @ [(profile_key p, p)]) ps = Inr reg'"
    by (auto dest!: snapshot_profile_Inr split: if_splits)
  with Cons.prems(2) have "distinct (map fst (reg @ [(profile_key p, p)]))" by simp
  note ih = Cons.IH [OF run this]
  from conjunct1 [OF ih] have "reg' = reg @ map (\<lambda>p. (profile_key p, p)) (p # ps)" by simp
  with conjunct2 [OF ih] show ?case by (intro conjI)
qed simp

lemma registered_lookup:
  assumes "ModelInferencePort_init canon dumps ps = Inr port" "p \<in> set ps"
  shows "map_of (ip_profiles port) (profile_key p) = Some p"
proof -
  from assms(1) have "register_profiles canon dumps [] ps = Inr (ip_profiles port)"
    by (auto simp: ModelInferencePort_init_def split: if_splits)
  with registered_profiles [of canon dumps "[]" ps] assms(2) show ?thesis
    by (intro map_of_is_SomeI) (auto simp: image_iff)
qed

lemma intact_profile_snapshot:
  assumes "require_profile_integrity canon dumps p = Inr ()"
  shows "snapshot_profile canon dumps p = Inr p"
proof -
  from assms have v: "validate_profile_fields canon p = Inr ()" and d: "profile_integrity_digest dumps p = Inr (im_integrity_digest p)"
    by (auto simp: require_profile_integrity_def split: if_splits)
  from v have "ModelEgressProfile_post_init (im_egress_profile p) = Inr ()"
    "ModelInferenceRetryPolicy_post_init (im_retry_policy p) = Inr ()"
    by (auto simp: validate_profile_fields_def simp del: require_positive_exact_integer.simps require_nonnegative_exact_integer.simps
        require_nonblank.simps split: if_splits)
  with assms v d show ?thesis by (simp add: snapshot_profile_def ModelInferenceProfile_post_init_def)
qed

lemma rerank_identified:
  assumes "RerankModelRequest_init canon dumps h p text' xs = Inr request" "kq_payload request = Exact payload"
  shows "require_profile_integrity canon dumps p = Inr ()" and "im_operation p = RERANK"
    and "identify canon dumps h (RerankRequest request) = Inr \<lparr>qs_operation = RERANK, qs_profile = p, qs_payload = payload,
      qs_payload_digest = payload_digest_of payload, qs_input_items = int (length xs), qs_projections = xs, qs_maximum_items = None\<rparr>"
proof -
  from assms show i: "require_profile_integrity canon dumps p = Inr ()" "im_operation p = RERANK"
    by (auto simp: RerankModelRequest_init_def split: if_splits)
  from assms intact_profile_snapshot [OF i(1)]
  show "identify canon dumps h (RerankRequest request) = Inr \<lparr>qs_operation = RERANK, qs_profile = p, qs_payload = payload,
      qs_payload_digest = payload_digest_of payload, qs_input_items = int (length xs), qs_projections = xs, qs_maximum_items = None\<rparr>"
    by (auto simp: RerankModelRequest_init_def identify_def rerank_snapshot_def seal_request_snapshot_def require_nonblank_eq
        simp del: require_nonblank.simps split: if_splits)
qed

definition maximum_usage :: "ModelInferenceProfile \<Rightarrow> nat \<Rightarrow> BudgetUsage" where
  "maximum_usage p n = \<lparr>tokens = int n + im_maximum_output_tokens p, provider_calls = 1,
     cost_microunits = int n * im_input_token_cost_microunits p + im_maximum_output_tokens p * im_output_token_cost_microunits p,
     elapsed_ms = im_maximum_elapsed_ms p\<rparr>"

text \<open>The conditions under which a call is admitted, and that it then is.\<close>

lemma admit_succeeds:
  assumes "map_of (ip_profiles port) (profile_key (qs_profile q)) = Some (qs_profile q)" "im_operation (qs_profile q) = qs_operation q"
    "ModelInferenceEgressBinding_post_init e = Inr e" "ns_ledger s = (m, rs)" "meter_inv (m, rs)"
    "require_tokenizer m (im_tokenizer_ref (qs_profile q)) (im_tokenizer_profile_digest (qs_profile q)) (ib_release_generation e) = Inr ()"
    "require_opaque_grant MODEL_EGRESS_GRANT_PREFIX (PStr v) = Inr v"
    "redemption_for_model (ModelEgressGrant v) (ib_organization_id e) (ib_package_digest e) (qs_payload_digest q) (ib_purpose e)
       (ib_audience_digest e) (ib_policy_epoch e) (im_egress_profile (qs_profile q)) = Inr redemption"
    "count_token_bytes m (qs_payload q) = Inr n" "int n \<le> im_maximum_input_tokens (qs_profile q)"
    "qs_input_items q \<le> im_maximum_input_items (qs_profile q)" "sound_profile (qs_profile q)"
    "fits (m_budget m) (usage_plus (usage_plus (m_usage m) (m_reserved m)) (maximum_usage (qs_profile q) n))"
  shows "\<exists>s1 a. admit w port tc q (Exact (ModelEgressGrant v)) (Exact e) s = (s1, Inr a)"
proof -
  have valid: "valid_usage (maximum_usage (qs_profile q) n)"
    using assms(12) by (auto simp: valid_usage_def maximum_usage_def sound_profile_def)
  have "m_reserved m = total_outstanding m rs" using assms(5) by (simp add: meter_inv.simps)
  then obtain m' rs' rid where r: "meter_reserve m rs (maximum_usage (qs_profile q) n) = Inr (m', rs', rid)"
    using meter_reserve_cases [OF assms(5) valid] assms(13) by simp
  have "BudgetUsage_init (PInt (int n + im_maximum_output_tokens (qs_profile q))) (PInt 1)
      (PInt (int n * im_input_token_cost_microunits (qs_profile q)
        + im_maximum_output_tokens (qs_profile q) * im_output_token_cost_microunits (qs_profile q)))
      (PInt (im_maximum_elapsed_ms (qs_profile q))) = Inr (maximum_usage (qs_profile q) n)"
    using valid by (simp add: BudgetUsage_init_eq maximum_usage_def)
  with assms r show ?thesis
    by (simp add: admit_def admit_granted_def Let_def profile_key_def reserve_maximum_def nbnd_def [of "reserve_maximum _"]
        del: require_opaque_grant.simps)
qed


text \<open>An admitted call whose grant is redeemed and whose gateway answers in time and in bounds succeeds.\<close>

lemma settle_succeeds:
  assumes h: "holds s s1 a" "context_ok tc" "admitted port q grant egress m0 a" "sound_profile (qs_profile q)"
    and "iw_gateway w (qs_payload q) (im_timeout_ms (qs_profile q)) = Finished (Inr (Exact raw))"
    and "iw_finished_ms w = Inr (PInt t1)" "t0 \<le> t1" "t1 - t0 \<le> im_timeout_ms (qs_profile q)"
    and "count_token_bytes (fst (ns_ledger s1)) raw = Inr k" "int k \<le> im_maximum_output_tokens (qs_profile q)"
    and "parse raw q = Inr y" and "\<And>es rc. iw_observe w es rc = Inr ()"
  shows "\<exists>s' rc. settle_call w tc q a (PInt t0) parse s1 = (s', Inr (y, rc)) \<and> it_outcome_category rc = SUCCEEDED"
proof -
  let ?p = "qs_profile q" and ?m = "fst (ns_ledger s1)"
  obtain n where n: "ia_input_tokens a = int n" using assms(3) by (auto simp: admitted_def)
  let ?x = "\<lparr>tokens = int n + int k, provider_calls = 1,
     cost_microunits = int n * im_input_token_cost_microunits ?p + int k * im_output_token_cost_microunits ?p, elapsed_ms = t1 - t0\<rparr>"
  have "valid_usage ?x" using assms(4,7) by (auto simp: valid_usage_def sound_profile_def)
  then have c: "charged_call w ?m q a (PInt t0) parse = Inr (y, ?x, raw)"
    using assms n by (simp add: charged_call_def Let_def call_gateway_bounded_def elapsed_between_def BudgetUsage_init_eq)
  from charged_call_Inr [OF c assms(3,4)] obtain rs2 where
    "meter_commit ?m (snd (ns_ledger s1)) (ia_reservation a) ?x
      = Inr ((fst (ns_ledger s))\<lparr>m_usage := usage_plus (m_usage (fst (ns_ledger s))) ?x\<rparr>, rs2)"
    using holds_settles(2) [OF h(1)] by blast
  moreover obtain rc where "receipt_for tc SUCCEEDED (Some (sha256_hexdigest (INFERENCE_OUTPUT_DIGEST_DOMAIN @ raw))) ?x = Inr rc"
    "it_outcome_category rc = SUCCEEDED"
    using receipt_for_ok [OF h(2), of "Some (sha256_hexdigest (INFERENCE_OUTPUT_DIGEST_DOMAIN @ raw))" SUCCEEDED ?x] sha256_hexdigest_shape
    by auto
  moreover obtain m1 rs1 where "ns_ledger s1 = (m1, rs1)" by fastforce
  ultimately show ?thesis using c assms(12) by (simp add: settle_call_def Let_def)
qed

lemma execute_succeeds:
  assumes "identify canon dumps h request = Inr q" "require_profile_integrity canon dumps (request_profile request) = Inr ()"
    and "im_operation (request_profile request) = request_operation request"
    and "admit w port (snapshot_context q) q grant egress s = (s1, Inr a)" "meter_inv (ns_ledger s)"
    and "iw_started_ms w = Inr (PInt t0)" "\<And>r. iw_redeem w r = Inr (PBool True)"
    and "iw_gateway w (qs_payload q) (im_timeout_ms (qs_profile q)) = Finished (Inr (Exact raw))"
    and "iw_finished_ms w = Inr (PInt t1)" "t0 \<le> t1" "t1 - t0 \<le> im_timeout_ms (qs_profile q)"
    and "count_token_bytes (fst (ns_ledger s)) raw = Inr k" "int k \<le> im_maximum_output_tokens (qs_profile q)"
    and "parse raw q = Inr y" and "\<And>es rc. iw_observe w es rc = Inr ()"
  shows "\<exists>s' rc. execute canon dumps h port w request grant egress parse s = (s', Inr (y, rc)) \<and> it_outcome_category rc = SUCCEEDED"
proof -
  note q = conjunct1 [OF identify_Inr [OF assms(1)]] conjunct2 [OF identify_Inr [OF assms(1)]]
  have op: "im_operation (qs_profile q) = qs_operation q" using q(1) unfolding faithful_snapshot_def by metis
  note ad = admit_Inr [OF assms(4) op]
  obtain m' rs' where res: "meter_reserve (fst (ns_ledger s)) (snd (ns_ledger s)) (ia_maximum a) = Inr (m', rs', ia_reservation a)"
    "s1 = s\<lparr>ns_ledger := (m', rs')\<rparr>" using ad by blast
  let ?s2 = "record_effect (Redeem (ia_redemption a)) s1"
  have holds: "holds s ?s2 a" using assms(5) ad res by (auto simp: holds_def admitted_def)
  have "m_tokenizer m' = m_tokenizer (fst (ns_ledger s))"
    using res(1) by (auto simp: meter_reserve_def split: if_splits)
  then have k: "count_token_bytes (fst (ns_ledger ?s2)) raw = Inr k" using assms(12) res(2) by (simp add: count_token_bytes_def)
  have red: "redeem_grant w (snapshot_context q) a s1 = (?s2, Inr (PInt t0))"
    using assms(6,7) by (simp add: redeem_grant_def Let_def)
  have fb: "\<exists>fb. fallback_trace_context canon dumps request = Inr fb"
    using assms(2,3) by (simp add: fallback_trace_context_def Let_def)
  from settle_succeeds [where parse = parse and raw = raw and q = q, OF holds snapshot_context_ok [OF q] conjunct1 [OF ad] q(2) assms(8-11) k assms(13-15)] obtain s' rc where
    "settle_call w (snapshot_context q) q a (PInt t0) parse ?s2 = (s', Inr (y, rc))" "it_outcome_category rc = SUCCEEDED" by blast
  with fb assms(1,4) red show ?thesis
    by (auto simp: execute_def Let_def nbnd_def [of "or_unavailable _ _ _"] nbnd_def [of "redeem_grant _ _ _"] or_unavailable_def [of _ _ "admit _ _ _ _ _ _"])
qed

end
