(* ===== verification/Inference_Guarantees.thy ===== *)
theory Inference_Guarantees
  imports Inference_Safety
begin

text \<open>
  The guarantees of \<open>src/engine/runtime/model_inference.py\<close>, stated on whole calls: a payload
  leaves only under its own redeemed grant, the meter is charged what the last receipt says, an
  answer is confined to what was sent, and a well-formed call that is answered in time returns.
\<close>

section \<open>A call that is answered\<close>

text \<open>A bound grant of a valid shape always has a redemption.\<close>

lemma opaque_grant_encodes:
  assumes "require_opaque_grant MODEL_EGRESS_GRANT_PREFIX (PStr v) = Inr v"
  shows "\<exists>d. grant_digest (ModelEgressGrant v) = Inr d \<and> length d = 32"
proof -
  from assms have "str_startswith v (u ''egrm_'')" and hex: "list_all is_hex (drop 5 v)"
    by (simp_all add: require_opaque_grant_eq MODEL_EGRESS_GRANT_PREFIX_def u_def del: require_opaque_grant.simps)
  then have "take 5 v = u ''egrm_''" by (simp add: str_startswith_def u_def eval_nat_numeral)
  moreover note hex
  moreover have "\<not> is_surrogate c" if "is_hex c" for c
    using that by (auto simp: is_hex_def is_digit_def is_surrogate_def)
  ultimately have "\<not> list_ex is_surrogate (take 5 v @ drop 5 v)"
    by (auto simp: list_ex_iff list_all_iff u_def is_surrogate_def)
  then show ?thesis by (simp add: grant_digest_def utf8_encode_def)
qed

lemma redemption_succeeds:
  assumes "require_opaque_grant MODEL_EGRESS_GRANT_PREFIX (PStr v) = Inr v" "ModelInferenceEgressBinding_post_init e = Inr e"
    and "ModelEgressProfile_post_init p = Inr ()" "is_sha256_hex digest"
  shows "\<exists>r. redemption_for_model (ModelEgressGrant v) (ib_organization_id e) (ib_package_digest e) digest (ib_purpose e)
    (ib_audience_digest e) (ib_policy_epoch e) p = Inr r"
proof -
  obtain d where "grant_digest (ModelEgressGrant v) = Inr d" "length d = 32" using opaque_grant_encodes [OF assms(1)] by blast
  moreover have "is_sha256_hex (ib_package_digest e)" "is_sha256_hex (ib_audience_digest e)" "\<not> blank (ib_purpose e)"
    "\<not> ib_policy_epoch e < 1"
    using assms(2) by (auto simp: ModelInferenceEgressBinding_post_init_def validators)
  ultimately show ?thesis using assms(3,4)
    by (auto simp: redemption_for_model_def EgressGrantRedemption_post_init_def check_binding_def check_hop_def model_binding_def
        ModelEgressProfile_post_init_def validators u_def split: if_splits)
qed

definition order_answer :: "nat list \<Rightarrow> str" where
  "order_answer is = json_text (JObj [(u ''order'', JArr (map (\<lambda>i. JInt (int i)) is))])"

lemma order_answer_counted: "tokenizer_count_bytes (utf8_surrogatepass (order_answer is)) = Inr (length (order_answer is))"
proof -
  have "list_all unicode_scalar (u ''order'')" by (simp add: u_def unicode_scalar_def is_surrogate_def)
  then have "writable_json (JObj [(u ''order'', JArr (map (\<lambda>i. JInt (int i)) is))])" by (simp add: list_all_iff)
  from count_visible [OF json_text_visible_ascii [OF this]] show ?thesis unfolding order_answer_def .
qed

lemma answered_rerank:
  assumes port: "ModelInferencePort_init canon dumps ps = Inr port" "p \<in> set ps"
    and request: "RerankModelRequest_init canon dumps h p text' xs = Inr request" "kq_payload request = Exact payload"
    and egress: "ModelInferenceEgressBinding_post_init e = Inr e" "require_opaque_grant MODEL_EGRESS_GRANT_PREFIX (PStr v) = Inr v"
    and meter: "ns_ledger s = (m, rs)" "meter_inv (m, rs)" "m_tokenizer m \<noteq> None"
      "require_tokenizer m (im_tokenizer_ref p) (im_tokenizer_profile_digest p) (ib_release_generation e) = Inr ()"
    and input: "tokenizer_count_bytes payload = Inr n" "int n \<le> im_maximum_input_tokens p"
      "int (length xs) \<le> im_maximum_input_items p"
      "fits (m_budget m) (usage_plus (usage_plus (m_usage m) (m_reserved m)) (maximum_usage p n))"
    and clock: "iw_started_ms w = Inr (PInt t0)" "iw_finished_ms w = Inr (PInt t1)" "t0 \<le> t1" "t1 - t0 \<le> im_timeout_ms p"
    and world: "\<And>r. iw_redeem w r = Inr (PBool True)" "\<And>es rc. iw_observe w es rc = Inr ()"
      "iw_gateway w payload (im_timeout_ms p) = Finished (Inr (Exact (utf8_surrogatepass (order_answer is))))"
    and answer: "mset is = mset [0..<length xs]" "int (length (order_answer is)) \<le> im_maximum_output_tokens p"
  shows "\<exists>s' rc. execute canon dumps h port w (RerankRequest request) (Exact (ModelEgressGrant v)) (Exact e) parse_order s
    = (s', Inr (map (\<lambda>i. xs ! i) is, rc)) \<and> it_outcome_category rc = SUCCEEDED"
proof -
  note i = rerank_identified [OF request]
  let ?q = "\<lparr>qs_operation = RERANK, qs_profile = p, qs_payload = payload, qs_payload_digest = payload_digest_of payload,
    qs_input_items = int (length xs), qs_projections = xs, qs_maximum_items = None\<rparr>"
  have p: "request_profile (RerankRequest request) = p" using request(1) by (auto simp: RerankModelRequest_init_def split: if_splits)
  have count: "count_token_bytes m b = tokenizer_count_bytes b" for b using meter(3) by (auto simp: count_token_bytes_def)
  have "ModelEgressProfile_post_init (im_egress_profile p) = Inr ()"
    using i(1) by (auto simp: require_profile_integrity_def validate_profile_fields_def)
  from redemption_succeeds [OF egress(2,1) this payload_digest_shape] obtain redemption where
    "redemption_for_model (ModelEgressGrant v) (ib_organization_id e) (ib_package_digest e) (payload_digest_of payload) (ib_purpose e)
       (ib_audience_digest e) (ib_policy_epoch e) (im_egress_profile p) = Inr redemption" by blast
  with admit_succeeds [of port ?q e s m rs v redemption n w "snapshot_context ?q"] registered_lookup [OF port] i(2) egress meter input
    intact_profile_sound [OF i(1)]
  obtain s1 a where "admit w port (snapshot_context ?q) ?q (Exact (ModelEgressGrant v)) (Exact e) s = (s1, Inr a)"
    by (auto simp: count simp del: require_opaque_grant.simps)
  from execute_succeeds [where parse = parse_order and raw = "utf8_surrogatepass (order_answer is)", OF i(3) _ _ this _ clock(1) world(1)] world
    clock answer meter(1,2) i(1,2) p order_answer_counted parse_order_text [of "is" ?q]
  show ?thesis by (auto simp: count order_answer_def)
qed

section \<open>A concrete call\<close>

text \<open>
  One projection, a profile with room for it, a serialiser that writes the two bytes of an empty
  object, a gateway that answers the identity order.
\<close>

definition example_canon :: "json \<Rightarrow> str" where
  "example_canon = (\<lambda>_. u ''{}'')"

definition example_dumps :: "json \<Rightarrow> bytes res" where
  "example_dumps = (\<lambda>_. Inr (utf8_surrogatepass (u ''{}'')))"

definition example_rerank_profile :: ModelInferenceProfile where
  "example_rerank_profile = \<lparr>im_profile_ref = u ''p'', im_profile_version = 1, im_operation = RERANK,
     im_egress_profile = example_model_profile, im_tokenizer_ref = MODEL_INFERENCE_TOKENIZER_PROFILE example_canon,
     im_tokenizer_profile_digest = profile_digest (UNICODE_SCALAR_TOKENIZER_PROFILE example_canon),
     im_maximum_input_tokens = 10, im_maximum_output_tokens = 40, im_maximum_input_items = 4, im_maximum_output_items = 4,
     im_maximum_provider_calls = 1, im_maximum_cost_microunits = 50, im_maximum_elapsed_ms = 900, im_timeout_ms = 800,
     im_retry_policy = \<lparr>rp_maximum_attempts = 1, rp_backoff_ms = []\<rparr>, im_input_token_cost_microunits = 1,
     im_output_token_cost_microunits = 1, im_integrity_digest = sha256_hexdigest (utf8_surrogatepass (u ''{}''))\<rparr>"

definition example_rerank_request :: RerankModelRequest where
  "example_rerank_request = \<lparr>kq_profile = example_rerank_profile, kq_query = u ''q'', kq_projections = [example_projection],
     kq_payload_digest = payload_digest_of (utf8_surrogatepass (u ''{}'')), kq_payload = Exact (utf8_surrogatepass (u ''{}''))\<rparr>"

definition example_inference_binding :: ModelInferenceEgressBinding where
  "example_inference_binding = \<lparr>ib_organization_id = 1, ib_package_digest = replicate 64 48, ib_purpose = u ''answer'',
     ib_audience_digest = replicate 64 48, ib_policy_epoch = 1, ib_release_generation = 1\<rparr>"

definition example_inference_state :: inference_state where
  "example_inference_state = \<lparr>ns_ledger =
     (\<lparr>meter_id = 0, m_budget = \<lparr>max_tokens = 100, max_provider_calls = 1, max_cost_microunits = 100, max_elapsed_ms = 1000\<rparr>,
        m_reserved = EMPTY_USAGE, m_usage = EMPTY_USAGE,
        m_tokenizer_ref = Some (MODEL_INFERENCE_TOKENIZER_PROFILE example_canon),
        m_tokenizer_profile_digest = Some (profile_digest (UNICODE_SCALAR_TOKENIZER_PROFILE example_canon)),
        m_release_generation = Some 1, m_tokenizer = Some (UNICODE_SCALAR_TOKENIZER_PROFILE example_canon)\<rparr>, []),
     ns_effects = []\<rparr>"

definition example_inference_world :: inference_world where
  "example_inference_world = \<lparr>iw_started_ms = Inr (PInt 5), iw_redeem = \<lambda>_. Inr (PBool True),
     iw_gateway = \<lambda>_ _. Finished (Inr (Exact (utf8_surrogatepass (order_answer [0])))), iw_finished_ms = Inr (PInt 7),
     iw_observe = \<lambda>_ _. Inr ()\<rparr>"

definition example_model_grant :: str where
  "example_model_grant = u ''egrm_'' @ replicate 64 48"

definition example_inference_port :: ModelInferencePort where
  "example_inference_port = \<lparr>ip_profiles = [(profile_key example_rerank_profile, example_rerank_profile)]\<rparr>"

lemma example_dumps_eq: "example_dumps d = Inr (utf8_surrogatepass (u ''{}''))"
  by (simp add: example_dumps_def)

lemma example_dumps_raises: "raises_only is_value_error (example_dumps d)"
  by (simp add: example_dumps_def raises_only_def)

lemma example_profile_intact: "require_profile_integrity example_canon example_dumps example_rerank_profile = Inr ()"
  by (simp add: require_profile_integrity_def validate_profile_fields_def profile_integrity_digest_def example_rerank_profile_def
      example_dumps_def ModelEgressProfile_post_init_def ModelInferenceRetryPolicy_post_init_def example_model_profile_def
      as_invalid_profile_def u_def require_nonblank.simps blank_iff is_space_def)

lemma example_port_built: "ModelInferencePort_init example_canon example_dumps [example_rerank_profile] = Inr example_inference_port"
  by (simp add: ModelInferencePort_init_def intact_profile_snapshot [OF example_profile_intact] example_inference_port_def)

lemma example_request_built:
  "RerankModelRequest_init example_canon example_dumps [True] example_rerank_profile (u ''q'') [example_projection] = Inr example_rerank_request"
proof -
  have "im_operation example_rerank_profile = RERANK" by (simp add: example_rerank_profile_def)
  then show ?thesis
    by (simp add: RerankModelRequest_init_def example_profile_intact require_projections_def example_rerank_request_def
        constructed_projection_active [OF example_projection_constructed] projection_payload_def model_payload_def example_dumps_eq
        u_def require_nonblank.simps blank_iff is_space_def)
qed

lemma example_meter_inv: "meter_inv (ns_ledger example_inference_state)"
  by (simp add: example_inference_state_def meter_inv.simps total_outstanding_def outstanding_def fits_def usage_plus_def EMPTY_USAGE_def
      valid_usage_def)

lemma example_call:
  "kq_payload example_rerank_request = Exact (utf8_surrogatepass (u ''{}''))"
  "ModelInferenceEgressBinding_post_init example_inference_binding = Inr example_inference_binding"
  "require_opaque_grant MODEL_EGRESS_GRANT_PREFIX (PStr example_model_grant) = Inr example_model_grant"
  "tokenizer_count_bytes (utf8_surrogatepass (u ''{}'')) = Inr 2" "length (order_answer [0]) \<le> 40"
proof -
  show "kq_payload example_rerank_request = Exact (utf8_surrogatepass (u ''{}''))" by (simp add: example_rerank_request_def)
  have "is_sha256_hex (replicate 64 48)" by (simp add: is_sha256_hex_def is_hex_def is_digit_def list_all_iff)
  then show "ModelInferenceEgressBinding_post_init example_inference_binding = Inr example_inference_binding"
    by (simp add: ModelInferenceEgressBinding_post_init_def example_inference_binding_def validators u_def blank_iff is_space_def)
  show "require_opaque_grant MODEL_EGRESS_GRANT_PREFIX (PStr example_model_grant) = Inr example_model_grant"
    by (simp add: require_opaque_grant_eq example_model_grant_def MODEL_EGRESS_GRANT_PREFIX_def str_startswith_def u_def
        is_hex_def is_digit_def list_all_iff)
  show "tokenizer_count_bytes (utf8_surrogatepass (u ''{}'')) = Inr 2" using count_visible [of "u ''{}''"] by (simp add: u_def)
  show "length (order_answer [0]) \<le> 40" by (simp add: order_answer_def json_string_def json_char_def dec_int_def dec_nat.simps u_def)
qed

lemmas example_values = example_inference_state_def example_inference_world_def example_rerank_profile_def
  example_inference_binding_def require_tokenizer_def fits_def usage_plus_def EMPTY_USAGE_def maximum_usage_def

lemma example_execution:
  "\<exists>s' rc. execute example_canon example_dumps [True] example_inference_port example_inference_world (RerankRequest example_rerank_request)
     (Exact (ModelEgressGrant example_model_grant)) (Exact example_inference_binding) parse_order example_inference_state
   = (s', Inr ([example_projection], rc)) \<and> it_outcome_category rc = SUCCEEDED"
proof -
  have "\<exists>s' rc. execute example_canon example_dumps [True] example_inference_port example_inference_world (RerankRequest example_rerank_request)
     (Exact (ModelEgressGrant example_model_grant)) (Exact example_inference_binding) parse_order example_inference_state
   = (s', Inr (map (\<lambda>i. [example_projection] ! i) [0], rc)) \<and> it_outcome_category rc = SUCCEEDED"
    by (rule answered_rerank [OF example_port_built _ example_request_built example_call(1-3) prod.collapse [symmetric] _ _ _ example_call(4),
        where ?t0.0 = 5 and ?t1.0 = 7]) (use example_meter_inv example_call(5) in \<open>simp_all add: example_values\<close>)
  then show ?thesis by simp
qed

section \<open>Guarantees\<close>

lemma execute_called:
  assumes "execute canon dumps h port w request grant egress parse s = (s', out)"
    and "meter_inv (ns_ledger s)" and "\<And>d. raises_only is_value_error (dumps d)"
    and new: "Call payload t \<in> set (drop (length (ns_effects s)) (ns_effects s')) \<or> (\<exists>z. out = Inr z)"
  obtains q a traces where "faithful_snapshot h request q" "admitted port q grant egress (fst (ns_ledger s)) a"
    "iw_redeem w (ia_redemption a) = Inr (PBool True)"
    "ns_effects s' = ns_effects s @ Redeem (ia_redemption a) # Call (qs_payload q) (im_timeout_ms (qs_profile q)) # map Trace traces"
    "\<forall>y rc. out = Inr (y, rc) \<longrightarrow> it_outcome_category rc = SUCCEEDED \<and> (\<exists>raw. parse raw q = Inr y)"
proof -
  from execute_outcome [OF assms(1-3)] obtain rc where
    rc: "not_called s s' rc out \<or> called h port w request grant egress parse s s' rc out" by blast
  have "\<not> not_called s s' rc out" using new by (auto simp: not_called_def)
  with rc obtain q a traces where "faithful_snapshot h request q" "admitted port q grant egress (fst (ns_ledger s)) a"
    "iw_redeem w (ia_redemption a) = Inr (PBool True)"
    "ns_effects s' = ns_effects s @ Redeem (ia_redemption a)
       # Call (qs_payload q) (im_timeout_ms (qs_profile q)) # map Trace (traces @ [rc])"
    "\<forall>y rc. out = Inr (y, rc) \<longrightarrow> it_outcome_category rc = SUCCEEDED \<and> (\<exists>raw. parse raw q = Inr y)"
    unfolding called_def by blast
  then show thesis by (rule that)
qed

lemma example_called:
  obtains s' rc where "execute example_canon example_dumps [True] example_inference_port example_inference_world
      (RerankRequest example_rerank_request) (Exact (ModelEgressGrant example_model_grant)) (Exact example_inference_binding)
      parse_order example_inference_state = (s', Inr ([example_projection], rc))"
    "Call (utf8_surrogatepass (u ''{}'')) 800 \<in> set (ns_effects s')"
proof -
  obtain s' rc where run: "execute example_canon example_dumps [True] example_inference_port example_inference_world
      (RerankRequest example_rerank_request) (Exact (ModelEgressGrant example_model_grant)) (Exact example_inference_binding)
      parse_order example_inference_state = (s', Inr ([example_projection], rc))" using example_execution by blast
  have some: "\<exists>z. (Inr ([example_projection], rc) :: inference_error + _) = Inr z" by blast
  have "Call (utf8_surrogatepass (u ''{}'')) 800 \<in> set (ns_effects s')"
    by (rule execute_called [OF run example_meter_inv example_dumps_raises disjI2 [OF some]])
      (auto simp: faithful_snapshot_def example_rerank_request_def example_rerank_profile_def)
  with run that show thesis by blast
qed

text \<open>
  C19. A payload reaches a model only under its own grant. Whenever a call hands a payload to the
  gateway, that payload is the one sealed in the request, the timeout is the one of the request's
  profile, which the port registered; the grant is a model grant; the call that goes right before
  it redeemed this grant for exactly the digest of this payload, the caller's package, purpose,
  audience and policy epoch and the profile's provider and model, and the authority answered
  \<open>True\<close>; every projection in the request was active; and nothing else left in between.
\<close>

theorem model_call_is_granted:
  assumes "execute canon dumps h port w request grant egress parse s = (s', out)"
    and "meter_inv (ns_ledger s)" and "\<And>d. raises_only is_value_error (dumps d)"
    and "Call payload t \<in> set (drop (length (ns_effects s)) (ns_effects s'))"
  shows "\<exists>v e redemption traces. grant = Exact (ModelEgressGrant v) \<and> egress = Exact e
    \<and> request_payload request = Exact payload \<and> t = im_timeout_ms (request_profile request)
    \<and> map_of (ip_profiles port) (profile_key (request_profile request)) = Some (request_profile request)
    \<and> grant_digest (ModelEgressGrant v) = Inr (er_grant_digest redemption)
    \<and> er_binding redemption = model_binding (ib_organization_id e) (ib_package_digest e)
         (sha256_hexdigest (INFERENCE_DIGEST_DOMAIN @ payload)) (ib_purpose e) (ib_audience_digest e) (ib_policy_epoch e)
         (im_egress_profile (request_profile request))
    \<and> iw_redeem w redemption = Inr (PBool True)
    \<and> ns_effects s' = ns_effects s @ [Redeem redemption, Call payload t] @ map Trace traces
    \<and> (\<forall>x \<in> set (request_projections request). require_active_authorized_projection h x = Inr ())"
proof -
  obtain q a traces where q: "faithful_snapshot h request q" "admitted port q grant egress (fst (ns_ledger s)) a"
    "iw_redeem w (ia_redemption a) = Inr (PBool True)"
    "ns_effects s' = ns_effects s @ Redeem (ia_redemption a) # Call (qs_payload q) (im_timeout_ms (qs_profile q)) # map Trace traces"
    by (rule execute_called [OF assms(1-3) disjI1 [OF assms(4)]])
  from q(2) obtain v e where a: "grant = Exact (ModelEgressGrant v)" "egress = Exact e"
    "map_of (ip_profiles port) (profile_key (qs_profile q)) = Some (qs_profile q)"
    "redemption_for_model (ModelEgressGrant v) (ib_organization_id e) (ib_package_digest e) (qs_payload_digest q)
       (ib_purpose e) (ib_audience_digest e) (ib_policy_epoch e) (im_egress_profile (qs_profile q)) = Inr (ia_redemption a)"
    by (auto simp: admitted_def)
  have "payload = qs_payload q" "t = im_timeout_ms (qs_profile q)" using assms(4) q(4) by auto
  moreover have "grant_digest (ModelEgressGrant v) = Inr (er_grant_digest (ia_redemption a))"
    "er_binding (ia_redemption a) = model_binding (ib_organization_id e) (ib_package_digest e) (qs_payload_digest q)
       (ib_purpose e) (ib_audience_digest e) (ib_policy_epoch e) (im_egress_profile (qs_profile q))"
    using a(4) by (cases "ia_redemption a"; auto simp: redemption_for_model_def EgressGrantRedemption_post_init_def split: if_splits)+
  ultimately show ?thesis using q a
    by (intro exI [of _ v] exI [of _ e] exI [of _ "ia_redemption a"] exI [of _ traces])
      (auto simp: faithful_snapshot_def payload_digest_of_def)
qed

theorem model_call_is_granted_witness:
  "\<exists>s' rc redemption traces.
     execute example_canon example_dumps [True] example_inference_port example_inference_world (RerankRequest example_rerank_request)
       (Exact (ModelEgressGrant example_model_grant)) (Exact example_inference_binding) parse_order example_inference_state
     = (s', Inr ([example_projection], rc))
   \<and> eb_payload_digest (er_binding redemption) = sha256_hexdigest (INFERENCE_DIGEST_DOMAIN @ utf8_surrogatepass (u ''{}''))
   \<and> ns_effects s' = [Redeem redemption, Call (utf8_surrogatepass (u ''{}'')) 800] @ map Trace traces"
proof -
  obtain s' rc where run: "execute example_canon example_dumps [True] example_inference_port example_inference_world (RerankRequest example_rerank_request)
      (Exact (ModelEgressGrant example_model_grant)) (Exact example_inference_binding) parse_order example_inference_state
    = (s', Inr ([example_projection], rc))" "Call (utf8_surrogatepass (u ''{}'')) 800 \<in> set (ns_effects s')"
    using example_called by blast
  have none: "ns_effects example_inference_state = []" by (simp add: example_inference_state_def)
  from model_call_is_granted [OF run(1) example_meter_inv example_dumps_raises, of "utf8_surrogatepass (u ''{}'')" 800] run none
  show ?thesis by (auto simp: model_binding_def)
qed

text \<open>
  C20. Every call is accounted for. It ends with a result or with the one exception
  \<open>ModelInferenceUnavailable\<close>, whatever the gateway, the authority, the clock and the observer do;
  either way it carries the receipt that was traced last; the meter has grown by exactly the usage
  on this receipt, holds no reservation of the call and keeps its invariant; and a receipt without
  a gateway call shows no usage.
\<close>

theorem model_charge_is_traced:
  assumes "execute canon dumps h port w request grant egress parse s = (s', out)"
    and "meter_inv (ns_ledger s)" and "\<And>d. raises_only is_value_error (dumps d)"
  shows "\<exists>rc effects. (out = Inl (Unavailable rc) \<or> (\<exists>y. out = Inr (y, rc)))
    \<and> ns_effects s' = ns_effects s @ effects @ [Trace rc]
    \<and> meter_inv (ns_ledger s')
    \<and> fst (ns_ledger s') = (fst (ns_ledger s))\<lparr>m_usage := usage_plus (m_usage (fst (ns_ledger s))) (it_budget_usage rc)\<rparr>
    \<and> (it_budget_usage rc = EMPTY_USAGE \<or> (\<exists>payload t. Call payload t \<in> set effects))"
proof -
  from execute_outcome [OF assms] obtain rc where c: "charged s s' rc"
    and "not_called s s' rc out \<or> called h port w request grant egress parse s s' rc out" by blast
  then consider (refused) "not_called s s' rc out" | (reached) "called h port w request grant egress parse s s' rc out" by blast
  then show ?thesis
  proof cases
    case refused
    then obtain redeems where "ns_effects s' = ns_effects s @ redeems @ [Trace rc]" by (auto simp: not_called_def)
    with refused c show ?thesis unfolding charged_def not_called_def by blast
  next
    case reached
    then obtain q :: RequestSnapshot and a :: Admission and traces where q: "ns_effects s' = ns_effects s @ Redeem (ia_redemption a)
        # Call (qs_payload q) (im_timeout_ms (qs_profile q)) # map Trace (traces @ [rc])"
      and out: "out = Inl (Unavailable rc) \<or> (\<exists>y. out = Inr (y, rc))"
      unfolding called_def by blast
    let ?effects = "Redeem (ia_redemption a) # Call (qs_payload q) (im_timeout_ms (qs_profile q)) # map Trace traces"
    from q have "ns_effects s' = ns_effects s @ ?effects @ [Trace rc]" by simp
    with c out show ?thesis unfolding charged_def by (intro exI [of _ rc] exI [of _ ?effects]) auto
  qed
qed

theorem model_charge_is_traced_witness:
  "\<exists>s' rc. execute example_canon example_dumps [True] example_inference_port example_inference_world
      (RerankRequest example_rerank_request) (Exact (ModelEgressGrant example_model_grant)) (Exact example_inference_binding)
      parse_order example_inference_state = (s', Inr ([example_projection], rc))
    \<and> m_usage (fst (ns_ledger s')) = usage_plus EMPTY_USAGE (it_budget_usage rc) \<and> meter_inv (ns_ledger s')
    \<and> last (ns_effects s') = Trace rc"
proof -
  obtain s' rc where run: "execute example_canon example_dumps [True] example_inference_port example_inference_world
      (RerankRequest example_rerank_request) (Exact (ModelEgressGrant example_model_grant)) (Exact example_inference_binding)
      parse_order example_inference_state = (s', Inr ([example_projection], rc))" using example_called by blast
  have "m_usage (fst (ns_ledger example_inference_state)) = EMPTY_USAGE" by (simp add: example_inference_state_def)
  with model_charge_is_traced [OF run example_meter_inv example_dumps_raises] run show ?thesis by auto
qed

lemma executed_answer:
  assumes "execute canon dumps h port w request grant egress parse s = (s', Inr (y, rc))"
    and "meter_inv (ns_ledger s)" and "\<And>d. raises_only is_value_error (dumps d)"
  shows "it_outcome_category rc = SUCCEEDED \<and> (\<exists>q raw. faithful_snapshot h request q \<and> parse raw q = Inr y)"
proof -
  have some: "\<exists>z. (Inr (y, rc) :: inference_error + _) = Inr z" by blast
  show ?thesis by (rule execute_called [OF assms disjI2 [OF some]]) blast
qed

text \<open>
  C21. An answer is confined to what was sent. A successful rerank returns the projections of its
  request, each exactly as often as it was sent; a successful selection returns projections at
  pairwise different positions of its request, at most as many as asked for; a successful rewrite
  returns at least one and at most the profile's number of texts, none of them blank. Each result
  carries a receipt of success.
\<close>

theorem model_output_is_confined:
  assumes "meter_inv (ns_ledger s)" and "\<And>d. raises_only is_value_error (dumps d)"
  shows "(rerank canon dumps h port w rr grant egress s = (s1, Inr r1) \<longrightarrow>
      mset (kr_projections r1) = mset (kq_projections rr) \<and> it_outcome_category (kr_receipt r1) = SUCCEEDED)
    \<and> (select_projections canon dumps h port w sr grant egress s = (s2, Inr r2) \<longrightarrow>
      (\<exists>is. distinct is \<and> set is \<subseteq> {..<length (lq_projections sr)} \<and> int (length is) \<le> lq_maximum_items sr
         \<and> lr_projections r2 = map (\<lambda>i. lq_projections sr ! i) is) \<and> it_outcome_category (lr_receipt r2) = SUCCEEDED)
    \<and> (rewrite_query canon dumps h port w wr grant egress s = (s3, Inr r3) \<longrightarrow>
      wr_rewrites r3 \<noteq> [] \<and> int (length (wr_rewrites r3)) \<le> im_maximum_output_items (wq_profile wr)
      \<and> \<not> list_ex blank (wr_rewrites r3) \<and> it_outcome_category (wr_receipt r3) = SUCCEEDED)"
proof (intro conjI impI)
  assume "rerank canon dumps h port w rr grant egress s = (s1, Inr r1)"
  then have run: "execute canon dumps h port w (RerankRequest rr) grant egress parse_order s = (s1, Inr (kr_projections r1, kr_receipt r1))"
    by (auto simp: rerank_def nbnd_eq_Inr)
  note a = executed_answer [OF run assms]
  then obtain q raw where "qs_projections q = kq_projections rr" "parse_order raw q = Inr (kr_projections r1)"
    by (auto simp: faithful_snapshot_def)
  with parse_order_Inr show "mset (kr_projections r1) = mset (kq_projections rr)" by (metis mset_map map_nth)
  show "it_outcome_category (kr_receipt r1) = SUCCEEDED" using a by blast
next
  assume "select_projections canon dumps h port w sr grant egress s = (s2, Inr r2)"
  then have run: "execute canon dumps h port w (SelectRequest sr) grant egress parse_selected s = (s2, Inr (lr_projections r2, lr_receipt r2))"
    by (auto simp: select_projections_def nbnd_eq_Inr)
  note a = executed_answer [OF run assms]
  then obtain q raw where "qs_projections q = lq_projections sr" "qs_maximum_items q = Some (lq_maximum_items sr)"
    "parse_selected raw q = Inr (lr_projections r2)" by (auto simp: faithful_snapshot_def)
  with parse_selected_Inr show "\<exists>is. distinct is \<and> set is \<subseteq> {..<length (lq_projections sr)} \<and> int (length is) \<le> lq_maximum_items sr
      \<and> lr_projections r2 = map (\<lambda>i. lq_projections sr ! i) is" by fastforce
  show "it_outcome_category (lr_receipt r2) = SUCCEEDED" using a by blast
next
  assume "rewrite_query canon dumps h port w wr grant egress s = (s3, Inr r3)"
  then have run: "execute canon dumps h port w (RewriteRequest wr) grant egress parse_rewrites s = (s3, Inr (wr_rewrites r3, wr_receipt r3))"
    by (auto simp: rewrite_query_def nbnd_eq_Inr)
  note a = executed_answer [OF run assms]
  then obtain q raw where "qs_profile q = wq_profile wr" "parse_rewrites raw q = Inr (wr_rewrites r3)"
    by (auto simp: faithful_snapshot_def)
  with parse_rewrites_Inr [of raw q] show "wr_rewrites r3 \<noteq> []"
    "int (length (wr_rewrites r3)) \<le> im_maximum_output_items (wq_profile wr)" "\<not> list_ex blank (wr_rewrites r3)" by simp_all
  show "it_outcome_category (wr_receipt r3) = SUCCEEDED" using a by blast
qed

theorem model_output_is_confined_witness:
  "\<exists>s1 r1. rerank example_canon example_dumps [True] example_inference_port example_inference_world example_rerank_request
      (Exact (ModelEgressGrant example_model_grant)) (Exact example_inference_binding) example_inference_state = (s1, Inr r1)
    \<and> mset (kr_projections r1) = {#example_projection#}"
proof -
  obtain s1 r1 where run: "rerank example_canon example_dumps [True] example_inference_port example_inference_world example_rerank_request
      (Exact (ModelEgressGrant example_model_grant)) (Exact example_inference_binding) example_inference_state = (s1, Inr r1)"
    using example_execution by (auto simp: rerank_def nbnd_def)
  have "kq_projections example_rerank_request = [example_projection]" by (simp add: example_rerank_request_def)
  with conjunct1 [OF model_output_is_confined [OF example_meter_inv example_dumps_raises]] run show ?thesis by fastforce
qed

text \<open>
  C22. A well-formed rerank that is answered in time returns. For a profile registered with the
  port, a request constructed from it, a valid binding and grant, a meter whose tokenizer is the
  profile's and whose budget has room for the most the call can cost, an authority that accepts,
  an observer that records, and a gateway that answers within the timeout and the output limit
  with the JSON text of an order of the projections, the call returns exactly the projections in
  this order, with a receipt of success.
\<close>

theorem answered_rerank_returns:
  assumes "ModelInferencePort_init canon dumps ps = Inr port" "p \<in> set ps"
    and "RerankModelRequest_init canon dumps h p text' xs = Inr request" "kq_payload request = Exact payload"
    and "ModelInferenceEgressBinding_post_init e = Inr e" "require_opaque_grant MODEL_EGRESS_GRANT_PREFIX (PStr v) = Inr v"
    and "ns_ledger s = (m, rs)" "meter_inv (m, rs)" "m_tokenizer m \<noteq> None"
      "require_tokenizer m (im_tokenizer_ref p) (im_tokenizer_profile_digest p) (ib_release_generation e) = Inr ()"
    and "tokenizer_count_bytes payload = Inr n" "int n \<le> im_maximum_input_tokens p"
      "int (length xs) \<le> im_maximum_input_items p"
      "fits (m_budget m) (usage_plus (usage_plus (m_usage m) (m_reserved m)) (maximum_usage p n))"
    and "iw_started_ms w = Inr (PInt t0)" "iw_finished_ms w = Inr (PInt t1)" "t0 \<le> t1" "t1 - t0 \<le> im_timeout_ms p"
    and "\<And>r. iw_redeem w r = Inr (PBool True)" "\<And>es rc. iw_observe w es rc = Inr ()"
      "iw_gateway w payload (im_timeout_ms p) = Finished (Inr (Exact (utf8_surrogatepass (order_answer is))))"
    and "mset is = mset [0..<length xs]" "int (length (order_answer is)) \<le> im_maximum_output_tokens p"
  shows "\<exists>s' rc. rerank canon dumps h port w request (Exact (ModelEgressGrant v)) (Exact e) s
    = (s', Inr \<lparr>kr_projections = map (\<lambda>i. xs ! i) is, kr_receipt = rc\<rparr>) \<and> it_outcome_category rc = SUCCEEDED"
  using answered_rerank [OF assms] by (auto simp: rerank_def nbnd_def)

theorem answered_rerank_returns_witness:
  "\<exists>s' rc. rerank example_canon example_dumps [True] example_inference_port example_inference_world example_rerank_request
      (Exact (ModelEgressGrant example_model_grant)) (Exact example_inference_binding) example_inference_state
    = (s', Inr \<lparr>kr_projections = map (\<lambda>i. [example_projection] ! i) [0], kr_receipt = rc\<rparr>) \<and> it_outcome_category rc = SUCCEEDED"
  by (rule answered_rerank_returns [OF example_port_built _ example_request_built example_call(1-3) prod.collapse [symmetric] _ _ _
        example_call(4), where ?t0.0 = 5 and ?t1.0 = 7]) (use example_meter_inv example_call(5) in \<open>simp_all add: example_values\<close>)

section \<open>The life time in the integrity digest\<close>

lemma ttl_truncated: "ttl_microseconds 249 = 248"
  by code_simp

lemma ttl_exact: "ttl_microseconds 248 = 248"
  by code_simp

definition with_ttl :: "int \<Rightarrow> ModelInferenceProfile \<Rightarrow> ModelInferenceProfile" where
  "with_ttl ttl p = p\<lparr>im_egress_profile := (im_egress_profile p)\<lparr>eg_maximum_ttl := ttl\<rparr>\<rparr>"

text \<open>
  C40. The integrity digest of a profile does not fix the maximum life time of its grants. The
  document behind the digest holds the life time as a truncated product of binary floating-point
  numbers, so a profile with 249 microseconds and the same profile with 248 microseconds have one
  document, and the integrity check answers the same for both, for every serialiser.
\<close>

theorem profile_digest_loses_a_microsecond:
  "profile_document (with_ttl 249 p) = profile_document (with_ttl 248 p)
   \<and> require_profile_integrity canon dumps (with_ttl 249 p) = require_profile_integrity canon dumps (with_ttl 248 p)
   \<and> with_ttl 249 p \<noteq> with_ttl 248 p"
proof -
  have document: "profile_document (with_ttl 249 p) = profile_document (with_ttl 248 p)"
    by (simp add: profile_document_def with_ttl_def Let_def ttl_truncated ttl_exact)
  have valid: "validate_profile_fields canon (with_ttl 249 p) = validate_profile_fields canon (with_ttl 248 p)"
    by (simp add: validate_profile_fields_def ModelEgressProfile_post_init_def with_ttl_def cong: if_cong)
  have digest: "im_integrity_digest (with_ttl ttl p) = im_integrity_digest p"
    and ttl: "eg_maximum_ttl (im_egress_profile (with_ttl ttl p)) = ttl" for ttl
    by (simp_all add: with_ttl_def)
  note document valid
  moreover from digest have "im_integrity_digest (with_ttl 249 p) = im_integrity_digest (with_ttl 248 p)" by simp
  moreover have "with_ttl 249 p \<noteq> with_ttl 248 p"
    using ttl [of 249] ttl [of 248] by auto
  ultimately show ?thesis by (simp add: require_profile_integrity_def profile_integrity_digest_def)
qed

end
