(* ===== verification/Spec2Isabelle.thy ===== *)
theory Spec2Isabelle
  imports Kernel Fragment_Window Release Policy_Epoch Scope_Authority Citation Egress History Delivery_Evidence Inference_Guarantees
begin

text \<open>
  ContextEngine (\<open>src/\<close>) answers requests of agents for organization content. Content is imported and
  published by a supply plane, administered by a control plane and evaluated by a learning plane; at
  run time one entry point, \<open>Runtime.resolve\<close> in \<open>src/engine/runtime/construction.py\<close>, turns a request
  into a \<open>ContextPackage\<close> of authorized Evidence. This development models the runtime,
  \<open>src/engine/runtime/\<close>: the code that decides what a caller may see, and that therefore has to be
  right whatever the index, the database and the other replaceable parts around it do.

  \<^bold>\<open>How a call runs.\<close> The transport authenticates a call and establishes an invocation (actor,
  Organization, policy epoch, scope snapshot, sessions of the current transaction) and a trusted
  delivery context. \<open>resolve\<close> validates both, checks the capability, meets the request's budget with
  the server's, asks an untrusted candidate index for content-free locators, and gives them to the
  \<open>AuthorizationKernel\<close>. The Kernel computes the effective scope from seven trusted operands and the
  request's narrowing, reads the candidates in the actor's transaction, and turns those within the
  scope into projections that live as long as the Kernel scope of the call. One-hop expansion adds
  linked fragments by the same test. Ranking is joined to content after authorization only, a
  selection is packed to the token budget, and a final gate asks for the policy epoch again. The
  package gets locators for its Evidence, its accounting, its digest and, where configured, an
  egress grant, and is persisted before it is returned. Beside this path, signed tickets authorize
  single reads and actions, opaque evidence binds a call to a private delivery, and the
  model-inference port lets a model rewrite a query, reorder or select projections under a grant of
  its own and a reservation on the meter of the call.

  \<^bold>\<open>How the code is represented.\<close> A dataclass is a \<open>record\<close> together with the checks of its
  \<open>__post_init__\<close>, an enum or a closed union a \<open>datatype\<close>, a method or function a definition of the
  same name (without leading underscores; a name that several modules use, like \<open>_DOMAIN\<close>, gets a
  prefix). A computation that may raise returns \<open>'a res\<close>, the class of the exception or the value,
  sequenced by \<open>bnd\<close>; the operations of the Kernel thread its state (\<open>('s, 'a) exec\<close>, sequenced by
  \<open>xbnd\<close>) and keep it when they raise. Scalar arguments that the code tests by exact type are
  \<open>pyval\<close>; strings are lists of code points, so lone surrogates exist; \<open>int\<close> is unbounded, floats
  are IEEE binary64 with correct rounding, datetimes are compared by their instants. The \<open>_active\<close>
  flags of the private lifetime tokens are shared mutable state: they live in \<open>scope_heap\<close>, and a
  token refers to its flag. Python's \<open>is\<close> compares identities that the values carry.

  \<^bold>\<open>What is a parameter.\<close> A call of a port (database, candidate index, epoch
  authority, locator, egress, persistence, delivery evidence, model gateway) is a function argument
  or a field of \<open>runtime_world\<close> or \<open>inference_world\<close>: what the port
  answers at that moment, which may be an exception or a value of the wrong type. So are the clock,
  random references and nonces, the RFC 8785 serialiser (\<open>canon\<close>,
  \<open>dumps\<close>), the token pattern of lexical ranking and the artifact of the tokenizer. No
  theorem assumes that a port is honest unless it says so; a theorem that needs the serialiser to be
  injective says so. SHA-256, HMAC, UTF-8, base64url, JSON text and calendar arithmetic are
  computed. A digest that identifies a value identifies it up to a collision of SHA-256: the
  theorems exhibit the collision.

  \<^bold>\<open>Foundations.\<close>
  \<^item> \<open>Prelude\<close>: exceptions, \<open>res\<close>, the collections \<open>validators\<close> (when a check succeeds) and \<open>raises\<close>
    (what a computation can raise at most), character classes, list lemmas, and the locale
    \<open>atomic_component\<close> of operation sequences that keep an invariant.
  \<^item> \<open>Encoding\<close>: integers as bytes, UTF-8 with \<open>surrogatepass\<close>, length prefixes, hexadecimal text.
    The locale \<open>self_delimiting\<close> says that encoded items can be told apart in a sequence; UTF-8,
    length prefixes, encoded text, hexadecimal bytes, the escapes of structured fields and the
    characters of JSON strings are its instances.
  \<^item> \<open>Sha256\<close>, \<open>Datetime\<close>, \<open>Timedelta\<close>, \<open>Binary64\<close>, \<open>Pyval\<close>: the parts of the standard library the
    code uses, on 32-bit words, on the proleptic Gregorian calendar, and on rationals rounded to
    nearest even.
  \<^item> \<open>Json_Text\<close>: the text that \<open>json.dumps\<close> writes in ASCII and the reader of \<open>json.loads\<close> with its hook
    for pairs. What is written is read back, and visible ASCII is counted by the tokenizer as is.
  \<^item> \<open>Lifetime\<close>: the locale \<open>lifetime\<close> of open and close functions, interpreted for the nine
    kinds of tokens: a closed token is never revived, and no operation on another token affects it.

  \<^bold>\<open>Components.\<close>
  \<^item> \<open>Budget\<close> (\<open>budget.py\<close>): budgets, the meter with its reservations, and interleavings of its locked
    methods. The meter never exceeds its budget.
  \<^item> \<open>Requests\<close> (\<open>contracts.py\<close>, \<open>capabilities.py\<close>), \<open>Scope\<close> (\<open>scope.py\<close>): the request union, the
    capability gate, and the oracle, which computes exactly the intersection of its operands.
  \<^item> \<open>Policy_Epoch\<close>, \<open>Scope_Authority\<close>, \<open>Release\<close>, \<open>Actor\<close> (\<open>policy_epoch.py\<close>, \<open>scope_authority.py\<close>,
    \<open>release_lineage.py\<close>, \<open>actor.py\<close>, \<open>organization.py\<close>, \<open>delivery.py\<close>, \<open>invocation.py\<close>,
    \<open>trusted_inputs.py\<close>): the trusted operands of a call. A validated call has one identity
    throughout.
  \<^item> \<open>Evidence\<close> (\<open>evidence.py\<close>): projections, Evidence and package content with their digests. A
    closed Kernel scope revokes projections, a changed projection is detected, and package content
    mirrors the projections it was built from.
  \<^item> \<open>Candidate_Ranking\<close>, \<open>Authorized_Ranking\<close> (\<open>candidate_ranking.py\<close>, \<open>prekernel_fusion.py\<close>,
    \<open>authorized_ranking.py\<close>): bounded submissions, fusion, the join and the selection. Candidates
    that are not admitted have no influence on the order of those that are.
  \<^item> \<open>Materialized\<close>, \<open>Fragment_Window\<close> (\<open>materialized.py\<close>, \<open>fragment_window.py\<close>): the seam to the
    database. Structured fields are rendered without ambiguity, one-hop candidates are rooted in
    authorized anchors, and a window reader cannot influence what is expanded.
  \<^item> \<open>Kernel\<close> (\<open>construction.py\<close>): gates, AuthorizationKernel and sealed selector. What is projected
    is exactly what the scope admits, independently of ranks; the final gate confirms or empties;
    a failed authorization leaves no scope open; an honest selection is delivered.
  \<^item> \<open>Package\<close>, \<open>Citation\<close>, \<open>Egress\<close>, \<open>Context_Run\<close> (\<open>contracts.py\<close>, \<open>package_digest.py\<close>,
    \<open>src/context_engine_contracts/\<close>, \<open>citation.py\<close>, \<open>egress.py\<close>, \<open>egress_payload.py\<close>,
    \<open>context_run.py\<close>): the package and its digests, durable locators, grants bound to one package,
    and the records of a run.
  \<^item> \<open>Runtime\<close>, \<open>Resolution\<close>, \<open>Concrete_Run\<close>, \<open>History\<close> (\<open>construction.py\<close>): \<open>resolve\<close> in full, the
    lemmas that follow its stages, one complete call on which the theorems are instantiated, and
    sequences of calls as a step relation: package references never repeat.
  \<^item> \<open>Ticket_Signing\<close>, \<open>Ticket_Identity\<close>, \<open>Tickets\<close>, \<open>Ticket_Rejection\<close> (\<open>_ticket_signing.py\<close>,
    \<open>ticket_identity.py\<close>, \<open>context_access_ticket.py\<close>, \<open>action_ticket.py\<close>, \<open>ticket_rejection.py\<close>): the
    locale \<open>ticket_protocol\<close> states what a claims document has to satisfy for minting and verifying
    to be inverse; both protocols are instances. An effect needs a live ticket that names it
    exactly, the two protocols accept no common text, an issued ticket is honoured until it
    expires, and a refusal is always the same exception.
  \<^item> \<open>Delivery_Evidence\<close> (\<open>delivery_evidence.py\<close> and the step of \<open>src/adapters/http/app.py\<close> that
    establishes the delivery context): a private delivery rests on an exact redemption, every
    failure is closed, and issued evidence can be redeemed within its lifetime.
  \<^item> \<open>Model_Inference\<close>, \<open>Inference_Safety\<close>, \<open>Inference_Guarantees\<close> (\<open>model_inference.py\<close>): the port with
    its profiles, requests and receipts, the outcomes of one call stage by stage, and what follows
    for a whole call. A payload leaves only under its own redeemed grant, the meter grows by the
    usage of the receipt, the answer is confined to what was sent, and an answered call returns. The
    effects of a call are the list of redemptions, gateway calls and traced receipts, in order. The
    digest that seals a profile does not tell 248 from 249 microseconds of grant life time.

  The properties that span the components follow below: end-to-end authorization of a delivered
  package, no scope outliving a call that returns, refused capabilities that touch nothing, bounded
  expansion, durable accounting, and the one path on which an exception leaves a scope open.

  \<^bold>\<open>Termination and bounds.\<close> The nested readers of JSON values take fuel of
  twice the length of the text and one more, which is always enough
  (\<open>json_readers_fuel\<close> of \<open>Json_Text\<close>); nothing else does. The loop of the
  one-hop expansion decreases the pages that remain of the configured page limit; the readers of the
  flat documents of tickets decrease the length of the text, because each reader is shown to consume
  input; all other recursion is structural or counts months, bits or characters. Submissions,
  windows, pages and tokens are bounded as in the code: 8192 characters for the text of a ticket,
  300 seconds for its life.

  \<^bold>\<open>Not modelled.\<close>
  \<^item> The gateway behind the model-inference port, and its thread but for the answer before or after the
    deadline.
  \<^item> The control, learning and supply planes, whose effects reach the runtime through ports only.
  \<^item> Persistence: the statements behind the ports are SQL, executed by a database that is not part
    of the repository. Migrations, scripts, evaluation, user interface and application wiring.
  \<^item> Transport: HTTP and MCP frameworks, connectors and parsers, but for the delivery step above.
  \<^item> Python beyond the values that occur: exceptions are known by their class. The \<open>json.loads\<close>
    of tickets is modelled on the texts that can survive the comparison with the canonical text,
    which follows it in the code; the one of model answers on all texts without \<open>NaN\<close> and \<open>Infinity\<close>,
    which the code refuses. Two threads are interleaved by whole locked methods of the meter.
\<close>

section \<open>The entry point\<close>

text \<open>
  C1. End-to-end authorization: whatever candidate index, database port and locator port the call
  runs against, every Evidence of a delivered package names a Resource that is in every trusted
  scope operand of the invocation's snapshot, admitted by the narrowing of the request and owned
  by the actor's Organization, and the epoch authority confirmed the actor's epoch both before the
  authorization and at the final gate. The reported usage fits the effective budget, which is the
  request's narrowing of the server budget, and before the package leaves the runtime the
  persistence port has acknowledged a record of exactly this package digest and these Evidence
  references, with a restricted audit exactly when the package is empty.
\<close>

theorem delivered_package_is_authorized:
  assumes "resolve rt w iv dl rq s = (s', Inr (Delivered r))"
  shows "(\<forall>e \<in> set (cp_evidence (rs_package r)). \<exists>target.
        target |\<in>| es_targets (compute_effective_scope (ts_operands (iv_trusted_scope_snapshot iv)) (request_narrowing rq))
        \<and> st_organization_id target = ua_organization_id (iv_user_actor iv)
        \<and> st_source_ref target = ev_source_ref e \<and> st_resource_ref target = Some (ev_resource_ref e)
        \<and> rw_epoch_prepare w (pv_organization_id (actor_epoch iv)) = Inr (PInt (pv_policy_epoch (actor_epoch iv)))
        \<and> rw_epoch_final w (pv_organization_id (actor_epoch iv)) = Inr (PInt (pv_policy_epoch (actor_epoch iv))))
    \<and> validate_trusted_invocation_and_delivery (ks_scopes s) iv dl = Inr ()
    \<and> budget_gate_intersect (rt_server_budget rt) rq = Inr (rs_effective_budget r)
    \<and> fits (rs_effective_budget r) (cp_budget_usage (rs_package r))
    \<and> (\<exists>run audit. rw_persist w run audit = Inr ()
         \<and> run_accounts_for run audit (rs_package r) (rs_effective_budget r))"
proof -
  from assms have "resolve_available rt w iv dl rq s = (s', Inr (Delivered r))" by (auto dest!: resolve_Inr)
  then obtain receipt budget s1 d ev ledger finalized release as_of where
    adm: "admitted_receipt (ks_scopes s) iv dl rq (rw_epoch_prepare w) receipt"
    and budget: "budget_gate_intersect (rt_server_budget rt) rq = Inr budget"
    and dec: "decided receipt budget (ks_scopes s) s1 d"
    and fin: "select_and_finalize rt w iv d ev s1 = (s', Inr finalized)"
    and del: "deliver rt w (ks_scopes s') iv dl rq release as_of budget ledger finalized = Inr (Delivered r)"
    by (rule resolve_available_Inr) blast
  note del = deliver_Inr [OF del]
  from select_and_finalize_Inr(1) [OF fin dec] obtain sel where
    sel: "select_for_delivery (rt_authority rt) (ks_scopes s1) d ev
      (map_option (map (map_prod id PFloat)) (rt_ranker_weights rt)) = Inr sel"
    "finalize_for_delivery (rt_authority rt) (ks_scopes s1) iv sel (rw_epoch_final w) = Inr finalized" by blast
  have "\<exists>e' \<in> set (pc_evidence (fr_content finalized)). ev_source_ref e' = ev_source_ref e \<and> ev_resource_ref e' = ev_resource_ref e"
    if "e \<in> set (cp_evidence (rs_package r))" for e
    using same_images_member [OF del(4,5) that] .
  then have "\<forall>e \<in> set (cp_evidence (rs_package r)). \<exists>target.
        target |\<in>| es_targets (compute_effective_scope (ts_operands (iv_trusted_scope_snapshot iv)) (request_narrowing rq))
        \<and> st_organization_id target = ua_organization_id (iv_user_actor iv)
        \<and> st_source_ref target = ev_source_ref e \<and> st_resource_ref target = Some (ev_resource_ref e)
        \<and> rw_epoch_prepare w (pv_organization_id (actor_epoch iv)) = Inr (PInt (pv_policy_epoch (actor_epoch iv)))
        \<and> rw_epoch_final w (pv_organization_id (actor_epoch iv)) = Inr (PInt (pv_policy_epoch (actor_epoch iv)))"
    using finalized_in_scope [OF sel(1) dec sel(2)] admitted_receipt_target [OF adm] by fastforce
  with adm budget del(1-3) show ?thesis by (simp add: admitted_receipt_def)
qed

theorem delivered_package_is_authorized_witness:
  "\<exists>org s r e target. resolve (run_runtime org) (run_world org) (run_invocation org) example_delivery run_request run_kernel
      = (s, Inr (Delivered r)) \<and> cp_evidence (rs_package r) = [e]
    \<and> target |\<in>| es_targets (compute_effective_scope (ts_operands (iv_trusted_scope_snapshot (run_invocation org))) None)
    \<and> st_organization_id target = org \<and> st_resource_ref target = Some (ev_resource_ref e)"
proof -
  obtain org where "suitable org" by (rule suitable_exists)
  then obtain s r e where run: "resolve (run_runtime org) (run_world org) (run_invocation org) example_delivery run_request
      run_kernel = (s, Inr (Delivered r))" "cp_evidence (rs_package r) = [e]" by (rule run_resolves)
  have "request_narrowing run_request = None" "ua_organization_id (iv_user_actor (run_invocation org)) = org"
    by (simp_all add: request_narrowing_def run_request_def run_invocation_def run_actor_def)
  with delivered_package_is_authorized [OF run(1)] run(2) obtain target where
    "target |\<in>| es_targets (compute_effective_scope (ts_operands (iv_trusted_scope_snapshot (run_invocation org))) None)"
    "st_organization_id target = org" "st_resource_ref target = Some (ev_resource_ref e)" by auto
  with run show ?thesis
    by (intro exI [of _ org] exI [of _ s] exI [of _ r] exI [of _ e] exI [of _ target] conjI)
qed

text \<open>
  C4. No Kernel scope outlives a call that returns: afterwards exactly the scopes are active that
  were active before, so no projection made during the call can be used again, and the call
  has consumed exactly one set of opaque references.
\<close>

theorem returned_call_leaves_no_open_scope:
  assumes "resolve rt w iv dl rq s = (s', Inr outcome)"
  shows "(scope_active k (ks_scopes s') token \<longleftrightarrow> scope_active k (ks_scopes s) token)
    \<and> ks_sequence s' = Suc (ks_sequence s)"
proof -
  have "(ks_scopes s' = ks_scopes s \<or> ks_scopes s' = ks_scopes s @ [False]) \<and> ks_sequence s' = Suc (ks_sequence s)"
    using resolve_Inr [OF assms]
  proof (elim disjE conjE exE)
    fix as_of
    assume "preflight_unavailable_request (rt_issuer_secret rt) iv dl rq (rt_server_budget rt) (PDatetime as_of)
        (rw_epoch_prepare w) s = (s', Inr ())"
    from preflight_Inr [OF this] show ?thesis by simp
  next
    assume "resolve_available rt w iv dl rq s = (s', Inr outcome)"
    then show ?thesis
    proof (rule resolve_available_Inr)
      fix receipt budget s1 d ev finalized
      assume "decided receipt budget (ks_scopes s) s1 d" "ks_sequence s1 = Suc (ks_sequence s)"
        "select_and_finalize rt w iv d ev s1 = (s', Inr finalized)"
      then show ?thesis using select_and_finalize_Inr(2,3) by metis
    qed
  qed
  then show ?thesis using scopes_closed by blast
qed

theorem returned_call_leaves_no_open_scope_witness:
  "\<exists>org s r. resolve (run_runtime org) (run_world org) (run_invocation org) example_delivery run_request run_kernel
      = (s, Inr (Delivered r)) \<and> length (ks_scopes s) = Suc (length (ks_scopes run_kernel))
    \<and> \<not> scope_active AuthorizationKernelScope (ks_scopes s) (kernel_token (ks_scopes run_kernel)) \<and> ks_sequence s = 1"
proof -
  obtain org where "suitable org" by (rule suitable_exists)
  then obtain s r e where run: "resolve (run_runtime org) (run_world org) (run_invocation org) example_delivery run_request
      run_kernel = (s, Inr (Delivered r))" "ks_scopes s = run_heap @ [False]" by (rule run_resolves)
  have "\<not> scope_active AuthorizationKernelScope (ks_scopes run_kernel) (kernel_token (ks_scopes run_kernel))"
    "ks_scopes run_kernel = run_heap" "ks_sequence run_kernel = 0"
    by (simp_all add: scope_active_def kernel_token_def run_kernel_def)
  with returned_call_leaves_no_open_scope [OF run(1), of AuthorizationKernelScope "kernel_token (ks_scopes run_kernel)"] run
  show ?thesis by (intro exI [of _ org] exI [of _ s] exI [of _ r]) simp
qed

text \<open>
  C9. A request whose capability is not declared reaches nothing: whatever the candidate index, the
  database, the locator, egress and persistence ports are, the outcome is that of the clock and
  the epoch authority alone; no package is delivered and no Kernel scope is opened.
\<close>

theorem unavailable_request_touches_nothing:
  assumes "require_available (required_capability_for_request rq (rt_acquire_capability rt))
      (rt_citation_profile rt \<noteq> None) = Inl e"
    and "rw_clock w' = rw_clock w" "rw_epoch_prepare w' = rw_epoch_prepare w"
  shows "resolve rt w' iv dl rq s = resolve rt w iv dl rq s
    \<and> (\<forall>r. snd (resolve rt w iv dl rq s) \<noteq> Inr (Delivered r))
    \<and> ks_scopes (fst (resolve rt w iv dl rq s)) = ks_scopes s"
proof -
  let ?run = "resolve rt w iv dl rq s"
  from assms have eq: "resolve rt w' iv dl rq s = ?run" by (simp add: resolve_def Let_def)
  have pre: "resolve rt w iv dl rq s = xbnd (lift (bnd (rw_clock w) require_utc)) (\<lambda>as_of.
      xbnd (preflight_unavailable_request (rt_issuer_secret rt) iv dl rq (rt_server_budget rt) (PDatetime as_of)
        (rw_epoch_prepare w)) (\<lambda>_. lift (Inr (if is_open_citation rq then CitationNotAvailable else RequestNotAvailable)))) s"
    using assms(1) by (simp add: resolve_def Let_def)
  have "snd ?run \<noteq> Inr (Delivered r)" for r
    unfolding pre by (auto simp: xbnd_def split: sum.splits prod.splits if_splits)
  moreover have "ks_scopes (fst ?run) = ks_scopes s"
    unfolding pre by (auto simp: xbnd_def split: sum.splits prod.splits dest!: preflight_scopes)
  ultimately show ?thesis using eq by blast
qed

theorem unavailable_request_touches_nothing_witness:
  "\<exists>e. require_available (required_capability_for_request (Continue (ContinuationToken (u ''t'')) None)
      (rt_acquire_capability (run_runtime 1))) False = Inl e
    \<and> resolve (run_runtime 1) ((run_world 1)\<lparr>rw_port := run_port 2\<rparr>) (run_invocation 1) example_delivery
        (Continue (ContinuationToken (u ''t'')) None) run_kernel
      = resolve (run_runtime 1) (run_world 1) (run_invocation 1) example_delivery
        (Continue (ContinuationToken (u ''t'')) None) run_kernel"
proof -
  let ?rq = "Continue (ContinuationToken (u ''t'')) None"
  have un: "require_available (required_capability_for_request ?rq (rt_acquire_capability (run_runtime 1)))
      (rt_citation_profile (run_runtime 1) \<noteq> None) = Inl UnsupportedCapability"
    by (simp add: require_available_def M0_RUNTIME_CAPABILITY_DECLARATION_def run_runtime_def)
  moreover have "rt_citation_profile (run_runtime 1) = None" by (simp add: run_runtime_def)
  ultimately show ?thesis
    using unavailable_request_touches_nothing [OF un, of "(run_world 1)\<lparr>rw_port := run_port 2\<rparr>" "run_world 1"] by auto
qed

text \<open>
  C8. The one-hop expansion is bounded: whatever the pages of the database hold, a call reads at
  most as many of them as the configured page limit, so it ends, and its outcome does not
  depend on any later page.
\<close>

theorem one_hop_pages_are_bounded:
  "resolve rt (w\<lparr>rw_hop_port := \<lambda>i. if int i < rt_one_hop_scanned_page_limit rt then rw_hop_port w i else later i\<rparr>)
     iv dl rq s
   = resolve rt w iv dl rq s"
proof -
  let ?w = "w\<lparr>rw_hop_port := \<lambda>i. if int i < rt_one_hop_scanned_page_limit rt then rw_hop_port w i else later i\<rparr>"
  have loop: "one_hop_loop rt ?w = one_hop_loop rt w" by (intro ext one_hop_loop_reads_bounded) simp
  have "expand_one_hop rt ?w = expand_one_hop rt w"
    by (intro ext) (simp add: expand_one_hop_def loop split: option.split cong: if_cong)
  then have "resolve_acquire rt ?w = resolve_acquire rt w"
    by (intro ext) (simp add: resolve_acquire_def hop_port_unused)
  moreover have "resolve_open_citation rt ?w = resolve_open_citation rt w"
    by (intro ext) (simp add: resolve_open_citation_def hop_port_unused)
  moreover have "deliver rt ?w = deliver rt w"
    by (intro ext) (simp add: deliver_def hop_port_unused cong: if_cong)
  ultimately have "resolve_available rt ?w iv dl rq = resolve_available rt w iv dl rq"
    by (simp add: resolve_available_def hop_port_unused cong: RuntimeRequest.case_cong option.case_cong if_cong)
  then show ?thesis by (simp add: resolve_def Let_def cong: sum.case_cong if_cong)
qed



section \<open>An exception outside of the guarded region\<close>


end
